(* ===== verification/OH_Prelude.thy ===== *)
theory OH_Prelude
  imports Complex_Main "HOL-Library.Sublist"
begin

text \<open>
  Shared vocabulary of the development.  The program is Python, so this theory gives the
  pieces of the language and of its standard library that the modelled code uses: errors
  as values, slices and negative indices, \<^verbatim>\<open>list.insert\<close> and \<^verbatim>\<open>list.index\<close>, the string
  methods, decimal printing and parsing, insertion-ordered dictionaries, and the values
  \<^verbatim>\<open>Any\<close> that events carry.  Integers are unbounded (\<^typ>\<open>int\<close>); a character is a code
  point below 256; a Python \<^verbatim>\<open>float\<close> is an exact rational, so rounding is not modelled.
  The general facts that the component proofs share are declared here.
\<close>

named_theorems obs_simps \<open>class tests of observation and action classes\<close>
named_theorems frame_simps \<open>fields an operation leaves alone\<close>

section \<open>Errors as values\<close>

datatype pyerr =
    ValueError string
  | TypeError string
  | KeyError string
  | AttributeError string
  | IndexError string
  | FileNotFoundError string
  | RuntimeError string
  | AssertionError string
  | LLMMalformedActionError string
  | FunctionCallConversionError string
  | FunctionCallValidationError string
  | FunctionCallNotExistsError string
  | PyException string
  | NotModelled string

type_synonym 'a res = "pyerr + 'a"

fun is_ok :: "'a res \<Rightarrow> bool" where
  "is_ok (Inl _) = False"
| "is_ok (Inr _) = True"

section \<open>Lists: indices, slices, insertion, search\<close>

definition py_clip :: "int \<Rightarrow> int \<Rightarrow> int" where
  \<comment> \<open>a slice bound \<open>i\<close> on a sequence of length \<open>n\<close>, as \<^verbatim>\<open>slice.indices\<close> normalises it\<close>
  "py_clip n i = (if i < 0 then max 0 (n + i) else min i n)"

definition slice :: "'a list \<Rightarrow> int \<Rightarrow> int \<Rightarrow> 'a list" where
  \<comment> \<open>\<^verbatim>\<open>xs[lo:hi]\<close>\<close>
  "slice xs lo hi =
     (let n = int (length xs); l = py_clip n lo; h = py_clip n hi
      in take (nat (h - l)) (drop (nat l) xs))"

definition slice_from :: "'a list \<Rightarrow> int \<Rightarrow> 'a list" where
  \<comment> \<open>\<^verbatim>\<open>xs[lo:]\<close>\<close>
  "slice_from xs lo = drop (nat (py_clip (int (length xs)) lo)) xs"

definition slice_to :: "'a list \<Rightarrow> int \<Rightarrow> 'a list" where
  \<comment> \<open>\<^verbatim>\<open>xs[:hi]\<close>\<close>
  "slice_to xs hi = take (nat (py_clip (int (length xs)) hi)) xs"

definition py_get :: "'a list \<Rightarrow> int \<Rightarrow> 'a option" where
  \<comment> \<open>\<^verbatim>\<open>xs[i]\<close>; \<^const>\<open>None\<close> is IndexError\<close>
  "py_get xs i =
     (let n = int (length xs); j = (if i < 0 then n + i else i)
      in if 0 \<le> j \<and> j < n then Some (xs ! nat j) else None)"

definition py_insert :: "'a list \<Rightarrow> int \<Rightarrow> 'a \<Rightarrow> 'a list" where
  \<comment> \<open>\<^verbatim>\<open>xs.insert(i, x)\<close>\<close>
  "py_insert xs i x = (let k = nat (py_clip (int (length xs)) i) in take k xs @ x # drop k xs)"

fun first_idx :: "('a \<Rightarrow> bool) \<Rightarrow> 'a list \<Rightarrow> nat option" where
  \<comment> \<open>position of the first element that satisfies the test\<close>
  "first_idx P [] = None"
| "first_idx P (x # xs) = (if P x then Some 0 else map_option Suc (first_idx P xs))"

fun range_int :: "int \<Rightarrow> nat \<Rightarrow> int list" where
  \<comment> \<open>\<open>n\<close> consecutive integers from \<open>i\<close>\<close>
  "range_int i 0 = []"
| "range_int i (Suc n) = i # range_int (i + 1) n"

definition py_range :: "int \<Rightarrow> int \<Rightarrow> int list" where
  \<comment> \<open>\<^verbatim>\<open>list(range(a, b))\<close>\<close>
  "py_range a b = range_int a (nat (b - a))"

fun min_list1 :: "int \<Rightarrow> int list \<Rightarrow> int" where
  "min_list1 m [] = m"
| "min_list1 m (x # xs) = min_list1 (min m x) xs"

fun max_list1 :: "int \<Rightarrow> int list \<Rightarrow> int" where
  "max_list1 m [] = m"
| "max_list1 m (x # xs) = max_list1 (max m x) xs"

fun py_min :: "int list \<Rightarrow> int res" where
  \<comment> \<open>\<^verbatim>\<open>min(xs)\<close>\<close>
  "py_min [] = Inl (ValueError ''min() arg is an empty sequence'')"
| "py_min (x # xs) = Inr (min_list1 x xs)"

fun py_max :: "int list \<Rightarrow> int res" where
  "py_max [] = Inl (ValueError ''max() arg is an empty sequence'')"
| "py_max (x # xs) = Inr (max_list1 x xs)"

section \<open>Strings\<close>

definition startswith :: "string \<Rightarrow> string \<Rightarrow> bool" where
  "startswith s p \<longleftrightarrow> take (length p) s = p"

definition endswith :: "string \<Rightarrow> string \<Rightarrow> bool" where
  "endswith s p \<longleftrightarrow> length p \<le> length s \<and> drop (length s - length p) s = p"

fun contains :: "string \<Rightarrow> string \<Rightarrow> bool" where
  \<comment> \<open>\<^verbatim>\<open>sub in s\<close>\<close>
  "contains sub [] \<longleftrightarrow> sub = []"
| "contains sub (c # cs) \<longleftrightarrow> startswith (c # cs) sub \<or> contains sub cs"

fun split_on :: "char \<Rightarrow> string \<Rightarrow> string list" where
  \<comment> \<open>\<^verbatim>\<open>s.split(c)\<close> for a one-character separator\<close>
  "split_on c [] = [[]]"
| "split_on c (x # xs) =
     (if x = c then [] # split_on c xs
      else (case split_on c xs of [] \<Rightarrow> [[x]] | l # ls \<Rightarrow> (x # l) # ls))"

definition is_space :: "char \<Rightarrow> bool" where
  "is_space c \<longleftrightarrow> (let n = (of_char c :: nat) in
     (9 \<le> n \<and> n \<le> 13) \<or> (28 \<le> n \<and> n \<le> 32) \<or> n = 133 \<or> n = 160)"

definition strip :: "string \<Rightarrow> string" where
  "strip s = rev (dropWhile is_space (rev (dropWhile is_space s)))"

definition lower_char :: "char \<Rightarrow> char" where
  "lower_char c = (let n = (of_char c :: nat) in
     if (65 \<le> n \<and> n \<le> 90) \<or> (192 \<le> n \<and> n \<le> 222 \<and> n \<noteq> 215) then char_of (n + 32) else c)"

definition lower :: "string \<Rightarrow> string" where
  "lower s = map lower_char s"

definition removesuffix :: "string \<Rightarrow> string \<Rightarrow> string" where
  "removesuffix s suf =
     (if suf \<noteq> [] \<and> endswith s suf then take (length s - length suf) s else s)"

definition removeprefix :: "string \<Rightarrow> string \<Rightarrow> string" where
  "removeprefix s p = (if startswith s p then drop (length p) s else s)"

function replace_ne :: "string \<Rightarrow> string \<Rightarrow> string \<Rightarrow> string" where
  \<comment> \<open>non-overlapping replacement from the left, for a non-empty pattern \<open>old\<close>\<close>
  "replace_ne old new s =
     (case s of [] \<Rightarrow> []
      | c # cs \<Rightarrow> (if old \<noteq> [] \<and> startswith s old
                   then new @ replace_ne old new (drop (length old) s)
                   else c # replace_ne old new cs))"
  by pat_completeness auto
termination
  by (relation "measure (\<lambda>(old, new, s). length s)") auto

declare replace_ne.simps [simp del]

fun intersperse_all :: "string \<Rightarrow> string \<Rightarrow> string" where
  "intersperse_all new [] = new"
| "intersperse_all new (c # cs) = new @ c # intersperse_all new cs"

definition replace :: "string \<Rightarrow> string \<Rightarrow> string \<Rightarrow> string" where
  \<comment> \<open>\<^verbatim>\<open>s.replace(old, new)\<close>; an empty pattern matches at every position\<close>
  "replace s old new = (if old = [] then intersperse_all new s else replace_ne old new s)"

fun join :: "string \<Rightarrow> string list \<Rightarrow> string" where
  "join sep [] = []"
| "join sep [x] = x"
| "join sep (x # y # ys) = x @ sep @ join sep (y # ys)"

subsection \<open>Decimal numbers\<close>

definition digit_char :: "nat \<Rightarrow> char" where
  "digit_char d = char_of (48 + d)"

fun str_of_nat :: "nat \<Rightarrow> string" where
  "str_of_nat n = (if n < 10 then [digit_char n] else str_of_nat (n div 10) @ [digit_char (n mod 10)])"

declare str_of_nat.simps [simp del]

definition str_of_int :: "int \<Rightarrow> string" where
  "str_of_int i = (if i < 0 then CHR ''-'' # str_of_nat (nat (- i)) else str_of_nat (nat i))"

definition is_digit :: "char \<Rightarrow> bool" where
  "is_digit c \<longleftrightarrow> (let n = (of_char c :: nat) in 48 \<le> n \<and> n \<le> 57)"

definition digit_val :: "char \<Rightarrow> nat" where
  "digit_val c = (of_char c :: nat) - 48"

fun nat_of_digits :: "nat \<Rightarrow> string \<Rightarrow> nat" where
  "nat_of_digits acc [] = acc"
| "nat_of_digits acc (c # cs) = nat_of_digits (10 * acc + digit_val c) cs"

fun digits_ok :: "bool \<Rightarrow> string \<Rightarrow> bool" where
  \<comment> \<open>digits with single underscores between them; the flag says that the last one was a digit\<close>
  "digits_ok prev [] \<longleftrightarrow> prev"
| "digits_ok prev (c # cs) \<longleftrightarrow>
     (if is_digit c then digits_ok True cs
      else if c = CHR ''_'' \<and> prev then (cs \<noteq> [] \<and> is_digit (hd cs) \<and> digits_ok False cs)
      else False)"

definition py_int :: "string \<Rightarrow> int option" where
  \<comment> \<open>\<^verbatim>\<open>int(s)\<close>; \<^const>\<open>None\<close> is ValueError\<close>
  "py_int s =
     (let t = strip s;
          neg = (t \<noteq> [] \<and> hd t = CHR ''-'');
          ds = (if t \<noteq> [] \<and> (hd t = CHR ''-'' \<or> hd t = CHR ''+'') then tl t else t)
      in if digits_ok False ds
         then (let n = int (nat_of_digits 0 (filter is_digit ds)) in Some (if neg then - n else n))
         else None)"

section \<open>Dictionaries in insertion order\<close>

type_synonym ('k, 'v) dict = "('k \<times> 'v) list"

fun dict_set :: "'k \<Rightarrow> 'v \<Rightarrow> ('k, 'v) dict \<Rightarrow> ('k, 'v) dict" where
  \<comment> \<open>\<^verbatim>\<open>d[k] = v\<close>\<close>
  "dict_set k v [] = [(k, v)]"
| "dict_set k v ((k', v') # d) = (if k' = k then (k, v) # d else (k', v') # dict_set k v d)"

definition dict_del :: "'k \<Rightarrow> ('k, 'v) dict \<Rightarrow> ('k, 'v) dict" where
  \<comment> \<open>\<^verbatim>\<open>d.pop(k, None)\<close>\<close>
  "dict_del k d = filter (\<lambda>p. fst p \<noteq> k) d"

definition dict_has :: "'k \<Rightarrow> ('k, 'v) dict \<Rightarrow> bool" where
  "dict_has k d \<longleftrightarrow> map_of d k \<noteq> None"

fun dict_update :: "('k, 'v) dict \<Rightarrow> ('k, 'v) dict \<Rightarrow> ('k, 'v) dict" where
  \<comment> \<open>\<^verbatim>\<open>d.update(e)\<close>\<close>
  "dict_update d [] = d"
| "dict_update d ((k, v) # e) = dict_update (dict_set k v d) e"

section \<open>Values of type Any\<close>

datatype pyval =
    PNone
  | PBool bool
  | PInt int
  | PFloat rat
  | PStr string
  | PList "pyval list"
  | PDict "(string \<times> pyval) list"


section \<open>General facts\<close>

subsection \<open>Slices\<close>

lemma slice_to_nonneg [simp]: "0 \<le> k \<Longrightarrow> slice_to xs k = take (nat k) xs"
  by (cases "k \<le> int (length xs)") (auto simp: slice_to_def py_clip_def min_def nat_le_iff)

lemma slice_from_nonneg [simp]: "0 \<le> k \<Longrightarrow> slice_from xs k = drop (nat k) xs"
  by (cases "k \<le> int (length xs)") (auto simp: slice_from_def py_clip_def min_def nat_le_iff)

lemma slice_from_neg:
  assumes "0 < k" shows "slice_from xs (- k) = drop (length xs - nat k) xs"
proof -
  have "nat (max 0 (int (length xs) - k)) = length xs - nat k" using assms by auto
  then show ?thesis using assms by (simp add: slice_from_def py_clip_def)
qed

lemma slice_nonneg:
  assumes "0 \<le> lo" "0 \<le> hi"
  shows "slice xs lo hi = take (nat hi - nat lo) (drop (nat lo) xs)"
proof (cases "lo \<le> int (length xs)")
  case True
  then show ?thesis using assms
    by (auto simp: slice_def py_clip_def Let_def min_def nat_diff_distrib')
next
  case False
  then show ?thesis using assms by (auto simp: slice_def py_clip_def Let_def min_def)
qed

lemma slice_to_neg:
  assumes "0 < k" shows "slice xs 0 (- k) = take (length xs - nat k) xs"
proof -
  have "nat (max 0 (int (length xs) - k)) = length xs - nat k" using assms by auto
  then show ?thesis using assms by (simp add: slice_def py_clip_def Let_def)
qed

lemma slice_neg_hi:
  assumes "0 \<le> lo" "0 < k"
  shows "slice xs lo (- k) = take (length xs - nat k - nat lo) (drop (nat lo) xs)"
proof -
  let ?n = "int (length xs)"
  have h: "max 0 (?n - k) - min lo ?n \<le> int (length xs - nat k - nat lo)
           \<or> drop (nat lo) xs = []" using assms by auto
  have "nat (max 0 (?n - k) - min lo ?n) = length xs - nat k - nat lo
        \<or> nat lo \<ge> length xs" using assms by auto
  then show ?thesis using assms by (auto simp: slice_def py_clip_def Let_def min_def)
qed

lemma set_slice: "set (slice xs lo hi) \<subseteq> set xs"
  unfolding slice_def Let_def by (meson in_set_dropD in_set_takeD subsetI)

lemma set_slice_from: "set (slice_from xs lo) \<subseteq> set xs"
  unfolding slice_from_def by (rule set_drop_subset)

lemma set_slice_to: "set (slice_to xs hi) \<subseteq> set xs"
  unfolding slice_to_def by (rule set_take_subset)

lemma length_slice_from_neg:
  "0 < k \<Longrightarrow> length (slice_from xs (- k)) = min (nat k) (length xs)"
  by (simp add: slice_from_neg)

lemma py_get_nonneg [simp]:
  "0 \<le> i \<Longrightarrow> py_get xs i = (if nat i < length xs then Some (xs ! nat i) else None)"
  by (auto simp: py_get_def Let_def nat_less_iff)

lemma py_get_neg:
  "0 < k \<Longrightarrow> py_get xs (- k)
     = (if nat k \<le> length xs then Some (xs ! (length xs - nat k)) else None)"
  by (auto simp: py_get_def Let_def nat_le_iff nat_diff_distrib)

lemma py_get_in_set: "py_get xs i = Some x \<Longrightarrow> x \<in> set xs"
  by (auto simp: py_get_def Let_def nat_less_iff split: if_splits)

lemma mset_insert_set [simp]: "set (py_insert xs i x) = insert x (set xs)"
  by (simp add: py_insert_def Let_def) (metis append_take_drop_id set_append)

lemma length_py_insert [simp]: "length (py_insert xs i x) = Suc (length xs)"
  by (simp add: py_insert_def Let_def)

lemma filter_py_insert:
  "\<not> P x \<Longrightarrow> filter P (py_insert xs i x) = filter P xs"
  by (simp add: py_insert_def Let_def) (metis append_take_drop_id filter_append)

subsection \<open>Search\<close>

lemma first_idx_Some_iff:
  "first_idx P xs = Some i \<longleftrightarrow> i < length xs \<and> P (xs ! i) \<and> (\<forall>j<i. \<not> P (xs ! j))"
proof (induction xs arbitrary: i)
  case Nil
  then show ?case by simp
next
  case (Cons x xs)
  show ?case
  proof (cases i)
    case 0
    then show ?thesis by auto
  next
    case (Suc k)
    then show ?thesis using Cons.IH[of k]
      by (auto simp: less_Suc_eq_0_disj)
  qed
qed

lemma first_idx_None_iff: "first_idx P xs = None \<longleftrightarrow> (\<forall>x\<in>set xs. \<not> P x)"
  by (induction xs) auto

lemma first_idx_find: "map_option ((!) xs) (first_idx P xs) = find P xs"
  by (induction xs) (auto simp: option.map_comp comp_def)

lemma range_int_conv: "range_int i n = map (\<lambda>k. i + int k) [0..<n]"
proof (induction n arbitrary: i)
  case 0
  then show ?case by simp
next
  case (Suc n)
  have "map (\<lambda>k. i + int k) [0..<Suc n] = i # map (\<lambda>k. i + int (Suc k)) [0..<n]"
    by (simp only: map_upt_Suc) (simp add: comp_def)
  then show ?case using Suc by (simp add: add.assoc)
qed

lemma set_py_range [simp]: "set (py_range a b) = {a..<b}"
proof -
  have "set (py_range a b) = (\<lambda>k. a + int k) ` {0..<nat (b - a)}"
    by (simp add: py_range_def range_int_conv)
  also have "\<dots> = {a..<b}"
  proof (intro equalityI subsetI)
    fix x assume "x \<in> {a..<b}"
    then have "x = a + int (nat (x - a))" "nat (x - a) \<in> {0..<nat (b - a)}" by auto
    then show "x \<in> (\<lambda>k. a + int k) ` {0..<nat (b - a)}" by (rule image_eqI)
  qed auto
  finally show ?thesis .
qed

lemma length_py_range [simp]: "length (py_range a b) = nat (b - a)"
  by (simp add: py_range_def range_int_conv)

lemma nth_py_range: "i < nat (b - a) \<Longrightarrow> py_range a b ! i = a + int i"
  by (simp add: py_range_def range_int_conv)

lemma distinct_py_range [simp]: "distinct (py_range a b)"
  by (simp add: py_range_def range_int_conv distinct_map inj_on_def)

lemma min_list1_le: "min_list1 m xs \<le> m \<and> (\<forall>x\<in>set xs. min_list1 m xs \<le> x)"
  by (induction xs arbitrary: m) (auto, (meson min.cobounded1 min.cobounded2 order_trans)+)

lemma min_list1_in: "min_list1 m xs \<in> insert m (set xs)"
proof (induction xs arbitrary: m)
  case (Cons x xs)
  then show ?case using Cons[of "min m x"] by (auto simp: min_def split: if_splits)
qed simp

lemma max_list1_ge: "m \<le> max_list1 m xs \<and> (\<forall>x\<in>set xs. x \<le> max_list1 m xs)"
  by (induction xs arbitrary: m) (auto, (meson max.cobounded1 max.cobounded2 order_trans)+)

lemma max_list1_in: "max_list1 m xs \<in> insert m (set xs)"
proof (induction xs arbitrary: m)
  case (Cons x xs)
  then show ?case using Cons[of "max m x"] by (auto simp: max_def split: if_splits)
qed simp

lemma py_min_Inr: "py_min xs = Inr m \<Longrightarrow> m \<in> set xs \<and> (\<forall>x\<in>set xs. m \<le> x)"
  using min_list1_le min_list1_in by (cases xs) fastforce+

lemma py_max_Inr: "py_max xs = Inr m \<Longrightarrow> m \<in> set xs \<and> (\<forall>x\<in>set xs. x \<le> m)"
  using max_list1_ge max_list1_in by (cases xs) fastforce+

lemma py_min_eq: "finite A \<Longrightarrow> set xs = A \<Longrightarrow> A \<noteq> {} \<Longrightarrow> py_min xs = Inr (Min A)"
  by (cases xs)
    (use min_list1_le min_list1_in in \<open>fastforce intro!: Min_eqI[symmetric]\<close>)+

lemma py_max_eq: "finite A \<Longrightarrow> set xs = A \<Longrightarrow> A \<noteq> {} \<Longrightarrow> py_max xs = Inr (Max A)"
  by (cases xs)
    (use max_list1_ge max_list1_in in \<open>fastforce intro!: Max_eqI[symmetric]\<close>)+

lemma py_min_Inl: "py_min xs = Inl e \<longleftrightarrow> xs = [] \<and> e = ValueError ''min() arg is an empty sequence''"
  by (cases xs) auto

subsection \<open>Dictionaries\<close>

lemma map_of_dict_set [simp]: "map_of (dict_set k v d) = (map_of d)(k \<mapsto> v)"
  by (induction d) (auto simp: fun_eq_iff)

lemma map_of_dict_del [simp]: "map_of (dict_del k d) = (map_of d)(k := None)"
  by (induction d) (auto simp: dict_del_def fun_eq_iff)

lemma set_fst_dict_set [simp]: "set (map fst (dict_set k v d)) = insert k (set (map fst d))"
  by (induction k v d rule: dict_set.induct) (simp_all add: insert_commute)

lemma distinct_dict_set [simp]:
  "distinct (map fst d) \<Longrightarrow> distinct (map fst (dict_set k v d))"
proof (induction k v d rule: dict_set.induct)
  case (2 k v k' v' d)
  then show ?case
    using set_fst_dict_set[of k v d] by (auto simp del: set_fst_dict_set)
qed simp

lemma map_of_dict_update [simp]: "map_of (dict_update d e) k =
    (case map_of (rev e) k of None \<Rightarrow> map_of d k | Some v \<Rightarrow> Some v)"
  by (induction d e rule: dict_update.induct)
    (auto simp: map_add_def split: option.splits)

lemma map_of_filter_key: "map_of (filter (\<lambda>p. P (fst p)) d) k = (if P k then map_of d k else None)"
  by (induction d) auto

lemma absent_map_of: "k \<notin> set (map fst d) \<longleftrightarrow> map_of d k = None"
  by (induction d) auto

subsection \<open>Decimal numbers and separators\<close>

lemma digit_char_props:
  assumes "d < 10"
  shows "is_digit (digit_char d)" "digit_val (digit_char d) = d" "\<not> is_space (digit_char d)"
    "digit_char d \<noteq> CHR ''-''" "digit_char d \<noteq> CHR ''+''" "digit_char d \<noteq> CHR ''/''" "digit_char d \<noteq> CHR ''.''"
proof -
  have "list_all (\<lambda>d. is_digit (digit_char d) \<and> digit_val (digit_char d) = d \<and> \<not> is_space (digit_char d) \<and>
    digit_char d \<noteq> CHR ''-'' \<and> digit_char d \<noteq> CHR ''+'' \<and> digit_char d \<noteq> CHR ''/'' \<and> digit_char d \<noteq> CHR ''.'') [0..<10]"
    by code_simp
  then show "is_digit (digit_char d)" "digit_val (digit_char d) = d" "\<not> is_space (digit_char d)"
    "digit_char d \<noteq> CHR ''-''" "digit_char d \<noteq> CHR ''+''" "digit_char d \<noteq> CHR ''/''" "digit_char d \<noteq> CHR ''.''"
    using assms by (auto simp: list_all_iff)
qed

lemma str_of_nat_digits: "c \<in> set (str_of_nat n) \<Longrightarrow> \<exists>d<10. c = digit_char d"
proof (induction n rule: str_of_nat.induct)
  case (1 n)
  have m: "\<exists>d<10. digit_char (n mod 10) = digit_char d" by (intro exI[of _ "n mod 10"]) simp
  show ?case
  proof (cases "n < 10")
    case False
    then have "c \<in> set (str_of_nat (n div 10)) \<or> c = digit_char (n mod 10)"
      using 1(2) str_of_nat.simps[of n] by auto
    then show ?thesis using 1(1)[OF False] m by blast
  qed (use 1(2) str_of_nat.simps[of n] in auto)
qed

lemma str_of_nat_nonempty [simp]: "str_of_nat n \<noteq> []"
  by (simp add: str_of_nat.simps[of n])

lemma nat_of_digits_snoc: "nat_of_digits acc (s @ [c]) = 10 * nat_of_digits acc s + digit_val c"
  by (induction s arbitrary: acc) auto

lemma nat_of_str: "nat_of_digits 0 (str_of_nat n) = n"
proof (induction n rule: str_of_nat.induct)
  case (1 n)
  then show ?case
    by (cases "n < 10") (simp_all add: str_of_nat.simps[of n] nat_of_digits_snoc digit_char_props)
qed

lemma digits_ok_all: "\<forall>c\<in>set s. is_digit c \<Longrightarrow> digits_ok b s \<longleftrightarrow> s \<noteq> [] \<or> b"
  by (induction b s rule: digits_ok.induct) auto

lemma strip_id: "s \<noteq> [] \<Longrightarrow> \<not> is_space (hd s) \<Longrightarrow> \<not> is_space (last s) \<Longrightarrow> strip s = s"
proof -
  assume a: "s \<noteq> []" "\<not> is_space (hd s)" "\<not> is_space (last s)"
  then have "dropWhile is_space s = s" by (cases s) auto
  moreover have "dropWhile is_space (rev s) = rev s" using a by (cases s rule: rev_cases) auto
  ultimately show ?thesis by (simp add: strip_def)
qed

lemma str_of_nat_ends: "is_digit (hd (str_of_nat n))" "is_digit (last (str_of_nat n))"
  "\<not> is_space (hd (str_of_nat n))" "\<not> is_space (last (str_of_nat n))"
  "hd (str_of_nat n) \<noteq> CHR ''-''" "hd (str_of_nat n) \<noteq> CHR ''+''"
proof -
  obtain d where "d < 10" "hd (str_of_nat n) = digit_char d" using str_of_nat_digits[OF hd_in_set] by auto
  then show "is_digit (hd (str_of_nat n))" "\<not> is_space (hd (str_of_nat n))"
    "hd (str_of_nat n) \<noteq> CHR ''-''" "hd (str_of_nat n) \<noteq> CHR ''+''" by (auto simp: digit_char_props)
  obtain d where "d < 10" "last (str_of_nat n) = digit_char d" using str_of_nat_digits[OF last_in_set] by auto
  then show "is_digit (last (str_of_nat n))" "\<not> is_space (last (str_of_nat n))" by (auto simp: digit_char_props)
qed

lemma py_int_str_of_int [simp]: "py_int (str_of_int i) = Some i"
proof -
  have all: "\<forall>c\<in>set (str_of_nat n). is_digit c" for n
    using str_of_nat_digits digit_char_props(1) by blast
  have f: "filter is_digit (str_of_nat n) = str_of_nat n" for n using all by simp
  show ?thesis
  proof (cases "i < 0")
    case True
    have "\<not> is_space (CHR ''-'')" by (simp add: is_space_def)
    then have "strip (str_of_int i) = str_of_int i"
      using True str_of_nat_ends(4) by (intro strip_id) (auto simp: str_of_int_def)
    then show ?thesis using True all f by (simp add: py_int_def str_of_int_def Let_def digits_ok_all nat_of_str)
  next
    case False
    have "strip (str_of_int i) = str_of_int i"
      using False str_of_nat_ends by (intro strip_id) (auto simp: str_of_int_def)
    then show ?thesis using False all f str_of_nat_ends[of "nat i"]
      by (simp add: py_int_def str_of_int_def Let_def digits_ok_all nat_of_str)
  qed
qed

lemma str_of_int_inject [simp]: "str_of_int i = str_of_int j \<longleftrightarrow> i = j"
  by (metis py_int_str_of_int option.inject)

lemma str_of_int_chars:
  "c \<in> set (str_of_int i) \<Longrightarrow> c \<noteq> CHR ''/'' \<and> c \<noteq> CHR ''.''"
proof -
  have n: "c \<in> set (str_of_nat n) \<Longrightarrow> c \<noteq> CHR ''/'' \<and> c \<noteq> CHR ''.''" for n
    using str_of_nat_digits[of c n] digit_char_props(6,7) by metis
  show "c \<in> set (str_of_int i) \<Longrightarrow> c \<noteq> CHR ''/'' \<and> c \<noteq> CHR ''.''"
    using n by (auto simp: str_of_int_def split: if_splits)
qed

lemma split_on_nonempty [simp]: "split_on c s \<noteq> []"
  by (induction c s rule: split_on.induct) (auto split: list.splits)

lemma split_on_append: "split_on c (xs @ c # ys) = split_on c xs @ split_on c ys"
proof (induction c xs rule: split_on.induct)
  case (2 c x xs)
  then show ?case by (auto split: list.splits)
qed simp

lemma split_on_single: "c \<notin> set s \<Longrightarrow> split_on c s = [s]"
  by (induction c s rule: split_on.induct) (auto split: list.splits)

lemma last_split_on: "c \<notin> set ys \<Longrightarrow> last (split_on c (xs @ c # ys)) = ys"
  by (simp add: split_on_append split_on_single)

lemma startswith_append [simp]: "startswith (p @ s) p"
  by (simp add: startswith_def)

lemma startswith_iff: "startswith s p \<longleftrightarrow> (\<exists>t. s = p @ t)"
  by (auto simp: startswith_def) (metis append_take_drop_id)

lemma contains_iff: "contains v s \<longleftrightarrow> (\<exists>a b. s = a @ v @ b)"
proof (induction s)
  case (Cons c cs)
  have "(\<exists>a b. c # cs = a @ v @ b) \<longleftrightarrow> (\<exists>b. c # cs = v @ b) \<or> (\<exists>a b. cs = a @ v @ b)"
    by (metis append_Cons append_Nil list.sel(3) neq_Nil_conv)
  then show ?case using Cons by (simp add: startswith_iff)
qed simp

lemma contains_break:
  assumes "c \<notin> set v" "contains v (xs @ c # ys)" shows "contains v xs \<or> contains v ys"
proof -
  obtain a b where ab: "xs @ c # ys = a @ v @ b" using assms(2) by (auto simp: contains_iff)
  then consider u where "xs = a @ u" "u @ c # ys = v @ b" | u where "a = xs @ u" "c # ys = u @ v @ b"
    by (auto simp: append_eq_append_conv2)
  then show ?thesis
  proof cases
    case 1
    then consider w where "u = v @ w" | w where "v = u @ w" "c # ys = w @ b" by (auto simp: append_eq_append_conv2)
    then show ?thesis
    proof cases
      case 1
      then show ?thesis using \<open>xs = a @ u\<close> by (auto simp: contains_iff)
    next
      case 2
      then have "w = []" using assms(1) by (cases w) auto
      then have "xs = a @ v @ []" using 2 \<open>xs = a @ u\<close> by simp
      then show ?thesis unfolding contains_iff by blast
    qed
  next
    case 2
    then show ?thesis
    proof (cases u)
      case Nil
      then have "v = []" using 2 assms(1) by (cases v) auto
      then show ?thesis unfolding contains_iff by (metis append_Nil)
    next
      case (Cons x w)
      then show ?thesis using 2 by (auto simp: contains_iff)
    qed
  qed
qed

lemma contains_mono: "contains v s \<Longrightarrow> contains v (a @ s @ b)"
  by (auto simp: contains_iff) (metis append_assoc)

end
