(* ===== verification/Metrics_Model.thy ===== *)
theory Metrics_Model
  imports OH_Prelude
begin

text \<open>
  Cost, latency and token accounting (\<^verbatim>\<open>openhands/llm/metrics.py\<close>).  The clock read by
  \<^verbatim>\<open>Cost\<close>'s default timestamp is an argument.  A method that raises before it changes
  anything returns the error; the others return the new record.
\<close>

section \<open>The records\<close>

record cost =
  cost_model :: string
  cost_cost :: rat
  cost_timestamp :: rat

record response_latency =
  lat_model :: string
  lat_latency :: rat
  lat_response_id :: string

record token_usage =
  tu_model :: string
  prompt_tokens :: int
  completion_tokens :: int
  cache_read_tokens :: int
  cache_write_tokens :: int
  context_window :: int
  per_turn_token :: int
  tu_response_id :: string

record metrics =
  accumulated_cost :: rat
  max_budget_per_task :: "rat option"
  costs :: "cost list"
  response_latencies :: "response_latency list"
  model_name :: string
  token_usages :: "token_usage list"
  accumulated_token_usage :: token_usage

definition usage_add :: "token_usage \<Rightarrow> token_usage \<Rightarrow> token_usage" where
  \<comment> \<open>\<^verbatim>\<open>TokenUsage.__add__\<close>\<close>
  "usage_add a b =
     \<lparr>tu_model = tu_model a,
      prompt_tokens = prompt_tokens a + prompt_tokens b,
      completion_tokens = completion_tokens a + completion_tokens b,
      cache_read_tokens = cache_read_tokens a + cache_read_tokens b,
      cache_write_tokens = cache_write_tokens a + cache_write_tokens b,
      context_window = max (context_window a) (context_window b),
      per_turn_token = per_turn_token b,
      tu_response_id = tu_response_id a\<rparr>"

definition empty_usage :: "string \<Rightarrow> token_usage" where
  "empty_usage name =
     \<lparr>tu_model = name, prompt_tokens = 0, completion_tokens = 0, cache_read_tokens = 0,
      cache_write_tokens = 0, context_window = 0, per_turn_token = 0, tu_response_id = []\<rparr>"

definition metrics_init :: "string \<Rightarrow> metrics" where
  "metrics_init name =
     \<lparr>accumulated_cost = 0, max_budget_per_task = None, costs = [], response_latencies = [],
      model_name = name, token_usages = [], accumulated_token_usage = empty_usage name\<rparr>"

section \<open>Operations\<close>

definition set_accumulated_cost :: "rat \<Rightarrow> metrics \<Rightarrow> metrics res" where
  "set_accumulated_cost v m =
     (if v < 0 then Inl (ValueError ''Total cost cannot be negative.'')
      else Inr (m\<lparr>accumulated_cost := v\<rparr>))"

definition add_cost :: "rat \<Rightarrow> rat \<Rightarrow> metrics \<Rightarrow> metrics res" where
  \<comment> \<open>the first argument is the time the cost is recorded at\<close>
  "add_cost now v m =
     (if v < 0 then Inl (ValueError ''Added cost cannot be negative.'')
      else Inr (m\<lparr>accumulated_cost := accumulated_cost m + v,
                  costs := costs m @ [\<lparr>cost_model = model_name m, cost_cost = v,
                                       cost_timestamp = now\<rparr>]\<rparr>))"

definition add_response_latency :: "rat \<Rightarrow> string \<Rightarrow> metrics \<Rightarrow> metrics" where
  "add_response_latency v rid m =
     m\<lparr>response_latencies := response_latencies m @
        [\<lparr>lat_model = model_name m, lat_latency = max 0 v, lat_response_id = rid\<rparr>]\<rparr>"

definition add_token_usage ::
  "int \<Rightarrow> int \<Rightarrow> int \<Rightarrow> int \<Rightarrow> int \<Rightarrow> string \<Rightarrow> metrics \<Rightarrow> metrics" where
  "add_token_usage p c r w win rid m =
     (let usage = \<lparr>tu_model = model_name m, prompt_tokens = p, completion_tokens = c,
                   cache_read_tokens = r, cache_write_tokens = w, context_window = win,
                   per_turn_token = p + c, tu_response_id = rid\<rparr>
      in m\<lparr>token_usages := token_usages m @ [usage],
           accumulated_token_usage :=
             usage_add (accumulated_token_usage m) (usage\<lparr>tu_response_id := []\<rparr>)\<rparr>)"

definition merge :: "metrics \<Rightarrow> metrics \<Rightarrow> metrics" where
  \<comment> \<open>\<^verbatim>\<open>self.merge(other)\<close>\<close>
  "merge m other =
     m\<lparr>accumulated_cost := accumulated_cost m + accumulated_cost other,
       max_budget_per_task :=
         (case max_budget_per_task m of None \<Rightarrow> max_budget_per_task other | Some b \<Rightarrow> Some b),
       costs := costs m @ costs other,
       token_usages := token_usages m @ token_usages other,
       response_latencies := response_latencies m @ response_latencies other,
       accumulated_token_usage :=
         usage_add (accumulated_token_usage m) (accumulated_token_usage other)\<rparr>"

definition usage_dump :: "token_usage \<Rightarrow> pyval" where
  "usage_dump u = PDict
     [(''model'', PStr (tu_model u)), (''prompt_tokens'', PInt (prompt_tokens u)),
      (''completion_tokens'', PInt (completion_tokens u)),
      (''cache_read_tokens'', PInt (cache_read_tokens u)),
      (''cache_write_tokens'', PInt (cache_write_tokens u)),
      (''context_window'', PInt (context_window u)),
      (''per_turn_token'', PInt (per_turn_token u)),
      (''response_id'', PStr (tu_response_id u))]"

definition cost_dump :: "cost \<Rightarrow> pyval" where
  "cost_dump c = PDict
     [(''model'', PStr (cost_model c)), (''cost'', PFloat (cost_cost c)),
      (''timestamp'', PFloat (cost_timestamp c))]"

definition latency_dump :: "response_latency \<Rightarrow> pyval" where
  "latency_dump l = PDict
     [(''model'', PStr (lat_model l)), (''latency'', PFloat (lat_latency l)),
      (''response_id'', PStr (lat_response_id l))]"

definition metrics_get :: "metrics \<Rightarrow> pyval" where
  "metrics_get m = PDict
     [(''accumulated_cost'', PFloat (accumulated_cost m)),
      (''max_budget_per_task'',
         (case max_budget_per_task m of None \<Rightarrow> PNone | Some b \<Rightarrow> PFloat b)),
      (''accumulated_token_usage'', usage_dump (accumulated_token_usage m)),
      (''costs'', PList (map cost_dump (costs m))),
      (''response_latencies'', PList (map latency_dump (response_latencies m))),
      (''token_usages'', PList (map usage_dump (token_usages m)))]"

definition diff :: "metrics \<Rightarrow> metrics \<Rightarrow> metrics" where
  \<comment> \<open>\<^verbatim>\<open>self.diff(baseline)\<close>\<close>
  "diff m base =
     (let bu = accumulated_token_usage base; cu = accumulated_token_usage m in
      (metrics_init (model_name m))
        \<lparr>accumulated_cost := accumulated_cost m - accumulated_cost base,
         costs := (if costs base \<noteq> []
                   then filter (\<lambda>c. cost_timestamp c > cost_timestamp (last (costs base))) (costs m)
                   else costs m),
         response_latencies := drop (length (response_latencies base)) (response_latencies m),
         token_usages := drop (length (token_usages base)) (token_usages m),
         accumulated_token_usage :=
           \<lparr>tu_model = model_name m,
            prompt_tokens = prompt_tokens cu - prompt_tokens bu,
            completion_tokens = completion_tokens cu - completion_tokens bu,
            cache_read_tokens = cache_read_tokens cu - cache_read_tokens bu,
            cache_write_tokens = cache_write_tokens cu - cache_write_tokens bu,
            context_window = context_window cu,
            per_turn_token = 0, tu_response_id = []\<rparr>\<rparr>)"

section \<open>Ledger invariant\<close>

text \<open>
  The accumulated fields are the totals of the recorded lists.
\<close>

definition ledger_ok :: "metrics \<Rightarrow> bool" where
  "ledger_ok m \<longleftrightarrow>
     accumulated_cost m = sum_list (map cost_cost (costs m)) \<and>
     prompt_tokens (accumulated_token_usage m) = sum_list (map prompt_tokens (token_usages m)) \<and>
     completion_tokens (accumulated_token_usage m)
       = sum_list (map completion_tokens (token_usages m)) \<and>
     cache_read_tokens (accumulated_token_usage m)
       = sum_list (map cache_read_tokens (token_usages m)) \<and>
     cache_write_tokens (accumulated_token_usage m)
       = sum_list (map cache_write_tokens (token_usages m)) \<and>
     list_all (\<lambda>c. 0 \<le> cost_cost c) (costs m) \<and>
     list_all (\<lambda>l. 0 \<le> lat_latency l) (response_latencies m)"

datatype metric_op =
    AddCost rat rat
  | AddLatency rat string
  | AddUsage int int int int int string
  | MergeIn metrics

fun apply_metric_op :: "metric_op \<Rightarrow> metrics \<Rightarrow> metrics" where
  \<comment> \<open>one call; a call that raises leaves the object alone\<close>
  "apply_metric_op (AddCost now v) m = (case add_cost now v m of Inl _ \<Rightarrow> m | Inr m' \<Rightarrow> m')"
| "apply_metric_op (AddLatency v rid) m = add_response_latency v rid m"
| "apply_metric_op (AddUsage p c r w win rid) m = add_token_usage p c r w win rid m"
| "apply_metric_op (MergeIn other) m = merge m other"

fun op_ok :: "metric_op \<Rightarrow> bool" where
  "op_ok (MergeIn other) = ledger_ok other"
| "op_ok _ = True"

lemma ledger_init: "ledger_ok (metrics_init name)"
  by (simp add: ledger_ok_def metrics_init_def empty_usage_def)

lemma ledger_add_cost: "ledger_ok m \<Longrightarrow> add_cost now v m = Inr m' \<Longrightarrow> ledger_ok m'"
  by (auto simp: ledger_ok_def add_cost_def split: if_splits)

lemma ledger_latency: "ledger_ok m \<Longrightarrow> ledger_ok (add_response_latency v rid m)"
  by (simp add: ledger_ok_def add_response_latency_def)

lemma ledger_usage: "ledger_ok m \<Longrightarrow> ledger_ok (add_token_usage p c r w win rid m)"
  by (simp add: ledger_ok_def add_token_usage_def usage_add_def Let_def)

lemma ledger_merge: "ledger_ok m \<Longrightarrow> ledger_ok n \<Longrightarrow> ledger_ok (merge m n)"
  by (simp add: ledger_ok_def merge_def usage_add_def)

lemma ledger_step: "ledger_ok m \<Longrightarrow> op_ok oper \<Longrightarrow> ledger_ok (apply_metric_op oper m)"
  by (cases oper)
    (auto simp: ledger_latency ledger_usage ledger_merge split: sum.splits
       intro: ledger_add_cost)

lemma ledger_run:
  "ledger_ok m \<Longrightarrow> list_all op_ok ops \<Longrightarrow> ledger_ok (fold apply_metric_op ops m)"
  by (induction ops arbitrary: m) (auto intro: ledger_step)

lemma accumulated_cost_nonneg: "ledger_ok m \<Longrightarrow> 0 \<le> accumulated_cost m"
  by (auto simp: ledger_ok_def list_all_iff intro!: sum_list_nonneg)

section \<open>Differences against a snapshot\<close>

definition clock_ok :: "metrics \<Rightarrow> bool" where
  \<comment> \<open>the recorded costs carry strictly increasing times\<close>
  "clock_ok m \<longleftrightarrow> sorted_wrt (\<lambda>a b. cost_timestamp a < cost_timestamp b) (costs m)"

definition extends :: "metrics \<Rightarrow> metrics \<Rightarrow> bool" where
  \<comment> \<open>\<open>m\<close> was obtained by adding records to \<open>base\<close>\<close>
  "extends m base \<longleftrightarrow>
     prefix (costs base) (costs m) \<and> prefix (token_usages base) (token_usages m) \<and>
     prefix (response_latencies base) (response_latencies m)"

lemma extends_refl: "extends m m"
  by (simp add: extends_def)

lemma extends_step: "extends m base \<Longrightarrow> extends (apply_metric_op oper m) base"
  by (cases oper)
    (auto simp: extends_def add_cost_def add_response_latency_def add_token_usage_def merge_def
       Let_def split: sum.splits if_splits)

lemma extends_run: "extends m base \<Longrightarrow> extends (fold apply_metric_op ops m) base"
  by (induction ops arbitrary: m) (auto intro: extends_step)

lemma filter_later_costs:
  assumes "sorted_wrt (\<lambda>a b. cost_timestamp a < cost_timestamp b) (xs @ ys)" "xs \<noteq> []"
  shows "filter (\<lambda>c. cost_timestamp c > cost_timestamp (last xs)) (xs @ ys) = ys"
proof -
  have le: "\<forall>c\<in>set xs. cost_timestamp c \<le> cost_timestamp (last xs)"
  proof
    fix c assume "c \<in> set xs"
    then obtain i where i: "i < length xs" "c = xs ! i" by (auto simp: in_set_conv_nth)
    have xs: "sorted_wrt (\<lambda>a b. cost_timestamp a < cost_timestamp b) xs"
      using assms(1) by (simp add: sorted_wrt_append)
    show "cost_timestamp c \<le> cost_timestamp (last xs)"
    proof (cases "i = length xs - 1")
      case True
      then show ?thesis using i assms(2) by (simp add: last_conv_nth)
    next
      case False
      then have "cost_timestamp (xs ! i) < cost_timestamp (xs ! (length xs - 1))"
        using xs i by (auto simp: sorted_wrt_iff_nth_less)
      then show ?thesis using i assms(2) by (simp add: last_conv_nth)
    qed
  qed
  have "\<forall>c\<in>set ys. cost_timestamp (last xs) < cost_timestamp c"
    using assms by (auto simp: sorted_wrt_append)
  then have "filter (\<lambda>c. cost_timestamp c > cost_timestamp (last xs)) ys = ys" by simp
  moreover have "filter (\<lambda>c. cost_timestamp c > cost_timestamp (last xs)) xs = []"
    using le by (auto simp: filter_empty_conv not_less)
  ultimately show ?thesis by simp
qed

lemma diff_costs:
  assumes "clock_ok m" "extends m base"
  shows "costs (diff m base) = drop (length (costs base)) (costs m)"
proof (cases "costs base = []")
  case True
  then show ?thesis by (simp add: diff_def Let_def)
next
  case False
  obtain ys where ys: "costs m = costs base @ ys"
    using assms(2) by (auto simp: extends_def prefix_def)
  have "sorted_wrt (\<lambda>a b. cost_timestamp a < cost_timestamp b) (costs base @ ys)"
    using assms(1) ys by (simp add: clock_ok_def)
  from filter_later_costs[OF this False] show ?thesis
    using False ys by (simp add: diff_def Let_def)
qed

lemma sum_drop:
  fixes f :: "'a \<Rightarrow> 'b::ab_group_add"
  assumes "prefix xs ys"
  shows "sum_list (map f (drop (length xs) ys)) = sum_list (map f ys) - sum_list (map f xs)"
proof -
  obtain zs where "ys = xs @ zs" using assms by (auto simp: prefix_def)
  then show ?thesis by simp
qed

lemma ledger_diff:
  assumes "ledger_ok m" "ledger_ok base" "extends m base" "clock_ok m"
  shows "ledger_ok (diff m base)"
proof -
  note c = diff_costs[OF assms(4,3)]
  have "list_all (\<lambda>c. 0 \<le> cost_cost c) (costs (diff m base))"
    using assms(1) unfolding c by (auto simp: ledger_ok_def list_all_iff dest: in_set_dropD)
  moreover have "accumulated_cost (diff m base) = sum_list (map cost_cost (costs (diff m base)))"
    using assms unfolding c by (simp add: ledger_ok_def extends_def sum_drop diff_def Let_def)
  moreover have "list_all (\<lambda>l. 0 \<le> lat_latency l) (response_latencies (diff m base))"
    using assms(1) by (auto simp: ledger_ok_def diff_def Let_def list_all_iff dest: in_set_dropD)
  ultimately show ?thesis
    using assms(1-3) by (simp add: ledger_ok_def extends_def sum_drop diff_def Let_def)
qed

end
