(* ===== verification/Events.thy ===== *)
theory Events
  imports Metrics_Model
begin

text \<open>
  The event classes (\<^verbatim>\<open>openhands/events/event.py\<close>, \<^verbatim>\<open>events/action/\<close>,
  \<^verbatim>\<open>events/observation/\<close>).  An event object is a record: its class, its dataclass fields
  in declaration order, the underscore attributes that the stream and the controller set,
  and any other attribute set on the instance.  A class is a record of its fields with
  their defaults, its \<^verbatim>\<open>runnable\<close> flag and its \<^verbatim>\<open>message\<close> property.  Dataclass equality
  compares class and fields only, so two events with different ids can be equal.
  Enum members, pydantic models and nested dataclasses are represented by the value they
  dump to.  \<^verbatim>\<open>__str__\<close> and \<^verbatim>\<open>__repr__\<close> methods are not modelled.
\<close>

section \<open>Enumerations\<close>

datatype event_source = AGENT | USER | ENVIRONMENT

fun source_value :: "event_source \<Rightarrow> string" where
  "source_value AGENT = ''agent''"
| "source_value USER = ''user''"
| "source_value ENVIRONMENT = ''environment''"

definition source_of :: "string \<Rightarrow> event_source res" where
  \<comment> \<open>\<^verbatim>\<open>EventSource(value)\<close>\<close>
  "source_of s =
     (if s = ''agent'' then Inr AGENT else if s = ''user'' then Inr USER
      else if s = ''environment'' then Inr ENVIRONMENT
      else Inl (ValueError (s @ '' is not a valid EventSource'')))"

datatype agent_state =
    LOADING | RUNNING | AWAITING_USER_INPUT | PAUSED | STOPPED | FINISHED | REJECTED | ERROR
  | AWAITING_USER_CONFIRMATION | USER_CONFIRMED | USER_REJECTED | RATE_LIMITED
  | OTHER_STATE string \<comment> \<open>any other string, which compares equal to no member\<close>

fun agent_state_value :: "agent_state \<Rightarrow> string" where
  "agent_state_value LOADING = ''loading''"
| "agent_state_value RUNNING = ''running''"
| "agent_state_value AWAITING_USER_INPUT = ''awaiting_user_input''"
| "agent_state_value PAUSED = ''paused''"
| "agent_state_value STOPPED = ''stopped''"
| "agent_state_value FINISHED = ''finished''"
| "agent_state_value REJECTED = ''rejected''"
| "agent_state_value ERROR = ''error''"
| "agent_state_value AWAITING_USER_CONFIRMATION = ''awaiting_user_confirmation''"
| "agent_state_value USER_CONFIRMED = ''user_confirmed''"
| "agent_state_value USER_REJECTED = ''user_rejected''"
| "agent_state_value RATE_LIMITED = ''rate_limited''"
| "agent_state_value (OTHER_STATE s) = s"

definition agent_states :: "agent_state list" where
  "agent_states = [LOADING, RUNNING, AWAITING_USER_INPUT, PAUSED, STOPPED, FINISHED, REJECTED,
     ERROR, AWAITING_USER_CONFIRMATION, USER_CONFIRMED, USER_REJECTED, RATE_LIMITED]"

definition agent_state_of :: "string \<Rightarrow> agent_state" where
  "agent_state_of s =
     (case find (\<lambda>a. agent_state_value a = s) agent_states of
        Some a \<Rightarrow> a | None \<Rightarrow> OTHER_STATE s)"

section \<open>Printing values\<close>

definition hex_digit :: "nat \<Rightarrow> char" where
  "hex_digit d = (if d < 10 then char_of (48 + d) else char_of (87 + d))"

definition repr_char :: "char \<Rightarrow> char \<Rightarrow> string" where
  "repr_char q c =
     (let n = (of_char c :: nat); bs = CHR 0x5C in
      if c = q \<or> c = bs then [bs, c]
      else if n = 10 then [bs, CHR ''n''] else if n = 13 then [bs, CHR ''r'']
      else if n = 9 then [bs, CHR ''t'']
      else if (32 \<le> n \<and> n \<le> 126) \<or> (161 \<le> n \<and> n \<noteq> 173) then [c]
      else [bs, CHR ''x'', hex_digit (n div 16), hex_digit (n mod 16)])"

definition repr_str :: "string \<Rightarrow> string" where
  "repr_str s =
     (let q = (if CHR 0x27 \<in> set s \<and> CHR 0x22 \<notin> set s then CHR 0x22 else CHR 0x27)
      in [q] @ concat (map (repr_char q) s) @ [q])"

fun py_repr :: "pyval \<Rightarrow> string"
and py_repr_list :: "pyval list \<Rightarrow> string list"
and py_repr_items :: "(string \<times> pyval) list \<Rightarrow> string list" where
  "py_repr PNone = ''None''"
| "py_repr (PBool b) = (if b then ''True'' else ''False'')"
| "py_repr (PInt i) = str_of_int i"
| "py_repr (PFloat r) = (case quotient_of r of (n, d) \<Rightarrow> str_of_int n @ ''/'' @ str_of_int d)"
| "py_repr (PStr s) = repr_str s"
| "py_repr (PList vs) = ''['' @ join '', '' (py_repr_list vs) @ '']''"
| "py_repr (PDict kvs) = ''{'' @ join '', '' (py_repr_items kvs) @ ''}''"
| "py_repr_list [] = []"
| "py_repr_list (v # vs) = py_repr v # py_repr_list vs"
| "py_repr_items [] = []"
| "py_repr_items ((k, v) # kvs) = (repr_str k @ '': '' @ py_repr v) # py_repr_items kvs"

fun py_str :: "pyval \<Rightarrow> string" where
  "py_str (PStr s) = s"
| "py_str v = py_repr v"

section \<open>Event objects\<close>

datatype event_class =
    NullAction | CmdRunAction | IPythonRunCellAction | BrowseURLAction | BrowseInteractiveAction
  | FileReadAction | FileWriteAction | FileEditAction | AgentThinkAction | AgentFinishAction
  | AgentRejectAction | AgentDelegateAction | RecallAction | ChangeAgentStateAction
  | MessageAction | SystemMessageAction | CondensationAction | CondensationRequestAction
  | MCPAction | TaskTrackingAction | LoopRecoveryAction
  | NullObservation | CmdOutputObservation | IPythonRunCellObservation
  | BrowserOutputObservation | FileReadObservation | FileWriteObservation
  | FileEditObservation | AgentDelegateObservation | SuccessObservation | ErrorObservation
  | AgentStateChangedObservation | UserRejectObservation | AgentCondensationObservation
  | AgentThinkObservation | RecallObservation | MCPObservation | FileDownloadObservation
  | TaskTrackingObservation | LoopDetectionObservation

definition actions :: "event_class list" where
  "actions =
     [NullAction, CmdRunAction, IPythonRunCellAction, BrowseURLAction, BrowseInteractiveAction,
      FileReadAction, FileWriteAction, FileEditAction, AgentThinkAction, AgentFinishAction,
      AgentRejectAction, AgentDelegateAction, RecallAction, ChangeAgentStateAction,
      MessageAction, SystemMessageAction, CondensationAction, CondensationRequestAction,
      MCPAction, TaskTrackingAction, LoopRecoveryAction]"

definition observations :: "event_class list" where
  "observations =
     [NullObservation, CmdOutputObservation, IPythonRunCellObservation,
      BrowserOutputObservation, FileReadObservation, FileWriteObservation,
      FileEditObservation, AgentDelegateObservation, SuccessObservation, ErrorObservation,
      AgentStateChangedObservation, UserRejectObservation, AgentCondensationObservation,
      AgentThinkObservation, RecallObservation, MCPObservation, FileDownloadObservation,
      TaskTrackingObservation, LoopDetectionObservation]"

record event =
  ev_class :: event_class
  ev_fields :: "(string, pyval) dict"
  ev_id :: "int option"
  ev_timestamp :: "string option"
  ev_source :: "event_source option"
  ev_cause :: "int option"
  ev_timeout :: "rat option"
  ev_tool_call_metadata :: "pyval option"
  ev_llm_metrics :: "metrics option"
  ev_dyn :: "(string, pyval) dict"

definition INVALID_ID :: int where
  "INVALID_ID = -1"

definition eid :: "event \<Rightarrow> int" where
  \<comment> \<open>\<^verbatim>\<open>event.id\<close>\<close>
  "eid e = (case ev_id e of Some i \<Rightarrow> i | None \<Rightarrow> INVALID_ID)"

definition is_action :: "event \<Rightarrow> bool" where
  \<comment> \<open>\<^verbatim>\<open>isinstance(event, Action)\<close>\<close>
  "is_action e \<longleftrightarrow> ev_class e \<in> set actions"

definition is_observation :: "event \<Rightarrow> bool" where
  "is_observation e \<longleftrightarrow> ev_class e \<in> set observations"

abbreviation is_a :: "event \<Rightarrow> event_class \<Rightarrow> bool" where
  \<comment> \<open>\<^verbatim>\<open>isinstance(event, c)\<close> for a class without subclasses\<close>
  "is_a e c \<equiv> ev_class e = c"

definition py_eq :: "event \<Rightarrow> event \<Rightarrow> bool" where
  \<comment> \<open>the \<^verbatim>\<open>__eq__\<close> that \<^verbatim>\<open>@dataclass\<close> generates\<close>
  "py_eq a b \<longleftrightarrow> ev_class a = ev_class b \<and> ev_fields a = ev_fields b"

definition attr :: "event \<Rightarrow> string \<Rightarrow> pyval option" where
  \<comment> \<open>\<^verbatim>\<open>getattr\<close> on the instance dictionary; \<^const>\<open>None\<close> when the attribute is missing\<close>
  "attr e n = (case map_of (ev_fields e) n of Some v \<Rightarrow> Some v | None \<Rightarrow> map_of (ev_dyn e) n)"

definition hasattr :: "event \<Rightarrow> string \<Rightarrow> bool" where
  "hasattr e n \<longleftrightarrow> attr e n \<noteq> None"

definition setattr :: "string \<Rightarrow> pyval \<Rightarrow> event \<Rightarrow> event" where
  "setattr n v e =
     (if map_of (ev_fields e) n \<noteq> None then e\<lparr>ev_fields := dict_set n v (ev_fields e)\<rparr>
      else e\<lparr>ev_dyn := dict_set n v (ev_dyn e)\<rparr>)"

definition str_attr :: "event \<Rightarrow> string \<Rightarrow> string" where
  "str_attr e n = (case attr e n of Some (PStr s) \<Rightarrow> s | _ \<Rightarrow> [])"

definition bool_attr :: "event \<Rightarrow> string \<Rightarrow> bool" where
  "bool_attr e n = (case attr e n of Some (PBool b) \<Rightarrow> b | _ \<Rightarrow> False)"

definition int_attr :: "event \<Rightarrow> string \<Rightarrow> int option" where
  "int_attr e n = (case attr e n of Some (PInt i) \<Rightarrow> Some i | _ \<Rightarrow> None)"

definition ostr_attr :: "event \<Rightarrow> string \<Rightarrow> string option" where
  "ostr_attr e n = (case attr e n of Some (PStr s) \<Rightarrow> Some s | _ \<Rightarrow> None)"

fun ints_of :: "pyval list \<Rightarrow> int list" where
  "ints_of [] = []"
| "ints_of (v # vs) = (case v of PInt i \<Rightarrow> i # ints_of vs | _ \<Rightarrow> ints_of vs)"

definition ints_attr :: "event \<Rightarrow> string \<Rightarrow> int list option" where
  "ints_attr e n = (case attr e n of Some (PList vs) \<Rightarrow> Some (ints_of vs) | _ \<Rightarrow> None)"

definition dict_attr :: "event \<Rightarrow> string \<Rightarrow> (string, pyval) dict" where
  "dict_attr e n = (case attr e n of Some (PDict d) \<Rightarrow> d | _ \<Rightarrow> [])"

abbreviation content :: "event \<Rightarrow> string" where
  "content e \<equiv> str_attr e ''content''"

definition fmt :: "event \<Rightarrow> string \<Rightarrow> string" where
  \<comment> \<open>\<^verbatim>\<open>{self.n}\<close> in an f-string\<close>
  "fmt e n = (case attr e n of Some v \<Rightarrow> py_str v | None \<Rightarrow> [])"

definition set_hard_timeout :: "rat option \<Rightarrow> pyval \<Rightarrow> event \<Rightarrow> event" where
  "set_hard_timeout v blocking e =
     (let e' = e\<lparr>ev_timeout := v\<rparr>
      in if hasattr e' ''blocking'' then setattr ''blocking'' blocking e' else e')"

definition from_user :: "event \<Rightarrow> bool" where
  \<comment> \<open>\<^verbatim>\<open>isinstance(event, MessageAction) and event.source == EventSource.USER\<close>\<close>
  "from_user e \<longleftrightarrow> is_a e MessageAction \<and> ev_source e = Some USER"

definition from_agent :: "event \<Rightarrow> bool" where
  "from_agent e \<longleftrightarrow> is_a e MessageAction \<and> ev_source e = Some AGENT"

section \<open>Facts about class tests and equality\<close>

lemma action_or_observation: "is_action e \<longleftrightarrow> \<not> is_observation e"
  by (cases "ev_class e") (simp_all add: is_action_def is_observation_def actions_def observations_def)

lemma obs_class_simps [obs_simps]:
  "is_a e MessageAction \<Longrightarrow> is_action e" "is_a e SystemMessageAction \<Longrightarrow> is_action e"
  "is_a e CondensationAction \<Longrightarrow> is_action e" "is_a e CondensationRequestAction \<Longrightarrow> is_action e"
  "is_a e NullAction \<Longrightarrow> is_action e" "is_a e RecallAction \<Longrightarrow> is_action e"
  "is_a e AgentDelegateAction \<Longrightarrow> is_action e" "is_a e IPythonRunCellAction \<Longrightarrow> is_action e"
  "is_a e CmdRunAction \<Longrightarrow> is_action e" "is_a e ChangeAgentStateAction \<Longrightarrow> is_action e"
  "is_a e NullObservation \<Longrightarrow> is_observation e" "is_a e ErrorObservation \<Longrightarrow> is_observation e"
  "is_a e CmdOutputObservation \<Longrightarrow> is_observation e"
  "is_a e IPythonRunCellObservation \<Longrightarrow> is_observation e"
  "is_a e AgentCondensationObservation \<Longrightarrow> is_observation e"
  "is_a e AgentStateChangedObservation \<Longrightarrow> is_observation e"
  "is_a e BrowserOutputObservation \<Longrightarrow> is_observation e"
  "is_a e AgentDelegateObservation \<Longrightarrow> is_observation e"
  by (simp_all add: is_action_def is_observation_def actions_def observations_def)

lemma py_eq_refl [simp]: "py_eq e e"
  by (simp add: py_eq_def)

lemma py_eq_sym: "py_eq a b \<Longrightarrow> py_eq b a"
  by (simp add: py_eq_def)

lemma py_eq_trans: "py_eq a b \<Longrightarrow> py_eq b c \<Longrightarrow> py_eq a c"
  by (simp add: py_eq_def)

lemma py_eq_is_action: "py_eq a b \<Longrightarrow> is_action a = is_action b"
  by (simp add: py_eq_def is_action_def)

lemma agent_state_of_value: "a \<in> set agent_states \<Longrightarrow> agent_state_of (agent_state_value a) = a"
proof -
  have "list_all (\<lambda>a. agent_state_of (agent_state_value a) = a) agent_states" by code_simp
  then show "a \<in> set agent_states \<Longrightarrow> agent_state_of (agent_state_value a) = a"
    by (simp add: list_all_iff)
qed

lemma source_of_value [simp]: "source_of (source_value s) = Inr s"
  by (cases s) (simp_all add: source_of_def)

lemma attr_setattr_same [simp]: "attr (setattr n v e) n = Some v"
  by (auto simp: attr_def setattr_def split: option.splits)

lemma setattr_frame [frame_simps]:
  "ev_class (setattr n v e) = ev_class e" "ev_id (setattr n v e) = ev_id e"
  "ev_source (setattr n v e) = ev_source e" "ev_cause (setattr n v e) = ev_cause e"
  "ev_tool_call_metadata (setattr n v e) = ev_tool_call_metadata e"
  by (simp_all add: setattr_def)

end
