(* ===== verification/Event_Classes.thy ===== *)
theory Event_Classes
  imports Events
begin

text \<open>
  One record per event class: its dataclass fields in order with their defaults, its
  \<^verbatim>\<open>runnable\<close> flag, its \<^verbatim>\<open>message\<close> property.  \<open>dataclass_init\<close> is the generated
  \<^verbatim>\<open>__init__\<close> called with keyword arguments; \<^verbatim>\<open>CmdOutputObservation\<close> has its own.  The
  validity rules of \<^verbatim>\<open>CondensationAction\<close> and the two truncation functions are here too.
\<close>

section \<open>Pieces the classes use\<close>

record class_info =
  ci_fields :: "(string \<times> pyval option) list"
  ci_runnable :: bool
  ci_message :: "event \<Rightarrow> string res"

definition nl :: string where
  "nl = [CHR 0x0A]"

definition fence :: string where
  "fence = ''```''"

definition openhands_version :: string where
  \<comment> \<open>\<^verbatim>\<open>get_version()\<close>, which reads the version line of \<^verbatim>\<open>pyproject.toml\<close>\<close>
  "openhands_version = ''1.2.1''"

definition base_message :: "event \<Rightarrow> string res" where
  \<comment> \<open>\<^verbatim>\<open>Event.message\<close>; no modelled code sets \<^verbatim>\<open>_message\<close>\<close>
  "base_message e = Inr []"

definition metadata_defaults :: "(string, pyval) dict" where
  \<comment> \<open>\<^verbatim>\<open>CmdOutputMetadata()\<close>\<close>
  "metadata_defaults =
     [(''exit_code'', PInt (-1)), (''pid'', PInt (-1)), (''username'', PNone),
      (''hostname'', PNone), (''working_dir'', PNone), (''py_interpreter_path'', PNone),
      (''prefix'', PStr []), (''suffix'', PStr [])]"

definition metadata_init :: "(string, pyval) dict \<Rightarrow> (string, pyval) dict" where
  \<comment> \<open>\<^verbatim>\<open>CmdOutputMetadata(**d)\<close>: missing fields take their default, other keys are ignored\<close>
  "metadata_init d =
     map (\<lambda>(n, v). (n, case map_of d n of Some w \<Rightarrow> w | None \<Rightarrow> v)) metadata_defaults"

definition exit_code :: "event \<Rightarrow> int" where
  "exit_code e = (case map_of (dict_attr e ''metadata'') ''exit_code'' of Some (PInt i) \<Rightarrow> i | _ \<Rightarrow> -1)"

subsection \<open>CondensationAction\<close>

definition given :: "event \<Rightarrow> string \<Rightarrow> bool" where
  \<comment> \<open>\<^verbatim>\<open>self.n is not None\<close>\<close>
  "given e n \<longleftrightarrow> (case attr e n of None \<Rightarrow> False | Some PNone \<Rightarrow> False | Some _ \<Rightarrow> True)"

definition validate_field_polymorphism :: "event \<Rightarrow> bool" where
  "validate_field_polymorphism e \<longleftrightarrow>
     (let using_event_ids = given e ''forgotten_event_ids'';
          using_event_range = (given e ''forgotten_events_start_id''
                               \<and> given e ''forgotten_events_end_id'');
          forgotten_event_configuration = (using_event_ids \<noteq> using_event_range);
          summary_configuration =
            ((\<not> given e ''summary'' \<and> \<not> given e ''summary_offset'')
             \<or> (given e ''summary'' \<and> given e ''summary_offset''))
      in forgotten_event_configuration \<and> summary_configuration)"

definition invalid_fields :: pyerr where
  "invalid_fields = ValueError ''Invalid configuration of the optional fields.''"

definition forgotten :: "event \<Rightarrow> int list res" where
  "forgotten e =
     (if \<not> validate_field_polymorphism e then Inl invalid_fields
      else case ints_attr e ''forgotten_event_ids'' of
             Some ids \<Rightarrow> Inr ids
           | None \<Rightarrow>
               (case (int_attr e ''forgotten_events_start_id'', int_attr e ''forgotten_events_end_id'')
                of (Some a, Some b) \<Rightarrow> Inr (py_range a (b + 1))
                 | _ \<Rightarrow> Inl (AssertionError [])))"

definition condensation_message :: "event \<Rightarrow> string res" where
  "condensation_message e =
     (case ostr_attr e ''summary'' of
        Some (c # cs) \<Rightarrow> Inr (''Summary: '' @ c # cs)
      | _ \<Rightarrow> (case forgotten e of
                Inl err \<Rightarrow> Inl err
              | Inr ids \<Rightarrow> Inr (''Condenser is dropping the events: ''
                                @ py_repr (PList (map PInt ids)) @ ''.'')))"

section \<open>The classes\<close>

definition NullAction_class :: class_info where
  "NullAction_class =
     \<lparr>ci_fields =
        [(''action'', Some (PStr ''null''))],
      ci_runnable = False,
      ci_message = (\<lambda>e. Inr ''No action'')\<rparr>"

definition CmdRunAction_class :: class_info where
  "CmdRunAction_class =
     \<lparr>ci_fields =
        [(''command'', None), (''is_input'', Some (PBool False)),
         (''thought'', Some (PStr [])), (''blocking'', Some (PBool False)),
         (''is_static'', Some (PBool False)), (''cwd'', Some (PNone)),
         (''hidden'', Some (PBool False)), (''action'', Some (PStr ''run'')),
         (''confirmation_state'', Some (PStr ''confirmed'')),
         (''security_risk'', Some (PInt (-1)))],
      ci_runnable = True,
      ci_message = (\<lambda>e. Inr (''Running command: '' @ fmt e ''command''))\<rparr>"

definition IPythonRunCellAction_class :: class_info where
  "IPythonRunCellAction_class =
     \<lparr>ci_fields =
        [(''code'', None), (''thought'', Some (PStr [])),
         (''include_extra'', Some (PBool True)), (''action'', Some (PStr ''run_ipython'')),
         (''confirmation_state'', Some (PStr ''confirmed'')),
         (''security_risk'', Some (PInt (-1))), (''kernel_init_code'', Some (PStr []))],
      ci_runnable = True,
      ci_message = (\<lambda>e. Inr (''Running Python code interactively: '' @ fmt e ''code''))\<rparr>"

definition BrowseURLAction_class :: class_info where
  "BrowseURLAction_class =
     \<lparr>ci_fields =
        [(''url'', None), (''thought'', Some (PStr [])), (''action'', Some (PStr ''browse'')),
         (''security_risk'', Some (PInt (-1))), (''return_axtree'', Some (PBool False))],
      ci_runnable = True,
      ci_message = (\<lambda>e. Inr (''I am browsing the URL: '' @ fmt e ''url''))\<rparr>"

definition BrowseInteractiveAction_class :: class_info where
  "BrowseInteractiveAction_class =
     \<lparr>ci_fields =
        [(''browser_actions'', None), (''thought'', Some (PStr [])),
         (''browsergym_send_msg_to_user'', Some (PStr [])),
         (''action'', Some (PStr ''browse_interactive'')),
         (''security_risk'', Some (PInt (-1))), (''return_axtree'', Some (PBool False))],
      ci_runnable = True,
      ci_message = (\<lambda>e. Inr (''I am interacting with the browser:'' @ nl @ fence @ nl @ fmt e ''browser_actions'' @ nl @ fence))\<rparr>"

definition FileReadAction_class :: class_info where
  "FileReadAction_class =
     \<lparr>ci_fields =
        [(''path'', None), (''start'', Some (PInt 0)), (''end'', Some (PInt (-1))),
         (''thought'', Some (PStr [])), (''action'', Some (PStr ''read'')),
         (''security_risk'', Some (PInt (-1))), (''impl_source'', Some (PStr ''default'')),
         (''view_range'', Some (PNone))],
      ci_runnable = True,
      ci_message = (\<lambda>e. Inr (''Reading file: '' @ fmt e ''path''))\<rparr>"

definition FileWriteAction_class :: class_info where
  "FileWriteAction_class =
     \<lparr>ci_fields =
        [(''path'', None), (''content'', None), (''start'', Some (PInt 0)),
         (''end'', Some (PInt (-1))), (''thought'', Some (PStr [])),
         (''action'', Some (PStr ''write'')), (''security_risk'', Some (PInt (-1)))],
      ci_runnable = True,
      ci_message = (\<lambda>e. Inr (''Writing file: '' @ fmt e ''path''))\<rparr>"

definition FileEditAction_class :: class_info where
  "FileEditAction_class =
     \<lparr>ci_fields =
        [(''path'', None), (''command'', Some (PStr [])), (''file_text'', Some (PNone)),
         (''old_str'', Some (PNone)), (''new_str'', Some (PNone)),
         (''insert_line'', Some (PNone)), (''content'', Some (PStr [])),
         (''start'', Some (PInt 1)), (''end'', Some (PInt (-1))),
         (''thought'', Some (PStr [])), (''action'', Some (PStr ''edit'')),
         (''security_risk'', Some (PInt (-1))), (''impl_source'', Some (PStr ''oh_aci''))],
      ci_runnable = True,
      ci_message = (\<lambda>e. base_message e)\<rparr>"

definition AgentThinkAction_class :: class_info where
  "AgentThinkAction_class =
     \<lparr>ci_fields =
        [(''thought'', Some (PStr [])), (''action'', Some (PStr ''think''))],
      ci_runnable = False,
      ci_message = (\<lambda>e. Inr (''I am thinking...: '' @ fmt e ''thought''))\<rparr>"

definition AgentFinishAction_class :: class_info where
  "AgentFinishAction_class =
     \<lparr>ci_fields =
        [(''final_thought'', Some (PStr [])), (''outputs'', Some (PDict [])),
         (''thought'', Some (PStr [])), (''action'', Some (PStr ''finish''))],
      ci_runnable = False,
      ci_message = (\<lambda>e. Inr (if attr e ''thought'' \<noteq> Some (PStr []) then fmt e ''thought''
            else ''All done! What'' @ [CHR 0x27] @ ''s next on the agenda?''))\<rparr>"

definition AgentRejectAction_class :: class_info where
  "AgentRejectAction_class =
     \<lparr>ci_fields =
        [(''outputs'', Some (PDict [])), (''thought'', Some (PStr [])),
         (''action'', Some (PStr ''reject''))],
      ci_runnable = False,
      ci_message = (\<lambda>e. (case map_of (dict_attr e ''outputs'') ''reason'' of
          None \<Rightarrow> Inr ''Task is rejected by the agent.''
        | Some (PStr r) \<Rightarrow> Inr (''Task is rejected by the agent. Reason: '' @ r)
        | Some _ \<Rightarrow> Inl (TypeError ''can only concatenate str to str'')))\<rparr>"

definition AgentDelegateAction_class :: class_info where
  "AgentDelegateAction_class =
     \<lparr>ci_fields =
        [(''agent'', None), (''inputs'', None), (''thought'', Some (PStr [])),
         (''action'', Some (PStr ''delegate''))],
      ci_runnable = False,
      ci_message = (\<lambda>e. Inr (''I'' @ [CHR 0x27] @ ''m asking '' @ fmt e ''agent'' @ '' for help with this task.''))\<rparr>"

definition RecallAction_class :: class_info where
  "RecallAction_class =
     \<lparr>ci_fields =
        [(''recall_type'', None), (''query'', Some (PStr [])), (''thought'', Some (PStr [])),
         (''action'', Some (PStr ''recall''))],
      ci_runnable = False,
      ci_message = (\<lambda>e. Inr (''Retrieving content for: '' @ take 50 (str_attr e ''query'')))\<rparr>"

definition ChangeAgentStateAction_class :: class_info where
  "ChangeAgentStateAction_class =
     \<lparr>ci_fields =
        [(''agent_state'', None), (''thought'', Some (PStr [])),
         (''action'', Some (PStr ''change_agent_state''))],
      ci_runnable = False,
      ci_message = (\<lambda>e. Inr (''Agent state changed to '' @ fmt e ''agent_state''))\<rparr>"

definition MessageAction_class :: class_info where
  "MessageAction_class =
     \<lparr>ci_fields =
        [(''content'', None), (''file_urls'', Some (PNone)), (''image_urls'', Some (PNone)),
         (''wait_for_response'', Some (PBool False)), (''action'', Some (PStr ''message'')),
         (''security_risk'', Some (PInt (-1)))],
      ci_runnable = False,
      ci_message = (\<lambda>e. Inr (fmt e ''content''))\<rparr>"

definition SystemMessageAction_class :: class_info where
  "SystemMessageAction_class =
     \<lparr>ci_fields =
        [(''content'', None), (''tools'', Some (PNone)),
         (''openhands_version'', Some (PStr openhands_version)),
         (''agent_class'', Some (PNone)), (''action'', Some (PStr ''system''))],
      ci_runnable = False,
      ci_message = (\<lambda>e. Inr (fmt e ''content''))\<rparr>"

definition CondensationAction_class :: class_info where
  "CondensationAction_class =
     \<lparr>ci_fields =
        [(''action'', Some (PStr ''condensation'')), (''forgotten_event_ids'', Some (PNone)),
         (''forgotten_events_start_id'', Some (PNone)),
         (''forgotten_events_end_id'', Some (PNone)), (''summary'', Some (PNone)),
         (''summary_offset'', Some (PNone))],
      ci_runnable = False,
      ci_message = (\<lambda>e. condensation_message e)\<rparr>"

definition CondensationRequestAction_class :: class_info where
  "CondensationRequestAction_class =
     \<lparr>ci_fields =
        [(''action'', Some (PStr ''condensation_request''))],
      ci_runnable = False,
      ci_message = (\<lambda>e. Inr ''Requesting a condensation of the conversation history.'')\<rparr>"

definition MCPAction_class :: class_info where
  "MCPAction_class =
     \<lparr>ci_fields =
        [(''name'', None), (''arguments'', Some (PDict [])), (''thought'', Some (PStr [])),
         (''action'', Some (PStr ''call_tool_mcp'')), (''security_risk'', Some (PInt (-1)))],
      ci_runnable = True,
      ci_message = (\<lambda>e. Inr (''I am interacting with the MCP server with name:'' @ nl @ fence @ nl @ fmt e ''name''
            @ nl @ fence @ nl @ ''and arguments:'' @ nl @ fence @ nl @ fmt e ''arguments'' @ nl @ fence))\<rparr>"

definition TaskTrackingAction_class :: class_info where
  "TaskTrackingAction_class =
     \<lparr>ci_fields =
        [(''command'', Some (PStr ''view'')), (''task_list'', Some (PList [])),
         (''thought'', Some (PStr [])), (''action'', Some (PStr ''task_tracking''))],
      ci_runnable = False,
      ci_message = (\<lambda>e. (case attr e ''task_list'' of
          Some (PList ts) \<Rightarrow>
            Inr (if length ts = 0 then ''Clearing the task list.''
                 else if length ts = 1 then ''Managing 1 task item.''
                 else ''Managing '' @ str_of_nat (length ts) @ '' task items.'')
        | _ \<Rightarrow> Inl (TypeError ''object has no len()'')))\<rparr>"

definition LoopRecoveryAction_class :: class_info where
  "LoopRecoveryAction_class =
     \<lparr>ci_fields =
        [(''option'', Some (PInt 1)), (''action'', Some (PStr ''loop_recovery''))],
      ci_runnable = False,
      ci_message = (\<lambda>e. base_message e)\<rparr>"

definition NullObservation_class :: class_info where
  "NullObservation_class =
     \<lparr>ci_fields =
        [(''content'', None), (''observation'', Some (PStr ''null''))],
      ci_runnable = False,
      ci_message = (\<lambda>e. Inr ''No observation'')\<rparr>"

definition CmdOutputObservation_class :: class_info where
  "CmdOutputObservation_class =
     \<lparr>ci_fields =
        [(''content'', None), (''command'', None), (''observation'', Some (PStr ''run'')),
         (''metadata'', Some (PDict metadata_defaults)), (''hidden'', Some (PBool False))],
      ci_runnable = False,
      ci_message = (\<lambda>e. Inr (''Command `'' @ fmt e ''command'' @ ''` executed with exit code ''
            @ str_of_int (exit_code e) @ ''.''))\<rparr>"

definition IPythonRunCellObservation_class :: class_info where
  "IPythonRunCellObservation_class =
     \<lparr>ci_fields =
        [(''content'', None), (''code'', None),
         (''observation'', Some (PStr ''run_ipython'')), (''image_urls'', Some (PNone))],
      ci_runnable = False,
      ci_message = (\<lambda>e. Inr ''Code executed in IPython cell.'')\<rparr>"

definition BrowserOutputObservation_class :: class_info where
  "BrowserOutputObservation_class =
     \<lparr>ci_fields =
        [(''content'', None), (''url'', None), (''trigger_by_action'', None),
         (''screenshot'', Some (PStr [])), (''screenshot_path'', Some (PNone)),
         (''set_of_marks'', Some (PStr [])), (''error'', Some (PBool False)),
         (''observation'', Some (PStr ''browse'')), (''goal_image_urls'', Some (PList [])),
         (''open_pages_urls'', Some (PList [])), (''active_page_index'', Some (PInt (-1))),
         (''dom_object'', Some (PDict [])), (''axtree_object'', Some (PDict [])),
         (''extra_element_properties'', Some (PDict [])),
         (''last_browser_action'', Some (PStr [])),
         (''last_browser_action_error'', Some (PStr [])),
         (''focused_element_bid'', Some (PStr [])),
         (''filter_visible_only'', Some (PBool False))],
      ci_runnable = False,
      ci_message = (\<lambda>e. Inr (''Visited '' @ fmt e ''url''))\<rparr>"

definition FileReadObservation_class :: class_info where
  "FileReadObservation_class =
     \<lparr>ci_fields =
        [(''content'', None), (''path'', None), (''observation'', Some (PStr ''read'')),
         (''impl_source'', Some (PStr ''default''))],
      ci_runnable = False,
      ci_message = (\<lambda>e. Inr (''I read the file '' @ fmt e ''path'' @ ''.''))\<rparr>"

definition FileWriteObservation_class :: class_info where
  "FileWriteObservation_class =
     \<lparr>ci_fields =
        [(''content'', None), (''path'', None), (''observation'', Some (PStr ''write''))],
      ci_runnable = False,
      ci_message = (\<lambda>e. Inr (''I wrote to the file '' @ fmt e ''path'' @ ''.''))\<rparr>"

definition FileEditObservation_class :: class_info where
  "FileEditObservation_class =
     \<lparr>ci_fields =
        [(''content'', None), (''path'', Some (PStr [])),
         (''prev_exist'', Some (PBool False)), (''old_content'', Some (PNone)),
         (''new_content'', Some (PNone)), (''observation'', Some (PStr ''edit'')),
         (''impl_source'', Some (PStr ''llm_based_edit'')), (''diff'', Some (PNone)),
         (''_diff_cache'', Some (PNone))],
      ci_runnable = False,
      ci_message = (\<lambda>e. Inr (''I edited the file '' @ fmt e ''path'' @ ''.''))\<rparr>"

definition AgentDelegateObservation_class :: class_info where
  "AgentDelegateObservation_class =
     \<lparr>ci_fields =
        [(''content'', None), (''outputs'', None), (''observation'', Some (PStr ''delegate''))],
      ci_runnable = False,
      ci_message = (\<lambda>e. Inr [])\<rparr>"

definition SuccessObservation_class :: class_info where
  "SuccessObservation_class =
     \<lparr>ci_fields =
        [(''content'', None), (''observation'', Some (PStr ''success''))],
      ci_runnable = False,
      ci_message = (\<lambda>e. Inr (fmt e ''content''))\<rparr>"

definition ErrorObservation_class :: class_info where
  "ErrorObservation_class =
     \<lparr>ci_fields =
        [(''content'', None), (''observation'', Some (PStr ''error'')),
         (''error_id'', Some (PStr []))],
      ci_runnable = False,
      ci_message = (\<lambda>e. Inr (fmt e ''content''))\<rparr>"

definition AgentStateChangedObservation_class :: class_info where
  "AgentStateChangedObservation_class =
     \<lparr>ci_fields =
        [(''content'', None), (''agent_state'', None), (''reason'', Some (PStr [])),
         (''observation'', Some (PStr ''agent_state_changed''))],
      ci_runnable = False,
      ci_message = (\<lambda>e. Inr [])\<rparr>"

definition UserRejectObservation_class :: class_info where
  "UserRejectObservation_class =
     \<lparr>ci_fields =
        [(''content'', None), (''observation'', Some (PStr ''user_rejected''))],
      ci_runnable = False,
      ci_message = (\<lambda>e. Inr (fmt e ''content''))\<rparr>"

definition AgentCondensationObservation_class :: class_info where
  "AgentCondensationObservation_class =
     \<lparr>ci_fields =
        [(''content'', None), (''observation'', Some (PStr ''condense''))],
      ci_runnable = False,
      ci_message = (\<lambda>e. Inr (fmt e ''content''))\<rparr>"

definition AgentThinkObservation_class :: class_info where
  "AgentThinkObservation_class =
     \<lparr>ci_fields =
        [(''content'', None), (''observation'', Some (PStr ''think''))],
      ci_runnable = False,
      ci_message = (\<lambda>e. Inr (fmt e ''content''))\<rparr>"

definition RecallObservation_class :: class_info where
  "RecallObservation_class =
     \<lparr>ci_fields =
        [(''content'', None), (''recall_type'', None),
         (''observation'', Some (PStr ''recall'')), (''repo_name'', Some (PStr [])),
         (''repo_directory'', Some (PStr [])), (''repo_branch'', Some (PStr [])),
         (''repo_instructions'', Some (PStr [])), (''runtime_hosts'', Some (PDict [])),
         (''additional_agent_instructions'', Some (PStr [])), (''date'', Some (PStr [])),
         (''custom_secrets_descriptions'', Some (PDict [])),
         (''conversation_instructions'', Some (PStr [])), (''working_dir'', Some (PStr [])),
         (''microagent_knowledge'', Some (PList []))],
      ci_runnable = False,
      ci_message = (\<lambda>e. Inr (if attr e ''recall_type'' = Some (PStr ''workspace_context'')
            then ''Added workspace context'' else ''Added microagent knowledge''))\<rparr>"

definition MCPObservation_class :: class_info where
  "MCPObservation_class =
     \<lparr>ci_fields =
        [(''content'', None), (''observation'', Some (PStr ''mcp'')),
         (''name'', Some (PStr [])), (''arguments'', Some (PDict []))],
      ci_runnable = False,
      ci_message = (\<lambda>e. Inr (fmt e ''content''))\<rparr>"

definition FileDownloadObservation_class :: class_info where
  "FileDownloadObservation_class =
     \<lparr>ci_fields =
        [(''content'', None), (''file_path'', None),
         (''observation'', Some (PStr ''download''))],
      ci_runnable = False,
      ci_message = (\<lambda>e. Inr (''Downloaded the file at location: '' @ fmt e ''file_path''))\<rparr>"

definition TaskTrackingObservation_class :: class_info where
  "TaskTrackingObservation_class =
     \<lparr>ci_fields =
        [(''content'', None), (''observation'', Some (PStr ''task_tracking'')),
         (''command'', Some (PStr [])), (''task_list'', Some (PList []))],
      ci_runnable = False,
      ci_message = (\<lambda>e. Inr (fmt e ''content''))\<rparr>"

definition LoopDetectionObservation_class :: class_info where
  "LoopDetectionObservation_class =
     \<lparr>ci_fields =
        [(''content'', None), (''observation'', Some (PStr ''loop_detection''))],
      ci_runnable = False,
      ci_message = (\<lambda>e. base_message e)\<rparr>"

fun class_of :: "event_class \<Rightarrow> class_info" where
  "class_of NullAction = NullAction_class"
| "class_of CmdRunAction = CmdRunAction_class"
| "class_of IPythonRunCellAction = IPythonRunCellAction_class"
| "class_of BrowseURLAction = BrowseURLAction_class"
| "class_of BrowseInteractiveAction = BrowseInteractiveAction_class"
| "class_of FileReadAction = FileReadAction_class"
| "class_of FileWriteAction = FileWriteAction_class"
| "class_of FileEditAction = FileEditAction_class"
| "class_of AgentThinkAction = AgentThinkAction_class"
| "class_of AgentFinishAction = AgentFinishAction_class"
| "class_of AgentRejectAction = AgentRejectAction_class"
| "class_of AgentDelegateAction = AgentDelegateAction_class"
| "class_of RecallAction = RecallAction_class"
| "class_of ChangeAgentStateAction = ChangeAgentStateAction_class"
| "class_of MessageAction = MessageAction_class"
| "class_of SystemMessageAction = SystemMessageAction_class"
| "class_of CondensationAction = CondensationAction_class"
| "class_of CondensationRequestAction = CondensationRequestAction_class"
| "class_of MCPAction = MCPAction_class"
| "class_of TaskTrackingAction = TaskTrackingAction_class"
| "class_of LoopRecoveryAction = LoopRecoveryAction_class"
| "class_of NullObservation = NullObservation_class"
| "class_of CmdOutputObservation = CmdOutputObservation_class"
| "class_of IPythonRunCellObservation = IPythonRunCellObservation_class"
| "class_of BrowserOutputObservation = BrowserOutputObservation_class"
| "class_of FileReadObservation = FileReadObservation_class"
| "class_of FileWriteObservation = FileWriteObservation_class"
| "class_of FileEditObservation = FileEditObservation_class"
| "class_of AgentDelegateObservation = AgentDelegateObservation_class"
| "class_of SuccessObservation = SuccessObservation_class"
| "class_of ErrorObservation = ErrorObservation_class"
| "class_of AgentStateChangedObservation = AgentStateChangedObservation_class"
| "class_of UserRejectObservation = UserRejectObservation_class"
| "class_of AgentCondensationObservation = AgentCondensationObservation_class"
| "class_of AgentThinkObservation = AgentThinkObservation_class"
| "class_of RecallObservation = RecallObservation_class"
| "class_of MCPObservation = MCPObservation_class"
| "class_of FileDownloadObservation = FileDownloadObservation_class"
| "class_of TaskTrackingObservation = TaskTrackingObservation_class"
| "class_of LoopDetectionObservation = LoopDetectionObservation_class"

lemmas class_defs =
  NullAction_class_def
  CmdRunAction_class_def
  IPythonRunCellAction_class_def
  BrowseURLAction_class_def
  BrowseInteractiveAction_class_def
  FileReadAction_class_def
  FileWriteAction_class_def
  FileEditAction_class_def
  AgentThinkAction_class_def
  AgentFinishAction_class_def
  AgentRejectAction_class_def
  AgentDelegateAction_class_def
  RecallAction_class_def
  ChangeAgentStateAction_class_def
  MessageAction_class_def
  SystemMessageAction_class_def
  CondensationAction_class_def
  CondensationRequestAction_class_def
  MCPAction_class_def
  TaskTrackingAction_class_def
  LoopRecoveryAction_class_def
  NullObservation_class_def
  CmdOutputObservation_class_def
  IPythonRunCellObservation_class_def
  BrowserOutputObservation_class_def
  FileReadObservation_class_def
  FileWriteObservation_class_def
  FileEditObservation_class_def
  AgentDelegateObservation_class_def
  SuccessObservation_class_def
  ErrorObservation_class_def
  AgentStateChangedObservation_class_def
  UserRejectObservation_class_def
  AgentCondensationObservation_class_def
  AgentThinkObservation_class_def
  RecallObservation_class_def
  MCPObservation_class_def
  FileDownloadObservation_class_def
  TaskTrackingObservation_class_def
  LoopDetectionObservation_class_def

section \<open>Construction\<close>

definition blank :: "event_class \<Rightarrow> (string, pyval) dict \<Rightarrow> event" where
  "blank c fs =
     \<lparr>ev_class = c, ev_fields = fs, ev_id = None, ev_timestamp = None, ev_source = None,
      ev_cause = None, ev_timeout = None, ev_tool_call_metadata = None,
      ev_llm_metrics = None, ev_dyn = []\<rparr>"

definition bind_args ::
  "(string \<times> pyval option) list \<Rightarrow> (string, pyval) dict \<Rightarrow> ((string, pyval) dict) res" where
  \<comment> \<open>keyword arguments against a parameter list\<close>
  "bind_args spec kw =
     (if \<exists>k\<in>set (map fst kw). k \<notin> set (map fst spec)
      then Inl (TypeError ''got an unexpected keyword argument'')
      else if \<exists>p\<in>set spec. snd p = None \<and> map_of kw (fst p) = None
      then Inl (TypeError ''missing required positional argument'')
      else Inr (map (\<lambda>p. (fst p, case map_of kw (fst p) of
                                   Some v \<Rightarrow> v
                                 | None \<Rightarrow> (case snd p of Some d \<Rightarrow> d | None \<Rightarrow> PNone))) spec))"

subsection \<open>Truncation\<close>

definition truncation_notice :: string where
  "truncation_notice = nl @ ''[... Observation truncated due to length ...]'' @ nl"

definition truncate_content :: "string \<Rightarrow> int option \<Rightarrow> string" where
  "truncate_content s max_chars =
     (case max_chars of
        None \<Rightarrow> s
      | Some m \<Rightarrow>
          if int (length s) \<le> m \<or> m < 0 then s
          else (let half = m div 2
                in slice_to s half @ truncation_notice @ slice_from s (- half)))"

definition MAX_CMD_OUTPUT_SIZE :: int where
  "MAX_CMD_OUTPUT_SIZE = 30000"

definition maybe_truncate :: "string \<Rightarrow> int \<Rightarrow> string" where
  "maybe_truncate s max_size =
     (if int (length s) \<le> max_size then s
      else (let half = max_size div 2
            in slice_to s half @ truncation_notice @ slice_from s (- half)))"

subsection \<open>Initialisers\<close>

definition cmd_output_init :: "(string, pyval) dict \<Rightarrow> event res" where
  \<comment> \<open>\<^verbatim>\<open>CmdOutputObservation.__init__\<close>; further keyword arguments are accepted\<close>
  "cmd_output_init kw =
     (case (map_of kw ''content'', map_of kw ''command'') of
        (Some (PStr s), Some cmd) \<Rightarrow>
          (let hidden = (map_of kw ''hidden'' = Some (PBool True));
               s' = (if hidden then s else maybe_truncate s MAX_CMD_OUTPUT_SIZE);
               md0 = (case map_of kw ''metadata'' of
                        Some (PDict d) \<Rightarrow> metadata_init d | _ \<Rightarrow> metadata_defaults);
               md1 = (case map_of kw ''exit_code'' of
                        Some v \<Rightarrow> dict_set ''exit_code'' v md0 | None \<Rightarrow> md0);
               md2 = (case map_of kw ''command_id'' of
                        Some v \<Rightarrow> dict_set ''pid'' v md1 | None \<Rightarrow> md1);
               obs = (case map_of kw ''observation'' of Some v \<Rightarrow> v | None \<Rightarrow> PStr ''run'')
           in Inr (blank CmdOutputObservation
                [(''content'', PStr s'), (''command'', cmd), (''observation'', obs),
                 (''metadata'', PDict md2), (''hidden'', PBool hidden)]))
      | _ \<Rightarrow> Inl (TypeError ''missing required positional argument''))"

definition dataclass_init :: "event_class \<Rightarrow> (string, pyval) dict \<Rightarrow> event res" where
  \<comment> \<open>\<^verbatim>\<open>cls(**kw)\<close>, with the \<^verbatim>\<open>__post_init__\<close> of \<^verbatim>\<open>CondensationAction\<close>\<close>
  "dataclass_init c kw =
     (if c = CmdOutputObservation then cmd_output_init kw
      else case bind_args (ci_fields (class_of c)) kw of
             Inl err \<Rightarrow> Inl err
           | Inr fs \<Rightarrow>
               (let e = blank c fs
                in if c = CondensationAction \<and> \<not> validate_field_polymorphism e
                   then Inl invalid_fields else Inr e))"

definition message :: "event \<Rightarrow> string res" where
  "message e = ci_message (class_of (ev_class e)) e"

definition runnable :: "event \<Rightarrow> bool" where
  "runnable e \<longleftrightarrow> ci_runnable (class_of (ev_class e))"

end
