(* ===== verification/View_Model.thy ===== *)
theory View_Model
  imports Event_Classes
begin

text \<open>
  \<^verbatim>\<open>openhands/memory/view.py\<close>: the view is the part of the history that is sent to the
  model.  \<open>from_events\<close> applies the condensation events found in the history: it drops
  the forgotten events, the condensation events themselves and the condensation
  requests, and inserts the most recent summary at its offset.
\<close>

section \<open>The view\<close>

record view =
  v_events :: "event list"
  v_unhandled :: bool
  v_forgotten :: "int set"

definition view_len :: "view \<Rightarrow> int" where
  "view_len v = int (length (v_events v))"

definition view_getitem :: "view \<Rightarrow> int \<Rightarrow> event res" where
  \<comment> \<open>\<^verbatim>\<open>view[i]\<close>\<close>
  "view_getitem v i =
     (case py_get (v_events v) i of Some e \<Rightarrow> Inr e | None \<Rightarrow> Inl (IndexError ''list index out of range''))"

definition view_slice :: "view \<Rightarrow> int \<Rightarrow> int \<Rightarrow> event list" where
  \<comment> \<open>\<^verbatim>\<open>view[a:b]\<close>: \<^verbatim>\<open>slice.indices\<close>, then one lookup per position\<close>
  "view_slice v a b =
     (let n = view_len v; start = py_clip n a; stop = py_clip n b
      in map (\<lambda>i. v_events v ! nat i) (py_range start stop))"

section \<open>Building a view\<close>

fun collect_forgotten :: "event list \<Rightarrow> int set \<Rightarrow> (int set) res" where
  "collect_forgotten [] acc = Inr acc"
| "collect_forgotten (e # es) acc =
     (if is_a e CondensationAction
      then (case forgotten e of
              Inl err \<Rightarrow> Inl err
            | Inr ids \<Rightarrow> collect_forgotten es (insert (eid e) (acc \<union> set ids)))
      else if is_a e CondensationRequestAction
      then collect_forgotten es (insert (eid e) acc)
      else collect_forgotten es acc)"

fun summary_of :: "event list \<Rightarrow> (string \<times> int) option" where
  \<comment> \<open>first match in the list it is given, which is the reversed history\<close>
  "summary_of [] = None"
| "summary_of (e # es) =
     (if is_a e CondensationAction
      then (case (ostr_attr e ''summary'', int_attr e ''summary_offset'') of
              (Some s, Some k) \<Rightarrow> Some (s, k)
            | _ \<Rightarrow> summary_of es)
      else summary_of es)"

fun unhandled_request :: "event list \<Rightarrow> bool" where
  \<comment> \<open>over the reversed history\<close>
  "unhandled_request [] = False"
| "unhandled_request (e # es) =
     (if is_a e CondensationAction then False
      else if is_a e CondensationRequestAction then True
      else unhandled_request es)"

definition condensation_observation :: "string \<Rightarrow> event" where
  \<comment> \<open>\<^verbatim>\<open>AgentCondensationObservation(content=s)\<close>\<close>
  "condensation_observation s =
     blank AgentCondensationObservation [(''content'', PStr s), (''observation'', PStr ''condense'')]"

definition from_events :: "event list \<Rightarrow> view res" where
  "from_events events =
     (case collect_forgotten events {} of
        Inl err \<Rightarrow> Inl err
      | Inr F \<Rightarrow>
          (let kept = filter (\<lambda>e. eid e \<notin> F) events;
               kept' = (case summary_of (rev events) of
                          Some (s, k) \<Rightarrow> py_insert kept k (condensation_observation s)
                        | None \<Rightarrow> kept)
           in Inr \<lparr>v_events = kept', v_unhandled = unhandled_request (rev events),
                   v_forgotten = F\<rparr>))"

section \<open>Facts\<close>

lemma condensation_observation_init:
  "dataclass_init AgentCondensationObservation [(''content'', PStr s)]
     = Inr (condensation_observation s)"
  by (simp add: dataclass_init_def bind_args_def AgentCondensationObservation_class_def
      condensation_observation_def Let_def)

lemma condensation_observation_simps [simp]:
  "ev_class (condensation_observation s) = AgentCondensationObservation"
  "eid (condensation_observation s) = INVALID_ID"
  by (simp_all add: condensation_observation_def blank_def eid_def)

lemma view_slice_eq: "view_slice v a b = slice (v_events v) a b"
proof -
  let ?xs = "v_events v"
  let ?n = "int (length ?xs)"
  have b: "0 \<le> py_clip ?n a" "py_clip ?n b \<le> ?n"
    by (auto simp: py_clip_def)
  have "take (nat (py_clip ?n b - py_clip ?n a)) (drop (nat (py_clip ?n a)) ?xs) =
        map (\<lambda>i. ?xs ! nat i) (py_range (py_clip ?n a) (py_clip ?n b))"
    by (rule nth_equalityI) (use b in \<open>auto simp: nth_py_range nat_add_distrib nat_diff_distrib'\<close>)
  then show ?thesis by (simp add: view_slice_def slice_def view_len_def Let_def)
qed

lemma collect_forgotten_acc:
  "collect_forgotten es acc = Inr F \<Longrightarrow> acc \<subseteq> F"
  by (induction es acc rule: collect_forgotten.induct) (auto split: if_splits sum.splits)

lemma collect_forgotten_bookkeeping:
  "collect_forgotten es acc = Inr F \<Longrightarrow> e \<in> set es \<Longrightarrow>
   ev_class e = CondensationAction \<or> ev_class e = CondensationRequestAction \<Longrightarrow> eid e \<in> F"
proof (induction es acc rule: collect_forgotten.induct)
  case (2 x es acc)
  then show ?case
    by (auto split: if_splits sum.splits dest: collect_forgotten_acc)
qed simp

lemma collect_forgotten_append:
  "collect_forgotten (xs @ ys) acc =
     (case collect_forgotten xs acc of Inl err \<Rightarrow> Inl err | Inr F \<Rightarrow> collect_forgotten ys F)"
  by (induction xs acc rule: collect_forgotten.induct) (auto split: sum.splits)

lemma unhandled_request_iff:
  "unhandled_request es \<longleftrightarrow>
     (\<exists>e\<in>set (takeWhile (\<lambda>x. \<not> is_a x CondensationAction) es). is_a e CondensationRequestAction)"
  by (induction es) auto

lemma from_events_Inr:
  assumes "from_events es = Inr v"
  obtains F where "collect_forgotten es {} = Inr F" and "v_forgotten v = F"
    and "v_unhandled v = unhandled_request (rev es)"
    and "v_events v = (case summary_of (rev es) of
           Some (s, k) \<Rightarrow> py_insert (filter (\<lambda>e. eid e \<notin> F) es) k (condensation_observation s)
         | None \<Rightarrow> filter (\<lambda>e. eid e \<notin> F) es)"
  using assms by (auto simp: from_events_def Let_def split: sum.splits)

lemma set_view_events:
  assumes "from_events es = Inr v" "e \<in> set (v_events v)"
  shows "(e \<in> set es \<and> eid e \<notin> v_forgotten v) \<or> (\<exists>s. e = condensation_observation s)"
  using assms(2)
  by (rule_tac from_events_Inr[OF assms(1)]) (auto split: option.splits)

end
