(* ===== verification/Condensers.thy ===== *)
theory Condensers
  imports View_Model
begin

text \<open>
  The condensers (\<^verbatim>\<open>openhands/memory/condenser/\<close>): strategies that either rewrite the view
  or answer with a condensation event.  What a language model answers is a parameter
  (the record \<open>llm\<close>): the prompts are not modelled, their inputs are.  A condenser is a
  value of the datatype \<open>condenser\<close>, one constructor per class; \<open>make_*\<close> are the checking
  constructors.  The locale \<open>rolling\<close> states what \<^verbatim>\<open>RollingCondenser\<close> does with a
  threshold and a condensation function.
\<close>

section \<open>Results and metadata\<close>

datatype condense_result = CView view | CCondensation event

definition CONDENSER_METADATA_KEY :: string where
  "CONDENSER_METADATA_KEY = ''condenser_meta''"

definition get_condensation_metadata :: "(string, pyval) dict \<Rightarrow> pyval list" where
  "get_condensation_metadata extra_data =
     (case map_of extra_data CONDENSER_METADATA_KEY of Some (PList bs) \<Rightarrow> bs | _ \<Rightarrow> [])"

definition add_metadata :: "string \<Rightarrow> pyval \<Rightarrow> (string, pyval) dict \<Rightarrow> (string, pyval) dict" where
  "add_metadata k v batch = dict_set k v batch"

definition write_metadata ::
  "(string, pyval) dict \<Rightarrow> (string, pyval) dict \<Rightarrow> (string, pyval) dict \<times> (string, pyval) dict" where
  \<comment> \<open>the new batch and the new \<^verbatim>\<open>extra_data\<close>\<close>
  "write_metadata batch extra_data =
     (let ex1 = (if dict_has CONDENSER_METADATA_KEY extra_data then extra_data
                 else dict_set CONDENSER_METADATA_KEY (PList []) extra_data);
          ex2 = (if batch \<noteq> []
                 then dict_set CONDENSER_METADATA_KEY
                        (PList (get_condensation_metadata ex1 @ [PDict batch])) ex1
                 else ex1)
      in ([], ex2))"

section \<open>Condensation actions\<close>

definition condensation_ids :: "int list \<Rightarrow> event res" where
  "condensation_ids ids =
     dataclass_init CondensationAction [(''forgotten_event_ids'', PList (map PInt ids))]"

definition condensation_range :: "int \<Rightarrow> int \<Rightarrow> event res" where
  "condensation_range a b =
     dataclass_init CondensationAction
       [(''forgotten_events_start_id'', PInt a), (''forgotten_events_end_id'', PInt b)]"

definition condensation_summary :: "int \<Rightarrow> int \<Rightarrow> string option \<Rightarrow> int \<Rightarrow> event res" where
  "condensation_summary a b s k =
     dataclass_init CondensationAction
       [(''forgotten_events_start_id'', PInt a), (''forgotten_events_end_id'', PInt b),
        (''summary'', case s of Some t \<Rightarrow> PStr t | None \<Rightarrow> PNone), (''summary_offset'', PInt k)]"

definition as_condensation :: "event res \<Rightarrow> condense_result res" where
  "as_condensation r = (case r of Inl err \<Rightarrow> Inl err | Inr e \<Rightarrow> Inr (CCondensation e))"

section \<open>Condensers that rewrite the view\<close>

definition plain_view :: "event list \<Rightarrow> view" where
  \<comment> \<open>\<^verbatim>\<open>View(events=es)\<close>\<close>
  "plain_view es = \<lparr>v_events = es, v_unhandled = False, v_forgotten = {}\<rparr>"

definition noop_condense :: "view \<Rightarrow> condense_result res" where
  "noop_condense v = Inr (CView v)"

fun mask_from :: "int \<Rightarrow> int \<Rightarrow> event list \<Rightarrow> event list" where
  \<comment> \<open>\<open>i\<close> is the position of the head, \<open>limit\<close> the first position that is not masked\<close>
  "mask_from i limit [] = []"
| "mask_from i limit (e # es) =
     (if is_observation e \<and> i < limit then condensation_observation ''<MASKED>'' else e)
       # mask_from (i + 1) limit es"

definition observation_masking_condense :: "int \<Rightarrow> view \<Rightarrow> condense_result res" where
  "observation_masking_condense attention_window v =
     Inr (CView (plain_view (mask_from 0 (view_len v - attention_window) (v_events v))))"

fun browser_mask :: "int \<Rightarrow> int \<Rightarrow> event list \<Rightarrow> event list" where
  \<comment> \<open>over the reversed view; \<open>cnt\<close> browser outputs have been kept\<close>
  "browser_mask window cnt [] = []"
| "browser_mask window cnt (e # es) =
     (if is_a e BrowserOutputObservation \<and> cnt \<ge> window
      then condensation_observation (''Visited URL '' @ fmt e ''url'' @ nl @ ''Content omitted'')
             # browser_mask window cnt es
      else e # browser_mask window (if is_a e BrowserOutputObservation then cnt + 1 else cnt) es)"

definition browser_output_condense :: "int \<Rightarrow> view \<Rightarrow> condense_result res" where
  "browser_output_condense attention_window v =
     Inr (CView (plain_view (rev (browser_mask attention_window 0 (rev (v_events v))))))"

definition recent_events_condense :: "int \<Rightarrow> int \<Rightarrow> view \<Rightarrow> condense_result res" where
  "recent_events_condense keep_first max_events v =
     (let head = view_slice v 0 keep_first;
          tail_length = max 0 (max_events - int (length head));
          tail = view_slice v (- tail_length) (view_len v)
      in Inr (CView (plain_view (head @ tail))))"

section \<open>Rolling condensers\<close>

definition half_message :: "int \<Rightarrow> int \<Rightarrow> string" where
  "half_message max_size keep_first = ''keep_first ('' @ str_of_int keep_first
     @ '') must be less than half of max_size ('' @ str_of_int max_size @ '')''"

definition negative_message :: "int \<Rightarrow> string" where
  "negative_message keep_first = ''keep_first ('' @ str_of_int keep_first @ '') cannot be negative''"

definition size_message :: "int \<Rightarrow> string" where
  "size_message shown = ''max_size ('' @ str_of_int shown @ '') cannot be non-positive''"

definition amortized_init :: "int \<Rightarrow> int \<Rightarrow> unit res" where
  \<comment> \<open>the last message prints \<^verbatim>\<open>keep_first\<close>, as in the source\<close>
  "amortized_init max_size keep_first =
     (if keep_first \<ge> max_size div 2 then Inl (ValueError (half_message max_size keep_first))
      else if keep_first < 0 then Inl (ValueError (negative_message keep_first))
      else if max_size < 1 then Inl (ValueError (size_message keep_first))
      else Inr ())"

definition attention_init :: "bool \<Rightarrow> int \<Rightarrow> int \<Rightarrow> unit res" where
  \<comment> \<open>the first argument is \<^verbatim>\<open>supports_response_schema\<close> for the configured model\<close>
  "attention_init schema_supported max_size keep_first =
     (if keep_first \<ge> max_size div 2 then Inl (ValueError (half_message max_size keep_first))
      else if keep_first < 0 then Inl (ValueError (negative_message keep_first))
      else if max_size < 1 then Inl (ValueError (size_message keep_first))
      else if \<not> schema_supported
      then Inl (ValueError (''The LLM model must support the '' @ [CHR 0x27] @ ''response_schema''
             @ [CHR 0x27] @ '' parameter to use the LLMAttentionCondenser.''))
      else Inr ())"

definition summarizing_init :: "int \<Rightarrow> int \<Rightarrow> unit res" where
  "summarizing_init max_size keep_first =
     (if keep_first \<ge> max_size div 2 then Inl (ValueError (half_message max_size keep_first))
      else if keep_first < 0 then Inl (ValueError (negative_message keep_first))
      else if max_size < 1 then Inl (ValueError (size_message max_size))
      else Inr ())"

definition structured_init :: "bool \<Rightarrow> int \<Rightarrow> int \<Rightarrow> unit res" where
  \<comment> \<open>the first argument is \<^verbatim>\<open>llm.is_function_calling_active()\<close>\<close>
  "structured_init function_calling max_size keep_first =
     (if keep_first \<ge> max_size div 2 then Inl (ValueError (half_message max_size keep_first))
      else if keep_first < 0 then Inl (ValueError (negative_message keep_first))
      else if max_size < 1 then Inl (ValueError (size_message max_size))
      else if \<not> function_calling
      then Inl (ValueError ''LLM must support function calling to use StructuredSummaryCondenser'')
      else Inr ())"

definition over_size :: "int \<Rightarrow> view \<Rightarrow> bool" where
  \<comment> \<open>\<^verbatim>\<open>should_condense\<close> of the threshold condensers\<close>
  "over_size max_size v \<longleftrightarrow> view_len v > max_size \<or> v_unhandled v"

definition rolling_condense ::
  "(view \<Rightarrow> bool) \<Rightarrow> (view \<Rightarrow> event res) \<Rightarrow> view \<Rightarrow> condense_result res" where
  \<comment> \<open>\<^verbatim>\<open>RollingCondenser.condense\<close>\<close>
  "rolling_condense should_condense get_condensation v =
     (if should_condense v then as_condensation (get_condensation v) else Inr (CView v))"

subsection \<open>Amortized forgetting\<close>

definition amortized_get_condensation :: "int \<Rightarrow> int \<Rightarrow> view \<Rightarrow> event res" where
  "amortized_get_condensation max_size keep_first v =
     (let target_size = max_size div 2;
          head = view_slice v 0 keep_first;
          events_from_tail = target_size - int (length head);
          tail = view_slice v (- events_from_tail) (view_len v);
          event_ids_to_keep = set (map eid (head @ tail));
          event_ids_to_forget = filter (\<lambda>i. i \<notin> event_ids_to_keep) (map eid (v_events v))
      in case py_min event_ids_to_forget of
           Inl err \<Rightarrow> Inl err
         | Inr a \<Rightarrow> (case py_max event_ids_to_forget of
                      Inl err \<Rightarrow> Inl err
                    | Inr b \<Rightarrow> condensation_range a b))"

subsection \<open>Attention\<close>

fun fill_ids :: "int \<Rightarrow> event list \<Rightarrow> int list \<Rightarrow> int list" where
  "fill_ids k [] ids = ids"
| "fill_ids k (e # es) ids =
     (if int (length ids) \<ge> k then ids
      else fill_ids k es (if eid e \<notin> set ids then ids @ [eid e] else ids))"

definition attention_get_condensation ::
  "(event list \<Rightarrow> int list) \<Rightarrow> int \<Rightarrow> int \<Rightarrow> view \<Rightarrow> event res" where
  \<comment> \<open>the first argument is the list of ids that the model answers for the events of the view\<close>
  "attention_get_condensation answer max_size keep_first v =
     (let target_size = max_size div 2;
          head_event_ids = map eid (slice_to (v_events v) keep_first);
          events_from_tail = target_size - int (length head_event_ids);
          response_ids = slice_to (filter (\<lambda>i. i \<notin> set head_event_ids) (answer (v_events v)))
                           events_from_tail;
          response_ids' = fill_ids events_from_tail (rev (v_events v)) response_ids
      in condensation_ids
           (filter (\<lambda>i. i \<notin> set response_ids' \<and> i \<notin> set head_event_ids) (map eid (v_events v))))"

subsection \<open>Summaries\<close>

definition summary_parts ::
  "int \<Rightarrow> int \<Rightarrow> view \<Rightarrow> (event \<times> event list) res" where
  \<comment> \<open>the previous summary event and the events to be forgotten\<close>
  "summary_parts max_size keep_first v =
     (let head = view_slice v 0 keep_first;
          target_size = max_size div 2;
          events_from_tail = target_size - int (length head) - 1
      in case view_getitem v keep_first of
           Inl err \<Rightarrow> Inl err
         | Inr e \<Rightarrow>
             Inr (if is_a e AgentCondensationObservation then e
                  else condensation_observation ''No events summarized'',
                  filter (\<lambda>x. \<not> is_a x AgentCondensationObservation)
                    (view_slice v keep_first (- events_from_tail))))"

definition summary_condensation ::
  "(string \<Rightarrow> event list \<Rightarrow> string option) \<Rightarrow> int \<Rightarrow> int \<Rightarrow> int \<Rightarrow> view \<Rightarrow> event res" where
  \<comment> \<open>\<^verbatim>\<open>get_condensation\<close> of the two summarising condensers; \<open>answer\<close> is the summary the model
      gives for the truncated previous summary and the forgotten events\<close>
  "summary_condensation answer max_size keep_first max_event_length v =
     (case summary_parts max_size keep_first v of
        Inl err \<Rightarrow> Inl err
      | Inr (summary_event, forgotten_events) \<Rightarrow>
          (let summary = answer (truncate_content (content summary_event) (Some max_event_length))
                           forgotten_events
           in case py_min (map eid forgotten_events) of
                Inl err \<Rightarrow> Inl err
              | Inr a \<Rightarrow> (case py_max (map eid forgotten_events) of
                           Inl err \<Rightarrow> Inl err
                         | Inr b \<Rightarrow> condensation_summary a b summary keep_first)))"

definition state_summary_fields :: "(string \<times> string) list" where
  \<comment> \<open>the sections of \<^verbatim>\<open>StateSummary.__str__\<close>; an empty field name is a heading\<close>
  "state_summary_fields =
     [(''# State Summary'', []), (''## Core Information'', []),
      (''User Context'', ''user_context''), (''Completed Tasks'', ''completed_tasks''),
      (''Pending Tasks'', ''pending_tasks''), (''Current State'', ''current_state''),
      (''## Code Changes'', []),
      (''Files Modified'', ''files_modified''), (''Function Changes'', ''function_changes''),
      (''Data Structures'', ''data_structures''), (''Dependencies'', ''dependencies''),
      (''## Testing Status'', []),
      (''Tests Written'', ''tests_written''), (''Tests Passing'', ''tests_passing''),
      (''Failing Tests'', ''failing_tests''), (''Error Messages'', ''error_messages''),
      (''## Version Control'', []),
      (''Branch Created'', ''branch_created''), (''Branch Name'', ''branch_name''),
      (''Commits Made'', ''commits_made''), (''PR Created'', ''pr_created''),
      (''PR Status'', ''pr_status''),
      (''## Additional Context'', []),
      (''Other Relevant Context'', ''other_relevant_context'')]"

definition state_summary_str :: "(string \<Rightarrow> string) \<Rightarrow> string" where
  \<comment> \<open>\<^verbatim>\<open>str(summary)\<close> for a summary given by its field values\<close>
  "state_summary_str val =
     join (nl @ nl)
       (map (\<lambda>(label, f). if f = [] then label else ''**'' @ label @ ''**: '' @ val f)
            state_summary_fields)"

definition state_summary_validate :: "(string, pyval) dict \<Rightarrow> (string \<Rightarrow> string) option" where
  \<comment> \<open>\<^verbatim>\<open>StateSummary.model_validate\<close>: a field must be a string, missing ones are empty,
      other keys are ignored; \<^const>\<open>None\<close> is a validation error\<close>
  "state_summary_validate args =
     (if \<forall>p\<in>set state_summary_fields. snd p \<noteq> [] \<longrightarrow>
           (case map_of args (snd p) of None \<Rightarrow> True | Some (PStr _) \<Rightarrow> True | Some _ \<Rightarrow> False)
      then Some (\<lambda>f. case map_of args f of Some (PStr s) \<Rightarrow> s | _ \<Rightarrow> [])
      else None)"

definition structured_summary :: "(string \<times> pyval option) list \<Rightarrow> string" where
  \<comment> \<open>from the tool calls of the response, each a name and its parsed arguments; every
      failure gives the empty summary\<close>
  "structured_summary tool_calls =
     (case find (\<lambda>c. fst c = ''create_state_summary'') tool_calls of
        Some (_, Some (PDict args)) \<Rightarrow>
          (case state_summary_validate args of
             Some val \<Rightarrow> state_summary_str val
           | None \<Rightarrow> state_summary_str (\<lambda>_. []))
      | _ \<Rightarrow> state_summary_str (\<lambda>_. []))"

subsection \<open>Conversation window\<close>

fun first_after :: "(event \<Rightarrow> bool) \<Rightarrow> event list \<Rightarrow> (event \<times> event list) option" where
  \<comment> \<open>the first match and what follows it\<close>
  "first_after P [] = None"
| "first_after P (e # es) = (if P e then Some (e, es) else first_after P es)"

definition essential_ids :: "event list \<Rightarrow> event \<Rightarrow> int list" where
  \<comment> \<open>steps 1 and 2 of \<^verbatim>\<open>get_condensation\<close>: system message, first user message, its recall
      action and that action's observation\<close>
  "essential_ids events first_user_msg =
     (let sys = (case find (\<lambda>e. is_a e SystemMessageAction) events of
                   Some s \<Rightarrow> [eid s] | None \<Rightarrow> []);
          rest = (case first_after from_user events of Some (_, es) \<Rightarrow> es | None \<Rightarrow> []);
          recall = (case first_after
                      (\<lambda>e. is_a e RecallAction \<and> attr e ''query'' = attr first_user_msg ''content'')
                      rest of
                      None \<Rightarrow> []
                    | Some (r, es) \<Rightarrow>
                        eid r # (case find (\<lambda>o'. is_observation o' \<and> ev_cause o' = Some (eid r)) es of
                                   Some ob \<Rightarrow> [eid ob] | None \<Rightarrow> []))
      in sys @ [eid first_user_msg] @ recall)"

definition first_valid_index :: "event list \<Rightarrow> nat" where
  \<comment> \<open>position of the first event that is not an observation, else the length\<close>
  "first_valid_index es =
     (case first_idx (\<lambda>e. \<not> is_observation e) es of Some i \<Rightarrow> i | None \<Rightarrow> length es)"

definition window_keep_from :: "event list \<Rightarrow> int list \<Rightarrow> nat" where
  \<comment> \<open>steps 2 and 3: index of the first recent event that is kept\<close>
  "window_keep_from events essential =
     (let total = int (length events);
          num_non_essential = total - int (length essential);
          num_recent_to_keep = max 1 (num_non_essential div 2);
          slice_start = max 0 (total - num_recent_to_keep)
      in nat slice_start + first_valid_index (slice_from events slice_start))"

definition window_forgotten :: "event list \<Rightarrow> int list \<Rightarrow> int list" where
  \<comment> \<open>step 4: the sorted ids to forget\<close>
  "window_forgotten events essential =
     (let keep = set essential \<union> set (map eid (drop (window_keep_from events essential) events))
      in sorted_list_of_set (set (map eid events) - keep))"

definition window_get_condensation :: "view \<Rightarrow> event res" where
  "window_get_condensation v =
     (let events = v_events v
      in if events = [] then condensation_ids []
         else case find from_user events of
                None \<Rightarrow> condensation_ids []
              | Some first_user_msg \<Rightarrow>
                  (let ids = window_forgotten events (essential_ids events first_user_msg)
                   in if ids \<noteq> []
                      then if length ids > 1 \<and> last ids - hd ids = int (length ids) - 1
                           then condensation_range (hd ids) (last ids)
                           else condensation_ids ids
                      else condensation_ids []))"

section \<open>The condenser as configured\<close>

record llm =
  rank_ids :: "event list \<Rightarrow> int list"
  summarise :: "string \<Rightarrow> event list \<Rightarrow> string option"
  summary_tool_calls :: "string \<Rightarrow> event list \<Rightarrow> (string \<times> pyval option) list"

datatype condenser =
    NoOpCondenser
  | ObservationMaskingCondenser int
  | BrowserOutputCondenser int
  | RecentEventsCondenser int int
  | AmortizedForgettingCondenser int int
  | LLMAttentionCondenser int int
  | LLMSummarizingCondenser int int int
  | StructuredSummaryCondenser int int int
  | ConversationWindowCondenser
  | CondenserPipeline "condenser list"

fun condense :: "llm \<Rightarrow> condenser \<Rightarrow> view \<Rightarrow> condense_result res"
and condense_all :: "llm \<Rightarrow> condenser list \<Rightarrow> view \<Rightarrow> condense_result res" where
  "condense m NoOpCondenser v = noop_condense v"
| "condense m (ObservationMaskingCondenser w) v = observation_masking_condense w v"
| "condense m (BrowserOutputCondenser w) v = browser_output_condense w v"
| "condense m (RecentEventsCondenser k n) v = recent_events_condense k n v"
| "condense m (AmortizedForgettingCondenser n k) v =
     rolling_condense (over_size n) (amortized_get_condensation n k) v"
| "condense m (LLMAttentionCondenser n k) v =
     rolling_condense (over_size n) (attention_get_condensation (rank_ids m) n k) v"
| "condense m (LLMSummarizingCondenser n k l) v =
     rolling_condense (over_size n) (summary_condensation (summarise m) n k l) v"
| "condense m (StructuredSummaryCondenser n k l) v =
     rolling_condense (over_size n)
       (summary_condensation (\<lambda>p es. Some (structured_summary (summary_tool_calls m p es))) n k l) v"
| "condense m ConversationWindowCondenser v =
     rolling_condense v_unhandled window_get_condensation v"
| "condense m (CondenserPipeline cs) v = condense_all m cs v"
| "condense_all m [] v = Inr (CView v)"
| "condense_all m (c # cs) v =
     (case condense m c v of
        Inl err \<Rightarrow> Inl err
      | Inr (CCondensation e) \<Rightarrow> Inr (CCondensation e)
      | Inr (CView v') \<Rightarrow> condense_all m cs v')"

end
