(* ===== verification/Condensation_Laws.thy ===== *)
theory Condensation_Laws
  imports Condensers
begin

text \<open>
  What the condensers guarantee.  The central question is what the next view looks like
  once a condensation has been added to the history: for the threshold condensers it has
  exactly half the configured size, so that the condenser does not trigger again.  The
  locale \<open>rolling\<close> carries that argument; the amortized and the summarising condensers
  are instances of it for every configuration their constructors accept and that can
  condense at all.
\<close>

section \<open>Condensation actions\<close>

lemma condensation_ids_eq:
  "condensation_ids ids = Inr (blank CondensationAction
     [(''action'', PStr ''condensation''), (''forgotten_event_ids'', PList (map PInt ids)),
      (''forgotten_events_start_id'', PNone), (''forgotten_events_end_id'', PNone),
      (''summary'', PNone), (''summary_offset'', PNone)])"
  by (simp add: condensation_ids_def dataclass_init_def bind_args_def CondensationAction_class_def
      validate_field_polymorphism_def given_def attr_def blank_def Let_def)

lemma condensation_range_eq:
  "condensation_range a b = Inr (blank CondensationAction
     [(''action'', PStr ''condensation''), (''forgotten_event_ids'', PNone),
      (''forgotten_events_start_id'', PInt a), (''forgotten_events_end_id'', PInt b),
      (''summary'', PNone), (''summary_offset'', PNone)])"
  by (simp add: condensation_range_def dataclass_init_def bind_args_def CondensationAction_class_def
      validate_field_polymorphism_def given_def attr_def blank_def Let_def)
lemma condensation_summary_Some:
  "condensation_summary a b (Some s) k = Inr (blank CondensationAction
     [(''action'', PStr ''condensation''), (''forgotten_event_ids'', PNone),
      (''forgotten_events_start_id'', PInt a), (''forgotten_events_end_id'', PInt b),
      (''summary'', PStr s), (''summary_offset'', PInt k)])"
  by (simp add: condensation_summary_def dataclass_init_def bind_args_def CondensationAction_class_def
      validate_field_polymorphism_def given_def attr_def blank_def Let_def)
lemma condensation_summary_None:
  "condensation_summary a b None k = Inl invalid_fields"
  by (simp add: condensation_summary_def dataclass_init_def bind_args_def CondensationAction_class_def
      validate_field_polymorphism_def given_def attr_def blank_def Let_def)
lemma ints_of_PInt: "ints_of (map PInt ids) = ids"
  by (induction ids) auto
lemma forgotten_condensation_ids:
  "condensation_ids ids = Inr e \<Longrightarrow> forgotten e = Inr ids"
  by (auto simp: condensation_ids_eq forgotten_def validate_field_polymorphism_def given_def
      attr_def blank_def Let_def ints_attr_def ints_of_PInt)
lemma forgotten_condensation_range:
  "condensation_range a b = Inr e \<Longrightarrow> forgotten e = Inr (py_range a (b + 1))"
  by (auto simp: condensation_range_eq forgotten_def validate_field_polymorphism_def given_def
      attr_def blank_def Let_def ints_attr_def int_attr_def)
lemma forgotten_condensation_summary:
  "condensation_summary a b s k = Inr e \<Longrightarrow> forgotten e = Inr (py_range a (b + 1))"
  by (cases s) (auto simp: condensation_summary_Some condensation_summary_None forgotten_def
      validate_field_polymorphism_def given_def
      attr_def blank_def Let_def ints_attr_def int_attr_def)

section \<open>Histories with increasing ids\<close>

definition id_sorted :: "event list \<Rightarrow> bool" where
  "id_sorted es \<longleftrightarrow> sorted_wrt (<) (map eid es)"

lemma id_sorted_filter: "id_sorted es \<Longrightarrow> id_sorted (filter P es)"
  by (auto simp: id_sorted_def sorted_wrt_map intro: sorted_wrt_filter)

lemma id_sorted_nth: "id_sorted es \<Longrightarrow> i < j \<Longrightarrow> j < length es \<Longrightarrow> eid (es ! i) < eid (es ! j)"
  by (simp add: id_sorted_def sorted_wrt_iff_nth_less)

lemma id_sorted_nth_less_iff:
  "id_sorted es \<Longrightarrow> i < length es \<Longrightarrow> j < length es \<Longrightarrow> eid (es ! i) < eid (es ! j) \<longleftrightarrow> i < j"
  by (metis id_sorted_nth linorder_neqE_nat order_less_asym order_less_irrefl)

lemma id_sorted_distinct: "id_sorted es \<Longrightarrow> distinct (map eid es)"
  by (auto simp: id_sorted_def strict_sorted_iff)

text \<open>Forgetting an interval of ids removes a contiguous block.\<close>

lemma filter_outside_block:
  assumes "\<forall>x\<in>set xs. \<not> P x" "\<forall>y\<in>set ys. P y" "\<forall>z\<in>set zs. \<not> P z"
  shows "filter (\<lambda>e. \<not> P e) (xs @ ys @ zs) = xs @ zs"
  using assms by (simp add: filter_empty_conv)

lemma forget_block:
  assumes s: "id_sorted (xs @ ys @ zs)" and ne: "ys \<noteq> []"
  shows "filter (\<lambda>e. eid e \<notin> {eid (hd ys)..eid (last ys)}) (xs @ ys @ zs) = xs @ zs"
proof (rule filter_outside_block)
  have w: "\<forall>x\<in>set xs. \<forall>y\<in>set ys. eid x < eid y" "\<forall>y\<in>set ys. \<forall>z\<in>set zs. eid y < eid z"
    using s by (auto simp: id_sorted_def sorted_wrt_append)
  have h: "hd ys \<in> set ys" "last ys \<in> set ys" using ne by auto
  show "\<forall>x\<in>set xs. eid x \<notin> {eid (hd ys)..eid (last ys)}" using w h by fastforce
  show "\<forall>z\<in>set zs. eid z \<notin> {eid (hd ys)..eid (last ys)}" using w h by fastforce
  have "sorted_wrt (<) (map eid ys)" using s by (simp add: id_sorted_def sorted_wrt_append)
  then have so: "sorted (map eid ys)" by (simp add: strict_sorted_imp_sorted)
  show "\<forall>y\<in>set ys. eid y \<in> {eid (hd ys)..eid (last ys)}"
  proof
    fix y assume "y \<in> set ys"
    then obtain i where i: "i < length ys" "y = ys ! i" by (auto simp: in_set_conv_nth)
    have "eid (ys ! 0) \<le> eid (ys ! i)" "eid (ys ! i) \<le> eid (ys ! (length ys - 1))"
      using sorted_nth_mono[OF so, of 0 i] sorted_nth_mono[OF so, of i "length ys - 1"] i ne by auto
    then show "eid y \<in> {eid (hd ys)..eid (last ys)}"
      using i ne by (simp add: hd_conv_nth last_conv_nth)
  qed
qed

lemma py_min_sorted:
  assumes "sorted_wrt (<) xs" "xs \<noteq> []" shows "py_min xs = Inr (hd xs)"
proof -
  obtain m where m: "py_min xs = Inr m" using assms(2) by (cases xs) auto
  have "hd xs \<le> x" if "x \<in> set xs" for x
    using assms that by (cases xs) auto
  then have "m = hd xs" using py_min_Inr[OF m] assms(2) by (meson antisym hd_in_set)
  then show ?thesis using m by simp
qed

lemma py_max_sorted:
  assumes "sorted_wrt (<) xs" "xs \<noteq> []" shows "py_max xs = Inr (last xs)"
proof -
  obtain m where m: "py_max xs = Inr m" using assms(2) by (cases xs) auto
  have so: "sorted xs" using assms(1) by (simp add: strict_sorted_imp_sorted)
  have "x \<le> last xs" if "x \<in> set xs" for x
  proof -
    obtain i where "i < length xs" "x = xs ! i" using \<open>x \<in> set xs\<close> by (auto simp: in_set_conv_nth)
    then show ?thesis using sorted_nth_mono[OF so, of i "length xs - 1"] assms(2)
      by (simp add: last_conv_nth)
  qed
  then have "m = last xs" using py_max_Inr[OF m] assms(2) by (meson antisym last_in_set)
  then show ?thesis using m by simp
qed

section \<open>Adding a condensation to the history\<close>

lemma from_events_snoc:
  assumes "collect_forgotten es {} = Inr F" "is_a c CondensationAction" "forgotten c = Inr ids"
  shows "from_events (es @ [c]) =
    Inr \<lparr>v_events = (let kept = filter (\<lambda>e. eid e \<notin> insert (eid c) (F \<union> set ids)) es in
           case summary_of (c # rev es) of
             Some (s, k) \<Rightarrow> py_insert kept k (condensation_observation s) | None \<Rightarrow> kept),
         v_unhandled = False, v_forgotten = insert (eid c) (F \<union> set ids)\<rparr>"
  using assms by (simp add: from_events_def collect_forgotten_append Let_def)


lemma rolling_init_ok:
  "amortized_init n k = Inr () \<longleftrightarrow> 0 \<le> k \<and> k < n div 2"
  "summarizing_init n k = Inr () \<longleftrightarrow> 0 \<le> k \<and> k < n div 2"
  "attention_init b n k = Inr () \<longleftrightarrow> b \<and> 0 \<le> k \<and> k < n div 2"
  "structured_init b n k = Inr () \<longleftrightarrow> b \<and> 0 \<le> k \<and> k < n div 2"
  by (auto simp: amortized_init_def summarizing_init_def attention_init_def structured_init_def)

lemma split_three:
  assumes "k + t \<le> length xs"
  obtains ys where "xs = take k xs @ ys @ drop (length xs - t) xs"
    and "ys = take (length xs - t - k) (drop k xs)"
proof
  show "xs = take k xs @ take (length xs - t - k) (drop k xs) @ drop (length xs - t) xs"
    using assms by (metis (no_types, lifting) append.assoc append_take_drop_id le_add_diff_inverse
      add.commute drop_drop le_diff_conv2 add_leD2 diff_add_inverse add_diff_inverse_nat take_add)
qed simp

lemma attr_ev_id [simp]: "attr (e\<lparr>ev_id := x\<rparr>) n = attr e n"
  by (simp add: attr_def cong: option.case_cong)

lemma accessors_ev_id [simp]:
  "ostr_attr (e\<lparr>ev_id := x\<rparr>) n = ostr_attr e n" "int_attr (e\<lparr>ev_id := x\<rparr>) n = int_attr e n"
  "ints_attr (e\<lparr>ev_id := x\<rparr>) n = ints_attr e n" "str_attr (e\<lparr>ev_id := x\<rparr>) n = str_attr e n"
  "given (e\<lparr>ev_id := x\<rparr>) n = given e n"
  by (simp_all add: ostr_attr_def int_attr_def ints_attr_def str_attr_def given_def)

lemma forgotten_ev_id [simp]: "forgotten (e\<lparr>ev_id := x\<rparr>) = forgotten e"
  unfolding forgotten_def validate_field_polymorphism_def accessors_ev_id ..

lemma condensation_range_props:
  assumes "condensation_range a b = Inr c"
  shows "is_a c CondensationAction" "ostr_attr c ''summary'' = None"
    "forgotten c = Inr (py_range a (b + 1))"
  using assms forgotten_condensation_range[OF assms]
  by (auto simp: condensation_range_eq blank_def ostr_attr_def attr_def)

lemma condensation_summary_props:
  assumes "condensation_summary a b (Some s) k = Inr c"
  shows "is_a c CondensationAction" "ostr_attr c ''summary'' = Some s"
    "int_attr c ''summary_offset'' = Some k" "forgotten c = Inr (py_range a (b + 1))"
  using assms forgotten_condensation_summary[OF assms]
  by (auto simp: condensation_summary_Some blank_def ostr_attr_def int_attr_def attr_def)

lemma condensation_ids_props:
  assumes "condensation_ids ids = Inr c"
  shows "is_a c CondensationAction" "ostr_attr c ''summary'' = None" "forgotten c = Inr ids"
  using assms forgotten_condensation_ids[OF assms]
  by (auto simp: condensation_ids_eq blank_def ostr_attr_def attr_def)

lemma filter_not_kept:
  assumes "distinct (map f (xs @ ys @ zs))"
  shows "filter (\<lambda>i. i \<notin> set (map f (xs @ zs))) (map f (xs @ ys @ zs)) = map f ys"
  using assms by (auto simp: filter_empty_conv filter_id_conv)

lemma view_slice_head: "0 \<le> k \<Longrightarrow> view_slice v 0 k = take (nat k) (v_events v)"
  by (simp add: view_slice_eq slice_nonneg)

lemma view_slice_tail:
  assumes "0 < t" shows "view_slice v (- t) (view_len v) = drop (length (v_events v) - nat t) (v_events v)"
proof -
  have "nat (max 0 (int (length (v_events v)) - t)) = length (v_events v) - nat t" using assms by auto
  then show ?thesis using assms
    by (simp add: view_slice_eq slice_def py_clip_def view_len_def Let_def)
qed

lemma forget_range_view:
  assumes ids: "id_sorted es" and fresh: "\<forall>e\<in>set es. eid e < i"
    and dec: "filter (\<lambda>e. eid e \<notin> F) es = as @ ys @ bs" and ne: "ys \<noteq> []"
  shows "filter (\<lambda>e. eid e \<notin> insert i (F \<union> set (py_range (eid (hd ys)) (eid (last ys) + 1)))) es
       = as @ bs"
proof -
  let ?R = "set (py_range (eid (hd ys)) (eid (last ys) + 1))"
  have R: "?R = {eid (hd ys)..eid (last ys)}" by auto
  have "filter (\<lambda>e. eid e \<notin> insert i (F \<union> ?R)) es
      = filter (\<lambda>e. eid e \<notin> ?R) (filter (\<lambda>e. eid e \<notin> F) es)"
    unfolding filter_filter by (rule filter_cong) (use fresh in auto)
  also have "\<dots> = as @ bs"
    using forget_block[OF id_sorted_filter[OF ids, of "\<lambda>e. eid e \<notin> F", unfolded dec] ne]
    unfolding dec R .
  finally show ?thesis .
qed

section \<open>The contract of a rolling condenser\<close>

text \<open>
  \<open>good\<close> is the condition on histories that the condenser keeps, \<open>target\<close> the size of a
  view right after a condensation.
\<close>

locale rolling =
  fixes should_condense :: "view \<Rightarrow> bool"
    and get_condensation :: "view \<Rightarrow> event res"
    and good :: "event list \<Rightarrow> bool"
    and target :: int
  assumes next_view:
    "good es \<Longrightarrow> from_events es = Inr v \<Longrightarrow> get_condensation v = Inr c \<Longrightarrow>
     \<forall>e\<in>set es. eid e < i \<Longrightarrow>
     \<exists>v'. from_events (es @ [c\<lparr>ev_id := Some i\<rparr>]) = Inr v' \<and> view_len v' = target \<and>
          \<not> should_condense v'"
    and stays_good:
    "good es \<Longrightarrow> from_events es = Inr v \<Longrightarrow> get_condensation v = Inr c \<Longrightarrow>
     \<forall>e\<in>set es. eid e < i \<Longrightarrow> good (es @ [c\<lparr>ev_id := Some i\<rparr>])"
begin

lemma condensation_settles:
  assumes "good es" "from_events es = Inr v"
    "rolling_condense should_condense get_condensation v = Inr (CCondensation c)"
    "\<forall>e\<in>set es. eid e < i"
  obtains v' where "from_events (es @ [c\<lparr>ev_id := Some i\<rparr>]) = Inr v'"
    "rolling_condense should_condense get_condensation v' = Inr (CView v')"
    "view_len v' = target" "good (es @ [c\<lparr>ev_id := Some i\<rparr>])"
proof -
  have g: "get_condensation v = Inr c"
    using assms(3) by (auto simp: rolling_condense_def as_condensation_def split: if_splits sum.splits)
  show thesis
    using next_view[OF assms(1,2) g assms(4)] stays_good[OF assms(1,2) g assms(4)] that
    by (auto simp: rolling_condense_def)
qed

end

section \<open>Amortized forgetting\<close>

definition no_summaries :: "event list \<Rightarrow> bool" where
  "no_summaries es \<longleftrightarrow> id_sorted es \<and> summary_of (rev es) = None"

lemma amortized_short_view:
  assumes "amortized_init n k = Inr ()" "view_len v \<le> n div 2"
  shows "amortized_get_condensation n k v =
     Inl (ValueError ''min() arg is an empty sequence'')"
proof -
  have k: "0 \<le> k" "k < n div 2" using assms(1) rolling_init_ok by auto
  define xs where "xs = v_events v"
  define h where "h = take (nat k) xs"
  have hl: "int (length h) \<le> k" using k by (simp add: h_def)
  then have tail: "view_slice v (- (n div 2 - int (length h))) (view_len v)
      = drop (length xs - nat (n div 2 - int (length h))) xs"
    using view_slice_tail[of "n div 2 - int (length h)" v] k by (simp add: xs_def)
  have hd: "view_slice v 0 k = h" using view_slice_head k by (simp add: xs_def h_def)
  have cover: "set xs = set (h @ drop (length xs - nat (n div 2 - int (length h))) xs)"
  proof -
    have "length xs - nat (n div 2 - int (length h)) \<le> length h"
      using assms(2) by (simp add: view_len_def xs_def)
    then have "set (drop (length h) xs) \<subseteq> set (drop (length xs - nat (n div 2 - int (length h))) xs)"
      by (rule set_drop_subset_set_drop)
    moreover have "set xs = set h \<union> set (drop (length h) xs)"
      unfolding h_def by (metis append_take_drop_id length_take min.commute set_append take_take
          drop_take min_def nle_le drop_all take_all)
    ultimately show ?thesis using set_drop_subset by fastforce
  qed
  have "filter (\<lambda>i. i \<notin> set (map eid (h @ drop (length xs - nat (n div 2 - int (length h))) xs)))
      (map eid xs) = []"
    using cover by (auto simp: filter_empty_conv)
  then show ?thesis
    unfolding amortized_get_condensation_def Let_def hd tail xs_def[symmetric] by simp
qed

lemma amortized_block:
  assumes init: "amortized_init n k = Inr ()" and ids: "id_sorted (v_events v)"
    and len: "n div 2 < view_len v"
  defines "xs \<equiv> v_events v" and "t \<equiv> nat (n div 2 - k)"
  defines "ys \<equiv> take (length xs - t - nat k) (drop (nat k) xs)"
  shows "amortized_get_condensation n k v = condensation_range (eid (hd ys)) (eid (last ys))"
    and "ys \<noteq> []" and "xs = take (nat k) xs @ ys @ drop (length xs - t) xs"
proof -
  have k: "0 \<le> k" "k < n div 2" using init rolling_init_ok by auto
  have lt: "nat k + t < length xs" using k len by (simp add: t_def xs_def view_len_def)
  obtain zs where zs: "xs = take (nat k) xs @ zs @ drop (length xs - t) xs" "zs = ys"
    using lt split_three[of "nat k" t xs] unfolding ys_def by (metis less_or_eq_imp_le)
  show dec: "xs = take (nat k) xs @ ys @ drop (length xs - t) xs" using zs by simp
  show ne: "ys \<noteq> []" using lt by (simp add: ys_def)
  have hl: "int (length (take (nat k) xs)) = k" using lt k by simp
  have so: "id_sorted (take (nat k) xs @ ys @ drop (length xs - t) xs)" using ids dec xs_def by simp
  have forget: "filter (\<lambda>i. i \<notin> set (map eid (take (nat k) xs @ drop (length xs - t) xs))) (map eid xs)
      = map eid ys"
    using filter_not_kept[OF id_sorted_distinct[OF so]] dec by metis
  have sy: "sorted_wrt (<) (map eid ys)" using so by (simp add: id_sorted_def sorted_wrt_append)
  have tail: "view_slice v (- (n div 2 - k)) (view_len v) = drop (length xs - t) xs"
    using view_slice_tail[of "n div 2 - k" v] k by (simp add: xs_def t_def)
  have head: "view_slice v 0 k = take (nat k) xs"
    using view_slice_head k by (simp add: xs_def)
  have "amortized_get_condensation n k v =
    (case py_min (map eid ys) of Inl err \<Rightarrow> Inl err
     | Inr a \<Rightarrow> (case py_max (map eid ys) of Inl err \<Rightarrow> Inl err | Inr b \<Rightarrow> condensation_range a b))"
    unfolding amortized_get_condensation_def Let_def head hl tail xs_def[symmetric] forget ..
  then show "amortized_get_condensation n k v = condensation_range (eid (hd ys)) (eid (last ys))"
    using py_min_sorted[OF sy] py_max_sorted[OF sy] ne by (simp add: hd_map last_map)
qed

lemma amortized_view_after:
  assumes init: "amortized_init n k = Inr ()" and good: "no_summaries es" and v: "from_events es = Inr v"
    and c: "amortized_get_condensation n k v = Inr c" and i: "\<forall>e\<in>set es. eid e < i"
  shows "\<exists>v'. from_events (es @ [c\<lparr>ev_id := Some i\<rparr>]) = Inr v' \<and>
     v_events v' = take (nat k) (v_events v) @
       drop (length (v_events v) - nat (n div 2 - k)) (v_events v) \<and>
     \<not> v_unhandled v' \<and> n div 2 < view_len v"
proof -
  obtain F where F: "collect_forgotten es {} = Inr F" "v_events v = filter (\<lambda>e. eid e \<notin> F) es"
    using v good by (elim from_events_Inr) (simp add: no_summaries_def)
  have ids: "id_sorted es" and no: "summary_of (rev es) = None"
    using good by (simp_all add: no_summaries_def)
  have idv: "id_sorted (v_events v)" using F(2) ids id_sorted_filter by simp
  have len: "n div 2 < view_len v"
    using c amortized_short_view[OF init] by (cases "view_len v \<le> n div 2") auto
  let ?xs = "v_events v" let ?t = "nat (n div 2 - k)"
  define ys where "ys = take (length ?xs - ?t - nat k) (drop (nat k) ?xs)"
  note b = amortized_block[OF init idv len, folded ys_def]
  have "condensation_range (eid (hd ys)) (eid (last ys)) = Inr c" using b(1) c by simp
  note cp = condensation_range_props[OF this]
  have kept: "filter (\<lambda>e. eid e \<notin> insert i
      (F \<union> set (py_range (eid (hd ys)) (eid (last ys) + 1)))) es
    = take (nat k) ?xs @ drop (length ?xs - ?t) ?xs"
    by (rule forget_range_view[OF ids i _ b(2)]) (use b(3) F(2) in metis)
  have "from_events (es @ [c\<lparr>ev_id := Some i\<rparr>]) = Inr
    \<lparr>v_events = take (nat k) ?xs @ drop (length ?xs - ?t) ?xs, v_unhandled = False,
     v_forgotten = insert i (F \<union> set (py_range (eid (hd ys)) (eid (last ys) + 1)))\<rparr>"
    using from_events_snoc[OF F(1), of "c\<lparr>ev_id := Some i\<rparr>"] cp no kept
    by (simp add: eid_def Let_def)
  then show ?thesis using len by auto
qed

lemma length_head_tail:
  assumes "0 \<le> k" "k < m" "m < int (length xs)"
  shows "int (length (take (nat k) xs @ drop (length xs - nat (m - k)) xs)) = m"
  using assms by simp

lemma summary_of_no:
  "summary_of (rev es) = None \<Longrightarrow> ostr_attr c ''summary'' = None \<Longrightarrow> summary_of (rev (es @ [c])) = None"
  by simp

lemma id_sorted_snoc:
  "id_sorted es \<Longrightarrow> \<forall>e\<in>set es. eid e < i \<Longrightarrow> id_sorted (es @ [c\<lparr>ev_id := Some i\<rparr>])"
  by (auto simp: id_sorted_def sorted_wrt_append eid_def)

locale amortized_config =
  fixes n :: int and k :: int
  assumes init: "amortized_init n k = Inr ()"

sublocale amortized_config \<subseteq>
  rolling "over_size n" "amortized_get_condensation n k" no_summaries "n div 2"
proof
  fix es v c i
  assume a: "no_summaries es" "from_events es = Inr v" "amortized_get_condensation n k v = Inr c"
    "\<forall>e\<in>set es. eid e < i"
  have k: "0 \<le> k" "k < n div 2" using init rolling_init_ok by auto
  obtain v' where v': "from_events (es @ [c\<lparr>ev_id := Some i\<rparr>]) = Inr v'"
    "v_events v' = take (nat k) (v_events v) @ drop (length (v_events v) - nat (n div 2 - k)) (v_events v)"
    "\<not> v_unhandled v'" "n div 2 < view_len v"
    using amortized_view_after[OF init a] by blast
  have "view_len v' = n div 2"
    using length_head_tail[OF k] v'(4) unfolding view_len_def v'(2) by blast
  moreover have "\<not> over_size n v'" using calculation v'(3) k by (simp add: over_size_def)
  ultimately show "\<exists>v'. from_events (es @ [c\<lparr>ev_id := Some i\<rparr>]) = Inr v' \<and> view_len v' = n div 2
      \<and> \<not> over_size n v'" using v'(1) by blast
  obtain a' b' where "condensation_range a' b' = Inr c"
    using a(3) by (auto simp: amortized_get_condensation_def Let_def split: sum.splits)
  then show "no_summaries (es @ [c\<lparr>ev_id := Some i\<rparr>])"
    using a(1,4) condensation_range_props(2) id_sorted_snoc by (simp add: no_summaries_def)
qed

context amortized_config
begin

lemma amortized_settles:
  assumes "no_summaries es" "from_events es = Inr v"
    "rolling_condense (over_size n) (amortized_get_condensation n k) v = Inr (CCondensation c)"
    "\<forall>e\<in>set es. eid e < i"
  shows "\<exists>v'. from_events (es @ [c\<lparr>ev_id := Some i\<rparr>]) = Inr v' \<and> view_len v' = n div 2 \<and>
     rolling_condense (over_size n) (amortized_get_condensation n k) v' = Inr (CView v') \<and>
     no_summaries (es @ [c\<lparr>ev_id := Some i\<rparr>])"
  by (rule condensation_settles[OF assms]) blast

end

section \<open>Summarising condensers\<close>

definition kept_events :: "event list \<Rightarrow> event list" where
  \<comment> \<open>the stored events of the view, without the inserted summary\<close>
  "kept_events es =
     (case collect_forgotten es {} of Inr F \<Rightarrow> filter (\<lambda>e. eid e \<notin> F) es | Inl _ \<Rightarrow> [])"

definition summaries_at :: "int \<Rightarrow> event list \<Rightarrow> bool" where
  \<comment> \<open>ids increase, no stored event is itself a summary observation, and every summary in the
      history was written with offset \<open>k\<close>\<close>
  "summaries_at k es \<longleftrightarrow>
     id_sorted es \<and> (\<forall>e\<in>set es. \<not> is_a e AgentCondensationObservation) \<and>
     (\<forall>s j. summary_of (rev es) = Some (s, j) \<longrightarrow> j = k)"

lemma filter_own:
  assumes "\<forall>x\<in>set xs. \<not> is_a x AgentCondensationObservation"
  shows "filter (\<lambda>x. \<not> is_a x AgentCondensationObservation) (take m xs) = take m xs"
  using assms by (auto simp: filter_id_conv dest: in_set_takeD)

lemma view_shape:
  assumes "summaries_at k es" "from_events es = Inr v" "0 \<le> k"
  shows "v_events v = kept_events es \<or>
    (\<exists>s. v_events v = take (nat k) (kept_events es) @ [condensation_observation s] @
       drop (nat k) (kept_events es))"
proof -
  obtain F where F: "collect_forgotten es {} = Inr F"
    and ve: "v_events v = (case summary_of (rev es) of
           Some (s, k) \<Rightarrow> py_insert (filter (\<lambda>e. eid e \<notin> F) es) k (condensation_observation s)
         | None \<Rightarrow> filter (\<lambda>e. eid e \<notin> F) es)"
    using assms(2) by (elim from_events_Inr)
  show ?thesis
  proof (cases "summary_of (rev es)")
    case None
    then show ?thesis using ve F by (simp add: kept_events_def)
  next
    case (Some p)
    then obtain s where "summary_of (rev es) = Some (s, k)"
      using assms(1) by (cases p) (auto simp: summaries_at_def)
    then show ?thesis using ve F assms(3)
      by (auto simp: kept_events_def py_insert_def Let_def py_clip_def min_def)
  qed
qed

lemma summary_forgotten_block:
  assumes k: "0 \<le> k" "0 < t"
    and xs: "\<forall>x\<in>set xs. \<not> is_a x AgentCondensationObservation"
    and ev: "v_events v = xs \<or>
      (\<exists>s. v_events v = take (nat k) xs @ [condensation_observation s] @ drop (nat k) xs)"
    and ne: "filter (\<lambda>x. \<not> is_a x AgentCondensationObservation) (view_slice v k (- t)) \<noteq> []"
  shows "nat k + nat t < length xs"
    and "filter (\<lambda>x. \<not> is_a x AgentCondensationObservation) (view_slice v k (- t)) =
      take (length xs - nat t - nat k) (drop (nat k) xs)"
proof -
  have dk: "\<forall>x\<in>set (drop (nat k) xs). \<not> is_a x AgentCondensationObservation"
    using xs by (auto dest: in_set_dropD)
  have sl: "view_slice v k (- t) =
     take (length (v_events v) - nat t - nat k) (drop (nat k) (v_events v))"
    using slice_neg_hi[OF k] by (simp add: view_slice_eq)
  have "filter (\<lambda>x. \<not> is_a x AgentCondensationObservation) (view_slice v k (- t)) =
     take (length xs - nat t - nat k) (drop (nat k) xs) \<and> nat k + nat t < length xs"
    using ev
  proof
    assume "v_events v = xs"
    then show ?thesis using ne unfolding sl using filter_own[OF dk] by simp
  next
    assume "\<exists>s. v_events v = take (nat k) xs @ [condensation_observation s] @ drop (nat k) xs"
    then obtain s where v: "v_events v = take (nat k) xs @ [condensation_observation s] @ drop (nat k) xs"
      by blast
    show ?thesis
    proof (cases "nat k + nat t < length xs")
      case True
      have d: "drop (nat k) (v_events v) = condensation_observation s # drop (nat k) xs"
        unfolding v using True by simp
      have l: "length (v_events v) - nat t - nat k = Suc (length xs - nat t - nat k)"
        unfolding v using True by (simp add: Suc_diff_le)
      show ?thesis unfolding sl d l using filter_own[OF dk] True by simp
    next
      case False
      then have "length (v_events v) - nat t - nat k \<le> 1" unfolding v by simp
      moreover have "take 1 (drop (nat k) (v_events v)) = [condensation_observation s] \<or>
         drop (nat k) (v_events v) = []"
        unfolding v by (cases "nat k \<le> length xs") auto
      ultimately have "filter (\<lambda>x. \<not> is_a x AgentCondensationObservation) (view_slice v k (- t)) = []"
        unfolding sl by (cases "length (v_events v) - nat t - nat k") auto
      then show ?thesis using ne by simp
    qed
  qed
  then show "nat k + nat t < length xs"
    and "filter (\<lambda>x. \<not> is_a x AgentCondensationObservation) (view_slice v k (- t)) =
      take (length xs - nat t - nat k) (drop (nat k) xs)" by blast+
qed

lemma summary_condensation_Inr:
  assumes "summary_condensation answer n k l v = Inr c" "0 \<le> k"
  obtains fs s a b where
    "fs = filter (\<lambda>x. \<not> is_a x AgentCondensationObservation) (view_slice v k (- (n div 2 - k - 1)))"
    "fs \<noteq> []" "py_min (map eid fs) = Inr a" "py_max (map eid fs) = Inr b"
    "condensation_summary a b (Some s) k = Inr c"
proof -
  obtain e fs where p: "summary_parts n k v = Inr (e, fs)"
    using assms(1) by (auto simp: summary_condensation_def split: sum.splits)
  then have kl: "nat k < length (v_events v)"
    using assms(2) by (auto simp: summary_parts_def view_getitem_def Let_def split: sum.splits if_splits)
  then have "int (length (view_slice v 0 k)) = k" using assms(2) by (simp add: view_slice_head)
  then have fs: "fs = filter (\<lambda>x. \<not> is_a x AgentCondensationObservation)
      (view_slice v k (- (n div 2 - k - 1)))"
    using p by (auto simp: summary_parts_def Let_def split: sum.splits)
  obtain a b so where ab: "py_min (map eid fs) = Inr a" "py_max (map eid fs) = Inr b"
    "condensation_summary a b so k = Inr c"
    using assms(1) by (auto simp: summary_condensation_def p Let_def split: sum.splits)
  obtain s where "so = Some s" using ab(3) by (cases so) (auto simp: condensation_summary_None)
  then show thesis using that[OF fs _ ab(1,2)] ab by (cases fs) auto
qed

lemma summary_view_after:
  assumes init: "0 \<le> k" "k + 1 < n div 2" and good: "summaries_at k es"
    and v: "from_events es = Inr v" and c: "summary_condensation answer n k l v = Inr c"
    and i: "\<forall>e\<in>set es. eid e < i"
  shows "\<exists>v' s. from_events (es @ [c\<lparr>ev_id := Some i\<rparr>]) = Inr v' \<and>
     v_events v' = take (nat k) (kept_events es) @ [condensation_observation s] @
       drop (length (kept_events es) - nat (n div 2 - k - 1)) (kept_events es) \<and>
     \<not> v_unhandled v' \<and> n div 2 - 1 < int (length (kept_events es))"
proof -
  obtain F where F: "collect_forgotten es {} = Inr F"
    using v by (auto simp: from_events_def split: sum.splits)
  define xs where "xs = kept_events es"
  have xF: "xs = filter (\<lambda>e. eid e \<notin> F) es" by (simp add: xs_def kept_events_def F)
  have ids: "id_sorted es" and rx: "\<forall>x\<in>set xs. \<not> is_a x AgentCondensationObservation"
    using good by (auto simp: summaries_at_def xF)
  define t where "t = n div 2 - k - 1"
  have t0: "0 < t" using init by (simp add: t_def)
  obtain fs s a b where fs: "fs = filter (\<lambda>x. \<not> is_a x AgentCondensationObservation) (view_slice v k (- t))"
    "fs \<noteq> []" "py_min (map eid fs) = Inr a" "py_max (map eid fs) = Inr b"
    "condensation_summary a b (Some s) k = Inr c"
    using summary_condensation_Inr[OF c init(1)] unfolding t_def by metis
  note blk = summary_forgotten_block[OF init(1) t0 rx view_shape[OF good v init(1), folded xs_def]
      fs(2)[unfolded fs(1)], folded fs(1)]
  obtain ys where dec: "xs = take (nat k) xs @ ys @ drop (length xs - nat t) xs" and ys: "ys = fs"
    using split_three[of "nat k" "nat t" xs] blk by (metis less_or_eq_imp_le)
  have so: "id_sorted (take (nat k) xs @ fs @ drop (length xs - nat t) xs)"
    using id_sorted_filter[OF ids, of "\<lambda>e. eid e \<notin> F", folded xF] dec unfolding ys by simp
  have sy: "sorted_wrt (<) (map eid fs)" using so by (simp add: id_sorted_def sorted_wrt_append)
  have ab: "a = eid (hd fs)" "b = eid (last fs)"
    using fs(2-4) py_min_sorted[OF sy] py_max_sorted[OF sy] by (simp_all add: hd_map last_map)
  note cp = condensation_summary_props[OF fs(5)[unfolded ab]]
  have dec': "filter (\<lambda>e. eid e \<notin> F) es = take (nat k) xs @ fs @ drop (length xs - nat t) xs"
    using dec unfolding xF[symmetric] ys .
  have kept: "filter (\<lambda>e. eid e \<notin> insert i (F \<union> set (py_range (eid (hd fs)) (eid (last fs) + 1)))) es
    = take (nat k) xs @ drop (length xs - nat t) xs"
    using forget_range_view[OF ids i dec' fs(2)] .
  have pi: "py_insert (take (nat k) xs @ drop (length xs - nat t) xs) k (condensation_observation s)
      = take (nat k) xs @ [condensation_observation s] @ drop (length xs - nat t) xs"
    using init(1) blk(1) by (simp add: py_insert_def Let_def py_clip_def min_def)
  have "from_events (es @ [c\<lparr>ev_id := Some i\<rparr>]) = Inr
    \<lparr>v_events = take (nat k) xs @ [condensation_observation s] @ drop (length xs - nat t) xs,
     v_unhandled = False,
     v_forgotten = insert i (F \<union> set (py_range (eid (hd fs)) (eid (last fs) + 1)))\<rparr>"
    using from_events_snoc[OF F, of "c\<lparr>ev_id := Some i\<rparr>"] cp kept pi by (simp add: eid_def Let_def)
  then show ?thesis using blk(1) init unfolding t_def xs_def[symmetric] by auto
qed

lemma length_head_summary_tail:
  assumes "0 \<le> k" "k + 1 < m" "m - 1 < int (length xs)"
  shows "int (length (take (nat k) xs @ [x] @ drop (length xs - nat (m - k - 1)) xs)) = m"
  using assms by simp

lemma summary_never:
  assumes "0 \<le> k" "k + 1 = n div 2" "summary_condensation answer n k l v = Inr c"
  shows False
proof -
  obtain fs where "fs = filter (\<lambda>x. \<not> is_a x AgentCondensationObservation)
      (view_slice v k (- (n div 2 - k - 1)))" "fs \<noteq> []"
    using summary_condensation_Inr[OF assms(3,1)] by metis
  moreover have "view_slice v k (- (n div 2 - k - 1)) = []"
    using assms(1,2) by (simp add: view_slice_eq slice_nonneg flip: assms(2))
  ultimately show False by simp
qed

locale summary_config =
  fixes answer :: "string \<Rightarrow> event list \<Rightarrow> string option" and n :: int and k :: int and l :: int
  assumes size: "0 \<le> k" "k + 1 < n div 2"

sublocale summary_config \<subseteq>
  rolling "over_size n" "summary_condensation answer n k l" "summaries_at k" "n div 2"
proof
  fix es v c i
  assume a: "summaries_at k es" "from_events es = Inr v" "summary_condensation answer n k l v = Inr c"
    "\<forall>e\<in>set es. eid e < i"
  let ?xs = "kept_events es"
  obtain v' s where v': "from_events (es @ [c\<lparr>ev_id := Some i\<rparr>]) = Inr v'"
    "v_events v' = take (nat k) ?xs @ [condensation_observation s] @ drop (length ?xs - nat (n div 2 - k - 1)) ?xs"
    "\<not> v_unhandled v'" "n div 2 - 1 < int (length ?xs)"
    using summary_view_after[OF size a] by blast
  have "view_len v' = n div 2"
    using length_head_summary_tail[OF size v'(4)] unfolding view_len_def v'(2) .
  moreover have "\<not> over_size n v'" using calculation v'(3) size by (simp add: over_size_def)
  ultimately show "\<exists>v'. from_events (es @ [c\<lparr>ev_id := Some i\<rparr>]) = Inr v' \<and> view_len v' = n div 2
      \<and> \<not> over_size n v'" using v'(1) by blast
  obtain a' b' s' where "condensation_summary a' b' (Some s') k = Inr c"
    using summary_condensation_Inr[OF a(3) size(1)] by metis
  then show "summaries_at k (es @ [c\<lparr>ev_id := Some i\<rparr>])"
    using a(1,4) condensation_summary_props id_sorted_snoc
    by (auto simp: summaries_at_def)
qed

context summary_config
begin

lemma summary_settles:
  assumes "summaries_at k es" "from_events es = Inr v"
    "rolling_condense (over_size n) (summary_condensation answer n k l) v = Inr (CCondensation c)"
    "\<forall>e\<in>set es. eid e < i"
  shows "\<exists>v'. from_events (es @ [c\<lparr>ev_id := Some i\<rparr>]) = Inr v' \<and> view_len v' = n div 2 \<and>
     rolling_condense (over_size n) (summary_condensation answer n k l) v' = Inr (CView v') \<and>
     summaries_at k (es @ [c\<lparr>ev_id := Some i\<rparr>])"
  by (rule condensation_settles[OF assms]) blast

end

text \<open>The configurations the constructors have by default.\<close>

interpretation amortized_default: amortized_config 100 0
  by unfold_locales (simp add: amortized_init_def)

interpretation summary_default: summary_config "summarise m" 100 1 10000 for m
  by unfold_locales simp_all

section \<open>Conversation window\<close>

lemma sorted_contiguous:
  assumes "sorted_wrt (<) ids" "ids \<noteq> []" "last ids - hd ids = int (length ids) - 1"
  shows "set (py_range (hd ids) (last ids + 1)) = set ids"
proof -
  have so: "sorted ids" using assms(1) by (simp add: strict_sorted_imp_sorted)
  have sub: "set ids \<subseteq> {hd ids..last ids}"
  proof
    fix x assume "x \<in> set ids"
    then obtain j where "j < length ids" "x = ids ! j" by (auto simp: in_set_conv_nth)
    then show "x \<in> {hd ids..last ids}"
      using sorted_nth_mono[OF so, of 0 j] sorted_nth_mono[OF so, of j "length ids - 1"] assms(2)
      by (simp add: hd_conv_nth last_conv_nth)
  qed
  have "card (set ids) = length ids" using assms(1) by (simp add: distinct_card strict_sorted_iff)
  moreover have "card {hd ids..last ids} = length ids" using assms(2,3) by simp
  ultimately have "set ids = {hd ids..last ids}"
    using card_subset_eq[OF finite_atLeastAtMost_int sub] by argo
  then show ?thesis by (simp add: atLeastLessThanPlusOne_atLeastAtMost_int)
qed

lemma window_get_condensation_cases:
  "window_get_condensation v =
     (case find from_user (v_events v) of
        None \<Rightarrow> condensation_ids []
      | Some m \<Rightarrow>
          (let ids = window_forgotten (v_events v) (essential_ids (v_events v) m)
           in if length ids > 1 \<and> last ids - hd ids = int (length ids) - 1
              then condensation_range (hd ids) (last ids) else condensation_ids ids))"
  by (auto simp: window_get_condensation_def Let_def split: option.splits)

lemma window_forgets:
  assumes "find from_user (v_events v) = Some m"
  obtains c ids where "window_get_condensation v = Inr c" "is_a c CondensationAction" "forgotten c = Inr ids"
    "set ids = set (window_forgotten (v_events v) (essential_ids (v_events v) m))"
proof -
  let ?ids = "window_forgotten (v_events v) (essential_ids (v_events v) m)"
  have so: "sorted_wrt (<) ?ids" unfolding window_forgotten_def Let_def by simp
  show thesis
  proof (cases "length ?ids > 1 \<and> last ?ids - hd ?ids = int (length ?ids) - 1")
    case True
    then have c: "window_get_condensation v = condensation_range (hd ?ids) (last ?ids)"
      using assms by (simp add: window_get_condensation_cases Let_def)
    obtain c where cr: "condensation_range (hd ?ids) (last ?ids) = Inr c" by (simp add: condensation_range_eq)
    have "?ids \<noteq> []" using True by auto
    then show thesis
      using that[OF c[unfolded cr] condensation_range_props(1,3)[OF cr]] sorted_contiguous[OF so] True by blast
  next
    case False
    then have c: "window_get_condensation v = condensation_ids ?ids"
      using assms by (auto simp: window_get_condensation_cases Let_def)
    obtain c where cr: "condensation_ids ?ids = Inr c" by (simp add: condensation_ids_eq)
    show thesis using that[OF c[unfolded cr] condensation_ids_props(1,3)[OF cr]] by blast
  qed
qed

lemma set_window_forgotten:
  "set (window_forgotten es ess) = eid ` set es - (set ess \<union> eid ` set (drop (window_keep_from es ess) es))"
  by (simp add: window_forgotten_def Let_def)

lemma first_valid_not_obs:
  "first_valid_index es < length es \<Longrightarrow> \<not> is_observation (es ! first_valid_index es)"
  by (cases "first_idx (\<lambda>e. \<not> is_observation e) es")
    (auto simp: first_valid_index_def dest: first_idx_Some_iff[THEN iffD1])

lemma window_starts_with_action:
  assumes "window_keep_from es ess < length es"
  shows "is_action (es ! window_keep_from es ess)"
proof -
  define total where "total = int (length es)"
  define s where "s = max 0 (total - max 1 ((total - int (length ess)) div 2))"
  have k: "window_keep_from es ess = nat s + first_valid_index (drop (nat s) es)"
    by (simp add: window_keep_from_def Let_def s_def total_def)
  have "first_valid_index (drop (nat s) es) < length (drop (nat s) es)" using assms k by simp
  from first_valid_not_obs[OF this] show ?thesis
    using k assms by (simp add: action_or_observation)
qed

lemma essential_has_user: "eid m \<in> set (essential_ids es m)"
  by (simp add: essential_ids_def Let_def)

lemma essential_has_system:
  "find (\<lambda>e. is_a e SystemMessageAction) es = Some s \<Longrightarrow> eid s \<in> set (essential_ids es m)"
  by (simp add: essential_ids_def Let_def)

section \<open>Attention\<close>

lemma fill_ids_length: "int (length ids) \<le> k \<Longrightarrow> int (length (fill_ids k es ids)) \<le> k"
  by (induction k es ids rule: fill_ids.induct) auto

lemma attention_keeps:
  assumes "attention_init b n k = Inr ()" "distinct (map eid (v_events v))"
  obtains c ids where "attention_get_condensation answer n k v = Inr c" "is_a c CondensationAction" "forgotten c = Inr ids"
    "\<forall>e\<in>set (take (nat k) (v_events v)). eid e \<notin> set ids"
    "int (length (filter (\<lambda>e. eid e \<notin> set ids) (v_events v))) \<le> n div 2"
proof -
  have k: "0 \<le> k" "k < n div 2" using assms(1) rolling_init_ok by auto
  define es where "es = v_events v"
  define h where "h = map eid (take (nat k) es)"
  define t where "t = n div 2 - int (length h)"
  define r where "r = fill_ids t (rev es) (slice_to (filter (\<lambda>i. i \<notin> set h) (answer es)) t)"
  define ids where "ids = filter (\<lambda>i. i \<notin> set r \<and> i \<notin> set h) (map eid es)"
  have t0: "0 \<le> t" using k by (simp add: t_def h_def)
  have lr: "int (length r) \<le> t"
    unfolding r_def by (rule fill_ids_length) (use t0 in simp)
  have c: "attention_get_condensation answer n k v = condensation_ids ids"
    using k by (simp add: attention_get_condensation_def Let_def ids_def r_def t_def h_def es_def)
  obtain c where cr: "condensation_ids ids = Inr c" by (simp add: condensation_ids_eq)
  let ?kept = "filter (\<lambda>e. eid e \<notin> set ids) es"
  have "set (map eid ?kept) \<subseteq> set r \<union> set h" by (auto simp: ids_def)
  then have "card (set (map eid ?kept)) \<le> card (set (r @ h))" by (intro card_mono) auto
  also have "\<dots> \<le> length (r @ h)" by (rule card_length)
  finally have "card (set (map eid ?kept)) \<le> length r + length h" by simp
  moreover have "distinct (map eid ?kept)" using assms(2) by (simp add: distinct_map_filter es_def)
  ultimately have "length ?kept \<le> length r + length h" using distinct_card length_map by metis
  then have "int (length ?kept) \<le> n div 2" using lr t_def by linarith
  moreover have "\<forall>e\<in>set (take (nat k) es). eid e \<notin> set ids" by (simp add: ids_def h_def)
  ultimately show thesis
    using that[OF c[unfolded cr] condensation_ids_props(1,3)[OF cr]] by (simp add: es_def)
qed

section \<open>Masking\<close>

lemma mask_from_length [simp]: "length (mask_from i limit es) = length es"
  by (induction es arbitrary: i) auto

lemma mask_from_nth:
  "j < length es \<Longrightarrow> mask_from i limit es ! j =
     (if is_observation (es ! j) \<and> i + int j < limit then condensation_observation ''<MASKED>'' else es ! j)"
proof (induction es arbitrary: i j)
  case (Cons e es)
  then show ?case by (cases j) (auto simp: algebra_simps)
qed simp

lemma browser_mask_length [simp]: "length (browser_mask w c es) = length es"
  by (induction w c es rule: browser_mask.induct) auto

lemma browser_mask_count:
  "c \<le> w \<Longrightarrow> int (length (filter (\<lambda>e. is_a e BrowserOutputObservation) (browser_mask w c es))) =
     min (w - c) (int (length (filter (\<lambda>e. is_a e BrowserOutputObservation) es)))"
  by (induction w c es rule: browser_mask.induct) (auto simp: min_def)

lemma browser_mask_other:
  "j < length es \<Longrightarrow> \<not> is_a (es ! j) BrowserOutputObservation \<Longrightarrow> browser_mask w c es ! j = es ! j"
proof (induction w c es arbitrary: j rule: browser_mask.induct)
  case (2 w c e es)
  then show ?case by (cases j) auto
qed simp

section \<open>Recent events\<close>

lemma recent_events_eq:
  assumes "0 \<le> k" "k < m"
  shows "recent_events_condense k m v =
    Inr (CView (plain_view (take (nat k) (v_events v) @
      drop (length (v_events v) - nat (m - int (min (nat k) (length (v_events v))))) (v_events v))))"
proof -
  let ?h = "take (nat k) (v_events v)"
  have l: "length ?h = min (nat k) (length (v_events v))" by simp
  have "0 < m - int (length ?h)" using assms by simp
  then have "view_slice v (- max 0 (m - int (length ?h))) (view_len v)
     = drop (length (v_events v) - nat (m - int (length ?h))) (v_events v)"
    using view_slice_tail[of "m - int (length ?h)" v] by simp
  then show ?thesis
    using assms by (simp only: recent_events_condense_def Let_def view_slice_head l min.commute)
qed

section \<open>Pipelines\<close>

lemma condense_all_append:
  "condense_all m (cs @ ds) v =
     (case condense_all m cs v of
        Inl err \<Rightarrow> Inl err
      | Inr (CCondensation e) \<Rightarrow> Inr (CCondensation e)
      | Inr (CView v') \<Rightarrow> condense_all m ds v')"
  by (induction cs arbitrary: v) (auto split: sum.splits condense_result.splits)

section \<open>Metadata\<close>

lemma write_metadata_get:
  "get_condensation_metadata (snd (write_metadata batch extra)) =
     get_condensation_metadata extra @ (if batch = [] then [] else [PDict batch])"
  by (auto simp: write_metadata_def get_condensation_metadata_def dict_has_def Let_def
      split: option.splits pyval.splits)

end
