(* ===== verification/Condenser_Properties.thy ===== *)
theory Condenser_Properties
  imports Condensation_Laws
begin

text \<open>
  What views and condensers guarantee, stated over the operations of \<open>View_Model\<close> and
  \<open>Condensers\<close>.  The proofs rest on the lemmas and locales of \<open>Condensation_Laws\<close>.  The
  instances run on a history of seven messages.
\<close>


section \<open>Vocabulary and instances\<close>

definition sample_message :: "int \<Rightarrow> event_source \<Rightarrow> string \<Rightarrow> event" where
  \<comment> \<open>a stored message event, used by the concrete instances\<close>
  "sample_message i src s =
     (blank MessageAction
        [(''content'', PStr s), (''file_urls'', PNone), (''image_urls'', PNone),
         (''wait_for_response'', PBool False), (''action'', PStr ''message''),
         (''security_risk'', PInt (-1))])\<lparr>ev_id := Some i, ev_source := Some src\<rparr>"

definition sample_history :: "event list" where
  "sample_history = map (\<lambda>i. sample_message i (if i = 0 then USER else AGENT) ''m'') [0, 1, 2, 3, 4, 5, 6]"

definition sample_llm :: llm where
  "sample_llm = \<lparr>rank_ids = (\<lambda>es. [3, 9]), summarise = (\<lambda>p es. Some (p @ ''+'')),
     summary_tool_calls = (\<lambda>p es. [])\<rparr>"

definition ids_of :: "event \<Rightarrow> int set" where
  "ids_of c = (case forgotten c of Inr ids \<Rightarrow> set ids | Inl _ \<Rightarrow> {})"

definition bookkeeping :: "event \<Rightarrow> bool" where
  "bookkeeping e \<longleftrightarrow> is_a e CondensationAction \<or> is_a e CondensationRequestAction"

definition sample_request :: event where
  "sample_request = (blank CondensationRequestAction [(''action'', PStr ''condensation_request'')])
     \<lparr>ev_id := Some 7, ev_source := Some AGENT\<rparr>"

definition summarising :: "llm \<Rightarrow> condenser \<Rightarrow> (int \<times> int \<times> int \<times> (string \<Rightarrow> event list \<Rightarrow> string option)) option" where
  \<comment> \<open>sizes and summary function of a summarising condenser\<close>
  "summarising m c = (case c of
     LLMSummarizingCondenser n k l \<Rightarrow> Some (n, k, l, summarise m)
   | StructuredSummaryCondenser n k l \<Rightarrow>
       Some (n, k, l, \<lambda>p es. Some (structured_summary (summary_tool_calls m p es)))
   | _ \<Rightarrow> None)"

definition recent_start :: "event list \<Rightarrow> int list \<Rightarrow> nat" where
  \<comment> \<open>where the half of the non-essential events that is to be kept begins\<close>
  "recent_start es ess = length es - max 1 ((length es - length ess) div 2)"

lemma sample_message_simps [simp]:
  "ev_class (sample_message i src s) = MessageAction" "eid (sample_message i src s) = i"
  "ev_id (sample_message i src s) = Some i"
  "ev_source (sample_message i src s) = Some src" "content (sample_message i src s) = s"
  "is_observation (sample_message i src s) = False" "is_action (sample_message i src s)"
  by (simp_all add: sample_message_def blank_def eid_def str_attr_def attr_def is_observation_def
      observations_def is_action_def actions_def)

lemma sample_history_view:
  "from_events sample_history = Inr \<lparr>v_events = sample_history, v_unhandled = False, v_forgotten = {}\<rparr>"
  by (simp add: sample_history_def from_events_def)

lemma sample_history_ids:
  "id_sorted sample_history" "\<forall>e\<in>set sample_history. eid e < 7"
  "no_summaries sample_history" "summaries_at k sample_history"
  by (simp_all add: sample_history_def id_sorted_def no_summaries_def summaries_at_def)

section \<open>The view\<close>

lemma collect_forgotten_eq:
  "collect_forgotten es acc = Inr F \<Longrightarrow>
   F = acc \<union> (\<Union>c\<in>{c\<in>set es. is_a c CondensationAction}. ids_of c) \<union> eid ` {e\<in>set es. bookkeeping e}"
proof (induction es acc arbitrary: F rule: collect_forgotten.induct)
  case (2 e es acc)
  show ?case
  proof (cases "is_a e CondensationAction")
    case True
    then obtain ids where f: "forgotten e = Inr ids"
      and r: "collect_forgotten es (insert (eid e) (acc \<union> set ids)) = Inr F"
      using 2(4) by (auto split: sum.splits)
    show ?thesis unfolding 2(1)[OF True f r] using True f by (auto simp: ids_of_def bookkeeping_def)
  next
    case False
    then show ?thesis using 2 by (auto simp: bookkeeping_def split: if_splits)
  qed
qed simp

lemma collect_forgotten_total:
  "(\<exists>F. collect_forgotten es acc = Inr F) \<longleftrightarrow>
   (\<forall>c\<in>set es. is_a c CondensationAction \<longrightarrow> is_ok (forgotten c))"
  by (induction es acc rule: collect_forgotten.induct) (auto split: sum.splits)

lemma view_kept_events:
  assumes "from_events es = Inr v" "\<forall>e\<in>set es. ev_id e \<noteq> None"
  shows "filter (\<lambda>e. ev_id e \<noteq> None) (v_events v) = filter (\<lambda>e. eid e \<notin> v_forgotten v) es"
proof -
  obtain F where F: "v_forgotten v = F" and ve: "v_events v = (case summary_of (rev es) of
           Some (s, k) \<Rightarrow> py_insert (filter (\<lambda>e. eid e \<notin> F) es) k (condensation_observation s)
         | None \<Rightarrow> filter (\<lambda>e. eid e \<notin> F) es)"
    using assms(1) by (elim from_events_Inr)
  have id: "filter (\<lambda>e. ev_id e \<noteq> None) (filter (\<lambda>e. eid e \<notin> F) es) = filter (\<lambda>e. eid e \<notin> F) es"
    unfolding filter_filter by (rule filter_cong) (use assms(2) in auto)
  have "ev_id (condensation_observation s) = None" for s
    by (simp add: condensation_observation_def blank_def)
  then show ?thesis unfolding F ve using id
    by (cases "summary_of (rev es)") (simp_all add: filter_py_insert case_prod_beta)
qed

text \<open>
  C9: The stored events of a view are exactly the events of the history that are neither
  condensation actions nor condensation requests and that no condensation action of the
  history forgets, in the order of the history.  Ids are assumed to increase along the
  history, as the event stream assigns them.
\<close>

theorem view_of_history:
  assumes "from_events es = Inr v" "id_sorted es" "\<forall>e\<in>set es. ev_id e \<noteq> None"
  shows "filter (\<lambda>e. ev_id e \<noteq> None) (v_events v) =
      filter (\<lambda>e. \<not> bookkeeping e \<and>
        (\<forall>c\<in>set es. is_a c CondensationAction \<longrightarrow> eid e \<notin> ids_of c)) es"
proof -
  obtain F where F: "collect_forgotten es {} = Inr F" "v_forgotten v = F"
    using assms(1) by (elim from_events_Inr)
  have Fe: "F = (\<Union>c\<in>{c\<in>set es. is_a c CondensationAction}. ids_of c) \<union> eid ` {e\<in>set es. bookkeeping e}"
    using collect_forgotten_eq[OF F(1)] by simp
  have inj: "inj_on eid (set es)" using id_sorted_distinct[OF assms(2)] by (simp add: distinct_map)
  have "eid e \<in> eid ` {e\<in>set es. bookkeeping e} \<longleftrightarrow> bookkeeping e" if "e \<in> set es" for e
    using that inj by (auto dest: inj_onD)
  then have "filter (\<lambda>e. eid e \<notin> F) es = filter (\<lambda>e. \<not> bookkeeping e \<and>
        (\<forall>c\<in>set es. is_a c CondensationAction \<longrightarrow> eid e \<notin> ids_of c)) es"
    unfolding Fe by (intro filter_cong) auto
  then show ?thesis unfolding view_kept_events[OF assms(1,3)] F(2) .
qed

theorem view_of_history_witness:
  "\<exists>v. from_events sample_history = Inr v \<and>
     filter (\<lambda>e. ev_id e \<noteq> None) (v_events v) = sample_history"
  using view_of_history[OF sample_history_view sample_history_ids(1)] sample_history_view
  by (simp add: sample_history_def bookkeeping_def)

lemma from_events_ok:
  "is_ok (from_events es) \<longleftrightarrow>
     list_all (\<lambda>c. is_ok (forgotten c)) (filter (\<lambda>c. is_a c CondensationAction) es)"
  by (cases "collect_forgotten es {}")
    (use collect_forgotten_total[of es "{}"] in \<open>auto simp: from_events_def list_all_iff Let_def\<close>)

text \<open>
  Building a view raises exactly when some condensation action in the history has an
  invalid combination of optional fields.
\<close>

theorem view_totality:
  "is_ok (from_events es) \<longleftrightarrow>
     list_all (\<lambda>c. is_ok (forgotten c)) (filter (\<lambda>c. is_a c CondensationAction) es)"
  by (rule from_events_ok)

text \<open>
  A view carries an unhandled condensation request exactly when the history has a request
  that no later condensation action answers.
\<close>

theorem view_unhandled_request:
  assumes "from_events es = Inr v"
  shows "v_unhandled v \<longleftrightarrow>
    (\<exists>before r after. es = before @ r # after \<and> is_a r CondensationRequestAction \<and>
       filter (\<lambda>e. is_a e CondensationAction) after = [])"
proof -
  have "unhandled_request (rev es) \<longleftrightarrow>
    (\<exists>before r after. es = before @ r # after \<and> is_a r CondensationRequestAction \<and>
       filter (\<lambda>e. is_a e CondensationAction) after = [])"
  proof (induction es rule: rev_induct)
    case (snoc x xs)
    let ?P = "\<lambda>es. \<exists>before r after. es = before @ r # after \<and> is_a r CondensationRequestAction \<and>
       filter (\<lambda>e. is_a e CondensationAction) after = []"
    have "?P (xs @ [x]) \<longleftrightarrow> is_a x CondensationRequestAction \<or> (\<not> is_a x CondensationAction \<and> ?P xs)"
    proof
      assume "?P (xs @ [x])"
      then obtain b r a where *: "xs @ [x] = b @ r # a" "is_a r CondensationRequestAction"
         "filter (\<lambda>e. is_a e CondensationAction) a = []" by blast
      then show "is_a x CondensationRequestAction \<or> (\<not> is_a x CondensationAction \<and> ?P xs)"
      proof (cases a rule: rev_cases)
        case Nil
        then show ?thesis using * by simp
      next
        case (snoc ys y)
        then have "xs = b @ r # ys" "x = y" using *(1) by simp_all
        then show ?thesis using *(2,3) snoc by (auto split: if_splits)
      qed
    next
      assume "is_a x CondensationRequestAction \<or> (\<not> is_a x CondensationAction \<and> ?P xs)"
      then show "?P (xs @ [x])"
      proof
        assume "is_a x CondensationRequestAction"
        then show ?thesis by (intro exI[of _ xs] exI[of _ x] exI[of _ "[]"]) simp
      next
        assume "\<not> is_a x CondensationAction \<and> ?P xs"
        then obtain b r a where "\<not> is_a x CondensationAction" "xs = b @ r # a"
          "is_a r CondensationRequestAction" "filter (\<lambda>e. is_a e CondensationAction) a = []" by blast
        then show ?thesis by (intro exI[of _ b] exI[of _ r] exI[of _ "a @ [x]"]) simp
      qed
    qed
    then show ?case using snoc by auto
  qed simp
  then show ?thesis using assms by (metis from_events_Inr)
qed



theorem view_unhandled_request_witness:
  "\<exists>v. from_events (sample_history @ [sample_request]) = Inr v \<and> v_unhandled v"
proof -
  have "is_a sample_request CondensationRequestAction"
    by (simp add: sample_request_def blank_def)
  moreover have "is_ok (from_events (sample_history @ [sample_request]))"
    unfolding from_events_ok by (simp add: sample_history_def sample_request_def blank_def)
  ultimately show ?thesis
    using view_unhandled_request by (cases "from_events (sample_history @ [sample_request])") fastforce+
qed

text \<open>
  C10: After the condensation that \<^verbatim>\<open>AmortizedForgettingCondenser\<close>
  answers with has been added to the history, the next view is the first
  \<open>keep_first\<close> events followed by the last \<open>max_size // 2 -
  keep_first\<close> ones, has \<open>max_size // 2\<close> events, and is not condensed
  again.
\<close>

theorem amortized_next_view:
  assumes "amortized_init n k = Inr ()" "no_summaries es" "from_events es = Inr v"
    "condense m (AmortizedForgettingCondenser n k) v = Inr (CCondensation c)"
    "\<forall>e\<in>set es. eid e < i"
  shows "\<exists>v'. from_events (es @ [c\<lparr>ev_id := Some i\<rparr>]) = Inr v' \<and>
     v_events v' = take (nat k) (v_events v) @
       drop (length (v_events v) - nat (n div 2 - k)) (v_events v) \<and>
     view_len v' = n div 2 \<and>
     condense m (AmortizedForgettingCondenser n k) v' = Inr (CView v')"
proof -
  have c: "amortized_get_condensation n k v = Inr c"
    using assms(4) by (auto simp: rolling_condense_def as_condensation_def split: if_splits sum.splits)
  have cfg: "amortized_config n k" using assms(1) by unfold_locales
  show ?thesis
    using amortized_view_after[OF assms(1-3) c assms(5)]
      amortized_config.amortized_settles[OF cfg assms(2,3) assms(4)[unfolded condense.simps] assms(5)]
    by auto
qed

theorem amortized_next_view_witness:
  "\<exists>c v'. condense sample_llm (AmortizedForgettingCondenser 6 1)
        \<lparr>v_events = sample_history, v_unhandled = False, v_forgotten = {}\<rparr> = Inr (CCondensation c) \<and>
     from_events (sample_history @ [c\<lparr>ev_id := Some 7\<rparr>]) = Inr v' \<and>
     map eid (v_events v') = [0, 5, 6]"
proof -
  have i: "amortized_init 6 1 = Inr ()" by (simp add: amortized_init_def)
  have c: "condense sample_llm (AmortizedForgettingCondenser 6 1)
        \<lparr>v_events = sample_history, v_unhandled = False, v_forgotten = {}\<rparr> =
      Inr (CCondensation (blank CondensationAction
       [(''action'', PStr ''condensation''), (''forgotten_event_ids'', PNone),
        (''forgotten_events_start_id'', PInt 1), (''forgotten_events_end_id'', PInt 4),
        (''summary'', PNone), (''summary_offset'', PNone)]))"
    by (simp add: rolling_condense_def over_size_def view_len_def sample_history_def as_condensation_def
        amortized_get_condensation_def view_slice_def py_clip_def py_range_def numeral_eq_Suc
        condensation_range_eq Let_def)
  show ?thesis
    using amortized_next_view[OF i sample_history_ids(3) sample_history_view c sample_history_ids(2)] c
    by (auto simp: sample_history_def)
qed

text \<open>
  A condensation request on a view of at most \<open>max_size // 2\<close> events makes
  \<^verbatim>\<open>AmortizedForgettingCondenser\<close> raise: it takes the minimum of an
  empty list.
\<close>

theorem amortized_request_fails_on_short_view:
  assumes "amortized_init n k = Inr ()" "v_unhandled v" "view_len v \<le> n div 2"
  shows "condense m (AmortizedForgettingCondenser n k) v =
     Inl (ValueError ''min() arg is an empty sequence'')"
  using amortized_short_view[OF assms(1,3)] assms(2)
  by (simp add: rolling_condense_def over_size_def as_condensation_def)

theorem amortized_request_fails_on_short_view_witness:
  "condense sample_llm (AmortizedForgettingCondenser 100 0)
     \<lparr>v_events = sample_history, v_unhandled = True, v_forgotten = {}\<rparr> =
     Inl (ValueError ''min() arg is an empty sequence'')"
  by (rule amortized_request_fails_on_short_view)
    (simp_all add: amortized_init_def view_len_def sample_history_def)

lemma summarising_condense:
  "summarising m d = Some (n, k, l, f) \<Longrightarrow>
   condense m d v = rolling_condense (over_size n) (summary_condensation f n k l) v"
  by (auto simp: summarising_def split: condenser.splits)

text \<open>
  After the condensation of a summarising condenser (LLM summary or structured summary)
  has been added to the history, the next view is the first \<open>keep_first\<close> stored
  events, the summary, and the last \<open>max_size // 2 - keep_first - 1\<close> stored
  events; it has \<open>max_size // 2\<close> events and is not condensed again.
\<close>

theorem summary_next_view:
  assumes "summarising m d = Some (n, k, l, f)" "0 \<le> k" "k + 1 < n div 2"
    "summaries_at k es" "from_events es = Inr v" "condense m d v = Inr (CCondensation c)"
    "\<forall>e\<in>set es. eid e < i"
  shows "\<exists>v' s. from_events (es @ [c\<lparr>ev_id := Some i\<rparr>]) = Inr v' \<and>
     v_events v' = take (nat k) (kept_events es) @ [condensation_observation s] @
       drop (length (kept_events es) - nat (n div 2 - k - 1)) (kept_events es) \<and>
     view_len v' = n div 2 \<and> condense m d v' = Inr (CView v')"
proof -
  note cd = summarising_condense[OF assms(1)]
  have c: "summary_condensation f n k l v = Inr c"
    using assms(6) unfolding cd
    by (auto simp: rolling_condense_def as_condensation_def split: if_splits sum.splits)
  have cfg: "summary_config n k" using assms(2,3) by unfold_locales
  show ?thesis
    using summary_view_after[OF assms(2-5) c assms(7)]
      summary_config.summary_settles[OF cfg assms(4,5) assms(6)[unfolded cd] assms(7)]
    unfolding cd by fastforce
qed

text \<open>
  With \<open>keep_first = max_size // 2 - 1\<close>, which the constructor accepts, a
  summarising condenser raises on every view that it should condense.
\<close>

theorem summary_boundary_config_never_condenses:
  assumes "summarising m d = Some (n, k, l, f)" "0 \<le> k" "k + 1 = n div 2" "over_size n v"
  shows "summarizing_init n k = Inr () \<and> structured_init True n k = Inr () \<and> (\<exists>err. condense m d v = Inl err)"
proof -
  have "\<exists>err. summary_condensation f n k l v = Inl err"
    using summary_never[OF assms(2,3)] by (cases "summary_condensation f n k l v") auto
  then show ?thesis
    using assms by (auto simp: summarising_condense[OF assms(1)] rolling_condense_def
        as_condensation_def rolling_init_ok)
qed

theorem summary_boundary_config_never_condenses_witness:
  "summarizing_init 6 2 = Inr () \<and> structured_init True 6 2 = Inr () \<and> (\<exists>err. condense sample_llm (LLMSummarizingCondenser 6 2 10)
     \<lparr>v_events = sample_history, v_unhandled = False, v_forgotten = {}\<rparr> = Inl err)"
  by (rule summary_boundary_config_never_condenses[where f = "summarise sample_llm" and l = 10])
    (simp_all add: summarising_def over_size_def view_len_def sample_history_def)

theorem summary_next_view_witness:
  "\<exists>c v'. condense sample_llm (LLMSummarizingCondenser 6 1 100)
        \<lparr>v_events = sample_history, v_unhandled = False, v_forgotten = {}\<rparr> = Inr (CCondensation c) \<and>
     from_events (sample_history @ [c\<lparr>ev_id := Some 7\<rparr>]) = Inr v' \<and>
     map eid (v_events v') = [0, -1, 6]"
proof -
  have c: "condense sample_llm (LLMSummarizingCondenser 6 1 100)
        \<lparr>v_events = sample_history, v_unhandled = False, v_forgotten = {}\<rparr> =
      Inr (CCondensation (blank CondensationAction
       [(''action'', PStr ''condensation''), (''forgotten_event_ids'', PNone),
        (''forgotten_events_start_id'', PInt 1), (''forgotten_events_end_id'', PInt 5),
        (''summary'', PStr ''No events summarized+''), (''summary_offset'', PInt 1)]))"
    by (simp add: rolling_condense_def over_size_def view_len_def sample_history_def as_condensation_def
        summary_condensation_def summary_parts_def view_slice_def py_clip_def py_range_def numeral_eq_Suc
        view_getitem_def condensation_observation_def blank_def truncate_content_def str_attr_def attr_def
        sample_llm_def condensation_summary_Some Let_def)
  show ?thesis
    using summary_next_view[of sample_llm _ 6 1 100 "summarise sample_llm",
        OF _ _ _ sample_history_ids(4) sample_history_view c sample_history_ids(2)] c
    by (auto simp: summarising_def sample_history_def kept_events_def INVALID_ID_def)
qed

lemma first_valid_skips: "j < first_valid_index es \<Longrightarrow> is_observation (es ! j)"
  by (cases "first_idx (\<lambda>e. \<not> is_observation e) es")
    (auto simp: first_valid_index_def first_idx_None_iff dest: first_idx_Some_iff[THEN iffD1])

lemma first_valid_le: "first_valid_index es \<le> length es"
  by (cases "first_idx (\<lambda>e. \<not> is_observation e) es")
    (auto simp: first_valid_index_def dest: first_idx_Some_iff[THEN iffD1])

lemma window_keep_from_eq:
  "window_keep_from es ess = recent_start es ess + first_valid_index (drop (recent_start es ess) es)"
proof -
  have "nat (max 0 (int (length es) - max 1 ((int (length es) - int (length ess)) div 2))) =
     recent_start es ess"
    by (cases "length ess \<le> length es") (auto simp: recent_start_def nat_diff_distrib of_nat_diff zdiv_int)
  then show ?thesis by (simp add: window_keep_from_def Let_def)
qed

lemma window_keep_from_skips:
  "recent_start es ess \<le> j \<Longrightarrow> j < window_keep_from es ess \<Longrightarrow> is_observation (es ! j)"
  using first_valid_skips[of "j - recent_start es ess" "drop (recent_start es ess) es"]
    first_valid_le[of "drop (recent_start es ess) es"]
  by (simp add: window_keep_from_eq)

text \<open>
  \<^verbatim>\<open>ConversationWindowCondenser\<close> forgets exactly the events before
  a position \<open>start\<close> whose ids are not essential and do not occur later;
  \<open>start\<close> is the beginning of the recent half moved past leading observations, so
  the kept tail begins with an action.  The first user message and the system message are
  essential.
\<close>

theorem conversation_window_keeps:
  assumes "v_unhandled v" "find from_user (v_events v) = Some u"
    "essential = set (essential_ids (v_events v) u)"
    "first = recent_start (v_events v) (essential_ids (v_events v) u)"
  shows "\<exists>c ids start. condense m ConversationWindowCondenser v = Inr (CCondensation c) \<and>
     forgotten c = Inr ids \<and> first \<le> start \<and>
     (\<forall>j\<in>{first..<start}. is_observation (v_events v ! j)) \<and>
     (start < length (v_events v) \<longrightarrow> is_action (v_events v ! start)) \<and>
     set ids = eid ` set (take start (v_events v))
                 - (essential \<union> eid ` set (drop start (v_events v))) \<and>
     eid u \<in> essential \<and>
     (\<forall>s. find (\<lambda>e. is_a e SystemMessageAction) (v_events v) = Some s \<longrightarrow> eid s \<in> essential)"
proof -
  let ?es = "v_events v" let ?ess = "essential_ids (v_events v) u"
  let ?start = "window_keep_from ?es ?ess"
  obtain c ids where c: "window_get_condensation v = Inr c" "forgotten c = Inr ids"
    "set ids = set (window_forgotten ?es ?ess)"
    by (rule window_forgets[OF assms(2)]) blast
  have "set ?es = set (take ?start ?es) \<union> set (drop ?start ?es)"
    by (metis append_take_drop_id set_append)
  then have "set ids = eid ` set (take ?start ?es) - (set ?ess \<union> eid ` set (drop ?start ?es))"
    using c(3) unfolding set_window_forgotten by blast
  moreover have "condense m ConversationWindowCondenser v = Inr (CCondensation c)"
    using assms(1) c(1) by (simp add: rolling_condense_def as_condensation_def)
  moreover have "recent_start ?es ?ess \<le> ?start" by (simp add: window_keep_from_eq)
  ultimately show ?thesis
    using c(2) essential_has_user[of u ?es] essential_has_system[of ?es _ u] assms(3,4)
      window_starts_with_action[of ?es ?ess] window_keep_from_skips[of ?es ?ess]
    by (intro exI[of _ c] exI[of _ ids] exI[of _ ?start]) auto
qed

theorem conversation_window_keeps_witness:
  "\<exists>c ids. condense sample_llm ConversationWindowCondenser
      \<lparr>v_events = sample_history, v_unhandled = True, v_forgotten = {}\<rparr> = Inr (CCondensation c) \<and>
     forgotten c = Inr ids \<and> 0 \<notin> set ids"
  using conversation_window_keeps[of "\<lparr>v_events = sample_history, v_unhandled = True, v_forgotten = {}\<rparr>"
      "sample_message 0 USER ''m''" _ _ sample_llm, OF _ _ refl refl]
  by (auto simp: sample_history_def from_user_def)

lemma take_filter_keeps:
  "\<forall>x\<in>set (take k xs). P x \<Longrightarrow> take k (filter P xs) = take k xs"
proof (induction xs arbitrary: k)
  case (Cons x xs)
  then show ?case by (cases k) auto
qed simp

text \<open>
  C34: \<^verbatim>\<open>LLMAttentionCondenser\<close> answers an oversized view with a
  condensation whatever ids the model returns; the next view is a subsequence of the old one
  that keeps its first \<open>keep_first\<close> events, has at most \<open>max_size //
  2\<close> events, and is not condensed again.
\<close>

theorem attention_next_view:
  assumes "attention_init b n k = Inr ()" "no_summaries es" "from_events es = Inr v"
    "over_size n v" "\<forall>e\<in>set es. eid e < i"
  shows "\<exists>c v'. condense m (LLMAttentionCondenser n k) v = Inr (CCondensation c) \<and>
     from_events (es @ [c\<lparr>ev_id := Some i\<rparr>]) = Inr v' \<and> subseq (v_events v') (v_events v) \<and>
     take (nat k) (v_events v') = take (nat k) (v_events v) \<and>
     view_len v' \<le> n div 2 \<and> condense m (LLMAttentionCondenser n k) v' = Inr (CView v')"
proof -
  obtain F where F: "collect_forgotten es {} = Inr F" "v_events v = filter (\<lambda>e. eid e \<notin> F) es"
    using assms(2,3) by (elim from_events_Inr) (simp add: no_summaries_def)
  have ids: "id_sorted es" and no: "summary_of (rev es) = None"
    using assms(2) by (simp_all add: no_summaries_def)
  have "distinct (map eid (v_events v))"
    using id_sorted_distinct[OF id_sorted_filter[OF ids]] F(2) by metis
  then obtain c fs where c: "attention_get_condensation (rank_ids m) n k v = Inr c"
    "is_a c CondensationAction" "forgotten c = Inr fs"
    "\<forall>e\<in>set (take (nat k) (v_events v)). eid e \<notin> set fs"
    "int (length (filter (\<lambda>e. eid e \<notin> set fs) (v_events v))) \<le> n div 2"
    by (rule attention_keeps[OF assms(1)])
  have sm: "ostr_attr c ''summary'' = None"
    using c(1) condensation_ids_props(2) by (auto simp: attention_get_condensation_def Let_def)
  let ?v' = "\<lparr>v_events = filter (\<lambda>e. eid e \<notin> set fs) (v_events v), v_unhandled = False,
     v_forgotten = insert i (F \<union> set fs)\<rparr>"
  have "filter (\<lambda>e. eid e \<notin> insert i (F \<union> set fs)) es = filter (\<lambda>e. eid e \<notin> set fs) (v_events v)"
    unfolding F(2) filter_filter by (rule filter_cong) (use assms(5) in auto)
  then have v': "from_events (es @ [c\<lparr>ev_id := Some i\<rparr>]) = Inr ?v'"
    using from_events_snoc[OF F(1), of "c\<lparr>ev_id := Some i\<rparr>"] c(2,3) no sm by (simp add: eid_def Let_def)
  have "0 < n" using assms(1) rolling_init_ok(3)[of b n k] by linarith
  then have small: "\<not> over_size n ?v'" using c(5) by (simp add: over_size_def view_len_def)
  show ?thesis
    using c(1,5) v' small assms(4) take_filter_keeps[OF c(4)]
    by (intro exI[of _ c] exI[of _ ?v'])
      (simp add: rolling_condense_def as_condensation_def view_len_def)
qed

theorem attention_next_view_witness:
  "\<exists>c v'. condense sample_llm (LLMAttentionCondenser 6 1)
        \<lparr>v_events = sample_history, v_unhandled = False, v_forgotten = {}\<rparr> = Inr (CCondensation c) \<and>
     from_events (sample_history @ [c\<lparr>ev_id := Some 7\<rparr>]) = Inr v' \<and> view_len v' \<le> 3"
  using attention_next_view[of True 6 1, OF _ sample_history_ids(3) sample_history_view _ sample_history_ids(2),
      where m = sample_llm]
  by (simp add: attention_init_def over_size_def view_len_def)
    (auto simp: sample_history_def)

text \<open>
  On a view of at least \<open>max_events\<close> events,
  \<^verbatim>\<open>RecentEventsCondenser\<close> keeps the first \<open>keep_first\<close>
  and the last \<open>max_events - keep_first\<close> events, \<open>max_events\<close> in
  all.
\<close>

theorem recent_events_keeps:
  assumes "0 \<le> k" "k < n" "n \<le> view_len v"
  shows "condense m (RecentEventsCondenser k n) v = Inr (CView (plain_view
      (take (nat k) (v_events v) @ drop (length (v_events v) - nat (n - k)) (v_events v)))) \<and>
     int (length (take (nat k) (v_events v) @ drop (length (v_events v) - nat (n - k)) (v_events v))) = n"
  using assms recent_events_eq[OF assms(1,2), of v] by (simp add: view_len_def min_def)

theorem recent_events_keeps_witness:
  "condense sample_llm (RecentEventsCondenser 1 3) (plain_view sample_history) =
     Inr (CView (plain_view (map ((!) sample_history) [0, 5, 6])))"
  using recent_events_keeps[of 1 3 "plain_view sample_history" sample_llm]
  by (simp add: view_len_def plain_view_def sample_history_def numeral_eq_Suc)

text \<open>
  On a non-empty view of at most \<open>max_events - keep_first\<close> events,
  \<^verbatim>\<open>RecentEventsCondenser\<close> repeats the first \<open>keep_first\<close>
  events in front of the whole view, so it does not agree with
  \<^verbatim>\<open>NoOpCondenser\<close>.
\<close>

theorem recent_events_duplicates:
  assumes "0 < k" "view_len v \<le> n - k" "v_events v \<noteq> []"
  shows "condense m (RecentEventsCondenser k n) v =
      Inr (CView (plain_view (take (nat k) (v_events v) @ v_events v))) \<and>
     condense m (RecentEventsCondenser k n) v \<noteq> condense m NoOpCondenser v"
proof -
  have "length (v_events v) - nat (n - int (min (nat k) (length (v_events v)))) = 0"
    using assms by (simp add: view_len_def)
  moreover have "k < n" using assms by (cases "v_events v") (auto simp: view_len_def)
  ultimately have r: "condense m (RecentEventsCondenser k n) v =
      Inr (CView (plain_view (take (nat k) (v_events v) @ v_events v)))"
    using assms recent_events_eq[of k n v] by simp
  have "v_events (plain_view (take (nat k) (v_events v) @ v_events v)) \<noteq> v_events v"
    using assms by (simp add: plain_view_def)
  then have "plain_view (take (nat k) (v_events v) @ v_events v) \<noteq> v" by auto
  then show ?thesis unfolding r by (simp add: noop_condense_def)
qed

theorem recent_events_duplicates_witness:
  "condense sample_llm (RecentEventsCondenser 1 10) (plain_view sample_history) =
      Inr (CView (plain_view (sample_history ! 0 # sample_history))) \<and>
     condense sample_llm (RecentEventsCondenser 1 10) (plain_view sample_history) \<noteq>
       condense sample_llm NoOpCondenser (plain_view sample_history)"
  using recent_events_duplicates[of 1 "plain_view sample_history" 10 sample_llm]
  by (simp add: view_len_def plain_view_def sample_history_def noop_condense_def)

text \<open>
  The masking condensers keep the length and every position of the view:
  \<^verbatim>\<open>ObservationMaskingCondenser\<close> replaces exactly the observations
  before the attention window, and \<^verbatim>\<open>BrowserOutputCondenser\<close> changes
  browser outputs only and leaves at most \<open>attention_window\<close> of them.
\<close>

theorem masking_condensers_keep_shape:
  assumes "condense m (ObservationMaskingCondenser w) v = Inr (CView a)"
    "condense m (BrowserOutputCondenser b) v = Inr (CView c)" "0 \<le> b"
  shows "length (v_events a) = length (v_events v) \<and> length (v_events c) = length (v_events v) \<and>
     (\<forall>j<length (v_events v). v_events a ! j =
        (if is_observation (v_events v ! j) \<and> int j < view_len v - w
         then condensation_observation ''<MASKED>'' else v_events v ! j) \<and>
        (\<not> is_a (v_events v ! j) BrowserOutputObservation \<longrightarrow> v_events c ! j = v_events v ! j)) \<and>
     int (length (filter (\<lambda>e. is_a e BrowserOutputObservation) (v_events c))) =
       min b (int (length (filter (\<lambda>e. is_a e BrowserOutputObservation) (v_events v))))"
proof -
  let ?r = "browser_mask b 0 (rev (v_events v))"
  have a: "a = plain_view (mask_from 0 (view_len v - w) (v_events v))" and c: "c = plain_view (rev ?r)"
    using assms(1,2) by (simp_all add: observation_masking_condense_def browser_output_condense_def)
  have "rev ?r ! j = v_events v ! j"
    if "j < length (v_events v)" "\<not> is_a (v_events v ! j) BrowserOutputObservation" for j
    using browser_mask_other[of "length (v_events v) - Suc j" "rev (v_events v)" b 0] that
    by (simp add: rev_nth)
  then show ?thesis
    using browser_mask_count[OF assms(3), of "rev (v_events v)"]
    by (simp add: a c plain_view_def mask_from_nth flip: rev_filter)
qed

theorem masking_condensers_keep_shape_witness:
  "\<exists>a c. condense sample_llm (ObservationMaskingCondenser 2) (plain_view sample_history) = Inr (CView a) \<and>
     condense sample_llm (BrowserOutputCondenser 1) (plain_view sample_history) = Inr (CView c) \<and>
     length (v_events a) = 7 \<and> length (v_events c) = 7"
  using masking_condensers_keep_shape[of sample_llm 2 "plain_view sample_history" _ 1]
  by (simp add: observation_masking_condense_def browser_output_condense_def)
   (simp add: plain_view_def sample_history_def)

text \<open>
  A pipeline of condensers runs in sequence: the second part of a pipeline sees the view
  that the first part returns, and an error or a condensation of the first part is the result.
\<close>

theorem pipeline_stops_at_condensation:
  "condense m (CondenserPipeline (cs @ ds)) v =
     (case condense m (CondenserPipeline cs) v of
        Inl err \<Rightarrow> Inl err
      | Inr (CCondensation e) \<Rightarrow> Inr (CCondensation e)
      | Inr (CView v') \<Rightarrow> condense m (CondenserPipeline ds) v')"
  by (auto simp: condense_all_append split: sum.splits condense_result.splits)

end
