(* ===== verification/Event_Serialization.thy ===== *)
theory Event_Serialization
  imports Event_Classes
begin

text \<open>
  \<^verbatim>\<open>openhands/events/serialization/\<close>: events to dictionaries and back.  A dictionary is a list
  of key-value pairs in insertion order.  Pydantic models and enum members are the values
  they dump to; pydantic's coercions of field types are not modelled, required fields are.
  The one branch that calls \<^verbatim>\<open>ast.literal_eval\<close> is answered with \<^const>\<open>NotModelled\<close>.
\<close>

section \<open>Keys and tables\<close>

type_synonym data = "(string, pyval) dict"

definition TOP_KEYS :: "string list" where
  "TOP_KEYS = [''id'', ''timestamp'', ''source'', ''message'', ''cause'', ''action'', ''observation'',
     ''tool_call_metadata'', ''llm_metrics'']"

definition UNDERSCORE_KEYS :: "string list" where
  "UNDERSCORE_KEYS = [''id'', ''timestamp'', ''source'', ''cause'', ''tool_call_metadata'', ''llm_metrics'']"

definition DELETE_FROM_TRAJECTORY_EXTRAS :: "string list" where
  "DELETE_FROM_TRAJECTORY_EXTRAS =
     [''dom_object'', ''axtree_object'', ''active_page_index'', ''last_browser_action'',
      ''last_browser_action_error'', ''focused_element_bid'', ''extra_element_properties'']"

definition DELETE_FROM_TRAJECTORY_EXTRAS_AND_SCREENSHOTS :: "string list" where
  "DELETE_FROM_TRAJECTORY_EXTRAS_AND_SCREENSHOTS =
     DELETE_FROM_TRAJECTORY_EXTRAS @ [''screenshot'', ''set_of_marks'']"

definition type_name :: "string \<Rightarrow> event_class \<Rightarrow> string" where
  \<comment> \<open>the class attribute \<^verbatim>\<open>action\<close> or \<^verbatim>\<open>observation\<close>\<close>
  "type_name key c =
     (case map_of (ci_fields (class_of c)) key of Some (Some (PStr s)) \<Rightarrow> s | _ \<Rightarrow> [])"

definition ACTION_TYPE_TO_CLASS :: "string \<Rightarrow> event_class option" where
  "ACTION_TYPE_TO_CLASS s = find (\<lambda>c. type_name ''action'' c = s) (rev actions)"

definition OBSERVATION_TYPE_TO_CLASS :: "string \<Rightarrow> event_class option" where
  "OBSERVATION_TYPE_TO_CLASS s = find (\<lambda>c. type_name ''observation'' c = s) (rev observations)"

section \<open>To dictionaries\<close>

fun top_value :: "event \<Rightarrow> string \<Rightarrow> (pyval option) res" where
  \<comment> \<open>what the loop over \<^verbatim>\<open>TOP_KEYS\<close> stores under a key, if anything\<close>
  "top_value e k =
     (if k = ''id'' then Inr (if eid e = -1 then None else Some (PInt (eid e)))
      else if k = ''timestamp'' then Inr (map_option PStr (ev_timestamp e))
      else if k = ''source'' then Inr (map_option (\<lambda>s. PStr (source_value s)) (ev_source e))
      else if k = ''message'' then (case message e of Inl err \<Rightarrow> Inl err | Inr s \<Rightarrow> Inr (Some (PStr s)))
      else if k = ''cause'' then Inr (map_option PInt (ev_cause e))
      else if k = ''tool_call_metadata'' then Inr (ev_tool_call_metadata e)
      else if k = ''llm_metrics'' then Inr (map_option metrics_get (ev_llm_metrics e))
      else Inr (case attr e k of Some PNone \<Rightarrow> None | v \<Rightarrow> v))"

fun top_entries :: "event \<Rightarrow> string list \<Rightarrow> data res" where
  "top_entries e [] = Inr []"
| "top_entries e (k # ks) =
     (case top_value e k of
        Inl err \<Rightarrow> Inl err
      | Inr v \<Rightarrow> (case top_entries e ks of
                   Inl err \<Rightarrow> Inl err
                 | Inr d \<Rightarrow> Inr (case v of None \<Rightarrow> d | Some x \<Rightarrow> (k, x) # d)))"

definition drop_none :: "string \<Rightarrow> data \<Rightarrow> data" where
  \<comment> \<open>\<^verbatim>\<open>if k in props and props[k] is None: props.pop(k)\<close>\<close>
  "drop_none k props = (if map_of props k = Some PNone then dict_del k props else props)"

definition success :: "event \<Rightarrow> bool option" where
  \<comment> \<open>the \<^verbatim>\<open>success\<close> property of the two observation classes that have it\<close>
  "success e =
     (if is_a e CmdOutputObservation then Some (exit_code e = 0)
      else if is_a e IPythonRunCellObservation then Some True
      else map_option (\<lambda>v. v = PBool True) (attr e ''success''))"

definition event_to_dict :: "event \<Rightarrow> data res" where
  "event_to_dict e =
     (case top_entries e TOP_KEYS of
        Inl err \<Rightarrow> Inl err
      | Inr d \<Rightarrow>
          (let props = drop_none ''task_completed'' (drop_none ''security_risk''
                         (filter (\<lambda>p. fst p \<notin> set TOP_KEYS) (ev_fields e)))
           in if dict_has ''action'' d
              then Inr (d @ [(''args'', PDict props)]
                        @ (case ev_timeout e of Some t \<Rightarrow> [(''timeout'', PFloat t)] | None \<Rightarrow> []))
              else if dict_has ''observation'' d
              then Inr (d @ [(''content'', case map_of props ''content'' of Some v \<Rightarrow> v | None \<Rightarrow> PStr []),
                             (''extras'', PDict (dict_del ''content'' props))]
                        @ (case success e of Some b \<Rightarrow> [(''success'', PBool b)] | None \<Rightarrow> []))
              else Inl (ValueError ''Event must be either action or observation.'')))"

fun remove_fields :: "string list \<Rightarrow> pyval \<Rightarrow> pyval"
and remove_fields_items :: "string list \<Rightarrow> (string \<times> pyval) list \<Rightarrow> (string \<times> pyval) list"
and remove_fields_list :: "string list \<Rightarrow> pyval list \<Rightarrow> pyval list" where
  "remove_fields names (PDict d) = PDict (remove_fields_items names d)"
| "remove_fields names (PList vs) = PList (remove_fields_list names vs)"
| "remove_fields names v = v"
| "remove_fields_items names [] = []"
| "remove_fields_items names ((k, v) # d) =
     (if k \<in> set names then remove_fields_items names d
      else (k, remove_fields names v) # remove_fields_items names d)"
| "remove_fields_list names [] = []"
| "remove_fields_list names (v # vs) = remove_fields names v # remove_fields_list names vs"

definition event_to_trajectory :: "event \<Rightarrow> bool \<Rightarrow> data res" where
  "event_to_trajectory e include_screenshots =
     (case event_to_dict e of
        Inl err \<Rightarrow> Inl err
      | Inr d \<Rightarrow>
          Inr (map (\<lambda>p. if fst p = ''extras''
                        then (fst p, remove_fields (if include_screenshots then DELETE_FROM_TRAJECTORY_EXTRAS
                                else DELETE_FROM_TRAJECTORY_EXTRAS_AND_SCREENSHOTS) (snd p))
                        else p) d))"

section \<open>From dictionaries\<close>

subsection \<open>Metrics\<close>

definition str_at :: "data \<Rightarrow> string \<Rightarrow> string" where
  "str_at d k = (case map_of d k of Some (PStr s) \<Rightarrow> s | _ \<Rightarrow> [])"

definition int_at :: "data \<Rightarrow> string \<Rightarrow> int" where
  "int_at d k = (case map_of d k of Some (PInt i) \<Rightarrow> i | _ \<Rightarrow> 0)"

definition float_at :: "data \<Rightarrow> string \<Rightarrow> rat" where
  "float_at d k = (case map_of d k of Some (PFloat r) \<Rightarrow> r | Some (PInt i) \<Rightarrow> of_int i | _ \<Rightarrow> 0)"

definition dicts_at :: "data \<Rightarrow> string \<Rightarrow> data list" where
  "dicts_at d k =
     (case map_of d k of
        Some (PList vs) \<Rightarrow> map (\<lambda>v. case v of PDict x \<Rightarrow> x | _ \<Rightarrow> []) vs
      | _ \<Rightarrow> [])"

definition usage_load :: "data \<Rightarrow> token_usage" where
  "usage_load d =
     \<lparr>tu_model = str_at d ''model'', prompt_tokens = int_at d ''prompt_tokens'',
      completion_tokens = int_at d ''completion_tokens'',
      cache_read_tokens = int_at d ''cache_read_tokens'',
      cache_write_tokens = int_at d ''cache_write_tokens'',
      context_window = int_at d ''context_window'',
      per_turn_token = int_at d ''per_turn_token'', tu_response_id = str_at d ''response_id''\<rparr>"

definition cost_load :: "data \<Rightarrow> cost" where
  "cost_load d = \<lparr>cost_model = str_at d ''model'', cost_cost = float_at d ''cost'',
     cost_timestamp = float_at d ''timestamp''\<rparr>"

definition latency_load :: "data \<Rightarrow> response_latency" where
  "latency_load d = \<lparr>lat_model = str_at d ''model'', lat_latency = float_at d ''latency'',
     lat_response_id = str_at d ''response_id''\<rparr>"

definition metrics_load :: "pyval \<Rightarrow> metrics res" where
  \<comment> \<open>the \<^verbatim>\<open>llm_metrics\<close> branch of \<^verbatim>\<open>event_from_dict\<close>; the model name is not part of the dump\<close>
  "metrics_load v =
     (case v of
        PDict d \<Rightarrow>
          (case set_accumulated_cost (float_at d ''accumulated_cost'') (metrics_init ''default'') of
             Inl err \<Rightarrow> Inl err
           | Inr m \<Rightarrow>
               Inr (m\<lparr>max_budget_per_task :=
                        (case map_of d ''max_budget_per_task'' of
                           Some (PFloat r) \<Rightarrow> Some r | Some (PInt i) \<Rightarrow> Some (of_int i) | _ \<Rightarrow> None),
                      costs := map cost_load (dicts_at d ''costs''),
                      response_latencies := map latency_load (dicts_at d ''response_latencies''),
                      token_usages := map usage_load (dicts_at d ''token_usages''),
                      accumulated_token_usage :=
                        (case map_of d ''accumulated_token_usage'' of
                           Some (PDict u) \<Rightarrow> usage_load u
                         | _ \<Rightarrow> accumulated_token_usage m)\<rparr>))
      | _ \<Rightarrow> Inr (metrics_init ''default''))"

definition tool_call_metadata_load :: "pyval \<Rightarrow> pyval res" where
  \<comment> \<open>\<^verbatim>\<open>ToolCallMetadata(**value)\<close>\<close>
  "tool_call_metadata_load v =
     (case v of
        PDict d \<Rightarrow>
          (if \<forall>k\<in>set [''function_name'', ''tool_call_id'', ''model_response'', ''total_calls_in_response''].
                dict_has k d
           then Inr (PDict d) else Inl (ValueError ''validation error for ToolCallMetadata''))
      | _ \<Rightarrow> Inl (TypeError ''argument after ** must be a mapping''))"

subsection \<open>Actions\<close>

definition handle_action_deprecated_args :: "data \<Rightarrow> data res" where
  "handle_action_deprecated_args args0 =
     (let args = dict_del ''task_completed'' (dict_del ''keep_prompt'' args0)
      in case map_of args ''translated_ipython_code'' of
           None \<Rightarrow> Inr args
         | Some code \<Rightarrow>
             (let args1 = dict_del ''translated_ipython_code'' args;
                  args2 = (if map_of args1 ''command'' = Some (PStr ''view'')
                           then dict_del ''command'' args1 else args1)
              in case code of
                   PNone \<Rightarrow> Inr args2
                 | PStr s \<Rightarrow>
                     (if startswith s ''print(file_editor(**'' \<and> endswith s ''))''
                      then Inl (NotModelled ''ast.literal_eval'') else Inr args2)
                 | _ \<Rightarrow> Inl (AttributeError ''object has no attribute startswith'')))"

definition security_risk_of :: "pyval \<Rightarrow> pyval option" where
  \<comment> \<open>\<^verbatim>\<open>ActionSecurityRisk(v)\<close>; \<^const>\<open>None\<close> when no member has that value\<close>
  "security_risk_of v =
     (case v of
        PInt i \<Rightarrow> if -1 \<le> i \<and> i \<le> 2 then Some (PInt i) else None
      | PBool b \<Rightarrow> Some (PInt (if b then 1 else 0))
      | PFloat r \<Rightarrow> if r \<in> {-1, 0, 1, 2} then Some (PInt (floor r)) else None
      | _ \<Rightarrow> None)"

definition load_security_risk :: "data \<Rightarrow> data" where
  "load_security_risk args =
     (case map_of args ''security_risk'' of
        None \<Rightarrow> args
      | Some PNone \<Rightarrow> args
      | Some v \<Rightarrow> (case security_risk_of v of
                    Some r \<Rightarrow> dict_set ''security_risk'' r args
                  | None \<Rightarrow> dict_del ''security_risk'' args))"

definition rename_args :: "data \<Rightarrow> data" where
  \<comment> \<open>removal of \<^verbatim>\<open>timestamp\<close> and the two renamed arguments\<close>
  "rename_args args0 =
     (let args1 = dict_del ''is_confirmed'' (dict_del ''timestamp'' args0);
          args2 = (case map_of args0 ''is_confirmed'' of
                     None \<Rightarrow> args1 | Some PNone \<Rightarrow> args1
                   | Some v \<Rightarrow> dict_set ''confirmation_state'' v args1)
      in case map_of args2 ''images_urls'' of
           Some v \<Rightarrow> dict_set ''image_urls'' v (dict_del ''images_urls'' args2)
         | None \<Rightarrow> args2)"

definition timeout_of :: "pyval \<Rightarrow> (rat option) res" where
  "timeout_of v =
     (case v of PFloat r \<Rightarrow> Inr (Some r) | PInt i \<Rightarrow> Inr (Some (of_int i)) | PNone \<Rightarrow> Inr None
      | _ \<Rightarrow> Inl (NotModelled ''timeout that is not a number''))"

definition wrong_arguments :: "pyerr \<Rightarrow> pyerr" where
  \<comment> \<open>\<^verbatim>\<open>except TypeError as e: raise LLMMalformedActionError\<close>\<close>
  "wrong_arguments err =
     (case err of TypeError s \<Rightarrow> LLMMalformedActionError (''action has the wrong arguments: '' @ s) | _ \<Rightarrow> err)"

definition build_action :: "event_class \<Rightarrow> data \<Rightarrow> data \<Rightarrow> pyval option \<Rightarrow> event res" where
  \<comment> \<open>the \<^verbatim>\<open>try\<close> block of \<^verbatim>\<open>action_from_dict\<close>\<close>
  "build_action c args action timestamp =
     (case dataclass_init c args of
        Inl err \<Rightarrow> Inl (wrong_arguments err)
      | Inr e \<Rightarrow>
          (let e1 = (case map_of action ''timeout'' of
                       None \<Rightarrow> Inr e
                     | Some v \<Rightarrow>
                         (case timeout_of v of
                            Inl err \<Rightarrow> Inl err
                          | Inr t \<Rightarrow> Inr (set_hard_timeout t
                               (case map_of args ''blocking'' of Some b \<Rightarrow> b | None \<Rightarrow> PBool False) e)))
           in case e1 of
                Inl err \<Rightarrow> Inl err
              | Inr e' \<Rightarrow> Inr (case timestamp of
                                Some (PStr (ch # s)) \<Rightarrow> e'\<lparr>ev_timestamp := Some (ch # s)\<rparr> | _ \<Rightarrow> e')))"

definition action_from_dict :: "data \<Rightarrow> event res" where
  "action_from_dict action =
     (case map_of action ''action'' of
        None \<Rightarrow> Inl (LLMMalformedActionError ''action key is not found'')
      | Some (PStr s) \<Rightarrow>
          (case ACTION_TYPE_TO_CLASS s of
             None \<Rightarrow> Inl (LLMMalformedActionError (s @ '' is not defined. Available actions''))
           | Some c \<Rightarrow>
               (case (case map_of action ''args'' of Some v \<Rightarrow> v | None \<Rightarrow> PDict []) of
                  PDict args0 \<Rightarrow>
                    (case handle_action_deprecated_args (load_security_risk (rename_args args0)) of
                       Inl err \<Rightarrow> Inl err
                     | Inr args \<Rightarrow> build_action c args action (map_of args0 ''timestamp''))
                | _ \<Rightarrow> Inl (AttributeError ''object has no attribute pop'')))
      | Some _ \<Rightarrow> Inl (LLMMalformedActionError ''action is not defined. Available actions''))"

subsection \<open>Observations\<close>

definition update_cmd_output_metadata :: "pyval option \<Rightarrow> string \<Rightarrow> pyval \<Rightarrow> pyval" where
  "update_cmd_output_metadata metadata k v =
     (case metadata of
        None \<Rightarrow> PDict (metadata_init [(k, v)])
      | Some PNone \<Rightarrow> PDict (metadata_init [(k, v)])
      | Some (PDict d) \<Rightarrow> PDict (dict_set k v d)
      | Some x \<Rightarrow> x)"

definition move_into_metadata :: "string \<Rightarrow> string \<Rightarrow> data \<Rightarrow> data" where
  \<comment> \<open>a deprecated extra becomes a field of the metadata\<close>
  "move_into_metadata old new extras =
     (case map_of extras old of
        None \<Rightarrow> extras
      | Some v \<Rightarrow> dict_set ''metadata''
                    (update_cmd_output_metadata (map_of extras ''metadata'') new v) (dict_del old extras))"

definition handle_observation_deprecated_extras :: "data \<Rightarrow> data" where
  "handle_observation_deprecated_extras extras =
     dict_del ''formatted_output_and_error''
       (move_into_metadata ''command_id'' ''pid'' (move_into_metadata ''exit_code'' ''exit_code'' extras))"

fun knowledge_load :: "pyval list \<Rightarrow> (pyval list) res" where
  \<comment> \<open>\<^verbatim>\<open>MicroagentKnowledge(**item) if isinstance(item, dict) else item\<close>\<close>
  "knowledge_load [] = Inr []"
| "knowledge_load (v # vs) =
     (case (case v of
              PDict d \<Rightarrow> (case bind_args [(''name'', None), (''trigger'', None), (''content'', None)] d of
                            Inl err \<Rightarrow> Inl err | Inr k \<Rightarrow> Inr (PDict k))
            | x \<Rightarrow> Inr x) of
        Inl err \<Rightarrow> Inl err
      | Inr x \<Rightarrow> (case knowledge_load vs of Inl err \<Rightarrow> Inl err | Inr xs \<Rightarrow> Inr (x # xs)))"

definition recall_extras :: "data \<Rightarrow> data res" where
  \<comment> \<open>the \<^verbatim>\<open>RecallObservation\<close> conversions\<close>
  "recall_extras extras =
     (if dict_has ''recall_type'' extras
         \<and> map_of extras ''recall_type'' \<notin> {Some (PStr ''workspace_context''), Some (PStr ''knowledge'')}
      then Inl (ValueError ''is not a valid RecallType'')
      else case map_of extras ''microagent_knowledge'' of
             Some (PList vs) \<Rightarrow>
               (case knowledge_load vs of
                  Inl err \<Rightarrow> Inl err
                | Inr xs \<Rightarrow> Inr (dict_set ''microagent_knowledge'' (PList xs) extras))
           | _ \<Rightarrow> Inr extras)"

definition cmd_output_extras :: "data \<Rightarrow> data" where
  "cmd_output_extras extras =
     dict_set ''metadata''
       (case map_of extras ''metadata'' of Some (PDict d) \<Rightarrow> PDict (metadata_init d) | _ \<Rightarrow> PDict metadata_defaults)
       extras"

definition observation_from_dict :: "data \<Rightarrow> event res" where
  "observation_from_dict observation =
     (case map_of observation ''observation'' of
        None \<Rightarrow> Inl (KeyError ''observation key is not found'')
      | Some (PList _) \<Rightarrow> Inl (TypeError ''unhashable type'')
      | Some (PDict _) \<Rightarrow> Inl (TypeError ''unhashable type'')
      | Some (PStr s) \<Rightarrow>
          (case OBSERVATION_TYPE_TO_CLASS s of
             None \<Rightarrow> Inl (KeyError (s @ '' is not defined. Available observations''))
           | Some c \<Rightarrow>
               (let content = (case map_of observation ''content'' of Some v \<Rightarrow> v | None \<Rightarrow> PStr [])
                in case (case map_of observation ''extras'' of Some v \<Rightarrow> v | None \<Rightarrow> PDict []) of
                     PDict x \<Rightarrow>
                       (let extras = handle_observation_deprecated_extras x;
                            extras1 = (if c = CmdOutputObservation then cmd_output_extras extras else extras)
                        in case (if c = RecallObservation then recall_extras extras1 else Inr extras1) of
                             Inl err \<Rightarrow> Inl err
                           | Inr kw \<Rightarrow>
                               (if dict_has ''content'' kw
                                then Inl (TypeError ''got multiple values for keyword argument'')
                                else dataclass_init c ((''content'', content) # kw)))
                   | _ \<Rightarrow> Inl (TypeError ''extras is not a dictionary'')))
      | Some _ \<Rightarrow> Inl (KeyError ''is not defined. Available observations''))"

subsection \<open>Events\<close>

definition set_underscore :: "string \<Rightarrow> pyval \<Rightarrow> event \<Rightarrow> event res" where
  \<comment> \<open>one pass of the loop over \<^verbatim>\<open>UNDERSCORE_KEYS\<close>\<close>
  "set_underscore k v e =
     (if k = ''id'' then
        (case v of PInt i \<Rightarrow> Inr (e\<lparr>ev_id := Some i\<rparr>) | PNone \<Rightarrow> Inr (e\<lparr>ev_id := None\<rparr>)
         | _ \<Rightarrow> Inl (NotModelled ''id that is not an integer''))
      else if k = ''timestamp'' then
        Inr (e\<lparr>ev_timestamp := (case v of PStr s \<Rightarrow> Some s | _ \<Rightarrow> None)\<rparr>)
      else if k = ''source'' then
        (case v of
           PStr s \<Rightarrow> (case source_of s of Inl err \<Rightarrow> Inl err | Inr src \<Rightarrow> Inr (e\<lparr>ev_source := Some src\<rparr>))
         | _ \<Rightarrow> Inl (ValueError ''is not a valid EventSource''))
      else if k = ''cause'' then
        (case v of PInt i \<Rightarrow> Inr (e\<lparr>ev_cause := Some i\<rparr>) | PNone \<Rightarrow> Inr (e\<lparr>ev_cause := None\<rparr>)
         | _ \<Rightarrow> Inl (NotModelled ''cause that is not an integer''))
      else if k = ''tool_call_metadata'' then
        (case tool_call_metadata_load v of
           Inl err \<Rightarrow> Inl err | Inr t \<Rightarrow> Inr (e\<lparr>ev_tool_call_metadata := Some t\<rparr>))
      else
        (case metrics_load v of Inl err \<Rightarrow> Inl err | Inr m \<Rightarrow> Inr (e\<lparr>ev_llm_metrics := Some m\<rparr>)))"

fun set_underscores :: "data \<Rightarrow> string list \<Rightarrow> event \<Rightarrow> event res" where
  "set_underscores d [] e = Inr e"
| "set_underscores d (k # ks) e =
     (case map_of d k of
        None \<Rightarrow> set_underscores d ks e
      | Some v \<Rightarrow> (case set_underscore k v e of Inl err \<Rightarrow> Inl err | Inr e' \<Rightarrow> set_underscores d ks e'))"

definition event_from_dict :: "data \<Rightarrow> event res" where
  "event_from_dict d =
     (let r = (if dict_has ''action'' d then action_from_dict d
               else if dict_has ''observation'' d then observation_from_dict d
               else Inl (ValueError ''Unknown event type''))
      in case r of Inl err \<Rightarrow> Inl err | Inr e \<Rightarrow> set_underscores d UNDERSCORE_KEYS e)"

end
