(* ===== verification/Serialization_Laws.thy ===== *)
theory Serialization_Laws
  imports Event_Serialization
begin

text \<open>
  Round trip of events through dictionaries, and the truncation functions.  The finite facts
  about the class tables are evaluated once; the round trip is then proved for all action
  classes and all observation classes at the same time.
\<close>

section \<open>Events that survive the round trip\<close>

definition own_key :: "event \<Rightarrow> string" where
  "own_key e = (if is_action e then ''action'' else ''observation'')"

definition risk_ok :: "event \<Rightarrow> bool" where
  "risk_ok e \<longleftrightarrow> (case map_of (ev_fields e) ''security_risk'' of
     None \<Rightarrow> True | Some v \<Rightarrow> security_risk_of v = Some v)"

definition cmd_output_ok :: "event \<Rightarrow> bool" where
  "cmd_output_ok e \<longleftrightarrow>
     (\<exists>s cmd md hid. ev_fields e = [(''content'', PStr s), (''command'', cmd), (''observation'', PStr ''run''),
        (''metadata'', PDict md), (''hidden'', PBool hid)] \<and>
      map fst md = map fst metadata_defaults \<and> (hid \<or> maybe_truncate s MAX_CMD_OUTPUT_SIZE = s))"

definition recall_ok :: "event \<Rightarrow> bool" where
  "recall_ok e \<longleftrightarrow>
     map_of (ev_fields e) ''recall_type'' \<in> {Some (PStr ''workspace_context''), Some (PStr ''knowledge'')} \<and>
     (case map_of (ev_fields e) ''microagent_knowledge'' of
        Some (PList vs) \<Rightarrow> knowledge_load vs = Inr vs | _ \<Rightarrow> True)"

definition storable :: "event \<Rightarrow> bool" where
  \<comment> \<open>what the constructors of the event classes establish and the stream expects\<close>
  "storable e \<longleftrightarrow>
     map fst (ev_fields e) = map fst (ci_fields (class_of (ev_class e))) \<and>
     map_of (ev_fields e) (own_key e) = Some (PStr (type_name (own_key e) (ev_class e))) \<and>
     ev_dyn e = [] \<and> ev_id e \<noteq> Some (-1) \<and> is_ok (message e) \<and> risk_ok e \<and>
     (is_observation e \<longrightarrow> ev_timeout e = None) \<and>
     (case ev_tool_call_metadata e of None \<Rightarrow> True | Some t \<Rightarrow> tool_call_metadata_load t = Inr t) \<and>
     (case ev_llm_metrics e of None \<Rightarrow> True | Some m \<Rightarrow> model_name m = ''default'' \<and> 0 \<le> accumulated_cost m) \<and>
     (is_a e CondensationAction \<longrightarrow> validate_field_polymorphism e) \<and>
     (is_a e CmdOutputObservation \<longrightarrow> cmd_output_ok e) \<and>
     (is_a e RecallObservation \<longrightarrow> recall_ok e)"

definition bare :: "event \<Rightarrow> event" where
  \<comment> \<open>an event before the underscore attributes are set\<close>
  "bare e = e\<lparr>ev_id := None, ev_timestamp := None, ev_source := None, ev_cause := None,
     ev_tool_call_metadata := None, ev_llm_metrics := None\<rparr>"

definition carries :: "data \<Rightarrow> event \<Rightarrow> bool" where
  \<comment> \<open>the dictionary has the top-level entries of the event\<close>
  "carries d e \<longleftrightarrow>
     map_of d ''id'' = (if eid e = -1 then None else Some (PInt (eid e))) \<and>
     map_of d ''timestamp'' = map_option PStr (ev_timestamp e) \<and>
     map_of d ''source'' = map_option (\<lambda>s. PStr (source_value s)) (ev_source e) \<and>
     map_of d ''cause'' = map_option PInt (ev_cause e) \<and>
     map_of d ''tool_call_metadata'' = ev_tool_call_metadata e \<and>
     map_of d ''llm_metrics'' = map_option metrics_get (ev_llm_metrics e)"

definition middle_cut :: "string \<Rightarrow> nat \<Rightarrow> string" where
  "middle_cut s h = take h s @ truncation_notice @ drop (length s - h) s"

definition sample_stored :: event where
  "sample_stored = (blank CmdRunAction
     [(''command'', PStr ''ls''), (''is_input'', PBool False), (''thought'', PStr ''look''),
      (''blocking'', PBool True), (''is_static'', PBool False), (''cwd'', PNone), (''hidden'', PBool False),
      (''action'', PStr ''run''), (''confirmation_state'', PStr ''confirmed''), (''security_risk'', PInt 0)])
     \<lparr>ev_id := Some 3, ev_timestamp := Some ''2025-01-01T00:00:00'', ev_source := Some AGENT, ev_timeout := Some 30\<rparr>"

section \<open>Finite facts about the class tables\<close>

lemma action_tables:
  assumes "c \<in> set actions"
  shows "ACTION_TYPE_TO_CLASS (type_name ''action'' c) = Some c"
    "distinct (map fst (ci_fields (class_of c)))"
    "filter (\<lambda>k. k \<in> set TOP_KEYS) (map fst (ci_fields (class_of c))) = [''action'']"
    "map_of (ci_fields (class_of c)) ''action'' = Some (Some (PStr (type_name ''action'' c)))"
    "list_all (\<lambda>k. k \<notin> set (map fst (ci_fields (class_of c))))
       [''timestamp'', ''is_confirmed'', ''images_urls'', ''keep_prompt'', ''task_completed'', ''translated_ipython_code'']"
proof -
  have "list_all (\<lambda>c. ACTION_TYPE_TO_CLASS (type_name ''action'' c) = Some c) actions"
    "list_all (\<lambda>c. distinct (map fst (ci_fields (class_of c)))) actions"
    "list_all (\<lambda>c. filter (\<lambda>k. k \<in> set TOP_KEYS) (map fst (ci_fields (class_of c))) = [''action'']) actions"
    "list_all (\<lambda>c. map_of (ci_fields (class_of c)) ''action'' = Some (Some (PStr (type_name ''action'' c)))) actions"
    "list_all (\<lambda>c. list_all (\<lambda>k. k \<notin> set (map fst (ci_fields (class_of c))))
       [''timestamp'', ''is_confirmed'', ''images_urls'', ''keep_prompt'', ''task_completed'', ''translated_ipython_code'']) actions"
    by code_simp+
  then show "ACTION_TYPE_TO_CLASS (type_name ''action'' c) = Some c"
    "distinct (map fst (ci_fields (class_of c)))"
    "filter (\<lambda>k. k \<in> set TOP_KEYS) (map fst (ci_fields (class_of c))) = [''action'']"
    "map_of (ci_fields (class_of c)) ''action'' = Some (Some (PStr (type_name ''action'' c)))"
    "list_all (\<lambda>k. k \<notin> set (map fst (ci_fields (class_of c))))
       [''timestamp'', ''is_confirmed'', ''images_urls'', ''keep_prompt'', ''task_completed'', ''translated_ipython_code'']"
    using assms unfolding list_all_iff by blast+
qed

lemma observation_tables:
  assumes "c \<in> set observations"
  shows "OBSERVATION_TYPE_TO_CLASS (type_name ''observation'' c) = Some c"
    "distinct (map fst (ci_fields (class_of c)))"
    "filter (\<lambda>k. k \<in> set TOP_KEYS) (map fst (ci_fields (class_of c))) = [''observation'']"
    "map_of (ci_fields (class_of c)) ''observation'' = Some (Some (PStr (type_name ''observation'' c)))"
    "list_all (\<lambda>k. k \<notin> set (map fst (ci_fields (class_of c))))
       [''exit_code'', ''command_id'', ''formatted_output_and_error'', ''task_completed'', ''security_risk'', ''success'']"
    "''content'' \<in> set (map fst (ci_fields (class_of c)))"
proof -
  have "list_all (\<lambda>c. OBSERVATION_TYPE_TO_CLASS (type_name ''observation'' c) = Some c) observations"
    "list_all (\<lambda>c. distinct (map fst (ci_fields (class_of c)))) observations"
    "list_all (\<lambda>c. filter (\<lambda>k. k \<in> set TOP_KEYS) (map fst (ci_fields (class_of c))) = [''observation'']) observations"
    "list_all (\<lambda>c. map_of (ci_fields (class_of c)) ''observation'' = Some (Some (PStr (type_name ''observation'' c)))) observations"
    "list_all (\<lambda>c. list_all (\<lambda>k. k \<notin> set (map fst (ci_fields (class_of c))))
       [''exit_code'', ''command_id'', ''formatted_output_and_error'', ''task_completed'', ''security_risk'', ''success'']) observations"
    "list_all (\<lambda>c. ''content'' \<in> set (map fst (ci_fields (class_of c)))) observations"
    by code_simp+
  then show "OBSERVATION_TYPE_TO_CLASS (type_name ''observation'' c) = Some c"
    "distinct (map fst (ci_fields (class_of c)))"
    "filter (\<lambda>k. k \<in> set TOP_KEYS) (map fst (ci_fields (class_of c))) = [''observation'']"
    "map_of (ci_fields (class_of c)) ''observation'' = Some (Some (PStr (type_name ''observation'' c)))"
    "list_all (\<lambda>k. k \<notin> set (map fst (ci_fields (class_of c))))
       [''exit_code'', ''command_id'', ''formatted_output_and_error'', ''task_completed'', ''security_risk'', ''success'']"
    "''content'' \<in> set (map fst (ci_fields (class_of c)))"
    using assms unfolding list_all_iff by blast+
qed

section \<open>Dictionaries\<close>

lemma dict_set_same: "map_of d k = Some v \<Longrightarrow> dict_set k v d = d"
  by (induction k v d rule: dict_set.induct) auto

lemma dict_del_absent: "k \<notin> set (map fst d) \<Longrightarrow> dict_del k d = d"
  by (induction d) (auto simp: dict_del_def)

lemma bind_args_ok:
  assumes "map fst fs = map fst spec" "distinct (map fst spec)"
    "set (map fst kw) \<subseteq> set (map fst spec)"
    "\<forall>k\<in>set (map fst spec). map_of kw k = map_of fs k \<or> (map_of kw k = None \<and> map_of spec k = Some (map_of fs k))"
  shows "bind_args spec kw = Inr fs"
proof -
  have dfs: "distinct (map fst fs)" using assms by simp
  have len: "length fs = length spec" using assms(1) by (metis length_map)
  have sp: "map_of spec (fst (spec ! i)) = Some (snd (spec ! i))" "map_of fs (fst (spec ! i)) = Some (snd (fs ! i))"
    "fst (spec ! i) = fst (fs ! i)" if "i < length spec" for i
  proof -
    show f: "fst (spec ! i) = fst (fs ! i)" using assms(1) that len by (metis nth_map)
    show "map_of spec (fst (spec ! i)) = Some (snd (spec ! i))"
      using assms(2) that by (simp add: map_of_eq_Some_iff)
    show "map_of fs (fst (spec ! i)) = Some (snd (fs ! i))"
      unfolding f using dfs that len by (simp add: map_of_eq_Some_iff)
  qed
  have kwi: "map_of kw (fst (spec ! i)) = Some (snd (fs ! i)) \<or>
     (map_of kw (fst (spec ! i)) = None \<and> snd (spec ! i) = Some (snd (fs ! i)))" if "i < length spec" for i
    using assms(4) sp[OF that] that nth_mem[OF that] by (metis image_eqI list.set_map option.inject)
  have "\<not> (\<exists>p\<in>set spec. snd p = None \<and> map_of kw (fst p) = None)"
  proof
    assume "\<exists>p\<in>set spec. snd p = None \<and> map_of kw (fst p) = None"
    then obtain i where "i < length spec" "snd (spec ! i) = None" "map_of kw (fst (spec ! i)) = None"
      unfolding in_set_conv_nth Bex_def by blast
    then show False using kwi by fastforce
  qed
  moreover have "map (\<lambda>p. (fst p, case map_of kw (fst p) of
                                   Some v \<Rightarrow> v
                                 | None \<Rightarrow> (case snd p of Some d \<Rightarrow> d | None \<Rightarrow> PNone))) spec = fs"
  proof (rule nth_equalityI)
    fix i assume "i < length (map (\<lambda>p. (fst p, case map_of kw (fst p) of
                                   Some v \<Rightarrow> v
                                 | None \<Rightarrow> (case snd p of Some d \<Rightarrow> d | None \<Rightarrow> PNone))) spec)"
    then have i: "i < length spec" by simp
    show "map (\<lambda>p. (fst p, case map_of kw (fst p) of
                                   Some v \<Rightarrow> v
                                 | None \<Rightarrow> (case snd p of Some d \<Rightarrow> d | None \<Rightarrow> PNone))) spec ! i = fs ! i"
      using kwi[OF i] sp(3)[OF i] i by (auto simp: prod_eq_iff)
  qed (simp add: len)
  ultimately show ?thesis using assms(3) by (auto simp: bind_args_def)
qed

lemma map_of_top_entries:
  "top_entries e ks = Inr d \<Longrightarrow> distinct ks \<Longrightarrow>
   map_of d k = (if k \<in> set ks then (case top_value e k of Inr v \<Rightarrow> v | Inl _ \<Rightarrow> None) else None)"
proof (induction ks arbitrary: d)
  case (Cons x ks)
  obtain v d' where v: "top_value e x = Inr v" "top_entries e ks = Inr d'"
    "d = (case v of None \<Rightarrow> d' | Some y \<Rightarrow> (x, y) # d')"
    using Cons.prems(1) by (auto simp del: top_value.simps split: sum.splits)
  show ?case using Cons.IH[OF v(2)] Cons.prems(2) v(1,3)
    by (auto simp del: top_value.simps split: option.splits)
qed simp

lemma top_value_ok: "is_ok (message e) \<Longrightarrow> \<exists>v. top_value e k = Inr v"
  by (cases "message e") auto

lemma top_entries_ok: "is_ok (message e) \<Longrightarrow> \<exists>d. top_entries e ks = Inr d"
proof (induction ks)
  case (Cons k ks)
  then obtain v d where "top_value e k = Inr v" "top_entries e ks = Inr d" using top_value_ok by blast
  then show ?case by (simp del: top_value.simps)
qed simp

lemma dump_loads:
  "cost_load (case cost_dump c of PDict x \<Rightarrow> x | _ \<Rightarrow> []) = c"
  "latency_load (case latency_dump l of PDict x \<Rightarrow> x | _ \<Rightarrow> []) = l"
  "usage_load (case usage_dump u of PDict x \<Rightarrow> x | _ \<Rightarrow> []) = u"
  "(case usage_dump u of PDict x \<Rightarrow> usage_load x | _ \<Rightarrow> w) = u"
  by (simp_all add: cost_load_def cost_dump_def latency_load_def latency_dump_def usage_load_def
      usage_dump_def str_at_def float_at_def int_at_def)

lemma metrics_round_trip:
  assumes "0 \<le> accumulated_cost m" "model_name m = ''default''"
  shows "metrics_load (metrics_get m) = Inr m"
proof -
  have l: "map cost_load (map (\<lambda>v. case v of PDict x \<Rightarrow> x | _ \<Rightarrow> []) (map cost_dump (costs m))) = costs m"
    "map latency_load (map (\<lambda>v. case v of PDict x \<Rightarrow> x | _ \<Rightarrow> []) (map latency_dump (response_latencies m)))
     = response_latencies m"
    "map usage_load (map (\<lambda>v. case v of PDict x \<Rightarrow> x | _ \<Rightarrow> []) (map usage_dump (token_usages m)))
     = token_usages m"
    unfolding map_map comp_def dump_loads by simp_all
  have b: "(case Some (case max_budget_per_task m of None \<Rightarrow> PNone | Some b \<Rightarrow> PFloat b) of
              Some (PFloat r) \<Rightarrow> Some r | Some (PInt i) \<Rightarrow> Some (of_int i) | _ \<Rightarrow> None) = max_budget_per_task m"
    by (cases "max_budget_per_task m") simp_all
  have a: "float_at [(''accumulated_cost'', PFloat (accumulated_cost m)), x1, x2, x3, x4, x5] ''accumulated_cost''
     = accumulated_cost m" for x1 x2 x3 x4 x5 by (simp add: float_at_def)
  have u: "(case Some (usage_dump (accumulated_token_usage m)) of Some (PDict u) \<Rightarrow> usage_load u | _ \<Rightarrow> w)
     = accumulated_token_usage m" for w using dump_loads(4) by simp
  show ?thesis
    using assms(1) unfolding metrics_load_def metrics_get_def pyval.case a set_accumulated_cost_def
    using l b u assms(2) by (simp add: dicts_at_def metrics_init_def)
qed

lemma restore_id:
  "map_of d ''id'' = (if eid e = -1 then None else Some (PInt (eid e))) \<Longrightarrow> ev_id e \<noteq> Some (-1) \<Longrightarrow> ev_id x = None \<Longrightarrow>
   set_underscores d (''id'' # ks) x = set_underscores d ks (x\<lparr>ev_id := ev_id e\<rparr>)"
  by (cases "ev_id e"; cases x) (auto simp: set_underscore_def eid_def INVALID_ID_def)

lemma restore_timestamp:
  "map_of d ''timestamp'' = map_option PStr (ev_timestamp e) \<Longrightarrow> ev_timestamp x = None \<Longrightarrow>
   set_underscores d (''timestamp'' # ks) x = set_underscores d ks (x\<lparr>ev_timestamp := ev_timestamp e\<rparr>)"
  by (cases "ev_timestamp e"; cases x) (auto simp: set_underscore_def)

lemma restore_source:
  "map_of d ''source'' = map_option (\<lambda>s. PStr (source_value s)) (ev_source e) \<Longrightarrow> ev_source x = None \<Longrightarrow>
   set_underscores d (''source'' # ks) x = set_underscores d ks (x\<lparr>ev_source := ev_source e\<rparr>)"
  by (cases "ev_source e"; cases x) (auto simp: set_underscore_def)

lemma restore_cause:
  "map_of d ''cause'' = map_option PInt (ev_cause e) \<Longrightarrow> ev_cause x = None \<Longrightarrow>
   set_underscores d (''cause'' # ks) x = set_underscores d ks (x\<lparr>ev_cause := ev_cause e\<rparr>)"
  by (cases "ev_cause e"; cases x) (auto simp: set_underscore_def)

lemma restore_tool_call:
  "map_of d ''tool_call_metadata'' = ev_tool_call_metadata e \<Longrightarrow> ev_tool_call_metadata x = None \<Longrightarrow>
   (case ev_tool_call_metadata e of None \<Rightarrow> True | Some t \<Rightarrow> tool_call_metadata_load t = Inr t) \<Longrightarrow>
   set_underscores d (''tool_call_metadata'' # ks) x
     = set_underscores d ks (x\<lparr>ev_tool_call_metadata := ev_tool_call_metadata e\<rparr>)"
  by (cases "ev_tool_call_metadata e"; cases x) (auto simp: set_underscore_def)

lemma restore_metrics:
  "map_of d ''llm_metrics'' = map_option metrics_get (ev_llm_metrics e) \<Longrightarrow> ev_llm_metrics x = None \<Longrightarrow>
   (case ev_llm_metrics e of None \<Rightarrow> True | Some m \<Rightarrow> model_name m = ''default'' \<and> 0 \<le> accumulated_cost m) \<Longrightarrow>
   set_underscores d (''llm_metrics'' # ks) x = set_underscores d ks (x\<lparr>ev_llm_metrics := ev_llm_metrics e\<rparr>)"
  by (cases "ev_llm_metrics e"; cases x) (auto simp: set_underscore_def metrics_round_trip)

lemma underscores_restore:
  assumes "carries d e" "storable e"
  shows "set_underscores d UNDERSCORE_KEYS (bare e) = Inr e"
proof -
  note c = assms(1)[unfolded carries_def] and s = assms(2)[unfolded storable_def]
  show ?thesis
    unfolding UNDERSCORE_KEYS_def
    apply (subst restore_id[of d e]) using c s apply (simp_all add: bare_def)[3]
    apply (subst restore_timestamp[of d e]) using c apply (simp_all add: bare_def)[2]
    apply (subst restore_source[of d e]) using c apply (simp_all add: bare_def)[2]
    apply (subst restore_cause[of d e]) using c apply (simp_all add: bare_def)[2]
    apply (subst restore_tool_call[of d e]) using c s apply (simp_all add: bare_def)[3]
    apply (subst restore_metrics[of d e]) using c s apply (simp_all add: bare_def)[3]
    by (simp add: bare_def)
qed

lemma map_of_top:
  assumes "top_entries e TOP_KEYS = Inr d" "k \<in> set TOP_KEYS" "k \<notin> set (map fst rest)"
  shows "map_of (d @ rest) k = (case top_value e k of Inr v \<Rightarrow> v | Inl _ \<Rightarrow> None)"
proof -
  have "distinct TOP_KEYS" by (simp add: TOP_KEYS_def)
  moreover have "map_of rest k = None" using assms(3) by (metis absent_map_of)
  ultimately show ?thesis using map_of_top_entries[OF assms(1)] assms(2)
    by (auto simp: map_of_append map_add_def simp del: top_value.simps split: option.splits)
qed

lemma carries_top:
  assumes "top_entries e TOP_KEYS = Inr d" "\<forall>k\<in>set (map fst rest). k \<notin> set TOP_KEYS"
  shows "carries (d @ rest) e"
proof -
  have m: "map_of (d @ rest) k = (case top_value e k of Inr v \<Rightarrow> v | Inl _ \<Rightarrow> None)" if "k \<in> set TOP_KEYS" for k
    using map_of_top[OF assms(1) that] assms(2) that by blast
  show ?thesis unfolding carries_def by (simp add: m TOP_KEYS_def del: map_of_append)
qed

lemma map_of_rest:
  assumes "top_entries e TOP_KEYS = Inr d" "k \<notin> set TOP_KEYS"
  shows "map_of (d @ rest) k = map_of rest k"
proof -
  have "distinct TOP_KEYS" by (simp add: TOP_KEYS_def)
  then show ?thesis using map_of_top_entries[OF assms(1)] assms(2)
    by (auto simp: map_of_append map_add_def simp del: top_value.simps split: option.splits)
qed

section \<open>Actions\<close>

lemma dict_del_None: "map_of d k = None \<Longrightarrow> dict_del k d = d"
  using dict_del_absent absent_map_of by metis

lemma rename_args_id:
  "list_all (\<lambda>k. map_of props k = None) [''timestamp'', ''is_confirmed'', ''images_urls''] \<Longrightarrow>
   rename_args props = props"
  by (simp add: rename_args_def dict_del_None Let_def)

lemma load_security_risk_id:
  "(case map_of props ''security_risk'' of None \<Rightarrow> True | Some v \<Rightarrow> security_risk_of v = Some v) \<Longrightarrow>
   load_security_risk props = props"
  by (auto simp: load_security_risk_def dict_set_same split: option.splits pyval.splits)

lemma deprecated_args_id:
  "list_all (\<lambda>k. map_of props k = None) [''keep_prompt'', ''task_completed'', ''translated_ipython_code''] \<Longrightarrow>
   handle_action_deprecated_args props = Inr props"
  by (simp add: handle_action_deprecated_args_def dict_del_None Let_def)

lemma set_hard_timeout_same:
  assumes "ev_dyn e = []" "map_of (ev_fields e) ''blocking'' = None \<or> map_of (ev_fields e) ''blocking'' = Some b"
  shows "set_hard_timeout t b e = e\<lparr>ev_timeout := t\<rparr>"
  using assms by (auto simp: set_hard_timeout_def hasattr_def attr_def setattr_def dict_set_same Let_def)

lemma absent_keys:
  assumes "map fst (ev_fields e) = map fst (ci_fields (class_of (ev_class e)))"
    "list_all (\<lambda>k. k \<notin> set (map fst (ci_fields (class_of (ev_class e))))) ks"
  shows "list_all (\<lambda>k. map_of (filter (\<lambda>p. P (fst p)) (ev_fields e)) k = None) ks"
  unfolding list_all_iff
proof
  fix k assume "k \<in> set ks"
  then have "k \<notin> set (map fst (ev_fields e))" using assms unfolding list_all_iff by simp
  then have "map_of (ev_fields e) k = None" by (metis absent_map_of)
  then show "map_of (filter (\<lambda>p. P (fst p)) (ev_fields e)) k = None" by (simp add: map_of_filter_key)
qed

lemma kept_keys:
  assumes "map fst fs = map fst spec" "filter (\<lambda>k. k \<in> set TOP_KEYS) (map fst spec) = [own]"
    "k \<in> set (map fst spec)"
  shows "k \<noteq> own \<longrightarrow> map_of (filter (\<lambda>p. fst p \<notin> set TOP_KEYS) fs) k = map_of fs k"
    "map_of (filter (\<lambda>p. fst p \<notin> set TOP_KEYS) fs) own = None"
proof -
  have "k \<noteq> own \<Longrightarrow> k \<notin> set TOP_KEYS"
  proof
    assume "k \<in> set TOP_KEYS" "k \<noteq> own"
    then have "k \<in> set (filter (\<lambda>k. k \<in> set TOP_KEYS) (map fst spec))" using assms(3) by simp
    then show False unfolding assms(2) using \<open>k \<noteq> own\<close> by simp
  qed
  then show "k \<noteq> own \<longrightarrow> map_of (filter (\<lambda>p. fst p \<notin> set TOP_KEYS) fs) k = map_of fs k"
    by (simp add: map_of_filter_key[of "\<lambda>k. k \<notin> set TOP_KEYS"])
  have "own \<in> set (filter (\<lambda>k. k \<in> set TOP_KEYS) (map fst spec))" unfolding assms(2) by simp
  then show "map_of (filter (\<lambda>p. fst p \<notin> set TOP_KEYS) fs) own = None"
    by (simp add: map_of_filter_key[of "\<lambda>k. k \<notin> set TOP_KEYS"])
qed

lemma dataclass_init_action:
  assumes "storable e" "is_action e"
  shows "dataclass_init (ev_class e) (filter (\<lambda>p. fst p \<notin> set TOP_KEYS) (ev_fields e)) =
    Inr (blank (ev_class e) (ev_fields e))"
proof -
  let ?c = "ev_class e" let ?spec = "ci_fields (class_of ?c)"
  let ?props = "filter (\<lambda>p. fst p \<notin> set TOP_KEYS) (ev_fields e)"
  have c: "?c \<in> set actions" using assms(2) by (simp add: is_action_def)
  note t = action_tables[OF c]
  have keys: "map fst (ev_fields e) = map fst ?spec"
    and own: "map_of (ev_fields e) ''action'' = Some (PStr (type_name ''action'' ?c))" and dyn: "ev_dyn e = []"
    using assms by (simp_all add: storable_def own_key_def)
  have b: "bind_args ?spec ?props = Inr (ev_fields e)"
  proof (rule bind_args_ok[OF keys t(2)])
    have "set (map fst ?props) \<subseteq> set (map fst (ev_fields e))" by auto
    then show "set (map fst ?props) \<subseteq> set (map fst ?spec)" unfolding keys .
    show "\<forall>k\<in>set (map fst ?spec). map_of ?props k = map_of (ev_fields e) k \<or>
       (map_of ?props k = None \<and> map_of ?spec k = Some (map_of (ev_fields e) k))"
    proof
      fix k assume k: "k \<in> set (map fst ?spec)"
      show "map_of ?props k = map_of (ev_fields e) k \<or>
       (map_of ?props k = None \<and> map_of ?spec k = Some (map_of (ev_fields e) k))"
        using kept_keys[OF keys t(3) k] own t(4) by (cases "k = ''action''") auto
    qed
  qed
  have "?c \<noteq> CmdOutputObservation" using c by (auto simp: actions_def)
  moreover have "attr (blank ?c (ev_fields e)) = attr e"
    using dyn by (simp add: attr_def blank_def fun_eq_iff cong: option.case_cong)
  then have "validate_field_polymorphism (blank ?c (ev_fields e)) = validate_field_polymorphism e"
    by (simp add: validate_field_polymorphism_def given_def)
  ultimately show ?thesis
    using b assms(1) by (simp add: dataclass_init_def storable_def Let_def)
qed

lemma action_round_trip:
  assumes "storable e" "is_action e"
  shows "\<exists>d. event_to_dict e = Inr d \<and> event_from_dict d = Inr e"
proof -
  let ?c = "ev_class e"
  let ?props = "filter (\<lambda>p. fst p \<notin> set TOP_KEYS) (ev_fields e)"
  note s = assms(1)[unfolded storable_def]
  have c: "?c \<in> set actions" using assms(2) by (simp add: is_action_def)
  note t = action_tables[OF c]
  have own: "map_of (ev_fields e) ''action'' = Some (PStr (type_name ''action'' ?c))"
    using s assms(2) by (simp add: own_key_def)
  obtain d where d: "top_entries e TOP_KEYS = Inr d" using top_entries_ok s by blast
  have ab: "list_all (\<lambda>k. map_of ?props k = None)
     [''timestamp'', ''is_confirmed'', ''images_urls'', ''keep_prompt'', ''task_completed'', ''translated_ipython_code'']"
    using absent_keys[OF _ t(5), of "\<lambda>k. k \<notin> set TOP_KEYS"] s by blast
  have risk: "case map_of ?props ''security_risk'' of None \<Rightarrow> True | Some v \<Rightarrow> security_risk_of v = Some v"
    using s by (simp add: map_of_filter_key[of "\<lambda>k. k \<notin> set TOP_KEYS"] risk_ok_def split: option.splits)
  have nn: "drop_none ''task_completed'' (drop_none ''security_risk'' ?props) = ?props"
    using ab risk by (auto simp: drop_none_def security_risk_of_def split: option.splits)
  let ?rest = "[(''args'', PDict ?props)] @ (case ev_timeout e of Some t \<Rightarrow> [(''timeout'', PFloat t)] | None \<Rightarrow> [])"
  have rk: "\<forall>k\<in>set (map fst ?rest). k \<notin> set TOP_KEYS" by (auto simp: TOP_KEYS_def split: option.splits)
  have top: "map_of (d @ r) ''action'' = Some (PStr (type_name ''action'' ?c))" if "''action'' \<notin> set (map fst r)" for r
    using map_of_top[OF d _ that] own s by (simp add: TOP_KEYS_def attr_def)
  have to: "event_to_dict e = Inr (d @ ?rest)"
    using top[of "[]"] unfolding event_to_dict_def d sum.case Let_def nn by (simp add: dict_has_def)
  have act: "map_of (d @ ?rest) ''action'' = Some (PStr (type_name ''action'' ?c))"
    by (rule top) (use rk in \<open>auto simp: TOP_KEYS_def split: option.splits\<close>)
  have args: "map_of (d @ ?rest) ''args'' = Some (PDict ?props)"
    and tm: "map_of (d @ ?rest) ''timeout'' = map_option PFloat (ev_timeout e)"
    using map_of_rest[OF d, of _ ?rest]
    by (simp_all add: TOP_KEYS_def del: map_of_append split: option.splits)
  let ?b = "case map_of ?props ''blocking'' of Some b \<Rightarrow> b | None \<Rightarrow> PBool False"
  have "''blocking'' \<notin> set TOP_KEYS" by (simp add: TOP_KEYS_def)
  then have "map_of ?props ''blocking'' = map_of (ev_fields e) ''blocking''"
    by (simp add: map_of_filter_key[of "\<lambda>k. k \<notin> set TOP_KEYS"])
  then have bl: "set_hard_timeout x ?b (blank ?c (ev_fields e)) = (blank ?c (ev_fields e))\<lparr>ev_timeout := x\<rparr>" for x
    by (intro set_hard_timeout_same) (auto simp: blank_def split: option.splits)
  have bare: "(blank ?c (ev_fields e))\<lparr>ev_timeout := ev_timeout e\<rparr> = bare e"
    using s by (cases e) (simp add: blank_def bare_def)
  have "build_action ?c ?props (d @ ?rest) (map_of ?props ''timestamp'') = Inr (bare e)"
    unfolding build_action_def dataclass_init_action[OF assms] sum.case tm Let_def
    using ab bl bare by (cases "ev_timeout e") (auto simp: timeout_of_def blank_def)
  then have "action_from_dict (d @ ?rest) = Inr (bare e)"
    unfolding action_from_dict_def act args option.case pyval.case t(1)
    using rename_args_id[of ?props] load_security_risk_id[OF risk] deprecated_args_id[of ?props] ab by simp
  then have "event_from_dict (d @ ?rest) = Inr e"
    using act underscores_restore[OF carries_top[OF d rk] assms(1)]
    by (simp add: event_from_dict_def dict_has_def del: map_of_append)
  then show ?thesis using to by blast
qed

section \<open>Observations\<close>

lemma metadata_init_id:
  assumes "map fst md = map fst metadata_defaults" shows "metadata_init md = md"
proof -
  have "\<exists>v1 v2 v3 v4 v5 v6 v7 v8. md = [(''exit_code'', v1), (''pid'', v2), (''username'', v3),
      (''hostname'', v4), (''working_dir'', v5), (''py_interpreter_path'', v6), (''prefix'', v7), (''suffix'', v8)]"
    using assms by (auto simp: metadata_defaults_def map_eq_Cons_conv)
  then show ?thesis by (auto simp: metadata_init_def metadata_defaults_def)
qed

lemma deprecated_extras_id:
  assumes "list_all (\<lambda>k. map_of x k = None) [''exit_code'', ''command_id'', ''formatted_output_and_error'']"
  shows "handle_observation_deprecated_extras x = x"
  using assms by (simp add: handle_observation_deprecated_extras_def move_into_metadata_def dict_del_None)

lemma dataclass_init_observation:
  assumes "storable e" "is_observation e" "ev_class e \<noteq> CmdOutputObservation"
    "map_of (ev_fields e) ''content'' = Some v"
  shows "dataclass_init (ev_class e)
     ((''content'', v) # dict_del ''content'' (filter (\<lambda>p. fst p \<notin> set TOP_KEYS) (ev_fields e))) =
    Inr (blank (ev_class e) (ev_fields e))"
proof -
  let ?c = "ev_class e" let ?spec = "ci_fields (class_of ?c)"
  let ?props = "filter (\<lambda>p. fst p \<notin> set TOP_KEYS) (ev_fields e)"
  let ?kw = "(''content'', v) # dict_del ''content'' ?props"
  have c: "?c \<in> set observations" using assms(2) by (simp add: is_observation_def)
  note t = observation_tables[OF c]
  have na: "\<not> is_action e" using assms(2) action_or_observation by blast
  have keys: "map fst (ev_fields e) = map fst ?spec"
    and own: "map_of (ev_fields e) ''observation'' = Some (PStr (type_name ''observation'' ?c))"
    using assms(1) na by (simp_all add: storable_def own_key_def)
  have "bind_args ?spec ?kw = Inr (ev_fields e)"
  proof (rule bind_args_ok[OF keys t(2)])
    have "set (map fst ?kw) \<subseteq> insert ''content'' (set (map fst (ev_fields e)))" by (auto simp: dict_del_def)
    then show "set (map fst ?kw) \<subseteq> set (map fst ?spec)" unfolding keys using t(6) by blast
    show "\<forall>k\<in>set (map fst ?spec). map_of ?kw k = map_of (ev_fields e) k \<or>
       (map_of ?kw k = None \<and> map_of ?spec k = Some (map_of (ev_fields e) k))"
    proof
      fix k assume k: "k \<in> set (map fst ?spec)"
      show "map_of ?kw k = map_of (ev_fields e) k \<or>
       (map_of ?kw k = None \<and> map_of ?spec k = Some (map_of (ev_fields e) k))"
        using kept_keys[OF keys t(3) k] own t(4) assms(4) by (cases "k = ''observation''") auto
    qed
  qed
  moreover have "?c \<noteq> CondensationAction" using c by (auto simp: observations_def)
  ultimately show ?thesis using assms(3) by (simp add: dataclass_init_def Let_def)
qed

lemma build_observation:
  assumes "storable e" "is_observation e" "map_of (ev_fields e) ''content'' = Some v"
    "map_of d ''observation'' = Some (PStr (type_name ''observation'' (ev_class e)))"
    "map_of d ''content'' = Some v"
    "map_of d ''extras'' = Some (PDict (dict_del ''content'' (filter (\<lambda>p. fst p \<notin> set TOP_KEYS) (ev_fields e))))"
  shows "observation_from_dict d = Inr (blank (ev_class e) (ev_fields e))"
proof -
  let ?c = "ev_class e"
  let ?x = "dict_del ''content'' (filter (\<lambda>p. fst p \<notin> set TOP_KEYS) (ev_fields e))"
  note s = assms(1)[unfolded storable_def]
  have c: "?c \<in> set observations" using assms(2) by (simp add: is_observation_def)
  note t = observation_tables[OF c]
  have "list_all (\<lambda>k. map_of (filter (\<lambda>p. fst p \<notin> set TOP_KEYS) (ev_fields e)) k = None)
     [''exit_code'', ''command_id'', ''formatted_output_and_error'', ''task_completed'', ''security_risk'', ''success'']"
    using absent_keys[OF _ t(5), of "\<lambda>k. k \<notin> set TOP_KEYS"] s by blast
  then have dep: "handle_observation_deprecated_extras ?x = ?x"
    by (intro deprecated_extras_id) simp
  have nc: "\<not> dict_has ''content'' ?x" by (simp add: dict_has_def)
  note unfolds = observation_from_dict_def assms(4-6) option.case pyval.case t(1) dep Let_def
  consider "?c = CmdOutputObservation" | "?c = RecallObservation"
    | "?c \<noteq> CmdOutputObservation \<and> ?c \<noteq> RecallObservation" by blast
  then show ?thesis
  proof cases
    case 1
    then obtain st cmd md hid where f: "ev_fields e = [(''content'', PStr st), (''command'', cmd),
        (''observation'', PStr ''run''), (''metadata'', PDict md), (''hidden'', PBool hid)]"
      "map fst md = map fst metadata_defaults" "hid \<or> maybe_truncate st MAX_CMD_OUTPUT_SIZE = st"
      using s by (auto simp: cmd_output_ok_def)
    have x: "?x = [(''command'', cmd), (''metadata'', PDict md), (''hidden'', PBool hid)]"
      by (simp add: f(1) dict_del_def TOP_KEYS_def)
    have "v = PStr st" using assms(3) f(1) by simp
    then show ?thesis unfolding unfolds using 1 x f(2,3) metadata_init_id[OF f(2)]
      by (auto simp: cmd_output_extras_def dict_has_def dataclass_init_def cmd_output_init_def f(1)
          Let_def)
  next
    case 2
    have kt: "''recall_type'' \<notin> set TOP_KEYS" "''microagent_knowledge'' \<notin> set TOP_KEYS" by (simp_all add: TOP_KEYS_def)
    have r: "map_of ?x ''recall_type'' = map_of (ev_fields e) ''recall_type''"
      "map_of ?x ''microagent_knowledge'' = map_of (ev_fields e) ''microagent_knowledge''"
      using kt by (simp_all add: map_of_filter_key[of "\<lambda>k. k \<notin> set TOP_KEYS"])
    have "recall_extras ?x = Inr ?x"
    proof (cases "\<exists>vs. map_of ?x ''microagent_knowledge'' = Some (PList vs)")
      case True
      then obtain vs where vs: "map_of ?x ''microagent_knowledge'' = Some (PList vs)" by blast
      have "dict_set ''microagent_knowledge'' (PList vs) ?x = ?x" by (rule dict_set_same[OF vs])
      then show ?thesis using s 2 r vs by (auto simp: recall_extras_def recall_ok_def)
    next
      case False
      then show ?thesis using s 2 r
        by (auto simp: recall_extras_def recall_ok_def split: option.splits pyval.splits)
    qed
    then show ?thesis unfolding unfolds using 2 nc dataclass_init_observation[OF assms(1,2) _ assms(3)] by simp
  next
    case 3
    then show ?thesis unfolding unfolds using nc dataclass_init_observation[OF assms(1,2) _ assms(3)] by simp
  qed
qed

lemma observation_round_trip:
  assumes "storable e" "is_observation e"
  shows "\<exists>d. event_to_dict e = Inr d \<and> event_from_dict d = Inr e"
proof -
  let ?c = "ev_class e"
  let ?props = "filter (\<lambda>p. fst p \<notin> set TOP_KEYS) (ev_fields e)"
  note s = assms(1)[unfolded storable_def]
  have c: "?c \<in> set observations" using assms(2) by (simp add: is_observation_def)
  note t = observation_tables[OF c]
  have na: "\<not> is_action e" using assms(2) action_or_observation by blast
  have own: "map_of (ev_fields e) ''observation'' = Some (PStr (type_name ''observation'' ?c))"
    using s na by (simp add: own_key_def)
  have keys: "map fst (ev_fields e) = map fst (ci_fields (class_of ?c))" using s by blast
  have noact: "attr e ''action'' = None"
  proof -
    have "''action'' \<notin> set (map fst (ci_fields (class_of ?c)))"
    proof
      assume "''action'' \<in> set (map fst (ci_fields (class_of ?c)))"
      then have "''action'' \<in> set (filter (\<lambda>k. k \<in> set TOP_KEYS) (map fst (ci_fields (class_of ?c))))"
        by (simp add: TOP_KEYS_def)
      then show False unfolding t(3) by simp
    qed
    then have "map_of (ev_fields e) ''action'' = None" using keys absent_map_of by metis
    then show ?thesis using s by (simp add: attr_def)
  qed
  obtain v where v: "map_of (ev_fields e) ''content'' = Some v"
    using t(6) keys absent_map_of by (metis not_None_eq)
  obtain d where d: "top_entries e TOP_KEYS = Inr d" using top_entries_ok s by blast
  have ab: "list_all (\<lambda>k. map_of ?props k = None)
     [''exit_code'', ''command_id'', ''formatted_output_and_error'', ''task_completed'', ''security_risk'', ''success'']"
    using absent_keys[OF _ t(5), of "\<lambda>k. k \<notin> set TOP_KEYS"] s by blast
  have nn: "drop_none ''task_completed'' (drop_none ''security_risk'' ?props) = ?props"
    using ab by (simp add: drop_none_def)
  have pc: "map_of ?props ''content'' = Some v"
    using v by (subst map_of_filter_key[of "\<lambda>k. k \<notin> set TOP_KEYS"]) (simp add: TOP_KEYS_def)
  let ?rest = "[(''content'', v), (''extras'', PDict (dict_del ''content'' ?props))]
     @ (case success e of Some b \<Rightarrow> [(''success'', PBool b)] | None \<Rightarrow> [])"
  have rk: "\<forall>k\<in>set (map fst ?rest). k \<notin> set TOP_KEYS" by (auto simp: TOP_KEYS_def split: option.splits)
  have dyn: "ev_dyn e = []" using s by blast
  have top: "map_of (d @ r) ''observation'' = Some (PStr (type_name ''observation'' ?c))"
    "map_of (d @ r) ''action'' = None"
    if "\<forall>k\<in>set (map fst r). k \<notin> set TOP_KEYS" for r
  proof -
    have "''observation'' \<notin> set (map fst r)" "''action'' \<notin> set (map fst r)"
      using that by (auto simp: TOP_KEYS_def)
    then show "map_of (d @ r) ''observation'' = Some (PStr (type_name ''observation'' ?c))"
      "map_of (d @ r) ''action'' = None"
      using map_of_top[OF d, of "''observation''" r] map_of_top[OF d, of "''action''" r] own noact dyn
      by (simp_all add: TOP_KEYS_def attr_def del: map_of_append)
  qed
  have to: "event_to_dict e = Inr (d @ ?rest)"
    using top[of "[]"] unfolding event_to_dict_def d sum.case Let_def nn pc by (simp add: dict_has_def)
  have "map_of (d @ ?rest) ''content'' = Some v"
    "map_of (d @ ?rest) ''extras'' = Some (PDict (dict_del ''content'' ?props))"
    using map_of_rest[OF d, of _ ?rest] by (simp_all add: TOP_KEYS_def del: map_of_append)
  from build_observation[OF assms v top(1)[OF rk] this]
  have "observation_from_dict (d @ ?rest) = Inr (blank ?c (ev_fields e))" .
  moreover have "blank ?c (ev_fields e) = bare e"
    using s assms(2) by (cases e) (simp add: blank_def bare_def)
  ultimately have "event_from_dict (d @ ?rest) = Inr e"
    using top[OF rk] underscores_restore[OF carries_top[OF d rk] assms(1)]
    by (simp add: event_from_dict_def dict_has_def del: map_of_append)
  then show ?thesis using to by blast
qed

section \<open>Truncation\<close>

lemma maybe_truncate_eq:
  assumes "2 \<le> m"
  shows "maybe_truncate s m = (if int (length s) \<le> m then s else middle_cut s (nat (m div 2)))"
  using assms slice_from_neg[of "m div 2" s]
  by (simp add: maybe_truncate_def middle_cut_def Let_def pos_imp_zdiv_pos_iff)

lemma truncate_content_eq:
  assumes "2 \<le> m"
  shows "truncate_content s (Some m) = maybe_truncate s m"
  using assms by (simp add: truncate_content_def maybe_truncate_def)

lemma middle_cut_twice:
  assumes "2 * h \<le> length s"
  shows "middle_cut (middle_cut s h) h = middle_cut s h"
  using assms by (simp add: middle_cut_def)

lemma maybe_truncate_twice:
  assumes "2 \<le> m" shows "maybe_truncate (maybe_truncate s m) m = maybe_truncate s m"
proof (cases "int (length s) \<le> m")
  case False
  then have l: "2 * nat (m div 2) \<le> length s" using assms by linarith
  then show ?thesis using False assms middle_cut_twice[OF l] by (simp add: maybe_truncate_eq)
qed (use assms in \<open>simp add: maybe_truncate_eq\<close>)

text \<open>
  For a limit of at least two characters both truncation functions agree; truncating twice
  is the same as truncating once, so a command output that is written and read back does not
  shrink further; the result is at most the notice longer than the limit and keeps the first
  and the last half-limit characters.
\<close>

theorem truncation_keeps_both_ends:
  assumes "2 \<le> m"
  shows "truncate_content s (Some m) = maybe_truncate s m \<and>
     maybe_truncate (maybe_truncate s m) m = maybe_truncate s m \<and>
     int (length (maybe_truncate s m)) \<le> m + int (length truncation_notice) \<and>
     take (nat (m div 2)) (maybe_truncate s m) = take (nat (m div 2)) s \<and>
     take (nat (m div 2)) (rev (maybe_truncate s m)) = take (nat (m div 2)) (rev s)"
proof -
  have "int (length (maybe_truncate s m)) \<le> m + int (length truncation_notice)"
  proof (cases "int (length s) \<le> m")
    case False
    then have "length (middle_cut s (nat (m div 2))) = 2 * nat (m div 2) + length truncation_notice"
      using assms by (simp add: middle_cut_def min_def)
    then show ?thesis using False assms by (simp add: maybe_truncate_eq)
  qed (use assms in \<open>simp add: maybe_truncate_eq\<close>)
  moreover have "take (nat (m div 2)) (maybe_truncate s m) = take (nat (m div 2)) s"
    "take (nat (m div 2)) (rev (maybe_truncate s m)) = take (nat (m div 2)) (rev s)"
    using assms by (auto simp: maybe_truncate_eq middle_cut_def rev_drop)
  ultimately show ?thesis
    using truncate_content_eq[OF assms] maybe_truncate_twice[OF assms] by simp
qed

theorem truncation_keeps_both_ends_witness:
  "truncate_content ''abcdefgh'' (Some 4) = maybe_truncate ''abcdefgh'' 4 \<and>
   maybe_truncate (maybe_truncate ''abcdefgh'' 4) 4 = maybe_truncate ''abcdefgh'' 4"
  using truncation_keeps_both_ends[of 4 "''abcdefgh''"] by simp

text \<open>
  With a limit of zero or one character \<^verbatim>\<open>truncate_content\<close> keeps
  the whole text and puts the notice in front of it: the slice
  \<^verbatim>\<open>content[-0:]\<close> is the whole string.
\<close>

theorem tiny_limit_truncates_nothing:
  assumes "0 \<le> m" "m \<le> 1" "m < int (length s)"
  shows "truncate_content s (Some m) = truncation_notice @ s"
  using assms by (auto simp: truncate_content_def Let_def)

theorem tiny_limit_truncates_nothing_witness:
  "truncate_content ''abc'' (Some 1) = truncation_notice @ ''abc''"
  by (rule tiny_limit_truncates_nothing) simp_all

section \<open>Round trip\<close>

text \<open>
  C3: Every event that has the fields of its class, a valid risk, a readable message and, for
  command outputs and recall observations, fields of the shape their constructors build, is
  restored exactly from its dictionary: fields, id, timestamp, source, cause, timeout, tool
  call metadata and metrics.
\<close>

theorem event_round_trip:
  assumes "storable e"
  shows "\<exists>d. event_to_dict e = Inr d \<and> event_from_dict d = Inr e"
  using action_round_trip[OF assms] observation_round_trip[OF assms] action_or_observation by blast

theorem event_round_trip_witness:
  "\<exists>d. event_to_dict sample_stored = Inr d \<and> event_from_dict d = Inr sample_stored"
proof -
  have "storable sample_stored"
    by (simp add: storable_def sample_stored_def blank_def CmdRunAction_class_def own_key_def is_action_def
        is_observation_def observations_def actions_def type_name_def message_def risk_ok_def security_risk_of_def)
  then show ?thesis by (rule event_round_trip)
qed

end
