(* ===== verification/Json_Text.thy ===== *)
theory Json_Text
  imports Events
begin

text \<open>
  JSON text, as \<^verbatim>\<open>json.dumps\<close> prints it and \<^verbatim>\<open>json.loads\<close> reads it.  How a float prints is a
  parameter; a number with a fraction or an exponent is read as the rational it denotes.  The
  constants NaN and Infinity and escapes of characters from 256 on are not representable and give
  \<^const>\<open>NotModelled\<close>.  The reader takes fuel that bounds the nesting; the length of the text is
  always enough, since every level of nesting consumes a character.  The last lemma says that what
  was printed is read back, for values without floats and with distinct keys.
\<close>

section \<open>Printing\<close>

definition json_char :: "char \<Rightarrow> string" where
  "json_char c =
     (let n = (of_char c :: nat); bs = CHR 0x5C in
      if c = CHR 0x22 \<or> c = bs then [bs, c]
      else if n = 10 then [bs, CHR ''n''] else if n = 13 then [bs, CHR ''r'']
      else if n = 9 then [bs, CHR ''t''] else if n = 8 then [bs, CHR ''b'']
      else if n = 12 then [bs, CHR ''f'']
      else if 32 \<le> n \<and> n \<le> 126 then [c]
      else [bs] @ ''u00'' @ [hex_digit (n div 16), hex_digit (n mod 16)])"

definition json_string :: "string \<Rightarrow> string" where
  "json_string s = [CHR 0x22] @ concat (map json_char s) @ [CHR 0x22]"

fun json_dumps :: "(rat \<Rightarrow> string) \<Rightarrow> pyval \<Rightarrow> string"
and json_items :: "(rat \<Rightarrow> string) \<Rightarrow> (string \<times> pyval) list \<Rightarrow> string list"
and json_list :: "(rat \<Rightarrow> string) \<Rightarrow> pyval list \<Rightarrow> string list" where
  "json_dumps fl PNone = ''null''"
| "json_dumps fl (PBool b) = (if b then ''true'' else ''false'')"
| "json_dumps fl (PInt i) = str_of_int i"
| "json_dumps fl (PFloat r) = fl r"
| "json_dumps fl (PStr s) = json_string s"
| "json_dumps fl (PList vs) = ''['' @ join '', '' (json_list fl vs) @ '']''"
| "json_dumps fl (PDict d) = ''{'' @ join '', '' (json_items fl d) @ ''}''"
| "json_items fl [] = []"
| "json_items fl ((k, v) # d) = (json_string k @ '': '' @ json_dumps fl v) # json_items fl d"
| "json_list fl [] = []"
| "json_list fl (v # vs) = json_dumps fl v # json_list fl vs"

section \<open>Reading\<close>

definition json_error :: pyerr where
  \<comment> \<open>\<^verbatim>\<open>json.JSONDecodeError\<close>, a subclass of \<^verbatim>\<open>ValueError\<close>\<close>
  "json_error = ValueError ''JSONDecodeError''"

definition json_space :: "char \<Rightarrow> bool" where
  "json_space c \<longleftrightarrow> c \<in> set [CHR '' '', CHR 0x09, CHR 0x0A, CHR 0x0D]"

definition skip :: "string \<Rightarrow> string" where
  "skip s = dropWhile json_space s"

definition hex_val :: "char \<Rightarrow> nat option" where
  "hex_val c =
     (let n = (of_char c :: nat)
      in if 48 \<le> n \<and> n \<le> 57 then Some (n - 48)
         else if 97 \<le> n \<and> n \<le> 102 then Some (n - 87)
         else if 65 \<le> n \<and> n \<le> 70 then Some (n - 55) else None)"

definition unescape :: "char \<Rightarrow> char option" where
  \<comment> \<open>the character after a backslash, other than \<^verbatim>\<open>u\<close>\<close>
  "unescape c =
     (if c \<in> set [CHR 0x22, CHR 0x5C, CHR ''/''] then Some c
      else if c = CHR ''b'' then Some (CHR 0x08) else if c = CHR ''f'' then Some (CHR 0x0C)
      else if c = CHR ''n'' then Some (CHR 0x0A) else if c = CHR ''r'' then Some (CHR 0x0D)
      else if c = CHR ''t'' then Some (CHR 0x09) else None)"

definition push :: "char \<Rightarrow> (string \<times> string) res \<Rightarrow> (string \<times> string) res" where
  "push c r = (case r of Inl e \<Rightarrow> Inl e | Inr (s, t) \<Rightarrow> Inr (c # s, t))"

fun scan_string :: "string \<Rightarrow> (string \<times> string) res" where
  \<comment> \<open>from after the opening quote: the string and the text after the closing quote\<close>
  "scan_string [] = Inl json_error"
| "scan_string (c # r) =
     (if c = CHR 0x22 then Inr ([], r)
      else if c = CHR 0x5C
      then (case r of
              [] \<Rightarrow> Inl json_error
            | e # r1 \<Rightarrow>
                (if e = CHR ''u''
                 then (case r1 of
                         h1 # h2 # h3 # h4 # r2 \<Rightarrow>
                           (case (hex_val h1, hex_val h2, hex_val h3, hex_val h4) of
                              (Some a, Some b, Some c, Some d) \<Rightarrow>
                                (let n = 4096 * a + 256 * b + 16 * c + d
                                 in if n < 256 then push (char_of n) (scan_string r2)
                                    else Inl (NotModelled ''character''))
                            | _ \<Rightarrow> Inl json_error)
                       | _ \<Rightarrow> Inl json_error)
                 else (case unescape e of None \<Rightarrow> Inl json_error | Some x \<Rightarrow> push x (scan_string r1))))
      else if (of_char c :: nat) < 32 then Inl json_error
      else push c (scan_string r))"

definition digits :: "string \<Rightarrow> string \<times> string" where
  "digits s = (takeWhile is_digit s, dropWhile is_digit s)"

definition scan_fraction :: "string \<Rightarrow> (string \<times> string) option" where
  \<comment> \<open>\<^verbatim>\<open>(\.[0-9]+)?\<close>: the digits, if any\<close>
  "scan_fraction s =
     (if s \<noteq> [] \<and> hd s = CHR ''.'' \<and> fst (digits (tl s)) \<noteq> [] then Some (digits (tl s)) else None)"

definition scan_exponent :: "string \<Rightarrow> (int \<times> string) option" where
  \<comment> \<open>\<^verbatim>\<open>([eE][-+]?[0-9]+)?\<close>\<close>
  "scan_exponent s =
     (if s \<noteq> [] \<and> (hd s = CHR ''e'' \<or> hd s = CHR ''E'')
      then (let r = tl s;
                signed = (r \<noteq> [] \<and> (hd r = CHR ''-'' \<or> hd r = CHR ''+''));
                p = digits (if signed then tl r else r);
                n = int (nat_of_digits 0 (fst p))
            in if fst p = [] then None
               else Some (if signed \<and> hd r = CHR ''-'' then - n else n, snd p))
      else None)"

definition power10 :: "int \<Rightarrow> rat" where
  "power10 k = (if 0 \<le> k then 10 ^ nat k else 1 / 10 ^ nat (- k))"

definition scan_number :: "string \<Rightarrow> (pyval \<times> string) res" where
  \<comment> \<open>\<^verbatim>\<open>(-?(?:0|[1-9][0-9]*))\<close> with an optional fraction and exponent\<close>
  "scan_number s =
     (let neg = (s \<noteq> [] \<and> hd s = CHR ''-'');
          u = (if neg then tl s else s);
          p = (if u \<noteq> [] \<and> hd u = CHR ''0'' then ([CHR ''0''], tl u) else digits u);
          n = int (nat_of_digits 0 (fst p));
          sign = (if neg then -1 else 1)
      in if fst p = [] then Inl json_error
         else case (scan_fraction (snd p), scan_exponent (case scan_fraction (snd p) of Some (f, r) \<Rightarrow> r | None \<Rightarrow> snd p)) of
                (None, None) \<Rightarrow> Inr (PInt (sign * n), snd p)
              | (fr, ex) \<Rightarrow>
                  (let f = (case fr of Some (ds, _) \<Rightarrow> of_nat (nat_of_digits 0 ds) / 10 ^ length ds | None \<Rightarrow> 0);
                       k = (case ex of Some (e, _) \<Rightarrow> e | None \<Rightarrow> 0);
                       rest = (case ex of Some (_, r) \<Rightarrow> r | None \<Rightarrow> (case fr of Some (_, r) \<Rightarrow> r | None \<Rightarrow> snd p))
                   in Inr (PFloat (of_int sign * (of_int n + f) * power10 k), rest)))"

definition scan_word :: "string \<Rightarrow> (pyval \<times> string) res" where
  \<comment> \<open>a constant or a number\<close>
  "scan_word s =
     (if startswith s ''null'' then Inr (PNone, drop 4 s)
      else if startswith s ''true'' then Inr (PBool True, drop 4 s)
      else if startswith s ''false'' then Inr (PBool False, drop 5 s)
      else if startswith s ''NaN'' \<or> startswith s ''Infinity'' \<or> startswith s ''-Infinity''
      then Inl (NotModelled ''constant'')
      else scan_number s)"

fun parse_value :: "nat \<Rightarrow> string \<Rightarrow> (pyval \<times> string) res"
and parse_items :: "nat \<Rightarrow> string \<Rightarrow> (pyval list \<times> string) res"
and parse_members :: "nat \<Rightarrow> string \<Rightarrow> ((string \<times> pyval) list \<times> string) res" where
  "parse_value 0 s = Inl json_error"
| "parse_value (Suc n) s =
     (case s of
        [] \<Rightarrow> Inl json_error
      | c # r \<Rightarrow>
          (if c = CHR 0x22 then (case scan_string r of Inl e \<Rightarrow> Inl e | Inr (x, t) \<Rightarrow> Inr (PStr x, t))
           else if c = CHR ''[''
           then (if skip r \<noteq> [] \<and> hd (skip r) = CHR '']'' then Inr (PList [], tl (skip r))
                 else case parse_items n (skip r) of Inl e \<Rightarrow> Inl e | Inr (vs, t) \<Rightarrow> Inr (PList vs, t))
           else if c = CHR ''{''
           then (if skip r \<noteq> [] \<and> hd (skip r) = CHR ''}'' then Inr (PDict [], tl (skip r))
                 else case parse_members n (skip r) of
                        Inl e \<Rightarrow> Inl e | Inr (kvs, t) \<Rightarrow> Inr (PDict (dict_update [] kvs), t))
           else scan_word s))"
| "parse_items 0 s = Inl json_error"
| "parse_items (Suc n) s =
     (case parse_value n s of
        Inl e \<Rightarrow> Inl e
      | Inr (v, t) \<Rightarrow>
          (case skip t of
             [] \<Rightarrow> Inl json_error
           | c # r \<Rightarrow>
               (if c = CHR '']'' then Inr ([v], r)
                else if c = CHR '',''
                then (case parse_items n (skip r) of Inl e \<Rightarrow> Inl e | Inr (vs, u) \<Rightarrow> Inr (v # vs, u))
                else Inl json_error)))"
| "parse_members 0 s = Inl json_error"
| "parse_members (Suc n) s =
     (if s = [] \<or> hd s \<noteq> CHR 0x22 then Inl json_error
      else case scan_string (tl s) of
             Inl e \<Rightarrow> Inl e
           | Inr (k, t) \<Rightarrow>
               (if skip t = [] \<or> hd (skip t) \<noteq> CHR '':'' then Inl json_error
                else case parse_value n (skip (tl (skip t))) of
                       Inl e \<Rightarrow> Inl e
                     | Inr (v, u) \<Rightarrow>
                         (case skip u of
                            [] \<Rightarrow> Inl json_error
                          | c # r \<Rightarrow>
                              (if c = CHR ''}'' then Inr ([(k, v)], r)
                               else if c = CHR '',''
                               then (case parse_members n (skip r) of
                                       Inl e \<Rightarrow> Inl e | Inr (kvs, w) \<Rightarrow> Inr ((k, v) # kvs, w))
                               else Inl json_error))))"

definition json_loads :: "string \<Rightarrow> pyval res" where
  "json_loads s =
     (case parse_value (2 * length s + 2) (skip s) of
        Inl e \<Rightarrow> Inl e
      | Inr (v, t) \<Rightarrow> if skip t = [] then Inr v else Inl json_error)"

section \<open>Floats\<close>

text \<open>Texts of a float with underscores, infinities or NaN are not modelled.\<close>

definition py_float_text :: "string \<Rightarrow> rat res" where
  \<comment> \<open>\<^verbatim>\<open>float(s)\<close> for a decimal numeral\<close>
  "py_float_text s =
     (let t = strip s;
          neg = (t \<noteq> [] \<and> hd t = CHR ''-'');
          u = (if t \<noteq> [] \<and> (hd t = CHR ''-'' \<or> hd t = CHR ''+'') then tl t else t);
          (whole, r1) = digits u;
          (frac, r2) = (if r1 \<noteq> [] \<and> hd r1 = CHR ''.'' then digits (tl r1) else ([], r1));
          (k, r3) = (case scan_exponent r2 of Some (e, r) \<Rightarrow> (e, r) | None \<Rightarrow> (0, r2));
          v = (of_nat (nat_of_digits 0 whole) + of_nat (nat_of_digits 0 frac) / 10 ^ length frac) * power10 k
      in if CHR ''_'' \<in> set u \<or> lower u \<in> {''inf'', ''infinity'', ''nan''} then Inl (NotModelled ''float'')
         else if (whole = [] \<and> frac = []) \<or> r3 \<noteq> [] then Inl (ValueError ''could not convert string to float'')
         else Inr (if neg then - v else v))"

definition py_float :: "pyval \<Rightarrow> rat res" where
  "py_float v =
     (case v of
        PInt i \<Rightarrow> Inr (of_int i) | PFloat r \<Rightarrow> Inr r | PBool b \<Rightarrow> Inr (if b then 1 else 0)
      | PStr s \<Rightarrow> py_float_text s
      | _ \<Rightarrow> Inl (TypeError ''float() argument must be a string or a real number''))"

section \<open>Reading what was printed\<close>

subsection \<open>Values with an exact text\<close>

fun plain :: "pyval \<Rightarrow> bool"
and plain_list :: "pyval list \<Rightarrow> bool"
and plain_items :: "(string \<times> pyval) list \<Rightarrow> bool" where
  "plain (PFloat r) \<longleftrightarrow> False"
| "plain (PList vs) \<longleftrightarrow> plain_list vs"
| "plain (PDict d) \<longleftrightarrow> distinct (map fst d) \<and> plain_items d"
| "plain _ \<longleftrightarrow> True"
| "plain_list [] \<longleftrightarrow> True"
| "plain_list (v # vs) \<longleftrightarrow> plain v \<and> plain_list vs"
| "plain_items [] \<longleftrightarrow> True"
| "plain_items ((k, v) # d) \<longleftrightarrow> plain v \<and> plain_items d"

fun depth :: "pyval \<Rightarrow> nat"
and depth_list :: "pyval list \<Rightarrow> nat"
and depth_items :: "(string \<times> pyval) list \<Rightarrow> nat" where
  "depth (PList vs) = Suc (depth_list vs)"
| "depth (PDict d) = Suc (depth_items d)"
| "depth _ = 1"
| "depth_list [] = 0"
| "depth_list (v # vs) = Suc (max (depth v) (depth_list vs))"
| "depth_items [] = 0"
| "depth_items ((k, v) # d) = Suc (max (depth v) (depth_items d))"

definition ends_number :: "string \<Rightarrow> bool" where
  \<comment> \<open>text that does not continue a number\<close>
  "ends_number t \<longleftrightarrow> t = [] \<or> (\<not> is_digit (hd t) \<and> hd t \<notin> {CHR ''.'', CHR ''e'', CHR ''E''})"

subsection \<open>Facts\<close>

lemma hex_val_digit: "k < 16 \<Longrightarrow> hex_val (hex_digit k) = Some k"
  by (auto simp: hex_val_def hex_digit_def Let_def)

lemma scan_json_char: "scan_string (json_char c @ r) = push c (scan_string r)"
proof -
  define n where "n = (of_char c :: nat)"
  have n: "n < 256" by (simp add: n_def)
  have c: "char_of n = c" by (simp add: n_def)
  have h: "hex_val (hex_digit (n div 16)) = Some (n div 16)" "hex_val (hex_digit (n mod 16)) = Some (n mod 16)"
    using n by (auto intro!: hex_val_digit)
  have "16 * (n div 16) + n mod 16 = n" by simp
  moreover have "hex_val (CHR ''0'') = Some 0" by code_simp
  ultimately have u: "scan_string ([CHR 0x5C] @ ''u00'' @ [hex_digit (n div 16), hex_digit (n mod 16)] @ r) = push c (scan_string r)"
    using n c h by (simp add: Let_def)
  have e: "scan_string (CHR 0x5C # x # r) = push y (scan_string r)" if "unescape x = Some y" "x \<noteq> CHR ''u''" for x y
    using that by simp
  have k: "char_of (8::nat) = CHR 0x08" "char_of (9::nat) = CHR 0x09" "char_of (10::nat) = CHR 0x0A"
    "char_of (12::nat) = CHR 0x0C" "char_of (13::nat) = CHR 0x0D" by code_simp+
  consider "c = CHR 0x22" | "c = CHR 0x5C" | "n = 10" | "n = 13" | "n = 9" | "n = 8" | "n = 12"
    | "c \<noteq> CHR 0x22" "c \<noteq> CHR 0x5C" "32 \<le> n" "n \<le> 126" 
    | "c \<noteq> CHR 0x22" "c \<noteq> CHR 0x5C" "n \<notin> {8,9,10,12,13}" "\<not> (32 \<le> n \<and> n \<le> 126)" by auto
  then show ?thesis
  proof cases
    case 9
    then have "json_char c = [CHR 0x5C] @ ''u00'' @ [hex_digit (n div 16), hex_digit (n mod 16)]"
      by (auto simp: json_char_def Let_def n_def)
    then show ?thesis using u by simp
  next
    case 8
    then show ?thesis by (auto simp: json_char_def Let_def n_def)
  qed (auto simp: json_char_def Let_def n_def[symmetric] unescape_def c[symmetric] k)
qed

lemma scan_json_string: "scan_string (concat (map json_char s) @ CHR 0x22 # r) = Inr (s, r)"
proof (induction s)
  case (Cons c s)
  then show ?case by (simp only: list.map concat.simps append_assoc scan_json_char) (simp add: push_def)
qed simp


lemma str_of_nat_no_zero: "0 < n \<Longrightarrow> hd (str_of_nat n) \<noteq> CHR ''0''"
proof (induction n rule: str_of_nat.induct)
  case (1 n)
  have d: "d < 10 \<Longrightarrow> 0 < d \<Longrightarrow> digit_char d \<noteq> CHR ''0''" for d
    using digit_char_props(2)[of d] by (auto simp: digit_val_def)
  show ?case
  proof (cases "n < 10")
    case True
    then show ?thesis using 1(2) d by (simp add: str_of_nat.simps[of n])
  next
    case False
    then have "hd (str_of_nat n) = hd (str_of_nat (n div 10))" by (simp add: str_of_nat.simps[of n])
    then show ?thesis using 1 False by simp
  qed
qed

lemma str_of_nat_all_digits: "\<forall>c\<in>set (str_of_nat n). is_digit c"
  using str_of_nat_digits digit_char_props(1) by blast

lemma digits_str_of_nat: "t = [] \<or> \<not> is_digit (hd t) \<Longrightarrow> digits (str_of_nat n @ t) = (str_of_nat n, t)"
  using str_of_nat_all_digits[of n]
  by (cases t) (auto simp: digits_def takeWhile_append dropWhile_append)

lemma scan_number_str:
  assumes "ends_number t"
  shows "scan_number (str_of_int i @ t) = Inr (PInt i, t)"
proof -
  let ?m = "nat \<bar>i\<bar>"
  have s: "str_of_int i = (if i < 0 then [CHR ''-''] else []) @ str_of_nat ?m" by (simp add: str_of_int_def)
  have nd: "hd (str_of_nat ?m @ t) \<noteq> CHR ''-''" "str_of_nat ?m @ t \<noteq> []" using str_of_nat_ends(5) by auto
  have p: "(if hd (str_of_nat ?m @ t) = CHR ''0'' then ([CHR ''0''], tl (str_of_nat ?m @ t)) else digits (str_of_nat ?m @ t)) = (str_of_nat ?m, t)"
  proof (cases "?m = 0")
    case True
    moreover have "str_of_nat 0 = ''0''" by code_simp
    ultimately show ?thesis by simp
  next
    case False
    then show ?thesis using str_of_nat_no_zero[of ?m] digits_str_of_nat[of t ?m] assms by (auto simp: ends_number_def)
  qed
  have f: "scan_fraction t = None" "scan_exponent t = None"
    using assms by (auto simp: ends_number_def scan_fraction_def scan_exponent_def)
  have "int (nat_of_digits 0 (str_of_nat ?m)) = \<bar>i\<bar>" by (simp add: nat_of_str)
  then show ?thesis
    using nd p f unfolding s scan_number_def by (auto simp: Let_def split del: if_split split: if_splits)
qed


lemma str_of_int_head: "\<exists>c r. str_of_int i = c # r \<and> (is_digit c \<or> c = CHR ''-'' \<and> r \<noteq> [] \<and> is_digit (hd r))"
proof (cases "i < 0")
  case True
  then show ?thesis using str_of_nat_ends(1)[of "nat (- i)"] by (simp add: str_of_int_def)
next
  case False
  then show ?thesis using str_of_nat_ends(1)[of "nat i"] by (cases "str_of_nat (nat i)") (auto simp: str_of_int_def)
qed

lemma digit_not:
  "is_digit c \<Longrightarrow> c \<notin> {CHR 0x22, CHR ''['', CHR ''{'', CHR ''n'', CHR ''t'', CHR ''f'', CHR ''N'', CHR ''I'', CHR '' '', CHR 0x09, CHR 0x0A, CHR 0x0D}"
  by (auto simp: is_digit_def)

lemma scan_word_int: "ends_number t \<Longrightarrow> scan_word (str_of_int i @ t) = Inr (PInt i, t)"
proof -
  assume e: "ends_number t"
  obtain c r where c: "str_of_int i = c # r" "is_digit c \<or> c = CHR ''-'' \<and> r \<noteq> [] \<and> is_digit (hd r)"
    using str_of_int_head by blast
  then have "\<not> startswith (c # r @ t) p" if "p \<in> set [''null'', ''true'', ''false'', ''NaN'', ''Infinity'', ''-Infinity'']" for p
    using that by (cases r) (auto simp: startswith_def is_digit_def dest: digit_not)
  then have "scan_word (str_of_int i @ t) = scan_number (str_of_int i @ t)"
    unfolding scan_word_def c(1) append_Cons by simp
  then show ?thesis using scan_number_str[OF e] by simp
qed

lemma dumps_head: "plain v \<Longrightarrow> \<exists>c r. json_dumps fl v = c # r \<and> \<not> json_space c \<and> c \<noteq> CHR '']'' \<and> c \<noteq> CHR ''}''"
proof (cases v)
  case (PInt i)
  then show ?thesis using str_of_int_head[of i] by (auto simp: json_space_def is_digit_def)
qed (auto simp: json_space_def json_string_def)

lemma skip_dumps: "plain v \<Longrightarrow> skip (json_dumps fl v @ t) = json_dumps fl v @ t"
  using dumps_head[of v fl] by (auto simp: skip_def)

lemma skip_Cons: "skip (CHR '' '' # s) = skip s" "\<not> json_space c \<Longrightarrow> skip (c # s) = c # s"
  by (simp_all add: skip_def json_space_def)

lemma join_Cons: "join sep (x # xs) = (if xs = [] then x else x @ sep @ join sep xs)"
  by (cases xs) simp_all

lemma json_empty [simp]: "json_list fl vs = [] \<longleftrightarrow> vs = []" "json_items fl d = [] \<longleftrightarrow> d = []"
  by (cases vs, simp_all) (cases d, auto)

lemma seps [simp]: "\<not> json_space (CHR '']'')" "\<not> json_space (CHR ''}'')" "\<not> json_space (CHR '','')" "\<not> json_space (CHR '':'')" "\<not> json_space (CHR 0x22)"
  by (simp_all add: json_space_def)

lemma ends [simp]: "ends_number (CHR '']'' # t)" "ends_number (CHR ''}'' # t)" "ends_number (CHR '','' # t)" "ends_number []"
  by (simp_all add: ends_number_def is_digit_def)

lemma dict_of_pairs: "distinct (map fst d0 @ map fst d) \<Longrightarrow> dict_update d0 d = d0 @ d"
proof (induction d arbitrary: d0)
  case (Cons p d)
  obtain k v where p: "p = (k, v)" by fastforce
  have "dict_set k v d0 = d0 @ [(k, v)]" if "k \<notin> set (map fst d0)" for d0 :: "('a \<times> 'b) list"
    using that by (induction d0) auto
  then show ?case using Cons p by (auto simp: p)
qed simp

lemma parse_dumps:
  "plain v \<Longrightarrow> ends_number t \<Longrightarrow> depth v \<le> n \<Longrightarrow> parse_value n (json_dumps fl v @ t) = Inr (v, t)"
  "plain_items d \<Longrightarrow> d \<noteq> [] \<Longrightarrow> depth_items d \<le> n \<Longrightarrow>
     parse_members n (join '', '' (json_items fl d) @ CHR ''}'' # t) = Inr (d, t)"
  "plain_list vs \<Longrightarrow> vs \<noteq> [] \<Longrightarrow> depth_list vs \<le> n \<Longrightarrow>
     parse_items n (join '', '' (json_list fl vs) @ CHR '']'' # t) = Inr (vs, t)"
proof (induction fl v and fl d and fl vs arbitrary: t n and t n and t n rule: json_dumps_json_items_json_list.induct)
  case (3 fl i)
  then obtain m where n: "n = Suc m" by (cases n) auto
  obtain c r where c: "str_of_int i = c # r" "is_digit c \<or> c = CHR ''-''" using str_of_int_head by blast
  then have "c \<noteq> CHR 0x22" "c \<noteq> CHR ''[''" "c \<noteq> CHR ''{''" using digit_not[of c] by auto
  then show ?case using scan_word_int[OF 3(2), of i] unfolding n by (simp add: c(1))
next
  case (6 fl vs)
  then obtain m where n: "n = Suc m" by (cases n) auto
  show ?case
  proof (cases "vs = []")
    case False
    then obtain v vs' where vs: "vs = v # vs'" by (cases vs) auto
    have "plain v" using 6 vs by simp
    then have sk: "skip (join '', '' (json_list fl vs) @ CHR '']'' # t) = join '', '' (json_list fl vs) @ CHR '']'' # t"
      "hd (join '', '' (json_list fl vs) @ CHR '']'' # t) \<noteq> CHR '']''"
      using skip_dumps[of v fl] dumps_head[of v fl] by (auto simp: vs join_Cons)
    show ?thesis using 6(1)[of m t] 6 False sk unfolding n by simp
  qed (simp add: n skip_Cons)
next
  case (7 fl d)
  then obtain m where n: "n = Suc m" by (cases n) auto
  show ?case
  proof (cases "d = []")
    case False
    then obtain k v d' where d: "d = (k, v) # d'" by (cases d) auto
    have sk: "skip (join '', '' (json_items fl d) @ CHR ''}'' # t) = join '', '' (json_items fl d) @ CHR ''}'' # t"
      "hd (join '', '' (json_items fl d) @ CHR ''}'' # t) \<noteq> CHR ''}''"
      by (auto simp: d join_Cons json_string_def skip_Cons)
    have "dict_update [] d = d" using dict_of_pairs[of "[]" d] 7 by simp
    then show ?thesis using 7(1)[of m t] 7 False sk unfolding n by simp
  qed (simp add: n skip_Cons)
next
  case (9 fl k v d)
  then obtain m where n: "n = Suc m" by (cases n) auto
  let ?q = "CHR ''}'' # t"
  let ?u = "if d = [] then ?q else '', '' @ join '', '' (json_items fl d) @ ?q"
  have v: "parse_value m (json_dumps fl v @ ?u) = Inr (v, ?u)" using 9 unfolding n by simp
  have tx: "join '', '' (json_items fl ((k, v) # d)) @ ?q =
      CHR 0x22 # (concat (map json_char k) @ CHR 0x22 # ('': '' @ json_dumps fl v @ ?u))"
    by (simp add: join_Cons json_string_def)
  have sk: "skip ('': '' @ json_dumps fl v @ ?u) = '': '' @ json_dumps fl v @ ?u"
    "skip (CHR '' '' # json_dumps fl v @ ?u) = json_dumps fl v @ ?u"
    using skip_dumps[of v fl ?u] 9 by (simp_all add: skip_Cons)
  have r: "parse_members m (join '', '' (json_items fl d) @ ?q) = Inr (d, t)" if "d \<noteq> []" using 9 that unfolding n by simp
  have sk2: "skip (CHR '' '' # join '', '' (json_items fl d) @ ?q) = join '', '' (json_items fl d) @ ?q" if "d \<noteq> []"
    using that by (cases d) (auto simp: join_Cons json_string_def skip_Cons)
  show ?case
    unfolding n parse_members.simps tx using v sk r sk2
    by (cases "d = []") (simp_all add: scan_json_string skip_Cons)
next
  case (11 fl v vs)
  then obtain m where n: "n = Suc m" by (cases n) auto
  let ?q = "CHR '']'' # t"
  let ?u = "if vs = [] then ?q else '', '' @ join '', '' (json_list fl vs) @ ?q"
  have v: "parse_value m (json_dumps fl v @ ?u) = Inr (v, ?u)" using 11 unfolding n by simp
  have tx: "join '', '' (json_list fl (v # vs)) @ ?q = json_dumps fl v @ ?u" by (simp add: join_Cons)
  have r: "parse_items m (join '', '' (json_list fl vs) @ ?q) = Inr (vs, t)" if "vs \<noteq> []" using 11 that unfolding n by simp
  have sk2: "skip (CHR '' '' # join '', '' (json_list fl vs) @ ?q) = join '', '' (json_list fl vs) @ ?q" if "vs \<noteq> []"
    using that "11.prems"(1) by (cases vs) (auto simp: join_Cons skip_Cons skip_dumps)
  show ?case
    unfolding n parse_items.simps tx using v r sk2
    by (cases "vs = []") (simp_all add: skip_Cons)
qed (auto simp: scan_word_def startswith_def scan_json_string json_string_def elim!: Suc_le_D[elim_format])


lemma depth_bound:
  "plain v \<Longrightarrow> depth v \<le> length (json_dumps fl v)"
  "plain_items d \<Longrightarrow> depth_items d \<le> length (join '', '' (json_items fl d)) + 1"
  "plain_list vs \<Longrightarrow> depth_list vs \<le> length (join '', '' (json_list fl vs)) + 1"
proof (induction fl v and fl d and fl vs rule: json_dumps_json_items_json_list.induct)
  case (3 fl i)
  then show ?case using str_of_int_head[of i] by auto
qed (auto simp: json_string_def join_Cons)

lemma json_round_trip:
  assumes "plain v"
  shows "json_loads (json_dumps fl v) = Inr v"
proof -
  have "depth v \<le> 2 * length (json_dumps fl v) + 2" using depth_bound(1)[OF assms, of fl] by simp
  from parse_dumps(1)[OF assms ends(4) this, of fl]
  show ?thesis using skip_dumps[OF assms, of fl "[]"] by (simp add: json_loads_def skip_def)
qed

end
