(* ===== verification/Event_Filter.thy ===== *)
theory Event_Filter
  imports Serialization_Laws Json_Text
begin

text \<open>
  \<^verbatim>\<open>openhands/events/event_filter.py\<close>.  A tuple of event types is the list of the concrete
  classes it covers.  The text search runs over the JSON text of the event;
  how a float prints is a parameter.
\<close>

section \<open>Order on strings\<close>

fun str_less :: "string \<Rightarrow> string \<Rightarrow> bool" where
  \<comment> \<open>Python compares code points\<close>
  "str_less s [] = False"
| "str_less [] (c # t) = True"
| "str_less (c # s) (c' # t) =
     ((of_char c :: nat) < of_char c' \<or> (c = c' \<and> str_less s t))"

section \<open>The filter\<close>

record event_filter =
  exclude_hidden :: bool
  query :: "string option"
  include_types :: "event_class list option"
  exclude_types :: "event_class list option"
  flt_source :: "string option"
  start_date :: "string option"
  end_date :: "string option"

definition no_filter :: event_filter where
  \<comment> \<open>\<^verbatim>\<open>EventFilter()\<close>\<close>
  "no_filter = \<lparr>exclude_hidden = False, query = None, include_types = None, exclude_types = None,
     flt_source = None, start_date = None, end_date = None\<rparr>"

definition truthy :: "pyval option \<Rightarrow> bool" where
  "truthy v =
     (case v of
        None \<Rightarrow> False | Some PNone \<Rightarrow> False | Some (PBool b) \<Rightarrow> b | Some (PInt i) \<Rightarrow> i \<noteq> 0
      | Some (PFloat r) \<Rightarrow> r \<noteq> 0 | Some (PStr s) \<Rightarrow> s \<noteq> [] | Some (PList l) \<Rightarrow> l \<noteq> []
      | Some (PDict d) \<Rightarrow> d \<noteq> [])"

definition include_event :: "(rat \<Rightarrow> string) \<Rightarrow> event_filter \<Rightarrow> event \<Rightarrow> bool res" where
  "include_event fl f e =
     (if (case include_types f of None \<Rightarrow> False | Some ts \<Rightarrow> ts \<noteq> [] \<and> ev_class e \<notin> set ts) then Inr False
      else if (case exclude_types f of None \<Rightarrow> False | Some ts \<Rightarrow> ev_class e \<in> set ts) then Inr False
      else if (case flt_source f of
                 None \<Rightarrow> False | Some [] \<Rightarrow> False
               | Some s \<Rightarrow> (case ev_source e of None \<Rightarrow> True | Some src \<Rightarrow> source_value src \<noteq> s)) then Inr False
      else if (case (start_date f, ev_timestamp e) of
                 (Some (c # d), Some t) \<Rightarrow> str_less t (c # d) | _ \<Rightarrow> False) then Inr False
      else if (case (end_date f, ev_timestamp e) of
                 (Some (c # d), Some t) \<Rightarrow> str_less (c # d) t | _ \<Rightarrow> False) then Inr False
      else if exclude_hidden f \<and> truthy (attr e ''hidden'') then Inr False
      else case query f of
             Some (c # q) \<Rightarrow>
               (case event_to_dict e of
                  Inl err \<Rightarrow> Inl err
                | Inr d \<Rightarrow> Inr (contains (lower (c # q)) (lower (json_dumps fl (PDict d)))))
           | _ \<Rightarrow> Inr True)"

definition exclude_event :: "(rat \<Rightarrow> string) \<Rightarrow> event_filter \<Rightarrow> event \<Rightarrow> bool res" where
  "exclude_event fl f e = (case include_event fl f e of Inl err \<Rightarrow> Inl err | Inr b \<Rightarrow> Inr (\<not> b))"

section \<open>Facts\<close>

lemma str_less_irrefl: "\<not> str_less s s"
  by (induction s) auto

lemma str_less_trans: "str_less a b \<Longrightarrow> str_less b c \<Longrightarrow> str_less a c"
proof (induction a c arbitrary: b rule: str_less.induct)
  case (1 s)
  then show ?case by simp
next
  case (2 c t)
  then show ?case by (cases b) auto
next
  case (3 x s y t)
  then show ?case by (cases b) (auto dest: order.strict_trans)
qed

lemma str_less_linear: "str_less a b \<or> a = b \<or> str_less b a"
proof (induction a b rule: str_less.induct)
  case (3 c s c' t)
  have "(of_char c :: nat) = of_char c' \<Longrightarrow> c = c'" by (metis char_of_char)
  then show ?case using 3 by auto
qed (auto simp: neq_Nil_conv intro: str_less.elims)

text \<open>
  An event passes a filter without a text query exactly when it is of an included class if any are
  given, of no excluded class, from the given source, not before the start date, not after the
  end date, and not hidden when hidden events are excluded; the filter never raises then.
\<close>

theorem filter_without_query:
  assumes "query f = None"
  shows "include_event fl f e = Inr (
     (case include_types f of None \<Rightarrow> True | Some ts \<Rightarrow> ts = [] \<or> ev_class e \<in> set ts) \<and>
     (case exclude_types f of None \<Rightarrow> True | Some ts \<Rightarrow> ev_class e \<notin> set ts) \<and>
     (case flt_source f of None \<Rightarrow> True
       | Some s \<Rightarrow> s = [] \<or> map_option source_value (ev_source e) = Some s) \<and>
     (case (start_date f, ev_timestamp e) of
        (Some d, Some t) \<Rightarrow> d = [] \<or> t = d \<or> str_less d t | _ \<Rightarrow> True) \<and>
     (case (end_date f, ev_timestamp e) of
        (Some d, Some t) \<Rightarrow> d = [] \<or> t = d \<or> str_less t d | _ \<Rightarrow> True) \<and>
     (exclude_hidden f \<longrightarrow> \<not> truthy (attr e ''hidden'')))"
proof -
  let ?i = "case include_types f of None \<Rightarrow> False | Some ts \<Rightarrow> ts \<noteq> [] \<and> ev_class e \<notin> set ts"
  let ?x = "case exclude_types f of None \<Rightarrow> False | Some ts \<Rightarrow> ev_class e \<in> set ts"
  let ?s = "case flt_source f of None \<Rightarrow> False | Some [] \<Rightarrow> False
     | Some s \<Rightarrow> (case ev_source e of None \<Rightarrow> True | Some src \<Rightarrow> source_value src \<noteq> s)"
  let ?a = "case (start_date f, ev_timestamp e) of (Some (c # d), Some t) \<Rightarrow> str_less t (c # d) | _ \<Rightarrow> False"
  let ?b = "case (end_date f, ev_timestamp e) of (Some (c # d), Some t) \<Rightarrow> str_less (c # d) t | _ \<Rightarrow> False"
  have g: "include_event fl f e =
     Inr (\<not> ?i \<and> \<not> ?x \<and> \<not> ?s \<and> \<not> ?a \<and> \<not> ?b \<and> \<not> (exclude_hidden f \<and> truthy (attr e ''hidden'')))"
    unfolding include_event_def assms option.case
    by (cases ?i; cases ?x; cases ?s; cases ?a; cases ?b) simp_all
  have le: "\<not> str_less t d \<longleftrightarrow> t = d \<or> str_less d t" for t d
    using str_less_linear[of t d] str_less_irrefl str_less_trans by blast
  have i: "\<not> ?i \<longleftrightarrow> (case include_types f of None \<Rightarrow> True | Some ts \<Rightarrow> ts = [] \<or> ev_class e \<in> set ts)"
    by (cases "include_types f") auto
  have x: "\<not> ?x \<longleftrightarrow> (case exclude_types f of None \<Rightarrow> True | Some ts \<Rightarrow> ev_class e \<notin> set ts)"
    by (cases "exclude_types f") auto
  have s: "\<not> ?s \<longleftrightarrow> (case flt_source f of None \<Rightarrow> True
       | Some s \<Rightarrow> s = [] \<or> map_option source_value (ev_source e) = Some s)"
    by (cases "flt_source f"; cases "ev_source e") (auto split: list.splits)
  have a: "\<not> ?a \<longleftrightarrow> (case (start_date f, ev_timestamp e) of
        (Some d, Some t) \<Rightarrow> d = [] \<or> t = d \<or> str_less d t | _ \<Rightarrow> True)"
    using le by (cases "start_date f"; cases "ev_timestamp e") (auto split: list.splits)
  have b: "\<not> ?b \<longleftrightarrow> (case (end_date f, ev_timestamp e) of
        (Some d, Some t) \<Rightarrow> d = [] \<or> t = d \<or> str_less t d | _ \<Rightarrow> True)"
    using le by (cases "end_date f"; cases "ev_timestamp e") (auto split: list.splits)
  show ?thesis unfolding g i x s a b by blast
qed

theorem filter_without_query_witness:
  "include_event (\<lambda>r. []) (no_filter\<lparr>exclude_types := Some [NullAction], start_date := Some ''2024''\<rparr>) sample_stored
     = Inr True"
  using filter_without_query[of "no_filter\<lparr>exclude_types := Some [NullAction], start_date := Some ''2024''\<rparr>"
      "\<lambda>r. []" sample_stored]
  by (simp add: no_filter_def sample_stored_def blank_def)

end
