(* ===== verification/File_Store.thy ===== *)
theory File_Store
  imports Metrics_Model
begin

text \<open>
  The file store interface (\<^verbatim>\<open>openhands/storage/files.py\<close>), its in-memory implementation
  (\<^verbatim>\<open>storage/memory.py\<close>) and the names of the files of a conversation
  (\<^verbatim>\<open>storage/locations.py\<close>).  A file holds what was serialised into it: JSON text is the value
  it denotes, a pickled agent state is that state, pickled metrics are those metrics; other text is itself.
  The locale states what the components above rely on; it is interpreted on the
  in-memory store.
\<close>

section \<open>Contents\<close>

datatype 'st contents =
    Json pyval
  | StatePickle 'st
  | StatsPickle "(string, metrics) dict"
  | PlainText string

section \<open>The in-memory store\<close>

type_synonym 'st files = "(string, 'st contents) dict"

definition mem_write :: "string \<Rightarrow> 'st contents \<Rightarrow> 'st files \<Rightarrow> 'st files" where
  "mem_write path contents files = dict_set path contents files"

definition mem_read :: "string \<Rightarrow> 'st files \<Rightarrow> ('st contents) res" where
  "mem_read path files =
     (case map_of files path of Some c \<Rightarrow> Inr c | None \<Rightarrow> Inl (FileNotFoundError path))"

definition path_join :: "string \<Rightarrow> string \<Rightarrow> string" where
  \<comment> \<open>\<^verbatim>\<open>os.path.join(path, name)\<close> for a name without a slash\<close>
  "path_join path name =
     (if path = [] \<or> endswith path ''/'' then path @ name else path @ ''/'' @ name)"

definition list_entry :: "string \<Rightarrow> string \<Rightarrow> string list \<Rightarrow> string list" where
  \<comment> \<open>one pass of the loop of \<^verbatim>\<open>list\<close>: what the file adds to the entries found so far\<close>
  "list_entry path file found =
     (if \<not> startswith file path then found
      else (let parts = split_on (CHR ''/'') (removeprefix file path);
                parts' = (if hd parts = [] then tl parts else parts)
            in if length parts' = 1 then found @ [file]
               else (let dir_path = path_join path (hd parts');
                         dir_path' = (if endswith dir_path ''/'' then dir_path else dir_path @ ''/'')
                     in if dir_path' \<in> set found then found else found @ [dir_path'])))"

definition mem_list :: "string \<Rightarrow> 'st files \<Rightarrow> string list" where
  "mem_list path files = fold (list_entry path) (map fst files) []"

definition mem_delete :: "string \<Rightarrow> 'st files \<Rightarrow> 'st files" where
  "mem_delete path files = filter (\<lambda>p. \<not> startswith (fst p) path) files"

section \<open>Locations\<close>

definition CONVERSATION_BASE_DIR :: string where
  "CONVERSATION_BASE_DIR = ''sessions''"

definition get_conversation_dir :: "string \<Rightarrow> string option \<Rightarrow> string" where
  "get_conversation_dir sid user_id =
     (case user_id of
        Some (c # u) \<Rightarrow> ''users/'' @ (c # u) @ ''/conversations/'' @ sid @ ''/''
      | _ \<Rightarrow> CONVERSATION_BASE_DIR @ ''/'' @ sid @ ''/'')"

definition get_conversation_events_dir :: "string \<Rightarrow> string option \<Rightarrow> string" where
  "get_conversation_events_dir sid user_id = get_conversation_dir sid user_id @ ''events/''"

definition get_conversation_event_filename :: "string \<Rightarrow> int \<Rightarrow> string option \<Rightarrow> string" where
  "get_conversation_event_filename sid i user_id =
     get_conversation_events_dir sid user_id @ str_of_int i @ ''.json''"

definition get_conversation_metadata_filename :: "string \<Rightarrow> string option \<Rightarrow> string" where
  "get_conversation_metadata_filename sid user_id = get_conversation_dir sid user_id @ ''metadata.json''"

definition get_conversation_init_data_filename :: "string \<Rightarrow> string option \<Rightarrow> string" where
  "get_conversation_init_data_filename sid user_id = get_conversation_dir sid user_id @ ''init.json''"

definition get_conversation_agent_state_filename :: "string \<Rightarrow> string option \<Rightarrow> string" where
  "get_conversation_agent_state_filename sid user_id = get_conversation_dir sid user_id @ ''agent_state.pkl''"

definition get_conversation_llm_registry_filename :: "string \<Rightarrow> string option \<Rightarrow> string" where
  "get_conversation_llm_registry_filename sid user_id = get_conversation_dir sid user_id @ ''llm_registry.json''"

definition get_conversation_stats_filename :: "string \<Rightarrow> string option \<Rightarrow> string" where
  "get_conversation_stats_filename sid user_id = get_conversation_dir sid user_id @ ''conversation_stats.pkl''"

definition get_experiment_config_filename :: "string \<Rightarrow> string option \<Rightarrow> string" where
  "get_experiment_config_filename sid user_id = get_conversation_dir sid user_id @ ''exp_config.json''"

section \<open>What clients rely on\<close>

locale file_store =
  fixes put :: "string \<Rightarrow> 'c \<Rightarrow> 's \<Rightarrow> 's"
    and get :: "string \<Rightarrow> 's \<Rightarrow> 'c res"
    and del :: "string \<Rightarrow> 's \<Rightarrow> 's"
  assumes read_written: "get p (put p c s) = Inr c"
    and read_other: "p \<noteq> q \<Longrightarrow> get q (put p c s) = get q s"
    and read_deleted: "startswith q p \<Longrightarrow> get q (del p s) = Inl (FileNotFoundError q)"
    and read_kept: "\<not> startswith q p \<Longrightarrow> get q (del p s) = get q s"
begin

lemma read_write: "get q (put p c s) = (if p = q then Inr c else get q s)"
  using read_written read_other by auto

lemma read_after_writes:
  "get q (fold (\<lambda>(p, c). put p c) pcs s) =
     (case map_of (rev pcs) q of Some c \<Rightarrow> Inr c | None \<Rightarrow> get q s)"
  by (induction pcs arbitrary: s) (auto simp: read_write map_add_def split: option.splits)

lemma unwritten_stays_missing:
  "get q s = Inl err \<Longrightarrow> q \<notin> fst ` set pcs \<Longrightarrow> get q (fold (\<lambda>(p, c). put p c) pcs s) = Inl err"
  by (induction pcs arbitrary: s) (auto simp: read_write)

end

interpretation mem: file_store mem_write mem_read mem_delete
proof
  fix p q :: string and c :: "'st contents" and s :: "'st files"
  show "mem_read p (mem_write p c s) = Inr c" by (simp add: mem_read_def mem_write_def)
  show "p \<noteq> q \<Longrightarrow> mem_read q (mem_write p c s) = mem_read q s" by (simp add: mem_read_def mem_write_def)
  show "startswith q p \<Longrightarrow> mem_read q (mem_delete p s) = Inl (FileNotFoundError q)"
    by (induction s) (auto simp: mem_read_def mem_delete_def split: option.splits)
  show "\<not> startswith q p \<Longrightarrow> mem_read q (mem_delete p s) = mem_read q s"
    by (induction s) (auto simp: mem_read_def mem_delete_def split: option.splits)
qed

section \<open>Names\<close>

lemma get_conversation_dir_end: "\<exists>d. get_conversation_dir sid uid = d @ ''/''"
  by (cases uid; cases "the uid") (auto simp: get_conversation_dir_def)

lemma event_filename_inject [simp]:
  "get_conversation_event_filename sid i uid = get_conversation_event_filename sid j uid \<longleftrightarrow> i = j"
  by (simp add: get_conversation_event_filename_def)

lemma mem_list_files:
  assumes "\<forall>p\<in>set (map fst files). startswith p path \<longrightarrow> (CHR ''/'') \<notin> set (removeprefix p path) \<and> removeprefix p path \<noteq> []"
  shows "mem_list path files = filter (\<lambda>p. startswith p path) (map fst files)"
proof -
  have entry: "list_entry path p found = (if startswith p path then found @ [p] else found)"
    if "startswith p path \<longrightarrow> (CHR ''/'') \<notin> set (removeprefix p path) \<and> removeprefix p path \<noteq> []" for p found
    using that by (auto simp: list_entry_def split_on_single Let_def)
  have "fold (list_entry path) ps acc = acc @ filter (\<lambda>p. startswith p path) ps"
    if "\<forall>p\<in>set ps. startswith p path \<longrightarrow> (CHR ''/'') \<notin> set (removeprefix p path) \<and> removeprefix p path \<noteq> []" for ps acc
    using that by (induction ps arbitrary: acc) (auto simp: entry)
  from this[OF assms] show ?thesis by (simp add: mem_list_def)
qed

end
