(* ===== verification/Event_Stream.thy ===== *)
theory Event_Stream
  imports Event_Filter File_Store
begin

text \<open>
  The event store and the event stream (\<^verbatim>\<open>openhands/events/event_store.py\<close>,
  \<^verbatim>\<open>events/stream.py\<close>).  A stream object is a record that also holds the files it writes to;
  \<^verbatim>\<open>add_event\<close> returns the new stream, the caller's event with the attributes it was given,
  and the exception if one is raised.  The wall clock is an argument.  \<open>go\<close> is
  \<^verbatim>\<open>should_continue\<close>, asked once per index.  Threads, event loops and thread pools are left
  out: a delivery is the list of the callbacks that \<^verbatim>\<open>_process_queue\<close> submits, in order.
\<close>

section \<open>The store\<close>

record 'st stream =
  sid :: string
  stream_user :: "string option"
  files :: "'st files"
  cache_size :: int
  cur_id_cache :: "int option"
  write_page :: "data list"
  secrets :: "(string, string) dict"
  subscribers :: "(string, (string, unit) dict) dict"
  queue :: "event list"

definition open_stream :: "string \<Rightarrow> string option \<Rightarrow> 'st files \<Rightarrow> 'st stream" where
  \<comment> \<open>\<^verbatim>\<open>EventStream(sid, file_store, user_id)\<close>\<close>
  "open_stream i u fs =
     \<lparr>sid = i, stream_user = u, files = fs, cache_size = 25, cur_id_cache = None, write_page = [],
      secrets = [], subscribers = [], queue = []\<rparr>"

definition get_filename_for_id :: "'st stream \<Rightarrow> int \<Rightarrow> string" where
  "get_filename_for_id s i = get_conversation_event_filename (sid s) i (stream_user s)"

definition get_filename_for_cache :: "'st stream \<Rightarrow> int \<Rightarrow> int \<Rightarrow> string" where
  "get_filename_for_cache s a b =
     get_conversation_dir (sid s) (stream_user s) @ ''event_cache/'' @ str_of_int a @ ''-'' @ str_of_int b @ ''.json''"

definition get_id_from_filename :: "string \<Rightarrow> int" where
  "get_id_from_filename filename =
     (case py_int (hd (split_on (CHR ''.'') (last (split_on (CHR ''/'') filename)))) of
        Some i \<Rightarrow> i | None \<Rightarrow> -1)"

fun max_id_from :: "int \<Rightarrow> string list \<Rightarrow> int" where
  "max_id_from m [] = m"
| "max_id_from m (f # fs) =
     max_id_from (if get_id_from_filename f \<ge> m then get_id_from_filename f else m) fs"

definition calculate_cur_id :: "'st stream \<Rightarrow> int" where
  "calculate_cur_id s =
     (let names = mem_list (get_conversation_events_dir (sid s) (stream_user s)) (files s)
      in if names = [] then 0 else max_id_from (-1) names + 1)"

definition cur_id :: "'st stream \<Rightarrow> 'st stream \<times> int" where
  \<comment> \<open>the property: the value is computed once and kept\<close>
  "cur_id s =
     (case cur_id_cache s of
        Some i \<Rightarrow> (s, i)
      | None \<Rightarrow> (s\<lparr>cur_id_cache := Some (calculate_cur_id s)\<rparr>, calculate_cur_id s))"

definition parse_event :: "'st contents \<Rightarrow> event res" where
  \<comment> \<open>\<^verbatim>\<open>event_from_dict(json.loads(content))\<close>\<close>
  "parse_event c =
     (case c of
        Json (PDict d) \<Rightarrow> event_from_dict d
      | _ \<Rightarrow> Inl (NotModelled ''file that is not a JSON object''))"

definition get_event :: "'st stream \<Rightarrow> int \<Rightarrow> event res" where
  "get_event s i =
     (case mem_read (get_filename_for_id s i) (files s) of Inl err \<Rightarrow> Inl err | Inr c \<Rightarrow> parse_event c)"

definition get_latest_event :: "'st stream \<Rightarrow> 'st stream \<times> event res" where
  "get_latest_event s = (let (s', i) = cur_id s in (s', get_event s' (i - 1)))"

definition get_latest_event_id :: "'st stream \<Rightarrow> 'st stream \<times> int" where
  "get_latest_event_id s = (let (s', i) = cur_id s in (s', i - 1))"

subsection \<open>Cache pages\<close>

record cache_page =
  page_events :: "pyval option"
  page_start :: int
  page_end :: int

definition DUMMY_PAGE :: cache_page where
  "DUMMY_PAGE = \<lparr>page_events = None, page_start = 1, page_end = -1\<rparr>"

definition covers :: "cache_page \<Rightarrow> int \<Rightarrow> bool" where
  "covers p i \<longleftrightarrow> \<not> (i < page_start p) \<and> \<not> (i \<ge> page_end p)"

definition page_get_event :: "cache_page \<Rightarrow> int \<Rightarrow> (event option) res" where
  "page_get_event p i =
     (case page_events p of
        None \<Rightarrow> Inr None
      | Some PNone \<Rightarrow> Inr None
      | Some (PList []) \<Rightarrow> Inr None
      | Some (PList vs) \<Rightarrow>
          (case py_get vs (i - page_start p) of
             None \<Rightarrow> Inl (IndexError ''list index out of range'')
           | Some (PDict d) \<Rightarrow> (case event_from_dict d of Inl err \<Rightarrow> Inl err | Inr e \<Rightarrow> Inr (Some e))
           | Some _ \<Rightarrow> Inl (NotModelled ''page entry that is not an object''))
      | Some _ \<Rightarrow> Inl (NotModelled ''page that is not a list''))"

definition load_cache_page :: "'st stream \<Rightarrow> int \<Rightarrow> int \<Rightarrow> cache_page" where
  "load_cache_page s a b =
     \<lparr>page_events =
        (case mem_read (get_filename_for_cache s a b) (files s) of
           Inr (Json v) \<Rightarrow> Some v | Inr _ \<Rightarrow> Some (PStr []) | Inl _ \<Rightarrow> None),
      page_start = a, page_end = b\<rparr>"

definition load_cache_page_for_index :: "'st stream \<Rightarrow> int \<Rightarrow> cache_page" where
  "load_cache_page_for_index s i =
     (let a = i - i mod cache_size s in load_cache_page s a (a + cache_size s))"

subsection \<open>Searching\<close>

definition event_at :: "'st stream \<Rightarrow> cache_page \<Rightarrow> int \<Rightarrow> (event option) res" where
  \<comment> \<open>the event from the page, else from its own file; a missing file gives nothing\<close>
  "event_at s page i =
     (case page_get_event page i of
        Inl err \<Rightarrow> Inl err
      | Inr (Some e) \<Rightarrow> Inr (Some e)
      | Inr None \<Rightarrow>
          (case get_event s i of
             Inr e \<Rightarrow> Inr (Some e)
           | Inl (FileNotFoundError p) \<Rightarrow> Inr None
           | Inl err \<Rightarrow> Inl err))"

fun search_loop ::
  "(int \<Rightarrow> bool) \<Rightarrow> (event \<Rightarrow> bool res) \<Rightarrow> int option \<Rightarrow> 'st stream \<Rightarrow> int list \<Rightarrow> cache_page \<Rightarrow> int
   \<Rightarrow> event list \<times> pyerr option" where
  \<comment> \<open>the events yielded and the exception that ends the generator, if any\<close>
  "search_loop go inc cap s [] page num = ([], None)"
| "search_loop go inc cap s (i # is) page num =
     (if \<not> go i then ([], None)
      else (let page' = (if covers page i then page else load_cache_page_for_index s i) in
            case event_at s page' i of
              Inl err \<Rightarrow> ([], Some err)
            | Inr None \<Rightarrow> search_loop go inc cap s is page' num
            | Inr (Some e) \<Rightarrow>
                (case inc e of
                   Inl err \<Rightarrow> ([], Some err)
                 | Inr False \<Rightarrow> search_loop go inc cap s is page' num
                 | Inr True \<Rightarrow>
                     (if (case cap of None \<Rightarrow> False | Some l \<Rightarrow> l \<noteq> 0 \<and> l \<le> num + 1) then ([e], None)
                      else (let r = search_loop go inc cap s is page' (num + 1)
                            in (e # fst r, snd r))))))"

definition search_events ::
  "(int \<Rightarrow> bool) \<Rightarrow> (event \<Rightarrow> bool res) \<Rightarrow> 'st stream \<Rightarrow> int \<Rightarrow> int option \<Rightarrow> bool \<Rightarrow> int option
   \<Rightarrow> 'st stream \<times> event list \<times> pyerr option" where
  "search_events go inc s start_id end_id reverse cap =
     (let p = (case end_id of None \<Rightarrow> cur_id s | Some e \<Rightarrow> (s, e + 1));
          s' = fst p; end = snd p;
          idxs = (if reverse then rev (py_range start_id end) else py_range start_id end)
      in (s', search_loop go inc cap s' idxs DUMMY_PAGE 0))"

definition filtered_events_by_source ::
  "(int \<Rightarrow> bool) \<Rightarrow> 'st stream \<Rightarrow> event_source \<Rightarrow> 'st stream \<times> event list \<times> pyerr option" where
  "filtered_events_by_source go s src =
     (case search_events go (\<lambda>e. Inr True) s 0 None False None of
        (s', es, err) \<Rightarrow> (s', filter (\<lambda>e. ev_source e = Some src) es, err))"

definition get_matching_events ::
  "(int \<Rightarrow> bool) \<Rightarrow> (rat \<Rightarrow> string) \<Rightarrow> 'st stream \<Rightarrow> event_filter \<Rightarrow> int \<Rightarrow> int \<Rightarrow> bool
   \<Rightarrow> 'st stream \<times> (event list) res" where
  \<comment> \<open>\<^verbatim>\<open>list(islice(events, limit))\<close> stops asking the generator after \<open>limit\<close> events\<close>
  "get_matching_events go fl s f start_id cap reverse =
     (if cap < 1 \<or> cap > 100 then (s, Inl (ValueError ''Limit must be between 1 and 100''))
      else case search_events go (include_event fl f) s start_id None reverse None of
             (s', es, err) \<Rightarrow>
               (s', if int (length es) \<ge> cap then Inr (take (nat cap) es)
                    else (case err of Some x \<Rightarrow> Inl x | None \<Rightarrow> Inr es)))"

section \<open>The stream\<close>

subsection \<open>Secrets\<close>

definition TOP_LEVEL_PROTECTED_FIELDS :: "string list" where
  "TOP_LEVEL_PROTECTED_FIELDS =
     [''timestamp'', ''id'', ''source'', ''cause'', ''action'', ''observation'', ''message'']"

definition hide :: "string list \<Rightarrow> string \<Rightarrow> string" where
  \<comment> \<open>\<^verbatim>\<open>for secret in secrets: s = s.replace(secret, '<secret_hidden>')\<close>\<close>
  "hide vals s = fold (\<lambda>v t. replace t v ''<secret_hidden>'') vals s"

fun replace_secrets_in :: "string list \<Rightarrow> bool \<Rightarrow> (string \<times> pyval) list \<Rightarrow> (string \<times> pyval) list"
and replace_secrets_value :: "string list \<Rightarrow> pyval \<Rightarrow> pyval" where
  "replace_secrets_in vals is_top [] = []"
| "replace_secrets_in vals is_top ((k, v) # d) =
     (k, if is_top \<and> k \<in> set TOP_LEVEL_PROTECTED_FIELDS then v else replace_secrets_value vals v)
       # replace_secrets_in vals is_top d"
| "replace_secrets_value vals (PDict d) = PDict (replace_secrets_in vals False d)"
| "replace_secrets_value vals (PStr s) = PStr (hide vals s)"
| "replace_secrets_value vals v = v"

definition replace_secrets :: "'st stream \<Rightarrow> data \<Rightarrow> data" where
  "replace_secrets s d = replace_secrets_in (map snd (secrets s)) True d"

definition set_secrets :: "(string, string) dict \<Rightarrow> 'st stream \<Rightarrow> 'st stream" where
  "set_secrets m s = s\<lparr>secrets := m\<rparr>"

definition update_secrets :: "(string, string) dict \<Rightarrow> 'st stream \<Rightarrow> 'st stream" where
  "update_secrets m s = s\<lparr>secrets := dict_update (secrets s) m\<rparr>"

subsection \<open>Adding events\<close>

definition consumed :: "data \<Rightarrow> data" where
  \<comment> \<open>what \<^verbatim>\<open>action_from_dict\<close> leaves of the dictionary it is given: it rewrites \<^verbatim>\<open>args\<close> in place\<close>
  "consumed d =
     (case (map_of d ''action'', map_of d ''args'') of
        (Some _, Some (PDict a)) \<Rightarrow>
          (case handle_action_deprecated_args (load_security_risk (rename_args a)) of
             Inr a' \<Rightarrow> dict_set ''args'' (PDict a') d | Inl _ \<Rightarrow> d)
      | _ \<Rightarrow> d)"

definition store_cache_page :: "'st stream \<Rightarrow> data list \<Rightarrow> 'st stream" where
  "store_cache_page s page =
     (if int (length page) < cache_size s then s
      else (case map_of (hd page) ''id'' of
              Some (PInt start) \<Rightarrow>
                s\<lparr>files := mem_write (get_filename_for_cache s start (start + cache_size s))
                             (Json (PList (map PDict page))) (files s)\<rparr>
            | _ \<Rightarrow> s))"

definition add_event ::
  "string \<Rightarrow> event \<Rightarrow> event_source \<Rightarrow> 'st stream \<Rightarrow> 'st stream \<times> event \<times> pyerr option" where
  "add_event now e src s =
     (if eid e \<noteq> INVALID_ID
      then (s, e, Some (ValueError (''Event already has an ID:'' @ str_of_int (eid e)
              @ ''. It was probably added back to the EventStream from inside a handler, triggering a loop.'')))
      else
        (let p = cur_id s; i = snd p;
             s1 = (fst p)\<lparr>cur_id_cache := Some (i + 1)\<rparr>;
             e1 = e\<lparr>ev_timestamp := Some now, ev_source := Some src, ev_id := Some i\<rparr>
         in case event_to_dict e1 of
              Inl err \<Rightarrow> (s1, e1, Some err)
            | Inr d0 \<Rightarrow>
                (let d1 = replace_secrets s1 d0
                 in case event_from_dict d1 of
                      Inl err \<Rightarrow> (s1, e1, Some err)
                    | Inr e2 \<Rightarrow>
                        (let d2 = consumed d1;
                             page = write_page s1 @ [d2];
                             s2 = s1\<lparr>write_page := (if int (length page) = cache_size s1 then [] else page)\<rparr>;
                             s3 = s2\<lparr>files := mem_write (get_filename_for_id s2 (eid e2)) (Json (PDict d2)) (files s2)\<rparr>;
                             s4 = store_cache_page s3 page
                         in (s4\<lparr>queue := queue s4 @ [e2]\<rparr>, e1, None)))))"

subsection \<open>Subscribers and delivery\<close>

definition subscribe :: "string \<Rightarrow> string \<Rightarrow> 'st stream \<Rightarrow> 'st stream \<times> pyerr option" where
  "subscribe subscriber_id callback_id s =
     (let cbs = (case map_of (subscribers s) subscriber_id of Some c \<Rightarrow> c | None \<Rightarrow> []);
          s1 = s\<lparr>subscribers := dict_set subscriber_id cbs (subscribers s)\<rparr>
      in if dict_has callback_id cbs
         then (s1, Some (ValueError (''Callback ID on subscriber '' @ subscriber_id @ '' already exists: '' @ callback_id)))
         else (s1\<lparr>subscribers := dict_set subscriber_id (dict_set callback_id () cbs) (subscribers s1)\<rparr>, None))"

definition clean_up_subscriber :: "string \<Rightarrow> string \<Rightarrow> 'st stream \<Rightarrow> 'st stream" where
  "clean_up_subscriber subscriber_id callback_id s =
     (case map_of (subscribers s) subscriber_id of
        None \<Rightarrow> s
      | Some cbs \<Rightarrow>
          (if \<not> dict_has callback_id cbs then s
           else s\<lparr>subscribers := dict_set subscriber_id (dict_del callback_id cbs) (subscribers s)\<rparr>))"

definition unsubscribe :: "string \<Rightarrow> string \<Rightarrow> 'st stream \<Rightarrow> 'st stream" where
  "unsubscribe subscriber_id callback_id s =
     (case map_of (subscribers s) subscriber_id of
        None \<Rightarrow> s
      | Some cbs \<Rightarrow> (if \<not> dict_has callback_id cbs then s else clean_up_subscriber subscriber_id callback_id s))"

definition close_stream :: "'st stream \<Rightarrow> 'st stream" where
  "close_stream s =
     (let pairs = concat (map (\<lambda>(k, cbs). map (\<lambda>c. (k, fst c)) cbs) (subscribers s))
      in (fold (\<lambda>(k, c). clean_up_subscriber k c) pairs s)\<lparr>queue := []\<rparr>)"

fun insert_key :: "string \<Rightarrow> string list \<Rightarrow> string list" where
  "insert_key k [] = [k]"
| "insert_key k (x # xs) = (if str_less x k then x # insert_key k xs else k # x # xs)"

definition sorted_keys :: "string list \<Rightarrow> string list" where
  \<comment> \<open>\<^verbatim>\<open>sorted(keys)\<close>\<close>
  "sorted_keys ks = foldr insert_key ks []"

definition process_queue_step :: "'st stream \<Rightarrow> 'st stream \<times> (string \<times> string \<times> event) list" where
  \<comment> \<open>one event taken from the queue and the callbacks it is submitted to, in order\<close>
  "process_queue_step s =
     (case queue s of
        [] \<Rightarrow> (s, [])
      | e # q \<Rightarrow>
          (s\<lparr>queue := q\<rparr>,
           concat (map (\<lambda>k. map (\<lambda>c. (k, fst c, e)) (the (map_of (subscribers s) k)))
                       (sorted_keys (map fst (subscribers s))))))"

end
