(* ===== verification/Event_Stream_Laws.thy ===== *)
theory Event_Stream_Laws
  imports Event_Stream
begin

text \<open>
  The invariant of the event stream and what it gives. stream_ok s ds says that the files of
  the stream hold the dictionaries ds, one per event, under the ids 0, 1, ..., that every
  cache page on disk holds the slice its name says, that the write page is the unsaved tail,
  and that the next id is the length of the log. Opening, reopening and adding keep it, and a
  search, which reads some events from pages and others from their own files, sees exactly the
  log.
\<close>

section \<open>The log behind a stream\<close>

definition stored_page :: "'st stream \<Rightarrow> data list \<Rightarrow> int \<Rightarrow> pyval" where
  "stored_page s ds a = PList (map PDict (take (nat (cache_size s)) (drop (nat a) ds)))"

definition files_ok :: "'st stream \<Rightarrow> data list \<Rightarrow> bool" where
  \<comment> \<open>one file per event, and nothing else in the events directory\<close>
  "files_ok s ds \<longleftrightarrow>
     (\<forall>i. mem_read (get_filename_for_id s i) (files s) =
        (if 0 \<le> i \<and> i < int (length ds) then Inr (Json (PDict (ds ! nat i)))
         else Inl (FileNotFoundError (get_filename_for_id s i)))) \<and>
     (\<forall>p\<in>set (map fst (files s)). startswith p (get_conversation_events_dir (sid s) (stream_user s)) \<longrightarrow>
        (\<exists>i. 0 \<le> i \<and> i < int (length ds) \<and> p = get_filename_for_id s i))"

definition pages_ok :: "'st stream \<Rightarrow> data list \<Rightarrow> bool" where
  \<comment> \<open>a cache page, where one exists, holds the events its name says\<close>
  "pages_ok s ds \<longleftrightarrow>
     (\<forall>a. case mem_read (get_filename_for_cache s a (a + cache_size s)) (files s) of
        Inr c \<Rightarrow> 0 \<le> a \<and> a + cache_size s \<le> int (length ds) \<and> c = Json (stored_page s ds a)
      | Inl _ \<Rightarrow> True)"

definition stream_ok :: "'st stream \<Rightarrow> data list \<Rightarrow> bool" where
  "stream_ok s ds \<longleftrightarrow>
     0 < cache_size s \<and> snd (cur_id s) = int (length ds) \<and> files_ok s ds \<and> pages_ok s ds \<and>
     (\<exists>m. m \<le> length ds \<and> int m < cache_size s \<and> write_page s = drop (length ds - m) ds) \<and>
     (\<forall>i<length ds. map_of (ds ! i) ''id'' = Some (PInt (int i))) \<and>
     (\<forall>d\<in>set ds. is_ok (event_from_dict d))"

definition log_of :: "data list \<Rightarrow> event list" where
  "log_of ds = map (\<lambda>d. case event_from_dict d of Inr e \<Rightarrow> e | Inl _ \<Rightarrow> undefined) ds"

definition stamp :: "pyval option \<Rightarrow> event \<Rightarrow> event" where
  "stamp ts e = (case ts of Some (PStr (ch # s)) \<Rightarrow> e\<lparr>ev_timestamp := Some (ch # s)\<rparr> | _ \<Rightarrow> e)"

definition page_coherent :: "'st stream \<Rightarrow> data list \<Rightarrow> cache_page \<Rightarrow> bool" where
  "page_coherent s ds p \<longleftrightarrow>
     page_end p \<le> page_start p + cache_size s \<and>
     (page_events p = None \<or>
      0 \<le> page_start p \<and> page_start p + cache_size s \<le> int (length ds) \<and>
        page_events p = Some (stored_page s ds (page_start p)))"

section \<open>The log behind a stream\<close>

section \<open>File names\<close>

lemma filename_simps:
  "get_filename_for_id (s\<lparr>cur_id_cache := x\<rparr>) i = get_filename_for_id s i"
  "get_filename_for_id (s\<lparr>files := fs\<rparr>) i = get_filename_for_id s i"
  "get_filename_for_id (s\<lparr>write_page := pg\<rparr>) i = get_filename_for_id s i"
  "get_filename_for_id (s\<lparr>queue := q\<rparr>) i = get_filename_for_id s i"
  "get_filename_for_cache (s\<lparr>cur_id_cache := x\<rparr>) a b = get_filename_for_cache s a b"
  "get_filename_for_cache (s\<lparr>files := fs\<rparr>) a b = get_filename_for_cache s a b"
  "get_filename_for_cache (s\<lparr>write_page := pg\<rparr>) a b = get_filename_for_cache s a b"
  "get_filename_for_cache (s\<lparr>queue := q\<rparr>) a b = get_filename_for_cache s a b"
  by (simp_all add: get_filename_for_id_def get_filename_for_cache_def)

lemma filename_inject: "get_filename_for_id s i = get_filename_for_id s j \<longleftrightarrow> i = j"
  by (simp add: get_filename_for_id_def)

lemma cache_not_event: "get_filename_for_cache s a b \<noteq> get_filename_for_id s i"
  by (simp add: get_filename_for_cache_def get_filename_for_id_def get_conversation_event_filename_def
      get_conversation_events_dir_def)

lemma cache_not_in_events:
  "\<not> startswith (get_filename_for_cache s a b) (get_conversation_events_dir (sid s) (stream_user s))"
  by (auto simp: startswith_iff get_filename_for_cache_def get_conversation_events_dir_def)

lemma cache_name_inject:
  assumes "get_filename_for_cache s a (a + n) = get_filename_for_cache s b (b + n)" "0 \<le> a"
  shows "a = b"
proof -
  have eq: "str_of_int a @ ''-'' @ str_of_int (a + n) @ ''.json'' = str_of_int b @ ''-'' @ str_of_int (b + n) @ ''.json''"
    using assms(1) by (simp add: get_filename_for_cache_def)
  have b: "0 \<le> b"
  proof (rule ccontr)
    assume "\<not> 0 \<le> b"
    then have "hd (str_of_int b @ ''-'' @ str_of_int (b + n) @ ''.json'') = CHR ''-''" by (simp add: str_of_int_def)
    moreover have "hd (str_of_int a @ ''-'' @ str_of_int (a + n) @ ''.json'') \<noteq> CHR ''-''"
      using assms(2) str_of_nat_ends(5) by (simp add: str_of_int_def)
    ultimately show False using eq by metis
  qed
  have nd: "CHR ''-'' \<notin> set (str_of_int x)" if "0 \<le> x" for x
    using that str_of_nat_digits digit_char_props(4) by (auto simp: str_of_int_def) metis
  have tw: "takeWhile (\<lambda>c. c \<noteq> CHR ''-'') (str_of_int x @ ''-'' @ r) = str_of_int x" if "0 \<le> x" for x r
    using nd[OF that] by (subst takeWhile_append2) auto
  have "str_of_int a = str_of_int b" using eq tw[OF assms(2)] tw[OF b] by metis
  then show ?thesis by simp
qed

lemma id_of_filename [simp]: "get_id_from_filename (get_filename_for_id s i) = i"
proof -
  let ?n = "str_of_int i @ ''.json''"
  obtain d where d: "get_filename_for_id s i = d @ CHR ''/'' # ?n"
    by (auto simp: get_filename_for_id_def get_conversation_event_filename_def get_conversation_events_dir_def)
  have "CHR ''/'' \<notin> set ?n" using str_of_int_chars by auto
  then have l: "last (split_on (CHR ''/'') (get_filename_for_id s i)) = ?n" unfolding d by (rule last_split_on)
  have "CHR ''.'' \<notin> set (str_of_int i)" using str_of_int_chars by auto
  then have "hd (split_on (CHR ''.'') ?n) = str_of_int i"
    using split_on_append[of "CHR ''.''" "str_of_int i" "''json''"] by (simp add: split_on_single)
  then show ?thesis by (simp add: get_id_from_filename_def l)
qed

lemma max_id_from_eq: "max_id_from m fs = fold max (map get_id_from_filename fs) m"
  by (induction fs arbitrary: m) (auto simp: max_def)

lemma fold_max_bounds:
  fixes m :: int
  shows "m \<le> fold max xs m" "\<forall>x\<in>set xs. x \<le> fold max xs m" "fold max xs m \<in> insert m (set xs)"
proof (induction xs arbitrary: m)
  case (Cons x xs)
  { case 1 show ?case using Cons(1)[of "max x m"] by simp }
  { case 2 show ?case using Cons(1,2)[of "max x m"] by auto }
  { case 3 show ?case using Cons(3)[of "max x m"] by (auto simp: max_def split: if_splits) }
qed auto

lemma mem_read_keys: "mem_read p fs = Inr c \<Longrightarrow> p \<in> set (map fst fs)"
  by (auto simp: mem_read_def split: option.splits dest: map_of_SomeD) (metis image_eqI fst_conv map_of_SomeD)

lemma events_dir_names:
  assumes "files_ok s ds"
  shows "set (mem_list (get_conversation_events_dir (sid s) (stream_user s)) (files s)) =
    get_filename_for_id s ` {0..<int (length ds)}"
proof -
  let ?dir = "get_conversation_events_dir (sid s) (stream_user s)"
  have name: "get_filename_for_id s i = ?dir @ str_of_int i @ ''.json''" for i
    by (simp add: get_filename_for_id_def get_conversation_event_filename_def)
  have sh: "\<forall>p\<in>set (map fst (files s)). startswith p ?dir \<longrightarrow>
      (CHR ''/'') \<notin> set (removeprefix p ?dir) \<and> removeprefix p ?dir \<noteq> []"
  proof (intro ballI impI)
    fix p assume "p \<in> set (map fst (files s))" "startswith p ?dir"
    then obtain i where p: "p = ?dir @ str_of_int i @ ''.json''" using assms name unfolding files_ok_def by metis
    have "removeprefix p ?dir = str_of_int i @ ''.json''" by (simp add: p removeprefix_def)
    then show "(CHR ''/'') \<notin> set (removeprefix p ?dir) \<and> removeprefix p ?dir \<noteq> []"
      using str_of_int_chars by auto
  qed
  have sub: "{p\<in>set (map fst (files s)). startswith p ?dir} = get_filename_for_id s ` {0..<int (length ds)}"
  proof (intro set_eqI iffI)
    fix p assume "p \<in> {p\<in>set (map fst (files s)). startswith p ?dir}"
    then obtain i where "0 \<le> i" "i < int (length ds)" "p = get_filename_for_id s i"
      using assms unfolding files_ok_def by blast
    then show "p \<in> get_filename_for_id s ` {0..<int (length ds)}" by auto
  next
    fix p assume "p \<in> get_filename_for_id s ` {0..<int (length ds)}"
    then obtain i where i: "0 \<le> i" "i < int (length ds)" "p = get_filename_for_id s i" by auto
    then have "mem_read p (files s) = Inr (Json (PDict (ds ! nat i)))" using assms unfolding files_ok_def by simp
    then show "p \<in> {p\<in>set (map fst (files s)). startswith p ?dir}"
      using mem_read_keys i(3) name by fastforce
  qed
  show ?thesis unfolding mem_list_files[OF sh] using sub by auto
qed

lemma calculate_cur_id_ok:
  assumes "files_ok s ds" shows "calculate_cur_id s = int (length ds)"
proof -
  let ?ns = "mem_list (get_conversation_events_dir (sid s) (stream_user s)) (files s)"
  have s: "set (map get_id_from_filename ?ns) = {0..<int (length ds)}"
    using events_dir_names[OF assms] by (simp add: image_image)
  show ?thesis
  proof (cases "ds = []")
    case True
    then have "?ns = []" using events_dir_names[OF assms] by simp
    then show ?thesis using True by (simp add: calculate_cur_id_def)
  next
    case False
    then have n: "?ns \<noteq> []" using s by (auto simp: atLeastLessThan_empty_iff)
    let ?m = "max_id_from (-1) ?ns"
    have "int (length ds) - 1 \<in> set (map get_id_from_filename ?ns)" unfolding s using False by auto
    then have "int (length ds) - 1 \<le> ?m" unfolding max_id_from_eq using fold_max_bounds(2) by blast
    moreover have "?m \<in> insert (-1) (set (map get_id_from_filename ?ns))"
      unfolding max_id_from_eq by (rule fold_max_bounds(3))
    then have "?m \<le> int (length ds) - 1" unfolding s using False by auto
    ultimately show ?thesis using n by (simp add: calculate_cur_id_def Let_def)
  qed
qed

section \<open>Opening and adding\<close>

lemma stream_ok_open:
  assumes "\<forall>p\<in>set (map fst fs). \<not> startswith p (get_conversation_dir i u)"
  shows "stream_ok (open_stream i u fs) []"
proof -
  let ?s = "open_stream i u fs :: 'a stream"
  have miss: "mem_read (get_conversation_dir i u @ t) fs = Inl (FileNotFoundError (get_conversation_dir i u @ t))" for t
  proof -
    have "get_conversation_dir i u @ t \<notin> set (map fst fs)" using assms startswith_append by blast
    then have "map_of fs (get_conversation_dir i u @ t) = None" by (metis absent_map_of)
    then show ?thesis by (simp add: mem_read_def)
  qed
  have fo: "files_ok ?s []"
    using assms miss
    by (auto simp: files_ok_def open_stream_def get_filename_for_id_def get_conversation_event_filename_def
        get_conversation_events_dir_def startswith_iff)
  have "snd (cur_id ?s) = 0" using calculate_cur_id_ok[OF fo] by (simp add: cur_id_def open_stream_def)
  moreover have "pages_ok ?s []"
    using miss by (simp add: pages_ok_def open_stream_def get_filename_for_cache_def)
  ultimately show ?thesis using fo by (simp add: stream_ok_def) (simp add: open_stream_def)
qed

lemma stream_ok_reopen:
  assumes "stream_ok s ds" "cache_size s = 25"
  shows "stream_ok (open_stream (sid s) (stream_user s) (files s)) ds"
proof -
  let ?r = "open_stream (sid s) (stream_user s) (files s)"
  have n: "get_filename_for_id ?r i = get_filename_for_id s i"
    "get_filename_for_cache ?r a b = get_filename_for_cache s a b" for i a b
    by (simp_all add: open_stream_def get_filename_for_id_def get_filename_for_cache_def)
  have cs: "cache_size ?r = cache_size s" "files ?r = files s" using assms(2) by (simp_all add: open_stream_def)
  have sp: "stored_page ?r ds a = stored_page s ds a" for a using assms(2) by (simp add: stored_page_def open_stream_def)
  have fo: "files_ok ?r ds" using assms(1) unfolding stream_ok_def files_ok_def n by (simp add: open_stream_def)
  have po: "pages_ok ?r ds" using assms unfolding stream_ok_def pages_ok_def n sp cs by blast
  have "snd (cur_id ?r) = int (length ds)" using calculate_cur_id_ok[OF fo] by (simp add: cur_id_def open_stream_def)
  then show ?thesis using assms fo po unfolding stream_ok_def by (auto simp: open_stream_def intro!: exI[of _ 0])
qed

lemma map_of_replace_secrets:
  "map_of (replace_secrets_in vals is_top d) k =
     map_option (\<lambda>v. if is_top \<and> k \<in> set TOP_LEVEL_PROTECTED_FIELDS then v else replace_secrets_value vals v) (map_of d k)"
  by (induction d) auto

lemma event_to_dict_id:
  assumes "event_to_dict e = Inr d" "eid e \<noteq> -1" shows "map_of d ''id'' = Some (PInt (eid e))"
proof -
  obtain t where t: "top_entries e TOP_KEYS = Inr t" using assms(1) by (auto simp: event_to_dict_def split: sum.splits)
  have "map_of t ''id'' = Some (PInt (eid e))"
    using map_of_top_entries[OF t, of "''id''"] assms(2) by (simp add: TOP_KEYS_def)
  then show ?thesis using assms(1) t
    by (auto simp: event_to_dict_def Let_def split: if_splits)
qed

lemma map_of_consumed: "k \<noteq> ''args'' \<Longrightarrow> map_of (consumed d) k = map_of d k"
  by (auto simp: consumed_def split: option.splits pyval.splits sum.splits)

lemma set_underscores_id:
  "set_underscores d ks e = Inr e' \<Longrightarrow> ''id'' \<in> set ks \<Longrightarrow> map_of d ''id'' = Some (PInt i) \<Longrightarrow> ev_id e' = Some i"
proof -
  have keep: "set_underscores d ks e = Inr e' \<Longrightarrow> map_of d ''id'' = Some (PInt i) \<Longrightarrow> ev_id e = Some i \<Longrightarrow> ev_id e' = Some i"
    for ks e
  proof (induction ks arbitrary: e)
    case (Cons k ks)
    then show ?case
      by (auto simp: set_underscore_def split: option.splits sum.splits if_splits pyval.splits)
  qed simp
  show "set_underscores d ks e = Inr e' \<Longrightarrow> ''id'' \<in> set ks \<Longrightarrow> map_of d ''id'' = Some (PInt i) \<Longrightarrow> ev_id e' = Some i"
  proof (induction ks arbitrary: e)
    case (Cons k ks)
    show ?case
    proof (cases "k = ''id''")
      case True
      then have "set_underscores d ks (e\<lparr>ev_id := Some i\<rparr>) = Inr e'" using Cons.prems by (simp add: set_underscore_def)
      then show ?thesis by (rule keep) (use Cons.prems in simp_all)
    next
      case False
      then show ?thesis using Cons by (auto split: option.splits sum.splits)
    qed
  qed simp
qed

lemma event_from_dict_id:
  "event_from_dict d = Inr e \<Longrightarrow> map_of d ''id'' = Some (PInt i) \<Longrightarrow> eid e = i"
  using set_underscores_id[of d UNDERSCORE_KEYS]
  by (auto simp: event_from_dict_def Let_def UNDERSCORE_KEYS_def eid_def split: sum.splits)

lemma add_event_cases:
  assumes "add_event now e src s = (s', e', None)"
  obtains d0 d e2 where "eid e = INVALID_ID"
    "e' = e\<lparr>ev_timestamp := Some now, ev_source := Some src, ev_id := Some (snd (cur_id s))\<rparr>"
    "event_to_dict e' = Inr d0" "event_from_dict (replace_secrets s d0) = Inr e2"
    "d = consumed (replace_secrets s d0)"
    "s' = (let page = write_page s @ [d];
         s2 = (fst (cur_id s))\<lparr>cur_id_cache := Some (snd (cur_id s) + 1),
                write_page := (if int (length page) = cache_size s then [] else page)\<rparr>;
         s3 = s2\<lparr>files := mem_write (get_filename_for_id s (eid e2)) (Json (PDict d)) (files s)\<rparr>;
         s4 = store_cache_page s3 page
       in s4\<lparr>queue := queue s @ [e2]\<rparr>)"
proof -
  have q: "queue (store_cache_page x pg) = queue x" for x :: "'a stream" and pg
    by (auto simp: store_cache_page_def split: option.splits pyval.splits)
  have c: "write_page (fst (cur_id s)) = write_page s" "cache_size (fst (cur_id s)) = cache_size s"
    "files (fst (cur_id s)) = files s" "queue (fst (cur_id s)) = queue s" "secrets (fst (cur_id s)) = secrets s"
    "get_filename_for_id (fst (cur_id s)) i = get_filename_for_id s i" for i
    by (auto simp: cur_id_def filename_simps split: option.splits)
  show thesis
    using assms that
    by (auto simp: add_event_def Let_def c q filename_simps replace_secrets_def split: if_splits sum.splits)
qed

lemma set_underscores_timestamp:
  assumes "map_of d ''timestamp'' = Some v"
  shows "set_underscores d UNDERSCORE_KEYS (e\<lparr>ev_timestamp := x\<rparr>) = set_underscores d UNDERSCORE_KEYS e"
proof -
  have t: "set_underscores d (''timestamp'' # ks) (y\<lparr>ev_timestamp := x\<rparr>) = set_underscores d (''timestamp'' # ks) y" for ks y
    using assms by (simp add: set_underscore_def)
  have t2: "set_underscores d (''timestamp'' # ks) (y\<lparr>ev_timestamp := x, ev_id := z\<rparr>)
      = set_underscores d (''timestamp'' # ks) (y\<lparr>ev_id := z\<rparr>)" for ks y z
    using assms by (simp add: set_underscore_def)
  show ?thesis
  proof (cases "map_of d ''id''")
    case None
    then show ?thesis unfolding UNDERSCORE_KEYS_def using t by (simp del: set_underscores.simps add: set_underscores.simps(2)[of d "''id''"])
  next
    case (Some w)
    then show ?thesis unfolding UNDERSCORE_KEYS_def using t2 Some
      by (cases w) (simp_all del: set_underscores.simps add: set_underscores.simps(2)[of d "''id''"] set_underscore_def)
  qed
qed

lemma normal_args:
  assumes "handle_action_deprecated_args (load_security_risk (rename_args a)) = Inr a'"
  shows "rename_args a' = a'" "load_security_risk a' = a'" "handle_action_deprecated_args a' = Inr a'"
    "map_of a' ''timestamp'' = None"
proof -
  define b where "b = rename_args a"
  define c where "c = load_security_risk b"
  have h: "handle_action_deprecated_args c = Inr a'" using assms by (simp add: b_def c_def)
  have b: "map_of b ''timestamp'' = None" "map_of b ''is_confirmed'' = None" "map_of b ''images_urls'' = None"
    by (auto simp: b_def rename_args_def Let_def split: option.splits pyval.splits)
  have c1: "map_of c k = map_of b k" if "k \<noteq> ''security_risk''" for k
    using that by (auto simp: c_def load_security_risk_def split: option.splits pyval.splits)
  have f: "\<lfloor>-1 :: rat\<rfloor> = -1" by (simp add: floor_eq_iff)
  have r: "security_risk_of v = Some w \<Longrightarrow> security_risk_of w = Some w" for v w
    by (auto simp: f security_risk_of_def split: pyval.splits if_splits)
  have c2: "case map_of c ''security_risk'' of None \<Rightarrow> True | Some PNone \<Rightarrow> True | Some v \<Rightarrow> security_risk_of v = Some v"
    using r by (auto simp: c_def load_security_risk_def split: option.splits pyval.splits)
  have del: "map_of a' k = None \<or> map_of a' k = map_of c k" for k
    using h by (auto simp: handle_action_deprecated_args_def Let_def split: option.splits pyval.splits if_splits)
  have del3: "list_all (\<lambda>k. map_of a' k = None) [''keep_prompt'', ''task_completed'', ''translated_ipython_code'']"
    using h by (auto simp: handle_action_deprecated_args_def Let_def split: option.splits pyval.splits if_splits)
  have del1: "map_of a' ''timestamp'' = None" "map_of a' ''is_confirmed'' = None" "map_of a' ''images_urls'' = None"
    using del[of "''timestamp''"] del[of "''is_confirmed''"] del[of "''images_urls''"] c1 b by auto
  show "rename_args a' = a'" using del1 by (intro rename_args_id) simp
  show "handle_action_deprecated_args a' = Inr a'" by (rule deprecated_args_id[OF del3])
  show "map_of a' ''timestamp'' = None" by (rule del1(1))
  have "case map_of a' ''security_risk'' of None \<Rightarrow> True | Some PNone \<Rightarrow> True | Some v \<Rightarrow> security_risk_of v = Some v"
    using del[of "''security_risk''"] c2 by auto
  then show "load_security_risk a' = a'"
    by (auto simp: load_security_risk_def dict_set_same split: option.splits pyval.splits)
qed

lemma build_action_cong:
  assumes "map_of d ''timeout'' = map_of d' ''timeout''"
  shows "build_action c args d ts = build_action c args d' ts"
  unfolding build_action_def assms ..

lemma stamp_eq: "\<exists>x. stamp ts e = e\<lparr>ev_timestamp := x\<rparr>"
proof (cases "\<exists>ch s. ts = Some (PStr (ch # s))")
  case True
  then show ?thesis by (auto simp: stamp_def)
next
  case False
  then have "stamp ts e = e" by (auto simp: stamp_def split: option.splits pyval.splits list.splits)
  then show ?thesis by (intro exI[of _ "ev_timestamp e"]) simp
qed

lemma build_action_stamp:
  "build_action c args d ts = (case build_action c args d None of Inl err \<Rightarrow> Inl err | Inr e \<Rightarrow> Inr (stamp ts e))"
proof (cases "dataclass_init c args")
  case (Inr e)
  then show ?thesis
    unfolding build_action_def stamp_def[symmetric] Inr Let_def
    by (simp add: stamp_def[of None] split: option.split sum.split)
qed (simp add: build_action_def)

lemma build_action_timestamp:
  "build_action c args d None = Inr e \<Longrightarrow> \<exists>x. build_action c args d ts = Inr (e\<lparr>ev_timestamp := x\<rparr>)"
  using stamp_eq[of ts e] by (subst build_action_stamp) auto

lemma event_from_dict_consumed:
  assumes "event_from_dict d = Inr e" "map_of d ''timestamp'' = Some v"
  shows "event_from_dict (consumed d) = Inr e"
proof (cases "map_of d ''action''")
  case None
  then show ?thesis using assms(1) by (simp add: consumed_def)
next
  case (Some w)
  then obtain y where y: "action_from_dict d = Inr y" "set_underscores d UNDERSCORE_KEYS y = Inr e"
    using assms(1) by (auto simp: event_from_dict_def dict_has_def Let_def split: sum.splits)
  obtain st c where w: "w = PStr st" "ACTION_TYPE_TO_CLASS st = Some c"
    using y(1) Some by (auto simp: action_from_dict_def split: pyval.splits option.splits)
  show ?thesis
  proof (cases "map_of d ''args''")
    case None
    then show ?thesis using assms(1) Some by (simp add: consumed_def)
  next
    case (Some va)
    then obtain a a' where a: "va = PDict a" "handle_action_deprecated_args (load_security_risk (rename_args a)) = Inr a'"
      "build_action c a' d (map_of a ''timestamp'') = Inr y"
      using y(1) \<open>map_of d ''action'' = Some w\<close> w by (auto simp: action_from_dict_def split: pyval.splits sum.splits)
    let ?d = "dict_set ''args'' (PDict a') d"
    have cd: "consumed d = ?d" using Some a \<open>map_of d ''action'' = Some w\<close> by (simp add: consumed_def)
    note na = normal_args[OF a(2)]
    have "action_from_dict ?d = build_action c a' d None"
      using \<open>map_of d ''action'' = Some w\<close> w na build_action_cong[of ?d d c a' None] by (simp add: action_from_dict_def)
    moreover obtain z where "build_action c a' d None = Inr z"
      using a(3) by (subst (asm) build_action_stamp) (auto split: sum.splits)
    ultimately have z: "action_from_dict ?d = Inr z" "build_action c a' d None = Inr z" by simp_all
    obtain x where "y = z\<lparr>ev_timestamp := x\<rparr>" using build_action_timestamp[OF z(2)] a(3) by (metis sum.inject(2))
    then have "set_underscores d UNDERSCORE_KEYS z = Inr e" using y(2) set_underscores_timestamp[OF assms(2)] by simp
    moreover have "set_underscores ?d UNDERSCORE_KEYS z = set_underscores d UNDERSCORE_KEYS z"
    proof -
      have "set_underscores ?d ks q = set_underscores d ks q" if "''args'' \<notin> set ks" for ks q
        using that by (induction ks arbitrary: q) (auto split: option.splits sum.splits)
      moreover have "''args'' \<notin> set UNDERSCORE_KEYS" by (simp add: UNDERSCORE_KEYS_def)
      ultimately show ?thesis by blast
    qed
    ultimately show ?thesis
      unfolding cd using z(1) \<open>map_of d ''action'' = Some w\<close> by (simp add: event_from_dict_def dict_has_def)
  qed
qed

lemma event_to_dict_timestamp:
  assumes "event_to_dict e = Inr d" "ev_timestamp e = Some t" shows "map_of d ''timestamp'' = Some (PStr t)"
proof -
  obtain u where t: "top_entries e TOP_KEYS = Inr u" using assms(1) by (auto simp: event_to_dict_def split: sum.splits)
  have "map_of u ''timestamp'' = Some (PStr t)"
    using map_of_top_entries[OF t, of "''timestamp''"] assms(2) by (simp add: TOP_KEYS_def)
  then show ?thesis using assms(1) t by (auto simp: event_to_dict_def Let_def split: if_splits)
qed

lemma files_ok_add:
  assumes "files_ok s ds" "sid s' = sid s" "stream_user s' = stream_user s"
    "files s' = mem_write (get_filename_for_id s (int (length ds))) (Json (PDict d)) (files s) \<or>
     (\<exists>a b c. files s' = mem_write (get_filename_for_cache s a b) c
        (mem_write (get_filename_for_id s (int (length ds))) (Json (PDict d)) (files s)))"
  shows "files_ok s' (ds @ [d])"
proof -
  have n: "get_filename_for_id s' i = get_filename_for_id s i" for i
    using assms(2,3) by (simp add: get_filename_for_id_def)
  let ?F = "mem_write (get_filename_for_id s (int (length ds))) (Json (PDict d)) (files s)"
  have base: "mem_read (get_filename_for_id s i) ?F =
        (if 0 \<le> i \<and> i < int (length (ds @ [d])) then Inr (Json (PDict ((ds @ [d]) ! nat i)))
         else Inl (FileNotFoundError (get_filename_for_id s i)))" for i
    using assms(1) unfolding files_ok_def
    by (auto simp: mem.read_write filename_inject nth_append)
  have rd: "mem_read (get_filename_for_id s i) (files s') = mem_read (get_filename_for_id s i) ?F" for i
    using assms(4) by (auto simp: mem.read_write cache_not_event)
  have keys: "set (map fst (files s')) \<subseteq> insert (get_filename_for_id s (int (length ds)))
       (set (map fst (files s)) \<union> {p. \<exists>a b. p = get_filename_for_cache s a b})"
    using assms(4) unfolding mem_write_def
  proof
    assume "\<exists>a b c. files s' = dict_set (get_filename_for_cache s a b) c
        (dict_set (get_filename_for_id s (int (length ds))) (Json (PDict d)) (files s))"
    then obtain a b c where "files s' = dict_set (get_filename_for_cache s a b) c
        (dict_set (get_filename_for_id s (int (length ds))) (Json (PDict d)) (files s))" by blast
    then show ?thesis by (simp only: set_fst_dict_set) blast
  qed (simp only: set_fst_dict_set, blast)
  show ?thesis
    unfolding files_ok_def n
  proof (intro conjI ballI impI allI)
    fix i show "mem_read (get_filename_for_id s i) (files s') =
        (if 0 \<le> i \<and> i < int (length (ds @ [d])) then Inr (Json (PDict ((ds @ [d]) ! nat i)))
         else Inl (FileNotFoundError (get_filename_for_id s i)))" unfolding rd base ..
  next
    fix p assume p: "p \<in> set (map fst (files s'))"
      "startswith p (get_conversation_events_dir (sid s') (stream_user s'))"
    have dir: "startswith p (get_conversation_events_dir (sid s) (stream_user s))" using p(2) assms(2,3) by simp
    consider "p = get_filename_for_id s (int (length ds))" | "p \<in> set (map fst (files s))"
      | a b where "p = get_filename_for_cache s a b" using keys p(1) by blast
    then show "\<exists>i. 0 \<le> i \<and> i < int (length (ds @ [d])) \<and> p = get_filename_for_id s i"
    proof cases
      case 1
      then show ?thesis by (intro exI[of _ "int (length ds)"]) simp
    next
      case 2
      then show ?thesis using assms(1) dir unfolding files_ok_def by force
    next
      case 3
      then show ?thesis using dir cache_not_in_events by metis
    qed
  qed
qed

lemma stored_page_extend:
  "0 \<le> a \<Longrightarrow> a + cache_size s \<le> int (length ds) \<Longrightarrow> stored_page s (ds @ [d]) a = stored_page s ds a"
  by (simp add: stored_page_def)

lemma pages_ok_add:
  assumes "pages_ok s ds" "cache_size s' = cache_size s" "sid s' = sid s" "stream_user s' = stream_user s" "0 < cache_size s"
    "files s' = mem_write (get_filename_for_id s (int (length ds))) (Json (PDict d)) (files s) \<or>
     (\<exists>st. 0 \<le> st \<and> st + cache_size s = int (length ds) + 1 \<and>
       files s' = mem_write (get_filename_for_cache s st (st + cache_size s)) (Json (stored_page s (ds @ [d]) st))
        (mem_write (get_filename_for_id s (int (length ds))) (Json (PDict d)) (files s)))"
  shows "pages_ok s' (ds @ [d])"
proof -
  have n: "get_filename_for_cache s' a b = get_filename_for_cache s a b" for a b
    using assms(3,4) by (simp add: get_filename_for_cache_def)
  have sp: "stored_page s' x a = stored_page s x a" for x a using assms(2) by (simp add: stored_page_def)
  let ?F = "mem_write (get_filename_for_id s (int (length ds))) (Json (PDict d)) (files s)"
  have F: "mem_read (get_filename_for_cache s a b) ?F = mem_read (get_filename_for_cache s a b) (files s)" for a b
    using cache_not_event[of s a b, symmetric] by (simp add: mem.read_write)
  have old: "mem_read (get_filename_for_cache s a (a + cache_size s)) (files s) = Inr c \<Longrightarrow>
     0 \<le> a \<and> a + cache_size s \<le> int (length (ds @ [d])) \<and> c = Json (stored_page s (ds @ [d]) a)" for a c
    using assms(1) stored_page_extend[of a s ds d] unfolding pages_ok_def by (fastforce split: sum.splits)
  have "mem_read (get_filename_for_cache s a (a + cache_size s)) (files s') = Inr c \<Longrightarrow>
     0 \<le> a \<and> a + cache_size s \<le> int (length (ds @ [d])) \<and> c = Json (stored_page s (ds @ [d]) a)" for a c
    using assms(6)
  proof
    assume "files s' = ?F" "mem_read (get_filename_for_cache s a (a + cache_size s)) (files s') = Inr c"
    then show ?thesis using old F by simp
  next
    assume r: "mem_read (get_filename_for_cache s a (a + cache_size s)) (files s') = Inr c"
    assume "\<exists>st. 0 \<le> st \<and> st + cache_size s = int (length ds) + 1 \<and>
       files s' = mem_write (get_filename_for_cache s st (st + cache_size s)) (Json (stored_page s (ds @ [d]) st)) ?F"
    then obtain st where st: "0 \<le> st" "st + cache_size s = int (length ds) + 1"
       "files s' = mem_write (get_filename_for_cache s st (st + cache_size s)) (Json (stored_page s (ds @ [d]) st)) ?F"
      by blast
    show ?thesis
    proof (cases "get_filename_for_cache s st (st + cache_size s) = get_filename_for_cache s a (a + cache_size s)")
      case True
      then have "st = a" using cache_name_inject st(1) by blast
      then show ?thesis using r st by (simp add: mem.read_write)
    next
      case False
      then show ?thesis using r st old F by (simp add: mem.read_write)
    qed
  qed
  then show ?thesis unfolding pages_ok_def n sp assms(2) by (auto split: sum.splits)
qed

lemma stream_ok_add:
  assumes "stream_ok s ds" "add_event now e src s = (s', e', None)"
  shows "\<exists>d e2. stream_ok s' (ds @ [d]) \<and> event_from_dict d = Inr e2 \<and> eid e2 = int (length ds) \<and>
     eid e' = int (length ds) \<and> queue s' = queue s @ [e2]"
proof -
  let ?n = "int (length ds)"
  note ok = assms(1)[unfolded stream_ok_def]
  obtain d0 d e2 where c: "e' = e\<lparr>ev_timestamp := Some now, ev_source := Some src, ev_id := Some (snd (cur_id s))\<rparr>"
    "event_to_dict e' = Inr d0" "event_from_dict (replace_secrets s d0) = Inr e2" "d = consumed (replace_secrets s d0)"
    and s': "s' = (let page = write_page s @ [d];
         s2 = (fst (cur_id s))\<lparr>cur_id_cache := Some (snd (cur_id s) + 1),
                write_page := (if int (length page) = cache_size s then [] else page)\<rparr>;
         s3 = s2\<lparr>files := mem_write (get_filename_for_id s (eid e2)) (Json (PDict d)) (files s)\<rparr>;
         s4 = store_cache_page s3 page
       in s4\<lparr>queue := queue s @ [e2]\<rparr>)"
    by (rule add_event_cases[OF assms(2)])
  have ide: "eid e' = ?n" using c(1) ok by (simp add: eid_def)
  have id0: "map_of d0 ''id'' = Some (PInt ?n)" using event_to_dict_id[OF c(2)] ide by simp
  have ts0: "map_of d0 ''timestamp'' = Some (PStr now)" using event_to_dict_timestamp[OF c(2)] c(1) by simp
  have id1: "map_of (replace_secrets s d0) ''id'' = Some (PInt ?n)"
    "map_of (replace_secrets s d0) ''timestamp'' = Some (PStr now)"
    using id0 ts0 by (simp_all add: replace_secrets_def map_of_replace_secrets TOP_LEVEL_PROTECTED_FIELDS_def)
  have idd: "map_of d ''id'' = Some (PInt ?n)" unfolding c(4) using id1 by (simp add: map_of_consumed)
  have id2: "eid e2 = ?n" by (rule event_from_dict_id[OF c(3) id1(1)])
  have rd: "event_from_dict d = Inr e2" unfolding c(4) by (rule event_from_dict_consumed[OF c(3) id1(2)])
  obtain m where m: "m \<le> length ds" "int m < cache_size s" "write_page s = drop (length ds - m) ds" using ok by blast
  define page where "page = write_page s @ [d]"
  have page: "page = drop (length ds - m) (ds @ [d])" "length page = Suc m" using m by (simp_all add: page_def)
  define F where "F = mem_write (get_filename_for_id s ?n) (Json (PDict d)) (files s)"
  have cid: "sid (fst (cur_id s)) = sid s" "stream_user (fst (cur_id s)) = stream_user s"
    "cache_size (fst (cur_id s)) = cache_size s"
    by (auto simp: cur_id_def split: option.splits)
  let ?st = "int (length ds - m)"
  have hdid: "map_of (hd page) ''id'' = Some (PInt ?st)"
  proof (cases m)
    case 0
    then show ?thesis using m(3) idd by (simp add: page_def)
  next
    case (Suc k)
    then have "length ds - m < length ds" using m(1) by simp
    then have "hd page = ds ! (length ds - m)" using m(3) by (simp add: page_def hd_append hd_drop_conv_nth)
    then show ?thesis using ok m Suc by simp
  qed
  have fr: "sid s' = sid s" "stream_user s' = stream_user s" "cache_size s' = cache_size s"
    "cur_id_cache s' = Some (?n + 1)" "queue s' = queue s @ [e2]"
    "write_page s' = (if int (Suc m) = cache_size s then [] else page)"
    "files s' = (if int (Suc m) < cache_size s then F
       else mem_write (get_filename_for_cache s ?st (?st + cache_size s)) (Json (PList (map PDict page))) F)"
    unfolding s' Let_def page_def[symmetric] id2 F_def[symmetric] store_cache_page_def
    using hdid page(2) ok cid by (simp_all add: filename_simps get_filename_for_cache_def)
  have sp: "PList (map PDict page) = stored_page s (ds @ [d]) ?st" if "int (Suc m) = cache_size s"
  proof -
    have "nat (cache_size s) = Suc m" using that by simp
    moreover have "nat ?st = length ds - m" by (rule nat_int)
    ultimately show ?thesis unfolding page(1) stored_page_def using m(1) by simp
  qed
  have ff: "files s' = F \<or> (int (Suc m) = cache_size s \<and>
      files s' = mem_write (get_filename_for_cache s ?st (?st + cache_size s)) (Json (stored_page s (ds @ [d]) ?st)) F)"
    using fr(7) sp m(2) by (cases "int (Suc m) < cache_size s") auto
  have "files_ok s' (ds @ [d])"
    by (rule files_ok_add[of s]) (use ok fr ff in \<open>auto simp: F_def\<close>)
  moreover have "pages_ok s' (ds @ [d])"
    by (rule pages_ok_add[of s]) (use ok fr ff m(1) in \<open>auto simp: F_def intro!: exI[of _ ?st]\<close>)
  moreover have "\<exists>k. k \<le> length (ds @ [d]) \<and> int k < cache_size s' \<and> write_page s' = drop (length (ds @ [d]) - k) (ds @ [d])"
  proof (cases "int (Suc m) = cache_size s")
    case True
    then show ?thesis using fr ok by (intro exI[of _ 0]) simp
  next
    case False
    then show ?thesis using fr m page by (intro exI[of _ "Suc m"]) auto
  qed
  moreover have "snd (cur_id s') = int (length (ds @ [d]))" using fr(4) by (simp add: cur_id_def)
  moreover have "\<forall>i<length (ds @ [d]). map_of ((ds @ [d]) ! i) ''id'' = Some (PInt (int i))"
    using ok idd by (auto simp: nth_append less_Suc_eq)
  ultimately have "stream_ok s' (ds @ [d])" unfolding stream_ok_def using ok fr(3) rd by auto
  then show ?thesis using rd id2 ide fr(5) by blast
qed

section \<open>Searching\<close>

lemma load_page_coherent:
  assumes "stream_ok s ds"
  shows "page_coherent s ds (load_cache_page_for_index s i)" "covers (load_cache_page_for_index s i) i"
proof -
  let ?a = "i - i mod cache_size s"
  have cs: "0 < cache_size s" and po: "pages_ok s ds" using assms by (simp_all add: stream_ok_def)
  have "0 \<le> i mod cache_size s" "i mod cache_size s < cache_size s" using cs by simp_all
  then show "covers (load_cache_page_for_index s i) i"
    by (simp add: covers_def load_cache_page_for_index_def load_cache_page_def Let_def)
  show "page_coherent s ds (load_cache_page_for_index s i)"
    using po[unfolded pages_ok_def, rule_format, of ?a]
    by (cases "mem_read (get_filename_for_cache s ?a (?a + cache_size s)) (files s)")
      (auto simp: page_coherent_def load_cache_page_for_index_def load_cache_page_def Let_def)
qed

lemma nth_log_of: "i < length ds \<Longrightarrow> event_from_dict (ds ! i) = Inr e \<Longrightarrow> log_of ds ! i = e"
  by (simp add: log_of_def)

lemma length_log_of [simp]: "length (log_of ds) = length ds"
  by (simp add: log_of_def)

lemma event_at_coherent:
  assumes ok: "stream_ok s ds" and p: "page_coherent s ds p" "covers p i"
  shows "event_at s p i = Inr (if 0 \<le> i \<and> i < int (length ds) then Some (log_of ds ! nat i) else None)"
proof -
  have rd: "\<exists>e. event_from_dict (ds ! nat i) = Inr e" if "0 \<le> i" "i < int (length ds)"
  proof -
    have "ds ! nat i \<in> set ds" using that by simp
    then have "is_ok (event_from_dict (ds ! nat i))" using ok unfolding stream_ok_def by blast
    then show ?thesis by (cases "event_from_dict (ds ! nat i)") auto
  qed
  show ?thesis
  proof (cases "page_events p")
    case None
    then show ?thesis
    proof (cases "0 \<le> i \<and> i < int (length ds)")
      case True
      then obtain e where e: "event_from_dict (ds ! nat i) = Inr e" using rd by blast
      have "get_event s i = Inr e"
        using True e ok unfolding stream_ok_def files_ok_def by (simp add: get_event_def parse_event_def)
      moreover have "log_of ds ! nat i = e" using True e by (intro nth_log_of) auto
      ultimately show ?thesis using None True by (simp add: event_at_def page_get_event_def)
    next
      case False
      then have "get_event s i = Inl (FileNotFoundError (get_filename_for_id s i))"
        using ok unfolding stream_ok_def files_ok_def by (auto simp: get_event_def)
      then show ?thesis using None False by (auto simp: event_at_def page_get_event_def)
    qed
  next
    case (Some v)
    let ?a = "page_start p" let ?c = "cache_size s"
    have a: "0 \<le> ?a" "?a + ?c \<le> int (length ds)" "v = stored_page s ds ?a" "page_end p \<le> ?a + ?c"
      using p(1) Some by (auto simp: page_coherent_def)
    have i: "?a \<le> i" "i < ?a + ?c" using p(2) a(4) by (simp_all add: covers_def)
    let ?vs = "map PDict (take (nat ?c) (drop (nat ?a) ds))"
    have ix: "nat ?a + nat (i - ?a) = nat i" using a(1) i(1) by linarith
    have lt: "nat (i - ?a) < nat ?c" "nat i < length ds" using a i by linarith+
    have len: "nat (i - ?a) < length ?vs" using lt ix by simp
    have at: "?vs ! nat (i - ?a) = PDict (ds ! nat i)" using lt ix len by simp
    have g: "py_get ?vs (i - ?a) = Some (PDict (ds ! nat i))"
      using py_get_nonneg[of "i - ?a" ?vs] len at i(1) by (simp only: if_True diff_ge_0_iff_ge)
    have ne: "?vs \<noteq> []" using len by (metis length_0_conv not_less_zero)
    obtain e where e: "event_from_dict (ds ! nat i) = Inr e" using rd a i by auto
    have "page_get_event p i = Inr (Some e)"
    proof (cases ?vs)
      case (Cons w ws)
      then have "page_events p = Some (PList (w # ws))" "py_get (w # ws) (i - ?a) = Some (PDict (ds ! nat i))"
        using Some a(3) g by (simp_all add: stored_page_def)
      then show ?thesis using e by (simp add: page_get_event_def)
    qed (use ne in simp)
    moreover have "log_of ds ! nat i = e" using a i e by (intro nth_log_of) auto
    ultimately show ?thesis using a i by (simp add: event_at_def)
  qed
qed

lemma search_loop_spec:
  assumes ok: "stream_ok s ds" and inc: "\<forall>e. inc e = Inr (f e)" and p: "page_coherent s ds page"
    and cap: "case cap of None \<Rightarrow> True | Some l \<Rightarrow> num < l" and num: "0 \<le> num"
    and go: "\<forall>i. go i"
  shows "search_loop go inc cap s idxs page num =
    ((let xs = filter f (map (\<lambda>i. log_of ds ! nat i) (filter (\<lambda>i. 0 \<le> i \<and> i < int (length ds)) idxs))
      in case cap of None \<Rightarrow> xs | Some l \<Rightarrow> take (nat (l - num)) xs), None)"
  using p cap num
proof (induction idxs arbitrary: page num)
  case Nil
  then show ?case by (simp split: option.split)
next
  case (Cons i idxs)
  define page' where "page' = (if covers page i then page else load_cache_page_for_index s i)"
  have p': "page_coherent s ds page'" "covers page' i"
    using Cons.prems(1) load_page_coherent[OF ok] by (auto simp: page'_def)
  note at = event_at_coherent[OF ok p']
  let ?in = "0 \<le> i \<and> i < int (length ds)" let ?e = "log_of ds ! nat i"
  have out: "search_loop go inc cap s (i # idxs) page num = search_loop go inc cap s idxs page' num"
    if "\<not> ?in \<or> \<not> f ?e"
  proof -
    have "event_at s page' i = Inr None \<or> event_at s page' i = Inr (Some ?e) \<and> \<not> f ?e" using that at by auto
    then show ?thesis using go inc by (auto simp: page'_def[symmetric] Let_def)
  qed
  have hit: "search_loop go inc cap s (i # idxs) page num =
      (if (case cap of None \<Rightarrow> False | Some l \<Rightarrow> l \<noteq> 0 \<and> l \<le> num + 1) then ([?e], None)
       else (?e # fst (search_loop go inc cap s idxs page' (num + 1)), snd (search_loop go inc cap s idxs page' (num + 1))))"
    if "?in" "f ?e"
  proof -
    have "event_at s page' i = Inr (Some ?e)" using that at by simp
    then show ?thesis using go inc that(2) by (simp add: page'_def[symmetric] Let_def)
  qed
  show ?case
  proof (cases "?in \<and> f ?e")
    case False
    then have "filter f (map (\<lambda>i. log_of ds ! nat i) (filter (\<lambda>i. 0 \<le> i \<and> i < int (length ds)) (i # idxs))) =
       filter f (map (\<lambda>i. log_of ds ! nat i) (filter (\<lambda>i. 0 \<le> i \<and> i < int (length ds)) idxs))" by auto
    then show ?thesis using out False Cons.IH[OF p'(1) Cons.prems(2,3)] by simp
  next
    case True
    then have flt: "filter f (map (\<lambda>i. log_of ds ! nat i) (filter (\<lambda>i. 0 \<le> i \<and> i < int (length ds)) (i # idxs))) =
       ?e # filter f (map (\<lambda>i. log_of ds ! nat i) (filter (\<lambda>i. 0 \<le> i \<and> i < int (length ds)) idxs))" by simp
    note hit' = hit[OF True[THEN conjunct1] True[THEN conjunct2]]
    show ?thesis
    proof (cases cap)
      case None
      then show ?thesis unfolding hit' flt using Cons.IH[OF p'(1), of "num + 1"] Cons.prems(3) by (simp add: Let_def)
    next
      case (Some l)
      show ?thesis
      proof (cases "l \<le> num + 1")
        case True
        then have "l = num + 1" using Cons.prems(2) Some by simp
        then show ?thesis unfolding hit' flt using Some Cons.prems(3) by (simp add: Let_def)
      next
        case False
        then have "nat (l - num) = Suc (nat (l - (num + 1)))" by simp
        then show ?thesis unfolding hit' flt using Cons.IH[OF p'(1), of "num + 1"] Cons.prems(3) Some False by (simp add: Let_def)
      qed
    qed
  qed
qed

end
