(* ===== verification/Event_Stream_Properties.thy ===== *)
theory Event_Stream_Properties
  imports Event_Stream_Laws "HOL-Library.Multiset"
begin

text \<open>
  What the event stream promises its users. stream_run is the step relation of a conversation:
  events are added, rejected, searched, delivered, subscribers come and go, and the process
  restarts on the files that are there. Every run keeps the invariant of Event_Stream_Laws, so
  searches return slices of the log of delivered events, ids are consecutive, secrets are
  hidden from what is stored, and deliveries go to the subscribers in key order.
\<close>

section \<open>Runs of a stream and samples\<close>

inductive stream_run :: "'st stream \<Rightarrow> event list \<Rightarrow> 'st stream \<Rightarrow> bool" for s0 where
  \<comment> \<open>what can happen to a stream, with the events it put on its queue so far; a restart opens a
    new stream on the files that are there\<close>
  run_start: "stream_run s0 [] s0"
| run_add: "stream_run s0 L s \<Longrightarrow> add_event now e src s = (s', e', None) \<Longrightarrow> stream_run s0 (L @ [last (queue s')]) s'"
| run_reject: "stream_run s0 L s \<Longrightarrow> eid e \<noteq> INVALID_ID \<Longrightarrow> stream_run s0 L (fst (add_event now e src s))"
| run_search: "stream_run s0 L s \<Longrightarrow> stream_run s0 L (fst (search_events go inc s a b reverse cap))"
| run_latest: "stream_run s0 L s \<Longrightarrow> stream_run s0 L (fst (get_latest_event s))"
| run_subscribe: "stream_run s0 L s \<Longrightarrow> stream_run s0 L (fst (subscribe k c s))"
| run_unsubscribe: "stream_run s0 L s \<Longrightarrow> stream_run s0 L (unsubscribe k c s)"
| run_set_secrets: "stream_run s0 L s \<Longrightarrow> stream_run s0 L (set_secrets m s)"
| run_update_secrets: "stream_run s0 L s \<Longrightarrow> stream_run s0 L (update_secrets m s)"
| run_deliver: "stream_run s0 L s \<Longrightarrow> stream_run s0 L (fst (process_queue_step s))"
| run_close: "stream_run s0 L s \<Longrightarrow> stream_run s0 L (close_stream s)"
| run_restart: "stream_run s0 L s \<Longrightarrow> stream_run s0 L (open_stream (sid s) (stream_user s) (files s))"

definition between :: "int \<Rightarrow> int \<Rightarrow> event list \<Rightarrow> event list" where
  "between a b L = drop (nat a) (take (nat b) L)"

definition at_most :: "int option \<Rightarrow> 'a list \<Rightarrow> 'a list" where
  "at_most cap xs = (case cap of None \<Rightarrow> xs | Some l \<Rightarrow> take (nat l) xs)"

definition sample_upload :: event where
  "sample_upload = sample_stored\<lparr>ev_id := None, ev_timestamp := None, ev_source := None\<rparr>"

definition sample_stream :: "unit stream" where
  "sample_stream = fst (add_event ''2025-01-01T00:00:00'' sample_upload AGENT (open_stream ''c1'' None []))"

fun exposed_strings :: "pyval \<Rightarrow> string list" and exposed_in :: "(string \<times> pyval) list \<Rightarrow> string list" where
  \<comment> \<open>the strings of a value, those inside lists left out\<close>
  "exposed_strings (PStr s) = [s]"
| "exposed_strings (PDict d) = exposed_in d"
| "exposed_strings v = []"
| "exposed_in [] = []"
| "exposed_in ((k, v) # d) = exposed_strings v @ exposed_in d"

definition plain_secret :: "string \<Rightarrow> bool" where
  \<comment> \<open>a secret the marker itself cannot spell out\<close>
  "plain_secret v \<longleftrightarrow> v \<noteq> [] \<and> (CHR ''<'') \<notin> set v \<and> (CHR ''>'') \<notin> set v \<and> \<not> contains v ''secret_hidden''"

definition unreadable :: event where
  \<comment> \<open>a condensation whose fields were cleared after it was built: its message cannot be computed\<close>
  "unreadable = blank CondensationAction
     [(''action'', PStr ''condensation''), (''forgotten_event_ids'', PNone), (''forgotten_events_start_id'', PNone),
      (''forgotten_events_end_id'', PNone), (''summary'', PNone), (''summary_offset'', PNone)]"

definition gap_run :: "unit stream" where
  "gap_run = (let s0 = (open_stream ''c1'' None [])\<lparr>cache_size := 2\<rparr>;
      s1 = fst (add_event ''t0'' sample_upload AGENT s0);
      s2 = fst (add_event ''t1'' unreadable AGENT s1)
    in fst (add_event ''t2'' sample_upload AGENT s2))"

section \<open>Runs\<close>

lemma stream_ok_frame:
  assumes "stream_ok s ds" "sid s' = sid s" "stream_user s' = stream_user s" "files s' = files s"
    "cache_size s' = cache_size s" "write_page s' = write_page s" "snd (cur_id s') = snd (cur_id s)"
  shows "stream_ok s' ds"
proof -
  have n: "get_filename_for_id s' i = get_filename_for_id s i"
    "get_filename_for_cache s' a b = get_filename_for_cache s a b" for i a b
    using assms by (simp_all add: get_filename_for_id_def get_filename_for_cache_def)
  have sp: "stored_page s' ds a = stored_page s ds a" for a using assms by (simp add: stored_page_def)
  show ?thesis using assms(1) unfolding stream_ok_def files_ok_def pages_ok_def n sp assms(2-) .
qed

lemma stream_ok_cur_id: "stream_ok s ds \<Longrightarrow> stream_ok (fst (cur_id s)) ds"
  by (cases "cur_id_cache s") (auto intro: stream_ok_frame simp: cur_id_def)

lemma calculate_frame:
  "sid s' = sid s \<Longrightarrow> stream_user s' = stream_user s \<Longrightarrow> files s' = files s \<Longrightarrow> calculate_cur_id s' = calculate_cur_id s"
  by (simp add: calculate_cur_id_def)

lemma clean_up_frame:
  "sid (clean_up_subscriber k c s) = sid s" "stream_user (clean_up_subscriber k c s) = stream_user s"
  "files (clean_up_subscriber k c s) = files s" "cache_size (clean_up_subscriber k c s) = cache_size s"
  "write_page (clean_up_subscriber k c s) = write_page s" "cur_id_cache (clean_up_subscriber k c s) = cur_id_cache s"
  by (auto simp: clean_up_subscriber_def split: option.splits)

lemma fold_clean_up_frame:
  fixes s :: "'st stream" and ps
  defines "r \<equiv> fold (\<lambda>(k, c). clean_up_subscriber k c) ps s"
  shows "sid r = sid s \<and> stream_user r = stream_user s \<and> files r = files s \<and> cache_size r = cache_size s
    \<and> write_page r = write_page s \<and> cur_id_cache r = cur_id_cache s"
  unfolding r_def by (induction ps arbitrary: s) (auto simp: clean_up_frame)

lemma cur_id_frame:
  "sid s' = sid s \<Longrightarrow> stream_user s' = stream_user s \<Longrightarrow> files s' = files s \<Longrightarrow> cur_id_cache s' = cur_id_cache s
   \<Longrightarrow> snd (cur_id s') = snd (cur_id s)"
  using calculate_frame[of s' s] by (cases "cur_id_cache s") (auto simp: cur_id_def)

lemma stream_ok_same:
  assumes "stream_ok s ds" "sid s' = sid s" "stream_user s' = stream_user s" "files s' = files s"
    "cache_size s' = cache_size s" "write_page s' = write_page s" "cur_id_cache s' = cur_id_cache s"
  shows "stream_ok s' ds"
  by (rule stream_ok_frame[OF assms(1)]) (use assms cur_id_frame in auto)

lemma log_of_snoc: "event_from_dict d = Inr e \<Longrightarrow> log_of (ds @ [d]) = log_of ds @ [e]"
  by (simp add: log_of_def)

lemma cache_size_cur_id: "cache_size (fst (cur_id s)) = cache_size s"
  by (simp add: cur_id_def split: option.split)

lemma cache_size_add: "cache_size (fst (add_event now e src s)) = cache_size s"
proof -
  have "cache_size (store_cache_page x pg) = cache_size x" for x :: "'a stream" and pg
    by (simp add: store_cache_page_def split: option.split pyval.split)
  then show ?thesis
    by (simp add: add_event_def Let_def cache_size_cur_id split: sum.split)
qed

lemma fst_search: "fst (search_events go inc s a b reverse cap) = (case b of None \<Rightarrow> fst (cur_id s) | Some _ \<Rightarrow> s)"
  by (simp add: search_events_def Let_def split: option.split)

lemma fst_latest: "fst (get_latest_event s) = fst (cur_id s)"
  by (simp add: get_latest_event_def split: prod.split)

lemma run_invariant:
  assumes "stream_run s0 L s" "stream_ok s0 []" "cache_size s0 = 25"
  shows "cache_size s = 25 \<and> (\<exists>ds. stream_ok s ds \<and> log_of ds = L)"
  using assms(1)
proof (induction rule: stream_run.induct)
  case run_start
  then show ?case using assms(2,3) by (auto simp: log_of_def)
next
  case (run_add L s now e src s' e')
  then obtain ds where ds: "stream_ok s ds" "log_of ds = L" by blast
  obtain d e2 where d: "stream_ok s' (ds @ [d])" "event_from_dict d = Inr e2" "queue s' = queue s @ [e2]"
    using stream_ok_add[OF ds(1) run_add.hyps(2)] by blast
  have "log_of (ds @ [d]) = L @ [last (queue s')]" using log_of_snoc[OF d(2), of ds] ds(2) d(3) by simp
  moreover have "cache_size s' = 25" using cache_size_add[of now e src s] run_add by simp
  ultimately show ?case using d(1) by blast
next
  case (run_reject L s e now src)
  then show ?case by (simp add: add_event_def)
next
  case (run_search L s go inc a b reverse cap)
  then show ?case using stream_ok_cur_id by (auto simp: fst_search cache_size_cur_id split: option.split)
next
  case (run_latest L s)
  then show ?case using stream_ok_cur_id by (auto simp: fst_latest cache_size_cur_id)
next
  case (run_subscribe L s k c)
  then obtain ds where ds: "stream_ok s ds" "log_of ds = L" by blast
  have "stream_ok (fst (subscribe k c s)) ds"
    by (rule stream_ok_same[OF ds(1)]) (simp_all add: subscribe_def Let_def split: option.split)
  then show ?case using run_subscribe ds by (auto simp: subscribe_def Let_def split: option.split)
next
  case (run_unsubscribe L s k c)
  then obtain ds where ds: "stream_ok s ds" "log_of ds = L" by blast
  have "stream_ok (unsubscribe k c s) ds"
    by (rule stream_ok_same[OF ds(1)]) (simp_all add: unsubscribe_def clean_up_frame split: option.split)
  then show ?case using run_unsubscribe ds by (auto simp: unsubscribe_def clean_up_frame split: option.split)
next
  case (run_set_secrets L s m)
  then obtain ds where ds: "stream_ok s ds" "log_of ds = L" by blast
  have "stream_ok (set_secrets m s) ds" by (rule stream_ok_same[OF ds(1)]) (simp_all add: set_secrets_def)
  then show ?case using run_set_secrets ds by (auto simp: set_secrets_def)
next
  case (run_update_secrets L s m)
  then obtain ds where ds: "stream_ok s ds" "log_of ds = L" by blast
  have "stream_ok (update_secrets m s) ds" by (rule stream_ok_same[OF ds(1)]) (simp_all add: update_secrets_def)
  then show ?case using run_update_secrets ds by (auto simp: update_secrets_def)
next
  case (run_deliver L s)
  then obtain ds where ds: "stream_ok s ds" "log_of ds = L" by blast
  have "stream_ok (fst (process_queue_step s)) ds"
    by (rule stream_ok_same[OF ds(1)]) (simp_all add: process_queue_step_def split: list.split)
  then show ?case using run_deliver ds by (auto simp: process_queue_step_def split: list.split)
next
  case (run_close L s)
  then obtain ds where ds: "stream_ok s ds" "log_of ds = L" by blast
  have "stream_ok (close_stream s) ds"
    by (rule stream_ok_same[OF ds(1)]) (simp_all add: close_stream_def Let_def fold_clean_up_frame)
  then show ?case using run_close ds by (auto simp: close_stream_def Let_def fold_clean_up_frame)
next
  case (run_restart L s)
  then show ?case using stream_ok_reopen by (fastforce simp: open_stream_def)
qed

lemma log_ids:
  assumes "stream_ok s ds" shows "map eid (log_of ds) = map int [0..<length ds]"
proof (intro nth_equalityI)
  fix i assume "i < length (map eid (log_of ds))"
  then have i: "i < length ds" by simp
  then have "is_ok (event_from_dict (ds ! i))" "map_of (ds ! i) ''id'' = Some (PInt (int i))"
    using assms by (simp_all add: stream_ok_def)
  then obtain e where "event_from_dict (ds ! i) = Inr e" "eid e = int i"
    using event_from_dict_id by (cases "event_from_dict (ds ! i)") auto
  then show "map eid (log_of ds) ! i = map int [0..<length ds] ! i" using i nth_log_of by simp
qed simp

lemma range_inside:
  "map (\<lambda>i. L ! nat i) (filter (\<lambda>i. 0 \<le> i \<and> i < int (length L)) (py_range a b)) = between a b L"
proof (induction "nat (b - a)" arbitrary: a)
  case 0
  then have "nat b \<le> nat a" "py_range a b = []" by (auto simp: py_range_def)
  then show ?case by (simp add: between_def)
next
  case (Suc n)
  then have ab: "a < b" "n = nat (b - (a + 1))" by auto
  have r: "py_range a b = a # py_range (a + 1) b"
    unfolding py_range_def Suc(2)[symmetric] ab(2)[symmetric] by simp
  note IH = Suc(1)[OF ab(2)]
  show ?case
  proof (cases "0 \<le> a \<and> a < int (length L)")
    case True
    then have "nat (a + 1) = Suc (nat a)" "nat a < length (take (nat b) L)" using ab by auto
    then have "between a b L = L ! nat a # between (a + 1) b L"
      unfolding between_def using Cons_nth_drop_Suc[of "nat a" "take (nat b) L"] by simp
    then show ?thesis using r IH True by simp
  next
    case False
    then consider "a < 0" | "int (length L) \<le> a" by linarith
    then have "between a b L = between (a + 1) b L" by cases (simp_all add: between_def)
    then show ?thesis using r IH False by auto
  qed
qed

lemma search_spec:
  assumes ok: "stream_ok s ds" and cap: "case cap of None \<Rightarrow> True | Some l \<Rightarrow> 0 < l"
  shows "snd (search_events (\<lambda>_. True) (\<lambda>e. Inr (f e)) s a b reverse cap) =
     (at_most cap (filter f ((if reverse then rev else id)
        (between a (case b of None \<Rightarrow> int (length ds) | Some e \<Rightarrow> e + 1) (log_of ds)))), None)"
proof -
  let ?b = "case b of None \<Rightarrow> int (length ds) | Some e \<Rightarrow> e + 1"
  let ?s = "case b of None \<Rightarrow> fst (cur_id s) | Some _ \<Rightarrow> s"
  let ?in = "\<lambda>i. 0 \<le> i \<and> i < int (length ds)"
  let ?idxs = "if reverse then rev (py_range a ?b) else py_range a ?b"
  have oks: "stream_ok ?s ds" using ok stream_ok_cur_id by (cases b) auto
  have "page_coherent ?s ds DUMMY_PAGE"
    using oks by (simp add: page_coherent_def DUMMY_PAGE_def stream_ok_def)
  then have loop: "search_loop (\<lambda>_. True) (\<lambda>e. Inr (f e)) cap ?s ?idxs DUMMY_PAGE 0 =
     (at_most cap (filter f (map (\<lambda>i. log_of ds ! nat i) (filter ?in ?idxs))), None)"
    using search_loop_spec[OF oks, of "\<lambda>e. Inr (f e)" f DUMMY_PAGE 0 cap "\<lambda>_. True" ?idxs] cap
    by (cases cap) (simp_all add: at_most_def Let_def)
  have "map (\<lambda>i. log_of ds ! nat i) (filter ?in ?idxs) = (if reverse then rev else id) (between a ?b (log_of ds))"
    using range_inside[of "log_of ds" a ?b] by (simp add: rev_filter[symmetric] rev_map[symmetric])
  moreover have "snd (cur_id s) = int (length ds)" using ok by (simp add: stream_ok_def)
  ultimately show ?thesis using loop
    by (cases reverse; cases b) (simp_all add: search_events_def Let_def)
qed

lemma sample_add:
  "add_event ''2025-01-01T00:00:00'' sample_upload AGENT (open_stream ''c1'' None []) =
     (sample_stream, sample_upload\<lparr>ev_timestamp := Some ''2025-01-01T00:00:00'', ev_source := Some AGENT, ev_id := Some 0\<rparr>, None)"
  unfolding sample_stream_def by code_simp

lemma sample_queue: "queue sample_stream = [sample_stored\<lparr>ev_id := Some 0\<rparr>]"
  by code_simp

text \<open>
  C1: After any run of a stream opened on a conversation without files (adds, rejected adds,
  searches, deliveries, subscriptions, changes of secrets and restarts), a search with any
  range, filter, direction and positive limit returns exactly the events that were put on the
  queue, cut to the range, filtered, reversed if asked, and at most as many as the limit; it
  does not matter which events come from cache pages and which from their own files, and no
  error ends the search.
\<close>

theorem search_returns_the_log:
  assumes "\<forall>p\<in>set (map fst fs). \<not> startswith p (get_conversation_dir i u)"
    and "stream_run (open_stream i u fs) L s"
    and "cap = None \<or> cap = Some l \<and> 0 < l"
  shows "snd (search_events (\<lambda>_. True) (\<lambda>e. Inr (f e)) s a b reverse cap) =
     (at_most cap (filter f ((if reverse then rev else id)
        (between a (case b of None \<Rightarrow> int (length L) | Some e \<Rightarrow> e + 1) L))), None)"
proof -
  have "cache_size (open_stream i u fs) = 25" by (simp add: open_stream_def)
  then obtain ds where ds: "stream_ok s ds" "log_of ds = L"
    using run_invariant[OF assms(2) stream_ok_open[OF assms(1)]] by blast
  have "case cap of None \<Rightarrow> True | Some l \<Rightarrow> 0 < l" using assms(3) by auto
  moreover have "length ds = length L" using ds(2) by auto
  ultimately show ?thesis using search_spec[OF ds(1), of cap f a b reverse] unfolding ds(2) by (cases b) simp_all
qed

theorem search_returns_the_log_witness:
  "snd (search_events (\<lambda>_. True) (\<lambda>e. Inr (is_action e)) (open_stream ''c1'' None (files sample_stream)) 0 None True (Some 5)) =
     ([sample_stored\<lparr>ev_id := Some 0\<rparr>], None)"
proof -
  have r: "stream_run (open_stream ''c1'' None []) ([] @ [last (queue sample_stream)]) sample_stream"
    by (rule run_add[OF run_start sample_add])
  have i: "sid sample_stream = ''c1''" "stream_user sample_stream = None" by (code_simp, code_simp)
  have "stream_run (open_stream ''c1'' None []) [sample_stored\<lparr>ev_id := Some 0\<rparr>] (open_stream ''c1'' None (files sample_stream))"
    using run_restart[OF r] by (simp add: i sample_queue)
  from search_returns_the_log[OF _ this, of "Some 5" 5 is_action 0 None True] show ?thesis
    by (simp add: at_most_def between_def sample_stored_def is_action_def blank_def actions_def)
qed

text \<open>
  C2: After any such run the events have the ids 0, 1, 2, ... in the order they were added,
  also across restarts; the latest event id is the last of them and get_latest_event reads
  that event, or raises FileNotFoundError when there is none.
\<close>

theorem ids_are_consecutive:
  assumes "\<forall>p\<in>set (map fst fs). \<not> startswith p (get_conversation_dir i u)"
    and "stream_run (open_stream i u fs) L s"
  shows "map eid L = map int [0..<length L] \<and> snd (get_latest_event_id s) = int (length L) - 1 \<and>
     (if L = [] then snd (get_latest_event s) = Inl (FileNotFoundError (get_filename_for_id s (-1)))
      else snd (get_latest_event s) = Inr (last L))"
proof -
  have "cache_size (open_stream i u fs) = 25" by (simp add: open_stream_def)
  then obtain ds where ds: "stream_ok s ds" "log_of ds = L"
    using run_invariant[OF assms(2) stream_ok_open[OF assms(1)]] by blast
  have n: "length L = length ds" "snd (cur_id s) = int (length ds)" using ds by (auto simp: stream_ok_def)
  have f: "mem_read (get_filename_for_id s' k) (files s') =
        (if 0 \<le> k \<and> k < int (length ds) then Inr (Json (PDict (ds ! nat k)))
         else Inl (FileNotFoundError (get_filename_for_id s' k)))" if "s' = fst (cur_id s)" for k s'
    using stream_ok_cur_id[OF ds(1)] that unfolding stream_ok_def files_ok_def by blast
  have nm: "get_filename_for_id (fst (cur_id s)) k = get_filename_for_id s k" for k
    by (simp add: cur_id_def filename_simps split: option.split)
  have "snd (get_latest_event s) = get_event (fst (cur_id s)) (int (length ds) - 1)"
    using n by (cases "cur_id s") (simp add: get_latest_event_def)
  moreover have "get_event (fst (cur_id s)) (-1) = Inl (FileNotFoundError (get_filename_for_id s (-1)))"
    using f[of "fst (cur_id s)" "-1"] nm by (simp add: get_event_def)
  moreover have "get_event (fst (cur_id s)) (int (length ds) - 1) = Inr (last L)" if "L \<noteq> []"
  proof -
    have len: "length ds - 1 < length ds" "L ! (length ds - 1) = last L" using that n(1) by (cases L, simp_all add: last_conv_nth)
    then have "is_ok (event_from_dict (ds ! (length ds - 1)))" using ds(1) by (simp add: stream_ok_def)
    then obtain e where e: "event_from_dict (ds ! (length ds - 1)) = Inr e"
      by (cases "event_from_dict (ds ! (length ds - 1))") auto
    have "e = last L" using nth_log_of[OF len(1) e] ds(2) len(2) by simp
    moreover have k: "nat (int (length ds) - 1) = length ds - 1" by simp
    ultimately show ?thesis using f[of "fst (cur_id s)" "int (length ds) - 1"] e len(1)
      by (cases ds) (simp_all add: get_event_def parse_event_def k)
  qed
  ultimately show ?thesis using log_ids[OF ds(1)] ds(2) n by (auto simp: get_latest_event_id_def split: prod.split)
qed

theorem ids_are_consecutive_witness:
  "map eid [sample_stored\<lparr>ev_id := Some 0\<rparr>] = [0] \<and> snd (get_latest_event sample_stream) = Inr (sample_stored\<lparr>ev_id := Some 0\<rparr>)"
proof -
  have r: "stream_run (open_stream ''c1'' None []) ([] @ [last (queue sample_stream)]) sample_stream"
    by (rule run_add[OF run_start sample_add])
  show ?thesis using ids_are_consecutive[OF _ r] by (simp add: sample_queue)
qed

section \<open>Secrets\<close>

lemma contains_marker:
  assumes "plain_secret v" "contains v (xs @ ''<secret_hidden>'' @ ys)"
  shows "contains v xs \<or> contains v ys"
proof -
  have "contains v xs \<or> contains v (''secret_hidden'' @ CHR ''>'' # ys)"
    using contains_break[of "CHR ''<''" v xs "''secret_hidden'' @ CHR ''>'' # ys"] assms by (simp add: plain_secret_def)
  then show ?thesis
    using contains_break[of "CHR ''>''" v "''secret_hidden''" ys] assms(1) unfolding plain_secret_def by blast
qed

lemma replace_ne_Cons:
  "replace_ne w m (c # cs) =
     (if w \<noteq> [] \<and> startswith (c # cs) w then m @ replace_ne w m (drop (length w) (c # cs)) else c # replace_ne w m cs)"
  by (subst replace_ne.simps) simp

lemma replace_ne_adds_nothing:
  assumes "plain_secret v"
  shows "contains v (p @ replace_ne w ''<secret_hidden>'' s) \<Longrightarrow> contains v (p @ s)"
proof (induction w "''<secret_hidden>''" s arbitrary: p rule: replace_ne.induct)
  case (1 w s)
  show ?case
  proof (cases s)
    case Nil
    then show ?thesis using "1.prems" by (simp add: replace_ne.simps)
  next
    case (Cons c cs)
    show ?thesis
    proof (cases "w \<noteq> [] \<and> startswith s w")
      case True
      then have s: "s = w @ drop (length w) s" by (auto simp: startswith_iff)
      have "contains v (p @ ''<secret_hidden>'' @ replace_ne w ''<secret_hidden>'' (drop (length w) s))"
        using "1.prems" True Cons by (simp add: replace_ne_Cons)
      then consider "contains v p" | "contains v (replace_ne w ''<secret_hidden>'' (drop (length w) s))"
        using contains_marker[OF assms] by blast
      then show ?thesis
      proof cases
        case 1
        then show ?thesis using contains_mono[of v p "[]" s] by simp
      next
        case 2
        then have "contains v (drop (length w) s)" using "1.hyps"(1)[OF Cons True, of "[]"] Cons by simp
        then show ?thesis using contains_mono[of v "drop (length w) s" "p @ w" "[]"] s by simp
      qed
    next
      case False
      then have "replace_ne w ''<secret_hidden>'' s = c # replace_ne w ''<secret_hidden>'' cs"
        using Cons by (auto simp: replace_ne_Cons)
      then have "contains v ((p @ [c]) @ replace_ne w ''<secret_hidden>'' cs)" using "1.prems" by simp
      from "1.hyps"(2)[OF Cons False this] show ?thesis using Cons by simp
    qed
  qed
qed

lemma replace_ne_removes:
  assumes "plain_secret v"
  shows "(\<forall>i<length p. \<not> startswith (drop i (p @ s)) v) \<Longrightarrow> \<not> contains v (p @ replace_ne v ''<secret_hidden>'' s)"
  using assms
proof (induction v "''<secret_hidden>''" s arbitrary: p rule: replace_ne.induct)
  case (1 v s)
  have ne: "v \<noteq> []" using "1.prems"(2) by (simp add: plain_secret_def)
  have p: "\<not> contains v p"
  proof
    assume "contains v p"
    then obtain a b where "p = a @ v @ b" by (auto simp: contains_iff)
    then have "startswith (drop (length a) (p @ s)) v" "length a < length p" using ne by (simp_all add: startswith_iff)
    then show False using "1.prems"(1) by blast
  qed
  show ?case
  proof (cases s)
    case Nil
    then show ?thesis using p by (simp add: replace_ne.simps)
  next
    case (Cons c cs)
    show ?thesis
    proof (cases "startswith s v")
      case True
      then have m: "v \<noteq> [] \<and> startswith s v" using ne by simp
      have "\<not> contains v (replace_ne v ''<secret_hidden>'' (drop (length v) s))"
        using "1.hyps"(1)[OF Cons _ , of "[]"] m Cons "1.prems"(2) by simp
      then have "\<not> contains v (p @ ''<secret_hidden>'' @ replace_ne v ''<secret_hidden>'' (drop (length v) s))"
        using p contains_marker[OF "1.prems"(2)] by blast
      then show ?thesis using m Cons by (simp add: replace_ne_Cons)
    next
      case False
      have "\<forall>i<length (p @ [c]). \<not> startswith (drop i ((p @ [c]) @ cs)) v"
        using "1.prems"(1) False Cons by (auto simp: less_Suc_eq)
      then have "\<not> contains v ((p @ [c]) @ replace_ne v ''<secret_hidden>'' cs)"
        using "1.hyps"(2)[OF Cons, of "p @ [c]"] False Cons "1.prems"(2) by simp
      then show ?thesis using False Cons by (simp add: replace_ne_Cons)
    qed
  qed
qed

lemma intersperse_adds_nothing:
  assumes "plain_secret v"
  shows "contains v (p @ intersperse_all ''<secret_hidden>'' s) \<Longrightarrow> contains v (p @ s)"
proof (induction s arbitrary: p)
  case Nil
  then show ?case using contains_marker[OF assms, of p "[]"] assms by (auto simp: plain_secret_def)
next
  case (Cons c cs)
  then consider "contains v p" | "contains v ([c] @ intersperse_all ''<secret_hidden>'' cs)"
    using contains_marker[OF assms, of p "c # intersperse_all ''<secret_hidden>'' cs"] by auto
  then show ?case
  proof cases
    case 1
    then show ?thesis using contains_mono[of v p "[]" "c # cs"] by simp
  next
    case 2
    then have "contains v ([c] @ cs)" by (rule Cons.IH)
    then show ?thesis using contains_mono[of v "c # cs" p "[]"] by simp
  qed
qed

lemma replace_adds_nothing: "plain_secret v \<Longrightarrow> contains v (replace s w ''<secret_hidden>'') \<Longrightarrow> contains v s"
  using intersperse_adds_nothing[of v "[]" s] replace_ne_adds_nothing[of v "[]" w s]
  by (auto simp: replace_def split: if_splits)

lemma hide_keeps_out:
  assumes "plain_secret v" shows "\<not> contains v s \<Longrightarrow> \<not> contains v (hide vals s)"
  using replace_adds_nothing[OF assms] by (induction vals arbitrary: s) (auto simp: hide_def)

lemma hide_removes:
  assumes "plain_secret v" "v \<in> set vals" shows "\<not> contains v (hide vals s)"
  using assms(2)
proof (induction vals arbitrary: s)
  case (Cons w vals)
  have h: "hide (w # vals) s = hide vals (replace s w ''<secret_hidden>'')" by (simp add: hide_def)
  show ?case
  proof (cases "w = v")
    case True
    have "\<not> contains v (replace s v ''<secret_hidden>'')"
      using replace_ne_removes[OF assms(1), of "[]" s] assms(1) by (simp add: replace_def plain_secret_def)
    then show ?thesis using h hide_keeps_out[OF assms(1)] True by simp
  next
    case False
    then show ?thesis using Cons h by simp
  qed
qed simp

lemma replaced_values_clean:
  assumes "plain_secret v" "v \<in> set vals"
  shows "list_all (\<lambda>t. \<not> contains v t) (exposed_strings (replace_secrets_value vals x))"
    "list_all (\<lambda>t. \<not> contains v t) (exposed_in (replace_secrets_in vals False d))"
proof (induction x and d rule: exposed_strings_exposed_in.induct)
  case (1 s)
  then show ?case using hide_removes[OF assms] by simp
qed simp_all



section \<open>Delivery\<close>

lemma insert_key_mset: "mset (insert_key k ks) = add_mset k (mset ks)"
  by (induction ks) auto

lemma sorted_keys_mset: "mset (sorted_keys ks) = mset ks"
  unfolding sorted_keys_def by (induction ks) (simp_all add: insert_key_mset)

lemma insert_key_sorted:
  "sorted_wrt (\<lambda>x y. \<not> str_less y x) ks \<Longrightarrow> sorted_wrt (\<lambda>x y. \<not> str_less y x) (insert_key k ks)"
proof (induction ks)
  case (Cons x ks)
  have set: "set (insert_key k ks) = insert k (set ks)"
    using insert_key_mset[of k ks] by (metis set_mset_add_mset_insert set_mset_mset)
  show ?case
  proof (cases "str_less x k")
    case True
    have "\<not> str_less k x" using True str_less_trans str_less_irrefl by blast
    then show ?thesis using Cons True set by simp
  next
    case False
    have "\<not> str_less y k" if "y \<in> set ks" for y
      using that Cons.prems False str_less_linear str_less_trans by (metis sorted_wrt.simps(2))
    then show ?thesis using Cons False by simp
  qed
qed simp

text \<open>
  An event that cannot be serialized still uses up an id. The next full cache page then
  has one event too few for its name, and a search returns event 2 twice and event 1 never
  (pages of two events here).
\<close>

theorem failed_add_duplicates_an_event:
  "map eid (fst (snd (search_events (\<lambda>_. True) (\<lambda>e. Inr True) gap_run 0 None False None))) = [0, 2, 2]"
  by code_simp

lemma sorted_keys_sorted: "sorted_wrt (\<lambda>x y. \<not> str_less y x) (sorted_keys ks)"
  unfolding sorted_keys_def by (induction ks) (simp_all add: insert_key_sorted)

lemma sorted_wrt_blocks:
  assumes "sorted_wrt R ks" "\<forall>k\<in>set ks. \<forall>x\<in>set (f k). g x = k" "\<forall>k. R k k"
  shows "sorted_wrt (\<lambda>x y. R (g x) (g y)) (concat (map f ks))"
  using assms(1,2)
proof (induction ks)
  case (Cons k ks)
  have "sorted_wrt (\<lambda>x y. R (g x) (g y)) (f k)"
    using Cons.prems(2) assms(3) by (auto intro: sorted_wrt_mono_rel[of _ "\<lambda>_ _. True"] simp: sorted_wrt_iff_nth_less)
  then show ?case using Cons by (auto simp: sorted_wrt_append)
qed simp

lemma concat_map_mset: "mset ks = mset ks' \<Longrightarrow> mset (concat (map f ks)) = mset (concat (map f ks'))"
proof -
  assume "mset ks = mset ks'"
  then have "mset (map f ks) = mset (map f ks')" unfolding mset_map by simp
  then show ?thesis unfolding mset_concat by (metis mset_map sum_mset_sum_list)
qed

lemma dict_entries:
  assumes "distinct (map fst d)" shows "map (\<lambda>k. (k, the (map_of d k))) (map fst d) = d"
proof -
  have "map (\<lambda>p. (fst p, the (map_of d (fst p)))) d = d"
  proof (rule map_idI)
    fix p assume "p \<in> set d"
    then have "map_of d (fst p) = Some (snd p)" using map_of_is_SomeI[OF assms, of "fst p" "snd p"] by simp
    then show "(fst p, the (map_of d (fst p))) = p" by simp
  qed
  then show ?thesis by (simp add: comp_def)
qed

text \<open>
  Taking one event from the queue submits it exactly once to every registered callback,
  subscribers in the order of their ids, and leaves the rest of the queue as it was.
\<close>

theorem delivery_in_subscriber_order:
  assumes "queue s = e # q" and "distinct (map fst (subscribers s))"
  shows "fst (process_queue_step s) = s\<lparr>queue := q\<rparr> \<and>
     mset (snd (process_queue_step s)) =
       mset (concat (map (\<lambda>(k, cbs). map (\<lambda>c. (k, fst c, e)) cbs) (subscribers s))) \<and>
     sorted_wrt (\<lambda>x y. \<not> str_less (fst y) (fst x)) (snd (process_queue_step s))"
proof -
  let ?ks = "map fst (subscribers s)"
  let ?f = "\<lambda>k. map (\<lambda>c. (k, fst c, e)) (the (map_of (subscribers s) k))"
  have st: "process_queue_step s = (s\<lparr>queue := q\<rparr>, concat (map ?f (sorted_keys ?ks)))"
    using assms(1) by (simp add: process_queue_step_def)
  have "concat (map ?f ?ks) =
      concat (map (\<lambda>(k, cbs). map (\<lambda>c. (k, fst c, e)) cbs) (map (\<lambda>k. (k, the (map_of (subscribers s) k))) ?ks))"
    by (simp add: comp_def)
  also have "\<dots> = concat (map (\<lambda>(k, cbs). map (\<lambda>c. (k, fst c, e)) cbs) (subscribers s))"
    unfolding dict_entries[OF assms(2)] ..
  finally have m: "mset (concat (map ?f (sorted_keys ?ks))) =
      mset (concat (map (\<lambda>(k, cbs). map (\<lambda>c. (k, fst c, e)) cbs) (subscribers s)))"
    using concat_map_mset[OF sorted_keys_mset, of ?f ?ks] by simp
  have "sorted_wrt (\<lambda>x y. \<not> str_less (fst y) (fst x)) (concat (map ?f (sorted_keys ?ks)))"
    by (rule sorted_wrt_blocks[of "\<lambda>x y. \<not> str_less y x"]) (auto simp: sorted_keys_sorted str_less_irrefl)
  then show ?thesis using st m by simp
qed

theorem delivery_in_subscriber_order_witness:
  "snd (process_queue_step (fst (subscribe ''main'' ''m1'' (fst (subscribe ''agent_controller'' ''a1'' sample_stream))))) =
     [(''agent_controller'', ''a1'', sample_stored\<lparr>ev_id := Some 0\<rparr>), (''main'', ''m1'', sample_stored\<lparr>ev_id := Some 0\<rparr>)]"
proof -
  let ?s = "fst (subscribe ''main'' ''m1'' (fst (subscribe ''agent_controller'' ''a1'' sample_stream)))"
  have q: "queue ?s = sample_stored\<lparr>ev_id := Some 0\<rparr> # []" by code_simp
  have b: "subscribers ?s = [(''agent_controller'', [(''a1'', ())]), (''main'', [(''m1'', ())])]" by code_simp
  have "mset (snd (process_queue_step ?s)) =
     {#(''agent_controller'', ''a1'', sample_stored\<lparr>ev_id := Some 0\<rparr>), (''main'', ''m1'', sample_stored\<lparr>ev_id := Some 0\<rparr>)#}"
    and "sorted_wrt (\<lambda>x y. \<not> str_less (fst y) (fst x)) (snd (process_queue_step ?s))"
    using delivery_in_subscriber_order[OF q] by (simp_all add: b)
  then show ?thesis by (cases "snd (process_queue_step ?s)") (auto simp: add_eq_conv_ex)
qed

text \<open>
  The id is recovered from the name of an event file, different ids have different files,
  and no cache page has the name of an event file.
\<close>

theorem event_file_names:
  "get_id_from_filename (get_filename_for_id s i) = i \<and>
   (get_filename_for_id s i = get_filename_for_id s j) = (i = j) \<and>
   get_filename_for_cache s a b \<noteq> get_filename_for_id s i"
  by (simp add: filename_inject cache_not_event)

end
