(* ===== verification/Control_Flags.thy ===== *)
theory Control_Flags
  imports OH_Prelude
begin

text \<open>
  The limits of an agent run (\<^verbatim>\<open>openhands/controller/state/control_flags.py\<close>): the
  iteration flag counts steps, the budget flag compares the accumulated cost with a
  limit.  A method that raises also leaves \<^verbatim>\<open>_hit_limit\<close> changed, so a step returns the
  new flag and the raised error, if any.  The locale \<open>limit_flag\<close> states what the state
  tracker relies on; both flags are interpretations of it.
\<close>

section \<open>The flags\<close>

record 'a control_flag =
  limit_increase_amount :: 'a
  current_value :: 'a
  max_value :: 'a
  headless_mode :: bool
  hit_limit :: bool

type_synonym iteration_flag = "int control_flag"
type_synonym budget_flag = "rat control_flag"

definition fmt2 :: "rat \<Rightarrow> string" where
  \<comment> \<open>\<^verbatim>\<open>f'{x:.2f}'\<close>: two decimals, ties to the even hundredth\<close>
  "fmt2 x =
     (let y = \<bar>x\<bar> * 100; f = \<lfloor>y\<rfloor>; r = y - of_int f;
          h = nat (if r < 1/2 \<or> (r = 1/2 \<and> even f) then f else f + 1)
      in (if x < 0 then ''-'' else []) @ str_of_nat (h div 100) @ ''.''
         @ [digit_char (h div 10 mod 10), digit_char (h mod 10)])"

definition iteration_reached_limit :: "iteration_flag \<Rightarrow> iteration_flag \<times> bool" where
  "iteration_reached_limit f =
     (let hit = (current_value f \<ge> max_value f) in (f\<lparr>hit_limit := hit\<rparr>, hit))"

definition iteration_increase_limit :: "bool \<Rightarrow> iteration_flag \<Rightarrow> iteration_flag" where
  "iteration_increase_limit headless f =
     (if \<not> headless \<and> hit_limit f
      then f\<lparr>max_value := max_value f + limit_increase_amount f, hit_limit := False\<rparr>
      else f)"

definition iteration_limit_message :: "iteration_flag \<Rightarrow> string" where
  "iteration_limit_message f =
     ''Agent reached maximum iteration. Current iteration: '' @ str_of_int (current_value f)
       @ '', max iteration: '' @ str_of_int (max_value f)"

definition iteration_step :: "iteration_flag \<Rightarrow> iteration_flag \<times> pyerr option" where
  "iteration_step f =
     (let (f', hit) = iteration_reached_limit f
      in if hit then (f', Some (RuntimeError (iteration_limit_message f')))
         else (f'\<lparr>current_value := current_value f' + 1\<rparr>, None))"

definition budget_reached_limit :: "budget_flag \<Rightarrow> budget_flag \<times> bool" where
  "budget_reached_limit f =
     (let hit = (current_value f \<ge> max_value f) in (f\<lparr>hit_limit := hit\<rparr>, hit))"

definition budget_increase_limit :: "bool \<Rightarrow> budget_flag \<Rightarrow> budget_flag" where
  "budget_increase_limit headless f =
     (if hit_limit f
      then f\<lparr>max_value := current_value f + limit_increase_amount f, hit_limit := False\<rparr>
      else f)"

definition budget_limit_message :: "budget_flag \<Rightarrow> string" where
  "budget_limit_message f =
     ''Agent reached maximum budget for conversation.Current budget: '' @ fmt2 (current_value f)
       @ '', max budget: '' @ fmt2 (max_value f)"

definition budget_step :: "budget_flag \<Rightarrow> budget_flag \<times> pyerr option" where
  "budget_step f =
     (let (f', hit) = budget_reached_limit f
      in if hit then (f', Some (RuntimeError (budget_limit_message f'))) else (f', None))"

section \<open>What a limit flag promises\<close>

text \<open>
  \<open>reached\<close> is the test the flag makes on its state, \<open>tick\<close> its \<^verbatim>\<open>step\<close> and \<open>grow\<close> its
  \<^verbatim>\<open>increase_limit\<close> when the extension applies.
\<close>

locale limit_flag =
  fixes reached :: "'s \<Rightarrow> bool"
    and tick :: "'s \<Rightarrow> 's \<times> pyerr option"
    and marked :: "'s \<Rightarrow> bool"
  assumes tick_raises: "reached s \<Longrightarrow> snd (tick s) \<noteq> None \<and> reached (fst (tick s)) \<and> marked (fst (tick s))"
    and tick_passes: "\<not> reached s \<Longrightarrow> snd (tick s) = None \<and> \<not> marked (fst (tick s))"
begin

lemma raises_iff: "snd (tick s) \<noteq> None \<longleftrightarrow> reached s"
  using tick_raises[of s] tick_passes[of s] by (cases "reached s") auto

lemma reached_stays: "reached s \<Longrightarrow> reached (((\<lambda>s. fst (tick s)) ^^ n) s)"
proof (induction n)
  case (Suc n)
  then show ?case using tick_raises by (simp only: funpow.simps o_apply)
qed simp

lemma reached_absorbing: "reached s \<Longrightarrow> snd (tick (((\<lambda>s. fst (tick s)) ^^ n) s)) \<noteq> None"
  using reached_stays raises_iff by blast

lemma marked_after_tick: "marked (fst (tick s)) \<longleftrightarrow> reached s"
  using tick_raises[of s] tick_passes[of s] by (cases "reached s") auto

end

abbreviation at_limit :: "('a::linorder) control_flag \<Rightarrow> bool" where
  "at_limit f \<equiv> max_value f \<le> current_value f"

interpretation iter_flag: limit_flag at_limit iteration_step hit_limit
  by unfold_locales
    (auto simp: iteration_step_def iteration_reached_limit_def Let_def split: if_splits)

interpretation bud_flag: limit_flag at_limit budget_step hit_limit
  by unfold_locales
    (auto simp: budget_step_def budget_reached_limit_def Let_def split: if_splits)

section \<open>Counting steps\<close>

fun iteration_steps :: "nat \<Rightarrow> iteration_flag \<Rightarrow> iteration_flag \<times> nat" where
  \<comment> \<open>\<open>n\<close> attempts to step; the number of those that did not raise\<close>
  "iteration_steps 0 f = (f, 0)"
| "iteration_steps (Suc n) f =
     (let (f', e) = iteration_step f; (f'', k) = iteration_steps n f'
      in (f'', (if e = None then Suc k else k)))"

lemma iteration_step_pass:
  "\<not> at_limit f \<Longrightarrow>
     iteration_step f = (f\<lparr>hit_limit := False, current_value := current_value f + 1\<rparr>, None)"
  by (simp add: iteration_step_def iteration_reached_limit_def Let_def)

lemma iteration_step_stop:
  "at_limit f \<Longrightarrow> iteration_step f =
     (f\<lparr>hit_limit := True\<rparr>, Some (RuntimeError (iteration_limit_message f)))"
  by (simp add: iteration_step_def iteration_reached_limit_def iteration_limit_message_def Let_def)

lemma iteration_steps_count:
  "snd (iteration_steps n f) = min n (nat (max_value f - current_value f))"
proof (induction n arbitrary: f)
  case 0
  then show ?case by simp
next
  case (Suc n)
  show ?case
  proof (cases "at_limit f")
    case True
    then show ?thesis
      by (simp add: iteration_step_stop Suc.IH case_prod_beta)
  next
    case False
    then show ?thesis
      by (simp add: iteration_step_pass Suc.IH case_prod_beta min_def) arith
  qed
qed

lemma iteration_steps_current:
  "current_value (fst (iteration_steps n f)) =
     current_value f + int (snd (iteration_steps n f))"
proof (induction n arbitrary: f)
  case (Suc n)
  show ?case
    by (cases "at_limit f")
      (auto simp: iteration_step_stop iteration_step_pass Suc.IH case_prod_beta)
qed simp

lemma iteration_steps_max [frame_simps]:
  "max_value (fst (iteration_steps n f)) = max_value f \<and>
   limit_increase_amount (fst (iteration_steps n f)) = limit_increase_amount f"
proof (induction n arbitrary: f)
  case (Suc n)
  show ?case
    by (cases "at_limit f")
      (auto simp: iteration_step_stop iteration_step_pass Suc.IH case_prod_beta)
qed simp

lemma iteration_steps_hit:
  "at_limit f \<Longrightarrow> 0 < n \<Longrightarrow> hit_limit (fst (iteration_steps n f))"
proof (induction n arbitrary: f)
  case (Suc n)
  then show ?case
    by (cases n) (auto simp: iteration_step_stop case_prod_beta)
qed simp

end
