(* ===== verification/Conversation_Stats.thy ===== *)
theory Conversation_Stats
  imports File_Store
begin

text \<open>
  The costs of a conversation, per LLM service
  (\<^verbatim>\<open>openhands/server/services/conversation_stats.py\<close>).  The file store is passed in and out;
  \<open>stats_store\<close> says whether the object has one.  The metrics object of a registered LLM and
  the entry of \<^verbatim>\<open>service_to_metrics\<close> are one object in the code; here the entry is the only
  copy, and what an LLM adds to its metrics is a change of the entry.
\<close>

section \<open>The service\<close>

record conv_stats =
  stats_store :: bool
  conversation_id :: string
  stats_user :: "string option"
  service_to_metrics :: "(string, metrics) dict"
  restored_metrics :: "(string, metrics) dict"

definition metrics_path :: "conv_stats \<Rightarrow> string" where
  "metrics_path s = get_conversation_stats_filename (conversation_id s) (stats_user s)"

definition maybe_restore_metrics :: "'st files \<Rightarrow> conv_stats \<Rightarrow> conv_stats res" where
  "maybe_restore_metrics fs s =
     (if \<not> stats_store s \<or> conversation_id s = [] then Inr s
      else case mem_read (metrics_path s) fs of
             Inr (StatsPickle d) \<Rightarrow> Inr (s\<lparr>restored_metrics := d\<rparr>)
           | Inr _ \<Rightarrow> Inl (NotModelled ''stats file with other contents'')
           | Inl (FileNotFoundError _) \<Rightarrow> Inr s
           | Inl err \<Rightarrow> Inl err)"

definition stats_init :: "'st files \<Rightarrow> bool \<Rightarrow> string \<Rightarrow> string option \<Rightarrow> conv_stats res" where
  "stats_init fs has_store cid user =
     maybe_restore_metrics fs
       \<lparr>stats_store = has_store, conversation_id = cid, stats_user = user, service_to_metrics = [],
        restored_metrics = []\<rparr>"

definition combined :: "conv_stats \<Rightarrow> (string, metrics) dict" where
  "combined s = dict_update (restored_metrics s) (service_to_metrics s)"

definition save_metrics :: "conv_stats \<Rightarrow> 'st files \<Rightarrow> 'st files" where
  "save_metrics s fs =
     (if \<not> stats_store s then fs else mem_write (metrics_path s) (StatsPickle (combined s)) fs)"

definition get_combined_metrics :: "conv_stats \<Rightarrow> metrics" where
  "get_combined_metrics s = fold (\<lambda>m total. merge total m) (map snd (service_to_metrics s)) (metrics_init ''default'')"

definition get_metrics_for_service :: "string \<Rightarrow> conv_stats \<Rightarrow> metrics res" where
  "get_metrics_for_service k s =
     (case map_of (service_to_metrics s) k of
        None \<Rightarrow> Inl (PyException (''LLM service does not exist '' @ k)) | Some m \<Rightarrow> Inr m)"

definition register_llm :: "string \<Rightarrow> metrics \<Rightarrow> conv_stats \<Rightarrow> conv_stats" where
  \<comment> \<open>the second argument is the metrics object the new LLM was made with\<close>
  "register_llm k fresh s =
     (case map_of (restored_metrics s) k of
        Some m \<Rightarrow>
          s\<lparr>restored_metrics := dict_del k (restored_metrics s),
            service_to_metrics := dict_set k m (service_to_metrics s)\<rparr>
      | None \<Rightarrow> s\<lparr>service_to_metrics := dict_set k fresh (service_to_metrics s)\<rparr>)"

definition drop_zero_cost :: "(string, metrics) dict \<Rightarrow> (string, metrics) dict" where
  "drop_zero_cost d = filter (\<lambda>p. accumulated_cost (snd p) \<noteq> 0) d"

definition merge_and_save :: "conv_stats \<Rightarrow> conv_stats \<Rightarrow> 'st files \<Rightarrow> conv_stats \<times> conv_stats \<times> 'st files" where
  \<comment> \<open>\<^verbatim>\<open>self.merge_and_save(other)\<close>: both objects and the store afterwards\<close>
  "merge_and_save s other fs =
     (let other' = other\<lparr>restored_metrics := drop_zero_cost (restored_metrics other)\<rparr>;
          s' = s\<lparr>restored_metrics := dict_update (drop_zero_cost (restored_metrics s)) (restored_metrics other')\<rparr>
      in (s', other', save_metrics s' fs))"

definition llm_spends :: "string \<Rightarrow> metric_op \<Rightarrow> conv_stats \<Rightarrow> conv_stats" where
  \<comment> \<open>an LLM of service \<open>k\<close> records something in its metrics\<close>
  "llm_spends k oper s =
     (case map_of (service_to_metrics s) k of
        None \<Rightarrow> s | Some m \<Rightarrow> s\<lparr>service_to_metrics := dict_set k (apply_metric_op oper m) (service_to_metrics s)\<rparr>)"

definition known :: "conv_stats \<Rightarrow> string \<Rightarrow> metrics option" where
  \<comment> \<open>what is known of a service, registered or not\<close>
  "known s k = (case map_of (service_to_metrics s) k of Some m \<Rightarrow> Some m | None \<Rightarrow> map_of (restored_metrics s) k)"

inductive stats_run :: "conv_stats \<Rightarrow> 'st files \<Rightarrow> conv_stats \<Rightarrow> 'st files \<Rightarrow> bool" for s0 fs0 where
  \<comment> \<open>registrations of new services, saves, and a restart on what was saved last\<close>
  stats_start: "stats_run s0 fs0 s0 fs0"
| stats_register: "stats_run s0 fs0 s fs \<Longrightarrow> map_of (service_to_metrics s) k = None \<Longrightarrow>
     stats_run s0 fs0 (register_llm k fresh s) fs"
| stats_spend: "stats_run s0 fs0 s fs \<Longrightarrow> op_ok oper \<Longrightarrow> stats_run s0 fs0 (llm_spends k oper s) fs"
| stats_save: "stats_run s0 fs0 s fs \<Longrightarrow> stats_run s0 fs0 s (save_metrics s fs)"
| stats_restart: "stats_run s0 fs0 s fs \<Longrightarrow> stats_init (save_metrics s fs) True (conversation_id s) (stats_user s) = Inr s' \<Longrightarrow>
     stats_run s0 fs0 s' (save_metrics s fs)"

definition sample_ledger :: metrics where
  "sample_ledger = apply_metric_op (AddCost 1 (1/2)) (metrics_init ''gpt'')"

definition sample_stats :: conv_stats where
  "sample_stats = \<lparr>stats_store = True, conversation_id = ''c1'', stats_user = None,
     service_to_metrics = [(''agent'', sample_ledger)], restored_metrics = []\<rparr>"

section \<open>Nothing is lost\<close>

lemma map_of_rev_dict: "distinct (map fst d) \<Longrightarrow> map_of (rev d) = map_of d"
  by (rule map_of_inject_set[THEN iffD2]) (simp_all add: rev_map[symmetric])

lemma map_of_combined: "distinct (map fst (service_to_metrics s)) \<Longrightarrow> map_of (combined s) = known s"
  by (auto simp: combined_def known_def map_of_rev_dict fun_eq_iff)

lemma distinct_dict_update: "distinct (map fst d) \<Longrightarrow> distinct (map fst (dict_update d e))"
  by (induction d e rule: dict_update.induct) simp_all

lemma distinct_dict_del: "distinct (map fst d) \<Longrightarrow> distinct (map fst (dict_del k d))"
  by (simp add: dict_del_def distinct_map_filter)

lemma known_register:
  "map_of (service_to_metrics s) k = None \<Longrightarrow> known s j = Some m \<Longrightarrow> known (register_llm k fresh s) j = Some m"
  by (auto simp: known_def register_llm_def split: option.splits if_splits)

lemma known_spends:
  "known (llm_spends k oper s) j =
     (if j = k then (case map_of (service_to_metrics s) k of None \<Rightarrow> known s j | Some m \<Rightarrow> Some (apply_metric_op oper m))
      else known s j)"
  by (auto simp: known_def llm_spends_def split: option.splits)

lemma known_restart:
  assumes "stats_init (save_metrics s fs) True (conversation_id s) (stats_user s) = Inr s'" "stats_store s"
    "conversation_id s \<noteq> []" "distinct (map fst (service_to_metrics s))"
  shows "known s' = known s" "restored_metrics s' = combined s" "service_to_metrics s' = []" "stats_store s'"
    "conversation_id s' = conversation_id s"
proof -
  have "s' = \<lparr>stats_store = True, conversation_id = conversation_id s, stats_user = stats_user s, service_to_metrics = [],
        restored_metrics = combined s\<rparr>"
    using assms(1-3) by (simp add: stats_init_def maybe_restore_metrics_def save_metrics_def metrics_path_def mem.read_write)
  then show "restored_metrics s' = combined s" "service_to_metrics s' = []" "stats_store s'"
    "conversation_id s' = conversation_id s" by simp_all
  then show "known s' = known s" using map_of_combined[OF assms(4)] by (simp add: known_def fun_eq_iff)
qed

lemma stats_run_invariant:
  assumes "stats_run s0 fs0 s fs" "stats_store s0" "conversation_id s0 \<noteq> []"
    "distinct (map fst (service_to_metrics s0))" "known s0 k = Some m"
  shows "stats_store s \<and> conversation_id s \<noteq> [] \<and> distinct (map fst (service_to_metrics s)) \<and>
     (\<exists>ops. list_all op_ok ops \<and> known s k = Some (fold apply_metric_op ops m))"
  using assms(1)
proof (induction rule: stats_run.induct)
  case stats_start
  show ?case using assms(2-) by (auto intro: exI[of _ "[]"])
next
  case (stats_register s fs j fresh)
  then show ?case using known_register by (fastforce simp: register_llm_def split: option.splits)
next
  case (stats_spend s fs oper j)
  then obtain ops where ops: "list_all op_ok ops" "known s k = Some (fold apply_metric_op ops m)" by blast
  have "\<exists>ops. list_all op_ok ops \<and> known (llm_spends j oper s) k = Some (fold apply_metric_op ops m)"
  proof (cases "k = j \<and> map_of (service_to_metrics s) j \<noteq> None")
    case True
    then have "known (llm_spends j oper s) k = Some (fold apply_metric_op (ops @ [oper]) m)"
      using ops by (auto simp: known_spends) (simp add: known_def)
    moreover have "list_all op_ok (ops @ [oper])" using ops(1) stats_spend.hyps(2) by simp
    ultimately show ?thesis by blast
  next
    case False
    then show ?thesis using ops by (auto simp: known_spends split: option.split)
  qed
  then show ?case using stats_spend by (simp add: llm_spends_def split: option.split)
next
  case (stats_save s fs)
  then show ?case by blast
next
  case (stats_restart s fs s')
  then show ?case using known_restart[OF stats_restart.hyps(2)] by simp
qed

lemma cost_grows: "op_ok oper \<Longrightarrow> accumulated_cost m \<le> accumulated_cost (apply_metric_op oper m)"
  by (cases oper)
    (auto simp: add_cost_def add_response_latency_def add_token_usage_def merge_def Let_def
      dest: accumulated_cost_nonneg)

lemma cost_grows_run:
  "list_all op_ok ops \<Longrightarrow> accumulated_cost m \<le> accumulated_cost (fold apply_metric_op ops m)"
proof (induction ops arbitrary: m)
  case (Cons oper ops)
  then have "accumulated_cost m \<le> accumulated_cost (apply_metric_op oper m)"
    "accumulated_cost (apply_metric_op oper m) \<le> accumulated_cost (fold apply_metric_op ops (apply_metric_op oper m))"
    using cost_grows[of oper m] by simp_all
  then show ?case by simp
qed simp

lemma combined_cost_from:
  "accumulated_cost (fold (\<lambda>m total. merge total m) ms t) = accumulated_cost t + sum_list (map accumulated_cost ms)"
  by (induction ms arbitrary: t) (simp_all add: merge_def)

lemma combined_ledger:
  "ledger_ok t \<Longrightarrow> list_all ledger_ok ms \<Longrightarrow> ledger_ok (fold (\<lambda>m total. merge total m) ms t)"
  by (induction ms arbitrary: t) (simp_all add: ledger_merge)



text \<open>
  The combined metrics of the registered services cost exactly the sum of what the services
  cost, and when the ledgers of the services are consistent so is the combined ledger.
\<close>

theorem combined_metrics_add_up:
  assumes "list_all (\<lambda>p. ledger_ok (snd p)) (service_to_metrics s)"
  shows "accumulated_cost (get_combined_metrics s) = sum_list (map (\<lambda>p. accumulated_cost (snd p)) (service_to_metrics s)) \<and>
     ledger_ok (get_combined_metrics s) \<and> 0 \<le> accumulated_cost (get_combined_metrics s)"
proof -
  have "ledger_ok (get_combined_metrics s)"
    unfolding get_combined_metrics_def
    by (rule combined_ledger[OF ledger_init]) (use assms in \<open>simp add: list_all_iff\<close>)
  moreover from this have "0 \<le> accumulated_cost (get_combined_metrics s)" by (rule accumulated_cost_nonneg)
  moreover have "accumulated_cost (get_combined_metrics s) = sum_list (map (\<lambda>p. accumulated_cost (snd p)) (service_to_metrics s))"
    by (simp add: get_combined_metrics_def combined_cost_from metrics_init_def comp_def)
  ultimately show ?thesis by simp
qed

theorem combined_metrics_add_up_witness:
  "accumulated_cost (get_combined_metrics sample_stats) = 1/2 \<and> ledger_ok (get_combined_metrics sample_stats)"
proof -
  have "ledger_ok sample_ledger" unfolding sample_ledger_def by (intro ledger_step ledger_init) simp
  then show ?thesis using combined_metrics_add_up[of sample_stats]
    by (simp add: sample_stats_def) (simp add: sample_ledger_def add_cost_def metrics_init_def)
qed

end
