(* ===== verification/Agent_State.thy ===== *)
theory Agent_State
  imports Control_Flags View_Model Conversation_Stats
begin

text \<open>
  The running state of an agent (\<^verbatim>\<open>openhands/controller/state/state.py\<close>).  A \<^verbatim>\<open>State\<close> object owns
  most of its fields, but the two control flags and the metrics are objects that a parent and
  its delegates share; so a state is a pair of the owned part (\<open>state\<close>) and the shared part
  (\<open>shared\<close>).  \<open>pickle\<close> is what \<^verbatim>\<open>pickle.dumps\<close> stores; an attribute that a pickle of an older
  version lacks is \<^const>\<open>None\<close>.  Of the conversation statistics the state only holds whether they
  are set.
\<close>

section \<open>The state\<close>

record state =
  session_id :: string
  st_user :: "string option"
  has_stats :: bool
  confirmation_mode :: bool
  history :: "event list"
  inputs :: "(string, pyval) dict"
  outputs :: "(string, pyval) dict"
  agent_state :: agent_state
  resume_state :: "agent_state option"
  delegate_level :: int
  start_id :: int
  end_id :: int
  parent_metrics_snapshot :: "metrics option"
  parent_iteration :: int
  extra_data :: "(string, pyval) dict"
  last_error :: string
  history_checksum :: "int option"
  cached_view :: "view option"

record shared =
  iteration_flag :: iteration_flag
  budget_flag :: "budget_flag option"
  state_metrics :: metrics

type_synonym full_state = "state \<times> shared"

definition new_flag :: "'a \<Rightarrow> 'a \<Rightarrow> 'a \<Rightarrow> 'a control_flag" where
  \<comment> \<open>the constructor of both flag classes\<close>
  "new_flag amount current maximum =
     \<lparr>limit_increase_amount = amount, current_value = current, max_value = maximum,
      headless_mode = False, hit_limit = False\<rparr>"

definition new_state :: state where
  \<comment> \<open>the defaults of the fields\<close>
  "new_state =
     \<lparr>session_id = [], st_user = None, has_stats = False, confirmation_mode = False, history = [],
      inputs = [], outputs = [], agent_state = LOADING, resume_state = None, delegate_level = 0,
      start_id = -1, end_id = -1, parent_metrics_snapshot = None, parent_iteration = 100,
      extra_data = [], last_error = [], history_checksum = None, cached_view = None\<rparr>"

section \<open>Saving and restoring\<close>

definition RESUMABLE_STATES :: "agent_state list" where
  "RESUMABLE_STATES = [RUNNING, PAUSED, AWAITING_USER_INPUT, FINISHED]"

record pickle =
  pk_state :: state
  pk_metrics :: metrics
  pk_iteration_flag :: "iteration_flag option"
  pk_budget_flag :: "budget_flag option option"
  pk_iteration :: "int option"
  pk_max_iterations :: "int option"

definition getstate :: "full_state \<Rightarrow> pickle" where
  \<comment> \<open>\<^verbatim>\<open>__getstate__\<close>, after \<^verbatim>\<open>save_to_session\<close> has taken the statistics off\<close>
  "getstate s =
     \<lparr>pk_state = (fst s)\<lparr>has_stats := False, history := [], history_checksum := None, cached_view := None\<rparr>,
      pk_metrics = state_metrics (snd s), pk_iteration_flag = Some (iteration_flag (snd s)),
      pk_budget_flag = Some (budget_flag (snd s)), pk_iteration = None, pk_max_iterations = None\<rparr>"

definition setstate :: "pickle \<Rightarrow> full_state" where
  \<comment> \<open>\<^verbatim>\<open>__setstate__\<close>\<close>
  "setstate p =
     (let flag = (case pk_iteration p of
                    Some i \<Rightarrow> (let n = (case pk_max_iterations p of Some k \<Rightarrow> k | None \<Rightarrow> 100) in new_flag n i n)
                  | None \<Rightarrow> (case pk_iteration_flag p of Some f \<Rightarrow> f | None \<Rightarrow> new_flag 100 0 100))
      in (pk_state p,
          \<lparr>iteration_flag = flag, budget_flag = (case pk_budget_flag p of Some b \<Rightarrow> b | None \<Rightarrow> None),
           state_metrics = pk_metrics p\<rparr>))"

definition given_user :: "string option \<Rightarrow> bool" where
  \<comment> \<open>\<^verbatim>\<open>if user_id:\<close>\<close>
  "given_user u \<longleftrightarrow> u \<noteq> None \<and> u \<noteq> Some []"

definition save_to_session :: "string \<Rightarrow> string option \<Rightarrow> full_state \<Rightarrow> pickle files \<Rightarrow> pickle files" where
  "save_to_session i user s fs =
     (let fs' = mem_write (get_conversation_agent_state_filename i user) (StatePickle (getstate s)) fs
      in if given_user user then mem_delete (get_conversation_agent_state_filename i None) fs' else fs')"

definition load_pickle :: "string \<Rightarrow> pickle files \<Rightarrow> full_state res" where
  "load_pickle path fs =
     (case mem_read path fs of
        Inl err \<Rightarrow> Inl err
      | Inr (StatePickle p) \<Rightarrow> Inr (setstate p)
      | Inr _ \<Rightarrow> Inl (NotModelled ''state file with other contents''))"

definition restore_from_session :: "string \<Rightarrow> pickle files \<Rightarrow> string option \<Rightarrow> full_state res" where
  "restore_from_session i fs user =
     (let r = (case load_pickle (get_conversation_agent_state_filename i user) fs of
                 Inl (FileNotFoundError _) \<Rightarrow>
                   (if given_user user then load_pickle (get_conversation_agent_state_filename i None) fs
                    else Inl (FileNotFoundError (''Could not restore state from session file for sid: '' @ i)))
               | x \<Rightarrow> x)
      in case r of
           Inl err \<Rightarrow> Inl err
         | Inr (s, sh) \<Rightarrow>
             Inr (s\<lparr>resume_state := (if agent_state s \<in> set RESUMABLE_STATES then Some (agent_state s) else None),
                    agent_state := LOADING\<rparr>, sh))"

section \<open>What agents read\<close>

definition state_view :: "state \<Rightarrow> state \<times> view res" where
  \<comment> \<open>the property \<^verbatim>\<open>view\<close>: rebuilt when the length of the history changed\<close>
  "state_view s =
     (let n = int (length (history s))
      in if history_checksum s \<noteq> Some n
         then (let s' = s\<lparr>history_checksum := Some n\<rparr>
               in case from_events (history s) of
                    Inl err \<Rightarrow> (s', Inl err)
                  | Inr v \<Rightarrow> (s'\<lparr>cached_view := Some v\<rparr>, Inr v))
         else (s, case cached_view s of Some v \<Rightarrow> Inr v
                  | None \<Rightarrow> Inl (AttributeError ''State object has no attribute _view'')))"

fun user_intent :: "event list \<Rightarrow> pyval option \<Rightarrow> pyval \<Rightarrow> pyval option \<times> pyval" where
  \<comment> \<open>the loop of \<^verbatim>\<open>get_current_user_intent\<close> over the reversed view\<close>
  "user_intent [] msg imgs = (msg, imgs)"
| "user_intent (e # es) msg imgs =
     (if from_user e then user_intent es (attr e ''content'') (case attr e ''image_urls'' of Some v \<Rightarrow> v | None \<Rightarrow> PNone)
      else if is_a e AgentFinishAction \<and> msg \<noteq> None then (msg, PNone)
      else user_intent es msg imgs)"

definition get_current_user_intent :: "state \<Rightarrow> state \<times> (pyval option \<times> pyval) res" where
  "get_current_user_intent s =
     (let (s', r) = state_view s
      in (s', case r of Inl err \<Rightarrow> Inl err | Inr v \<Rightarrow> Inr (user_intent (rev (v_events v)) None (PList []))))"

definition last_message :: "(event \<Rightarrow> bool) \<Rightarrow> state \<Rightarrow> state \<times> (event option) res" where
  "last_message P s =
     (let (s', r) = state_view s
      in (s', case r of Inl err \<Rightarrow> Inl err | Inr v \<Rightarrow> Inr (find P (rev (v_events v)))))"

definition get_last_agent_message :: "state \<Rightarrow> state \<times> (event option) res" where
  "get_last_agent_message = last_message from_agent"

definition get_last_user_message :: "state \<Rightarrow> state \<times> (event option) res" where
  "get_last_user_message = last_message from_user"

definition get_local_step :: "full_state \<Rightarrow> int" where
  "get_local_step s =
     (if parent_iteration (fst s) = 0 then current_value (iteration_flag (snd s))
      else current_value (iteration_flag (snd s)) - parent_iteration (fst s))"

definition get_local_metrics :: "full_state \<Rightarrow> metrics" where
  "get_local_metrics s =
     (case parent_metrics_snapshot (fst s) of
        None \<Rightarrow> state_metrics (snd s) | Some base \<Rightarrow> diff (state_metrics (snd s)) base)"

section \<open>Facts\<close>

lemma setstate_getstate [simp]:
  "setstate (getstate s) = ((fst s)\<lparr>has_stats := False, history := [], history_checksum := None, cached_view := None\<rparr>, snd s)"
  by (simp add: setstate_def getstate_def)

lemma read_delete: "mem_read p (mem_delete q fs) = (if startswith p q then Inl (FileNotFoundError p) else mem_read p fs)"
  by (simp add: mem.read_deleted mem.read_kept)

lemma load_pickle_write:
  "load_pickle path (mem_write path (StatePickle p) fs) = Inr (setstate p)"
  by (simp add: load_pickle_def mem.read_write)

lemma state_path_user:
  assumes "given_user user"
  shows "\<not> startswith (get_conversation_agent_state_filename i user) (get_conversation_agent_state_filename i None)"
proof -
  obtain c u where "user = Some (c # u)" using assms by (cases user) (auto simp: given_user_def neq_Nil_conv)
  then show ?thesis
    by (auto simp: get_conversation_agent_state_filename_def get_conversation_dir_def CONVERSATION_BASE_DIR_def startswith_iff)
qed

lemma load_after_save:
  "load_pickle (get_conversation_agent_state_filename i user) (save_to_session i user s fs) = Inr (setstate (getstate s))"
proof (cases "given_user user")
  case True
  have "load_pickle p (mem_delete q fs') = load_pickle p fs'" if "\<not> startswith p q" for p q :: string and fs' :: "pickle files"
    using that by (simp add: load_pickle_def read_delete)
  then show ?thesis using True state_path_user[OF True] load_pickle_write by (simp add: save_to_session_def Let_def)
next
  case False
  then show ?thesis using load_pickle_write by (simp add: save_to_session_def Let_def)
qed

lemma restore_after_save:
  "restore_from_session i (save_to_session i user s fs) user =
     Inr ((fst s)\<lparr>has_stats := False, history := [], history_checksum := None, cached_view := None,
            resume_state := (if agent_state (fst s) \<in> set RESUMABLE_STATES then Some (agent_state (fst s)) else None),
            agent_state := LOADING\<rparr>, snd s)"
  unfolding restore_from_session_def load_after_save by simp

text \<open>
  A state that was saved to a session is restored with all its fields and with its flags and
  metrics, except that the history and the view are empty (they come back from the event
  stream), the agent is loading, and the state to resume is the saved one if it is one of the
  four resumable states. Saving for a user also removes the file of the old location.
\<close>

theorem state_survives_restart:
  "restore_from_session i (save_to_session i user s fs) user =
     Inr ((fst s)\<lparr>has_stats := False, history := [], history_checksum := None, cached_view := None,
            resume_state := (if agent_state (fst s) \<in> set RESUMABLE_STATES then Some (agent_state (fst s)) else None),
            agent_state := LOADING\<rparr>, snd s) \<and>
   mem_read (get_conversation_agent_state_filename i None) (save_to_session i user s fs) =
     (if given_user user then Inl (FileNotFoundError (get_conversation_agent_state_filename i None))
      else Inr (StatePickle (getstate s)))"
proof -
  let ?p = "get_conversation_agent_state_filename i None"
  have "mem_read ?p (mem_delete ?p fs') = Inl (FileNotFoundError ?p)" for fs' :: "pickle files"
    by (simp add: read_delete startswith_iff)
  moreover have "get_conversation_agent_state_filename i user = ?p" if "\<not> given_user user"
    using that by (auto simp: given_user_def get_conversation_agent_state_filename_def get_conversation_dir_def)
  ultimately show ?thesis
    using restore_after_save by (auto simp: save_to_session_def Let_def mem.read_write)
qed

text \<open>
  The cached view of a state is only recomputed when the length of the history changed: after
  the view was read, replacing the history by another one of the same length still gives the
  view of the old history, while any change of length gives the view of the new one.
\<close>

theorem view_cache_sees_only_the_length:
  assumes "from_events (history s) = Inr v" and "history_checksum s = None"
  shows "let s' = (fst (state_view s))\<lparr>history := h\<rparr>
     in snd (state_view s') = (if length h = length (history s) then Inr v else from_events h)"
  using assms by (auto simp: state_view_def Let_def split: sum.split)

theorem view_cache_sees_only_the_length_witness:
  "let s = new_state\<lparr>history := [blank MessageAction []]\<rparr>;
       s' = (fst (state_view s))\<lparr>history := [blank NullAction []]\<rparr>
   in snd (state_view s') = from_events [blank MessageAction []] \<and>
      snd (state_view s') \<noteq> from_events [blank NullAction []]"
proof -
  let ?s = "new_state\<lparr>history := [blank MessageAction []]\<rparr>"
  have f: "from_events [blank c []] = Inr \<lparr>v_events = [blank c []], v_unhandled = False, v_forgotten = {}\<rparr>"
    if "c = MessageAction \<or> c = NullAction" for c
    using that by (auto simp: from_events_def blank_def eid_def)
  show ?thesis
    using view_cache_sees_only_the_length[of ?s _ "[blank NullAction []]"]
    by (simp add: f Let_def new_state_def) (simp add: blank_def)
qed

end
