(* ===== verification/State_Tracker.thy ===== *)
theory State_Tracker
  imports Agent_State Event_Stream_Properties
begin

text \<open>
  \<^verbatim>\<open>openhands/controller/state/state_tracker.py\<close>: the operations on the state of an agent that
  the controller uses.  The tracker's own fields (session id, file store, user) are arguments;
  the file store is the one of the event stream.  The process is not shutting down, so
  \<^verbatim>\<open>should_continue\<close> holds.
\<close>

type_synonym pstream = "pickle stream"

section \<open>The initial state\<close>

definition agent_history_filter :: event_filter where
  "agent_history_filter =
     no_filter\<lparr>exclude_types := Some [NullAction, NullObservation, ChangeAgentStateAction, AgentStateChangedObservation],
               exclude_hidden := True\<rparr>"

definition in_history :: "event \<Rightarrow> bool res" where
  \<comment> \<open>\<^verbatim>\<open>agent_history_filter.include(event)\<close>; without a query no float is printed\<close>
  "in_history e = include_event (\<lambda>_. []) agent_history_filter e"

definition set_initial_state ::
  "string \<Rightarrow> string option \<Rightarrow> full_state option \<Rightarrow> int \<Rightarrow> rat option \<Rightarrow> bool \<Rightarrow> full_state" where
  "set_initial_state i user st max_iterations max_budget confirm =
     (case st of
        None \<Rightarrow>
          (new_state\<lparr>session_id := removesuffix i ''-delegate'', st_user := user, has_stats := True,
                     confirmation_mode := confirm, start_id := 0\<rparr>,
           \<lparr>iteration_flag = new_flag max_iterations 0 max_iterations,
            budget_flag = (case max_budget of
                             None \<Rightarrow> None
                           | Some b \<Rightarrow> if b = 0 then None else Some (new_flag b 0 b)),
            state_metrics = metrics_init ''default''\<rparr>)
      | Some (s, sh) \<Rightarrow>
          ((if start_id s \<le> -1 then s\<lparr>start_id := 0\<rparr> else s)\<lparr>has_stats := True\<rparr>, sh))"

section \<open>The history\<close>

fun delegate_ranges :: "event list \<Rightarrow> int list \<Rightarrow> (int \<times> int) list" where
  \<comment> \<open>the second argument is the stack of open delegate actions\<close>
  "delegate_ranges [] open_ids = []"
| "delegate_ranges (e # es) open_ids =
     (if is_a e AgentDelegateAction then delegate_ranges es (eid e # open_ids)
      else if is_a e AgentDelegateObservation
      then (case open_ids of
              [] \<Rightarrow> delegate_ranges es []
            | a # rest \<Rightarrow> (a, eid e) # delegate_ranges es rest)
      else delegate_ranges es open_ids)"

fun insert_range :: "int \<times> int \<Rightarrow> (int \<times> int) list \<Rightarrow> (int \<times> int) list" where
  "insert_range r [] = [r]"
| "insert_range r (x # xs) =
     (if fst x < fst r \<or> fst x = fst r \<and> snd x < snd r then x # insert_range r xs else r # x # xs)"

definition sorted_ranges :: "(int \<times> int) list \<Rightarrow> (int \<times> int) list" where
  "sorted_ranges rs = foldr insert_range rs []"

fun without_ranges :: "event list \<Rightarrow> (int \<times> int) list \<Rightarrow> nat \<Rightarrow> event list" where
  "without_ranges events [] idx = drop idx events"
| "without_ranges events ((a, b) # rs) idx =
     filter (\<lambda>e. eid e < a) (drop idx events) @ filter (\<lambda>e. eid e = a \<or> eid e = b) events @
     without_ranges events rs
       (case first_idx (\<lambda>e. eid e > b) events of Some i \<Rightarrow> i | None \<Rightarrow> length events)"

definition history_bounds :: "pstream \<Rightarrow> state \<Rightarrow> pstream \<times> int \<times> int" where
  \<comment> \<open>\<^verbatim>\<open>start_id\<close> and \<^verbatim>\<open>end_id\<close> as both readers of the stream compute them\<close>
  "history_bounds s st =
     (let a = (if start_id st \<ge> 0 then start_id st else 0)
      in if end_id st \<ge> 0 then (s, a, end_id st)
         else (let (s', i) = get_latest_event_id s in (s', a, i)))"

definition init_history :: "pstream \<Rightarrow> state \<Rightarrow> pstream \<times> state \<times> pyerr option" where
  \<comment> \<open>the loop over the ranges reuses the names \<^verbatim>\<open>start_id\<close> and \<^verbatim>\<open>end_id\<close>, so the last range decides
    the \<^verbatim>\<open>start_id\<close> that is stored\<close>
  "init_history s st =
     (let (s1, a, b) = history_bounds s st
      in if a > b + 1 then (s1, st\<lparr>history := []\<rparr>, None)
         else case search_events (\<lambda>_. True) in_history s1 a (Some b) False None of
                (s2, events, Some err) \<Rightarrow> (s2, st, Some err)
              | (s2, events, None) \<Rightarrow>
                  (let rs = sorted_ranges (delegate_ranges events [])
                   in (s2, if rs = [] then st\<lparr>history := events, start_id := a\<rparr>
                           else st\<lparr>history := without_ranges events rs 0, start_id := fst (last rs)\<rparr>, None)))"

definition tracker_close :: "pstream \<Rightarrow> state \<Rightarrow> pstream \<times> state \<times> pyerr option" where
  "tracker_close s st =
     (let (s1, a, b) = history_bounds s st
      in case search_events (\<lambda>_. True) in_history s1 a (Some b) False None of
           (s2, events, Some err) \<Rightarrow> (s2, st, Some err)
         | (s2, events, None) \<Rightarrow> (s2, st\<lparr>history := events\<rparr>, None))"

definition add_history :: "event \<Rightarrow> state \<Rightarrow> state res" where
  "add_history e st =
     (case in_history e of
        Inl err \<Rightarrow> Inl err
      | Inr b \<Rightarrow> Inr (if b then st\<lparr>history := history st @ [e]\<rparr> else st))"

fun trajectory_of :: "bool \<Rightarrow> event list \<Rightarrow> (data list) res" where
  "trajectory_of shots [] = Inr []"
| "trajectory_of shots (e # es) =
     (case event_to_trajectory e shots of
        Inl err \<Rightarrow> Inl err
      | Inr d \<Rightarrow> (case trajectory_of shots es of Inl err \<Rightarrow> Inl err | Inr ds \<Rightarrow> Inr (d # ds)))"

section \<open>Limits and persistence\<close>

definition maybe_increase_control_flags_limits :: "bool \<Rightarrow> shared \<Rightarrow> shared" where
  "maybe_increase_control_flags_limits headless sh =
     sh\<lparr>iteration_flag := iteration_increase_limit headless (iteration_flag sh),
        budget_flag := map_option (budget_increase_limit headless) (budget_flag sh)\<rparr>"

definition run_control_flags :: "shared \<Rightarrow> shared \<times> pyerr option" where
  "run_control_flags sh =
     (case iteration_step (iteration_flag sh) of
        (f, Some err) \<Rightarrow> (sh\<lparr>iteration_flag := f\<rparr>, Some err)
      | (f, None) \<Rightarrow>
          (case budget_flag sh of
             None \<Rightarrow> (sh\<lparr>iteration_flag := f\<rparr>, None)
           | Some b \<Rightarrow> (case budget_step b of
                         (b', err) \<Rightarrow> (sh\<lparr>iteration_flag := f, budget_flag := Some b'\<rparr>, err))))"

definition sync_budget_flag_with_metrics :: "conv_stats \<Rightarrow> state \<Rightarrow> shared \<Rightarrow> shared" where
  "sync_budget_flag_with_metrics cs st sh =
     (if has_stats st
      then sh\<lparr>budget_flag := map_option (\<lambda>b. b\<lparr>current_value := accumulated_cost (get_combined_metrics cs)\<rparr>) (budget_flag sh)\<rparr>
      else sh)"

definition save_state :: "string option \<Rightarrow> bool \<Rightarrow> string option \<Rightarrow> conv_stats \<Rightarrow> full_state \<Rightarrow> pickle files \<Rightarrow> pickle files" where
  "save_state i has_store user cs st fs =
     (let fs1 = (case i of Some (c # r) \<Rightarrow> if has_store then save_to_session (c # r) user st fs else fs | _ \<Rightarrow> fs)
      in if has_stats (fst st) then save_metrics cs fs1 else fs1)"

section \<open>Samples\<close>

definition sample_delegate_action :: event where
  "sample_delegate_action = blank AgentDelegateAction
     [(''agent'', PStr ''BrowsingAgent''), (''inputs'', PDict []), (''thought'', PStr []), (''action'', PStr ''delegate'')]"

definition sample_delegate_result :: event where
  "sample_delegate_result = blank AgentDelegateObservation
     [(''content'', PStr ''done''), (''outputs'', PDict []), (''observation'', PStr ''delegate'')]"

fun adds :: "event list \<Rightarrow> 'st stream \<Rightarrow> 'st stream \<times> pyerr option" where
  \<comment> \<open>the agent adds events until one fails\<close>
  "adds [] s = (s, None)"
| "adds (e # es) s =
     (case add_event ''2025-01-01T00:00:00'' e AGENT s of
        (s', _, None) \<Rightarrow> adds es s' | (s', _, Some err) \<Rightarrow> (s', Some err))"

definition sample_conversation :: pstream where
  "sample_conversation =
     fst (adds [sample_delegate_action, sample_upload, sample_delegate_result] (open_stream ''c1'' None []))"

section \<open>Sequential delegations\<close>

fun sequential :: "bool \<Rightarrow> event list \<Rightarrow> bool" where
  \<comment> \<open>no delegation starts while another one is open (first argument)\<close>
  "sequential busy [] = True"
| "sequential busy (e # es) =
     (if is_a e AgentDelegateAction then \<not> busy \<and> sequential True es
      else if is_a e AgentDelegateObservation then sequential False es
      else sequential busy es)"

definition inside :: "(int \<times> int) list \<Rightarrow> event \<Rightarrow> bool" where
  "inside rs e \<longleftrightarrow> list_ex (\<lambda>r. fst r < eid e \<and> eid e < snd r) rs"

definition ranges_ok :: "(int \<times> int) list \<Rightarrow> bool" where
  \<comment> \<open>proper ranges, one after the other\<close>
  "ranges_ok rs \<longleftrightarrow> sorted_wrt (\<lambda>r r'. snd r < fst r') rs \<and> list_all (\<lambda>r. fst r < snd r) rs"

abbreviation increasing :: "event list \<Rightarrow> bool" where
  "increasing es \<equiv> sorted_wrt (\<lambda>x y. eid x < eid y) es"

lemma ranges_bounds:
  assumes "sequential (stk \<noteq> []) es" "length stk \<le> 1" "increasing es" "\<forall>a\<in>set stk. \<forall>e\<in>set es. a < eid e"
  shows "ranges_ok (delegate_ranges es stk) \<and>
    (\<forall>r\<in>set (delegate_ranges es stk). (fst r \<in> set stk \<or> fst r \<in> eid ` set es) \<and> snd r \<in> eid ` set es)"
  using assms
proof (induction es stk rule: delegate_ranges.induct)
  case (1 stk)
  then show ?case by (simp add: ranges_ok_def)
next
  case (2 e es stk)
  have inc: "increasing es" "\<forall>x\<in>set es. eid e < eid x" using "2.prems"(3) by simp_all
  show ?case
  proof (cases "is_a e AgentDelegateAction")
    case True
    then have "stk = []" "sequential True es" using "2.prems"(1) by simp_all
    then show ?thesis using "2.IH"(1)[OF True] True inc by auto
  next
    case nact: False
    show ?thesis
    proof (cases "is_a e AgentDelegateObservation")
      case True
      then have sq: "sequential False es" using nact "2.prems"(1) by simp
      show ?thesis
      proof (cases stk)
        case Nil
        then show ?thesis using "2.IH"(2)[OF nact True Nil] True nact sq inc by auto
      next
        case (Cons a rest)
        then have r: "rest = []" "a < eid e" using "2.prems"(2,4) by auto
        then have IH: "ranges_ok (delegate_ranges es [])"
          "\<forall>r\<in>set (delegate_ranges es []). fst r \<in> eid ` set es \<and> snd r \<in> eid ` set es"
          using "2.IH"(3)[OF nact True Cons] sq inc by auto
        then have "ranges_ok ((a, eid e) # delegate_ranges es [])" using r inc by (auto simp: ranges_ok_def)
        then show ?thesis using Cons r True nact IH by auto
      qed
    next
      case False
      then show ?thesis using "2.IH"(4)[OF nact False] nact "2.prems" inc by auto
    qed
  qed
qed

lemma sorted_ranges_id: "ranges_ok rs \<Longrightarrow> sorted_ranges rs = rs"
proof (induction rs)
  case (Cons r rs)
  then have "sorted_ranges rs = rs" by (simp add: ranges_ok_def)
  moreover have "insert_range r rs = r # rs"
    using Cons.prems by (cases rs) (auto simp: ranges_ok_def)
  ultimately show ?case by (simp add: sorted_ranges_def)
qed (simp add: sorted_ranges_def)

lemma drop_first_after:
  assumes "increasing es"
  shows "drop (case first_idx (\<lambda>e. eid e > b) es of Some i \<Rightarrow> i | None \<Rightarrow> length es) es = filter (\<lambda>e. b < eid e) es"
  using assms
proof (induction es)
  case (Cons e es)
  show ?case
  proof (cases "b < eid e")
    case True
    then have "filter (\<lambda>x. b < eid x) es = es" using Cons.prems by (auto simp: filter_id_conv)
    then show ?thesis using True by simp
  next
    case False
    then show ?thesis using Cons by (cases "first_idx (\<lambda>x. eid x > b) es") simp_all
  qed
qed simp

lemma filter_split:
  assumes "increasing es" "\<forall>e\<in>set es. P e \<longrightarrow> Q e \<or> R e" "\<forall>x\<in>set es. \<forall>y\<in>set es. Q x \<and> R y \<longrightarrow> eid x < eid y"
    "\<forall>e\<in>set es. Q e \<or> R e \<longrightarrow> P e"
  shows "filter P es = filter Q es @ filter R es"
  using assms
proof (induction es)
  case (Cons e es)
  have IH: "filter P es = filter Q es @ filter R es"
  proof (rule Cons.IH)
    show "increasing es" using Cons.prems(1) by simp
    show "\<forall>e\<in>set es. P e \<longrightarrow> Q e \<or> R e" using Cons.prems(2) by simp
    show "\<forall>x\<in>set es. \<forall>y\<in>set es. Q x \<and> R y \<longrightarrow> eid x < eid y" using Cons.prems(3) by simp
    show "\<forall>e\<in>set es. Q e \<or> R e \<longrightarrow> P e" using Cons.prems(4) by simp
  qed
  show ?case
  proof (cases "R e")
    case True
    have "\<not> Q y" if "y \<in> set es" for y
    proof
      assume "Q y"
      then have "eid y < eid e" using True that Cons.prems(3) by simp
      moreover have "eid e < eid y" using that Cons.prems(1) by simp
      ultimately show False by simp
    qed
    then have "filter Q es = []" by (simp add: filter_empty_conv)
    moreover have "\<not> Q e" using True Cons.prems(3) by auto
    ultimately show ?thesis using IH True Cons.prems(4) by auto
  next
    case False
    then show ?thesis using IH Cons.prems(2,4) by auto
  qed
qed simp

lemma without_ranges_from:
  assumes "ranges_ok rs" "increasing es" "\<forall>r\<in>set rs. c < fst r" "drop idx es = filter (\<lambda>e. c < eid e) es"
  shows "without_ranges es rs idx = filter (\<lambda>e. c < eid e \<and> \<not> inside rs e) es"
  using assms
proof (induction rs arbitrary: idx c)
  case Nil
  then show ?case by (simp add: inside_def)
next
  case (Cons r rs)
  obtain a b where r: "r = (a, b)" by (cases r)
  have ab: "a < b" "c < a" "\<forall>r\<in>set rs. b < fst r" "ranges_ok rs" using Cons.prems(1,3) r by (auto simp: ranges_ok_def)
  have later: "fst r' < snd r'" if "r' \<in> set rs" for r' using ab(4) that by (auto simp: ranges_ok_def list_all_iff)
  let ?idx = "case first_idx (\<lambda>e. eid e > b) es of Some i \<Rightarrow> i | None \<Rightarrow> length es"
  have rest: "without_ranges es rs ?idx = filter (\<lambda>e. b < eid e \<and> \<not> inside rs e) es"
    by (rule Cons.IH[OF ab(4) Cons.prems(2) ab(3) drop_first_after[OF Cons.prems(2)]])
  have head: "filter (\<lambda>e. eid e < a) (drop idx es) = filter (\<lambda>e. c < eid e \<and> eid e < a) es"
    unfolding Cons.prems(4) by (auto intro: filter_cong)
  have low: "\<not> inside rs e" if "eid e \<le> b" for e
    using that ab(3) by (auto simp: inside_def list_ex_iff)
  have "filter (\<lambda>e. c < eid e \<and> \<not> inside (r # rs) e) es =
      filter (\<lambda>e. c < eid e \<and> eid e < a) es @
      filter (\<lambda>e. eid e = a \<or> eid e = b \<or> (b < eid e \<and> \<not> inside rs e)) es"
    using low ab(1,2) by (intro filter_split[OF Cons.prems(2)]) (auto simp: inside_def r)
  also have "filter (\<lambda>e. eid e = a \<or> eid e = b \<or> (b < eid e \<and> \<not> inside rs e)) es =
      filter (\<lambda>e. eid e = a \<or> eid e = b) es @ filter (\<lambda>e. b < eid e \<and> \<not> inside rs e) es"
    using ab(1) by (intro filter_split[OF Cons.prems(2)]) auto
  finally show ?case using rest head by (simp add: r)
qed

lemma delegate_filter:
  assumes "increasing es" "sequential False es" "\<forall>e\<in>set es. -1 < eid e"
  shows "without_ranges es (sorted_ranges (delegate_ranges es [])) 0 = filter (\<lambda>e. \<not> inside (delegate_ranges es []) e) es"
proof -
  have rb: "ranges_ok (delegate_ranges es [])" "\<forall>r\<in>set (delegate_ranges es []). fst r \<in> eid ` set es"
    using ranges_bounds[of "[]" es] assms(1,2) by auto
  have "drop 0 es = filter (\<lambda>e. -1 < eid e) es" using assms(3) by (simp add: filter_id_conv)
  from without_ranges_from[OF rb(1) assms(1) _ this]
  have "without_ranges es (delegate_ranges es []) 0 = filter (\<lambda>e. -1 < eid e \<and> \<not> inside (delegate_ranges es []) e) es"
    using rb(2) assms(3) by fastforce
  also have "\<dots> = filter (\<lambda>e. \<not> inside (delegate_ranges es []) e) es" using assms(3) by (auto intro: filter_cong)
  finally show ?thesis unfolding sorted_ranges_id[OF rb(1)] .
qed

section \<open>The history of an agent\<close>

definition visible :: "event \<Rightarrow> bool" where
  "visible e \<longleftrightarrow>
     ev_class e \<notin> {NullAction, NullObservation, ChangeAgentStateAction, AgentStateChangedObservation} \<and>
     \<not> truthy (attr e ''hidden'')"

lemma in_history_eq: "in_history = (\<lambda>e. Inr (visible e))"
  by (auto simp: fun_eq_iff in_history_def include_event_def agent_history_filter_def no_filter_def visible_def)

lemma add_history_eq:
  "add_history e st = Inr (if visible e then st\<lparr>history := history st @ [e]\<rparr> else st)"
  by (simp add: add_history_def in_history_eq)

lemma run_log:
  assumes "\<forall>p\<in>set (map fst fs). \<not> startswith p (get_conversation_dir i u)" "stream_run (open_stream i u fs) L s"
  obtains ds where "stream_ok s ds" "log_of ds = L" "map eid L = map int [0..<length L]"
proof -
  have "cache_size (open_stream i u fs) = 25" by (simp add: open_stream_def)
  then obtain ds where ds: "stream_ok s ds" "log_of ds = L"
    using run_invariant[OF assms(2) stream_ok_open[OF assms(1)]] by blast
  have "length L = length ds" using ds(2) by auto
  then show ?thesis using that[OF ds] log_ids[OF ds(1)] ds(2) by simp
qed

lemma ids_increasing:
  assumes "map eid L = map int [0..<length L]" shows "increasing L" "\<forall>e\<in>set L. -1 < eid e"
proof -
  have n: "eid (L ! k) = int k" if "k < length L" for k
    using that assms nth_map[of k L eid] by simp
  then show "increasing L" by (auto simp: sorted_wrt_iff_nth_less)
  show "\<forall>e\<in>set L. -1 < eid e" using n by (auto simp: in_set_conv_nth)
qed

lemma bounds_of_run:
  assumes "stream_ok s ds" "0 \<le> start_id st" "end_id st < 0"
  shows "history_bounds s st = (fst (cur_id s), start_id st, int (length ds) - 1)"
  using assms by (cases "cur_id s") (simp add: history_bounds_def get_latest_event_id_def stream_ok_def)

lemma reads_of_run:
  assumes "stream_ok s ds"
  shows "snd (search_events (\<lambda>_. True) in_history s a (Some (int (length ds) - 1)) False None) =
     (filter visible (drop (nat a) (log_of ds)), None)"
  unfolding in_history_eq
  using search_spec[OF assms, of None visible a "Some (int (length ds) - 1)" False]
  by (simp add: at_most_def between_def)

text \<open>
  C8: When an agent is set up on a conversation whose stream has delivered the events L, its history
  becomes exactly the visible events of L from the start of the state on, without the events
  that lie strictly between a delegation and its result (delegations one after the other).
  The start id of the state only stays what it was when there was no delegation: otherwise it
  becomes the id of the last delegation.
\<close>

theorem history_is_restored:
  assumes "\<forall>p\<in>set (map fst fs). \<not> startswith p (get_conversation_dir i u)" and "stream_run (open_stream i u fs) L s"
    and "0 \<le> start_id st" and "start_id st \<le> int (length L)" and "end_id st < 0"
    and "es = filter visible (drop (nat (start_id st)) L)" and "sequential False es"
  shows "snd (init_history s st) =
     (st\<lparr>history := filter (\<lambda>e. \<not> inside (delegate_ranges es []) e) es,
         start_id := (if delegate_ranges es [] = [] then start_id st else fst (last (delegate_ranges es [])))\<rparr>, None)"
proof -
  obtain ds where ds: "stream_ok s ds" "log_of ds = L" and ids: "map eid L = map int [0..<length L]"
    using run_log[OF assms(1,2)] by blast
  have len: "length L = length ds" using ds(2) by auto
  note inc = ids_increasing[OF ids]
  have es: "increasing es" "\<forall>e\<in>set es. -1 < eid e"
    using inc unfolding assms(6) by (auto intro: sorted_wrt_filter sorted_wrt_drop dest: in_set_dropD)
  define rs where "rs = delegate_ranges es []"
  have rok: "ranges_ok rs" using ranges_bounds[of "[]" es] assms(7) es(1) by (simp add: rs_def)
  have srt: "sorted_ranges rs = rs" by (rule sorted_ranges_id[OF rok])
  have wr: "without_ranges es rs 0 = filter (\<lambda>e. \<not> inside rs e) es"
    using delegate_filter[OF es(1) assms(7) es(2)] srt by (simp add: rs_def)
  obtain s2 where rd: "search_events (\<lambda>_. True) in_history (fst (cur_id s)) (start_id st) (Some (int (length ds) - 1)) False None = (s2, es, None)"
    using reads_of_run[OF stream_ok_cur_id[OF ds(1)], of "start_id st"] ds(2) assms(6)
    by (cases "search_events (\<lambda>_. True) in_history (fst (cur_id s)) (start_id st) (Some (int (length ds) - 1)) False None") auto
  have "filter (\<lambda>e. \<not> inside [] e) es = es" by (simp add: inside_def)
  then show ?thesis
    unfolding init_history_def bounds_of_run[OF ds(1) assms(3,5)] Let_def prod.case rd
    using assms(4) len srt wr by (simp add: rs_def[symmetric])
qed

lemma run_adds:
  assumes "stream_run s0 L s" "adds es s = (s', None)"
  shows "\<exists>M. stream_run s0 (L @ M) s' \<and> queue s' = queue s @ M"
  using assms
proof (induction es arbitrary: L s)
  case Nil
  then show ?case by (auto intro: exI[of _ "[]"])
next
  case (Cons e es)
  obtain s1 e1 where a: "add_event ''2025-01-01T00:00:00'' e AGENT s = (s1, e1, None)" "adds es s1 = (s', None)"
    using Cons.prems(2) by (auto split: prod.splits option.splits)
  obtain e2 where q: "queue s1 = queue s @ [e2]"
    using a(1) by (rule add_event_cases) (auto simp: Let_def)
  have "stream_run s0 (L @ [e2]) s1" using run_add[OF Cons.prems(1) a(1)] q by simp
  from Cons.IH[OF this a(2)] show ?case using q by fastforce
qed

theorem history_is_restored_witness:
  "snd (init_history sample_conversation (new_state\<lparr>start_id := 0\<rparr>)) =
     (new_state\<lparr>history := [queue sample_conversation ! 0, queue sample_conversation ! 2], start_id := 0\<rparr>, None)"
proof -
  let ?st = "new_state\<lparr>start_id := 0\<rparr>"
  have e: "snd (adds [sample_delegate_action, sample_upload, sample_delegate_result] (open_stream ''c1'' None [] :: pstream)) = None"
    by code_simp
  then have "adds [sample_delegate_action, sample_upload, sample_delegate_result] (open_stream ''c1'' None []) = (sample_conversation, None)"
    by (simp add: sample_conversation_def prod_eq_iff)
  from run_adds[OF run_start this] obtain L where L: "stream_run (open_stream ''c1'' None []) L sample_conversation"
    "queue sample_conversation = L" by (auto simp: open_stream_def)
  have v: "filter visible (queue sample_conversation) = queue sample_conversation" by code_simp
  have sq: "sequential False (queue sample_conversation)" by code_simp
  have r: "delegate_ranges (queue sample_conversation) [] = [(0, 2)]" by code_simp
  have f: "filter (\<lambda>e. \<not> inside [(0, 2)] e) (queue sample_conversation) = [queue sample_conversation ! 0, queue sample_conversation ! 2]"
    by code_simp
  have "snd (init_history sample_conversation ?st) =
     (?st\<lparr>history := filter (\<lambda>e. \<not> inside (delegate_ranges L []) e) L,
         start_id := (if delegate_ranges L [] = [] then start_id ?st else fst (last (delegate_ranges L [])))\<rparr>, None)"
    by (rule history_is_restored[OF _ L(1)]) (use L(2) v sq in \<open>simp_all add: new_state_def\<close>)
  then show ?thesis using L(2) r f by simp
qed

end
