(* ===== verification/Stuck_Detector.thy ===== *)
theory Stuck_Detector
  imports Event_Classes
begin

text \<open>
  \<^verbatim>\<open>openhands/controller/stuck.py\<close>: detection of agents that repeat themselves.  The detector
  is a function of the history, the mode and the analysis left by the previous call; every
  scenario returns the analysis it stores, or \<^const>\<open>None\<close> when it does not apply.  Logging is
  left out.
\<close>

section \<open>The detector\<close>

record stuck_analysis =
  loop_type :: string
  loop_repeat_times :: int
  loop_start_idx :: int

definition SYNTAX_ERROR_MESSAGES :: "string list" where
  "SYNTAX_ERROR_MESSAGES =
     [''SyntaxError: unterminated string literal (detected at line'',
      ''SyntaxError: invalid syntax. Perhaps you forgot a comma?'',
      ''SyntaxError: incomplete input'']"

definition lines_of :: "string \<Rightarrow> string list" where
  \<comment> \<open>\<^verbatim>\<open>s.split('\n')\<close>\<close>
  "lines_of s = split_on (CHR 0x0A) s"

definition edit_call :: string where
  "edit_call = ''edit_file_by_replace(''"

definition eq_no_pid :: "event \<Rightarrow> event \<Rightarrow> bool" where
  "eq_no_pid a b \<longleftrightarrow>
     (if is_a a IPythonRunCellAction \<and> is_a b IPythonRunCellAction
      then if contains edit_call (str_attr a ''code'') \<and> contains edit_call (str_attr b ''code'')
           then length (lines_of (str_attr a ''code'')) > 2
                \<and> slice_to (lines_of (str_attr a ''code'')) 3 = slice_to (lines_of (str_attr b ''code'')) 3
           else py_eq a b
      else if is_a a CmdOutputObservation \<and> is_a b CmdOutputObservation
      then attr a ''command'' = attr b ''command'' \<and> exit_code a = exit_code b
      else py_eq a b)"

definition event_index :: "event list \<Rightarrow> event \<Rightarrow> int" where
  \<comment> \<open>\<^verbatim>\<open>es.index(e)\<close>, only called for elements of the list\<close>
  "event_index es e = (case first_idx (py_eq e) es of Some i \<Rightarrow> int i | None \<Rightarrow> -1)"

fun collect_last :: "nat \<Rightarrow> event list \<Rightarrow> event list \<Rightarrow> event list \<Rightarrow> event list \<times> event list" where
  \<comment> \<open>the loop over the reversed history that gathers the last \<open>n\<close> actions and observations\<close>
  "collect_last n [] acts obs = (acts, obs)"
| "collect_last n (e # es) acts obs =
     (let p = (if is_action e \<and> length acts < n then (acts @ [e], obs)
               else if is_observation e \<and> length obs < n then (acts, obs @ [e])
               else (acts, obs))
      in if length (fst p) = n \<and> length (snd p) = n then p
         else collect_last n es (fst p) (snd p))"

definition repeating_action_observation ::
  "event list \<Rightarrow> event list \<Rightarrow> event list \<Rightarrow> int \<Rightarrow> stuck_analysis option" where
  "repeating_action_observation last_actions last_observations filtered_history offset =
     (if length last_actions = 4 \<and> length last_observations = 4
         \<and> list_all (eq_no_pid (last_actions ! 0)) last_actions
         \<and> list_all (eq_no_pid (last_observations ! 0)) last_observations
      then Some \<lparr>loop_type = ''repeating_action_observation'', loop_repeat_times = 4,
                 loop_start_idx = event_index filtered_history (last last_actions) + offset\<rparr>
      else None)"

fun invalid_syntax_scan ::
  "string \<Rightarrow> event list \<Rightarrow> string list \<Rightarrow> event list \<Rightarrow> (string list \<times> event list) option" where
  \<comment> \<open>the loop of \<^verbatim>\<open>_check_for_consistent_invalid_syntax\<close>; \<^const>\<open>None\<close> is \<^verbatim>\<open>return False\<close>\<close>
  "invalid_syntax_scan msg [] first_lines valid = Some (first_lines, valid)"
| "invalid_syntax_scan msg (ob # obs) first_lines valid =
     (let ls = lines_of (strip (content ob)); n = length ls
      in if n < 6 then None
         else if \<not> startswith (strip (ls ! 0)) ''Cell In[1], line'' then None
         else invalid_syntax_scan msg obs (first_lines @ [strip (ls ! 0)])
                (if startswith (ls ! (n - 1)) ''[Jupyter Python interpreter:''
                    \<and> startswith (ls ! (n - 2)) ''[Jupyter current working directory:''
                    \<and> contains msg (ls ! (n - 3))
                 then valid @ [ob] else valid))"

definition check_for_consistent_invalid_syntax :: "event list \<Rightarrow> string \<Rightarrow> bool" where
  "check_for_consistent_invalid_syntax obs msg =
     (case invalid_syntax_scan msg obs [] [] of
        None \<Rightarrow> False
      | Some (first_lines, valid) \<Rightarrow>
          length (remdups first_lines) = 1 \<and> length valid = 3
          \<and> length (remdups (map (\<lambda>ob. last (slice_to (lines_of (strip (content ob))) (-2))) valid)) = 1)"

fun line_error_scan :: "string \<Rightarrow> event list \<Rightarrow> string list \<Rightarrow> string list option" where
  \<comment> \<open>the loop of \<^verbatim>\<open>_check_for_consistent_line_error\<close>\<close>
  "line_error_scan msg [] error_lines = Some error_lines"
| "line_error_scan msg (ob # obs) error_lines =
     (let ls = lines_of (strip (content ob)); n = length ls
      in if n < 3 then None
         else if \<not> (startswith (ls ! (n - 2)) ''[Jupyter current working directory:''
                     \<and> startswith (ls ! (n - 1)) ''[Jupyter Python interpreter:'') then None
         else line_error_scan msg obs
                (if contains msg (ls ! (n - 3)) then error_lines @ [ls ! (n - 3)] else error_lines))"

definition check_for_consistent_line_error :: "event list \<Rightarrow> string \<Rightarrow> bool" where
  "check_for_consistent_line_error obs msg =
     (case line_error_scan msg obs [] of
        None \<Rightarrow> False
      | Some error_lines \<Rightarrow> length error_lines = 3 \<and> length (remdups error_lines) = 1)"

definition syntax_error_loop :: "event list \<Rightarrow> string \<Rightarrow> bool" where
  \<comment> \<open>the body of the loop over \<^verbatim>\<open>SYNTAX_ERROR_MESSAGES\<close>\<close>
  "syntax_error_loop last_three msg =
     (let cells = filter (\<lambda>ob. is_a ob IPythonRunCellObservation) last_three
      in if startswith msg ''SyntaxError: unterminated string literal (detected at line''
         then check_for_consistent_line_error cells msg
         else msg \<in> {''SyntaxError: invalid syntax. Perhaps you forgot a comma?'',
                     ''SyntaxError: incomplete input''}
              \<and> check_for_consistent_invalid_syntax cells msg)"

definition repeating_action_error ::
  "event list \<Rightarrow> event list \<Rightarrow> event list \<Rightarrow> int \<Rightarrow> stuck_analysis option" where
  "repeating_action_error last_actions last_observations filtered_history offset =
     (if length last_actions < 3 \<or> length last_observations < 3 then None
      else if list_all (eq_no_pid (last_actions ! 0)) (slice_to last_actions 3)
      then (let found = Some \<lparr>loop_type = ''repeating_action_error'', loop_repeat_times = 3,
                 loop_start_idx = event_index filtered_history (last last_actions) + offset\<rparr>
            in if list_all (\<lambda>ob. is_a ob ErrorObservation) (slice_to last_observations 3) then found
               else if list_all (\<lambda>ob. is_a ob IPythonRunCellObservation) (slice_to last_observations 3)
                       \<and> list_ex (syntax_error_loop (slice_to last_observations 3)) SYNTAX_ERROR_MESSAGES
               then found else None)
      else None)"

definition indexed :: "(event \<Rightarrow> bool) \<Rightarrow> event list \<Rightarrow> (nat \<times> event) list" where
  \<comment> \<open>\<^verbatim>\<open>[(i, e) for i, e in enumerate(es) if P(e)]\<close>\<close>
  "indexed P es = filter (\<lambda>p. P (snd p)) (List.enumerate 0 es)"

definition monologue :: "event list \<Rightarrow> int \<Rightarrow> stuck_analysis option" where
  "monologue filtered_history offset =
     (let agent_message_actions = indexed from_agent filtered_history
      in if length agent_message_actions \<ge> 3
         then (let last3 = slice_from agent_message_actions (-3);
                   start_index = fst (last3 ! 0); end_index = fst (last last3)
               in if list_all (\<lambda>p. py_eq (snd (last3 ! 0)) (snd p)) last3
                     \<and> \<not> list_ex is_observation
                           (slice filtered_history (int start_index + 1) (int end_index))
                  then Some \<lparr>loop_type = ''monologue'', loop_repeat_times = 3,
                             loop_start_idx = int start_index + offset\<rparr>
                  else None)
         else None)"

definition every_other :: "event list \<Rightarrow> bool" where
  \<comment> \<open>the elements 0, 2, 4 agree and so do 1, 3, 5\<close>
  "every_other xs \<longleftrightarrow>
     eq_no_pid (xs ! 0) (xs ! 2) \<and> eq_no_pid (xs ! 0) (xs ! 4)
     \<and> eq_no_pid (xs ! 1) (xs ! 3) \<and> eq_no_pid (xs ! 1) (xs ! 5)"

definition action_observation_pattern :: "event list \<Rightarrow> int \<Rightarrow> stuck_analysis option" where
  "action_observation_pattern filtered_history offset =
     (let p = collect_last 6 (rev filtered_history) [] [];
          last_six_actions = fst p; last_six_observations = snd p
      in if length last_six_actions = 6 \<and> length last_six_observations = 6
            \<and> every_other last_six_actions \<and> every_other last_six_observations
         then Some \<lparr>loop_type = ''repeating_action_observation_pattern'', loop_repeat_times = 3,
                    loop_start_idx = event_index filtered_history (last last_six_actions) + offset\<rparr>
         else None)"

fun adjacent_condensations ::
  "event list \<Rightarrow> int \<Rightarrow> (nat \<times> event) list \<Rightarrow> stuck_analysis option" where
  \<comment> \<open>the loop over neighbouring pairs of the last ten condensation observations\<close>
  "adjacent_condensations fh offset ((i, a) # (j, b) # rest) =
     (if list_ex (\<lambda>e. \<not> is_a e AgentCondensationObservation) (slice fh (int i + 1) (int j))
      then adjacent_condensations fh offset ((j, b) # rest)
      else Some \<lparr>loop_type = ''context_window_error'', loop_repeat_times = 2,
                 loop_start_idx = int i + offset\<rparr>)"
| "adjacent_condensations fh offset _ = None"

definition context_window_error :: "event list \<Rightarrow> int \<Rightarrow> stuck_analysis option" where
  "context_window_error filtered_history offset =
     (let condensation_events = indexed (\<lambda>e. is_a e AgentCondensationObservation) filtered_history
      in if length condensation_events < 10 then None
         else adjacent_condensations filtered_history offset (slice_from condensation_events (-10)))"

definition last_user_msg_idx :: "event list \<Rightarrow> int" where
  "last_user_msg_idx history =
     (case first_idx from_user (rev history) of
        Some i \<Rightarrow> int (length history) - int i - 1
      | None \<Rightarrow> -1)"

definition relevant :: "event \<Rightarrow> bool" where
  "relevant e \<longleftrightarrow> \<not> (from_user e \<or> is_a e NullAction \<or> is_a e NullObservation)"

definition detect :: "event list \<Rightarrow> int \<Rightarrow> stuck_analysis option" where
  \<comment> \<open>the scenarios, in order, on a filtered history of at least three events\<close>
  "detect fh offset =
     (let p = collect_last 4 (rev fh) [] [] in
      case repeating_action_observation (fst p) (snd p) fh offset of
        Some a \<Rightarrow> Some a
      | None \<Rightarrow>
     (case repeating_action_error (fst p) (snd p) fh offset of
        Some a \<Rightarrow> Some a
      | None \<Rightarrow>
     (case monologue fh offset of
        Some a \<Rightarrow> Some a
      | None \<Rightarrow>
     (case (if length fh \<ge> 6 then action_observation_pattern fh offset else None) of
        Some a \<Rightarrow> Some a
      | None \<Rightarrow> (if length fh \<ge> 10 then context_window_error fh offset else None)))))"

definition is_stuck ::
  "bool \<Rightarrow> event list \<Rightarrow> stuck_analysis option \<Rightarrow> bool \<times> stuck_analysis option" where
  \<comment> \<open>the answer and the new value of \<^verbatim>\<open>self.stuck_analysis\<close>\<close>
  "is_stuck headless_mode history stuck_analysis =
     (let offset = (if headless_mode then 0 else last_user_msg_idx history + 1);
          history_to_check = (if headless_mode then history
                              else slice_from history (last_user_msg_idx history + 1));
          filtered_history = filter relevant history_to_check
      in if length filtered_history < 3 then (False, stuck_analysis)
         else case detect filtered_history offset of
                Some a \<Rightarrow> (True, Some a)
              | None \<Rightarrow> (False, None))"

end
