(* ===== verification/Stuck_Laws.thy ===== *)
theory Stuck_Laws
  imports Stuck_Detector
begin

text \<open>
  What the stuck detector decides.  The five scenarios are given a declarative reading over
  the filtered history, and \<open>is_stuck\<close> is shown to answer with exactly their
  disjunction; the interactive mode is reduced to the headless one; the reported start of a
  loop is a position of the history.
\<close>

section \<open>Declarative reading of the scenarios, instances\<close>

definition last_events :: "nat \<Rightarrow> (event \<Rightarrow> bool) \<Rightarrow> event list \<Rightarrow> event list" where
  \<comment> \<open>the last \<open>n\<close> events of a kind, most recent first\<close>
  "last_events n P fh = take n (filter P (rev fh))"

definition all_match :: "nat \<Rightarrow> event list \<Rightarrow> bool" where
  "all_match n xs \<longleftrightarrow> length xs = n \<and> (\<forall>x\<in>set xs. eq_no_pid (hd xs) x)"

definition same_round :: "event list \<Rightarrow> bool" where
  \<comment> \<open>four matching actions with four matching observations\<close>
  "same_round fh \<longleftrightarrow> all_match 4 (last_events 4 is_action fh) \<and> all_match 4 (last_events 4 is_observation fh)"

definition same_error :: "event list \<Rightarrow> bool" where
  \<comment> \<open>three matching actions with three errors, or three times the same Python syntax error\<close>
  "same_error fh \<longleftrightarrow>
     (let obs = last_events 3 is_observation fh in
      all_match 3 (last_events 3 is_action fh) \<and> length obs = 3 \<and>
      ((\<forall>ob\<in>set obs. is_a ob ErrorObservation) \<or>
       (\<forall>ob\<in>set obs. is_a ob IPythonRunCellObservation) \<and>
         (\<exists>msg\<in>set SYNTAX_ERROR_MESSAGES. syntax_error_loop obs msg)))"

definition same_message :: "event list \<Rightarrow> bool" where
  \<comment> \<open>the last three agent messages are equal and no observation came in between\<close>
  "same_message fh \<longleftrightarrow>
     (\<exists>i j k. filter (\<lambda>l. from_agent (fh ! l)) [i..<length fh] = [i, j, k] \<and>
        py_eq (fh ! i) (fh ! j) \<and> py_eq (fh ! i) (fh ! k) \<and>
        (\<forall>l. i < l \<and> l < k \<longrightarrow> \<not> is_observation (fh ! l)))"

definition alternation :: "event list \<Rightarrow> bool" where
  \<comment> \<open>the last six actions and the last six observations alternate\<close>
  "alternation fh \<longleftrightarrow>
     length (last_events 6 is_action fh) = 6 \<and> length (last_events 6 is_observation fh) = 6 \<and>
     every_other (last_events 6 is_action fh) \<and> every_other (last_events 6 is_observation fh)"

definition condensed_twice :: "event list \<Rightarrow> bool" where
  \<comment> \<open>two neighbouring condensation observations among the last ten\<close>
  "condensed_twice fh \<longleftrightarrow>
     (let is_cond = (\<lambda>e. is_a e AgentCondensationObservation) in
      10 \<le> length (filter is_cond fh) \<and>
      (\<exists>i. Suc i < length fh \<and> is_cond (fh ! i) \<and> is_cond (fh ! Suc i) \<and>
           length (filter is_cond (drop i fh)) \<le> 10))"

definition shift :: "int \<Rightarrow> stuck_analysis \<Rightarrow> stuck_analysis" where
  "shift k a = a\<lparr>loop_start_idx := loop_start_idx a + k\<rparr>"

definition sample_run :: "string \<Rightarrow> event" where
  "sample_run c = blank CmdRunAction [(''command'', PStr c), (''thought'', PStr []), (''action'', PStr ''run'')]"

definition sample_error :: event where
  "sample_error = blank ErrorObservation [(''content'', PStr ''failed''), (''observation'', PStr ''error''), (''error_id'', PStr [])]"

definition sample_error_loop :: "event list" where
  "sample_error_loop =
     [sample_run ''b'', sample_error, sample_run ''a'', sample_error, sample_run ''a'', sample_error,
      sample_run ''a'', sample_error]"

definition sample_condensed :: event where
  "sample_condensed = blank AgentCondensationObservation [(''content'', PStr []), (''observation'', PStr ''condense'')]"

definition sample_condensations :: "event list" where
  "sample_condensations =
     [sample_condensed, sample_condensed] @
     concat (map (\<lambda>n. [sample_run (str_of_nat n), sample_condensed]) [1, 2, 3, 4, 5, 6, 7, 8])"

definition sample_user :: event where
  "sample_user = (blank MessageAction [(''content'', PStr ''go'')])\<lparr>ev_source := Some USER\<rparr>"



lemma collect_last_eq:
  "length acts \<le> n \<Longrightarrow> length obs \<le> n \<Longrightarrow>
   collect_last n es acts obs =
     (acts @ take (n - length acts) (filter is_action es),
      obs @ take (n - length obs) (filter is_observation es))"
proof (induction n es acts obs rule: collect_last.induct)
  case (2 n e es acts obs)
  have io: "is_observation e \<longleftrightarrow> \<not> is_action e" using action_or_observation by blast
  show ?case
  proof (cases "is_action e")
    case True
    then show ?thesis using 2 io
      by (cases "length acts < n") (auto simp: Suc_diff_Suc take_Cons' Let_def)
  next
    case False
    then show ?thesis using 2 io
      by (cases "length obs < n") (auto simp: Suc_diff_Suc take_Cons' Let_def)
  qed
qed simp

lemma collect_last_events:
  "collect_last n (rev fh) [] [] = (last_events n is_action fh, last_events n is_observation fh)"
  by (simp add: collect_last_eq last_events_def)

lemma last_events_take: "m \<le> n \<Longrightarrow> take m (last_events n P fh) = last_events m P fh"
  by (simp add: last_events_def min_def)

lemma length_last_events_mono:
  "m \<le> n \<Longrightarrow> length (last_events m P fh) = min m (length (last_events n P fh))"
  by (simp add: last_events_def)

lemma repeating_action_observation_iff:
  "repeating_action_observation (last_events 4 is_action fh) (last_events 4 is_observation fh) g k \<noteq> None
   \<longleftrightarrow> same_round fh"
  by (auto simp: repeating_action_observation_def same_round_def all_match_def list_all_iff
      hd_conv_nth simp flip: length_greater_0_conv)

lemma repeating_action_error_iff:
  "repeating_action_error (last_events 4 is_action fh) (last_events 4 is_observation fh) g k \<noteq> None
   \<longleftrightarrow> same_error fh"
proof -
  let ?a = "last_events 4 is_action fh" let ?o = "last_events 4 is_observation fh"
  have t: "take 3 ?a = last_events 3 is_action fh" "take 3 ?o = last_events 3 is_observation fh"
    by (simp_all add: last_events_take)
  have h: "length ?a \<ge> 3 \<Longrightarrow> hd (last_events 3 is_action fh) = ?a ! 0"
    by (metis hd_take hd_conv_nth t(1) list.size(3) not_numeral_le_zero zero_less_numeral)
  have l: "length (last_events 3 is_action fh) = 3 \<longleftrightarrow> \<not> length ?a < 3"
    "length (last_events 3 is_observation fh) = 3 \<longleftrightarrow> \<not> length ?o < 3"
    by (auto simp: length_last_events_mono[of 3 4])
  show ?thesis
    unfolding repeating_action_error_def same_error_def all_match_def Let_def
    using h by (auto simp: t l list_all_iff list_ex_iff)
qed

lemma indexed_eq:
  "indexed P es = map (\<lambda>i. (i, es ! i)) (filter (\<lambda>i. P (es ! i)) [0..<length es])"
proof -
  have "List.enumerate 0 es = map (\<lambda>i. (i, es ! i)) [0..<length es]"
    by (rule nth_equalityI) (auto simp: nth_enumerate_eq)
  then show ?thesis by (simp add: indexed_def filter_map comp_def)
qed

lemma drop_filter_upt:
  assumes "k < length (filter Q [0..<n])"
  defines "i \<equiv> filter Q [0..<n] ! k"
  shows "drop k (filter Q [0..<n]) = filter Q [i..<n]"
proof -
  let ?xs = "filter Q [0..<n]"
  have so: "sorted_wrt (<) ?xs" by (simp add: sorted_wrt_filter)
  have "i \<in> set ?xs" unfolding i_def using assms(1) by (rule nth_mem)
  then have "i < n" by simp
  have lo: "\<forall>x\<in>set (take k ?xs). \<not> i \<le> x"
    using so assms by (auto simp: in_set_conv_nth sorted_wrt_iff_nth_less not_le)
  have hi: "\<forall>x\<in>set (drop k ?xs). i \<le> x"
  proof
    fix x assume "x \<in> set (drop k ?xs)"
    then obtain l where l: "l < length ?xs - k" "x = ?xs ! (k + l)" by (auto simp: in_set_conv_nth)
    show "i \<le> x"
    proof (cases l)
      case (Suc m)
      then have "?xs ! k < ?xs ! (k + l)" using so l by (auto simp: sorted_wrt_iff_nth_less)
      then show ?thesis using l by (simp add: i_def)
    qed (use l i_def in simp)
  qed
  have "filter (\<lambda>x. i \<le> x) ?xs = filter (\<lambda>x. i \<le> x) (take k ?xs @ drop k ?xs)" by simp
  also have "\<dots> = drop k ?xs" using lo hi unfolding filter_append by (simp add: filter_empty_conv)
  finally have "drop k ?xs = filter (\<lambda>x. i \<le> x) ?xs" ..
  also have "\<dots> = filter Q (filter (\<lambda>x. i \<le> x) [0..<n])" by (simp add: conj_commute)
  also have "filter (\<lambda>x. i \<le> x) [0..<n] = [i..<n]"
  proof -
    have "[0..<n] = [0..<i] @ [i..<n]" using \<open>i < n\<close> by (metis less_or_eq_imp_le upt_add_eq_append le0 le_add_diff_inverse)
    then show ?thesis by (simp add: filter_empty_conv)
  qed
  finally show ?thesis .
qed

lemma last_indexed:
  assumes "0 < m" "m \<le> length (indexed P es)"
  obtains i ns where "slice_from (indexed P es) (- int m) = map (\<lambda>l. (l, es ! l)) (i # ns)"
    "i # ns = filter (\<lambda>l. P (es ! l)) [i..<length es]" "length (i # ns) = m"
proof -
  let ?xs = "filter (\<lambda>l. P (es ! l)) [0..<length es]"
  let ?k = "length ?xs - m"
  have lx: "length (indexed P es) = length ?xs" by (simp add: indexed_eq)
  then have k: "?k < length ?xs" using assms by auto
  note d = drop_filter_upt[OF k]
  have c: "?xs ! ?k # drop (Suc ?k) ?xs = drop ?k ?xs" using k by (rule Cons_nth_drop_Suc)
  show thesis
  proof (rule that[of "?xs ! ?k" "drop (Suc ?k) ?xs"], unfold c)
    show "slice_from (indexed P es) (- int m) = map (\<lambda>l. (l, es ! l)) (drop ?k ?xs)"
      using slice_from_neg[of "int m" "indexed P es"] assms(1) unfolding lx
      by (simp add: indexed_eq drop_map)
    show "length (drop ?k ?xs) = m" using assms lx by simp
  qed (rule d)
qed

lemma filter_upt_mono: "a \<le> b \<Longrightarrow> length (filter Q [b..<n]) \<le> length (filter Q [a..<n])"
proof (cases "b \<le> n")
  case True
  assume "a \<le> b"
  then have "[a..<n] = [a..<b] @ [b..<n]" using True by (metis upt_add_eq_append le_add_diff_inverse)
  then show ?thesis by simp
qed simp

lemma filter_upt_unique:
  assumes "filter Q [i..<n] = i # ns" "filter Q [j..<n] = j # js" "length ns = length js"
  shows "i = j"
proof (rule ccontr)
  assume "i \<noteq> j"
  have aux: "length (filter Q [b..<n]) < length (filter Q [a..<n])"
    if "a < b" "filter Q [a..<n] = a # as" for a b as
  proof -
    have "a \<in> set (filter Q [a..<n])" using that(2) by simp
    then have a: "a < n" "Q a" by auto
    then have "[a..<n] = a # [Suc a..<n]" by (simp add: upt_conv_Cons)
    moreover have "length (filter Q [b..<n]) \<le> length (filter Q [Suc a..<n])"
      by (rule filter_upt_mono) (use that(1) in simp)
    ultimately show ?thesis using a(2) by simp
  qed
  show False using aux[of i j ns] aux[of j i js] assms \<open>i \<noteq> j\<close> by (cases "i < j") auto
qed

lemma list_ex_between:
  assumes "k \<le> length xs"
  shows "list_ex P (slice xs (int i + 1) (int k)) \<longleftrightarrow> (\<exists>l. i < l \<and> l < k \<and> P (xs ! l))"
proof -
  have sl: "slice xs (int i + 1) (int k) = take (k - Suc i) (drop (Suc i) xs)"
    by (simp add: slice_nonneg nat_add_distrib)
  show ?thesis
  proof
    assume "list_ex P (slice xs (int i + 1) (int k))"
    then obtain m where "m < k - Suc i" "P (xs ! (Suc i + m))"
      using assms unfolding sl by (auto simp: list_ex_length)
    then show "\<exists>l. i < l \<and> l < k \<and> P (xs ! l)" by (intro exI[of _ "Suc i + m"]) auto
  next
    assume "\<exists>l. i < l \<and> l < k \<and> P (xs ! l)"
    then obtain l where "i < l" "l < k" "P (xs ! l)" by blast
    then show "list_ex P (slice xs (int i + 1) (int k))"
      using assms unfolding sl list_ex_length by (intro exI[of _ "l - Suc i"]) auto
  qed
qed

lemma monologue_iff: "monologue fh k \<noteq> None \<longleftrightarrow> same_message fh"
proof (cases "3 \<le> length (indexed from_agent fh)")
  case False
  have "length (filter (\<lambda>l. from_agent (fh ! l)) [i..<length fh]) < 3" for i
  proof -
    have "length (filter (\<lambda>l. from_agent (fh ! l)) [i..<length fh]) \<le>
          length (filter (\<lambda>l. from_agent (fh ! l)) [0..<length fh])"
      by (rule filter_upt_mono) simp
    then show ?thesis using False by (simp add: indexed_eq)
  qed
  then show ?thesis using False
    by (auto simp: monologue_def same_message_def Let_def) (metis length_Cons list.size(3) less_irrefl numeral_3_eq_3)
next
  case True
  obtain i ns where li: "slice_from (indexed from_agent fh) (- 3) = map (\<lambda>l. (l, fh ! l)) (i # ns)"
    "i # ns = filter (\<lambda>l. from_agent (fh ! l)) [i..<length fh]" "length (i # ns) = 3"
    using last_indexed[of 3 from_agent fh] True by auto
  then obtain j kk where ijk: "ns = [j, kk]" by (auto simp: length_Suc_conv numeral_3_eq_3)
  have "i \<in> set (filter (\<lambda>l. from_agent (fh ! l)) [i..<length fh])"
    "kk \<in> set (filter (\<lambda>l. from_agent (fh ! l)) [i..<length fh])" using li(2) ijk
    by (metis list.set_intros(1), metis list.set_intros)
  then have b: "i \<le> kk" "kk < length fh" by auto
  note ex = list_ex_between[OF b(2)[THEN less_imp_le], of is_observation i]
  have m: "monologue fh k \<noteq> None \<longleftrightarrow> py_eq (fh ! i) (fh ! j) \<and> py_eq (fh ! i) (fh ! kk) \<and>
      \<not> (\<exists>l. i < l \<and> l < kk \<and> is_observation (fh ! l))"
    using True ex by (simp add: monologue_def Let_def li(1) ijk)
  show ?thesis
  proof
    assume "monologue fh k \<noteq> None"
    then show "same_message fh" using m li(2) ijk unfolding same_message_def by metis
  next
    assume "same_message fh"
    then obtain i' j' k' where p: "filter (\<lambda>l. from_agent (fh ! l)) [i'..<length fh] = [i', j', k']"
      "py_eq (fh ! i') (fh ! j')" "py_eq (fh ! i') (fh ! k')"
      "\<forall>l. i' < l \<and> l < k' \<longrightarrow> \<not> is_observation (fh ! l)" unfolding same_message_def by blast
    have "i = i'" by (rule filter_upt_unique[OF li(2)[symmetric] p(1)]) (simp add: ijk)
    then have "j' = j" "k' = kk" using li(2) ijk p(1) by auto
    then show "monologue fh k \<noteq> None" using m p \<open>i = i'\<close> by blast
  qed
qed

lemma pattern_iff: "action_observation_pattern fh k \<noteq> None \<longleftrightarrow> alternation fh"
  by (simp add: action_observation_pattern_def alternation_def collect_last_events Let_def)

lemma adjacent_iff:
  "adjacent_condensations fh k (map (\<lambda>l. (l, fh ! l)) ns) \<noteq> None \<longleftrightarrow>
   (\<exists>m. Suc m < length ns \<and> \<not> list_ex (\<lambda>e. \<not> is_a e AgentCondensationObservation)
          (slice fh (int (ns ! m) + 1) (int (ns ! Suc m))))"
proof (induction ns)
  case (Cons a ns)
  show ?case
  proof (cases ns)
    case (Cons b ns')
    then show ?thesis using Cons.IH by (auto simp: less_Suc_eq_0_disj)
  qed simp
qed simp

lemma filter_upt_consecutive:
  assumes "Suc m < length (filter Q [i..<n])" "filter Q [i..<n] ! m < l" "l < filter Q [i..<n] ! Suc m"
  shows "\<not> Q l"
proof
  assume "Q l"
  let ?ns = "filter Q [i..<n]"
  have so: "sorted_wrt (<) ?ns" by (simp add: sorted_wrt_filter)
  have "?ns ! m \<in> set ?ns" "?ns ! Suc m \<in> set ?ns" using assms(1) by (simp_all only: nth_mem Suc_lessD)
  then have "l \<in> set ?ns" using assms(2,3) \<open>Q l\<close> by auto
  then obtain t where t: "t < length ?ns" "l = ?ns ! t" unfolding in_set_conv_nth by blast
  then have "m < t" "t < Suc m"
    using assms so by (auto simp: sorted_wrt_iff_nth_less) (metis linorder_neqE_nat order_less_asym assms Suc_lessD)+
  then show False by simp
qed

lemma length_filter_drop:
  "length (filter P (drop i fh)) = length (filter (\<lambda>l. P (fh ! l)) [i..<length fh])"
proof -
  have "drop i fh = map ((!) fh) [i..<length fh]" by (rule nth_equalityI) auto
  then show ?thesis by (simp add: filter_map comp_def)
qed

lemma filter_upt_neighbours:
  assumes "filter Q [i..<n] = ns" "i \<le> l" "Suc l < n" "Q l" "Q (Suc l)"
  obtains m where "Suc m < length ns" "ns ! m = l" "ns ! Suc m = Suc l"
proof -
  have so: "sorted_wrt (<) ns" using assms(1) by (auto simp: sorted_wrt_filter)
  have "l \<in> set ns" "Suc l \<in> set ns" using assms by auto
  then obtain m m' where m: "m < length ns" "ns ! m = l" "m' < length ns" "ns ! m' = Suc l"
    by (auto simp: in_set_conv_nth)
  have "m < m'"
  proof (rule ccontr)
    assume "\<not> m < m'"
    then consider "m' = m" | "m' < m" by linarith
    then show False
    proof cases
      case 2
      then have "ns ! m' < ns ! m" using so m(1) by (simp add: sorted_wrt_iff_nth_less)
      then show False using m by simp
    qed (use m in simp)
  qed
  have "m' = Suc m"
  proof (rule ccontr)
    assume "m' \<noteq> Suc m"
    then have "Suc m < m'" using \<open>m < m'\<close> by simp
    then have "ns ! m < ns ! Suc m" "ns ! Suc m < ns ! m'"
      using sorted_wrt_nth_less[OF so, of m "Suc m"] sorted_wrt_nth_less[OF so, of "Suc m" m'] m(3) by simp_all
    then show False using m by simp
  qed
  then show thesis using that m by blast
qed

lemma context_window_iff: "context_window_error fh k \<noteq> None \<longleftrightarrow> condensed_twice fh"
proof (cases "10 \<le> length (indexed (\<lambda>e. is_a e AgentCondensationObservation) fh)")
  case False
  then show ?thesis
    using length_filter_drop[of "\<lambda>e. is_a e AgentCondensationObservation" 0 fh]
    by (auto simp: context_window_error_def condensed_twice_def Let_def indexed_eq)
next
  case True
  let ?Q = "\<lambda>l. is_a (fh ! l) AgentCondensationObservation" let ?n = "length fh"
  obtain i ns' where li: "slice_from (indexed (\<lambda>e. is_a e AgentCondensationObservation) fh) (- 10) =
      map (\<lambda>l. (l, fh ! l)) (i # ns')" "i # ns' = filter ?Q [i..<?n]" "length (i # ns') = 10"
    using last_indexed[of 10 "\<lambda>e. is_a e AgentCondensationObservation" fh] True by auto
  define ns where "ns = i # ns'"
  have ns: "filter ?Q [i..<?n] = ns" "length ns = 10" using li ns_def by auto
  have ten: "10 \<le> length (filter (\<lambda>e. is_a e AgentCondensationObservation) fh)"
    using True length_filter_drop[of "\<lambda>e. is_a e AgentCondensationObservation" 0 fh] by (simp add: indexed_eq)
  have el: "\<And>m. m < 10 \<Longrightarrow> i \<le> ns ! m \<and> ns ! m < ?n \<and> ?Q (ns ! m)"
    using nth_mem[of _ ns] unfolding ns(1)[symmetric] ns(2)[folded ns(1)] by auto
  have so: "sorted_wrt (<) ns" unfolding ns(1)[symmetric] by (simp add: sorted_wrt_filter)
  have gap: "\<not> list_ex (\<lambda>e. \<not> is_a e AgentCondensationObservation)
          (slice fh (int (ns ! m) + 1) (int (ns ! Suc m))) \<longleftrightarrow> ns ! Suc m = Suc (ns ! m)"
    if m: "Suc m < 10" for m
  proof -
    have lt: "ns ! m < ns ! Suc m" using so m ns(2) by (simp add: sorted_wrt_iff_nth_less)
    have no: "\<not> ?Q l" if "ns ! m < l \<and> l < ns ! Suc m" for l
      by (rule filter_upt_consecutive[of m ?Q i ?n l]) (use m ns that in simp_all)
    have le: "ns ! Suc m \<le> ?n" using el[OF m] by simp
    have "(\<exists>l. ns ! m < l \<and> l < ns ! Suc m \<and> \<not> ?Q l) \<longleftrightarrow> ns ! Suc m \<noteq> Suc (ns ! m)"
    proof
      assume "ns ! Suc m \<noteq> Suc (ns ! m)"
      then have "ns ! m < Suc (ns ! m) \<and> Suc (ns ! m) < ns ! Suc m" using lt by simp
      then show "\<exists>l. ns ! m < l \<and> l < ns ! Suc m \<and> \<not> ?Q l" using no by blast
    qed auto
    then show ?thesis unfolding list_ex_between[OF le] by blast
  qed
  have "context_window_error fh k \<noteq> None \<longleftrightarrow> (\<exists>m. Suc m < 10 \<and> ns ! Suc m = Suc (ns ! m))"
    using True gap unfolding context_window_error_def Let_def li(1) ns_def[symmetric]
    by (auto simp: adjacent_iff[unfolded not_None_eq] ns(2))
  also have "\<dots> \<longleftrightarrow> condensed_twice fh"
  proof
    assume "\<exists>m. Suc m < 10 \<and> ns ! Suc m = Suc (ns ! m)"
    then obtain m where m: "Suc m < 10" "ns ! Suc m = Suc (ns ! m)" by blast
    have "length (filter ?Q [ns ! m..<?n]) \<le> 10"
      using filter_upt_mono[of i "ns ! m" ?Q ?n] el[of m] m ns by simp
    then show "condensed_twice fh"
      using ten el[of m] el[of "Suc m"] m unfolding condensed_twice_def Let_def length_filter_drop
      by (intro conjI exI[of _ "ns ! m"]) auto
  next
    assume "condensed_twice fh"
    then obtain l where l: "Suc l < ?n" "?Q l" "?Q (Suc l)" "length (filter ?Q [l..<?n]) \<le> 10"
      unfolding condensed_twice_def Let_def length_filter_drop by blast
    have "i \<le> l"
    proof (rule ccontr)
      assume "\<not> i \<le> l"
      then have "length (filter ?Q [i..<?n]) \<le> length (filter ?Q [Suc l..<?n])" by (intro filter_upt_mono) simp
      moreover have "[l..<?n] = l # [Suc l..<?n]" using l(1) by (simp add: upt_conv_Cons)
      ultimately show False using l ns by simp
    qed
    then show "\<exists>m. Suc m < 10 \<and> ns ! Suc m = Suc (ns ! m)"
      using filter_upt_neighbours[OF ns(1) _ l(1-3)] ns(2) by metis
  qed
  finally show ?thesis .
qed

lemma is_stuck_headless:
  "fst (is_stuck True h p) \<longleftrightarrow>
     (let fh = filter relevant h in 3 \<le> length fh \<and>
       (same_round fh \<or> same_error fh \<or> same_message fh \<or>
        6 \<le> length fh \<and> alternation fh \<or> condensed_twice fh))"
proof -
  let ?fh = "filter relevant h"
  have ten: "condensed_twice ?fh \<Longrightarrow> 10 \<le> length ?fh"
    unfolding condensed_twice_def Let_def using length_filter_le order_trans by blast
  have d: "detect ?fh 0 \<noteq> None \<longleftrightarrow> same_round ?fh \<or> same_error ?fh \<or> same_message ?fh \<or>
      6 \<le> length ?fh \<and> alternation ?fh \<or> condensed_twice ?fh"
    unfolding repeating_action_observation_iff[of ?fh ?fh 0, symmetric]
      repeating_action_error_iff[of ?fh ?fh 0, symmetric] monologue_iff[of ?fh 0, symmetric]
      pattern_iff[of ?fh 0, symmetric]
    using context_window_iff[of ?fh 0] ten
    by (auto simp: detect_def collect_last_events Let_def split: option.splits)
  show ?thesis using d by (auto simp: is_stuck_def Let_def split: option.splits)
qed

text \<open>
  In headless mode the detector answers True exactly when the history without user
  messages and null events has at least three events and shows one of the five patterns: four
  matching action-observation rounds, three matching actions that fail, three equal agent
  messages without an observation in between, an alternation over the last six rounds, or two
  neighbouring condensation observations among the last ten.
\<close>

theorem stuck_iff:
  "fst (is_stuck True h p) \<longleftrightarrow>
     (let fh = filter relevant h in 3 \<le> length fh \<and>
       (same_round fh \<or> same_error fh \<or> same_message fh \<or>
        6 \<le> length fh \<and> alternation fh \<or> condensed_twice fh))"
  by (rule is_stuck_headless)

section \<open>Offsets\<close>

lemma adjacent_shift: "adjacent_condensations fh k ns = map_option (shift k) (adjacent_condensations fh 0 ns)"
  by (induction fh k ns rule: adjacent_condensations.induct) (simp_all add: shift_def)

lemma detect_shift: "detect fh k = map_option (shift k) (detect fh 0)"
proof -
  have "repeating_action_observation as obs fh k = map_option (shift k) (repeating_action_observation as obs fh 0)"
    "repeating_action_error as obs fh k = map_option (shift k) (repeating_action_error as obs fh 0)" for as obs
    by (simp_all add: repeating_action_observation_def repeating_action_error_def shift_def Let_def)
  moreover have "monologue fh k = map_option (shift k) (monologue fh 0)"
    "action_observation_pattern fh k = map_option (shift k) (action_observation_pattern fh 0)"
    "context_window_error fh k = map_option (shift k) (context_window_error fh 0)"
    by (simp_all add: monologue_def action_observation_pattern_def context_window_error_def shift_def Let_def
        adjacent_shift[of fh k])
  ultimately show ?thesis
    unfolding detect_def Let_def by (auto split: option.splits)
qed

lemma last_user_msg_idx_append:
  assumes "from_user u" "filter from_user ys = []"
  shows "last_user_msg_idx (xs @ u # ys) = int (length xs)"
proof -
  have a: "first_idx P (as @ x # bs) = Some (length as)" if "P x" "\<forall>y\<in>set as. \<not> P y" for P x as bs
    using that by (induction as) auto
  have "\<forall>y\<in>set (rev ys). \<not> from_user y" using assms(2) by (auto simp: filter_empty_conv)
  from a[OF assms(1) this, of "rev xs"] show ?thesis by (simp add: last_user_msg_idx_def)
qed

text \<open>
  In interactive mode only the events after the last user message are judged: the answer
  is the headless answer on them, and the reported loop start is shifted to a position of the
  whole history.
\<close>

theorem interactive_checks_since_last_user_message:
  assumes "from_user u" "filter from_user ys = []"
  shows "is_stuck False (xs @ u # ys) p =
     (if length (filter relevant ys) < 3 then (False, p)
      else (fst (is_stuck True ys p),
            map_option (shift (int (length xs) + 1)) (snd (is_stuck True ys p))))"
proof -
  have "slice_from (xs @ u # ys) (int (length xs) + 1) = ys" by (simp add: nat_add_distrib)
  then show ?thesis
    using detect_shift[of "filter relevant ys" "int (length xs) + 1"]
    by (cases "detect (filter relevant ys) 0") 
      (simp_all add: is_stuck_def last_user_msg_idx_append[OF assms] Let_def)
qed

section \<open>Soundness\<close>

lemma all_match_pair:
  assumes "all_match n xs" "2 \<le> n" shows "eq_no_pid (xs ! 0) (xs ! 1)"
proof -
  have "xs \<noteq> []" "xs ! 1 \<in> set xs" using assms by (auto simp: all_match_def)
  then show ?thesis using assms(1) by (simp add: all_match_def hd_conv_nth)
qed

lemma last_events_positions:
  assumes "i < j" "j < length (last_events n P fh)"
  obtains a b where "a < b" "b < length fh" "fh ! b = last_events n P fh ! i" "fh ! a = last_events n P fh ! j"
proof -
  let ?xs = "filter P (rev fh)"
  have l: "j < length ?xs" using assms by (simp add: last_events_def)
  have "subseq ?xs (rev fh)" by simp
  have ex: "\<exists>a b. a < b \<and> b < length ys \<and> ys ! a = filter P ys ! i' \<and> ys ! b = filter P ys ! j'"
    if "i' < j'" "j' < length (filter P ys)" for ys :: "event list" and i' j'
    using that
  proof (induction ys arbitrary: i' j')
    case (Cons y ys)
    show ?case
    proof (cases "P y \<and> i' = 0")
      case True
      then have "j' - 1 < length (filter P ys)" using Cons.prems by auto
      from nth_mem[OF this] have "filter P ys ! (j' - 1) \<in> set ys" by simp
      then obtain b where "b < length ys" "ys ! b = filter P ys ! (j' - 1)" by (auto simp: in_set_conv_nth)
      then show ?thesis using True Cons.prems by (intro exI[of _ 0] exI[of _ "Suc b"]) (auto simp: nth_Cons')
    next
      case False
      let ?d = "if P y then 1 else 0"
      have "i' - ?d < j' - ?d" "j' - ?d < length (filter P ys)" using Cons.prems False by (auto split: if_splits)
      from Cons.IH[OF this] obtain a b where "a < b" "b < length ys"
        "ys ! a = filter P ys ! (i' - ?d)" "ys ! b = filter P ys ! (j' - ?d)" by blast
      then show ?thesis using False Cons.prems
        by (intro exI[of _ "Suc a"] exI[of _ "Suc b"]) (auto simp: nth_Cons' split: if_splits)
    qed
  qed simp
  obtain a b where ab: "a < b" "b < length (rev fh)" "rev fh ! a = ?xs ! i" "rev fh ! b = ?xs ! j"
    using ex[OF assms(1) l] by blast
  have n: "j < n" using assms(2) by (simp add: last_events_def)
  show thesis
    by (rule that[of "length fh - Suc b" "length fh - Suc a"])
      (use ab assms n in \<open>auto simp: rev_nth last_events_def\<close>)
qed

lemma match_in_last_events:
  assumes "eq_no_pid (last_events n P fh ! i) (last_events n P fh ! j)" "i < j"
    "j < length (last_events n P fh)"
  shows "\<exists>a b. a < b \<and> b < length fh \<and> eq_no_pid (fh ! b) (fh ! a)"
  using last_events_positions[OF assms(2,3)] assms(1) by metis

lemma from_agent_eq_no_pid: "from_agent a \<Longrightarrow> eq_no_pid a b = py_eq a b"
  by (simp add: eq_no_pid_def from_agent_def)

lemma same_message_positions:
  assumes "filter Q [i..<n] = [i, j, k]" shows "i < j \<and> j < n \<and> Q i"
proof -
  have "sorted_wrt (<) [i, j, k]" using assms sorted_wrt_filter[of "(<)" "[i..<n]" Q] by simp
  moreover have "i \<in> set (filter Q [i..<n])" "j \<in> set (filter Q [i..<n])" unfolding assms by simp_all
  ultimately show ?thesis by auto
qed


text \<open>
  On a history of one action followed by three times another one, all answered by errors,
  the detector reports an error loop of three rounds that starts at the first action, which is
  not one of the repeated actions: the start is looked up with the fourth last action instead
  of the third last.
\<close>

theorem error_loop_start_before_loop:
  "is_stuck True sample_error_loop None =
     (True, Some \<lparr>loop_type = ''repeating_action_error'', loop_repeat_times = 3, loop_start_idx = 0\<rparr>) \<and>
   eq_no_pid (sample_error_loop ! 0) (sample_error_loop ! 2) = False \<and>
   eq_no_pid (sample_error_loop ! 2) (sample_error_loop ! 4) \<and>
   eq_no_pid (sample_error_loop ! 2) (sample_error_loop ! 6)"
  by code_simp

text \<open>
  Ten condensation observations of which only the first two are neighbours, with an action
  before each of the others, are reported as a context window error loop.
\<close>

theorem one_adjacent_pair_is_a_context_loop:
  "is_stuck True sample_condensations None =
     (True, Some \<lparr>loop_type = ''context_window_error'', loop_repeat_times = 2, loop_start_idx = 0\<rparr>) \<and>
   length (filter (\<lambda>e. is_a e AgentCondensationObservation) sample_condensations) = 10 \<and>
   list_all (\<lambda>i. is_a (sample_condensations ! i) CmdRunAction) [2, 4, 6, 8, 10, 12, 14, 16]"
  by code_simp

theorem interactive_checks_since_last_user_message_witness:
  "is_stuck False (sample_error_loop @ sample_user # sample_error_loop) None =
     (True, Some \<lparr>loop_type = ''repeating_action_error'', loop_repeat_times = 3, loop_start_idx = 9\<rparr>)"
proof -
  have "from_user sample_user" "filter from_user sample_error_loop = []" "\<not> length (filter relevant sample_error_loop) < 3"
    "is_stuck True sample_error_loop None =
     (True, Some \<lparr>loop_type = ''repeating_action_error'', loop_repeat_times = 3, loop_start_idx = 0\<rparr>)"
   "length sample_error_loop = 8"
    by code_simp+
  then show ?thesis
    using interactive_checks_since_last_user_message[of sample_user sample_error_loop sample_error_loop None]
    by (simp add: shift_def)
qed


lemma event_index_range:
  assumes "e \<in> set fh"
  shows "0 \<le> event_index fh e \<and> event_index fh e < int (length fh) \<and> py_eq e (fh ! nat (event_index fh e))"
proof -
  obtain i where "first_idx (py_eq e) fh = Some i"
    using assms first_idx_None_iff[of "py_eq e" fh] by (cases "first_idx (py_eq e) fh") auto
  then show ?thesis using first_idx_Some_iff[of "py_eq e" fh i] by (simp add: event_index_def)
qed

lemma last_in_history: "last_events n P fh \<noteq> [] \<Longrightarrow> last (last_events n P fh) \<in> set fh"
proof -
  assume "last_events n P fh \<noteq> []"
  then have "last (last_events n P fh) \<in> set (last_events n P fh)" by (rule last_in_set)
  moreover have "set (last_events n P fh) \<subseteq> set fh"
    unfolding last_events_def by (auto dest: in_set_takeD)
  ultimately show ?thesis by blast
qed

lemma adjacent_range:
  "adjacent_condensations fh k ns = Some a \<Longrightarrow> \<exists>i\<in>set (map fst ns). loop_start_idx a = int i + k"
  by (induction fh k ns rule: adjacent_condensations.induct) (auto split: if_splits)

lemma indexed_range: "i \<in> set (map fst (indexed P fh)) \<Longrightarrow> i < length fh"
  by (auto simp: indexed_eq)

lemma detect_range:
  assumes "detect fh 0 = Some a" shows "0 \<le> loop_start_idx a \<and> loop_start_idx a < int (length fh)"
proof -
  let ?ok = "\<lambda>r. \<forall>a. r = Some a \<longrightarrow> 0 \<le> loop_start_idx a \<and> loop_start_idx a < int (length fh)"
  have idx: "0 \<le> event_index fh (last (last_events n is_action fh)) \<and>
      event_index fh (last (last_events n is_action fh)) < int (length fh)"
    if "last_events n is_action fh \<noteq> []" for n
    using event_index_range[OF last_in_history[OF that]] by simp
  have 1: "?ok (repeating_action_observation (last_events 4 is_action fh) obs fh 0)" for obs
  proof (cases "last_events 4 is_action fh = []")
    case False
    then show ?thesis using idx[OF False] by (simp add: repeating_action_observation_def)
  qed (simp add: repeating_action_observation_def)
  have 2: "?ok (repeating_action_error (last_events 4 is_action fh) obs fh 0)" for obs
  proof (cases "last_events 4 is_action fh = []")
    case False
    then show ?thesis using idx[OF False] by (simp add: repeating_action_error_def Let_def)
  qed (simp add: repeating_action_error_def)
  have 3: "?ok (monologue fh 0)"
  proof (cases "3 \<le> length (indexed from_agent fh)")
    case True
    have "indexed from_agent fh ! (length (indexed from_agent fh) - 3) \<in> set (indexed from_agent fh)"
      using True by (intro nth_mem) auto
    then have "fst (indexed from_agent fh ! (length (indexed from_agent fh) - 3)) < length fh"
      using indexed_range by force
    then show ?thesis using True slice_from_neg[of 3 "indexed from_agent fh"]
      by (auto simp: monologue_def Let_def split: if_splits)
  qed (simp add: monologue_def)
  have 4: "?ok (action_observation_pattern fh 0)"
    using idx[of 6] by (cases "last_events 6 is_action fh = []"; auto simp: action_observation_pattern_def collect_last_events Let_def split: if_splits)
  have 5: "?ok (context_window_error fh 0)"
  proof (intro allI impI)
    fix a assume "context_window_error fh 0 = Some a"
    then obtain i where "i \<in> set (map fst (slice_from (indexed (\<lambda>e. is_a e AgentCondensationObservation) fh) (-10)))"
      "loop_start_idx a = int i"
      using adjacent_range[of fh 0] by (fastforce simp: context_window_error_def Let_def split: if_splits)
    moreover from this(1) have "i < length fh"
      using set_slice_from[of "indexed (\<lambda>e. is_a e AgentCondensationObservation) fh"]
        indexed_range[of i "\<lambda>e. is_a e AgentCondensationObservation" fh] by force
    ultimately show "0 \<le> loop_start_idx a \<and> loop_start_idx a < int (length fh)" by simp
  qed
  show ?thesis
    using assms 1 2 3 4 5 by (auto simp: detect_def collect_last_events Let_def split: option.splits if_splits)
qed

lemma last_user_msg_idx_range: "-1 \<le> last_user_msg_idx h \<and> last_user_msg_idx h < int (length h)"
  by (auto simp: last_user_msg_idx_def dest: first_idx_Some_iff[THEN iffD1] split: option.splits)

text \<open>
  Whenever the detector answers True it has stored an analysis, and its loop start is a
  position of the history, in both modes.
\<close>

theorem loop_start_in_history:
  assumes "is_stuck headless h p = (True, a)"
  shows "\<exists>x. a = Some x \<and> 0 \<le> loop_start_idx x \<and> loop_start_idx x < int (length h)"
proof -
  define k where "k = (if headless then 0 else last_user_msg_idx h + 1)"
  define hh where "hh = (if headless then h else slice_from h (last_user_msg_idx h + 1))"
  have k: "0 \<le> k" "k \<le> int (length h)" "int (length hh) = int (length h) - k"
    using last_user_msg_idx_range[of h] by (auto simp: k_def hh_def)
  obtain x where x: "detect (filter relevant hh) k = Some x" "a = Some x"
    using assms unfolding is_stuck_def k_def[symmetric] hh_def[symmetric] Let_def
    by (auto split: if_splits option.splits)
  obtain y where y: "detect (filter relevant hh) 0 = Some y" "x = shift k y"
    using x(1) detect_shift[of _ k] by auto
  have "int (length (filter relevant hh)) \<le> int (length hh)" by simp
  then show ?thesis using detect_range[OF y(1)] x(2) y(2) k by (simp add: shift_def)
qed

theorem loop_start_in_history_witness:
  "\<exists>x. snd (is_stuck True sample_error_loop None) = Some x \<and> 0 \<le> loop_start_idx x \<and> loop_start_idx x < 8"
proof -
  have "fst (is_stuck True sample_error_loop None)" "length sample_error_loop = 8" by code_simp+
  then show ?thesis
    using loop_start_in_history[of True sample_error_loop None "snd (is_stuck True sample_error_loop None)"]
    by (cases "is_stuck True sample_error_loop None") simp
qed

end
