(* ===== verification/Replay.thy ===== *)
theory Replay
  imports Serialization_Laws
begin

text \<open>
  \<^verbatim>\<open>openhands/controller/replay.py\<close>: replay of a recorded trajectory.  The manager keeps the
  events, whether it replays, and the index of the next event; \<open>should_replay\<close> moves the
  index to the next action.  Events are values here, so clearing \<^verbatim>\<open>wait_for_response\<close> gives
  new events instead of changing the caller's.
\<close>

section \<open>The manager\<close>

record replay_manager =
  replay_events :: "event list"
  replay_mode :: bool
  replay_index :: nat

definition no_wait :: "event \<Rightarrow> event" where
  "no_wait e =
     (if is_a e MessageAction \<and> bool_attr e ''wait_for_response''
      then setattr ''wait_for_response'' (PBool False) e else e)"

definition replay_init :: "event list \<Rightarrow> replay_manager" where
  "replay_init events =
     (let es = filter (\<lambda>e. ev_source e \<noteq> Some ENVIRONMENT \<and> \<not> is_a e NullObservation) events;
          es' = (if es = [] then [] else map no_wait (butlast es) @ [last es])
      in \<lparr>replay_events = es', replay_mode = (es' \<noteq> []), replay_index = 0\<rparr>)"

definition replayable :: "replay_manager \<Rightarrow> bool" where
  "replayable r \<longleftrightarrow> replay_index r < length (replay_events r) \<and> is_action (replay_events r ! replay_index r)"

function skip_to_action :: "replay_manager \<Rightarrow> replay_manager" where
  \<comment> \<open>the loop of \<^verbatim>\<open>should_replay\<close>\<close>
  "skip_to_action r =
     (if replay_index r < length (replay_events r) \<and> \<not> replayable r
      then skip_to_action (r\<lparr>replay_index := replay_index r + 1\<rparr>) else r)"
  by pat_completeness auto
termination
  by (relation "measure (\<lambda>r. length (replay_events r) - replay_index r)") auto

declare skip_to_action.simps [simp del]

definition should_replay :: "replay_manager \<Rightarrow> replay_manager \<times> bool" where
  "should_replay r =
     (if \<not> replay_mode r then (r, False)
      else let r' = skip_to_action r in (r', replayable r'))"

definition replay_step :: "replay_manager \<Rightarrow> replay_manager \<times> event res" where
  "replay_step r =
     (if replay_index r < length (replay_events r)
      then let e = replay_events r ! replay_index r
           in if is_action e then (r\<lparr>replay_index := replay_index r + 1\<rparr>, Inr e)
              else (r, Inl (AssertionError []))
      else (r, Inl (IndexError ''list index out of range'')))"

fun load_trajectory :: "pyval list \<Rightarrow> (event list) res" where
  "load_trajectory [] = Inr []"
| "load_trajectory (item # items) =
     (case item of
        PDict d \<Rightarrow>
          (case event_from_dict d of
             Inl err \<Rightarrow> Inl err
           | Inr e \<Rightarrow>
               (case load_trajectory items of
                  Inl err \<Rightarrow> Inl err
                | Inr es \<Rightarrow> Inr (if ev_source e = Some ENVIRONMENT then es else e\<lparr>ev_id := None\<rparr> # es)))
      | _ \<Rightarrow> Inl (NotModelled ''trajectory item that is not a dictionary''))"

definition get_replay_events :: "pyval \<Rightarrow> (event list) res" where
  "get_replay_events trajectory =
     (case trajectory of
        PList items \<Rightarrow> load_trajectory items
      | _ \<Rightarrow> Inl (ValueError ''Expected a list''))"

section \<open>A whole replay\<close>

lemma skip_to_action_spec:
  "replay_events (skip_to_action r) = replay_events r \<and> replay_mode (skip_to_action r) = replay_mode r \<and>
   replay_index r \<le> replay_index (skip_to_action r) \<and>
   filter is_action (drop (replay_index (skip_to_action r)) (replay_events r))
     = filter is_action (drop (replay_index r) (replay_events r)) \<and>
   (replay_index (skip_to_action r) < length (replay_events r) \<longrightarrow> replayable (skip_to_action r))"
proof (induction r rule: skip_to_action.induct)
  case (1 r)
  show ?case
  proof (cases "replay_index r < length (replay_events r) \<and> \<not> replayable r")
    case True
    let ?r = "r\<lparr>replay_index := replay_index r + 1\<rparr>"
    have s: "skip_to_action r = skip_to_action ?r" using True skip_to_action.simps[of r] by simp
    have "drop (replay_index r) (replay_events r)
        = replay_events r ! replay_index r # drop (Suc (replay_index r)) (replay_events r)"
      using True by (simp add: Cons_nth_drop_Suc)
    moreover have "\<not> is_action (replay_events r ! replay_index r)" using True by (simp add: replayable_def)
    ultimately have "filter is_action (drop (replay_index r) (replay_events r))
       = filter is_action (drop (Suc (replay_index r)) (replay_events r))" by simp
    then show ?thesis unfolding s using 1[OF True] by simp
  next
    case False
    then show ?thesis using skip_to_action.simps[of r] by auto
  qed
qed

lemma should_replay_spec:
  assumes "snd (should_replay r)"
  defines "r' \<equiv> fst (should_replay r)"
  shows "replayable r'" "replay_events r' = replay_events r" "replay_mode r' = replay_mode r"
    "replay_index r \<le> replay_index r'"
    "filter is_action (drop (replay_index r') (replay_events r)) = filter is_action (drop (replay_index r) (replay_events r))"
  using assms skip_to_action_spec[of r] by (auto simp: should_replay_def Let_def split: if_splits)

lemma should_replay_stops:
  assumes "\<not> snd (should_replay r)" "replay_mode r"
  shows "filter is_action (drop (replay_index r) (replay_events r)) = []"
proof -
  have "\<not> replay_index (skip_to_action r) < length (replay_events r)"
    using assms skip_to_action_spec[of r] by (auto simp: should_replay_def Let_def)
  then show ?thesis using skip_to_action_spec[of r] by (metis drop_all filter.simps(1) not_less)
qed

lemma replayable_step:
  "replayable r \<Longrightarrow> replay_step r = (r\<lparr>replay_index := replay_index r + 1\<rparr>, Inr (replay_events r ! replay_index r))"
  by (simp add: replayable_def replay_step_def Let_def)

function replay_run :: "replay_manager \<Rightarrow> event list" where
  \<comment> \<open>the actions handed out by calling \<^verbatim>\<open>should_replay\<close> and \<^verbatim>\<open>step\<close> in turn, as the controller does\<close>
  "replay_run r =
     (if snd (should_replay r)
      then let p = replay_step (fst (should_replay r))
           in (case snd p of Inr e \<Rightarrow> e # replay_run (fst p) | Inl _ \<Rightarrow> [])
      else [])"
  by pat_completeness auto
termination
proof (relation "measure (\<lambda>r. length (replay_events r) - replay_index r)")
  fix r p e assume a: "snd (should_replay r)" "p = replay_step (fst (should_replay r))" "snd p = Inr e"
  note s = should_replay_spec[OF a(1)]
  have "replay_index (fst (should_replay r)) < length (replay_events r)"
    using s(1,2) by (simp add: replayable_def)
  then show "(fst p, r) \<in> measure (\<lambda>r. length (replay_events r) - replay_index r)"
    using s(2,4) a(2) replayable_step[OF s(1)] by simp
qed simp

declare replay_run.simps [simp del]

lemma replay_run_eq:
  "replay_mode r \<Longrightarrow> replay_run r = filter is_action (drop (replay_index r) (replay_events r))"
proof (induction r rule: replay_run.induct)
  case (1 r)
  show ?case
  proof (cases "snd (should_replay r)")
    case True
    let ?r' = "fst (should_replay r)"
    note s = should_replay_spec[OF True]
    let ?e = "replay_events r ! replay_index ?r'"
    have lt: "replay_index ?r' < length (replay_events r)" "is_action ?e" using s(1,2) by (auto simp: replayable_def)
    have "replay_run r = ?e # replay_run (?r'\<lparr>replay_index := replay_index ?r' + 1\<rparr>)"
      using True replayable_step[OF s(1)] s(2) by (subst replay_run.simps) (simp add: Let_def)
    also have "replay_run (?r'\<lparr>replay_index := replay_index ?r' + 1\<rparr>)
       = filter is_action (drop (Suc (replay_index ?r')) (replay_events r))"
      using 1(1)[OF True refl, of ?e] replayable_step[OF s(1)] s(2,3) 1(2) by simp
    also have "?e # filter is_action (drop (Suc (replay_index ?r')) (replay_events r))
       = filter is_action (drop (replay_index ?r') (replay_events r))"
      using lt by (simp flip: Cons_nth_drop_Suc)
    finally show ?thesis using s(5) by simp
  next
    case False
    then show ?thesis using should_replay_stops[OF False 1(2)] by (subst replay_run.simps) simp
  qed
qed

lemma no_wait_is_action [simp]: "is_action (no_wait e) = is_action e"
  by (simp add: no_wait_def is_action_def frame_simps)

text \<open>
  A replay hands out exactly the actions of the trajectory that the user or the agent issued, in
  their order, each once; every one but the last event of the trajectory has its
  \<^verbatim>\<open>wait_for_response\<close> flag cleared, so the replay never waits for the user.
\<close>

theorem replay_hands_out_all_actions:
  "replay_run (replay_init events) =
     (let es = filter (\<lambda>e. ev_source e \<noteq> Some ENVIRONMENT \<and> \<not> is_a e NullObservation) events
      in map no_wait (filter is_action (butlast es)) @ filter is_action (if es = [] then [] else [last es]))"
proof -
  let ?es = "filter (\<lambda>e. ev_source e \<noteq> Some ENVIRONMENT \<and> \<not> is_a e NullObservation) events"
  show ?thesis
  proof (cases "?es = []")
    case True
    then show ?thesis by (subst replay_run.simps) (simp add: replay_init_def should_replay_def Let_def)
  next
    case False
    then have "replay_run (replay_init events) = filter is_action (map no_wait (butlast ?es) @ [last ?es])"
      using replay_run_eq[of "replay_init events"] by (simp add: replay_init_def Let_def)
    then show ?thesis using False by (simp add: filter_map comp_def Let_def)
  qed
qed

end
