(* ===== verification/Exceptions.thy ===== *)
theory Exceptions
  imports OH_Prelude
begin

text \<open>
  Exceptions where their classes matter, as in the controller and the language model client: the name of the class, the names of
  its base classes, the text, and the attempt and the maximum that the retry decorator may have set.
\<close>

record exn =
  exn_class :: string
  exn_bases :: "string list"
  exn_str :: string
  exn_retry :: "(int \<times> int) option"

definition mk_exn :: "string \<Rightarrow> string \<Rightarrow> exn" where
  "mk_exn c s = \<lparr>exn_class = c, exn_bases = [], exn_str = s, exn_retry = None\<rparr>"

definition isinstance_exn :: "exn \<Rightarrow> string \<Rightarrow> bool" where
  "isinstance_exn e c \<longleftrightarrow> exn_class e = c \<or> c \<in> set (exn_bases e)"

fun exn_of :: "pyerr \<Rightarrow> exn" where
  "exn_of (ValueError s) = mk_exn ''ValueError'' s"
| "exn_of (TypeError s) = mk_exn ''TypeError'' s"
| "exn_of (KeyError s) = mk_exn ''KeyError'' s"
| "exn_of (AttributeError s) = mk_exn ''AttributeError'' s"
| "exn_of (IndexError s) = mk_exn ''IndexError'' s"
| "exn_of (FileNotFoundError s) = mk_exn ''FileNotFoundError'' s"
| "exn_of (RuntimeError s) = mk_exn ''RuntimeError'' s"
| "exn_of (AssertionError s) = mk_exn ''AssertionError'' s"
| "exn_of (LLMMalformedActionError s) = mk_exn ''LLMMalformedActionError'' s"
| "exn_of (FunctionCallConversionError s) = mk_exn ''FunctionCallConversionError'' s"
| "exn_of (FunctionCallValidationError s) = mk_exn ''FunctionCallValidationError'' s"
| "exn_of (FunctionCallNotExistsError s) = mk_exn ''FunctionCallNotExistsError'' s"
| "exn_of (PyException s) = mk_exn ''Exception'' s"
| "exn_of (NotModelled s) = mk_exn ''NotModelled'' s"

end
