(* ===== verification/Agent_Controller.thy ===== *)
theory Agent_Controller
  imports State_Tracker Stuck_Laws Replay Exceptions
begin

text \<open>
  The agent controller (\<^verbatim>\<open>openhands/controller/agent_controller.py\<close>).

  A controller with its chain of delegates is a record \<open>ctl\<close>: the objects that all of them share
  (event stream, control flags and metrics, conversation statistics, clock, reported statuses),
  the fields of the controller itself (\<open>me\<close>) and those of its delegate, its delegate's delegate and
  so on (\<open>below\<close>).  A method is a function of this record that returns the new record and either
  the raised exception or the result; what was changed before an exception stays changed.

  Agents are code outside of the controller: \<open>agents\<close> holds the operations the controller calls.
  A step of an agent may change the extra data and the view cache of the state and the
  statistics of the conversation, and answers with an action, nothing, or an exception.  The
  security analyzer and the clock are parameters too.  Coroutines run to completion, as
  \<^verbatim>\<open>run_until_complete\<close> makes them.  Log output is left out.
\<close>

section \<open>The controller\<close>

record 'ag agents =
  agent_name :: "'ag \<Rightarrow> string"
  agent_step :: "'ag \<Rightarrow> full_state \<Rightarrow> conv_stats \<Rightarrow> 'ag \<times> state \<times> conv_stats \<times> (exn + event option)"
  agent_reset :: "'ag \<Rightarrow> 'ag"
  get_system_message :: "'ag \<Rightarrow> event option"
  agent_make :: "string \<Rightarrow> 'ag \<Rightarrow> conv_stats \<Rightarrow> conv_stats \<times> (exn + 'ag)"
  enable_stuck_detection :: "'ag \<Rightarrow> bool"
  enable_history_truncation :: "'ag \<Rightarrow> bool"
  cli_mode :: "'ag \<Rightarrow> bool"
  security_analyzer :: "(event \<Rightarrow> exn + pyval) option"
  clock :: "nat \<Rightarrow> string"

record 'ag frame =
  c_id :: string
  c_sid :: "string option"
  c_user :: "string option"
  c_store :: bool
  c_agent :: 'ag
  c_headless :: bool
  c_is_delegate :: bool
  c_confirmation :: bool
  c_state :: state
  c_stuck :: "stuck_analysis option"
  c_replay :: replay_manager
  c_pending :: "event option"
  c_closed :: bool
  c_first_message :: "event option"
  c_max_iterations :: int
  c_max_budget :: "rat option"
  c_callback :: bool

record 'ag ctl =
  strm :: pstream
  shr :: shared
  stats :: conv_stats
  ticks :: nat
  statuses :: "(string \<times> string) list"
  me :: "'ag frame"
  below :: "'ag frame list"

type_synonym ('ag, 'a) ctl_method = "'ag ctl \<Rightarrow> 'ag ctl \<times> (exn + 'a)"

subsection \<open>Sequencing\<close>

definition ret :: "'a \<Rightarrow> ('ag, 'a) ctl_method" where
  "ret x c = (c, Inr x)"

definition raise_exn :: "exn \<Rightarrow> ('ag, 'a) ctl_method" where
  "raise_exn e c = (c, Inl e)"

definition bnd :: "('ag, 'a) ctl_method \<Rightarrow> ('a \<Rightarrow> ('ag, 'b) ctl_method) \<Rightarrow> ('ag, 'b) ctl_method" where
  "bnd m f c = (case m c of (c', Inl e) \<Rightarrow> (c', Inl e) | (c', Inr x) \<Rightarrow> f x c')"

definition seqm :: "('ag, 'a) ctl_method \<Rightarrow> ('ag, 'b) ctl_method \<Rightarrow> ('ag, 'b) ctl_method" where
  "seqm m m' = bnd m (\<lambda>_. m')"

definition try_catch :: "('ag, 'a) ctl_method \<Rightarrow> (exn \<Rightarrow> ('ag, 'a) ctl_method) \<Rightarrow> ('ag, 'a) ctl_method" where
  "try_catch m h c = (case m c of (c', Inl e) \<Rightarrow> h e c' | (c', Inr x) \<Rightarrow> (c', Inr x))"

definition asks :: "('ag ctl \<Rightarrow> 'a) \<Rightarrow> ('ag, 'a) ctl_method" where
  "asks f c = (c, Inr (f c))"

definition upd :: "('ag ctl \<Rightarrow> 'ag ctl) \<Rightarrow> ('ag, unit) ctl_method" where
  "upd f c = (f c, Inr ())"

definition upd_me :: "('ag frame \<Rightarrow> 'ag frame) \<Rightarrow> ('ag, unit) ctl_method" where
  "upd_me f = upd (\<lambda>c. c\<lparr>me := f (me c)\<rparr>)"

definition upd_state :: "(state \<Rightarrow> state) \<Rightarrow> ('ag, unit) ctl_method" where
  "upd_state f = upd_me (\<lambda>m. m\<lparr>c_state := f (c_state m)\<rparr>)"

definition whenm :: "bool \<Rightarrow> ('ag, unit) ctl_method \<Rightarrow> ('ag, unit) ctl_method" where
  "whenm b m = (if b then m else ret ())"

definition from_res :: "'a res \<Rightarrow> ('ag, 'a) ctl_method" where
  "from_res r = (case r of Inl err \<Rightarrow> raise_exn (exn_of err) | Inr x \<Rightarrow> ret x)"

abbreviation my_state :: "'ag ctl \<Rightarrow> state" where
  "my_state c \<equiv> c_state (me c)"

definition get_agent_state :: "'ag ctl \<Rightarrow> agent_state" where
  "get_agent_state c = agent_state (my_state c)"

definition on_delegate :: "('ag, 'a) ctl_method \<Rightarrow> ('ag, 'a) ctl_method" where
  \<comment> \<open>a method of \<^verbatim>\<open>self.delegate\<close>\<close>
  "on_delegate m c =
     (case below c of
        [] \<Rightarrow> (c, Inl (exn_of (AttributeError ''NoneType object has no attribute'')))
      | d # ds \<Rightarrow> (case m (c\<lparr>me := d, below := ds\<rparr>) of
                     (c', r) \<Rightarrow> (c'\<lparr>me := me c, below := me c' # below c'\<rparr>, r)))"

subsection \<open>Publishing\<close>

definition publish :: "'ag agents \<Rightarrow> event \<Rightarrow> event_source \<Rightarrow> ('ag, event) ctl_method" where
  \<comment> \<open>\<^verbatim>\<open>event_stream.add_event(e, src)\<close>; the result is the object with the attributes it was given\<close>
  "publish A e src c =
     (case add_event (clock A (ticks c)) e src (strm c) of
        (s, e', err) \<Rightarrow>
          (c\<lparr>strm := s, ticks := ticks c + 1\<rparr>, case err of None \<Rightarrow> Inr e' | Some x \<Rightarrow> Inl (exn_of x)))"

definition publish_pending :: "'ag agents \<Rightarrow> event \<Rightarrow> event_source \<Rightarrow> ('ag, unit) ctl_method" where
  \<comment> \<open>the event is also the pending action, which is the same object\<close>
  "publish_pending A e src c =
     (case add_event (clock A (ticks c)) e src (strm c) of
        (s, e', err) \<Rightarrow>
          (c\<lparr>strm := s, ticks := ticks c + 1, me := (me c)\<lparr>c_pending := Some e'\<rparr>\<rparr>,
           case err of None \<Rightarrow> Inr () | Some x \<Rightarrow> Inl (exn_of x)))"

definition state_changed :: "agent_state \<Rightarrow> string \<Rightarrow> event" where
  "state_changed st reason = blank AgentStateChangedObservation
     [(''content'', PStr []), (''agent_state'', PStr (agent_state_value st)), (''reason'', PStr reason),
      (''observation'', PStr ''agent_state_changed'')]"

definition error_observation :: "string \<Rightarrow> string \<Rightarrow> event" where
  "error_observation s error_id = blank ErrorObservation
     [(''content'', PStr s), (''observation'', PStr ''error''), (''error_id'', PStr error_id)]"

definition recall_action :: "string \<Rightarrow> string \<Rightarrow> event" where
  "recall_action kind q = blank RecallAction
     [(''recall_type'', PStr kind), (''query'', PStr q), (''thought'', PStr []), (''action'', PStr ''recall'')]"

definition message_action :: "string \<Rightarrow> event" where
  "message_action s = blank MessageAction
     [(''content'', PStr s), (''file_urls'', PNone), (''image_urls'', PNone), (''wait_for_response'', PBool False),
      (''action'', PStr ''message''), (''security_risk'', PInt (-1))]"

definition condensation_request :: event where
  "condensation_request = blank CondensationRequestAction [(''action'', PStr ''condensation_request'')]"

definition loop_detection :: "string \<Rightarrow> event" where
  "loop_detection s = blank LoopDetectionObservation [(''content'', PStr s), (''observation'', PStr ''loop_detection'')]"

definition change_agent_state :: "agent_state \<Rightarrow> event" where
  "change_agent_state st = blank ChangeAgentStateAction
     [(''agent_state'', PStr (agent_state_value st)), (''thought'', PStr []), (''action'', PStr ''change_agent_state'')]"

definition delegate_observation :: "(string, pyval) dict \<Rightarrow> string \<Rightarrow> event" where
  "delegate_observation outs s = blank AgentDelegateObservation
     [(''content'', PStr s), (''outputs'', PDict outs), (''observation'', PStr ''delegate'')]"

section \<open>State changes\<close>

definition ERROR_ACTION_NOT_EXECUTED_STOPPED_ID :: string where
  "ERROR_ACTION_NOT_EXECUTED_STOPPED_ID = ''AGENT_ERROR$ERROR_ACTION_NOT_EXECUTED_STOPPED''"

definition ERROR_ACTION_NOT_EXECUTED_ERROR_ID :: string where
  "ERROR_ACTION_NOT_EXECUTED_ERROR_ID = ''AGENT_ERROR$ERROR_ACTION_NOT_EXECUTED_ERROR''"

definition ERROR_ACTION_NOT_EXECUTED_STOPPED :: string where
  "ERROR_ACTION_NOT_EXECUTED_STOPPED = ''Stop button pressed. The action has not been executed.''"

definition ERROR_ACTION_NOT_EXECUTED_ERROR :: string where
  "ERROR_ACTION_NOT_EXECUTED_ERROR = ''The action has not been executed due to a runtime error. The runtime system may have crashed and restarted due to resource constraints. Any previously established system state, dependencies, or environment variables may have been lost.''"

definition reset_controller :: "'ag agents \<Rightarrow> ('ag, unit) ctl_method" where
  "reset_controller A =
     bnd (asks (\<lambda>c. c)) (\<lambda>c.
     seqm (case c_pending (me c) of
             None \<Rightarrow> ret ()
           | Some p \<Rightarrow>
               whenm (\<not> list_ex (\<lambda>e. is_observation e \<and> ev_tool_call_metadata e = ev_tool_call_metadata p) (history (my_state c)))
                 (let stopped = (get_agent_state c = STOPPED);
                      obs = error_observation
                        (if stopped then ERROR_ACTION_NOT_EXECUTED_STOPPED else ERROR_ACTION_NOT_EXECUTED_ERROR)
                        (if stopped then ERROR_ACTION_NOT_EXECUTED_STOPPED_ID else ERROR_ACTION_NOT_EXECUTED_ERROR_ID)
                  in seqm (publish A (obs\<lparr>ev_tool_call_metadata := ev_tool_call_metadata p, ev_cause := Some (eid p)\<rparr>) AGENT)
                       (ret ())))
       (upd_me (\<lambda>m. m\<lparr>c_pending := None, c_agent := agent_reset A (c_agent m)\<rparr>)))"

definition confirmed :: "agent_state \<Rightarrow> event \<Rightarrow> event" where
  "confirmed new p =
     (let p1 = (if hasattr p ''thought'' then setattr ''thought'' (PStr []) p else p);
          p2 = setattr ''confirmation_state'' (PStr (if new = USER_CONFIRMED then ''confirmed'' else ''rejected'')) p1
      in p2\<lparr>ev_id := None\<rparr>)"

definition answer_pending :: "'ag agents \<Rightarrow> agent_state \<Rightarrow> ('ag, unit) ctl_method" where
  "answer_pending A new =
     bnd (asks (\<lambda>c. c_pending (me c))) (\<lambda>p.
       case p of
         None \<Rightarrow> ret ()
       | Some p \<Rightarrow> whenm (new = USER_CONFIRMED \<or> new = USER_REJECTED) (publish_pending A (confirmed new p) AGENT))"

definition save_controller :: "('ag, unit) ctl_method" where
  "save_controller = upd (\<lambda>c. c\<lparr>strm := (strm c)\<lparr>files :=
     save_state (c_sid (me c)) (c_store (me c)) (c_user (me c)) (stats c) (my_state c, shr c) (files (strm c))\<rparr>\<rparr>)"

definition set_agent_state_to :: "'ag agents \<Rightarrow> agent_state \<Rightarrow> ('ag, unit) ctl_method" where
  "set_agent_state_to A new =
     bnd (asks get_agent_state) (\<lambda>old.
       if new = old then ret ()
       else
         seqm (upd_state (\<lambda>s. s\<lparr>agent_state := new\<rparr>)) (
         seqm (whenm (new = STOPPED \<or> new = ERROR) (reset_controller A)) (
         seqm (whenm (old = ERROR \<and> new = RUNNING)
                 (upd (\<lambda>c. c\<lparr>shr := maybe_increase_control_flags_limits (c_headless (me c)) (shr c)\<rparr>))) (
         seqm (answer_pending A new) (
         bnd (asks (\<lambda>c. if new = ERROR then last_error (my_state c) else [])) (\<lambda>reason.
         seqm (publish A (state_changed new reason) ENVIRONMENT)
           save_controller))))))"

section \<open>Errors\<close>

definition runtime_status :: "exn \<Rightarrow> string" where
  \<comment> \<open>the value of the \<^verbatim>\<open>RuntimeStatus\<close> that is reported\<close>
  "runtime_status e =
     (if isinstance_exn e ''AuthenticationError'' then ''STATUS$ERROR_LLM_AUTHENTICATION''
      else if isinstance_exn e ''ServiceUnavailableError'' \<or> isinstance_exn e ''APIConnectionError'' \<or> isinstance_exn e ''APIError''
      then ''STATUS$ERROR_LLM_SERVICE_UNAVAILABLE''
      else if isinstance_exn e ''InternalServerError'' then ''STATUS$ERROR_LLM_INTERNAL_SERVER_ERROR''
      else if isinstance_exn e ''BadRequestError'' \<and> contains ''ExceededBudget'' (exn_str e)
      then ''STATUS$ERROR_LLM_OUT_OF_CREDITS''
      else if isinstance_exn e ''ContentPolicyViolationError''
        \<or> (isinstance_exn e ''BadRequestError'' \<and> contains ''ContentPolicyViolationError'' (exn_str e))
      then ''STATUS$ERROR_LLM_CONTENT_POLICY_VIOLATION''
      else ''STATUS$ERROR'')"

definition rate_limited :: "exn \<Rightarrow> bool" where
  \<comment> \<open>the branch of \<^verbatim>\<open>RateLimitError\<close> is reached\<close>
  "rate_limited e \<longleftrightarrow> runtime_status e = ''STATUS$ERROR'' \<and> isinstance_exn e ''RateLimitError''"

definition react_to_exception :: "'ag agents \<Rightarrow> exn \<Rightarrow> ('ag, unit) ctl_method" where
  "react_to_exception A e =
     seqm (upd_state (\<lambda>s. s\<lparr>last_error := exn_class e @ '': '' @ exn_str e\<rparr>))
     (bnd (asks (\<lambda>c. c_callback (me c))) (\<lambda>callback.
        if callback \<and> rate_limited e
        then (case exn_retry e of
                Some (attempt, max_retries) \<Rightarrow>
                  (if attempt \<ge> max_retries
                   then seqm (upd_state (\<lambda>s. s\<lparr>last_error := ''CHAT_INTERFACE$AGENT_RATE_LIMITED_STOPPED_MESSAGE''\<rparr>))
                          (set_agent_state_to A ERROR)
                   else set_agent_state_to A RATE_LIMITED)
              | None \<Rightarrow> set_agent_state_to A RATE_LIMITED)
        else
          seqm (whenm callback
                  (seqm (whenm (runtime_status e \<noteq> ''STATUS$ERROR'')
                           (upd_state (\<lambda>s. s\<lparr>last_error := runtime_status e\<rparr>)))
                     (upd (\<lambda>c. c\<lparr>statuses := statuses c @ [(runtime_status e, last_error (my_state c))]\<rparr>))))
            (set_agent_state_to A ERROR)))"

section \<open>Setting up\<close>

definition read_from :: "int \<Rightarrow> 'ag ctl \<Rightarrow> 'ag ctl \<times> event list \<times> pyerr option" where
  \<comment> \<open>\<^verbatim>\<open>event_stream.search_events(start_id=a)\<close>\<close>
  "read_from a c =
     (case search_events (\<lambda>_. True) (\<lambda>_. Inr True) (strm c) a None False None of
        (s, es, err) \<Rightarrow> (c\<lparr>strm := s\<rparr>, es, err))"

definition first_event :: "(event \<Rightarrow> bool) \<Rightarrow> int \<Rightarrow> ('ag, event option) ctl_method" where
  \<comment> \<open>the generator is left at the first match, so a later error does not matter\<close>
  "first_event P a c =
     (case read_from a c of
        (c', es, err) \<Rightarrow>
          (case find P es of
             Some e \<Rightarrow> (c', Inr (Some e))
           | None \<Rightarrow> (c', case err of None \<Rightarrow> Inr None | Some x \<Rightarrow> Inl (exn_of x))))"

definition add_system_message :: "'ag agents \<Rightarrow> ('ag, unit) ctl_method" where
  "add_system_message A =
     bnd (asks (\<lambda>c. start_id (my_state c))) (\<lambda>a.
     bnd (first_event (\<lambda>e. from_user e \<or> is_a e SystemMessageAction) a) (\<lambda>r.
       case r of
         Some e \<Rightarrow> ret ()
       | None \<Rightarrow>
           bnd (asks (\<lambda>c. get_system_message A (c_agent (me c)))) (\<lambda>msg.
             case msg of
               None \<Rightarrow> ret ()
             | Some m \<Rightarrow> whenm (content m \<noteq> []) (seqm (publish A m AGENT) (ret ())))))"

definition load_history :: "('ag, unit) ctl_method" where
  "load_history c =
     (case init_history (strm c) (my_state c) of
        (s, st, err) \<Rightarrow>
          (c\<lparr>strm := s, me := (me c)\<lparr>c_state := st\<rparr>\<rparr>, case err of None \<Rightarrow> Inr () | Some x \<Rightarrow> Inl (exn_of x)))"

definition subscribe_controller :: "('ag, unit) ctl_method" where
  "subscribe_controller c =
     (case subscribe ''agent_controller'' (c_id (me c)) (strm c) of
        (s, err) \<Rightarrow> (c\<lparr>strm := s\<rparr>, case err of None \<Rightarrow> Inr () | Some x \<Rightarrow> Inl (exn_of x)))"

definition new_frame ::
  "'ag \<Rightarrow> string \<Rightarrow> string option \<Rightarrow> string option \<Rightarrow> bool \<Rightarrow> bool \<Rightarrow> bool \<Rightarrow> bool \<Rightarrow> bool \<Rightarrow> event list
   \<Rightarrow> int \<Rightarrow> rat option \<Rightarrow> full_state option \<Rightarrow> 'ag frame \<times> shared" where
  \<comment> \<open>the assignments of \<^verbatim>\<open>__init__\<close>; the flags and metrics come with the initial state\<close>
  "new_frame ag stream_sid i user has_store confirm delegate headless callback replayed iterations budget st =
     (let cid = (case i of Some (c # r) \<Rightarrow> c # r | _ \<Rightarrow> stream_sid);
          init = set_initial_state cid user st iterations budget confirm
      in (\<lparr>c_id = cid, c_sid = i, c_user = user, c_store = has_store, c_agent = ag, c_headless = headless,
           c_is_delegate = delegate, c_confirmation = confirm, c_state = fst init, c_stuck = None,
           c_replay = replay_init replayed, c_pending = None, c_closed = False, c_first_message = None,
           c_max_iterations = iterations, c_max_budget = budget, c_callback = callback\<rparr>, snd init))"

definition set_up :: "'ag agents \<Rightarrow> ('ag, unit) ctl_method" where
  \<comment> \<open>the effects of \<^verbatim>\<open>__init__\<close> on the stream\<close>
  "set_up A =
     bnd (asks (\<lambda>c. c_is_delegate (me c))) (\<lambda>d.
     seqm (whenm (\<not> d) subscribe_controller) (seqm load_history (add_system_message A)))"

definition close_controller :: "'ag agents \<Rightarrow> bool \<Rightarrow> ('ag, unit) ctl_method" where
  "close_controller A set_stop_state =
     seqm (whenm set_stop_state (set_agent_state_to A STOPPED)) (
     seqm (\<lambda>c. case tracker_close (strm c) (my_state c) of
                (s, st, err) \<Rightarrow>
                  (c\<lparr>strm := s, me := (me c)\<lparr>c_state := st\<rparr>\<rparr>, case err of None \<Rightarrow> Inr () | Some x \<Rightarrow> Inl (exn_of x))) (
     upd (\<lambda>c. (if c_is_delegate (me c) then c
               else c\<lparr>strm := unsubscribe ''agent_controller'' (c_id (me c)) (strm c)\<rparr>)
              \<lparr>me := (me c)\<lparr>c_closed := True\<rparr>\<rparr>)))"

definition get_trajectory :: "bool \<Rightarrow> ('ag, data list) ctl_method" where
  "get_trajectory shots =
     bnd (asks me) (\<lambda>m.
       if \<not> c_closed m then raise_exn (exn_of (AssertionError []))
       else from_res (trajectory_of shots (history (c_state m))))"

section \<open>Delegates\<close>

definition delegate_frame :: "'ag \<Rightarrow> event \<Rightarrow> string \<Rightarrow> int \<Rightarrow> 'ag ctl \<Rightarrow> 'ag frame" where
  \<comment> \<open>the delegate before its set-up; it shares the flags and the metrics of its parent\<close>
  "delegate_frame ag action stream_sid latest c =
     (let st = new_state\<lparr>session_id := removesuffix (c_id (me c)) ''-delegate'', st_user := c_user (me c),
                 inputs := dict_attr action ''inputs'', delegate_level := delegate_level (my_state c) + 1,
                 start_id := latest + 1, parent_metrics_snapshot := Some (state_metrics (shr c)),
                 parent_iteration := current_value (iteration_flag (shr c))\<rparr>
      in fst (new_frame ag stream_sid (Some (c_id (me c) @ ''-delegate'')) (c_user (me c)) (c_store (me c))
           False True (c_headless (me c)) False [] (c_max_iterations (me c)) (c_max_budget (me c)) (Some (st, shr c))))"

definition start_delegate :: "'ag agents \<Rightarrow> event \<Rightarrow> ('ag, unit) ctl_method" where
  "start_delegate A action c =
     (case agent_make A (str_attr action ''agent'') (c_agent (me c)) (stats c) of
        (cs, Inl e) \<Rightarrow> (c\<lparr>stats := cs\<rparr>, Inl e)
      | (cs, Inr ag) \<Rightarrow>
          (case get_latest_event_id (strm c) of
             (s, latest) \<Rightarrow>
               (case set_up A (c\<lparr>stats := cs, strm := s, me := delegate_frame ag action (sid s) latest c, below := []\<rparr>) of
                  (c2, Inl e) \<Rightarrow> (c2\<lparr>me := me c, below := below c\<rparr>, Inl e)
                | (c2, Inr _) \<Rightarrow> (c2\<lparr>me := me c, below := [me c2]\<rparr>, Inr ()))))"

definition delegate_result :: "'ag agents \<Rightarrow> agent_state \<Rightarrow> 'ag frame \<Rightarrow> event" where
  \<comment> \<open>the observation a parent publishes for a delegate that ended in the given state\<close>
  "delegate_result A st d =
     (let outs = outputs (c_state d);
          shown = filter (\<lambda>p. fst p \<noteq> ''metrics'') outs;
          text = (if st = FINISHED \<or> st = REJECTED
                  then agent_name A (c_agent d) @ '' finishes task with ''
                         @ join '', '' (map (\<lambda>(k, v). k @ '': '' @ py_str v) shown)
                  else agent_name A (c_agent d) @ '' encountered an error during execution.'')
      in delegate_observation outs (''Delegated agent finished with result:'' @ nl @ nl @ text))"

definition end_delegate :: "'ag agents \<Rightarrow> ('ag, unit) ctl_method" where
  "end_delegate A c =
     (case below c of
        [] \<Rightarrow> (c, Inr ())
      | d # ds \<Rightarrow>
          seqm (on_delegate (close_controller A True))
            (\<lambda>c1. let obs = delegate_result A (agent_state (c_state d)) (hd (below c1));
                      obs' = (case find (\<lambda>e. is_a e AgentDelegateAction) (rev (history (my_state c1))) of
                                None \<Rightarrow> obs
                              | Some a \<Rightarrow> obs\<lparr>ev_tool_call_metadata := ev_tool_call_metadata a\<rparr>)
                  in seqm (publish A obs' AGENT) (upd (\<lambda>c2. c2\<lparr>below := []\<rparr>)) c1) c)"

section \<open>Messages and loop recovery\<close>

definition first_user_message :: "('ag, event option) ctl_method" where
  "first_user_message =
     bnd (asks me) (\<lambda>m.
       case c_first_message m of
         Some e \<Rightarrow> ret (Some e)
       | None \<Rightarrow>
           bnd (first_event from_user (start_id (c_state m))) (\<lambda>r.
           seqm (upd_me (\<lambda>m. m\<lparr>c_first_message := r\<rparr>)) (ret r)))"

definition handle_message_action :: "'ag agents \<Rightarrow> event \<Rightarrow> ('ag, unit) ctl_method" where
  "handle_message_action A a =
     (if ev_source a = Some USER
      then bnd first_user_message (\<lambda>f.
             let is_first = (case f of None \<Rightarrow> False | Some m \<Rightarrow> eid a = eid m);
                 r = recall_action (if is_first then ''workspace_context'' else ''knowledge'') (content a)
             in seqm (upd_me (\<lambda>m. m\<lparr>c_pending := Some r\<rparr>)) (
                seqm (publish_pending A r USER) (
                bnd (asks get_agent_state) (\<lambda>st.
                  whenm (st \<noteq> RUNNING) (set_agent_state_to A RUNNING)))))
      else if ev_source a = Some AGENT
      then whenm (truthy (attr a ''wait_for_response'')) (set_agent_state_to A AWAITING_USER_INPUT)
      else ret ())"

definition truncate_memory_to_point :: "int \<Rightarrow> 'ag frame \<Rightarrow> 'ag frame" where
  "truncate_memory_to_point k m =
     (let h = history (c_state m)
      in if k \<ge> int (length h) then m
         else (let keep = slice_to h k
               in m\<lparr>c_state := (c_state m)\<lparr>history := keep, end_id := (if keep = [] then -1 else eid (last keep))\<rparr>,
                    c_first_message := None\<rparr>))"

definition check_mark :: string where
  \<comment> \<open>U+2705 in UTF-8\<close>
  "check_mark = [CHR 0xE2, CHR 0x9C, CHR 0x85]"

definition warning_sign :: string where
  \<comment> \<open>U+26A0 U+FE0F in UTF-8\<close>
  "warning_sign = [CHR 0xE2, CHR 0x9A, CHR 0xA0, CHR 0xEF, CHR 0xB8, CHR 0x8F]"

definition perform_loop_recovery :: "'ag agents \<Rightarrow> stuck_analysis \<Rightarrow> ('ag, unit) ctl_method" where
  "perform_loop_recovery A an =
     seqm (upd_me (truncate_memory_to_point (loop_start_idx an))) (
     seqm (set_agent_state_to A AWAITING_USER_INPUT) (
     seqm (publish A (loop_detection
             (check_mark @ '' Loop recovery completed. Agent has been reset to before the loop.'' @ nl
              @ ''You can now provide new instructions to continue.'' @ nl)) ENVIRONMENT)
       (ret ())))"

definition restart_with_last_user_message :: "'ag agents \<Rightarrow> stuck_analysis \<Rightarrow> ('ag, unit) ctl_method" where
  \<comment> \<open>\<^verbatim>\<open>_handle_action\<close> on the new message is \<^verbatim>\<open>_handle_message_action\<close>\<close>
  "restart_with_last_user_message A an =
     bnd (asks (\<lambda>c. find from_user (rev (history (my_state c))))) (\<lambda>r.
       case r of
         None \<Rightarrow> perform_loop_recovery A an
       | Some u \<Rightarrow>
           seqm (upd_me (truncate_memory_to_point (loop_start_idx an))) (
           seqm (set_agent_state_to A RUNNING) (
           seqm (publish A (loop_detection
                   (nl @ check_mark @ '' Restarting with your last instruction: '' @ content u @ nl
                    @ ''Agent is now continuing with the same task...'' @ nl)) ENVIRONMENT)
             (handle_message_action A ((message_action (content u))\<lparr>ev_source := Some USER\<rparr>)))))"

definition handle_loop_recovery_action :: "'ag agents \<Rightarrow> event \<Rightarrow> ('ag, unit) ctl_method" where
  "handle_loop_recovery_action A a =
     bnd (asks (\<lambda>c. c_stuck (me c))) (\<lambda>r.
       case r of
         None \<Rightarrow> ret ()
       | Some an \<Rightarrow>
           (if int_attr a ''option'' = Some 1 then perform_loop_recovery A an
            else if int_attr a ''option'' = Some 2 then restart_with_last_user_message A an
            else whenm (int_attr a ''option'' = Some 3) (set_agent_state_to A STOPPED)))"

definition attempt_loop_recovery :: "'ag agents \<Rightarrow> ('ag, bool) ctl_method" where
  "attempt_loop_recovery A =
     bnd (asks (\<lambda>c. c)) (\<lambda>c.
       case c_stuck (me c) of
         None \<Rightarrow> ret False
       | Some an \<Rightarrow>
           seqm (publish A (loop_detection
             (warning_sign @ ''  Agent detected in a loop!'' @ nl @ ''Loop type: '' @ loop_type an @ nl
              @ ''Loop detected at iteration '' @ str_of_int (current_value (iteration_flag (shr c))) @ nl @ nl
              @ ''Recovery options:'' @ nl
              @ ''/resume 1. Restart from before loop (preserves '' @ str_of_int (loop_start_idx an) @ '' events)'' @ nl
              @ ''/resume 2. Restart with last user message (reuses your most recent instruction)'' @ nl
              @ ''/exit. Quit directly'' @ nl @ nl
              @ ''The agent has been paused. Type '' @ [CHR 0x27] @ ''/resume 1'' @ [CHR 0x27] @ '', '' @ [CHR 0x27]
              @ ''/resume 2'' @ [CHR 0x27] @ '', or '' @ [CHR 0x27] @ ''/exit'' @ [CHR 0x27] @ '' to choose an option.'' @ nl))
             ENVIRONMENT) (
           seqm (publish A (change_agent_state PAUSED) ENVIRONMENT) (ret True)))"

section \<open>Steps\<close>

fun any_stuck :: "'ag frame \<Rightarrow> 'ag frame list \<Rightarrow> 'ag frame \<times> 'ag frame list \<times> bool" where
  \<comment> \<open>\<^verbatim>\<open>_is_stuck\<close>: the delegates are asked first\<close>
  "any_stuck m ds =
     (let (ds', b) = (case ds of [] \<Rightarrow> ([], False)
                      | d # rest \<Rightarrow> (let (d', rest', b) = any_stuck d rest in (d' # rest', b)))
      in if b then (m, ds', True)
         else (let (stuck, an) = is_stuck (c_headless m) (history (c_state m)) (c_stuck m)
               in (m\<lparr>c_stuck := an\<rparr>, ds', stuck)))"

definition is_stuck_controller :: "('ag, bool) ctl_method" where
  "is_stuck_controller c =
     (case any_stuck (me c) (below c) of (m, ds, b) \<Rightarrow> (c\<lparr>me := m, below := ds\<rparr>, Inr b))"

definition RECOVERABLE :: "string list" where
  \<comment> \<open>the exceptions that are sent back to the model\<close>
  "RECOVERABLE = [''LLMMalformedActionError'', ''LLMNoActionError'', ''LLMResponseError'',
     ''FunctionCallValidationError'', ''FunctionCallNotExistsError'']"

definition context_window_exceeded :: "exn \<Rightarrow> bool" where
  "context_window_exceeded e \<longleftrightarrow>
     (let s = lower (exn_str e)
      in contains ''contextwindowexceedederror'' s \<or> contains ''prompt is too long'' s
         \<or> contains ''input length and `max_tokens` exceed context limit'' s
         \<or> contains ''please reduce the length of'' s \<or> contains ''the request exceeds the available context size'' s
         \<or> contains ''context length exceeded'' s
         \<or> (contains ''sambanovaexception'' s \<and> contains ''maximum context length'' s)
         \<or> isinstance_exn e ''ContextWindowExceededError'')"

definition tool_call_invalid :: "exn \<Rightarrow> bool" where
  "tool_call_invalid e \<longleftrightarrow>
     (let s = lower (exn_str e)
      in isinstance_exn e ''BadRequestError'' \<and> contains ''tool call validation failed'' s
         \<and> (contains ''missing properties'' s \<or> contains ''missing required'' s))"

definition handle_agent_error :: "'ag agents \<Rightarrow> exn \<Rightarrow> ('ag, event option) ctl_method" where
  \<comment> \<open>the \<^verbatim>\<open>except\<close> clauses around \<^verbatim>\<open>agent.step\<close>; \<^const>\<open>None\<close> ends the step\<close>
  "handle_agent_error A e =
     (if list_ex (isinstance_exn e) RECOVERABLE
      then seqm (publish A (error_observation (exn_str e) []) AGENT) (ret None)
      else if list_ex (isinstance_exn e) [''ContextWindowExceededError'', ''BadRequestError'', ''OpenAIError'']
      then (if context_window_exceeded e
            then bnd (asks (\<lambda>c. enable_history_truncation A (c_agent (me c)))) (\<lambda>b.
                   if b then seqm (publish A condensation_request AGENT) (ret None)
                   else raise_exn \<lparr>exn_class = ''LLMContextWindowExceedError'', exn_bases = [''RuntimeError''],
                          exn_str = ''Conversation history longer than LLM context window limit. Consider turning on enable_history_truncation config to avoid this error'',
                          exn_retry = None\<rparr>)
            else if tool_call_invalid e
            then seqm (publish A (error_observation (''Tool call validation failed: '' @ exn_str e
                        @ ''. Please check the tool parameters and try again.'') []) AGENT) (ret None)
            else raise_exn e)
      else raise_exn e)"

definition ask_agent :: "'ag agents \<Rightarrow> ('ag, event option) ctl_method" where
  "ask_agent A c =
     (case agent_step A (c_agent (me c)) (my_state c, shr c) (stats c) of
        (ag, st, cs, r) \<Rightarrow>
          (let st' = (my_state c)\<lparr>extra_data := extra_data st, history_checksum := history_checksum st, cached_view := cached_view st\<rparr>;
               c' = c\<lparr>stats := cs, me := (me c)\<lparr>c_agent := ag, c_state := st'\<rparr>\<rparr>
           in case r of
                Inl e \<Rightarrow> handle_agent_error A e c'
              | Inr None \<Rightarrow> handle_agent_error A (mk_exn ''LLMNoActionError'' ''No action was returned'') c'
              | Inr (Some a) \<Rightarrow> (c', Inr (Some (a\<lparr>ev_source := Some AGENT\<rparr>)))))"

definition next_action :: "'ag agents \<Rightarrow> ('ag, event option) ctl_method" where
  "next_action A c =
     (case should_replay (c_replay (me c)) of
        (r, False) \<Rightarrow> ask_agent A (c\<lparr>me := (me c)\<lparr>c_replay := r\<rparr>\<rparr>)
      | (r, True) \<Rightarrow>
          (case replay_step r of
             (r', Inl err) \<Rightarrow> (c\<lparr>me := (me c)\<lparr>c_replay := r'\<rparr>\<rparr>, Inl (exn_of err))
           | (r', Inr a) \<Rightarrow> (c\<lparr>me := (me c)\<lparr>c_replay := r'\<rparr>\<rparr>, Inr (Some a))))"

definition handle_security_analyzer :: "'ag agents \<Rightarrow> event \<Rightarrow> event" where
  "handle_security_analyzer A a =
     (if \<not> hasattr a ''security_risk'' then a
      else case security_analyzer A of
             None \<Rightarrow> setattr ''security_risk'' (PInt (-1)) a
           | Some f \<Rightarrow> (case f a of
                         Inl _ \<Rightarrow> setattr ''security_risk'' (PInt (-1)) a
                       | Inr v \<Rightarrow> setattr ''security_risk'' v a))"

definition confirmable :: "event \<Rightarrow> bool" where
  "confirmable a \<longleftrightarrow> ev_class a \<in> set [CmdRunAction, IPythonRunCellAction, BrowseInteractiveAction, FileEditAction, FileReadAction]"

definition awaiting :: "event \<Rightarrow> event" where
  "awaiting a = setattr ''confirmation_state'' (PStr ''awaiting_confirmation'') a"

definition check_confirmation :: "'ag agents \<Rightarrow> 'ag frame \<Rightarrow> event \<Rightarrow> event" where
  "check_confirmation A m a =
     (if runnable a \<and> confirmation_mode (c_state m) \<and> confirmable a
      then (let a1 = handle_security_analyzer A a;
                risk = (case attr a1 ''security_risk'' of Some v \<Rightarrow> v | None \<Rightarrow> PInt (-1));
                high = (risk = PInt 2);
                ask = (risk = PInt (-1) \<and> security_analyzer A = None)
            in if cli_mode A (c_agent m) then awaiting a1
               else if (high \<or> ask) \<and> c_confirmation m then awaiting a1
               else a1)
      else a)"

definition is_awaiting :: "event \<Rightarrow> bool" where
  "is_awaiting a \<longleftrightarrow> attr a ''confirmation_state'' = Some (PStr ''awaiting_confirmation'')"

definition prepare_metrics_for_frontend :: "'ag ctl \<Rightarrow> event \<Rightarrow> event res" where
  "prepare_metrics_for_frontend c a =
     (let m = get_combined_metrics (stats c)
      in case set_accumulated_cost (accumulated_cost m) (metrics_init ''default'') of
           Inl err \<Rightarrow> Inl err
         | Inr clean \<Rightarrow>
             (let clean1 = clean\<lparr>accumulated_token_usage := accumulated_token_usage m\<rparr>;
                  clean2 = (case budget_flag (shr c) of
                              None \<Rightarrow> clean1 | Some b \<Rightarrow> clean1\<lparr>max_budget_per_task := Some (max_value b)\<rparr>)
              in Inr (a\<lparr>ev_llm_metrics := Some clean2\<rparr>)))"

definition perform_action :: "'ag agents \<Rightarrow> event \<Rightarrow> ('ag, unit) ctl_method" where
  \<comment> \<open>the end of \<^verbatim>\<open>_step\<close>: what happens with the action\<close>
  "perform_action A a0 =
     bnd (asks (\<lambda>c. check_confirmation A (me c) a0)) (\<lambda>a.
     seqm (whenm (runnable a) (upd_me (\<lambda>m. m\<lparr>c_pending := Some a\<rparr>))) (
       if is_a a NullAction then ret ()
       else
         seqm (whenm (is_awaiting a) (set_agent_state_to A AWAITING_USER_CONFIRMATION)) (
         bnd (asks (\<lambda>c. prepare_metrics_for_frontend c a)) (\<lambda>r.
         bnd (from_res r) (\<lambda>a'.
           case ev_source a' of
             None \<Rightarrow> raise_exn (exn_of (AttributeError ''object has no attribute _source''))
           | Some src \<Rightarrow>
               (if runnable a' then publish_pending A a' src
                else seqm (publish A a' src) (ret ())))))))"

definition run_flags :: "('ag, pyerr option) ctl_method" where
  "run_flags c = (case run_control_flags (shr c) of (sh, err) \<Rightarrow> (c\<lparr>shr := sh\<rparr>, Inr err))"

definition ctl_step :: "'ag agents \<Rightarrow> ('ag, unit) ctl_method" where
  \<comment> \<open>\<^verbatim>\<open>_step\<close>\<close>
  "ctl_step A =
     bnd (asks (\<lambda>c. c)) (\<lambda>c.
       if get_agent_state c \<noteq> RUNNING then ret ()
       else if c_pending (me c) \<noteq> None then ret ()
       else
         seqm (upd (\<lambda>c. c\<lparr>shr := sync_budget_flag_with_metrics (stats c) (my_state c) (shr c)\<rparr>)) (
         bnd (if enable_stuck_detection A (c_agent (me c)) then is_stuck_controller else ret False) (\<lambda>stuck.
           if stuck then react_to_exception A (mk_exn ''AgentStuckInLoopError'' ''Agent got stuck in a loop'')
           else bnd run_flags (\<lambda>err.
             case err of
               Some x \<Rightarrow> react_to_exception A (exn_of x)
             | None \<Rightarrow> bnd (next_action A) (\<lambda>r. case r of None \<Rightarrow> ret () | Some a \<Rightarrow> perform_action A a)))))"

definition REPORTED :: "string list" where
  \<comment> \<open>the exceptions that are shown as they are\<close>
  "REPORTED = [''Timeout'', ''APIError'', ''BadRequestError'', ''NotFoundError'', ''InternalServerError'',
     ''AuthenticationError'', ''RateLimitError'', ''ContentPolicyViolationError'', ''LLMContextWindowExceedError'']"

definition reported :: "exn \<Rightarrow> exn" where
  "reported e =
     (if list_ex (isinstance_exn e) REPORTED then e
      else mk_exn ''RuntimeError'' (''There was an unexpected error while running the agent: '' @ exn_class e
             @ ''. You can refresh the page or ask the agent to try again.''))"

definition step_with_exception_handling :: "'ag agents \<Rightarrow> ('ag, unit) ctl_method" where
  "step_with_exception_handling A = try_catch (ctl_step A) (\<lambda>e. react_to_exception A (reported e))"

section \<open>Events\<close>

definition should_step :: "'ag ctl \<Rightarrow> event \<Rightarrow> bool" where
  "should_step c e \<longleftrightarrow>
     (if below c \<noteq> [] then False
      else if is_action e
      then from_user e \<or> (is_a e MessageAction \<and> get_agent_state c \<noteq> AWAITING_USER_INPUT)
           \<or> is_a e AgentDelegateAction \<or> is_a e CondensationAction \<or> is_a e CondensationRequestAction
      else if is_observation e
      then (if is_a e NullObservation \<and> (case ev_cause e of Some k \<Rightarrow> k > 0 | None \<Rightarrow> False) then True
            else \<not> (is_a e AgentStateChangedObservation \<or> is_a e NullObservation))
      else False)"

definition handle_delegate_action :: "'ag agents \<Rightarrow> event \<Rightarrow> ('ag, unit) ctl_method" where
  "handle_delegate_action A a =
     seqm (start_delegate A a)
       (case map_of (dict_attr a ''inputs'') ''task'' of
          None \<Rightarrow> ret ()
        | Some (PStr task) \<Rightarrow>
            seqm (publish A (message_action (''TASK: '' @ task)) USER)
              (on_delegate (set_agent_state_to A RUNNING))
        | Some _ \<Rightarrow> raise_exn (exn_of (TypeError ''can only concatenate str to str'')))"

definition handle_action :: "'ag agents \<Rightarrow> event \<Rightarrow> ('ag, unit) ctl_method" where
  "handle_action A a =
     (if is_a a ChangeAgentStateAction then set_agent_state_to A (agent_state_of (str_attr a ''agent_state''))
      else if is_a a MessageAction then handle_message_action A a
      else if is_a a AgentDelegateAction then handle_delegate_action A a
      else if is_a a AgentFinishAction
      then seqm (upd_state (\<lambda>s. s\<lparr>outputs := dict_attr a ''outputs''\<rparr>)) (set_agent_state_to A FINISHED)
      else if is_a a AgentRejectAction
      then seqm (upd_state (\<lambda>s. s\<lparr>outputs := dict_attr a ''outputs''\<rparr>)) (set_agent_state_to A REJECTED)
      else if is_a a LoopRecoveryAction then handle_loop_recovery_action A a
      else ret ())"

definition handle_observation :: "'ag agents \<Rightarrow> event \<Rightarrow> ('ag, unit) ctl_method" where
  "handle_observation A obs =
     bnd (asks (\<lambda>c. c)) (\<lambda>c.
       case c_pending (me c) of
         None \<Rightarrow> ret ()
       | Some p \<Rightarrow>
           (if Some (eid p) \<noteq> ev_cause obs \<or> get_agent_state c = AWAITING_USER_CONFIRMATION then ret ()
            else
              seqm (upd_me (\<lambda>m. m\<lparr>c_pending := None\<rparr>)) (
              seqm (whenm (get_agent_state c = USER_CONFIRMED) (set_agent_state_to A RUNNING)) (
              bnd (asks get_agent_state) (\<lambda>st.
                whenm (st = USER_REJECTED) (set_agent_state_to A AWAITING_USER_INPUT))))))"

definition on_event_self :: "'ag agents \<Rightarrow> event \<Rightarrow> ('ag, unit) ctl_method" where
  \<comment> \<open>\<^verbatim>\<open>_on_event\<close>\<close>
  "on_event_self A e =
     (if truthy (attr e ''hidden'') then ret ()
      else
        bnd (asks (\<lambda>c. add_history e (my_state c))) (\<lambda>r.
        bnd (from_res r) (\<lambda>st.
        seqm (upd_state (\<lambda>_. st)) (
        seqm (if is_action e then handle_action A e
              else if is_observation e then handle_observation A e else ret ()) (
        bnd (asks (\<lambda>c. should_step c e)) (\<lambda>b.
          whenm b (step_with_exception_handling A)))))))"

definition delegate_active :: "'ag frame \<Rightarrow> bool" where
  "delegate_active d \<longleftrightarrow>
     agent_state (c_state d) \<notin> {FINISHED, ERROR, REJECTED}
     \<or> contains ''RuntimeError: Agent reached maximum iteration.'' (last_error (c_state d))
     \<or> contains ''RuntimeError:Agent reached maximum budget for conversation'' (last_error (c_state d))"

definition on_event :: "'ag agents \<Rightarrow> event \<Rightarrow> ('ag, unit) ctl_method" where
  "on_event A e =
     bnd (asks below) (\<lambda>ds.
       case ds of
         [] \<Rightarrow> on_event_self A e
       | d # _ \<Rightarrow> (if delegate_active d then on_delegate (on_event_self A e) else end_delegate A))"

definition is_awaiting_observation :: "('ag, bool) ctl_method" where
  "is_awaiting_observation c =
     (case search_events (\<lambda>_. True) (\<lambda>_. Inr True) (strm c) 0 None True None of
        (s, es, err) \<Rightarrow>
          (c\<lparr>strm := s\<rparr>,
           case find (\<lambda>e. is_a e AgentStateChangedObservation) es of
             Some e \<Rightarrow> Inr (str_attr e ''agent_state'' = ''running'')
           | None \<Rightarrow> (case err of None \<Rightarrow> Inr False | Some x \<Rightarrow> Inl (exn_of x))))"

section \<open>The events are those of the classes\<close>

lemma constructed:
  "dataclass_init AgentStateChangedObservation [(''content'', PStr []), (''agent_state'', PStr (agent_state_value x)), (''reason'', PStr r)] =
     Inr (state_changed x r)"
  "dataclass_init ErrorObservation [(''content'', PStr s), (''error_id'', PStr i)] = Inr (error_observation s i)"
  "dataclass_init ErrorObservation [(''content'', PStr s)] = Inr (error_observation s [])"
  "dataclass_init RecallAction [(''query'', PStr s), (''recall_type'', PStr k)] = Inr (recall_action k s)"
  "dataclass_init MessageAction [(''content'', PStr s)] = Inr (message_action s)"
  "dataclass_init CondensationRequestAction [] = Inr condensation_request"
  "dataclass_init LoopDetectionObservation [(''content'', PStr s)] = Inr (loop_detection s)"
  "dataclass_init ChangeAgentStateAction [(''agent_state'', PStr (agent_state_value x))] = Inr (change_agent_state x)"
  "dataclass_init AgentDelegateObservation [(''outputs'', PDict outs), (''content'', PStr s)] = Inr (delegate_observation outs s)"
  by code_simp+
end
