(* ===== verification/Controller_Laws.thy ===== *)
theory Controller_Laws
  imports Agent_Controller
begin

text \<open>
  Reasoning about controller methods.  The locale \<open>world_relation\<close> takes a preorder on what the
  controllers share (stream, flags, statistics) that every primitive change respects and shows
  that every method of the controller, up to \<open>on_event\<close>, respects it.  Its interpretations give the
  limits of a run and the persistence of the event files.  The other lemmas describe single
  methods: what they do to the agent state, the pending action and the stored state.
\<close>

section \<open>Running methods\<close>

lemma method_run [simp]:
  "ret x c = (c, Inr x)" "raise_exn e c = (c, Inl e)" "asks f c = (c, Inr (f c))" "upd g c = (g c, Inr ())"
  "upd_me h c = (c\<lparr>me := h (me c)\<rparr>, Inr ())"
  "upd_state k c = (c\<lparr>me := (me c)\<lparr>c_state := k (my_state c)\<rparr>\<rparr>, Inr ())"
  by (simp_all add: ret_def raise_exn_def asks_def upd_def upd_me_def upd_state_def)

lemma bnd_run: "bnd m f c = (case snd (m c) of Inl e \<Rightarrow> (fst (m c), Inl e) | Inr x \<Rightarrow> f x (fst (m c)))"
  by (simp add: bnd_def split: prod.split sum.split)

lemma seqm_run: "seqm m m' c = (case snd (m c) of Inl e \<Rightarrow> (fst (m c), Inl e) | Inr x \<Rightarrow> m' (fst (m c)))"
  by (simp add: seqm_def bnd_run)

lemma bnd_asks [simp]: "bnd (asks f) k c = k (f c) c"
  by (simp add: bnd_run)

lemma bnd_ret [simp]: "bnd (ret x) k = k x"
  by (simp add: bnd_run fun_eq_iff)

lemma seqm_upd [simp]:
  "seqm (upd g) m c = m (g c)" "seqm (ret x) m c = m c"
  "seqm (upd_me h) m c = m (c\<lparr>me := h (me c)\<rparr>)"
  "seqm (upd_state k) m c = m (c\<lparr>me := (me c)\<lparr>c_state := k (my_state c)\<rparr>\<rparr>)"
  by (simp_all add: seqm_run)

lemma whenm_run [simp]: "whenm True m = m" "whenm False m = ret ()"
  by (simp_all add: whenm_def)

lemma search_some: "search_events go inc s a (Some b) r cap = (s, snd (search_events go inc s a (Some b) r cap))"
  by (simp add: prod_eq_iff fst_search)

lemma fst_init_history: "fst (init_history s st) = fst (history_bounds s st)"
proof (cases "history_bounds s st")
  case (fields s1 a b)
  then show ?thesis
    unfolding init_history_def
    by (subst search_some) (auto simp: Let_def split: prod.split option.split)
qed

lemma fst_tracker_close: "fst (tracker_close s st) = fst (history_bounds s st)"
proof (cases "history_bounds s st")
  case (fields s1 a b)
  then show ?thesis
    unfolding tracker_close_def
    by (subst search_some) (auto simp: Let_def split: prod.split option.split)
qed

section \<open>What all methods respect\<close>

type_synonym world = "pstream \<times> shared \<times> conv_stats"

definition world_of :: "'ag ctl \<Rightarrow> world" where
  "world_of c = (strm c, shr c, stats c)"

inductive ctl_run :: "'ag agents \<Rightarrow> 'ag ctl \<Rightarrow> 'ag ctl \<Rightarrow> bool" for A c0 where
  \<comment> \<open>a conversation: queued events are delivered to the controller, others publish events, the user
    interface asks for loop recovery, the controller is closed; an exception ends a method but not
    the conversation\<close>
  ctl_start: "ctl_run A c0 c0"
| ctl_deliver: "ctl_run A c0 c \<Longrightarrow> queue (strm c) = e # q \<Longrightarrow>
     ctl_run A c0 (fst (on_event A e (c\<lparr>strm := fst (process_queue_step (strm c))\<rparr>)))"
| ctl_outside: "ctl_run A c0 c \<Longrightarrow> ctl_run A c0 (c\<lparr>strm := fst (add_event now e src (strm c))\<rparr>)"
| ctl_recover: "ctl_run A c0 c \<Longrightarrow> ctl_run A c0 (fst (attempt_loop_recovery A c))"
| ctl_close: "ctl_run A c0 c \<Longrightarrow> ctl_run A c0 (fst (close_controller A b c))"

locale world_relation =
  fixes W :: "world \<Rightarrow> world \<Rightarrow> bool"
  assumes W_refl: "W w w"
    and W_trans: "W u v \<Longrightarrow> W v w \<Longrightarrow> W u w"
    and W_add: "W (s, sh, cs) (fst (add_event now e src s), sh, cs)"
    and W_read: "W (s, sh, cs) (fst (cur_id s), sh, cs)"
    and W_subscribe: "W (s, sh, cs) (fst (subscribe k i s), sh, cs)"
    and W_unsubscribe: "W (s, sh, cs) (unsubscribe k i s, sh, cs)"
    and W_save: "W (s, sh, cs) (s\<lparr>files := save_state j b usr cs st (files s)\<rparr>, sh, cs)"
    and W_increase: "W (s, sh, cs) (s, maybe_increase_control_flags_limits h sh, cs)"
    and W_flags: "W (s, sh, cs) (s, fst (run_control_flags sh), cs)"
    and W_sync: "W (s, sh, cs) (s, sync_budget_flag_with_metrics cs st0 sh, cs)"
    and W_stats: "W (s, sh, cs) (s, sh, cs')"
    and W_deliver: "W (s, sh, cs) (fst (process_queue_step s), sh, cs)"
begin

definition obeys :: "('ag, 'a) ctl_method \<Rightarrow> bool" where
  "obeys m \<longleftrightarrow> (\<forall>c. W (world_of c) (world_of (fst (m c))))"

lemma obeysI: "(\<And>c. W (world_of c) (world_of (fst (m c)))) \<Longrightarrow> obeys m"
  by (simp add: obeys_def)

lemma obeysD: "obeys m \<Longrightarrow> W (world_of c) (world_of (fst (m c)))"
  by (simp add: obeys_def)

lemma obeys_ret: "obeys (ret x)" "obeys (raise_exn e)" "obeys (asks f)" "obeys (upd_me h)"
  "obeys (upd_state k)"
  by (simp_all add: obeys_def W_refl world_of_def)

lemma obeys_bnd: "obeys m \<Longrightarrow> (\<And>x. obeys (f x)) \<Longrightarrow> obeys (bnd m f)"
  unfolding obeys_def bnd_run by (auto split: sum.split intro: W_trans)

lemma obeys_seqm: "obeys m \<Longrightarrow> obeys m' \<Longrightarrow> obeys (seqm m m')"
  unfolding seqm_def by (rule obeys_bnd)

lemma obeys_whenm: "obeys m \<Longrightarrow> obeys (whenm b m)"
  by (cases b) (simp_all add: obeys_ret)

lemma obeys_try: "obeys m \<Longrightarrow> (\<And>e. obeys (h e)) \<Longrightarrow> obeys (try_catch m h)"
proof (rule obeysI)
  fix c assume m: "obeys m" and h: "\<And>e. obeys (h e)"
  note 1 = obeysD[OF m, of c]
  show "W (world_of c) (world_of (fst (try_catch m h c)))"
  proof (cases "m c")
    case (Pair c' r)
    then show ?thesis using 1 W_trans[OF _ obeysD[OF h]] by (cases r) (auto simp: try_catch_def)
  qed
qed

lemma obeys_from_res: "obeys (from_res r)"
  by (cases r) (simp_all add: from_res_def obeys_ret)

lemma obeys_if: "obeys m \<Longrightarrow> obeys m' \<Longrightarrow> obeys (if b then m else m')"
  by simp

lemma obeys_publish: "obeys (publish A e src)" "obeys (publish_pending A e src)"
  using W_add by (auto simp: obeys_def publish_def publish_pending_def world_of_def split: prod.split)
    (metis fst_conv)+

lemma obeys_on_delegate: "obeys m \<Longrightarrow> obeys (on_delegate m)"
proof (rule obeysI)
  fix c assume m: "obeys m"
  show "W (world_of c) (world_of (fst (on_delegate m c)))"
  proof (cases "below c")
    case Nil
    then show ?thesis by (simp add: on_delegate_def W_refl)
  next
    case (Cons d ds)
    show ?thesis
    proof (cases "m (c\<lparr>me := d, below := ds\<rparr>)")
      case (Pair c' r)
      then show ?thesis using obeysD[OF m, of "c\<lparr>me := d, below := ds\<rparr>"] Cons by (simp add: on_delegate_def world_of_def)
    qed
  qed
qed

lemmas obeys_intros =
  obeys_ret obeys_bnd obeys_seqm obeys_whenm obeys_try obeys_from_res obeys_if
  obeys_publish obeys_on_delegate

lemma obeys_save: "obeys save_controller"
  using W_save by (simp add: obeys_def save_controller_def world_of_def)

lemma obeys_reset: "obeys (reset_controller A)"
  unfolding reset_controller_def Let_def by (intro obeys_intros) (auto intro: obeys_intros split: option.split)

lemma obeys_answer: "obeys (answer_pending A new)"
  unfolding answer_pending_def by (intro obeys_intros) (auto intro: obeys_intros split: option.split)

lemma obeys_set_state: "obeys (set_agent_state_to A new)"
proof -
  have "obeys (upd (\<lambda>c. c\<lparr>shr := maybe_increase_control_flags_limits (c_headless (me c)) (shr c)\<rparr>))"
    using W_increase by (simp add: obeys_def world_of_def)
  then show ?thesis
    unfolding set_agent_state_to_def
    by (intro obeys_intros obeys_reset obeys_answer obeys_save)
qed

lemma obeys_react: "obeys (react_to_exception A e)"
proof -
  have "obeys (upd (\<lambda>c. c\<lparr>statuses := f c\<rparr>))" for f using W_refl by (simp add: obeys_def world_of_def)
  then show ?thesis
    unfolding react_to_exception_def
    by (intro obeys_intros obeys_set_state)
      (auto intro: obeys_intros obeys_set_state split: option.split)
qed

lemma obeys_first_event: "obeys (first_event P a)"
proof (rule obeysI)
  fix c :: "'a ctl"
  have "strm (fst (first_event P a c)) = fst (cur_id (strm c))" "shr (fst (first_event P a c)) = shr c"
    "stats (fst (first_event P a c)) = stats c"
    using fst_search[of "\<lambda>_. True" "\<lambda>_. Inr True" "strm c" a None False None]
    by (auto simp: first_event_def read_from_def split: prod.split option.split)
  then show "W (world_of c) (world_of (fst (first_event P a c)))" using W_read by (simp add: world_of_def)
qed

lemma obeys_first_user: "obeys first_user_message"
  unfolding first_user_message_def
  by (intro obeys_intros) (auto intro: obeys_intros obeys_first_event split: option.split)

lemma obeys_system_message: "obeys (add_system_message A)"
  unfolding add_system_message_def
  by (intro obeys_intros obeys_first_event) (auto intro!: obeys_intros split: option.split)

lemma W_bounds: "W (s, sh, cs) (fst (history_bounds s st), sh, cs)"
  using W_refl W_read[of s sh cs]
  by (cases "cur_id s") (auto simp: history_bounds_def get_latest_event_id_def Let_def)

lemma obeys_load_history: "obeys load_history"
proof (rule obeysI)
  fix c :: "'a ctl"
  have "strm (fst (load_history c)) = fst (history_bounds (strm c) (my_state c))" "shr (fst (load_history c)) = shr c"
    "stats (fst (load_history c)) = stats c"
    using fst_init_history[of "strm c" "my_state c"] by (auto simp: load_history_def split: prod.split)
  then show "W (world_of c) (world_of (fst (load_history c)))" using W_bounds by (simp add: world_of_def)
qed

lemma obeys_set_up: "obeys (set_up A)"
proof -
  have "obeys subscribe_controller"
    using W_subscribe by (auto simp: obeys_def subscribe_controller_def world_of_def split: prod.split) (metis fst_conv)
  then show ?thesis unfolding set_up_def by (intro obeys_intros obeys_load_history obeys_system_message)
qed

lemma obeys_close: "obeys (close_controller A b)"
proof -
  have tr: "obeys (\<lambda>c. case tracker_close (strm c) (my_state c) of
                (s, st, err) \<Rightarrow>
                  (c\<lparr>strm := s, me := (me c)\<lparr>c_state := st\<rparr>\<rparr>, case err of None \<Rightarrow> Inr () | Some x \<Rightarrow> Inl (exn_of x)))"
  proof (rule obeysI)
    fix c
    show "W (world_of c) (world_of (fst (case tracker_close (strm c) (my_state c) of
                (s, st, err) \<Rightarrow>
                  (c\<lparr>strm := s, me := (me c)\<lparr>c_state := st\<rparr>\<rparr>, case err of None \<Rightarrow> Inr () | Some x \<Rightarrow> Inl (exn_of x)))))"
      using W_bounds[of "strm c" "shr c" "stats c" "my_state c"] fst_tracker_close[of "strm c" "my_state c"]
      by (auto simp: world_of_def split: prod.split)
  qed
  have "obeys (upd (\<lambda>c. (if c_is_delegate (me c) then c
               else c\<lparr>strm := unsubscribe ''agent_controller'' (c_id (me c)) (strm c)\<rparr>)\<lparr>me := (me c)\<lparr>c_closed := True\<rparr>\<rparr>))"
    using W_unsubscribe W_refl by (simp add: obeys_def world_of_def)
  then show ?thesis unfolding close_controller_def by (intro obeys_intros obeys_set_state tr)
qed

lemma obeys_start_delegate:
  fixes A :: "'ag agents"
  shows "obeys (start_delegate A action)"
proof (rule obeysI)
  fix c :: "'ag ctl"
  obtain cs r where mk: "agent_make A (str_attr action ''agent'') (c_agent (me c)) (stats c) = (cs, r)" by fastforce
  obtain s latest where lt: "get_latest_event_id (strm c) = (s, latest)" by fastforce
  have s: "s = fst (cur_id (strm c))" using lt by (cases "cur_id (strm c)") (simp add: get_latest_event_id_def)
  have w: "W (strm c, shr c, stats c) (s, shr c, cs)" using W_trans[OF W_read W_stats] s by blast
  show "W (world_of c) (world_of (fst (start_delegate A action c)))"
  proof (cases r)
    case (Inl e)
    then show ?thesis using mk W_stats by (simp add: start_delegate_def world_of_def)
  next
    case (Inr ag)
    define c1 where "c1 = c\<lparr>stats := cs, strm := s, me := delegate_frame ag action (sid s) latest c, below := []\<rparr>"
    have "world_of (fst (start_delegate A action c)) = world_of (fst (set_up A c1))"
      unfolding start_delegate_def mk Inr lt prod.case sum.case c1_def[symmetric]
      by (auto simp: world_of_def split: prod.split sum.split)
    moreover have "W (world_of c1) (world_of (fst (set_up A c1)))" by (rule obeysD[OF obeys_set_up])
    moreover have "world_of c1 = (s, shr c, cs)" by (simp add: c1_def world_of_def)
    ultimately show ?thesis using W_trans[OF w] by (metis world_of_def)
  qed
qed

lemma obeys_drop_delegates: "obeys (upd (\<lambda>c. c\<lparr>below := ds\<rparr>))"
  by (simp add: obeys_def world_of_def W_refl)

lemma obeys_read: "(\<And>c0. obeys (m c0)) \<Longrightarrow> obeys (\<lambda>c. m c c)"
  by (simp add: obeys_def)

lemma obeys_end_delegate:
  fixes A :: "'ag agents"
  shows "obeys (end_delegate A)"
proof (rule obeysI)
  fix c :: "'ag ctl"
  show "W (world_of c) (world_of (fst (end_delegate A c)))"
  proof (cases "below c")
    case Nil
    then show ?thesis by (simp add: end_delegate_def W_refl)
  next
    case (Cons d ds)
    have "obeys (\<lambda>c1. let obs = delegate_result A (agent_state (c_state d)) (hd (below c1));
                      obs' = (case find (\<lambda>e. is_a e AgentDelegateAction) (rev (history (my_state c1))) of
                                None \<Rightarrow> obs
                              | Some a \<Rightarrow> obs\<lparr>ev_tool_call_metadata := ev_tool_call_metadata a\<rparr>)
                  in seqm (publish A obs' AGENT) (upd (\<lambda>c2. c2\<lparr>below := []\<rparr>)) c1)"
      unfolding Let_def by (rule obeys_read) (intro obeys_intros obeys_drop_delegates)
    then show ?thesis unfolding end_delegate_def Cons list.case by (intro obeysD obeys_seqm obeys_on_delegate obeys_close)
  qed
qed

lemma obeys_message: "obeys (handle_message_action A a)"
  unfolding handle_message_action_def Let_def
  by (intro obeys_intros obeys_first_user obeys_set_state)

lemma obeys_loop_recovery: "obeys (perform_loop_recovery A an)"
  unfolding perform_loop_recovery_def by (intro obeys_intros obeys_set_state)

lemma obeys_restart: "obeys (restart_with_last_user_message A an)"
  unfolding restart_with_last_user_message_def
  by (intro obeys_intros)
    (auto intro!: obeys_intros obeys_set_state obeys_message obeys_loop_recovery split: option.split)

lemma obeys_loop_action: "obeys (handle_loop_recovery_action A a)"
  unfolding handle_loop_recovery_action_def
  by (intro obeys_intros) (auto intro!: obeys_whenm obeys_set_state obeys_restart obeys_loop_recovery obeys_ret split: option.split)

lemma obeys_attempt: "obeys (attempt_loop_recovery A)"
  unfolding attempt_loop_recovery_def by (intro obeys_intros) (auto intro!: obeys_intros split: option.split)

lemma obeys_delegate_action: "obeys (handle_delegate_action A a)"
  unfolding handle_delegate_action_def
  by (intro obeys_seqm obeys_start_delegate) (auto intro!: obeys_intros obeys_set_state split: option.split pyval.split)

lemma obeys_handle_action: "obeys (handle_action A a)"
  unfolding handle_action_def
  by (intro obeys_if obeys_seqm obeys_set_state obeys_message obeys_delegate_action obeys_loop_action obeys_ret)

lemma obeys_handle_observation: "obeys (handle_observation A e)"
  unfolding handle_observation_def
  by (intro obeys_bnd obeys_ret) (auto intro!: obeys_intros obeys_set_state split: option.split)

lemma obeys_agent_error: "obeys (handle_agent_error A e)"
  unfolding handle_agent_error_def by (intro obeys_intros)

lemma obeys_ask:
  fixes A :: "'ag agents"
  shows "obeys (ask_agent A)"
proof (rule obeysI)
  fix c :: "'ag ctl"
  obtain ag st cs r where q: "agent_step A (c_agent (me c)) (my_state c, shr c) (stats c) = (ag, st, cs, r)"
    by (cases "agent_step A (c_agent (me c)) (my_state c, shr c) (stats c)")
  define c' where "c' = c\<lparr>stats := cs, me := (me c)\<lparr>c_agent := ag, c_state := (my_state c)\<lparr>extra_data := extra_data st,
      history_checksum := history_checksum st, cached_view := cached_view st\<rparr>\<rparr>\<rparr>"
  have "W (world_of c) (world_of c')" using W_stats by (simp add: c'_def world_of_def)
  moreover have "W (world_of c') (world_of (fst (handle_agent_error A e c')))" for e by (rule obeysD[OF obeys_agent_error])
  ultimately show "W (world_of c) (world_of (fst (ask_agent A c)))"
    unfolding ask_agent_def q Let_def prod.case c'_def[symmetric]
    by (auto split: sum.split option.split intro: W_trans)
qed

lemma obeys_next:
  fixes A :: "'ag agents"
  shows "obeys (next_action A)"
proof (rule obeysI)
  fix c :: "'ag ctl"
  obtain r b where q: "should_replay (c_replay (me c)) = (r, b)" by fastforce
  show "W (world_of c) (world_of (fst (next_action A c)))"
  proof (cases b)
    case True
    then show ?thesis using q by (auto simp: next_action_def world_of_def W_refl split: prod.split sum.split)
  next
    case False
    then show ?thesis using q obeysD[OF obeys_ask, of "c\<lparr>me := (me c)\<lparr>c_replay := r\<rparr>\<rparr>" A]
      by (simp add: next_action_def world_of_def)
  qed
qed

lemma obeys_perform: "obeys (perform_action A a)"
  unfolding perform_action_def
  by (intro obeys_bnd obeys_seqm obeys_if obeys_whenm obeys_ret obeys_set_state obeys_from_res)
    (auto intro!: obeys_intros split: option.split)

lemma obeys_step: "obeys (ctl_step A)"
proof -
  have a: "obeys (upd (\<lambda>c. c\<lparr>shr := sync_budget_flag_with_metrics (stats c) (my_state c) (shr c)\<rparr>))"
    using W_sync by (simp add: obeys_def world_of_def)
  have b: "obeys is_stuck_controller"
    by (auto simp: obeys_def is_stuck_controller_def world_of_def W_refl split: prod.split)
  have d: "obeys run_flags"
    using W_flags by (auto simp: obeys_def run_flags_def world_of_def split: prod.split) (metis fst_conv)
  have e: "obeys (case r of None \<Rightarrow> ret () | Some x \<Rightarrow> perform_action A x)" for r
    by (cases r) (simp_all add: obeys_ret obeys_perform)
  have f: "obeys (case err of Some x \<Rightarrow> react_to_exception A (exn_of x)
             | None \<Rightarrow> bnd (next_action A) (\<lambda>r. case r of None \<Rightarrow> ret () | Some a \<Rightarrow> perform_action A a))" for err
    by (cases err) (auto intro!: obeys_bnd obeys_next e obeys_react)
  show ?thesis
    unfolding ctl_step_def by (intro obeys_bnd obeys_if obeys_seqm obeys_ret a b d f obeys_react)
qed

lemma obeys_safe_step: "obeys (step_with_exception_handling A)"
  unfolding step_with_exception_handling_def by (intro obeys_try obeys_step obeys_react)

lemma obeys_on_event_self: "obeys (on_event_self A e)"
  unfolding on_event_self_def
  by (intro obeys_intros obeys_handle_action obeys_handle_observation obeys_safe_step)

lemma obeys_on_event: "obeys (on_event A e)"
  unfolding on_event_def
  by (intro obeys_bnd obeys_ret) (auto intro!: obeys_if obeys_on_delegate obeys_on_event_self obeys_end_delegate split: list.split)

lemma run_obeys: "ctl_run A c0 c \<Longrightarrow> W (world_of c0) (world_of c)"
proof (induction rule: ctl_run.induct)
  case ctl_start
  show ?case by (rule W_refl)
next
  case (ctl_deliver c e q)
  have "W (world_of c) (world_of (c\<lparr>strm := fst (process_queue_step (strm c))\<rparr>))"
    using W_deliver by (simp add: world_of_def)
  then show ?case using W_trans[OF ctl_deliver.IH] W_trans obeysD[OF obeys_on_event] by blast
next
  case (ctl_outside c now e src)
  then show ?case using W_trans W_add by (fastforce simp: world_of_def)
next
  case (ctl_recover c)
  then show ?case using W_trans obeysD[OF obeys_attempt] by blast
next
  case (ctl_close c b)
  then show ?case using W_trans obeysD[OF obeys_close] by blast
qed

end

section \<open>The iteration limit\<close>

definition limit_ok :: "shared \<Rightarrow> bool" where
  "limit_ok sh \<longleftrightarrow>
     0 \<le> limit_increase_amount (iteration_flag sh) \<and> current_value (iteration_flag sh) \<le> max_value (iteration_flag sh)"

definition limit_rel :: "world \<Rightarrow> world \<Rightarrow> bool" where
  "limit_rel w w' =
     (let sh = fst (snd w); sh' = fst (snd w')
      in limit_ok sh \<longrightarrow>
           limit_ok sh' \<and> current_value (iteration_flag sh) \<le> current_value (iteration_flag sh') \<and>
           max_value (iteration_flag sh) \<le> max_value (iteration_flag sh'))"

lemma run_control_flags_limit:
  "iteration_flag (fst (run_control_flags sh)) = fst (iteration_step (iteration_flag sh))"
  by (auto simp: run_control_flags_def split: prod.split option.split)

interpretation limits: world_relation limit_rel
proof unfold_locales
  fix s :: pstream and sh cs h
  show "limit_rel (s, sh, cs) (s, maybe_increase_control_flags_limits h sh, cs)"
    by (auto simp: limit_rel_def limit_ok_def maybe_increase_control_flags_limits_def iteration_increase_limit_def)
  show "limit_rel (s, sh, cs) (s, fst (run_control_flags sh), cs)"
    by (auto simp: limit_rel_def limit_ok_def run_control_flags_limit iteration_step_def iteration_reached_limit_def Let_def)
  show "limit_rel (s, sh, cs) (s, sync_budget_flag_with_metrics cs st0 sh, cs)" for st0
    by (auto simp: limit_rel_def limit_ok_def sync_budget_flag_with_metrics_def)
qed (auto simp: limit_rel_def Let_def)

section \<open>The event files\<close>

definition sealed :: "pstream \<Rightarrow> bool" where
  \<comment> \<open>the next id is known, and no event file exists from there on\<close>
  "sealed s \<longleftrightarrow> CHR ''/'' \<notin> set (sid s) \<and>
     (case cur_id_cache s of
        None \<Rightarrow> False
      | Some n \<Rightarrow> 0 \<le> n \<and> (\<forall>i\<ge>n. mem_read (get_filename_for_id s i) (files s) = Inl (FileNotFoundError (get_filename_for_id s i))))"

definition kept_rel :: "world \<Rightarrow> world \<Rightarrow> bool" where
  \<comment> \<open>event files stay as they are; new ones get new ids\<close>
  "kept_rel w w' =
     (let s = fst w; s' = fst w'
      in sealed s \<longrightarrow>
           sealed s' \<and> sid s' = sid s \<and> stream_user s' = stream_user s \<and> the (cur_id_cache s) \<le> the (cur_id_cache s') \<and>
           (\<forall>i<the (cur_id_cache s). mem_read (get_filename_for_id s i) (files s') = mem_read (get_filename_for_id s i) (files s)))"

lemma pickle_not_event:
  "get_filename_for_id s i \<noteq> get_conversation_agent_state_filename j u"
  "get_filename_for_id s i \<noteq> get_conversation_stats_filename j u"
proof -
  have ends: "last (get_filename_for_id s i) = CHR ''n''"
    by (simp add: get_filename_for_id_def get_conversation_event_filename_def)
  have "last (get_conversation_agent_state_filename j u) = CHR ''l''" "last (get_conversation_stats_filename j u) = CHR ''l''"
    by (simp_all add: get_conversation_agent_state_filename_def get_conversation_stats_filename_def)
  with ends show "get_filename_for_id s i \<noteq> get_conversation_agent_state_filename j u"
    "get_filename_for_id s i \<noteq> get_conversation_stats_filename j u" by auto
qed

lemma one_slash:
  assumes "CHR ''/'' \<notin> set x" "CHR ''/'' \<notin> set y" "x @ CHR ''/'' # y = v @ CHR ''/'' # w"
  shows "x = v \<and> y = w"
  using assms by (simp add: append_Cons_eq_iff)

lemma event_not_below_pickle:
  assumes "CHR ''/'' \<notin> set (sid s)"
  shows "\<not> startswith (get_filename_for_id s i) (get_conversation_agent_state_filename j None)"
proof
  let ?n = "str_of_int i @ ''.json''" and ?k = "''agent_state.pkl''"
  assume "startswith (get_filename_for_id s i) (get_conversation_agent_state_filename j None)"
  then obtain r where "get_filename_for_id s i = get_conversation_agent_state_filename j None @ r"
    by (auto simp: startswith_iff)
  then have eq: "sid s @ CHR ''/'' # (''events'' @ CHR ''/'' # ?n) = j @ CHR ''/'' # (?k @ r)"
    by (auto simp: get_filename_for_id_def get_conversation_event_filename_def get_conversation_events_dir_def
        get_conversation_agent_state_filename_def get_conversation_dir_def CONVERSATION_BASE_DIR_def split: option.splits list.splits)
  have n: "CHR ''/'' \<notin> set ?n" using str_of_int_chars by auto
  have d: "hd ?n \<noteq> CHR ''a''" using str_of_nat_ends(1)[of "nat i"] by (auto simp: str_of_int_def is_digit_def)
  from eq consider us where "j = sid s @ us" "us @ CHR ''/'' # (?k @ r) = CHR ''/'' # (''events'' @ CHR ''/'' # ?n)"
    | us where "sid s = j @ us" "us @ CHR ''/'' # (''events'' @ CHR ''/'' # ?n) = CHR ''/'' # (?k @ r)"
    by (auto simp: append_eq_append_conv2) 
  then show False
  proof cases
    case 1
    then obtain vs where vs: "vs @ CHR ''/'' # (?k @ r) = ''events'' @ CHR ''/'' # ?n" by (cases us) auto
    have "?k @ r = ?n" using one_slash[OF _ n vs[symmetric]] by simp
    then have "hd (?k @ r) = hd ?n" by (rule arg_cong)
    then show False using d by simp
  next
    case 2
    then show False using assms by (cases us) auto
  qed
qed

lemma read_save_state:
  assumes "CHR ''/'' \<notin> set (sid s)"
  shows "mem_read (get_filename_for_id s i) (save_state j b usr cs st fs) = mem_read (get_filename_for_id s i) fs"
proof -
  note ne = pickle_not_event[of s i]
  note ne' = ne[symmetric]
  have "mem_read (get_filename_for_id s i) (save_to_session x usr st fs) = mem_read (get_filename_for_id s i) fs" for x
    using ne'(1)[of x usr] event_not_below_pickle[OF assms, of i x]
    by (auto simp: save_to_session_def Let_def mem.read_write read_delete)
  moreover have "mem_read (get_filename_for_id s i) (save_metrics cs fs') = mem_read (get_filename_for_id s i) fs'" for fs' :: "pickle files"
    using ne'(2) by (auto simp: save_metrics_def metrics_path_def mem.read_write)
  ultimately show ?thesis by (auto simp: save_state_def Let_def split: option.split list.split)
qed

lemma add_event_fails:
  assumes "add_event now e src s = (s', e', Some err)"
  shows "s' = s \<or> s' = (fst (cur_id s))\<lparr>cur_id_cache := Some (snd (cur_id s) + 1)\<rparr>"
  using assms by (auto simp: add_event_def Let_def split: if_splits sum.splits)

lemma store_cache_page_frame:
  "cur_id_cache (store_cache_page s p) = cur_id_cache s" "sid (store_cache_page s p) = sid s"
  "stream_user (store_cache_page s p) = stream_user s"
  "mem_read (get_filename_for_id s i) (files (store_cache_page s p)) = mem_read (get_filename_for_id s i) (files s)"
  using cache_not_event[of s _ _ i]
  by (auto simp: store_cache_page_def mem.read_write split: option.split pyval.split)

lemma read_add_event:
  assumes "add_event now e src s = (s', e', r)" "cur_id_cache s = Some n" "0 \<le> n"
  shows "sid s' = sid s \<and> stream_user s' = stream_user s \<and> (cur_id_cache s' = Some n \<or> cur_id_cache s' = Some (n + 1)) \<and>
    (\<forall>i. mem_read (get_filename_for_id s i) (files s') = mem_read (get_filename_for_id s i) (files s)
       \<or> i = n \<and> cur_id_cache s' = Some (n + 1))"
proof (cases r)
  case None
  have c: "cur_id s = (s, n)" using assms(2) by (simp add: cur_id_def)
  from assms(1)[unfolded None] obtain d0 d e2 where a: "eid e = INVALID_ID"
    "e' = e\<lparr>ev_timestamp := Some now, ev_source := Some src, ev_id := Some (snd (cur_id s))\<rparr>"
    "event_to_dict e' = Inr d0" "event_from_dict (replace_secrets s d0) = Inr e2" "d = consumed (replace_secrets s d0)"
    "s' = (let page = write_page s @ [d];
         s2 = (fst (cur_id s))\<lparr>cur_id_cache := Some (snd (cur_id s) + 1),
                write_page := (if int (length page) = cache_size s then [] else page)\<rparr>;
         s3 = s2\<lparr>files := mem_write (get_filename_for_id s (eid e2)) (Json (PDict d)) (files s)\<rparr>;
         s4 = store_cache_page s3 page
       in s4\<lparr>queue := queue s @ [e2]\<rparr>)" by (rule add_event_cases)
  define s3 where "s3 = s\<lparr>cur_id_cache := Some (n + 1),
      write_page := (if int (length (write_page s @ [d])) = cache_size s then [] else write_page s @ [d]),
      files := mem_write (get_filename_for_id s (eid e2)) (Json (PDict d)) (files s)\<rparr>"
  have s': "s' = (store_cache_page s3 (write_page s @ [d]))\<lparr>queue := queue s @ [e2]\<rparr>"
    using a(6) by (simp add: c Let_def s3_def)
  have e2: "eid e2 = n"
  proof -
    have "eid e' = n" using a(2) c by (simp add: eid_def)
    then have "map_of d0 ''id'' = Some (PInt n)" using event_to_dict_id[OF a(3)] assms(3) by simp
    then have "map_of (replace_secrets s d0) ''id'' = Some (PInt n)"
      by (simp add: replace_secrets_def map_of_replace_secrets TOP_LEVEL_PROTECTED_FIELDS_def)
    then show ?thesis by (rule event_from_dict_id[OF a(4)])
  qed
  have nm: "get_filename_for_id s3 = get_filename_for_id s" by (simp add: s3_def get_filename_for_id_def fun_eq_iff)
  have "mem_read (get_filename_for_id s i) (files s') = mem_read (get_filename_for_id s i) (files s) \<or> i = n" for i
    using store_cache_page_frame(4)[of s3 i] e2 unfolding nm s' by (simp add: s3_def mem.read_write filename_inject)
  then show ?thesis unfolding s' by (auto simp: store_cache_page_frame s3_def)
next
  case (Some err)
  then show ?thesis using add_event_fails[OF assms(1)[unfolded Some]] assms(2) by (auto simp: cur_id_def)
qed


lemma kept_frame:
  "sid s' = sid s \<Longrightarrow> stream_user s' = stream_user s \<Longrightarrow> cur_id_cache s' = cur_id_cache s \<Longrightarrow>
   (\<And>i. CHR ''/'' \<notin> set (sid s) \<Longrightarrow> mem_read (get_filename_for_id s i) (files s') = mem_read (get_filename_for_id s i) (files s)) \<Longrightarrow>
   kept_rel (s, x) (s', y)"
  by (auto simp: kept_rel_def Let_def sealed_def get_filename_for_id_def split: option.splits)

lemma kept_add: "kept_rel (s, x) (fst (add_event now e src s), y)"
proof (cases "add_event now e src s")
  case (fields s' e' r)
  show ?thesis
  proof (cases "sealed s")
    case True
    then obtain n where n: "cur_id_cache s = Some n" "0 \<le> n"
      and no: "\<And>i. n \<le> i \<Longrightarrow> mem_read (get_filename_for_id s i) (files s) = Inl (FileNotFoundError (get_filename_for_id s i))"
      by (auto simp: sealed_def split: option.splits)
    note r = read_add_event[OF fields n]
    have nm: "get_filename_for_id s' = get_filename_for_id s" using r by (simp add: get_filename_for_id_def fun_eq_iff)
    have "mem_read (get_filename_for_id s i) (files s') = mem_read (get_filename_for_id s i) (files s)" if "i < n" for i
      using r that by blast
    moreover have "mem_read (get_filename_for_id s i) (files s') = Inl (FileNotFoundError (get_filename_for_id s i))"
      if "the (cur_id_cache s') \<le> i" for i
    proof -
      have "n \<le> i" "\<not> (i = n \<and> cur_id_cache s' = Some (n + 1))" using r that by auto
      then show ?thesis using r no[of i] by (metis (no_types))
    qed
    ultimately show ?thesis using True r n unfolding kept_rel_def Let_def fields
      by (auto simp: sealed_def nm)
  qed (simp add: kept_rel_def)
qed

lemma subscribe_frame:
  "sid (fst (subscribe k i s)) = sid s" "stream_user (fst (subscribe k i s)) = stream_user s"
  "cur_id_cache (fst (subscribe k i s)) = cur_id_cache s" "files (fst (subscribe k i s)) = files s"
  by (simp_all add: subscribe_def Let_def)

lemma unsubscribe_frame:
  "sid (unsubscribe k i s) = sid s" "stream_user (unsubscribe k i s) = stream_user s"
  "cur_id_cache (unsubscribe k i s) = cur_id_cache s" "files (unsubscribe k i s) = files s"
  by (auto simp: unsubscribe_def clean_up_subscriber_def split: option.split)

interpretation kept: world_relation kept_rel
proof unfold_locales
  fix s :: pstream and sh sh' :: shared and cs cs' :: conv_stats
  show "kept_rel (s, sh, cs) (fst (add_event now e src s), sh, cs)" for now e src by (rule kept_add)
  show "kept_rel (s, sh, cs) (fst (cur_id s), sh, cs)"
    by (cases "cur_id_cache s") (auto simp: kept_rel_def sealed_def cur_id_def)
  show "kept_rel (s, sh, cs) (fst (subscribe k i s), sh, cs)" for k i
    by (rule kept_frame) (simp_all add: subscribe_frame)
  show "kept_rel (s, sh, cs) (unsubscribe k i s, sh, cs)" for k i
    by (rule kept_frame) (simp_all add: unsubscribe_frame)
  show "kept_rel (s, sh, cs) (s\<lparr>files := save_state j b usr cs st (files s)\<rparr>, sh, cs)" for j b usr st
    by (rule kept_frame) (simp_all add: read_save_state)
  show "kept_rel (s, sh, cs) (fst (process_queue_step s), sh, cs)"
    by (rule kept_frame) (auto simp: process_queue_step_def split: list.split)
  show "kept_rel u w" if "kept_rel u v" "kept_rel v w" for u v w :: world
    using that by (auto simp: kept_rel_def Let_def get_filename_for_id_def)
qed (auto simp: kept_rel_def Let_def)

end
