(* ===== verification/Controller_Properties.thy ===== *)
theory Controller_Properties
  imports Controller_Laws
begin

text \<open>
  What the agent controller guarantees: the limits and the event files over whole runs, when the
  agent is asked, what a state change stores, how errors end, how risky actions wait for the
  user, and what happens to delegates.  \<open>keeps\<close> says that a method leaves a part of the controller
  alone; its rules carry the proofs about single methods.
\<close>

section \<open>A small conversation\<close>

definition sample_cmd :: event where
  "sample_cmd = (case dataclass_init CmdRunAction [(''command'', PStr ''ls'')] of Inr e \<Rightarrow> e | Inl _ \<Rightarrow> blank NullAction [])"

definition sample_agents :: "unit agents" where
  \<comment> \<open>an agent that always runs the same command\<close>
  "sample_agents =
     \<lparr>agent_name = (\<lambda>_. ''CodeActAgent''), agent_step = (\<lambda>a st cs. (a, fst st, cs, Inr (Some sample_cmd))),
      agent_reset = (\<lambda>a. a), get_system_message = (\<lambda>_. None), agent_make = (\<lambda>n a cs. (cs, Inr a)),
      enable_stuck_detection = (\<lambda>_. True), enable_history_truncation = (\<lambda>_. True), cli_mode = (\<lambda>_. False),
      security_analyzer = None, clock = (\<lambda>_. ''2025-01-01T00:00:00'')\<rparr>"

definition sample_ctl :: "agent_state \<Rightarrow> bool \<Rightarrow> int \<Rightarrow> unit ctl" where
  \<comment> \<open>a controller of session \<open>s\<close> in the given agent state, with confirmation mode and iteration limit\<close>
  "sample_ctl x confirm n =
     (case new_frame () ''s'' (Some ''s'') None True confirm False False False [] n None None of
        (m, sh) \<Rightarrow>
          \<lparr>strm = fst (cur_id (open_stream ''s'' None [])), shr = sh,
           stats = \<lparr>stats_store = True, conversation_id = ''s'', stats_user = None, service_to_metrics = [], restored_metrics = []\<rparr>,
           ticks = 0, statuses = [], me = m\<lparr>c_state := (c_state m)\<lparr>agent_state := x\<rparr>\<rparr>, below = []\<rparr>)"

definition deliver :: "'ag agents \<Rightarrow> 'ag ctl \<Rightarrow> 'ag ctl" where
  "deliver A c =
     (case queue (strm c) of
        [] \<Rightarrow> c
      | e # _ \<Rightarrow> fst (on_event A e (c\<lparr>strm := fst (process_queue_step (strm c))\<rparr>)))"

definition say :: "event \<Rightarrow> 'ag ctl \<Rightarrow> 'ag ctl" where
  "say e c = c\<lparr>strm := fst (add_event ''2025-01-01T00:00:00'' e ENVIRONMENT (strm c))\<rparr>"

definition sample_end :: "unit ctl" where
  "sample_end = deliver sample_agents (say condensation_request (sample_ctl RUNNING True 2))"

definition glance :: "'ag ctl \<Rightarrow> int \<times> int \<times> agent_state \<times> int option \<times> (event_class option) list" where
  "glance c =
     (current_value (iteration_flag (shr c)), max_value (iteration_flag (shr c)), get_agent_state c, cur_id_cache (strm c),
      map (\<lambda>i. case get_event (strm c) i of Inr e \<Rightarrow> Some (ev_class e) | Inl _ \<Rightarrow> None) [0, 1, 2, 3])"

definition sample_begun :: "unit ctl" where
  "sample_begun = say condensation_request (sample_ctl RUNNING True 2)"

definition broken_agents :: "string \<Rightarrow> unit agents" where
  "broken_agents cls = sample_agents\<lparr>agent_step := (\<lambda>a st cs. (a, fst st, cs, Inl (mk_exn cls ''no answer'')))\<rparr>"

definition ended_at :: "string \<Rightarrow> unit frame" where
  "ended_at msg = (let m = me (sample_ctl ERROR True 2) in m\<lparr>c_state := (c_state m)\<lparr>last_error := ''RuntimeError: '' @ msg\<rparr>\<rparr>)"

section \<open>What the properties speak of\<close>

definition keeps :: "('ag ctl \<Rightarrow> 'b) \<Rightarrow> ('ag, 'a) ctl_method \<Rightarrow> bool" where
  \<comment> \<open>the method does not change this part of the controller\<close>
  "keeps f m \<longleftrightarrow> (\<forall>c. f (fst (m c)) = f c)"

definition outer :: "'ag ctl \<Rightarrow> 'ag frame list \<times> state \<times> (string \<times> string option \<times> string option \<times> bool \<times> bool \<times> bool \<times> bool)" where
  \<comment> \<open>what a change of the agent state leaves alone\<close>
  "outer c =
     (below c, (my_state c)\<lparr>agent_state := LOADING\<rparr>,
      (c_id (me c), c_sid (me c), c_user (me c), c_store (me c), c_headless (me c), c_confirmation (me c), c_callback (me c)))"

definition retrying :: "'ag frame \<Rightarrow> exn \<Rightarrow> bool" where
  \<comment> \<open>a rate limit that will be retried\<close>
  "retrying m e \<longleftrightarrow> c_callback m \<and> rate_limited e \<and>
     (case exn_retry e of Some (attempt, max_retries) \<Rightarrow> attempt < max_retries | None \<Rightarrow> True)"

definition synced :: "'ag ctl \<Rightarrow> shared" where
  \<comment> \<open>the flags after the costs were taken over from the statistics\<close>
  "synced c = sync_budget_flag_with_metrics (stats c) (my_state c) (shr c)"

definition found_stuck :: "'ag agents \<Rightarrow> 'ag ctl \<Rightarrow> bool" where
  "found_stuck A c \<longleftrightarrow> enable_stuck_detection A (c_agent (me c)) \<and> snd (snd (any_stuck (me c) (below c)))"

definition risky :: "'ag agents \<Rightarrow> event \<Rightarrow> bool" where
  \<comment> \<open>the analyzer says high, or there is none\<close>
  "risky A a \<longleftrightarrow> hasattr a ''security_risk'' \<and>
     (case security_analyzer A of None \<Rightarrow> True | Some f \<Rightarrow> f a = Inr (PInt 2))"

section \<open>Facts about the small conversation\<close>

lemma run_deliver: "ctl_run A c0 c \<Longrightarrow> ctl_run A c0 (deliver A c)"
  by (auto simp: deliver_def split: list.split intro: ctl_deliver)

lemma run_say: "ctl_run A c0 c \<Longrightarrow> ctl_run A c0 (say e c)"
  unfolding say_def by (rule ctl_outside)

lemma sample_run: "ctl_run sample_agents (sample_ctl RUNNING True 2) sample_end"
  unfolding sample_end_def by (intro run_deliver run_say ctl_start)

lemma sample_glance:
  "glance sample_end =
     (1, 2, AWAITING_USER_CONFIRMATION, Some 3,
      [Some CondensationRequestAction, Some AgentStateChangedObservation, Some CmdRunAction, None])"
  by code_simp

section \<open>Parts that methods leave alone\<close>

lemma keepsD: "keeps f m \<Longrightarrow> f (fst (m c)) = f c"
  by (simp add: keeps_def)

lemma keeps_basic [intro!]: "keeps f (ret x)" "keeps f (raise_exn e)" "keeps f (asks g)"
  by (simp_all add: keeps_def)

lemma keeps_upd:
  "(\<And>c. f (g c) = f c) \<Longrightarrow> keeps f (upd g)"
  "(\<And>c. f (c\<lparr>me := h (me c)\<rparr>) = f c) \<Longrightarrow> keeps f (upd_me h)"
  "(\<And>c. f (c\<lparr>me := (me c)\<lparr>c_state := k (my_state c)\<rparr>\<rparr>) = f c) \<Longrightarrow> keeps f (upd_state k)"
  by (simp_all add: keeps_def)

lemma keeps_bnd [intro]: "keeps f m \<Longrightarrow> (\<And>x. keeps f (g x)) \<Longrightarrow> keeps f (bnd m g)"
  unfolding keeps_def bnd_run by (auto split: sum.split)

lemma keeps_seqm [intro]: "keeps f m \<Longrightarrow> keeps f m' \<Longrightarrow> keeps f (seqm m m')"
  unfolding seqm_def by (rule keeps_bnd)

lemma keeps_whenm [intro]: "keeps f m \<Longrightarrow> keeps f (whenm b m)"
  by (cases b) auto

lemma keeps_from_res [intro]: "keeps f (from_res r)"
  by (cases r) (auto simp: from_res_def)

lemma keeps_try [intro]:
  assumes "keeps f m" and "\<And>e. keeps f (h e)" shows "keeps f (try_catch m h)"
  unfolding keeps_def
proof
  fix c
  show "f (fst (try_catch m h c)) = f c"
    using keepsD[OF assms(1), of c] keepsD[OF assms(2), of _ "fst (m c)"]
    by (cases "m c"; cases "snd (m c)") (auto simp: try_catch_def)
qed

lemma publish_keeps:
  "(\<And>c s t. f (c\<lparr>strm := s, ticks := t\<rparr>) = f c) \<Longrightarrow> keeps f (publish A e src)"
  by (auto simp: keeps_def publish_def split: prod.split)

lemma publish_pending_keeps:
  "(\<And>c s t p. f (c\<lparr>strm := s, ticks := t, me := (me c)\<lparr>c_pending := p\<rparr>\<rparr>) = f c) \<Longrightarrow> keeps f (publish_pending A e src)"
  by (auto simp: keeps_def publish_pending_def split: prod.split)

lemma first_event_keeps: "(\<And>c s. f (c\<lparr>strm := s\<rparr>) = f c) \<Longrightarrow> keeps f (first_event P a)"
  by (auto simp: keeps_def first_event_def read_from_def split: prod.split option.split)

lemmas keeps_publish = publish_keeps publish_pending_keeps

lemma outer_simps:
  "outer (c\<lparr>strm := s\<rparr>) = outer c" "outer (c\<lparr>ticks := t\<rparr>) = outer c" "outer (c\<lparr>shr := sh\<rparr>) = outer c"
  "outer (c\<lparr>me := (me c)\<lparr>c_pending := p\<rparr>\<rparr>) = outer c"
  "outer (c\<lparr>me := (me c)\<lparr>c_pending := p, c_agent := ag\<rparr>\<rparr>) = outer c"
  "outer (c\<lparr>me := (me c)\<lparr>c_state := (c_state (me c))\<lparr>agent_state := x\<rparr>\<rparr>\<rparr>) = outer c"
  by (simp_all add: outer_def)

lemma reset_keeps: "keeps outer (reset_controller A)" "keeps my_state (reset_controller A)"
  unfolding reset_controller_def Let_def
  by (intro keeps_bnd keeps_seqm keeps_basic keeps_upd; auto intro!: keeps_whenm keeps_seqm keeps_publish simp: outer_def split: option.split)+

lemma answer_keeps: "keeps outer (answer_pending A new)" "keeps my_state (answer_pending A new)"
  unfolding answer_pending_def
  by (intro keeps_bnd keeps_basic; auto intro!: keeps_whenm keeps_publish simp: outer_def split: option.split)+

lemma save_keeps: "keeps outer save_controller" "keeps me save_controller"
  unfolding save_controller_def by (auto intro!: keeps_upd simp: outer_def)

lemma set_state_keeps: "keeps outer (set_agent_state_to A new)"
  unfolding set_agent_state_to_def
  by (intro keeps_bnd keeps_basic)
    (auto intro!: keeps_basic keeps_seqm keeps_upd keeps_whenm reset_keeps answer_keeps keeps_bnd keeps_publish save_keeps simp: outer_def)

section \<open>State changes\<close>

lemma keeps_state_agent: "keeps my_state m \<Longrightarrow> keeps get_agent_state m"
  by (simp add: keeps_def get_agent_state_def)

lemma set_state_sets [simp]: "get_agent_state (fst (set_agent_state_to A new c)) = new"
proof (cases "new = get_agent_state c")
  case True
  then show ?thesis by (simp add: set_agent_state_to_def)
next
  case False
  define rest where "rest =
     seqm (whenm (new = STOPPED \<or> new = ERROR) (reset_controller A)) (
         seqm (whenm (get_agent_state c = ERROR \<and> new = RUNNING)
                 (upd (\<lambda>c. c\<lparr>shr := maybe_increase_control_flags_limits (c_headless (me c)) (shr c)\<rparr>))) (
         seqm (answer_pending A new) (
         bnd (asks (\<lambda>c. if new = ERROR then last_error (my_state c) else [])) (\<lambda>reason.
         seqm (publish A (state_changed new reason) ENVIRONMENT)
           save_controller))))"
  have "keeps my_state rest"
    unfolding rest_def
    by (auto intro!: keeps_seqm keeps_whenm keeps_bnd keeps_upd keeps_publish reset_keeps answer_keeps
        simp: save_controller_def)
  then have "get_agent_state (fst (rest d)) = get_agent_state d" for d
    by (simp add: keeps_def get_agent_state_def)
  then show ?thesis using False by (simp add: set_agent_state_to_def rest_def[symmetric]) (simp add: get_agent_state_def)
qed

lemma set_state_frame:
  "last_error (my_state (fst (set_agent_state_to A new c))) = last_error (my_state c)"
  "below (fst (set_agent_state_to A new c)) = below c"
  using arg_cong[OF keepsD[OF set_state_keeps[of A new], of c], of "\<lambda>x. last_error (fst (snd x))"]
    arg_cong[OF keepsD[OF set_state_keeps[of A new], of c], of fst]
  by (simp_all add: outer_def)

lemma set_state_pending:
  assumes "new \<notin> {STOPPED, ERROR, USER_CONFIRMED, USER_REJECTED}"
  shows "c_pending (me (fst (set_agent_state_to A new c))) = c_pending (me c)"
proof -
  have a: "answer_pending A new = bnd (asks (\<lambda>c. c_pending (me c))) (\<lambda>p. ret ())"
    using assms by (auto simp: answer_pending_def split: option.split intro!: arg_cong2[where f=bnd])
  have "keeps (\<lambda>c. c_pending (me c)) (set_agent_state_to A new)"
    unfolding set_agent_state_to_def a using assms
    by (auto intro!: keeps_bnd keeps_seqm keeps_whenm keeps_upd keeps_publish simp: save_controller_def)
  then show ?thesis by (rule keepsD)
qed

lemma stats_file_not_state: "get_conversation_stats_filename i u \<noteq> get_conversation_agent_state_filename j v"
proof
  assume "get_conversation_stats_filename i u = get_conversation_agent_state_filename j v"
  then have "rev (get_conversation_stats_filename i u) = rev (get_conversation_agent_state_filename j v)" by simp
  then show False by (simp add: get_conversation_stats_filename_def get_conversation_agent_state_filename_def)
qed

lemma restore_after_save_state:
  assumes "i \<noteq> []"
  shows "restore_from_session i (save_state (Some i) True user cs st fs) user = restore_from_session i (save_to_session i user st fs) user"
proof -
  have ld: "load_pickle (get_conversation_agent_state_filename j u) (save_metrics cs fs') = load_pickle (get_conversation_agent_state_filename j u) fs'"
    for j u and fs' :: "pickle files"
    using stats_file_not_state by (simp add: load_pickle_def save_metrics_def metrics_path_def mem.read_write)
  have "save_state (Some i) True user cs st fs =
     (if has_stats (fst st) then save_metrics cs (save_to_session i user st fs) else save_to_session i user st fs)"
    using assms by (simp add: save_state_def Let_def split: list.split)
  then show ?thesis unfolding restore_from_session_def by (cases "has_stats (fst st)") (simp_all only: ld if_True if_False)
qed

lemma seqm_ok: "seqm m m' c = (c', Inr x) \<longleftrightarrow> (\<exists>y. snd (m c) = Inr y \<and> m' (fst (m c)) = (c', Inr x))"
  by (auto simp: seqm_run split: sum.split)

lemma bnd_ok: "bnd m f c = (c', Inr x) \<longleftrightarrow> (\<exists>y. snd (m c) = Inr y \<and> f y (fst (m c)) = (c', Inr x))"
  by (auto simp: bnd_run split: sum.split)

lemma set_state_saves:
  assumes "set_agent_state_to A new c = (c', Inr ())" "new \<noteq> get_agent_state c"
  obtains c1 where "c' = c1\<lparr>strm := (strm c1)\<lparr>files :=
     save_state (c_sid (me c1)) (c_store (me c1)) (c_user (me c1)) (stats c1) (my_state c1, shr c1) (files (strm c1))\<rparr>\<rparr>"
proof -
  have "\<exists>c1. save_controller c1 = (c', Inr ())"
    using assms unfolding set_agent_state_to_def bnd_asks by (simp add: seqm_ok) blast
  then show thesis using that by (auto simp: save_controller_def)
qed

section \<open>Errors\<close>

lemma whenm_if: "whenm b m c = (if b then m c else (c, Inr ()))"
  by (cases b) simp_all

lemma react_state:
  "get_agent_state (fst (react_to_exception A e c)) = (if retrying (me c) e then RATE_LIMITED else ERROR)"
  by (auto simp: react_to_exception_def retrying_def seqm_run bnd_run whenm_if split: option.split)

lemma react_error:
  assumes "\<not> rate_limited e" "runtime_status e = ''STATUS$ERROR''"
  shows "last_error (my_state (fst (react_to_exception A e c))) = exn_class e @ '': '' @ exn_str e"
  using assms by (auto simp: react_to_exception_def seqm_run bnd_run whenm_if set_state_frame)

section \<open>Whole runs\<close>

text \<open>
  C5: Over a whole conversation (any events delivered, any events published by others, recovery and
  closing, with delegates and with exceptions in any method) the number of iterations never
  exceeds the limit, and neither of the two ever decreases.
\<close>

theorem iteration_limit_is_kept:
  assumes "ctl_run A c0 c"
    and "0 \<le> limit_increase_amount (iteration_flag (shr c0))"
    and "current_value (iteration_flag (shr c0)) \<le> max_value (iteration_flag (shr c0))"
  shows "current_value (iteration_flag (shr c)) \<le> max_value (iteration_flag (shr c)) \<and>
    current_value (iteration_flag (shr c0)) \<le> current_value (iteration_flag (shr c)) \<and>
    max_value (iteration_flag (shr c0)) \<le> max_value (iteration_flag (shr c))"
  using limits.run_obeys[OF assms(1)] assms(2,3) by (simp add: limit_rel_def limit_ok_def world_of_def Let_def)

theorem iteration_limit_is_kept_witness:
  "current_value (iteration_flag (shr sample_end)) = 1 \<and>
   current_value (iteration_flag (shr sample_end)) \<le> max_value (iteration_flag (shr sample_end))"
  using iteration_limit_is_kept[OF sample_run] sample_glance
  by (simp add: glance_def sample_ctl_def new_frame_def set_initial_state_def new_flag_def Let_def)

text \<open>
  C4: Over a whole conversation the stored events are append-only: an event that has been stored is
  read back unchanged for ever, whatever the controller publishes, saves or deletes, and new
  events only get ids from the counter on.
\<close>

theorem stored_events_never_change:
  assumes "ctl_run A c0 c" and "sealed (strm c0)" and "cur_id_cache (strm c0) = Some n"
  shows "(\<forall>i<n. get_event (strm c) i = get_event (strm c0) i) \<and>
    (\<exists>k\<ge>n. cur_id_cache (strm c) = Some k \<and>
       (\<forall>i\<ge>k. get_event (strm c) i = Inl (FileNotFoundError (get_filename_for_id (strm c) i))))"
proof -
  have r: "sealed (strm c)" "sid (strm c) = sid (strm c0)" "stream_user (strm c) = stream_user (strm c0)"
    "n \<le> the (cur_id_cache (strm c))"
    "\<And>i. i < n \<Longrightarrow> mem_read (get_filename_for_id (strm c0) i) (files (strm c)) = mem_read (get_filename_for_id (strm c0) i) (files (strm c0))"
    using kept.run_obeys[OF assms(1)] assms(2,3) by (auto simp: kept_rel_def world_of_def Let_def)
  have "get_filename_for_id (strm c) = get_filename_for_id (strm c0)" using r by (simp add: get_filename_for_id_def fun_eq_iff)
  moreover obtain k where "cur_id_cache (strm c) = Some k"
    "\<And>i. k \<le> i \<Longrightarrow> mem_read (get_filename_for_id (strm c) i) (files (strm c)) = Inl (FileNotFoundError (get_filename_for_id (strm c) i))"
    using r(1) by (auto simp: sealed_def split: option.splits)
  ultimately show ?thesis using r by (auto simp: get_event_def)
qed

lemma sample_sealed: "sealed (strm (sample_ctl x b n))" "cur_id_cache (strm (sample_ctl x b n)) = Some 0"
  by (simp_all add: sample_ctl_def new_frame_def Let_def cur_id_def open_stream_def calculate_cur_id_def mem_list_def
      sealed_def mem_read_def split: prod.split)

lemma sample_begun_sealed: "sealed (strm sample_begun)" "cur_id_cache (strm sample_begun) = Some 1"
proof -
  have "ctl_run sample_agents (sample_ctl RUNNING True 2) sample_begun"
    unfolding sample_begun_def by (intro run_say ctl_start)
  from kept.run_obeys[OF this] show "sealed (strm sample_begun)"
    using sample_sealed by (simp add: kept_rel_def world_of_def Let_def)
  show "cur_id_cache (strm sample_begun) = Some 1" by code_simp
qed

theorem stored_events_never_change_witness:
  "get_event (strm sample_end) 0 = get_event (strm sample_begun) 0 \<and>
   (\<exists>e. get_event (strm sample_end) 0 = Inr e \<and> ev_class e = CondensationRequestAction) \<and>
   cur_id_cache (strm sample_end) = Some 3"
proof -
  have "ctl_run sample_agents sample_begun sample_end"
    unfolding sample_end_def sample_begun_def[symmetric] by (intro run_deliver ctl_start)
  from stored_events_never_change[OF this sample_begun_sealed]
  show ?thesis using sample_glance by (auto simp: glance_def split: sum.splits)
qed

section \<open>Single methods\<close>

text \<open>
  C35: A change of the agent state that returns normally sets the new state and saves: restoring the
  session gives the state as it is in memory, with its flags, up to what restoring always resets.
\<close>

theorem state_change_is_saved:
  assumes "set_agent_state_to A new c = (c', Inr ())" and "new \<noteq> get_agent_state c"
    and "c_sid (me c) = Some i" and "i \<noteq> []" and "c_store (me c)"
  shows "get_agent_state c' = new \<and>
    restore_from_session i (files (strm c')) (c_user (me c)) =
      Inr ((my_state c')\<lparr>has_stats := False, history := [], history_checksum := None, cached_view := None,
             resume_state := (if new \<in> set RESUMABLE_STATES then Some new else None), agent_state := LOADING\<rparr>, shr c')"
proof -
  have new: "get_agent_state c' = new" using set_state_sets[of A new c] assms(1) by simp
  obtain c1 where c1: "c' = c1\<lparr>strm := (strm c1)\<lparr>files :=
     save_state (c_sid (me c1)) (c_store (me c1)) (c_user (me c1)) (stats c1) (my_state c1, shr c1) (files (strm c1))\<rparr>\<rparr>"
    using set_state_saves[OF assms(1,2)] .
  have "outer c' = outer c" using keepsD[OF set_state_keeps, of A new c] assms(1) by simp
  then have "c_sid (me c1) = Some i" "c_store (me c1)" "c_user (me c1) = c_user (me c)"
    using assms(3-5) c1 by (simp_all add: outer_def)
  then have "restore_from_session i (files (strm c')) (c_user (me c)) =
      restore_from_session i (save_to_session i (c_user (me c)) (my_state c1, shr c1) (files (strm c1))) (c_user (me c))"
    using restore_after_save_state[OF assms(4)] c1 by simp
  then show ?thesis using new c1 by (simp add: restore_after_save get_agent_state_def)
qed

lemma sample_set_state:
  "snd (set_agent_state_to sample_agents RUNNING (sample_ctl AWAITING_USER_INPUT True 2)) = Inr ()"
  by code_simp

lemma sample_ctl_fields:
  "get_agent_state (sample_ctl x b n) = x" "c_sid (me (sample_ctl x b n)) = Some ''s''" "c_store (me (sample_ctl x b n))"
  "c_user (me (sample_ctl x b n)) = None" "c_pending (me (sample_ctl x b n)) = None" "below (sample_ctl x b n) = []"
  "c_confirmation (me (sample_ctl x b n)) = b" "confirmation_mode (my_state (sample_ctl x b n)) = b"
  "iteration_flag (shr (sample_ctl x b n)) = new_flag n 0 n" "budget_flag (shr (sample_ctl x b n)) = None"
  "c_callback (me (sample_ctl x b n)) = False"
  by (simp_all add: sample_ctl_def new_frame_def set_initial_state_def get_agent_state_def Let_def)

theorem state_change_is_saved_witness:
  "let c' = fst (set_agent_state_to sample_agents RUNNING (sample_ctl AWAITING_USER_INPUT True 2))
   in get_agent_state c' = RUNNING \<and>
      restore_from_session ''s'' (files (strm c')) None =
        Inr ((my_state c')\<lparr>has_stats := False, history := [], history_checksum := None, cached_view := None,
               resume_state := Some RUNNING, agent_state := LOADING\<rparr>, shr c')"
  using state_change_is_saved[of sample_agents RUNNING "sample_ctl AWAITING_USER_INPUT True 2" _ "''s''"] sample_set_state
  by (cases "set_agent_state_to sample_agents RUNNING (sample_ctl AWAITING_USER_INPUT True 2)")
    (simp add: sample_ctl_fields RESUMABLE_STATES_def)


lemma broken_step: "\<exists>c1. ctl_step (broken_agents ''Timeout'') (sample_ctl RUNNING False 2) = (c1, Inl (mk_exn ''Timeout'' ''no answer'')) \<and> \<not> c_callback (me c1)"
proof -
  let ?c = "sample_ctl RUNNING False 2"
  have "snd (ctl_step (broken_agents ''Timeout'') ?c) = Inl (mk_exn ''Timeout'' ''no answer'')" by code_simp
  moreover have "c_callback (me (fst (ctl_step (broken_agents ''Timeout'') ?c))) = False" by code_simp
  ultimately show ?thesis by (cases "ctl_step (broken_agents ''Timeout'') ?c") auto
qed


lemma runtime_error_plain: "\<not> rate_limited (exn_of (RuntimeError s))" "runtime_status (exn_of (RuntimeError s)) = ''STATUS$ERROR''"
  by (simp_all add: rate_limited_def runtime_status_def isinstance_exn_def mk_exn_def)

lemma run_control_flags_raises:
  "snd (run_control_flags sh) =
     (if at_limit (iteration_flag sh) then Some (RuntimeError (iteration_limit_message (iteration_flag sh)))
      else case budget_flag sh of
             Some b \<Rightarrow> if at_limit b then Some (RuntimeError (budget_limit_message b)) else None
           | None \<Rightarrow> None)"
  by (auto simp: run_control_flags_def iteration_step_def iteration_reached_limit_def budget_step_def
      budget_reached_limit_def iteration_limit_message_def budget_limit_message_def Let_def split: prod.split option.split)

lemma sync_iteration [simp]: "iteration_flag (synced c) = iteration_flag (shr c)"
  by (simp add: synced_def sync_budget_flag_with_metrics_def)

lemma stuck_run:
  "\<exists>m ds. is_stuck_controller c = (c\<lparr>me := m, below := ds\<rparr>, Inr (snd (snd (any_stuck (me c) (below c)))))"
  by (cases "any_stuck (me c) (below c)") (auto simp: is_stuck_controller_def simp del: any_stuck.simps)

lemma step_not_stuck:
  assumes "get_agent_state c = RUNNING" "c_pending (me c) = None" "\<not> found_stuck A c"
  shows "\<exists>m ds. ctl_step A c =
    bnd run_flags (\<lambda>err. case err of
        Some x \<Rightarrow> react_to_exception A (exn_of x)
      | None \<Rightarrow> bnd (next_action A) (\<lambda>r. case r of None \<Rightarrow> ret () | Some a \<Rightarrow> perform_action A a))
      (c\<lparr>shr := synced c, me := m, below := ds\<rparr>)"
proof (cases "enable_stuck_detection A (c_agent (me c))")
  case True
  obtain m ds where s: "is_stuck_controller (c\<lparr>shr := synced c\<rparr>) = (c\<lparr>shr := synced c, me := m, below := ds\<rparr>, Inr False)"
    using stuck_run[of "c\<lparr>shr := synced c\<rparr>"] assms(3) True by (auto simp: found_stuck_def simp del: any_stuck.simps)
  then show ?thesis
    using True assms by (auto simp: ctl_step_def synced_def[symmetric] bnd_run[of is_stuck_controller])
next
  case False
  then show ?thesis using assms by (intro exI[of _ "me c"] exI[of _ "below c"]) (simp add: ctl_step_def synced_def)
qed

text \<open>
  At a limit the agent is not asked and the step ends in the error state with the message of the
  limit: for the iteration limit when the iterations are used up, for the budget limit when the
  cost of all services, as the statistics count it, has reached the budget.
\<close>

theorem limits_stop_the_agent:
  assumes "get_agent_state c = RUNNING" and "c_pending (me c) = None" and "\<not> found_stuck A c"
    and "at_limit (iteration_flag (shr c)) \<or> (\<exists>b. budget_flag (synced c) = Some b \<and> at_limit b)"
  shows "get_agent_state (fst (ctl_step A c)) = ERROR \<and>
    last_error (my_state (fst (ctl_step A c))) = ''RuntimeError: '' @
      (if at_limit (iteration_flag (shr c)) then iteration_limit_message (iteration_flag (shr c))
       else budget_limit_message (the (budget_flag (synced c))))"
proof -
  define msg where "msg = (if at_limit (iteration_flag (shr c)) then iteration_limit_message (iteration_flag (shr c))
       else budget_limit_message (the (budget_flag (synced c))))"
  have err: "snd (run_control_flags (synced c)) = Some (RuntimeError msg)"
    using assms(4) by (auto simp: run_control_flags_raises msg_def)
  obtain m ds where st: "ctl_step A c =
    bnd run_flags (\<lambda>err. case err of
        Some x \<Rightarrow> react_to_exception A (exn_of x)
      | None \<Rightarrow> bnd (next_action A) (\<lambda>r. case r of None \<Rightarrow> ret () | Some a \<Rightarrow> perform_action A a))
      (c\<lparr>shr := synced c, me := m, below := ds\<rparr>)" using step_not_stuck[OF assms(1-3)] by blast
  obtain c2 where "ctl_step A c = react_to_exception A (exn_of (RuntimeError msg)) c2"
    using err unfolding st by (cases "run_control_flags (synced c)") (auto simp: bnd_run run_flags_def)
  then show ?thesis
    using react_state[of A "exn_of (RuntimeError msg)" c2] react_error[OF runtime_error_plain, of A msg c2] runtime_error_plain
    by (simp add: retrying_def mk_exn_def msg_def)
qed

theorem limits_stop_the_agent_witness:
  "last_error (my_state (fst (ctl_step sample_agents (sample_ctl RUNNING True 0)))) =
     ''RuntimeError: Agent reached maximum iteration. Current iteration: 0, max iteration: 0''"
proof -
  let ?c = "sample_ctl RUNNING True 0"
  have s: "\<not> found_stuck sample_agents ?c" by code_simp
  have m: "iteration_limit_message (iteration_flag (shr ?c)) = ''Agent reached maximum iteration. Current iteration: 0, max iteration: 0''"
    by code_simp
  have l: "at_limit (iteration_flag (shr ?c))" unfolding sample_ctl_fields by (simp add: new_flag_def)
  have "last_error (my_state (fst (ctl_step sample_agents ?c))) = ''RuntimeError: '' @ iteration_limit_message (iteration_flag (shr ?c))"
    using limits_stop_the_agent[OF sample_ctl_fields(1,5) s] l by simp
  then show ?thesis unfolding m by simp
qed

lemma same_publish:
  "publish (A\<lparr>agent_step := f\<rparr>) = publish A" "publish_pending (A\<lparr>agent_step := f\<rparr>) = publish_pending A"
  by (simp_all add: fun_eq_iff publish_def publish_pending_def)

lemma same_agents:
  "reset_controller (A\<lparr>agent_step := f\<rparr>) = reset_controller A"
  "answer_pending (A\<lparr>agent_step := f\<rparr>) = answer_pending A"
  unfolding reset_controller_def answer_pending_def same_publish by simp_all

lemma same_react:
  "set_agent_state_to (A\<lparr>agent_step := f\<rparr>) = set_agent_state_to A"
  "react_to_exception (A\<lparr>agent_step := f\<rparr>) = react_to_exception A"
proof -
  show s: "set_agent_state_to (A\<lparr>agent_step := f\<rparr>) = set_agent_state_to A"
    unfolding set_agent_state_to_def same_agents same_publish ..
  show "react_to_exception (A\<lparr>agent_step := f\<rparr>) = react_to_exception A"
    unfolding react_to_exception_def s ..
qed

text \<open>
  C6: The agent is only asked for an action when the controller is running, no action is pending, no
  loop was found and no limit is reached: otherwise the step is the same whatever the agent would do.
\<close>

theorem agent_asked_only_when_ready:
  assumes "get_agent_state c \<noteq> RUNNING \<or> c_pending (me c) \<noteq> None \<or> found_stuck A c \<or>
    at_limit (iteration_flag (shr c)) \<or> (\<exists>b. budget_flag (synced c) = Some b \<and> at_limit b)"
  shows "ctl_step (A\<lparr>agent_step := f\<rparr>) c = ctl_step A c"
proof -
  consider "get_agent_state c \<noteq> RUNNING \<or> c_pending (me c) \<noteq> None"
    | "get_agent_state c = RUNNING" "c_pending (me c) = None" "found_stuck A c"
    | "get_agent_state c = RUNNING" "c_pending (me c) = None" "\<not> found_stuck A c"
      "at_limit (iteration_flag (shr c)) \<or> (\<exists>b. budget_flag (synced c) = Some b \<and> at_limit b)"
    using assms by blast
  then show ?thesis
  proof cases
    case 1
    then show ?thesis by (auto simp: ctl_step_def)
  next
    case 2
    then show ?thesis using stuck_run[of "c\<lparr>shr := synced c\<rparr>"]
      by (auto simp: ctl_step_def found_stuck_def synced_def[symmetric] bnd_run[of is_stuck_controller] same_react simp del: any_stuck.simps)
  next
    case 3
    have "snd (run_control_flags (synced c)) \<noteq> None" using 3(4) by (auto simp: run_control_flags_raises)
    then obtain err where err: "snd (run_control_flags (synced c)) = Some err" by blast
    let ?k = "\<lambda>A err. case err of
        Some x \<Rightarrow> react_to_exception A (exn_of x)
      | None \<Rightarrow> bnd (next_action A) (\<lambda>r. case r of None \<Rightarrow> ret () | Some a \<Rightarrow> perform_action A a)"
    have eq: "bnd run_flags (?k (A\<lparr>agent_step := f\<rparr>)) (c\<lparr>shr := synced c, me := m, below := ds\<rparr>) =
          bnd run_flags (?k A) (c\<lparr>shr := synced c, me := m, below := ds\<rparr>)" for m ds
      using err by (cases "run_control_flags (synced c)") (simp add: bnd_run run_flags_def same_react)
    have "\<not> found_stuck (A\<lparr>agent_step := f\<rparr>) c" using 3(3) by (simp add: found_stuck_def)
    show ?thesis
    proof (cases "enable_stuck_detection A (c_agent (me c))")
      case True
      obtain m ds where "is_stuck_controller (c\<lparr>shr := synced c\<rparr>) = (c\<lparr>shr := synced c, me := m, below := ds\<rparr>, Inr False)"
        using stuck_run[of "c\<lparr>shr := synced c\<rparr>"] 3(3) True by (auto simp: found_stuck_def simp del: any_stuck.simps)
      then show ?thesis using True 3(1,2) eq[of ds m]
        by (simp add: ctl_step_def synced_def[symmetric] bnd_run[of is_stuck_controller])
    next
      case False
      then show ?thesis using 3(1,2) eq[of "below c" "me c"] by (simp add: ctl_step_def synced_def[symmetric])
    qed
  qed
qed

theorem agent_asked_only_when_ready_witness:
  "ctl_step (sample_agents\<lparr>agent_step := \<lambda>a st cs. (a, fst st, cs, Inr None)\<rparr>) (sample_ctl RUNNING True 0) = ctl_step sample_agents (sample_ctl RUNNING True 0)"
  by (rule agent_asked_only_when_ready) (simp add: sample_ctl_fields, simp add: new_flag_def)

subsection \<open>Confirmation\<close>

lemma attr_underscore [simp]:
  "attr (e\<lparr>ev_id := i\<rparr>) k = attr e k" "attr (e\<lparr>ev_timestamp := ts\<rparr>) k = attr e k" "attr (e\<lparr>ev_source := src\<rparr>) k = attr e k"
  "attr (e\<lparr>ev_llm_metrics := mt\<rparr>) k = attr e k"
  by (simp_all add: attr_def split: option.split)

lemma setattr_class [simp]: "ev_class (setattr k v e) = ev_class e" "attr (setattr k v e) k = Some v"
  by (simp_all add: setattr_def attr_def split: option.splits)

lemma add_event_object:
  "add_event now e src s = (s', e', err) \<Longrightarrow> attr e' k = attr e k \<and> ev_class e' = ev_class e"
  by (auto simp: add_event_def Let_def split: if_splits sum.splits)

lemma publish_pending_object:
  "\<exists>p. c_pending (me (fst (publish_pending A e src c))) = Some p \<and> (\<forall>k. attr p k = attr e k) \<and> ev_class p = ev_class e"
  using add_event_object[of _ e src "strm c"] by (auto simp: publish_pending_def split: prod.split)

lemma analyzed:
  "ev_class (handle_security_analyzer A a) = ev_class a"
  by (auto simp: handle_security_analyzer_def split: option.split sum.split)

lemma check_risky:
  assumes "runnable a" "confirmable a" "confirmation_mode (c_state m)" "c_confirmation m" "risky A a"
  shows "is_awaiting (check_confirmation A m a)" "ev_class (check_confirmation A m a) = ev_class a"
  using assms
  by (auto simp: check_confirmation_def is_awaiting_def awaiting_def risky_def handle_security_analyzer_def Let_def split: option.split)

lemma prepared:
  assumes "prepare_metrics_for_frontend c a = Inr a'"
  shows "\<exists>mt. a' = a\<lparr>ev_llm_metrics := mt\<rparr>"
  using assms by (auto simp: prepare_metrics_for_frontend_def Let_def split: sum.splits)

lemma perform_runnable:
  assumes "runnable (check_confirmation A (me c) a)" "is_awaiting (check_confirmation A (me c) a)"
    "\<not> is_a (check_confirmation A (me c) a) NullAction"
  defines "c2 \<equiv> fst (set_agent_state_to A AWAITING_USER_CONFIRMATION (c\<lparr>me := (me c)\<lparr>c_pending := Some (check_confirmation A (me c) a)\<rparr>\<rparr>))"
  shows "fst (perform_action A a c) = c2 \<or>
    (\<exists>mt src. fst (perform_action A a c) = fst (publish_pending A ((check_confirmation A (me c) a)\<lparr>ev_llm_metrics := mt\<rparr>) src c2))"
proof -
  let ?a = "check_confirmation A (me c) a"
  have "perform_action A a c =
     seqm (set_agent_state_to A AWAITING_USER_CONFIRMATION) (
         bnd (asks (\<lambda>c. prepare_metrics_for_frontend c ?a)) (\<lambda>r.
         bnd (from_res r) (\<lambda>a'.
           case ev_source a' of
             None \<Rightarrow> raise_exn (exn_of (AttributeError ''object has no attribute _source''))
           | Some src \<Rightarrow> (if runnable a' then publish_pending A a' src else seqm (publish A a' src) (ret ())))))
       (c\<lparr>me := (me c)\<lparr>c_pending := Some ?a\<rparr>\<rparr>)"
    using assms(1-3) by (simp add: perform_action_def)
  then show ?thesis
    using assms(1) prepared[of c2 ?a]
    by (cases "prepare_metrics_for_frontend c2 ?a")
      (auto simp: seqm_run c2_def[symmetric] from_res_def bnd_run runnable_def split: sum.split option.split)
qed

lemma perform_awaiting:
  assumes "runnable (check_confirmation A (me c) a)" "is_awaiting (check_confirmation A (me c) a)"
    "\<not> is_a (check_confirmation A (me c) a) NullAction"
  shows "get_agent_state (fst (perform_action A a c)) = AWAITING_USER_CONFIRMATION"
    "\<exists>p. c_pending (me (fst (perform_action A a c))) = Some p \<and> is_awaiting p \<and> ev_class p = ev_class (check_confirmation A (me c) a)"
proof -
  let ?a = "check_confirmation A (me c) a"
  let ?c1 = "c\<lparr>me := (me c)\<lparr>c_pending := Some ?a\<rparr>\<rparr>"
  let ?c2 = "fst (set_agent_state_to A AWAITING_USER_CONFIRMATION ?c1)"
  have s: "get_agent_state (fst (publish_pending A e src c')) = get_agent_state c'" for e src c'
    using keepsD[OF publish_pending_keeps, of get_agent_state A e src c'] by (simp add: get_agent_state_def)
  have p: "c_pending (me ?c2) = Some ?a" using set_state_pending[of AWAITING_USER_CONFIRMATION A ?c1] by simp
  show "get_agent_state (fst (perform_action A a c)) = AWAITING_USER_CONFIRMATION"
    using perform_runnable[OF assms] by (auto simp: s)
  show "\<exists>p. c_pending (me (fst (perform_action A a c))) = Some p \<and> is_awaiting p \<and> ev_class p = ev_class ?a"
  proof (cases "fst (perform_action A a c) = ?c2")
    case True
    then show ?thesis using p assms(2) by simp
  next
    case False
    then obtain mt src where q: "fst (perform_action A a c) = fst (publish_pending A (?a\<lparr>ev_llm_metrics := mt\<rparr>) src ?c2)"
      using perform_runnable[OF assms] by blast
    then show ?thesis using publish_pending_object[of A "?a\<lparr>ev_llm_metrics := mt\<rparr>" src ?c2] assms(2)
      by (auto simp: is_awaiting_def)
  qed
qed



text \<open>
  The user's answer to a pending action: it is published again under a new id from the agent,
  with the answer in its confirmation state and without its thought, and stays pending under that id,
  which is the id the observation of its execution will refer to.
\<close>

theorem answer_is_published:
  assumes "set_agent_state_to A new c = (c', Inr ())" and "new = USER_CONFIRMED \<or> new = USER_REJECTED"
    and "new \<noteq> get_agent_state c" and "c_pending (me c) = Some p"
  shows "\<exists>p'. c_pending (me c') = Some p' \<and> eid p' = snd (cur_id (strm c)) \<and> ev_source p' = Some AGENT \<and>
    ev_class p' = ev_class p \<and>
    attr p' ''confirmation_state'' = Some (PStr (if new = USER_CONFIRMED then ''confirmed'' else ''rejected'')) \<and>
    (hasattr p ''thought'' \<longrightarrow> attr p' ''thought'' = Some (PStr []))"
proof -
  let ?c1 = "c\<lparr>me := (me c)\<lparr>c_state := (my_state c)\<lparr>agent_state := new\<rparr>\<rparr>\<rparr>"
  have nst: "new \<noteq> STOPPED" "new \<noteq> ERROR" "new \<noteq> RUNNING" using assms(2) by auto
  obtain s e' err where ad: "add_event (clock A (ticks c)) (confirmed new p) AGENT (strm c) = (s, e', err)"
    by (cases "add_event (clock A (ticks c)) (confirmed new p) AGENT (strm c)")
  define c2 where "c2 = ?c1\<lparr>strm := s, ticks := ticks c + 1, me := (me ?c1)\<lparr>c_pending := Some e'\<rparr>\<rparr>"
  have an: "answer_pending A new ?c1 = (c2, case err of None \<Rightarrow> Inr () | Some x \<Rightarrow> Inl (exn_of x))"
    using assms(2,4) ad by (auto simp: answer_pending_def publish_pending_def c2_def)
  have run: "set_agent_state_to A new c =
     seqm (answer_pending A new) (seqm (publish A (state_changed new []) ENVIRONMENT) save_controller) ?c1"
    using assms(3) nst by (simp add: set_agent_state_to_def seqm_run[of "answer_pending A new"] split: sum.split)
  have err: "err = None" using assms(1) unfolding run by (auto simp: seqm_ok an split: option.splits)
  have "keeps me (seqm (publish A (state_changed new []) ENVIRONMENT) save_controller)"
    by (intro keeps_seqm keeps_publish save_keeps) simp
  from keepsD[OF this, of c2] have "me c' = me c2"
    using assms(1) unfolding run by (simp add: seqm_run[of "answer_pending A new"] an err)
  moreover have "e' = (confirmed new p)\<lparr>ev_timestamp := Some (clock A (ticks c)), ev_source := Some AGENT, ev_id := Some (snd (cur_id (strm c)))\<rparr>"
    using ad[unfolded err] by (elim add_event_cases)
  moreover have "attr (setattr k v e) k' = (if k' = k then Some v else attr e k')" for k k' v e
    by (auto simp: setattr_def attr_def split: option.splits)
  ultimately show ?thesis by (auto simp: c2_def confirmed_def Let_def eid_def)
qed

theorem answer_is_published_witness:
  "\<exists>p'. c_pending (me (fst (set_agent_state_to sample_agents USER_CONFIRMED
          ((sample_ctl AWAITING_USER_CONFIRMATION True 2)\<lparr>me := (me (sample_ctl AWAITING_USER_CONFIRMATION True 2))\<lparr>c_pending := Some sample_cmd\<rparr>\<rparr>)))) = Some p' \<and>
     eid p' = 0 \<and> attr p' ''confirmation_state'' = Some (PStr ''confirmed'')"
proof -
  let ?c0 = "sample_ctl AWAITING_USER_CONFIRMATION True 2"
  let ?c = "?c0\<lparr>me := (me ?c0)\<lparr>c_pending := Some sample_cmd\<rparr>\<rparr>"
  have "snd (set_agent_state_to sample_agents USER_CONFIRMED ?c) = Inr ()" by code_simp
  then have "set_agent_state_to sample_agents USER_CONFIRMED ?c = (fst (set_agent_state_to sample_agents USER_CONFIRMED ?c), Inr ())"
    by (simp add: prod_eq_iff)
  moreover have "get_agent_state ?c = AWAITING_USER_CONFIRMATION" using sample_ctl_fields(1) by (simp add: get_agent_state_def)
  moreover have "snd (cur_id (strm ?c)) = 0" using sample_sealed(2) by (simp add: cur_id_def)
  ultimately show ?thesis using answer_is_published[of sample_agents USER_CONFIRMED ?c _ sample_cmd] by auto
qed

lemma observed_pending:
  assumes "c_pending (me c) = Some p"
  shows "let c' = fst (handle_observation A obs c);
         answered = (ev_cause obs = Some (eid p) \<and> get_agent_state c \<noteq> AWAITING_USER_CONFIRMATION)
     in (\<not> answered \<longrightarrow> c' = c) \<and>
        (answered \<longrightarrow> c_pending (me c') = None \<and>
           get_agent_state c' =
             (case get_agent_state c of USER_CONFIRMED \<Rightarrow> RUNNING | USER_REJECTED \<Rightarrow> AWAITING_USER_INPUT | s \<Rightarrow> s))"
proof -
  let ?c1 = "c\<lparr>me := (me c)\<lparr>c_pending := None\<rparr>\<rparr>"
  have g: "get_agent_state ?c1 = get_agent_state c" by (simp add: get_agent_state_def)
  have p: "c_pending (me (fst (set_agent_state_to A x d))) = c_pending (me d)" if "x = RUNNING \<or> x = AWAITING_USER_INPUT" for x d
    using that by (intro set_state_pending) auto
  show ?thesis
    using assms
    by (cases "get_agent_state c")
      (auto simp: handle_observation_def Let_def seqm_run bnd_run whenm_if g p split: sum.split)
qed

text \<open>
  C37: A pending action is cleared exactly by an observation that refers to its id, and not while the user
  is being asked; then a confirmed action sets the agent running again and a rejected one makes it
  wait for input.  Other observations change nothing, and neither do observations when nothing is pending.
\<close>
theorem observation_answers_the_pending_action:
  assumes "c_pending (me c) = Some p"
  shows "let c' = fst (handle_observation A obs c);
         answered = (ev_cause obs = Some (eid p) \<and> get_agent_state c \<noteq> AWAITING_USER_CONFIRMATION)
     in (\<not> answered \<longrightarrow> c' = c) \<and>
        (answered \<longrightarrow> c_pending (me c') = None \<and>
           get_agent_state c' =
             (case get_agent_state c of USER_CONFIRMED \<Rightarrow> RUNNING | USER_REJECTED \<Rightarrow> AWAITING_USER_INPUT | s \<Rightarrow> s))"
  by (rule observed_pending[OF assms])

theorem observation_answers_the_pending_action_witness:
  "c_pending (me (fst (handle_observation sample_agents ((error_observation [] [])\<lparr>ev_cause := Some 0\<rparr>)
     ((sample_ctl RUNNING True 2)\<lparr>me := (me (sample_ctl RUNNING True 2))\<lparr>c_pending := Some (sample_cmd\<lparr>ev_id := Some 0\<rparr>)\<rparr>\<rparr>)))) = None"
  using observation_answers_the_pending_action[of
    "(sample_ctl RUNNING True 2)\<lparr>me := (me (sample_ctl RUNNING True 2))\<lparr>c_pending := Some (sample_cmd\<lparr>ev_id := Some 0\<rparr>)\<rparr>\<rparr>"
    "sample_cmd\<lparr>ev_id := Some 0\<rparr>" sample_agents "(error_observation [] [])\<lparr>ev_cause := Some 0\<rparr>"]
    sample_ctl_fields(1)[of RUNNING True 2]
  by (simp add: Let_def eid_def get_agent_state_def)

subsection \<open>Delegates\<close>

lemma sample_awaits: "is_awaiting (check_confirmation sample_agents (me (sample_ctl RUNNING True 2)) sample_cmd)"
  by code_simp

lemma load_history_frame:
  "confirmation_mode (my_state (fst (load_history c))) = confirmation_mode (my_state c)"
  "c_confirmation (me (fst (load_history c))) = c_confirmation (me c)"
  by (auto simp: load_history_def init_history_def Let_def split: prod.split option.split)

lemma system_message_keeps: "keeps me (add_system_message A)"
  unfolding add_system_message_def
  by (intro keeps_bnd first_event_keeps) (auto intro!: keeps_bnd keeps_whenm keeps_seqm keeps_publish split: option.split)

lemma set_up_delegate:
  assumes "c_is_delegate (me c)"
  shows "confirmation_mode (my_state (fst (set_up A c))) = confirmation_mode (my_state c)"
    "c_confirmation (me (fst (set_up A c))) = c_confirmation (me c)"
  using assms
  by (simp_all add: set_up_def seqm_run keepsD[OF system_message_keeps] load_history_frame split: sum.split)

text \<open>
  A delegate does not ask for confirmation, whatever the settings of its parent: when a delegate has
  been started, its confirmation check lets every action through unmarked, so even an action of high
  risk of an agent in confirmation mode is executed at once when a delegate takes it.
\<close>

theorem delegates_skip_confirmation:
  assumes "start_delegate A action c = (c', Inr ())"
  shows "\<exists>d. below c' = [d] \<and> \<not> c_confirmation d \<and> (\<forall>a. check_confirmation A d a = a)"
proof -
  obtain cs ag where mk: "agent_make A (str_attr action ''agent'') (c_agent (me c)) (stats c) = (cs, Inr ag)"
    using assms by (auto simp: start_delegate_def split: prod.splits sum.splits)
  obtain s latest where lt: "get_latest_event_id (strm c) = (s, latest)" by fastforce
  define c1 where "c1 = c\<lparr>stats := cs, strm := s, me := delegate_frame ag action (sid s) latest c, below := []\<rparr>"
  obtain c2 x where su: "set_up A c1 = (c2, Inr x)" "c' = c2\<lparr>me := me c, below := [me c2]\<rparr>"
    using assms unfolding start_delegate_def mk lt c1_def by (auto split: prod.splits sum.splits)
  have f: "c_is_delegate (me c1)" "\<not> confirmation_mode (my_state c1)" "\<not> c_confirmation (me c1)"
    by (simp_all add: c1_def delegate_frame_def new_frame_def set_initial_state_def new_state_def Let_def)
  have "\<not> confirmation_mode (my_state c2)" "\<not> c_confirmation (me c2)"
    using set_up_delegate[OF f(1), of A] f su(1) by simp_all
  then show ?thesis using su(2) by (simp add: check_confirmation_def)
qed

theorem delegates_skip_confirmation_witness:
  "\<exists>d. below (fst (start_delegate sample_agents sample_delegate_action (sample_ctl RUNNING True 2))) = [d] \<and>
     check_confirmation sample_agents d sample_cmd = sample_cmd \<and>
     is_awaiting (check_confirmation sample_agents (me (sample_ctl RUNNING True 2)) sample_cmd)"
proof -
  let ?r = "start_delegate sample_agents sample_delegate_action (sample_ctl RUNNING True 2)"
  have "snd ?r = Inr ()" by code_simp
  then have "?r = (fst ?r, Inr ())" by (simp add: prod_eq_iff)
  from delegates_skip_confirmation[OF this] show ?thesis
    by (auto simp: sample_awaits)
qed

lemma keeps_below_set_state: "keeps below (set_agent_state_to A new)"
  by (simp add: keeps_def set_state_frame)

lemma keeps_below_message: "keeps below (handle_message_action A a)"
  unfolding handle_message_action_def first_user_message_def Let_def
  by (auto intro!: keeps_bnd keeps_seqm keeps_whenm keeps_upd keeps_publish first_event_keeps keeps_below_set_state split: option.split)

lemma keeps_below_recovery: "keeps below (perform_loop_recovery A an)"
  unfolding perform_loop_recovery_def
  by (auto intro!: keeps_bnd keeps_seqm keeps_upd keeps_publish keeps_below_set_state)

lemma keeps_below_restart: "keeps below (restart_with_last_user_message A an)"
  unfolding restart_with_last_user_message_def
  by (auto intro!: keeps_bnd keeps_seqm keeps_upd keeps_publish keeps_below_set_state keeps_below_recovery keeps_below_message split: option.split)

lemma keeps_below_loop_action: "keeps below (handle_loop_recovery_action A a)"
  unfolding handle_loop_recovery_action_def
  by (auto intro!: keeps_bnd keeps_whenm keeps_below_set_state keeps_below_recovery keeps_below_restart split: option.split)

lemma keeps_below_action: "\<not> is_a a AgentDelegateAction \<Longrightarrow> keeps below (handle_action A a)"
  unfolding handle_action_def
  by (auto intro!: keeps_seqm keeps_upd keeps_below_set_state keeps_below_message keeps_below_loop_action)

lemma keeps_below_observation: "keeps below (handle_observation A e)"
  unfolding handle_observation_def
  by (auto intro!: keeps_bnd keeps_seqm keeps_whenm keeps_upd keeps_below_set_state split: option.split)

lemma on_event_self_below:
  assumes "below c \<noteq> []" "\<not> is_a e AgentDelegateAction"
  shows "below (fst (on_event_self A e c)) = below c"
proof (cases "truthy (attr e ''hidden'')")
  case False
  let ?h = "if is_action e then handle_action A e else if is_observation e then handle_observation A e else ret ()"
  have h: "keeps below ?h" using assms(2) keeps_below_action keeps_below_observation by auto
  define st where "st = (if visible e then (my_state c)\<lparr>history := history (my_state c) @ [e]\<rparr> else my_state c)"
  have "on_event_self A e c = seqm ?h (bnd (asks (\<lambda>c. should_step c e)) (\<lambda>b. whenm b (step_with_exception_handling A)))
                  (c\<lparr>me := (me c)\<lparr>c_state := st\<rparr>\<rparr>)"
    using False by (simp add: on_event_self_def add_history_eq st_def[symmetric] from_res_def)
  moreover have "below (fst (seqm ?h (bnd (asks (\<lambda>c. should_step c e)) (\<lambda>b. whenm b (step_with_exception_handling A))) d)) = below d"
    if "below d \<noteq> []" for d
    using keepsD[OF h, of d] that by (auto simp: seqm_run should_step_def split: sum.split)
  ultimately show ?thesis using assms(1) by simp
qed (simp add: on_event_self_def)

text \<open>
  A delegate of a delegate never gets an event: the controller hands an event to its delegate, which
  handles it itself and takes no step while it has a delegate of its own, so the frames further down are
  unchanged by every event (unless the event starts a new delegate in their place), and the
  conversation stays with a delegate that never acts.
\<close>

theorem nested_delegates_get_no_events:
  assumes "below c = d # d' # ds" and "delegate_active d" and "\<not> is_a e AgentDelegateAction"
  shows "tl (below (fst (on_event A e c))) = d' # ds"
proof -
  let ?c = "c\<lparr>me := d, below := d' # ds\<rparr>"
  have "below (fst (on_event_self A e ?c)) = d' # ds" using on_event_self_below[of ?c e A] assms(3) by simp
  then show ?thesis
    using assms(1,2) by (cases "on_event_self A e ?c") (simp add: on_event_def on_delegate_def)
qed

theorem nested_delegates_get_no_events_witness:
  "let m = me (sample_ctl RUNNING True 2)
   in tl (below (fst (on_event sample_agents (message_action ''go on'') ((sample_ctl RUNNING True 2)\<lparr>below := [m, m]\<rparr>)))) = [m]"
  using nested_delegates_get_no_events[of "(sample_ctl RUNNING True 2)\<lparr>below := [me (sample_ctl RUNNING True 2), me (sample_ctl RUNNING True 2)]\<rparr>"]
    sample_ctl_fields(1)[of RUNNING True 2]
  by (simp add: delegate_active_def message_action_def blank_def Let_def get_agent_state_def)

lemma contains_prefix: "contains p (p @ r)"
proof (cases "p @ r")
  case (Cons a l)
  have "startswith (p @ r) p" by (auto simp: startswith_iff)
  then show ?thesis unfolding Cons by simp
qed simp

lemma contains_once:
  assumes "R \<notin> set t"
  shows "contains (R # p) (R # t) \<longleftrightarrow> startswith t p"
proof -
  have no: "\<not> contains (R # p) t" using assms by (induction t) (auto simp: startswith_iff)
  show ?thesis by (simp add: no) (auto simp: startswith_iff)
qed

lemma fmt2_chars: "CHR ''R'' \<notin> set (fmt2 x)"
proof -
  have d: "digit_char n \<noteq> CHR ''R''" if "n < 10" for n
    using digit_char_props(1)[OF that] by (auto simp: is_digit_def)
  have "CHR ''R'' \<notin> set (str_of_nat n)" for n using str_of_nat_digits d by fastforce
  moreover have "CHR ''R'' \<noteq> digit_char (n mod 10)" for n using d[of "n mod 10"] by (metis mod_less_divisor zero_less_numeral)
  ultimately show ?thesis by (simp add: fmt2_def Let_def)
qed

text \<open>
  A delegate in the error state is kept when it stopped at the iteration limit, but ended when it
  stopped at the budget limit: the test for the second message lacks the space that the stored
  message has.
\<close>

theorem budget_limit_ends_delegate:
  assumes "agent_state (c_state d) = ERROR"
  shows "(last_error (c_state d) = ''RuntimeError: '' @ iteration_limit_message f \<longrightarrow> delegate_active d) \<and>
    (last_error (c_state d) = ''RuntimeError: '' @ budget_limit_message b \<longrightarrow> \<not> delegate_active d)"
proof -
  have it: "contains ''RuntimeError: Agent reached maximum iteration.'' (''RuntimeError: '' @ iteration_limit_message f)"
    using contains_prefix[of "''RuntimeError: Agent reached maximum iteration.''" "'' Current iteration: '' @ str_of_int (current_value f)
       @ '', max iteration: '' @ str_of_int (max_value f)"]
    by (simp only: iteration_limit_message_def append.simps append_assoc)
  define r where "r = ''untimeError: Agent reached maximum budget for conversation.Current budget: '' @ fmt2 (current_value b)
       @ '', max budget: '' @ fmt2 (max_value b)"
  have "CHR ''R'' \<notin> set r" using fmt2_chars by (simp add: r_def)
  note once = contains_once[OF this]
  have m: "''RuntimeError: '' @ budget_limit_message b = CHR ''R'' # r" by (simp add: budget_limit_message_def r_def)
  have "\<not> contains ''RuntimeError: Agent reached maximum iteration.'' (CHR ''R'' # r)"
    "\<not> contains ''RuntimeError:Agent reached maximum budget for conversation'' (CHR ''R'' # r)"
    unfolding once by (simp_all add: r_def startswith_iff)
  then show ?thesis using it assms unfolding m by (auto simp: delegate_active_def)
qed

theorem budget_limit_ends_delegate_witness:
  "delegate_active (ended_at (iteration_limit_message (new_flag 2 2 2))) \<and>
   \<not> delegate_active (ended_at (budget_limit_message (new_flag 2 2 2)))"
proof -
  have "agent_state (c_state (ended_at x)) = ERROR" "last_error (c_state (ended_at x)) = ''RuntimeError: '' @ x" for x
    using sample_ctl_fields(1)[of ERROR True 2] by (simp_all add: ended_at_def Let_def get_agent_state_def)
  then show ?thesis using budget_limit_ends_delegate by blast
qed

end
