(* ===== verification/Tool_Examples.thy ===== *)
theory Tool_Examples
  imports Event_Classes
begin

text \<open>
  The in-context examples of \<^verbatim>\<open>TOOL_EXAMPLES\<close> in \<^verbatim>\<open>openhands/llm/fn_call_converter.py\<close>, one definition
  per text, as the source has them (\<^verbatim>\<open>nl\<close> is the line break).
\<close>

definition example_execute_bash_check_dir :: string where
  "example_execute_bash_check_dir =
     nl
      @ ''ASSISTANT: Sure! Let me first check the current directory:'' @ nl
      @ ''<function=execute_bash>'' @ nl
      @ ''<parameter=command>'' @ nl
      @ ''pwd && ls'' @ nl
      @ ''</parameter>'' @ nl
      @ ''</function>'' @ nl @ nl
      @ ''USER: EXECUTION RESULT of [execute_bash]:'' @ nl
      @ ''/workspace'' @ nl
      @ ''openhands@runtime:~/workspace$'' @ nl"

definition example_execute_bash_run_server :: string where
  "example_execute_bash_run_server =
     nl
      @ ''ASSISTANT:'' @ nl
      @ ''Let me run the Python file for you:'' @ nl
      @ ''<function=execute_bash>'' @ nl
      @ ''<parameter=command>'' @ nl
      @ ''python3 app.py > server.log 2>&1 &'' @ nl
      @ ''</parameter>'' @ nl
      @ ''</function>'' @ nl @ nl
      @ ''USER: EXECUTION RESULT of [execute_bash]:'' @ nl
      @ ''[1] 121'' @ nl
      @ ''[1]+  Exit 1                  python3 app.py > server.log 2>&1'' @ nl @ nl
      @ ''ASSISTANT:'' @ nl
      @ ''Looks like the server was running with PID 121 then crashed. Let me check the server log:'' @ nl
      @ ''<function=execute_bash>'' @ nl
      @ ''<parameter=command>'' @ nl
      @ ''cat server.log'' @ nl
      @ ''</parameter>'' @ nl
      @ ''</function>'' @ nl @ nl
      @ ''USER: EXECUTION RESULT of [execute_bash]:'' @ nl
      @ ''Traceback (most recent call last):'' @ nl
      @ ''  File '' @ [CHR 0x22] @ ''/workspace/app.py'' @ [CHR 0x22] @ '', line 2, in <module>'' @ nl
      @ ''    from flask import Flask'' @ nl
      @ ''ModuleNotFoundError: No module named '' @ [CHR 0x27] @ ''flask'' @ [CHR 0x27] @ nl @ nl
      @ ''ASSISTANT:'' @ nl

     @ ''Looks like the server crashed because the `flask` module is not installed. Let me install the `flask` module for you:''
     @ nl
      @ ''<function=execute_bash>'' @ nl
      @ ''<parameter=command>'' @ nl
      @ ''pip3 install flask'' @ nl
      @ ''</parameter>'' @ nl
      @ ''</function>'' @ nl @ nl
      @ ''USER: EXECUTION RESULT of [execute_bash]:'' @ nl
      @ ''Defaulting to user installation because normal site-packages is not writeable'' @ nl
      @ ''Collecting flask'' @ nl
      @ ''  Using cached flask-3.0.3-py3-none-any.whl (101 kB)'' @ nl
      @ ''Collecting blinker>=1.6.2'' @ nl
      @ ''  Using cached blinker-1.7.0-py3-none-any.whl (13 kB)'' @ nl
      @ ''Collecting Werkzeug>=3.0.0'' @ nl
      @ ''  Using cached werkzeug-3.0.2-py3-none-any.whl (226 kB)'' @ nl
      @ ''Collecting click>=8.1.3'' @ nl
      @ ''  Using cached click-8.1.7-py3-none-any.whl (97 kB)'' @ nl
      @ ''Collecting itsdangerous>=2.1.2'' @ nl
      @ ''  Using cached itsdangerous-2.2.0-py3-none-any.whl (16 kB)'' @ nl

     @ ''Requirement already satisfied: Jinja2>=3.1.2 in /home/openhands/.local/lib/python3.10/site-packages (from flask) (3.1.3)''
     @ nl

     @ ''Requirement already satisfied: MarkupSafe>=2.0 in /home/openhands/.local/lib/python3.10/site-packages (from Jinja2>=3.1.2->flask) (2.1.5)''
     @ nl
      @ ''Installing collected packages: Werkzeug, itsdangerous, click, blinker, flask'' @ nl
      @ ''Successfully installed Werkzeug-3.0.2 blinker-1.7.0 click-8.1.7 flask-3.0.3 itsdangerous-2.2.0'' @ nl @ nl
      @ ''ASSISTANT:'' @ nl
      @ ''The `flask` module is installed successfully. Let me run the Python file again:'' @ nl
      @ ''<function=execute_bash>'' @ nl
      @ ''<parameter=command>'' @ nl
      @ ''python3 app.py > server.log 2>&1 &'' @ nl
      @ ''</parameter>'' @ nl
      @ ''</function>'' @ nl @ nl
      @ ''USER: EXECUTION RESULT of [execute_bash]:'' @ nl
      @ ''[1] 124'' @ nl @ nl
      @ ''ASSISTANT:'' @ nl
      @ ''Let me check the server log again:'' @ nl
      @ ''<function=execute_bash>'' @ nl
      @ ''<parameter=command>'' @ nl
      @ ''cat server.log'' @ nl
      @ ''</parameter>'' @ nl
      @ ''</function>'' @ nl @ nl
      @ ''USER: EXECUTION RESULT of [execute_bash]:'' @ nl
      @ ''* Serving Flask app '' @ [CHR 0x27] @ ''app'' @ [CHR 0x27] @ nl
      @ '' * Debug mode: off'' @ nl

     @ ''WARNING: This is a development server. Do not use it in a production deployment. Use a production WSGI server instead.''
     @ nl
      @ '' * Running on http://127.0.0.1:5000'' @ nl
      @ ''Press CTRL+C to quit'' @ nl @ nl
      @ ''ASSISTANT:'' @ nl

     @ ''The server is running on port 5000 with PID 124. You can access the list of numbers by visiting http://127.0.0.1:5000. If you have any further questions, feel free to ask!''
     @ nl"

definition example_execute_bash_kill_server :: string where
  "example_execute_bash_kill_server =
     nl
      @ ''USER: Now kill the server, make it display the numbers in a table format.'' @ nl @ nl
      @ ''ASSISTANT:'' @ nl
      @ ''Sure! Let me stop the server first:'' @ nl
      @ ''<function=execute_bash>'' @ nl
      @ ''<parameter=command>'' @ nl
      @ ''kill 124'' @ nl
      @ ''</parameter>'' @ nl
      @ ''</function>'' @ nl @ nl
      @ ''USER: EXECUTION RESULT of [execute_bash]:'' @ nl
      @ ''[1]+  Terminated              python3 app.py > server.log 2>&1'' @ nl"

definition example_execute_bash_run_server_again :: string where
  "example_execute_bash_run_server_again =
     nl
      @ ''ASSISTANT:'' @ nl
      @ ''Running the updated file:'' @ nl
      @ ''<function=execute_bash>'' @ nl
      @ ''<parameter=command>'' @ nl
      @ ''python3 app.py > server.log 2>&1 &'' @ nl
      @ ''</parameter>'' @ nl
      @ ''</function>'' @ nl @ nl
      @ ''USER: EXECUTION RESULT of [execute_bash]:'' @ nl
      @ ''[1] 126'' @ nl @ nl
      @ ''ASSISTANT:'' @ nl

     @ ''The server is running on port 5000 with PID 126. You can access the list of numbers in a table format by visiting http://127.0.0.1:5000.''
     @ nl"

definition example_str_replace_editor_create_file :: string where
  "example_str_replace_editor_create_file =
     nl
      @ ''ASSISTANT:'' @ nl
      @ ''There is no `app.py` file in the current directory. Let me create a Python file `app.py`:'' @ nl
      @ ''<function=str_replace_editor>'' @ nl
      @ ''<parameter=command>create</parameter>'' @ nl
      @ ''<parameter=path>/workspace/app.py</parameter>'' @ nl
      @ ''<parameter=file_text>'' @ nl
      @ ''from flask import Flask'' @ nl
      @ ''app = Flask(__name__)'' @ nl @ nl
      @ ''@app.route('' @ [CHR 0x27] @ ''/'' @ [CHR 0x27] @ '')'' @ nl
      @ ''def index():'' @ nl
      @ ''    numbers = list(range(1, 11))'' @ nl
      @ ''    return str(numbers)'' @ nl @ nl
      @ ''if __name__ == '' @ [CHR 0x27] @ ''__main__'' @ [CHR 0x27] @ '':'' @ nl
      @ ''    app.run(port=5000)'' @ nl
      @ ''</parameter>'' @ nl
      @ ''</function>'' @ nl @ nl
      @ ''USER: EXECUTION RESULT of [str_replace_editor]:'' @ nl
      @ ''File created successfully at: /workspace/app.py'' @ nl"

definition example_str_replace_editor_edit_file :: string where
  "example_str_replace_editor_edit_file =
     nl
      @ ''ASSISTANT:'' @ nl
      @ ''Now let me display the numbers in a table format:'' @ nl
      @ ''<function=str_replace_editor>'' @ nl
      @ ''<parameter=command>str_replace</parameter>'' @ nl
      @ ''<parameter=path>/workspace/app.py</parameter>'' @ nl
      @ ''<parameter=old_str>return str(numbers)</parameter>'' @ nl
      @ ''<parameter=new_str>return '' @ [CHR 0x27] @ ''<table>'' @ [CHR 0x27] @ '' + '' @ [CHR 0x27] @ [CHR 0x27]
     @ ''.join([f'' @ [CHR 0x27] @ ''<tr><td>{i}</td></tr>'' @ [CHR 0x27] @ '' for i in numbers]) + '' @ [CHR 0x27]
     @ ''</table>'' @ [CHR 0x27] @ ''</parameter>'' @ nl
      @ ''</function>'' @ nl @ nl
      @ ''USER: EXECUTION RESULT of [str_replace_editor]:'' @ nl
      @ ''The file /workspace/app.py has been edited. Here'' @ [CHR 0x27]
     @ ''s the result of running `cat -n` on a snippet of /workspace/app.py:'' @ nl
      @ ''     3'' @ nl
      @ ''     4  @app.route('' @ [CHR 0x27] @ ''/'' @ [CHR 0x27] @ '')'' @ nl
      @ ''     5  def index():'' @ nl
      @ ''     6      numbers = list(range(1, 11))'' @ nl
      @ ''     7      return '' @ [CHR 0x27] @ ''<table>'' @ [CHR 0x27] @ '' + '' @ [CHR 0x27] @ [CHR 0x27]
     @ ''.join([f'' @ [CHR 0x27] @ ''<tr><td>{i}</td></tr>'' @ [CHR 0x27] @ '' for i in numbers]) + '' @ [CHR 0x27]
     @ ''</table>'' @ [CHR 0x27] @ nl
      @ ''     8'' @ nl
      @ ''     9  if __name__ == '' @ [CHR 0x27] @ ''__main__'' @ [CHR 0x27] @ '':'' @ nl
      @ ''    10      app.run(port=5000)'' @ nl
      @ ''Review the changes and make sure they are as expected. Edit the file again if necessary.'' @ nl @ nl"

definition example_browser_view_page :: string where
  "example_browser_view_page =
     nl
      @ ''ASSISTANT:'' @ nl
      @ ''Let me check how the page looks in the browser:'' @ nl
      @ ''<function=browser>'' @ nl
      @ ''<parameter=code>'' @ nl
      @ ''goto('' @ [CHR 0x27] @ ''http://127.0.0.1:5000'' @ [CHR 0x27] @ '')'' @ nl
      @ ''noop(1000)  # Wait for page to load'' @ nl
      @ ''</parameter>'' @ nl
      @ ''</function>'' @ nl @ nl
      @ ''USER: EXECUTION RESULT of [browser]:'' @ nl
      @ ''[Browser shows the numbers in a table format]'' @ nl"

definition example_edit_file_create_file :: string where
  "example_edit_file_create_file =
     nl
      @ ''ASSISTANT: There is no `app.py` file in the current directory. Let me create a Python file `app.py`:'' @ nl
      @ ''<function=edit_file>'' @ nl
      @ ''<parameter=path>/workspace/app.py</parameter>'' @ nl
      @ ''<parameter=start>1</parameter>'' @ nl
      @ ''<parameter=end>-1</parameter>'' @ nl
      @ ''<parameter=content>'' @ nl
      @ ''from flask import Flask'' @ nl
      @ ''app = Flask(__name__)'' @ nl @ nl
      @ ''@app.route('' @ [CHR 0x27] @ ''/'' @ [CHR 0x27] @ '')'' @ nl
      @ ''def index():'' @ nl
      @ ''    numbers = list(range(1, 11))'' @ nl
      @ ''    return str(numbers)'' @ nl @ nl
      @ ''if __name__ == '' @ [CHR 0x27] @ ''__main__'' @ [CHR 0x27] @ '':'' @ nl
      @ ''    app.run(port=5000)'' @ nl
      @ ''</parameter>'' @ nl
      @ ''</function>'' @ nl @ nl
      @ ''USER: EXECUTION RESULT of [edit_file]:'' @ nl
      @ ''File created successfully at: /workspace/app.py'' @ nl"

definition example_edit_file_edit_file :: string where
  "example_edit_file_edit_file =
     nl
      @ ''ASSISTANT:'' @ nl
      @ ''Now let me display the numbers in a table format:'' @ nl
      @ ''<function=edit_file>'' @ nl
      @ ''<parameter=path>/workspace/app.py</parameter>'' @ nl
      @ ''<parameter=start>6</parameter>'' @ nl
      @ ''<parameter=end>9</parameter>'' @ nl
      @ ''<parameter=content>'' @ nl
      @ ''    numbers = list(range(1, 11))'' @ nl
      @ ''    return '' @ [CHR 0x27] @ ''<table>'' @ [CHR 0x27] @ '' + '' @ [CHR 0x27] @ [CHR 0x27] @ ''.join([f''
     @ [CHR 0x27] @ ''<tr><td>{i}</td></tr>'' @ [CHR 0x27] @ '' for i in numbers]) + '' @ [CHR 0x27] @ ''</table>''
     @ [CHR 0x27] @ nl
      @ ''    # ... existing code ...'' @ nl
      @ ''if __name__ == '' @ [CHR 0x27] @ ''__main__'' @ [CHR 0x27] @ '':'' @ nl
      @ ''</parameter>'' @ nl
      @ ''</function>'' @ nl @ nl
      @ ''USER: EXECUTION RESULT of [edit_file]:'' @ nl
      @ ''The file /workspace/app.py has been edited. Here'' @ [CHR 0x27]
     @ ''s the result of running `cat -n` on a snippet of /workspace/app.py:'' @ nl
      @ ''     3'' @ nl
      @ ''     4  @app.route('' @ [CHR 0x27] @ ''/'' @ [CHR 0x27] @ '')'' @ nl
      @ ''     5  def index():'' @ nl
      @ ''     6      numbers = list(range(1, 11))'' @ nl
      @ ''     7      return '' @ [CHR 0x27] @ ''<table>'' @ [CHR 0x27] @ '' + '' @ [CHR 0x27] @ [CHR 0x27]
     @ ''.join([f'' @ [CHR 0x27] @ ''<tr><td>{i}</td></tr>'' @ [CHR 0x27] @ '' for i in numbers]) + '' @ [CHR 0x27]
     @ ''</table>'' @ [CHR 0x27] @ nl
      @ ''     8'' @ nl
      @ ''     9  if __name__ == '' @ [CHR 0x27] @ ''__main__'' @ [CHR 0x27] @ '':'' @ nl
      @ ''    10      app.run(port=5000)'' @ nl
      @ ''Review the changes and make sure they are as expected. Edit the file again if necessary.'' @ nl"

definition example_finish_example :: string where
  "example_finish_example =
     nl
      @ ''ASSISTANT:'' @ nl

     @ ''The server is running on port 5000 with PID 126. You can access the list of numbers in a table format by visiting http://127.0.0.1:5000. Let me know if you have any further requests!''
     @ nl
      @ ''<function=finish>'' @ nl

     @ ''<parameter=message>The task has been completed. The web server is running and displaying numbers 1-10 in a table format at http://127.0.0.1:5000.</parameter>''
     @ nl
      @ ''</function>'' @ nl"

end
