(* ===== verification/Fn_Call.thy ===== *)
theory Fn_Call
  imports Event_Filter Tool_Examples
begin

text \<open>
  Function calls as text for models that have no function calling
  (\<^verbatim>\<open>openhands/llm/fn_call_converter.py\<close>).  Messages and tools are dictionaries, as in the code; a
  content is a string or a list of items.  The three regular expressions are deterministic
  enough to be written as searches: each starts with a literal, and its repetitions end at a
  character or a literal that they cannot run past.  Tools are assumed to have the shape that the type
  \<^verbatim>\<open>ChatCompletionToolParam\<close> says (parameters and properties are dictionaries, required and enum are
  lists).  The platform and the printing of floats are parameters; error messages are shortened.
\<close>

section \<open>Searching\<close>

fun find_sub :: "string \<Rightarrow> string \<Rightarrow> (string \<times> string) option" where
  \<comment> \<open>the text before and after the first occurrence\<close>
  "find_sub p [] = (if p = [] then Some ([], []) else None)"
| "find_sub p (c # s) =
     (if startswith (c # s) p then Some ([], drop (length p) (c # s))
      else map_option (\<lambda>(a, b). (c # a, b)) (find_sub p s))"

lemma find_sub_shorter: "find_sub p s = Some (a, b) \<Longrightarrow> s = a @ p @ b"
  by (induction s arbitrary: a) (auto simp: startswith_iff split: if_splits)

definition before :: "string \<Rightarrow> string \<Rightarrow> string" where
  \<comment> \<open>\<^verbatim>\<open>s.split(p)[0]\<close>\<close>
  "before p s = (case find_sub p s of Some (a, _) \<Rightarrow> a | None \<Rightarrow> s)"

definition remove_first :: "string \<Rightarrow> string \<Rightarrow> string" where
  \<comment> \<open>\<^verbatim>\<open>s.replace(p, '', 1)\<close>\<close>
  "remove_first p s = (case find_sub p s of Some (a, b) \<Rightarrow> a @ b | None \<Rightarrow> s)"

function count_sub :: "string \<Rightarrow> string \<Rightarrow> nat" where
  \<comment> \<open>\<^verbatim>\<open>s.count(p)\<close> for a non-empty \<open>p\<close>\<close>
  "count_sub p s =
     (if p = [] then 0 else case find_sub p s of None \<Rightarrow> 0 | Some (a, b) \<Rightarrow> Suc (count_sub p b))"
  by pat_completeness auto
termination
  by (relation "measure (\<lambda>(p, s). length s)") (auto dest!: find_sub_shorter)

declare count_sub.simps [simp del]

definition lstrip :: "string \<Rightarrow> string" where
  "lstrip s = dropWhile is_space s"

definition rstrip :: "string \<Rightarrow> string" where
  "rstrip s = rev (dropWhile is_space (rev s))"

section \<open>Texts\<close>

definition FN_OPEN :: string where "FN_OPEN = ''<function=''"
definition FN_CLOSE :: string where "FN_CLOSE = ''</function>''"
definition PARAM_OPEN :: string where "PARAM_OPEN = ''<parameter=''"
definition PARAM_CLOSE :: string where "PARAM_CLOSE = ''</parameter>''"

definition SYSTEM_PROMPT_SUFFIX_TEMPLATE :: "string \<Rightarrow> string" where
  \<comment> \<open>the template with its description filled in\<close>
  "SYSTEM_PROMPT_SUFFIX_TEMPLATE description =
     nl @ ''You have access to the following functions:'' @ nl @ nl @ description @ nl @ nl
     @ ''If you choose to call a function ONLY reply in the following format with NO suffix:'' @ nl @ nl
     @ ''<function=example_function_name>'' @ nl
     @ ''<parameter=example_parameter_1>value_1</parameter>'' @ nl
     @ ''<parameter=example_parameter_2>'' @ nl
     @ ''This is the value for the second parameter'' @ nl
     @ ''that can span'' @ nl @ ''multiple lines'' @ nl
     @ ''</parameter>'' @ nl @ ''</function>'' @ nl @ nl
     @ ''<IMPORTANT>'' @ nl @ ''Reminder:'' @ nl
     @ ''- Function calls MUST follow the specified format, start with <function= and end with </function>'' @ nl
     @ ''- Required parameters MUST be specified'' @ nl
     @ ''- Only call one function at a time'' @ nl
     @ ''- You may provide optional reasoning for your function call in natural language BEFORE the function call, but NOT after.'' @ nl
     @ ''- If there is no function call available, answer the question like normal with your current knowledge and do not tell the user about function calls'' @ nl
     @ ''</IMPORTANT>'' @ nl"

definition IN_CONTEXT_LEARNING_EXAMPLE_SUFFIX :: string where
  "IN_CONTEXT_LEARNING_EXAMPLE_SUFFIX =
     nl @ ''--------------------- END OF NEW TASK DESCRIPTION ---------------------'' @ nl @ nl
     @ ''PLEASE follow the format strictly! PLEASE EMIT ONE AND ONLY ONE FUNCTION CALL PER MESSAGE.'' @ nl"

section \<open>Dictionaries and items\<close>

definition get_key :: "string \<Rightarrow> data \<Rightarrow> pyval res" where
  \<comment> \<open>\<^verbatim>\<open>d[k]\<close>\<close>
  "get_key k d = (case map_of d k of Some v \<Rightarrow> Inr v | None \<Rightarrow> Inl (KeyError k))"

definition item_key :: "string \<Rightarrow> pyval \<Rightarrow> pyval res" where
  "item_key k v = (case v of PDict d \<Rightarrow> get_key k d | _ \<Rightarrow> Inl (TypeError ''indices must be integers''))"

definition text_item :: "string \<Rightarrow> pyval" where
  "text_item s = PDict [(''type'', PStr ''text''), (''text'', PStr s)]"

definition is_text :: "pyval \<Rightarrow> bool res" where
  \<comment> \<open>\<^verbatim>\<open>item['type'] == 'text'\<close>\<close>
  "is_text v = (case item_key ''type'' v of Inl e \<Rightarrow> Inl e | Inr t \<Rightarrow> Inr (t = PStr ''text''))"

definition map_text :: "(string \<Rightarrow> string) \<Rightarrow> pyval \<Rightarrow> pyval res" where
  \<comment> \<open>\<^verbatim>\<open>item['text'] = f(item['text'])\<close>\<close>
  "map_text f v =
     (case v of
        PDict d \<Rightarrow> (case get_key ''text'' d of
                      Inl e \<Rightarrow> Inl e
                    | Inr (PStr s) \<Rightarrow> Inr (PDict (dict_set ''text'' (PStr (f s)) d))
                    | Inr _ \<Rightarrow> Inl (TypeError ''text is not a string''))
      | _ \<Rightarrow> Inl (TypeError ''indices must be integers''))"

definition bad_content :: pyerr where
  "bad_content = FunctionCallConversionError ''Unexpected content type''"

definition edit_last :: "(string \<Rightarrow> string) \<Rightarrow> string \<Rightarrow> pyval \<Rightarrow> pyval res" where
  \<comment> \<open>change the string, or the last item if it is text, or add an item\<close>
  "edit_last f extra body =
     (case body of
        PStr s \<Rightarrow> Inr (PStr (f s))
      | PList [] \<Rightarrow> Inr (PList [text_item extra])
      | PList (x # xs) \<Rightarrow>
          (case is_text (last (x # xs)) of
             Inl e \<Rightarrow> Inl e
           | Inr True \<Rightarrow> (case map_text f (last (x # xs)) of
                            Inl e \<Rightarrow> Inl e | Inr v \<Rightarrow> Inr (PList (butlast (x # xs) @ [v])))
           | Inr False \<Rightarrow> Inr (PList ((x # xs) @ [text_item extra])))
      | _ \<Rightarrow> Inl bad_content)"

fun first_text :: "(string \<Rightarrow> string) \<Rightarrow> pyval list \<Rightarrow> (pyval list option) res" where
  \<comment> \<open>change the first text item; \<^const>\<open>None\<close> when there is none\<close>
  "first_text f [] = Inr None"
| "first_text f (v # vs) =
     (case is_text v of
        Inl e \<Rightarrow> Inl e
      | Inr True \<Rightarrow> (case map_text f v of Inl e \<Rightarrow> Inl e | Inr v' \<Rightarrow> Inr (Some (v' # vs)))
      | Inr False \<Rightarrow> (case first_text f vs of Inl e \<Rightarrow> Inl e | Inr r \<Rightarrow> Inr (map_option ((#) v) r)))"

section \<open>Calls and tools as text\<close>

definition param_text :: "(rat \<Rightarrow> string) \<Rightarrow> pyval \<Rightarrow> string" where
  "param_text fl v =
     (case v of PList _ \<Rightarrow> json_dumps fl v | PDict _ \<Rightarrow> json_dumps fl v | PFloat r \<Rightarrow> fl r | _ \<Rightarrow> py_str v)"

fun param_strings :: "(rat \<Rightarrow> string) \<Rightarrow> (string \<times> pyval) list \<Rightarrow> string" where
  "param_strings fl [] = []"
| "param_strings fl ((k, v) # d) =
     PARAM_OPEN @ k @ ''>'' @ param_text fl v @ PARAM_CLOSE @ nl @ param_strings fl d"

definition convert_tool_call_to_string :: "(rat \<Rightarrow> string) \<Rightarrow> data \<Rightarrow> string res" where
  "convert_tool_call_to_string fl call =
     (if \<not> dict_has ''function'' call then Inl (FunctionCallConversionError ''Tool call must contain function key.'')
      else if \<not> dict_has ''id'' call then Inl (FunctionCallConversionError ''Tool call must contain id key.'')
      else if \<not> dict_has ''type'' call then Inl (FunctionCallConversionError ''Tool call must contain type key.'')
      else if map_of call ''type'' \<noteq> Some (PStr ''function'')
      then Inl (FunctionCallConversionError ''Tool call type must be function.'')
      else case item_key ''name'' (the (map_of call ''function'')) of
             Inl e \<Rightarrow> Inl e
           | Inr name \<Rightarrow>
               (case item_key ''arguments'' (the (map_of call ''function'')) of
                  Inl e \<Rightarrow> Inl e
                | Inr (PStr s) \<Rightarrow>
                    (case json_loads s of
                       Inl (ValueError _) \<Rightarrow> Inl (FunctionCallConversionError ''Failed to parse arguments as JSON.'')
                     | Inl e \<Rightarrow> Inl e
                     | Inr (PDict args) \<Rightarrow>
                         Inr (FN_OPEN @ py_str name @ ''>'' @ nl @ param_strings fl args @ FN_CLOSE)
                     | Inr _ \<Rightarrow> Inl (AttributeError ''no attribute items''))
                | Inr _ \<Rightarrow> Inl (TypeError ''the JSON object must be str'')))"

definition schema :: "data \<Rightarrow> data option" where
  "schema fn = (case map_of fn ''parameters'' of Some (PDict p) \<Rightarrow> Some p | _ \<Rightarrow> None)"

definition properties :: "data \<Rightarrow> (string, pyval) dict option" where
  "properties fn =
     (case schema fn of
        Some p \<Rightarrow> (case map_of p ''properties'' of Some (PDict d) \<Rightarrow> Some d | _ \<Rightarrow> None) | None \<Rightarrow> None)"

definition required :: "data \<Rightarrow> pyval list" where
  "required fn =
     (case schema fn of
        Some p \<Rightarrow> (case map_of p ''required'' of Some (PList rs) \<Rightarrow> rs | _ \<Rightarrow> []) | None \<Rightarrow> [])"

definition info_get :: "string \<Rightarrow> pyval \<Rightarrow> pyval \<Rightarrow> pyval" where
  \<comment> \<open>\<^verbatim>\<open>info.get(k, default)\<close>\<close>
  "info_get k v dflt =
     (case v of PDict d \<Rightarrow> (case map_of d k of Some x \<Rightarrow> x | None \<Rightarrow> dflt) | _ \<Rightarrow> dflt)"

definition enum_of :: "pyval \<Rightarrow> pyval list option" where
  "enum_of v =
     (case v of PDict d \<Rightarrow> (case map_of d ''enum'' of Some (PList vs) \<Rightarrow> Some vs | _ \<Rightarrow> None) | _ \<Rightarrow> None)"

fun describe_params :: "pyval list \<Rightarrow> nat \<Rightarrow> (string \<times> pyval) list \<Rightarrow> string" where
  "describe_params req j [] = []"
| "describe_params req j ((name, info) # d) =
     (let desc = py_str (info_get ''description'' info (PStr ''No description provided''));
          desc' = (case enum_of info of
                     None \<Rightarrow> desc
                   | Some vs \<Rightarrow> desc @ nl @ ''Allowed values: ['' @ join '', '' (map (\<lambda>v. ''`'' @ py_str v @ ''`'') vs) @ '']'')
      in ''  ('' @ str_of_nat (j + 1) @ '') '' @ name @ '' ('' @ py_str (info_get ''type'' info (PStr ''string'')) @ '', ''
         @ (if PStr name \<in> set req then ''required'' else ''optional'') @ ''): '' @ desc' @ nl
         @ describe_params req (j + 1) d)"

fun describe_tools :: "nat \<Rightarrow> data list \<Rightarrow> string res" where
  "describe_tools i [] = Inr []"
| "describe_tools i (tool # tools) =
     (case get_key ''type'' tool of
        Inl e \<Rightarrow> Inl e
      | Inr t \<Rightarrow>
          (if t \<noteq> PStr ''function'' then Inl (AssertionError [])
           else case get_key ''function'' tool of
             Inl e \<Rightarrow> Inl e
           | Inr (PDict fn) \<Rightarrow>
               (case (get_key ''name'' fn, get_key ''description'' fn, describe_tools (i + 1) tools) of
                  (Inr name, Inr desc, rest) \<Rightarrow>
                    (let n = str_of_nat (i + 1);
                         text = (if i > 0 then nl else [])
                           @ ''---- BEGIN FUNCTION #'' @ n @ '': '' @ py_str name @ '' ----'' @ nl
                           @ ''Description: '' @ py_str desc @ nl
                           @ (case schema fn of
                                Some p \<Rightarrow> ''Parameters:'' @ nl
                                  @ describe_params (required fn) 0 (case properties fn of Some d \<Rightarrow> d | None \<Rightarrow> [])
                              | None \<Rightarrow> ''No parameters are required for this function.'' @ nl)
                           @ ''---- END FUNCTION #'' @ n @ '' ----'' @ nl
                     in case rest of Inl e \<Rightarrow> Inl e | Inr r \<Rightarrow> Inr (text @ r))
                | (Inl e, _, _) \<Rightarrow> Inl e
                | (_, Inl e, _) \<Rightarrow> Inl e)
           | Inr _ \<Rightarrow> Inl (TypeError ''indices must be integers'')))"

definition convert_tools_to_description :: "data list \<Rightarrow> string res" where
  "convert_tools_to_description tools = describe_tools 0 tools"

section \<open>To text\<close>

fun tool_names :: "data list \<Rightarrow> (pyval list) res" where
  "tool_names [] = Inr []"
| "tool_names (tool # tools) =
     (case get_key ''type'' tool of
        Inl e \<Rightarrow> Inl e
      | Inr t \<Rightarrow>
          (if t \<noteq> PStr ''function'' then tool_names tools
           else case get_key ''function'' tool of
             Inl e \<Rightarrow> Inl e
           | Inr fn \<Rightarrow> (case item_key ''name'' fn of
                           Inl e \<Rightarrow> Inl e
                         | Inr n \<Rightarrow> (case tool_names tools of Inl e \<Rightarrow> Inl e | Inr ns \<Rightarrow> Inr (n # ns)))))"

definition refine_prompt :: "bool \<Rightarrow> string \<Rightarrow> string" where
  "refine_prompt win32 prompt = (if win32 then replace prompt ''bash'' ''powershell'' else prompt)"

definition example_text :: "string list \<Rightarrow> string" where
  \<comment> \<open>the example for the tools that are available\<close>
  "example_text av =
     (let bash = ''execute_bash'' \<in> set av; ed = ''str_replace_editor'' \<in> set av; llm = ''edit_file'' \<in> set av in
      ''Here'' @ [CHR 0x27] @ ''s a running example of how to perform a task with the provided tools.'' @ nl @ nl
      @ ''--------------------- START OF EXAMPLE ---------------------'' @ nl @ nl
      @ ''USER: Create a list of numbers from 1 to 10, and display them in a web page at port 5000.'' @ nl @ nl
      @ (if bash then example_execute_bash_check_dir else [])
      @ (if ed then example_str_replace_editor_create_file else if llm then example_edit_file_create_file else [])
      @ (if bash then example_execute_bash_run_server else [])
      @ (if ''browser'' \<in> set av then example_browser_view_page else [])
      @ (if bash then example_execute_bash_kill_server else [])
      @ (if ed then example_str_replace_editor_edit_file else if llm then example_edit_file_edit_file else [])
      @ (if bash then example_execute_bash_run_server_again else [])
      @ (if ''finish'' \<in> set av then example_finish_example else [])
      @ nl @ ''--------------------- END OF EXAMPLE ---------------------'' @ nl @ nl
      @ ''Do NOT assume the environment is the same as in the example above.'' @ nl @ nl
      @ ''--------------------- NEW TASK DESCRIPTION ---------------------'' @ nl)"

definition get_example_for_tools :: "bool \<Rightarrow> data list \<Rightarrow> string res" where
  "get_example_for_tools win32 tools =
     (case tool_names tools of
        Inl e \<Rightarrow> Inl e
      | Inr names \<Rightarrow>
          (let av = filter (\<lambda>n. PStr n \<in> set names)
                      [''execute_bash'', ''str_replace_editor'', ''browser'', ''finish'', ''edit_file'']
           in if av = [] then Inr [] else Inr (refine_prompt win32 (lstrip (example_text av)))))"

record fn_env =
  win32 :: bool                  \<comment> \<open>\<^verbatim>\<open>sys.platform == 'win32'\<close>\<close>
  float_text :: "rat \<Rightarrow> string"  \<comment> \<open>\<^verbatim>\<open>float.__repr__\<close>\<close>

definition system_prompt_suffix :: "data list \<Rightarrow> string res" where
  "system_prompt_suffix tools =
     (case convert_tools_to_description tools of
        Inl e \<Rightarrow> Inl e | Inr d \<Rightarrow> Inr (SYSTEM_PROMPT_SUFFIX_TEMPLATE d))"

definition add_example :: "string \<Rightarrow> pyval \<Rightarrow> pyval res" where
  "add_example example body =
     (if example = [] then Inr body
      else case body of
        PStr s \<Rightarrow> Inr (PStr (example @ s @ IN_CONTEXT_LEARNING_EXAMPLE_SUFFIX))
      | PList [] \<Rightarrow> Inr (PList [text_item example, text_item IN_CONTEXT_LEARNING_EXAMPLE_SUFFIX])
      | PList (v # vs) \<Rightarrow>
          (case is_text v of
             Inl e \<Rightarrow> Inl e
           | Inr True \<Rightarrow>
               (case map_text (\<lambda>s. example @ s @ IN_CONTEXT_LEARNING_EXAMPLE_SUFFIX) v of
                  Inl e \<Rightarrow> Inl e | Inr v' \<Rightarrow> Inr (PList (v' # vs)))
           | Inr False \<Rightarrow>
               Inr (PList ([text_item example] @ (v # vs) @ [text_item IN_CONTEXT_LEARNING_EXAMPLE_SUFFIX])))
      | _ \<Rightarrow> Inl bad_content)"

definition message_of :: "string \<Rightarrow> pyval \<Rightarrow> data" where
  "message_of role body = [(''role'', PStr role), (''content'', body)]"

definition convert_assistant :: "(rat \<Rightarrow> string) \<Rightarrow> data \<Rightarrow> pyval \<Rightarrow> pyval res" where
  \<comment> \<open>the content of an assistant message with its call as text\<close>
  "convert_assistant fl msg body =
     (case map_of msg ''tool_calls'' of
        None \<Rightarrow> Inr body
      | Some PNone \<Rightarrow> Inr body
      | Some (PList [PDict call]) \<Rightarrow>
          (case convert_tool_call_to_string fl call of
             Inl (FunctionCallConversionError _) \<Rightarrow> Inl (FunctionCallConversionError ''Failed to convert tool call to string.'')
           | Inl e \<Rightarrow> Inl e
           | Inr s \<Rightarrow> edit_last (\<lambda>x. lstrip (x @ nl @ nl @ s)) s body)
      | Some (PList [_]) \<Rightarrow> Inl (TypeError ''argument is not iterable'')
      | Some (PList _) \<Rightarrow> Inl (FunctionCallConversionError ''Expected exactly one tool call in the message.'')
      | Some _ \<Rightarrow> Inl (TypeError ''object has no len()''))"

definition mark_cached :: "pyval \<Rightarrow> pyval res" where
  \<comment> \<open>\<^verbatim>\<open>content[-1]['cache_control'] = {'type': 'ephemeral'}\<close>\<close>
  "mark_cached body =
     (case body of
        PList vs \<Rightarrow>
          (case (vs, last vs) of
             (_ # _, PDict d) \<Rightarrow> Inr (PList (butlast vs @ [PDict (dict_set ''cache_control'' (PDict [(''type'', PStr ''ephemeral'')]) d)]))
           | _ \<Rightarrow> Inl (TypeError ''object does not support item assignment''))
      | _ \<Rightarrow> Inl (TypeError ''object does not support item assignment''))"

definition convert_tool_result :: "data \<Rightarrow> pyval \<Rightarrow> pyval res" where
  "convert_tool_result msg body =
     (let name = (case map_of msg ''name'' of Some v \<Rightarrow> py_str v | None \<Rightarrow> ''function'');
          pre = ''EXECUTION RESULT of ['' @ name @ '']:'' @ nl;
          r = (case body of
                 PStr s \<Rightarrow> Inr (PStr (pre @ s))
               | PList vs \<Rightarrow>
                   (case first_text (\<lambda>s. pre @ s) vs of
                      Inl e \<Rightarrow> Inl e
                    | Inr (Some vs') \<Rightarrow> Inr (PList vs')
                    | Inr None \<Rightarrow> Inr (PList (text_item pre # vs)))
               | _ \<Rightarrow> Inl bad_content)
      in case r of
           Inl e \<Rightarrow> Inl e
         | Inr b \<Rightarrow> if dict_has ''cache_control'' msg then mark_cached b else Inr b)"

fun to_text :: "fn_env \<Rightarrow> string \<Rightarrow> string res \<Rightarrow> bool \<Rightarrow> data list \<Rightarrow> (data list) res" where
  \<comment> \<open>the loop; the flag says that an example is still to be added\<close>
  "to_text T sfx example add [] = Inr []"
| "to_text T sfx example add (msg # ms) =
     (case (get_key ''role'' msg, get_key ''content'' msg) of
        (Inr role, Inr body) \<Rightarrow>
          (let r = (if role = PStr ''system'' then
                      (case edit_last (\<lambda>s. s @ sfx) sfx body of
                         Inl e \<Rightarrow> Inl e | Inr b \<Rightarrow> Inr (message_of ''system'' b))
                    else if role = PStr ''user'' then
                      (case (if add then (case example of Inl e \<Rightarrow> Inl e | Inr x \<Rightarrow> add_example x body) else Inr body) of
                         Inl e \<Rightarrow> Inl e | Inr b \<Rightarrow> Inr (message_of ''user'' b))
                    else if role = PStr ''assistant'' then
                      (case convert_assistant (float_text T) msg body of
                         Inl e \<Rightarrow> Inl e | Inr b \<Rightarrow> Inr (message_of ''assistant'' b))
                    else if role = PStr ''tool'' then
                      (case convert_tool_result msg body of
                         Inl e \<Rightarrow> Inl e | Inr b \<Rightarrow> Inr (message_of ''user'' b))
                    else Inl (FunctionCallConversionError ''Unexpected role''));
               add' = (add \<and> role \<noteq> PStr ''user'')
           in case r of
                Inl e \<Rightarrow> Inl e
              | Inr m \<Rightarrow> (case to_text T sfx example add' ms of Inl e \<Rightarrow> Inl e | Inr ms' \<Rightarrow> Inr (m # ms')))
      | (Inl e, _) \<Rightarrow> Inl e
      | (_, Inl e) \<Rightarrow> Inl e)"

definition convert_fncall_messages_to_non_fncall_messages ::
  "fn_env \<Rightarrow> data list \<Rightarrow> data list \<Rightarrow> bool \<Rightarrow> (data list) res" where
  "convert_fncall_messages_to_non_fncall_messages T messages tools add =
     (case system_prompt_suffix tools of
        Inl e \<Rightarrow> Inl e | Inr sfx \<Rightarrow> to_text T sfx (get_example_for_tools (win32 T) tools) add messages)"

section \<open>From text\<close>

subsection \<open>The patterns\<close>

definition fn_match_at :: "string \<Rightarrow> (string \<times> string) option" where
  \<comment> \<open>\<^verbatim>\<open>FN_REGEX_PATTERN\<close> at the start of the text: name and body\<close>
  "fn_match_at s =
     (if \<not> startswith s FN_OPEN then None
      else (let r = drop (length FN_OPEN) s;
                name = takeWhile (\<lambda>c. c \<noteq> CHR ''>'') r;
                rest = dropWhile (\<lambda>c. c \<noteq> CHR ''>'') r
            in if name = [] \<or> \<not> startswith rest (''>'' @ nl) then None
               else map_option (\<lambda>(a, b). (name, a)) (find_sub FN_CLOSE (drop 2 rest))))"

fun fn_search :: "string \<Rightarrow> (string \<times> string) option" where
  \<comment> \<open>\<^verbatim>\<open>re.search(FN_REGEX_PATTERN, s, re.DOTALL)\<close>\<close>
  "fn_search [] = None"
| "fn_search (c # s) = (case fn_match_at (c # s) of Some m \<Rightarrow> Some m | None \<Rightarrow> fn_search s)"

definition param_match_at :: "string \<Rightarrow> (string \<times> string \<times> string) option" where
  \<comment> \<open>\<^verbatim>\<open>FN_PARAM_REGEX_PATTERN\<close>: name, value and the text after the match\<close>
  "param_match_at s =
     (if \<not> startswith s PARAM_OPEN then None
      else (let r = drop (length PARAM_OPEN) s;
                name = takeWhile (\<lambda>c. c \<noteq> CHR ''>'') r;
                rest = dropWhile (\<lambda>c. c \<noteq> CHR ''>'') r
            in if name = [] \<or> rest = [] then None
               else map_option (\<lambda>(a, b). (name, a, b)) (find_sub PARAM_CLOSE (tl rest))))"

lemma param_match_shorter: "param_match_at s = Some (a, b, r) \<Longrightarrow> length r < length s"
proof -
  assume m: "param_match_at s = Some (a, b, r)"
  let ?r = "drop (length PARAM_OPEN) s"
  have "find_sub PARAM_CLOSE (tl (dropWhile (\<lambda>c. c \<noteq> CHR ''>'') ?r)) = Some (b, r)" and s: "startswith s PARAM_OPEN"
    using m by (auto simp: param_match_at_def Let_def split: if_splits)
  from find_sub_shorter[OF this(1)] have "length r \<le> length (tl (dropWhile (\<lambda>c. c \<noteq> CHR ''>'') ?r))" by simp
  moreover have "length (dropWhile (\<lambda>c. c \<noteq> CHR ''>'') ?r) \<le> length ?r" by (rule length_dropWhile_le)
  moreover have "length ?r < length s" using s by (auto simp: startswith_iff PARAM_OPEN_def)
  ultimately show ?thesis by simp
qed

function param_matches :: "string \<Rightarrow> (string \<times> string) list" where
  \<comment> \<open>\<^verbatim>\<open>re.finditer(FN_PARAM_REGEX_PATTERN, s, re.DOTALL)\<close>\<close>
  "param_matches s =
     (case s of
        [] \<Rightarrow> []
      | c # t \<Rightarrow> (case param_match_at (c # t) of
                    Some (a, b, r) \<Rightarrow> (a, b) # param_matches r | None \<Rightarrow> param_matches t))"
  by pat_completeness auto
termination
  by (relation "measure length") (auto dest: param_match_shorter)

declare param_matches.simps [simp del]

definition is_word_char :: "char \<Rightarrow> bool" where
  "is_word_char c \<longleftrightarrow> (let n = (of_char c :: nat)
     in (97 \<le> n \<and> n \<le> 122) \<or> (65 \<le> n \<and> n \<le> 90) \<or> (48 \<le> n \<and> n \<le> 57) \<or> n = 95)"

definition malformed_at :: "string \<Rightarrow> (string \<times> string \<times> string) option" where
  \<comment> \<open>\<^verbatim>\<open><parameter=([a-zA-Z0-9_]+)=([^<]*)</parameter>\<close>: name, value and the text after the match\<close>
  "malformed_at s =
     (if \<not> startswith s PARAM_OPEN then None
      else (let r = drop (length PARAM_OPEN) s;
                name = takeWhile is_word_char r;
                rest = dropWhile is_word_char r;
                val = takeWhile (\<lambda>c. c \<noteq> CHR ''<'') (tl rest);
                r' = dropWhile (\<lambda>c. c \<noteq> CHR ''<'') (tl rest)
            in if name = [] \<or> rest = [] \<or> hd rest \<noteq> CHR ''='' \<or> \<not> startswith r' PARAM_CLOSE then None
               else Some (name, val, drop (length PARAM_CLOSE) r')))"

lemma malformed_shorter: "malformed_at s = Some (a, b, r) \<Longrightarrow> length r < length s"
proof -
  assume m: "malformed_at s = Some (a, b, r)"
  let ?r = "drop (length PARAM_OPEN) s"
  let ?t = "dropWhile is_word_char ?r"
  let ?u = "dropWhile (\<lambda>c. c \<noteq> CHR ''<'') (tl ?t)"
  have r: "r = drop (length PARAM_CLOSE) ?u" and s: "startswith s PARAM_OPEN"
    using m by (auto simp: malformed_at_def Let_def split: if_splits)
  have "length ?u \<le> length (tl ?t)" "length ?t \<le> length ?r" by (rule length_dropWhile_le)+
  moreover have "length ?r < length s" using s by (auto simp: startswith_iff PARAM_OPEN_def)
  ultimately show ?thesis using r by simp
qed

function normalize_parameter_tags :: "string \<Rightarrow> string" where
  "normalize_parameter_tags s =
     (case s of
        [] \<Rightarrow> []
      | c # t \<Rightarrow> (case malformed_at (c # t) of
                    Some (a, b, r) \<Rightarrow> PARAM_OPEN @ a @ ''>'' @ b @ PARAM_CLOSE @ normalize_parameter_tags r
                  | None \<Rightarrow> c # normalize_parameter_tags t))"
  by pat_completeness auto
termination
  by (relation "measure length") (auto dest: malformed_shorter)

declare normalize_parameter_tags.simps [simp del]

definition fix_stopword :: "string \<Rightarrow> string" where
  "fix_stopword s =
     (if count_sub FN_OPEN s = 1
      then (if endswith s ''</'' then rstrip s @ ''function>'' else s @ nl @ FN_CLOSE)
      else s)"

definition tool_result_search :: "string \<Rightarrow> (string \<times> string) option" where
  \<comment> \<open>\<^verbatim>\<open>re.search(TOOL_RESULT_REGEX_PATTERN, s, re.DOTALL)\<close>\<close>
  "tool_result_search s =
     (case find_sub ''EXECUTION RESULT of ['' s of
        None \<Rightarrow> None | Some (_, r) \<Rightarrow> find_sub ('']:'' @ nl) r)"

subsection \<open>Parameters\<close>

definition num_of :: "pyval \<Rightarrow> rat option" where
  "num_of v = (case v of PBool b \<Rightarrow> Some (if b then 1 else 0) | PInt i \<Rightarrow> Some (of_int i) | PFloat r \<Rightarrow> Some r | _ \<Rightarrow> None)"

fun val_eq :: "pyval \<Rightarrow> pyval \<Rightarrow> bool"
and vals_eq :: "pyval list \<Rightarrow> pyval list \<Rightarrow> bool"
and items_in :: "(string \<times> pyval) list \<Rightarrow> (string \<times> pyval) list \<Rightarrow> bool" where
  \<comment> \<open>\<^verbatim>\<open>==\<close>: numbers by value, dictionaries without order\<close>
  "val_eq (PList vs) (PList ws) = vals_eq vs ws"
| "val_eq (PDict d) (PDict e) = (length d = length e \<and> items_in d e)"
| "val_eq v w = (v = w \<or> num_of v \<noteq> None \<and> num_of v = num_of w)"
| "vals_eq [] [] = True"
| "vals_eq (v # vs) (w # ws) = (val_eq v w \<and> vals_eq vs ws)"
| "vals_eq _ _ = False"
| "items_in [] e = True"
| "items_in ((k, v) # d) e = ((case map_of e k of None \<Rightarrow> False | Some w \<Rightarrow> val_eq v w) \<and> items_in d e)"

definition param_type :: "data \<Rightarrow> string \<Rightarrow> pyval option" where
  \<comment> \<open>\<^verbatim>\<open>param_name_to_type.get(name)\<close>\<close>
  "param_type fn name =
     (case properties fn of
        None \<Rightarrow> None
      | Some d \<Rightarrow> (case map_of d name of None \<Rightarrow> None | Some info \<Rightarrow> Some (info_get ''type'' info (PStr ''string''))))"

definition convert_param :: "data \<Rightarrow> string \<Rightarrow> string \<Rightarrow> pyval res" where
  "convert_param fn name s =
     (if param_type fn name = Some (PStr ''integer'')
      then (case py_int s of
              Some i \<Rightarrow> Inr (PInt i) | None \<Rightarrow> Inl (FunctionCallValidationError ''expected to be an integer''))
      else if param_type fn name = Some (PStr ''array'')
      then (case json_loads s of
              Inr v \<Rightarrow> Inr v
            | Inl (ValueError _) \<Rightarrow> Inl (FunctionCallValidationError ''expected to be an array'')
            | Inl e \<Rightarrow> Inl e)
      else Inr (PStr s))"

definition param_info :: "data \<Rightarrow> string \<Rightarrow> pyval res" where
  \<comment> \<open>\<^verbatim>\<open>matching_tool['parameters']['properties'][param_name]\<close>\<close>
  "param_info fn name =
     (case get_key ''parameters'' fn of
        Inl e \<Rightarrow> Inl e
      | Inr p \<Rightarrow> (case item_key ''properties'' p of Inl e \<Rightarrow> Inl e | Inr d \<Rightarrow> item_key name d))"

definition allowed_param :: "data \<Rightarrow> string \<Rightarrow> bool" where
  "allowed_param fn name =
     (case properties fn of None \<Rightarrow> True | Some d \<Rightarrow> d = [] \<or> dict_has name d)"

fun collect_params :: "data \<Rightarrow> (string \<times> string) list \<Rightarrow> data \<Rightarrow> data res" where
  \<comment> \<open>the loop over the matches\<close>
  "collect_params fn [] params = Inr params"
| "collect_params fn ((name, s) # ms) params =
     (if \<not> allowed_param fn name then Inl (FunctionCallValidationError ''Parameter is not allowed'')
      else case convert_param fn name s of
             Inl e \<Rightarrow> Inl e
           | Inr v \<Rightarrow>
               (case param_info fn name of
                  Inl e \<Rightarrow> Inl e
                | Inr info \<Rightarrow>
                    (if (case enum_of info of None \<Rightarrow> False | Some vs \<Rightarrow> \<not> list_ex (val_eq v) vs)
                     then Inl (FunctionCallValidationError ''expected to be one of the enum'')
                     else collect_params fn ms (dict_set name v params))))"

definition extract_and_validate_params :: "data \<Rightarrow> (string \<times> string) list \<Rightarrow> data res" where
  "extract_and_validate_params fn ms =
     (case collect_params fn ms [] of
        Inl e \<Rightarrow> Inl e
      | Inr params \<Rightarrow>
          (if list_ex (\<lambda>r. r \<notin> PStr ` set (map fst ms)) (required fn)
           then Inl (FunctionCallValidationError ''Missing required parameters'') else Inr params))"

subsection \<open>Messages\<close>

definition two_digits :: "nat \<Rightarrow> string" where
  \<comment> \<open>\<^verbatim>\<open>f'{n:02d}'\<close>\<close>
  "two_digits n = (if n < 10 then ''0'' @ str_of_nat n else str_of_nat n)"

definition tool_call_name :: "nat \<Rightarrow> string" where
  "tool_call_name n = ''toolu_'' @ two_digits n"

definition or_empty :: "pyval \<Rightarrow> pyval" where
  \<comment> \<open>\<^verbatim>\<open>content or ''\<close>\<close>
  "or_empty v = (if truthy (Some v) then v else PStr [])"

definition edit_last_text :: "(string \<Rightarrow> string) \<Rightarrow> pyval \<Rightarrow> pyval res" where
  \<comment> \<open>change the string, or the last item if it is text; other contents stay\<close>
  "edit_last_text f body =
     (case body of
        PStr s \<Rightarrow> Inr (PStr (f s))
      | PList [] \<Rightarrow> Inr (PList [])
      | PList (x # xs) \<Rightarrow>
          (case is_text (last (x # xs)) of
             Inl e \<Rightarrow> Inl e
           | Inr True \<Rightarrow> (case map_text f (last (x # xs)) of
                            Inl e \<Rightarrow> Inl e | Inr v \<Rightarrow> Inr (PList (butlast (x # xs) @ [v])))
           | Inr False \<Rightarrow> Inr body)
      | _ \<Rightarrow> Inr body)"

definition strip_example :: "string \<Rightarrow> string \<Rightarrow> string" where
  "strip_example example s =
     (let s1 = (if startswith s example then remove_first example s else s)
      in if endswith s1 IN_CONTEXT_LEARNING_EXAMPLE_SUFFIX
         then remove_first IN_CONTEXT_LEARNING_EXAMPLE_SUFFIX s1 else s1)"

fun strip_examples :: "string \<Rightarrow> pyval list \<Rightarrow> (pyval list) res" where
  "strip_examples example [] = Inr []"
| "strip_examples example (v # vs) =
     (case is_text v of
        Inl e \<Rightarrow> Inl e
      | Inr b \<Rightarrow> (case (if b then map_text (strip_example example) v else Inr v) of
                    Inl e \<Rightarrow> Inl e
                  | Inr w \<Rightarrow> (case strip_examples example vs of Inl e \<Rightarrow> Inl e | Inr ws \<Rightarrow> Inr (w # ws))))"

definition text_of :: "pyval \<Rightarrow> (string option) res" where
  \<comment> \<open>the text of an item with \<^verbatim>\<open>item.get('type') == 'text'\<close>\<close>
  "text_of v =
     (case v of
        PDict d \<Rightarrow> (if map_of d ''type'' \<noteq> Some (PStr ''text'') then Inr None
                    else case get_key ''text'' d of
                           Inl e \<Rightarrow> Inl e | Inr (PStr s) \<Rightarrow> Inr (Some s)
                         | Inr _ \<Rightarrow> Inl (TypeError ''expected string or bytes-like object''))
      | _ \<Rightarrow> Inl (AttributeError ''no attribute get''))"

fun first_match :: "(string \<Rightarrow> 'a option) \<Rightarrow> pyval list \<Rightarrow> ('a option) res" where
  \<comment> \<open>the first match of a pattern in the text items\<close>
  "first_match f [] = Inr None"
| "first_match f (v # vs) =
     (case text_of v of
        Inl e \<Rightarrow> Inl e
      | Inr None \<Rightarrow> first_match f vs
      | Inr (Some s) \<Rightarrow> (case f s of Some m \<Rightarrow> Inr (Some m) | None \<Rightarrow> first_match f vs))"

definition user_from_text :: "string res \<Rightarrow> nat \<Rightarrow> bool \<Rightarrow> pyval \<Rightarrow> data res" where
  \<comment> \<open>a user message, or the tool result it carries; the flag says that it is the first one\<close>
  "user_from_text example n first body =
     (case (if \<not> first then Inr body
            else case body of
                   PStr s \<Rightarrow> (case example of Inl e \<Rightarrow> Inl e | Inr x \<Rightarrow> Inr (PStr (strip_example x s)))
                 | PList vs \<Rightarrow> (case example of Inl e \<Rightarrow> Inl e
                                | Inr x \<Rightarrow> (case strip_examples x vs of Inl e \<Rightarrow> Inl e | Inr ws \<Rightarrow> Inr (PList ws)))
                 | _ \<Rightarrow> Inl bad_content) of
        Inl e \<Rightarrow> Inl e
      | Inr b \<Rightarrow>
          (case (case b of PStr s \<Rightarrow> Inr (tool_result_search s)
                         | PList vs \<Rightarrow> first_match tool_result_search vs
                         | _ \<Rightarrow> Inl bad_content) of
             Inl e \<Rightarrow> Inl e
           | Inr None \<Rightarrow> Inr (message_of ''user'' b)
           | Inr (Some (name, r)) \<Rightarrow>
               Inr [(''role'', PStr ''tool''), (''name'', PStr name),
                    (''content'', case b of PList _ \<Rightarrow> PList [text_item (strip r)] | _ \<Rightarrow> PStr (strip r)),
                    (''tool_call_id'', PStr (tool_call_name (n - 1)))]))"

fun find_tool :: "string \<Rightarrow> data list \<Rightarrow> (data option) res" where
  "find_tool name [] = Inr None"
| "find_tool name (tool # tools) =
     (case get_key ''type'' tool of
        Inl e \<Rightarrow> Inl e
      | Inr t \<Rightarrow>
          (if t \<noteq> PStr ''function'' then find_tool name tools
           else case get_key ''function'' tool of
             Inl e \<Rightarrow> Inl e
           | Inr (PDict fn) \<Rightarrow>
               (case get_key ''name'' fn of
                  Inl e \<Rightarrow> Inl e
                | Inr v \<Rightarrow> if v = PStr name then Inr (Some fn) else find_tool name tools)
           | Inr _ \<Rightarrow> Inl (TypeError ''indices must be integers'')))"

definition tool_call_of :: "fn_env \<Rightarrow> data list \<Rightarrow> nat \<Rightarrow> string \<Rightarrow> string \<Rightarrow> pyval res" where
  \<comment> \<open>the call for a match: name and body\<close>
  "tool_call_of T tools n name body =
     (case find_tool name tools of
        Inl e \<Rightarrow> Inl e
      | Inr None \<Rightarrow> Inl (FunctionCallValidationError ''Function not found in available tools'')
      | Inr (Some fn) \<Rightarrow>
          (case extract_and_validate_params fn (param_matches (normalize_parameter_tags body)) of
             Inl e \<Rightarrow> Inl e
           | Inr params \<Rightarrow>
               Inr (PDict [(''index'', PInt 1), (''id'', PStr (tool_call_name n)), (''type'', PStr ''function''),
                     (''function'', PDict [(''name'', PStr name), (''arguments'', PStr (json_dumps (float_text T) (PDict params)))])])))"

definition last_call :: "pyval \<Rightarrow> ((string \<times> string) option) res" where
  \<comment> \<open>the call of a string, or of the last item of a list\<close>
  "last_call body =
     (case body of
        PStr s \<Rightarrow> Inr (fn_search s)
      | PList vs \<Rightarrow>
          (let here = (if vs = [] then Inr None else
                         case is_text (last vs) of
                           Inl e \<Rightarrow> Inl e | Inr False \<Rightarrow> Inr None
                         | Inr True \<Rightarrow> first_match fn_search [last vs])
           in case here of
                Inl e \<Rightarrow> Inl e
              | Inr m \<Rightarrow>
                  (case first_match fn_search vs of
                     Inl e \<Rightarrow> Inl e
                   | Inr m' \<Rightarrow>
                       if m' \<noteq> None \<and> m = None
                       then Inl (FunctionCallConversionError ''Expecting function call in the LAST index of content list.'')
                       else Inr m))
      | _ \<Rightarrow> Inl bad_content)"

definition assistant_from_text :: "fn_env \<Rightarrow> data list \<Rightarrow> nat \<Rightarrow> data \<Rightarrow> pyval \<Rightarrow> (nat \<times> data) res" where
  \<comment> \<open>an assistant message; without a call the message itself, its list of items changed in place\<close>
  "assistant_from_text T tools n msg body =
     (case edit_last_text fix_stopword body of
        Inl e \<Rightarrow> Inl e
      | Inr b \<Rightarrow>
          (case last_call b of
             Inl e \<Rightarrow> Inl e
           | Inr None \<Rightarrow> Inr (n, case b of PList _ \<Rightarrow> dict_set ''content'' b msg | _ \<Rightarrow> msg)
           | Inr (Some (name, fbody)) \<Rightarrow>
               (case tool_call_of T tools n name fbody of
                  Inl e \<Rightarrow> Inl e
                | Inr call \<Rightarrow>
                    (case edit_last_text (\<lambda>s. strip (before FN_OPEN s)) b of
                       Inl e \<Rightarrow> Inl e
                     | Inr b' \<Rightarrow> Inr (n + 1, message_of ''assistant'' b' @ [(''tool_calls'', PList [call])])))))"

fun from_text :: "fn_env \<Rightarrow> data list \<Rightarrow> string \<Rightarrow> string res \<Rightarrow> nat \<Rightarrow> bool \<Rightarrow> data list \<Rightarrow> (data list) res" where
  \<comment> \<open>the loop: \<open>n\<close> is the counter of tool calls, the flag says that no user message has been seen\<close>
  "from_text T tools sfx example n first [] = Inr []"
| "from_text T tools sfx example n first (msg # ms) =
     (case (get_key ''role'' msg, get_key ''content'' msg) of
        (Inr role, Inr body0) \<Rightarrow>
          (let body = or_empty body0;
               r = (if role = PStr ''system'' then
                      (case edit_last_text (before sfx) body of
                         Inl e \<Rightarrow> Inl e | Inr b \<Rightarrow> Inr (n, message_of ''system'' b))
                    else if role = PStr ''user'' then
                      (case user_from_text example n first body of Inl e \<Rightarrow> Inl e | Inr m \<Rightarrow> Inr (n, m))
                    else if role = PStr ''assistant'' then assistant_from_text T tools n msg body
                    else Inl (FunctionCallConversionError ''Unexpected role''));
               first' = (first \<and> role \<noteq> PStr ''user'')
           in case r of
                Inl e \<Rightarrow> Inl e
              | Inr (n', m) \<Rightarrow>
                  (case from_text T tools sfx example n' first' ms of Inl e \<Rightarrow> Inl e | Inr ms' \<Rightarrow> Inr (m # ms')))
      | (Inl e, _) \<Rightarrow> Inl e
      | (_, Inl e) \<Rightarrow> Inl e)"

definition convert_non_fncall_messages_to_fncall_messages ::
  "fn_env \<Rightarrow> data list \<Rightarrow> data list \<Rightarrow> (data list) res" where
  "convert_non_fncall_messages_to_fncall_messages T messages tools =
     (case system_prompt_suffix tools of
        Inl e \<Rightarrow> Inl e
      | Inr sfx \<Rightarrow> from_text T tools sfx (get_example_for_tools (win32 T) tools) 1 True messages)"

section \<open>One call per message\<close>

fun split_calls :: "pyval \<Rightarrow> bool \<Rightarrow> pyval list \<Rightarrow> (pyval, data) dict \<Rightarrow> ((pyval, data) dict) res" where
  \<comment> \<open>the pending messages of the calls of one message; the flag says that the call is the first one\<close>
  "split_calls body first [] pend = Inr pend"
| "split_calls body first (c # cs) pend =
     (case item_key ''id'' c of
        Inl e \<Rightarrow> Inl e
      | Inr i \<Rightarrow>
          split_calls body False cs
            (dict_set i (message_of ''assistant'' (if first then body else PStr []) @ [(''tool_calls'', PList [c])]) pend))"

fun single_calls :: "bool \<Rightarrow> data list \<Rightarrow> (pyval, data) dict \<Rightarrow> (data list) res" where
  "single_calls ignore_final [] pend =
     (if \<not> ignore_final \<and> pend \<noteq> []
      then Inl (FunctionCallConversionError ''Found pending tool calls but no tool result'') else Inr [])"
| "single_calls ignore_final (msg # ms) pend =
     (case (get_key ''role'' msg, get_key ''content'' msg) of
        (Inr role, Inr body) \<Rightarrow>
          (let emit = (\<lambda>out pend'. case single_calls ignore_final ms pend' of Inl e \<Rightarrow> Inl e | Inr ms' \<Rightarrow> Inr (out @ ms'))
           in if role = PStr ''assistant'' then
                (case map_of msg ''tool_calls'' of
                   Some (PList (c # c' # cs)) \<Rightarrow>
                     (case split_calls body True (c # c' # cs) pend of Inl e \<Rightarrow> Inl e | Inr pend' \<Rightarrow> emit [] pend')
                 | _ \<Rightarrow> emit [msg] pend)
              else if role = PStr ''tool'' then
                (case get_key ''tool_call_id'' msg of
                   Inl e \<Rightarrow> Inl e
                 | Inr i \<Rightarrow>
                     (case map_of pend i of
                        Some call \<Rightarrow> emit [call, msg] (dict_del i pend)
                      | None \<Rightarrow> if pend \<noteq> [] then Inl (AssertionError ''Found pending tool calls but not found in pending list'')
                                else emit [msg] pend))
              else if pend \<noteq> [] then Inl (AssertionError ''Found pending tool calls'')
              else emit [msg] pend)
      | (Inl e, _) \<Rightarrow> Inl e
      | (_, Inl e) \<Rightarrow> Inl e)"

definition convert_from_multiple_tool_calls_to_single_tool_call_messages ::
  "data list \<Rightarrow> bool \<Rightarrow> (data list) res" where
  "convert_from_multiple_tool_calls_to_single_tool_call_messages messages ignore_final_tool_result =
     single_calls ignore_final_tool_result messages []"

end
