(* ===== verification/Fn_Call_Laws.thy ===== *)
theory Fn_Call_Laws
  imports Fn_Call
begin

text \<open>
  Laws of the text format of function calls: what the searches find, that a printed call is read
  back, and what the validation of parameters accepts.
\<close>

section \<open>Searching\<close>

text \<open>
  A marker is a pattern whose first character does not occur in its rest, as all the tags of this
  format are.  It occurs in a text only where its first character stands, so a text without
  it stays without it when the next text begins with that character.
\<close>

fun marker :: "string \<Rightarrow> bool" where
  "marker [] = False"
| "marker (c # p) = (c \<notin> set p)"

lemma markers [simp]: "marker FN_OPEN" "marker FN_CLOSE" "marker PARAM_OPEN" "marker PARAM_CLOSE"
  by (simp_all add: FN_OPEN_def FN_CLOSE_def PARAM_OPEN_def PARAM_CLOSE_def)

lemma find_sub_None: "p \<noteq> [] \<Longrightarrow> find_sub p s = None \<longleftrightarrow> \<not> contains p s"
  by (induction s) auto

lemma find_sub_skip:
  assumes "\<And>u v. a = u @ v \<Longrightarrow> v \<noteq> [] \<Longrightarrow> \<not> startswith (v @ s) p" "p \<noteq> []"
  shows "find_sub p (a @ s) = map_option (\<lambda>(x, y). (a @ x, y)) (find_sub p s)"
  using assms
proof (induction a)
  case Nil
  show ?case by (cases "find_sub p s") auto
next
  case (Cons c a)
  have "find_sub p (a @ s) = map_option (\<lambda>(x, y). (a @ x, y)) (find_sub p s)"
    using Cons.prems by (intro Cons.IH) (metis append_Cons)+
  then show ?case using Cons.prems(1)[of "[]" "c # a"] by (cases "find_sub p s") auto
qed

lemma find_sub_here: "p \<noteq> [] \<Longrightarrow> find_sub p (p @ s) = Some ([], s)"
  using startswith_append[of p s] by (cases "p @ s") (auto simp del: startswith_append, metis append_eq_conv_conj)

lemma marker_skips:
  \<comment> \<open>a marker does not begin in a text without it, when what follows begins with the marker's first character\<close>
  assumes "marker p" "\<not> contains p a" "hd b = hd p" "a = u @ v" "v \<noteq> []"
  shows "\<not> startswith (v @ b) p"
proof
  assume "startswith (v @ b) p"
  then obtain t where t: "v @ b = p @ t" by (auto simp: startswith_iff)
  obtain c q where p: "p = c # q" using assms(1) by (cases p) auto
  from t consider w where "v = p @ w" | w where "p = v @ w" "w \<noteq> []" "b = w @ t"
    by (auto simp: append_eq_append_conv2) (metis append_Nil2)
  then show False
  proof cases
    case 1
    then show ?thesis using assms(2,4) by (auto simp: contains_iff)
  next
    case 2
    then have "hd w = c" using assms(3) p by (metis hd_append2 list.sel(1))
    moreover have "hd w \<in> set q" using 2 p assms(5) by (cases v) auto
    ultimately show ?thesis using p assms(1) by simp
  qed
qed

lemma find_marker:
  assumes "marker p" "\<not> contains p a"
  shows "find_sub p (a @ p @ s) = Some (a, s)"
proof -
  have p: "p \<noteq> []" using assms(1) by auto
  then have "hd (p @ s) = hd p" by simp
  then show ?thesis
    using find_sub_skip[of a "p @ s" p] marker_skips[OF assms] p by (simp add: find_sub_here)
qed

lemma contains_append_marker:
  assumes "marker p" "hd b = hd p" "contains p (a @ b)"
  shows "contains p a \<or> contains p b"
proof -
  have "p \<noteq> []" using assms(1) by auto
  moreover have "find_sub p (a @ b) \<noteq> None" using calculation assms(3) by (simp add: find_sub_None)
  ultimately show ?thesis
    using find_sub_skip[of a b p] marker_skips[OF assms(1) _ assms(2)] find_sub_None[of p b] by fastforce
qed

lemma contains_drop: "c \<notin> set a \<Longrightarrow> contains (c # p) (a @ b) \<Longrightarrow> contains (c # p) b"
  by (induction a) (auto simp: startswith_iff)

section \<open>Reading a printed call\<close>

definition clean_param :: "(rat \<Rightarrow> string) \<Rightarrow> string \<times> pyval \<Rightarrow> bool" where
  \<comment> \<open>a parameter whose name and text hold no tag\<close>
  "clean_param fl p \<longleftrightarrow>
     (case p of (k, v) \<Rightarrow>
        k \<noteq> [] \<and> CHR ''<'' \<notin> set k \<and> CHR ''>'' \<notin> set k \<and> CHR ''='' \<notin> set k
        \<and> \<not> contains PARAM_OPEN (param_text fl v) \<and> \<not> contains PARAM_CLOSE (param_text fl v)
        \<and> \<not> contains FN_CLOSE (param_text fl v))"

lemma no_tag_before:
  assumes "CHR ''<'' \<notin> set a" "\<not> contains (CHR ''<'' # p) s"
  shows "\<not> contains (CHR ''<'' # p) (a @ s)"
  using assms contains_drop by blast

lemma body_has_no_close:
  "list_all (clean_param fl) d \<Longrightarrow> \<not> contains FN_CLOSE (param_strings fl d)"
proof (induction d)
  case Nil
  show ?case by (simp add: FN_CLOSE_def)
next
  case (Cons x d)
  obtain k v where x: "x = (k, v)" by (cases x)
  let ?t = "param_text fl v"
  have c: "CHR ''<'' \<notin> set k" "\<not> contains FN_CLOSE ?t" using Cons.prems by (auto simp: x clean_param_def)
  have n: "CHR ''='' \<notin> set FN_CLOSE" "nl = [CHR 0x0A]" "CHR 0x0A \<notin> set FN_CLOSE" by (simp_all add: FN_CLOSE_def nl_def)
  have 1: "\<not> contains FN_CLOSE (k @ ''>'' @ ?t)"
    using no_tag_before[of "k @ ''>''" "''/function>''" ?t] c by (simp add: FN_CLOSE_def)
  have 2: "\<not> contains FN_CLOSE ((k @ ''>'' @ ?t) @ PARAM_CLOSE)"
    using contains_append_marker[of FN_CLOSE PARAM_CLOSE "k @ ''>'' @ ?t"] 1
    by (auto simp: FN_CLOSE_def PARAM_CLOSE_def startswith_def)
  have 3: "\<not> contains FN_CLOSE (''<parameter'' @ CHR ''='' # (k @ ''>'' @ ?t) @ PARAM_CLOSE)"
    using contains_break[OF n(1)] 2 by (auto simp: FN_CLOSE_def startswith_def)
  have "\<not> contains FN_CLOSE ((''<parameter='' @ (k @ ''>'' @ ?t) @ PARAM_CLOSE) @ CHR 0x0A # param_strings fl d)"
    using contains_break[OF n(3)] 3 Cons by fastforce
  then show ?case by (simp add: x PARAM_OPEN_def n(2))
qed

lemma normalize_Cons:
  "normalize_parameter_tags (c # t) =
     (case malformed_at (c # t) of
        Some (a, b, r) \<Rightarrow> PARAM_OPEN @ a @ ''>'' @ b @ PARAM_CLOSE @ normalize_parameter_tags r
      | None \<Rightarrow> c # normalize_parameter_tags t)"
  by (subst normalize_parameter_tags.simps) simp

lemma normalize_skip:
  assumes "\<And>u v. a = u @ v \<Longrightarrow> v \<noteq> [] \<Longrightarrow> \<not> startswith (v @ s) PARAM_OPEN"
  shows "normalize_parameter_tags (a @ s) = a @ normalize_parameter_tags s"
  using assms
proof (induction a)
  case (Cons c a)
  have "normalize_parameter_tags (a @ s) = a @ normalize_parameter_tags s"
    using Cons.prems by (intro Cons.IH) (metis append_Cons)
  then show ?case using Cons.prems[of "[]" "c # a"] by (simp add: normalize_Cons malformed_at_def)
qed simp

lemma takeWhile_word: "CHR ''='' \<notin> set k \<Longrightarrow> r = dropWhile is_word_char (k @ CHR ''>'' # t) \<Longrightarrow> hd r \<noteq> CHR ''=''"
  by (induction k) (auto simp: is_word_char_def)

lemma normalize_tail: "normalize_parameter_tags (PARAM_CLOSE @ nl @ t) = PARAM_CLOSE @ nl @ normalize_parameter_tags t"
  by (simp add: PARAM_CLOSE_def nl_def normalize_Cons malformed_at_def PARAM_OPEN_def startswith_def)

lemma normalize_body_append:
  "list_all (clean_param fl) d \<Longrightarrow> normalize_parameter_tags (param_strings fl d @ e) = param_strings fl d @ normalize_parameter_tags e"
proof (induction d)
  case Nil
  show ?case by simp
next
  case (Cons x d)
  obtain k v where x: "x = (k, v)" by (cases x)
  let ?t = "param_text fl v" and ?r = "PARAM_CLOSE @ nl @ param_strings fl d @ e"
  let ?a = "''parameter='' @ k @ ''>'' @ ?t"
  have c: "CHR ''<'' \<notin> set k" "CHR ''='' \<notin> set k" "\<not> contains PARAM_OPEN ?t"
    using Cons.prems by (auto simp: x clean_param_def)
  have na: "\<not> contains PARAM_OPEN ?a"
    using no_tag_before[of "''parameter='' @ k @ ''>''" "''parameter=''" ?t] c by (simp add: PARAM_OPEN_def)
  have hr: "hd ?r = hd PARAM_OPEN" by (simp add: PARAM_OPEN_def PARAM_CLOSE_def)
  have "normalize_parameter_tags (?a @ ?r) = ?a @ normalize_parameter_tags ?r"
    by (rule normalize_skip, rule marker_skips[OF markers(3) na hr])
  moreover have "malformed_at (CHR ''<'' # ?a @ ?r) = None"
    using takeWhile_word[OF c(2) refl, of "?t @ ?r"] by (simp add: malformed_at_def PARAM_OPEN_def startswith_def Let_def)
  ultimately have "normalize_parameter_tags (CHR ''<'' # ?a @ ?r) =
      CHR ''<'' # ?a @ PARAM_CLOSE @ nl @ param_strings fl d @ normalize_parameter_tags e"
    using Cons by (simp add: normalize_Cons normalize_tail)
  then show ?case by (simp add: x PARAM_OPEN_def)
qed

lemma normalize_Nil [simp]: "normalize_parameter_tags [] = []"
  by (subst normalize_parameter_tags.simps) simp

lemma normalize_body: "list_all (clean_param fl) d \<Longrightarrow> normalize_parameter_tags (param_strings fl d) = param_strings fl d"
  using normalize_body_append[of fl d "[]"] by simp

lemma param_matches_Cons:
  "param_matches (c # t) =
     (case param_match_at (c # t) of Some (a, b, r) \<Rightarrow> (a, b) # param_matches r | None \<Rightarrow> param_matches t)"
  by (subst param_matches.simps) simp

lemma takeWhile_name:
  "CHR ''>'' \<notin> set k \<Longrightarrow> takeWhile (\<lambda>c. c \<noteq> CHR ''>'') (k @ CHR ''>'' # t) = k"
  "CHR ''>'' \<notin> set k \<Longrightarrow> dropWhile (\<lambda>c. c \<noteq> CHR ''>'') (k @ CHR ''>'' # t) = CHR ''>'' # t"
  by (induction k) auto

lemma body_matches_append:
  "list_all (clean_param fl) d \<Longrightarrow>
   param_matches (param_strings fl d @ e) = map (\<lambda>(k, v). (k, param_text fl v)) d @ param_matches e"
proof (induction d)
  case Nil
  show ?case by simp
next
  case (Cons x d)
  obtain k v where x: "x = (k, v)" by (cases x)
  let ?t = "param_text fl v"
  have c: "k \<noteq> []" "CHR ''>'' \<notin> set k" "\<not> contains PARAM_CLOSE ?t" using Cons.prems by (auto simp: x clean_param_def)
  have "param_match_at (param_strings fl (x # d) @ e) = Some (k, ?t, nl @ param_strings fl d @ e)"
    using c(1) by (simp add: x param_match_at_def Let_def takeWhile_name[OF c(2)] find_marker[OF _ c(3)])
  moreover have "param_matches (nl @ param_strings fl d @ e) = param_matches (param_strings fl d @ e)"
    by (simp add: nl_def param_matches_Cons param_match_at_def PARAM_OPEN_def startswith_def)
  moreover obtain y ys where "param_strings fl (x # d) @ e = y # ys" by (simp add: x PARAM_OPEN_def)
  ultimately show ?case using Cons param_matches_Cons[of y ys] by (simp add: x)
qed

lemma param_matches_Nil [simp]: "param_matches [] = []"
  by (subst param_matches.simps) simp

lemma body_matches:
  "list_all (clean_param fl) d \<Longrightarrow> param_matches (param_strings fl d) = map (\<lambda>(k, v). (k, param_text fl v)) d"
  using body_matches_append[of fl d "[]"] by simp

lemma fn_search_skip:
  assumes "\<And>u v. a = u @ v \<Longrightarrow> v \<noteq> [] \<Longrightarrow> \<not> startswith (v @ s) FN_OPEN"
  shows "fn_search (a @ s) = fn_search s"
  using assms
proof (induction a)
  case (Cons c a)
  have "fn_search (a @ s) = fn_search s" using Cons.prems by (intro Cons.IH) (metis append_Cons)
  then show ?case using Cons.prems[of "[]" "c # a"] by (simp add: fn_match_at_def)
qed simp

lemma fn_search_call:
  assumes "\<not> contains FN_OPEN a" "name \<noteq> []" "CHR ''>'' \<notin> set name" "\<not> contains FN_CLOSE body"
  shows "fn_search (a @ FN_OPEN @ name @ ''>'' @ nl @ body @ FN_CLOSE @ r) = Some (name, body)"
proof -
  let ?s = "FN_OPEN @ name @ ''>'' @ nl @ body @ FN_CLOSE @ r"
  have "fn_search (a @ ?s) = fn_search ?s"
    by (rule fn_search_skip, rule marker_skips[OF markers(1) assms(1)]) (simp_all add: FN_OPEN_def)
  moreover have "fn_match_at ?s = Some (name, body)"
    using assms(2) by (simp add: fn_match_at_def Let_def takeWhile_name[OF assms(3)] find_marker[OF _ assms(4)] startswith_def nl_def)
  moreover obtain y ys where "?s = y # ys" by (simp add: FN_OPEN_def)
  ultimately show ?thesis by simp
qed

lemma strip_dropWhile: "strip (dropWhile is_space s) = strip s"
  by (simp add: strip_def)

lemma strip_append_space:
  assumes "\<forall>c\<in>set t. is_space c" shows "strip (s @ t) = strip s"
proof (cases "\<forall>c\<in>set s. is_space c")
  case True
  then have "dropWhile is_space (s @ t) = []" "dropWhile is_space s = []"
    using assms by (simp_all only: dropWhile_eq_Nil_conv) auto
  then show ?thesis by (simp only: strip_def)
next
  case False
  then have "dropWhile is_space (s @ t) = dropWhile is_space s @ t" by (auto simp: dropWhile_append)
  moreover have "dropWhile is_space (rev t @ u) = dropWhile is_space u" for u
    using assms by (simp add: dropWhile_append)
  ultimately show ?thesis by (simp add: strip_def)
qed

lemma lstrip_before:
  "\<not> is_space c \<Longrightarrow> lstrip (a @ c # s) = dropWhile is_space a @ c # s"
  by (induction a) (auto simp: lstrip_def)

lemma contains_dropWhile: "\<not> contains p a \<Longrightarrow> \<not> contains p (dropWhile P a)"
  using contains_mono[of p "dropWhile P a" "takeWhile P a" "[]"] by auto

lemma fix_stopword_call:
  "\<exists>r. fix_stopword (a @ FN_CLOSE) = a @ FN_CLOSE @ r"
proof -
  have "\<not> endswith (a @ FN_CLOSE) ''</''"
    by (simp add: endswith_def FN_CLOSE_def)
  then show ?thesis by (cases "count_sub FN_OPEN (a @ FN_CLOSE) = 1") (auto simp: fix_stopword_def)
qed

section \<open>Parameters of a schema\<close>

definition fits :: "pyval \<Rightarrow> pyval \<Rightarrow> bool" where
  \<comment> \<open>values that a parameter of the given type can carry through text\<close>
  "fits t v =
     (if t = PStr ''integer'' then (case v of PInt _ \<Rightarrow> True | _ \<Rightarrow> False)
      else if t = PStr ''array'' then (case v of PList _ \<Rightarrow> plain v | _ \<Rightarrow> False)
      else (case v of PStr _ \<Rightarrow> True | _ \<Rightarrow> False))"

definition in_enum :: "pyval \<Rightarrow> pyval \<Rightarrow> bool" where
  "in_enum info v = (case enum_of info of None \<Rightarrow> True | Some vs \<Rightarrow> list_ex (val_eq v) vs)"

definition accepts :: "data \<Rightarrow> string \<times> pyval \<Rightarrow> bool" where
  \<comment> \<open>the schema of the function has the parameter and admits the value\<close>
  "accepts fn p =
     (case p of (k, v) \<Rightarrow>
        case properties fn of
          None \<Rightarrow> False
        | Some d \<Rightarrow> (case map_of d k of
                       None \<Rightarrow> False
                     | Some info \<Rightarrow> fits (info_get ''type'' info (PStr ''string'')) v \<and> in_enum info v))"

lemma param_info_properties:
  "properties fn = Some d \<Longrightarrow> param_info fn k = (case map_of d k of Some v \<Rightarrow> Inr v | None \<Rightarrow> Inl (KeyError k))"
  by (auto simp: properties_def schema_def param_info_def get_key_def item_key_def split: option.splits pyval.splits)

lemma convert_fits:
  assumes "param_type fn k = Some t" "fits t v"
  shows "convert_param fn k (param_text fl v) = Inr v"
  using assms json_round_trip[of v fl]
  by (auto simp: fits_def convert_param_def param_text_def split: if_splits pyval.splits)

lemma collect_accepted:
  "list_all (accepts fn) d \<Longrightarrow> distinct (map fst (acc @ d)) \<Longrightarrow>
   collect_params fn (map (\<lambda>(k, v). (k, param_text fl v)) d) acc = Inr (acc @ d)"
proof (induction d arbitrary: acc)
  case (Cons x d)
  obtain k v where x: "x = (k, v)" by (cases x)
  obtain ps info where p: "properties fn = Some ps" "map_of ps k = Some info"
    "fits (info_get ''type'' info (PStr ''string'')) v" "in_enum info v"
    using Cons.prems(1) by (auto simp: x accepts_def split: option.splits)
  have "dict_set k v acc = acc @ [(k, v)]"
    using Cons.prems(2) by (induction acc) (auto simp: x)
  moreover have "collect_params fn (map (\<lambda>(k, v). (k, param_text fl v)) d) (acc @ [(k, v)]) = Inr ((acc @ [(k, v)]) @ d)"
    using Cons.prems by (intro Cons.IH) (auto simp: x)
  moreover have "convert_param fn k (param_text fl v) = Inr v"
    using p by (intro convert_fits[of _ _ "info_get ''type'' info (PStr ''string'')"]) (simp_all add: param_type_def)
  moreover have "allowed_param fn k" using p by (simp add: allowed_param_def dict_has_def)
  ultimately show ?case
    using p by (auto simp: x param_info_properties in_enum_def split: option.splits)
qed simp

lemma extract_accepted:
  assumes "list_all (accepts fn) d" "distinct (map fst d)" "set (required fn) \<subseteq> PStr ` set (map fst d)"
  shows "extract_and_validate_params fn (map (\<lambda>(k, v). (k, param_text fl v)) d) = Inr d"
proof -
  have "map fst (map (\<lambda>(k, v). (k, param_text fl v)) d) = map fst d" by auto
  moreover have "collect_params fn (map (\<lambda>(k, v). (k, param_text fl v)) d) [] = Inr d"
    using collect_accepted[of fn d "[]" fl] assms by simp
  moreover have "\<not> list_ex (\<lambda>r. r \<notin> PStr ` set (map fst d)) (required fn)"
    using assms(3) by (auto simp: list_ex_iff)
  ultimately show ?thesis unfolding extract_and_validate_params_def by simp
qed

end
