(* ===== verification/Fn_Call_Properties.thy ===== *)
theory Fn_Call_Properties
  imports Fn_Call_Laws
begin

text \<open>
  The properties of the function call converter: a call and its result survive the way through
  text, validated parameters follow the schema, and messages with several calls are split into
  one message per call.
\<close>

section \<open>Calls through text\<close>

definition call_of :: "string \<Rightarrow> string \<Rightarrow> string \<Rightarrow> data" where
  \<comment> \<open>a tool call as \<^verbatim>\<open>Message._add_tool_call_keys\<close> writes it\<close>
  "call_of i name args =
     [(''id'', PStr i), (''type'', PStr ''function''),
      (''function'', PDict [(''name'', PStr name), (''arguments'', PStr args)])]"

definition calling :: "string \<Rightarrow> data \<Rightarrow> data" where
  "calling s call = message_of ''assistant'' (PStr s) @ [(''tool_calls'', PList [PDict call])]"

definition result_of :: "string \<Rightarrow> string \<Rightarrow> string \<Rightarrow> data" where
  "result_of i name s =
     [(''role'', PStr ''tool''), (''name'', PStr name), (''content'', PStr s), (''tool_call_id'', PStr i)]"

lemma call_to_text:
  assumes "plain (PDict d)"
  shows "convert_assistant fl (calling s (call_of i name (json_dumps fl (PDict d)))) (PStr s) =
    Inr (PStr (dropWhile is_space (s @ nl @ nl) @ FN_OPEN @ name @ ''>'' @ nl @ param_strings fl d @ FN_CLOSE))"
proof -
  have "lstrip ((s @ nl @ nl) @ CHR ''<'' # t) = dropWhile is_space (s @ nl @ nl) @ CHR ''<'' # t" for t
    by (rule lstrip_before) (simp add: is_space_def)
  then show ?thesis
    using json_round_trip[OF assms, of fl]
    by (simp add: convert_assistant_def calling_def message_of_def call_of_def convert_tool_call_to_string_def
        dict_has_def item_key_def get_key_def edit_last_def FN_OPEN_def)
qed

lemma call_from_text:
  assumes tool: "find_tool name tools = Inr (Some fn)"
    and name: "name \<noteq> []" "CHR ''>'' \<notin> set name"
    and args: "list_all (accepts fn) d" "distinct (map fst d)" "set (required fn) \<subseteq> PStr ` set (map fst d)"
      "list_all (clean_param (float_text T)) d"
    and no_call: "\<not> contains FN_OPEN a"
  shows "assistant_from_text T tools n msg (PStr (a @ FN_OPEN @ name @ ''>'' @ nl @ param_strings (float_text T) d @ FN_CLOSE)) =
    Inr (n + 1, calling (strip a) ((''index'', PInt 1) # call_of (tool_call_name n) name (json_dumps (float_text T) (PDict d))))"
proof -
  let ?P = "param_strings (float_text T) d"
  define s where "s = a @ FN_OPEN @ name @ ''>'' @ nl @ ?P @ FN_CLOSE"
  obtain r where r: "fix_stopword s = s @ r"
    using fix_stopword_call[of "a @ FN_OPEN @ name @ ''>'' @ nl @ ?P"] by (auto simp: s_def)
  have search: "fn_search (s @ r) = Some (name, ?P)"
    using fn_search_call[OF no_call name body_has_no_close[OF args(4)], of r] by (simp add: s_def)
  have call: "tool_call_of T tools n name ?P =
      Inr (PDict ((''index'', PInt 1) # call_of (tool_call_name n) name (json_dumps (float_text T) (PDict d))))"
    using extract_accepted[OF args(1-3)]
    by (simp add: tool_call_of_def tool normalize_body[OF args(4)] body_matches[OF args(4)] call_of_def)
  have rest: "before FN_OPEN (s @ r) = a" by (simp add: s_def before_def find_marker[OF markers(1) no_call])
  have "assistant_from_text T tools n msg (PStr s) =
      Inr (n + 1, calling (strip a) ((''index'', PInt 1) # call_of (tool_call_name n) name (json_dumps (float_text T) (PDict d))))"
    by (simp add: assistant_from_text_def edit_last_text_def last_call_def r search call rest calling_def message_of_def
        del: json_dumps.simps)
  then show ?thesis unfolding s_def .
qed

lemma result_through_text:
  assumes "\<not> contains ('']:'' @ nl) name"
  shows "user_from_text example n False (PStr (''EXECUTION RESULT of ['' @ name @ '']:'' @ nl @ s)) =
    Inr (result_of (tool_call_name (n - 1)) name (strip s))"
proof -
  have m: "marker ('']:'' @ nl)" by (simp add: nl_def)
  have "tool_result_search (''EXECUTION RESULT of ['' @ name @ '']:'' @ nl @ s) = Some (name, s)"
    using find_sub_here[of "''EXECUTION RESULT of [''" "name @ '']:'' @ nl @ s"] find_marker[OF m assms, of s]
    by (simp add: tool_result_search_def)
  then show ?thesis by (simp add: user_from_text_def result_of_def)
qed

text \<open>
  C14: an assistant message with one call, followed by the result of the call, is written as text
  and read back with the same function name and the same arguments; both texts lose only their surrounding white
  space, and the result is tied to the call by the identifier that the reader numbers it with.  This holds for calls that the schema
  accepts, whose strings hold none of the tags of the format and whose text does not announce
  another call.
\<close>
theorem call_and_result_survive_text:
  assumes "find_tool name tools = Inr (Some fn)" "name \<noteq> []" "CHR ''>'' \<notin> set name" "\<not> contains ('']:'' @ nl) name"
    and "list_all (accepts fn) d" "set (required fn) \<subseteq> PStr ` set (map fst d)" "plain (PDict d)"
    and "list_all (clean_param (float_text T)) d" "\<not> contains FN_OPEN s"
  shows "\<exists>ts. to_text T sfx example False
      [calling s (call_of i name (json_dumps (float_text T) (PDict d))), result_of i name r] = Inr ts \<and>
    from_text T tools sfx example n False ts =
      Inr [calling (strip s) ((''index'', PInt 1) # call_of (tool_call_name n) name (json_dumps (float_text T) (PDict d))),
           result_of (tool_call_name n) name (strip r)]"
proof -
  let ?a = "dropWhile is_space (s @ nl @ nl)" and ?args = "json_dumps (float_text T) (PDict d)"
  let ?t = "?a @ FN_OPEN @ name @ ''>'' @ nl @ param_strings (float_text T) d @ FN_CLOSE"
  let ?u = "''EXECUTION RESULT of ['' @ name @ '']:'' @ nl @ r"
  have sp: "strip ?a = strip s" by (simp add: strip_dropWhile strip_append_space nl_def is_space_def)
  have nl: "\<not> contains FN_OPEN (s @ nl @ nl)"
    using contains_break[of "CHR 0x0A" FN_OPEN s "[CHR 0x0A]"] assms(9) by (auto simp: FN_OPEN_def nl_def startswith_def)
  have d: "distinct (map fst d)" using assms(7) by simp
  have "assistant_from_text T tools n (message_of ''assistant'' (PStr ?t)) (PStr ?t) =
      Inr (n + 1, calling (strip s) ((''index'', PInt 1) # call_of (tool_call_name n) name ?args))"
    using call_from_text[OF assms(1-3,5) d assms(6,8) contains_dropWhile[OF nl, of is_space]] unfolding sp .
  moreover have "user_from_text example (n + 1) False (PStr ?u) = Inr (result_of (tool_call_name n) name (strip r))"
    using result_through_text[OF assms(4), of example "n + 1" r] by simp
  moreover have "to_text T sfx example False [calling s (call_of i name ?args), result_of i name r] =
      Inr [message_of ''assistant'' (PStr ?t), message_of ''user'' (PStr ?u)]"
    using call_to_text[OF assms(7), of "float_text T" s i name]
    by (simp add: get_key_def calling_def result_of_def message_of_def convert_tool_result_def dict_has_def)
  moreover have "or_empty (PStr ?t) = PStr ?t" "or_empty (PStr ?u) = PStr ?u" by (simp_all add: or_empty_def truthy_def FN_OPEN_def)
  ultimately show ?thesis
    by (simp add: get_key_def message_of_def del: json_dumps.simps append.simps append_assoc)
qed

definition bash_tool :: data where
  \<comment> \<open>the schema of a shell tool with an optional integer and an optional list\<close>
  "bash_tool =
     [(''name'', PStr ''execute_bash''), (''description'', PStr ''Execute a command''),
      (''parameters'', PDict
         [(''type'', PStr ''object''),
          (''properties'', PDict
             [(''command'', PDict [(''type'', PStr ''string'')]),
              (''timeout'', PDict [(''type'', PStr ''integer'')]),
              (''mode'', PDict [(''type'', PStr ''string''), (''enum'', PList [PStr ''fast'', PStr ''slow''])]),
              (''paths'', PDict [(''type'', PStr ''array'')])]),
          (''required'', PList [PStr ''command''])])]"

definition bash_tools :: "data list" where
  "bash_tools = [[(''type'', PStr ''function''), (''function'', PDict bash_tool)]]"

definition linux :: fn_env where
  "linux = \<lparr>win32 = False, float_text = (\<lambda>r. ''0.5'')\<rparr>"

theorem call_and_result_survive_text_witness:
  "\<exists>ts. to_text linux [] (Inr []) False
      [calling ''Listing.'' (call_of ''c1'' ''execute_bash''
         (json_dumps (float_text linux) (PDict [(''command'', PStr ''ls''), (''timeout'', PInt 5), (''paths'', PList [PInt 1])]))),
       result_of ''c1'' ''execute_bash'' ''ok''] = Inr ts \<and>
    from_text linux bash_tools [] (Inr []) 3 False ts =
      Inr [calling (strip ''Listing.'') ((''index'', PInt 1) # call_of (tool_call_name 3) ''execute_bash''
             (json_dumps (float_text linux) (PDict [(''command'', PStr ''ls''), (''timeout'', PInt 5), (''paths'', PList [PInt 1])]))),
           result_of (tool_call_name 3) ''execute_bash'' (strip ''ok'')]"
proof (rule call_and_result_survive_text[of _ _ bash_tool])
  show "find_tool ''execute_bash'' bash_tools = Inr (Some bash_tool)" by code_simp
  show "list_all (accepts bash_tool) [(''command'', PStr ''ls''), (''timeout'', PInt 5), (''paths'', PList [PInt 1])]" by code_simp
  show "set (required bash_tool) \<subseteq> PStr ` set (map fst [(''command'', PStr ''ls''), (''timeout'', PInt 5), (''paths'', PList [PInt 1])])"
    by code_simp
  show "list_all (clean_param (float_text linux)) [(''command'', PStr ''ls''), (''timeout'', PInt 5), (''paths'', PList [PInt 1])]"
    by code_simp
  show "\<not> contains ('']:'' @ nl) ''execute_bash''" "\<not> contains FN_OPEN ''Listing.''" by code_simp+
qed simp_all

section \<open>Parameters\<close>

definition conforms :: "data \<Rightarrow> string \<times> pyval \<Rightarrow> bool" where
  \<comment> \<open>what validation promises of a parameter: it is in the schema, an integer is an integer, a value of any other
    type but \<^verbatim>\<open>array\<close> is a string, and an enumeration holds the value\<close>
  "conforms fn p =
     (case p of (k, v) \<Rightarrow>
        case properties fn of
          None \<Rightarrow> False
        | Some d \<Rightarrow>
            (case map_of d k of
               None \<Rightarrow> False
             | Some info \<Rightarrow>
                 in_enum info v \<and>
                 (let t = info_get ''type'' info (PStr ''string'') in
                  if t = PStr ''integer'' then (case v of PInt _ \<Rightarrow> True | _ \<Rightarrow> False)
                  else if t = PStr ''array'' then True
                  else (case v of PStr _ \<Rightarrow> True | _ \<Rightarrow> False))))"

lemma param_info_Inr:
  "param_info fn k = Inr info \<Longrightarrow> \<exists>d. properties fn = Some d \<and> map_of d k = Some info"
  by (auto simp: properties_def schema_def param_info_def get_key_def item_key_def split: option.splits pyval.splits sum.splits)

lemma convert_conforms:
  assumes "convert_param fn k s = Inr v" "param_info fn k = Inr info" "in_enum info v"
  shows "conforms fn (k, v)"
  using assms(1,3) param_info_Inr[OF assms(2)]
  by (auto simp: conforms_def convert_param_def param_type_def Let_def split: if_splits option.splits sum.splits)

lemma set_dict_set: "set (dict_set k v d) \<subseteq> insert (k, v) (set d)"
  by (induction k v d rule: dict_set.induct) auto

lemma collect_conforms:
  "collect_params fn ms acc = Inr params \<Longrightarrow> list_all (conforms fn) acc \<Longrightarrow> distinct (map fst acc) \<Longrightarrow>
   list_all (conforms fn) params \<and> distinct (map fst params) \<and> set (map fst params) = set (map fst acc) \<union> set (map fst ms)"
proof (induction fn ms acc rule: collect_params.induct)
  case (2 fn name s ms acc)
  obtain v info where v: "convert_param fn name s = Inr v" "param_info fn name = Inr info" "allowed_param fn name"
    and e: "in_enum info v" and r: "collect_params fn ms (dict_set name v acc) = Inr params"
    using "2.prems"(1) by (auto simp: in_enum_def split: if_splits sum.splits option.splits)
  have "list_all (conforms fn) (dict_set name v acc)"
    using "2.prems"(2) convert_conforms[OF v(1,2) e] set_dict_set[of name v acc] by (auto simp: list_all_iff)
  moreover have "\<not> (case enum_of info of None \<Rightarrow> False | Some vs \<Rightarrow> \<not> list_ex (val_eq v) vs)"
    using e by (auto simp: in_enum_def split: option.splits)
  ultimately show ?case
    using "2.IH"[OF _ v(1,2) _ r] v(3) "2.prems"(3) set_fst_dict_set[of name v acc]
    by (auto simp del: set_fst_dict_set)
qed simp

lemma extract_conforms:
  assumes "extract_and_validate_params fn ms = Inr params"
  shows "list_all (conforms fn) params \<and> distinct (map fst params) \<and>
    set (map fst params) = set (map fst ms) \<and> set (required fn) \<subseteq> PStr ` set (map fst params)"
proof -
  have c: "collect_params fn ms [] = Inr params"
    and r: "\<not> list_ex (\<lambda>r. r \<notin> PStr ` set (map fst ms)) (required fn)"
    using assms by (auto simp: extract_and_validate_params_def split: sum.splits if_splits)
  have "list_all (conforms fn) params \<and> distinct (map fst params) \<and> set (map fst params) = set (map fst ms)"
    using collect_conforms[OF c] by simp
  then show ?thesis using r by (simp add: list_ex_iff subset_iff)
qed



text \<open>
  A function without parameters (the schema names none) does not reject a parameter with the validation
  error: the look-up of its enumeration fails with a KeyError, which the callers do not expect.
\<close>
lemma parameter_without_schema_is_a_KeyError:
  assumes "map_of fn ''parameters'' = Some (PDict p)" "map_of p ''properties'' = Some (PDict [])"
  shows "extract_and_validate_params fn ((k, s) # ms) = Inl (KeyError k)"
  using assms
  by (simp add: extract_and_validate_params_def allowed_param_def properties_def schema_def convert_param_def
      param_type_def param_info_def get_key_def item_key_def)

text \<open>A parameter of type \<^verbatim>\<open>array\<close> accepts any JSON value, although the rejection says that an array is expected.\<close>
lemma array_parameter_may_be_a_number:
  "extract_and_validate_params bash_tool [(''command'', ''ls''), (''paths'', ''5'')] =
     Inr [(''command'', PStr ''ls''), (''paths'', PInt 5)]"
  by code_simp

section \<open>One call per message\<close>

definition one_call :: "data \<Rightarrow> bool" where
  "one_call m = (case map_of m ''tool_calls'' of Some (PList (_ # _ # _)) \<Rightarrow> False | _ \<Rightarrow> True)"

definition single :: "data \<Rightarrow> bool" where
  \<comment> \<open>an assistant message carries at most one call\<close>
  "single m \<longleftrightarrow> map_of m ''role'' = Some (PStr ''assistant'') \<longrightarrow> one_call m"

lemma split_calls_single:
  "split_calls body first cs pend = Inr pend' \<Longrightarrow> \<forall>m\<in>snd ` set pend. single m \<Longrightarrow> \<forall>m\<in>snd ` set pend'. single m"
proof (induction body first cs pend rule: split_calls.induct)
  case (2 body first c cs pend)
  obtain i where i: "item_key ''id'' c = Inr i" using "2.prems"(1) by (auto split: sum.splits)
  let ?m = "message_of ''assistant'' (if first then body else PStr []) @ [(''tool_calls'', PList [c])]"
  have "single ?m" by (simp add: single_def one_call_def message_of_def)
  then have "\<forall>m\<in>snd ` set (dict_set i ?m pend). single m"
    using "2.prems"(2) set_dict_set[of i ?m pend] by auto
  then show ?case using "2.IH"[OF i] "2.prems"(1) i by simp
qed simp

lemma dict_del_subset: "set (dict_del k d) \<subseteq> set d"
  by (auto simp: dict_del_def)

lemma emitted:
  "(case x of Inl e \<Rightarrow> Inl e | Inr ms \<Rightarrow> Inr (a @ ms)) = Inr out \<Longrightarrow> \<exists>ms. x = Inr ms \<and> out = a @ ms"
  by (auto split: sum.splits)

lemma single_calls_single:
  "single_calls ig ms pend = Inr out \<Longrightarrow> \<forall>m\<in>snd ` set pend. single m \<Longrightarrow> \<forall>m\<in>set out. single m"
proof (induction ms arbitrary: pend out)
  case Nil
  then show ?case by (auto split: if_splits)
next
  case (Cons msg ms)
  obtain role body where rb: "get_key ''role'' msg = Inr role" "get_key ''content'' msg = Inr body"
    using Cons.prems(1) by (auto split: sum.splits)
  have m: "map_of msg ''role'' = Some role" using rb(1) by (auto simp: get_key_def split: option.splits)
  have IH: "\<forall>m\<in>set out. single m"
    if "(case single_calls ig ms pend' of Inl e \<Rightarrow> Inl e | Inr ms' \<Rightarrow> Inr (a @ ms')) = Inr out"
      "\<forall>m\<in>snd ` set pend'. single m" "\<forall>m\<in>set a. single m" for a pend'
    using emitted[OF that(1)] Cons.IH that(2,3) by fastforce
  note s = Cons.prems(1)[simplified rb single_calls.simps sum.case prod.case Let_def]
  consider (as) "role = PStr ''assistant''" | (tool) "role = PStr ''tool''" | (other) "role \<noteq> PStr ''assistant''" "role \<noteq> PStr ''tool''"
    by blast
  then show ?case
  proof cases
    case as
    show ?thesis
    proof (cases "one_call msg")
      case True
      then have "(case single_calls ig ms pend of Inl e \<Rightarrow> Inl e | Inr ms' \<Rightarrow> Inr ([msg] @ ms')) = Inr out"
        using s as by (auto simp: one_call_def split: option.splits pyval.splits list.splits)
      then show ?thesis using IH[of "[msg]" pend] True Cons.prems(2) by (simp add: single_def)
    next
      case False
      then obtain c c' cs where "map_of msg ''tool_calls'' = Some (PList (c # c' # cs))"
        by (auto simp: one_call_def split: option.splits pyval.splits list.splits)
      then obtain pend' where p: "split_calls body True (c # c' # cs) pend = Inr pend'"
        and q: "(case single_calls ig ms pend' of Inl e \<Rightarrow> Inl e | Inr ms' \<Rightarrow> Inr ([] @ ms')) = Inr out"
        using s as by (auto split: sum.splits simp del: split_calls.simps)
      show ?thesis using IH[OF q] split_calls_single[OF p Cons.prems(2)] by simp
    qed
  next
    case tool
    have sm: "single msg" using m tool by (simp add: single_def)
    obtain i where i: "get_key ''tool_call_id'' msg = Inr i" using s tool by (auto split: sum.splits)
    show ?thesis
    proof (cases "map_of pend i")
      case None
      then have "(case single_calls ig ms pend of Inl e \<Rightarrow> Inl e | Inr ms' \<Rightarrow> Inr ([msg] @ ms')) = Inr out"
        using s tool i by (auto split: if_splits)
      then show ?thesis using IH[of "[msg]" pend] sm Cons.prems(2) by simp
    next
      case (Some call)
      have c: "single call" using map_of_SomeD[OF Some] Cons.prems(2) by (metis imageI snd_conv)
      have q: "(case single_calls ig ms (dict_del i pend) of Inl e \<Rightarrow> Inl e | Inr ms' \<Rightarrow> Inr ([call, msg] @ ms')) = Inr out"
        using s by (simp add: tool i Some)
      have d: "\<forall>m\<in>snd ` set (dict_del i pend). single m" using Cons.prems(2) dict_del_subset[of i pend] by auto
      show ?thesis by (rule IH[OF q d]) (simp add: c sm)
    qed
  next
    case other
    have sm: "single msg" using m other by (simp add: single_def)
    have q: "(case single_calls ig ms pend of Inl e \<Rightarrow> Inl e | Inr ms' \<Rightarrow> Inr ([msg] @ ms')) = Inr out"
      using s other by (auto split: if_splits)
    show ?thesis by (rule IH[OF q Cons.prems(2)]) (simp add: sm)
  qed
qed

definition is_result :: "pyval \<Rightarrow> data \<Rightarrow> bool" where
  "is_result i m \<longleftrightarrow> get_key ''role'' m = Inr (PStr ''tool'') \<and> get_key ''tool_call_id'' m = Inr i \<and> dict_has ''content'' m"

definition answered :: "(pyval, data) dict \<Rightarrow> (pyval \<times> data) list \<Rightarrow> data list" where
  \<comment> \<open>every result after the message of its call\<close>
  "answered pend rs = concat (map (\<lambda>(i, r). [the (map_of pend i), r]) rs)"

lemma results_find_their_calls:
  "\<forall>(i, r)\<in>set rs. is_result i r \<Longrightarrow> distinct (map fst rs) \<Longrightarrow> set (map fst rs) \<subseteq> fst ` set pend \<Longrightarrow>
   single_calls ig (map snd rs @ rest) pend =
     (case single_calls ig rest (filter (\<lambda>p. fst p \<notin> fst ` set rs) pend) of
        Inl e \<Rightarrow> Inl e | Inr out \<Rightarrow> Inr (answered pend rs @ out))"
proof (induction rs arbitrary: pend)
  case Nil
  then show ?case by (simp add: answered_def split: sum.splits)
next
  case (Cons x rs)
  obtain i r where x: "x = (i, r)" by (cases x)
  have r: "get_key ''role'' r = Inr (PStr ''tool'')" "get_key ''tool_call_id'' r = Inr i" and hc: "dict_has ''content'' r"
    using Cons.prems(1) by (auto simp: x is_result_def)
  obtain b where b: "get_key ''content'' r = Inr b" using hc by (auto simp: dict_has_def get_key_def)
  obtain call where call: "map_of pend i = Some call"
    using Cons.prems(3) by (auto simp: x) (metis map_of_eq_None_iff not_None_eq image_eqI fst_conv)
  let ?p = "dict_del i pend"
  have "answered ?p rs = answered pend rs"
    using Cons.prems(2) by (force simp: answered_def x intro!: arg_cong[where f = concat])
  moreover have "filter (\<lambda>p. fst p \<notin> fst ` set rs) ?p = filter (\<lambda>p. fst p \<notin> fst ` set (x # rs)) pend"
    by (auto simp: dict_del_def x intro!: filter_cong)
  moreover have "single_calls ig (map snd rs @ rest) ?p =
      (case single_calls ig rest (filter (\<lambda>p. fst p \<notin> fst ` set rs) ?p) of
         Inl e \<Rightarrow> Inl e | Inr out \<Rightarrow> Inr (answered ?p rs @ out))"
  proof (rule Cons.IH)
    show "\<forall>(i, r)\<in>set rs. is_result i r" "distinct (map fst rs)" using Cons.prems by auto
    show "set (map fst rs) \<subseteq> fst ` set ?p"
      using Cons.prems(2,3) by (force simp: dict_del_def x)
  qed
  ultimately show ?case
    by (simp add: x r b call answered_def split: sum.splits)
qed

text \<open>
  After splitting, no assistant message carries more than one tool call.
\<close>
theorem split_messages_have_one_call:
  assumes "convert_from_multiple_tool_calls_to_single_tool_call_messages messages ig = Inr out"
  shows "list_all single out"
  using single_calls_single[of ig messages "[]" out] assms
  by (simp add: convert_from_multiple_tool_calls_to_single_tool_call_messages_def list_all_iff)

definition two_calls :: data where
  "two_calls = message_of ''assistant'' (PStr ''both'') @
     [(''tool_calls'', PList [PDict (call_of ''a'' ''ls'' ''{}''), PDict (call_of ''b'' ''pwd'' ''{}'')])]"

theorem split_messages_have_one_call_witness:
  "list_all single [calling [] (call_of ''b'' ''pwd'' ''{}''), result_of ''b'' ''pwd'' ''/'',
     calling ''both'' (call_of ''a'' ''ls'' ''{}''), result_of ''a'' ''ls'' ''x'']"
proof (rule split_messages_have_one_call)
  show "convert_from_multiple_tool_calls_to_single_tool_call_messages
      [two_calls, result_of ''b'' ''pwd'' ''/'', result_of ''a'' ''ls'' ''x''] False =
    Inr [calling [] (call_of ''b'' ''pwd'' ''{}''), result_of ''b'' ''pwd'' ''/'',
      calling ''both'' (call_of ''a'' ''ls'' ''{}''), result_of ''a'' ''ls'' ''x'']" by code_simp
qed

definition call_message :: "pyval \<Rightarrow> pyval \<times> pyval \<Rightarrow> pyval \<times> data" where
  "call_message body p = (fst p, message_of ''assistant'' body @ [(''tool_calls'', PList [snd p])])"

fun call_messages :: "pyval \<Rightarrow> (pyval \<times> pyval) list \<Rightarrow> (pyval, data) dict" where
  \<comment> \<open>one message per identified call; the first one keeps the text\<close>
  "call_messages body [] = []"
| "call_messages body (p # ps) = call_message body p # map (call_message (PStr [])) ps"

lemma call_message_keys [simp]: "map fst (call_messages body ps) = map fst ps" "fst (call_message body p) = fst p"
  by (cases ps; simp add: call_message_def)+

lemma dict_set_new: "k \<notin> fst ` set d \<Longrightarrow> dict_set k v d = d @ [(k, v)]"
  by (induction k v d rule: dict_set.induct) auto

lemma split_calls_step:
  "item_key ''id'' c = Inr i \<Longrightarrow> i \<notin> fst ` set pend \<Longrightarrow>
   split_calls body first (c # cs) pend =
     split_calls body False cs (pend @ [call_message (if first then body else PStr []) (i, c)])"
  by (simp add: dict_set_new call_message_def)

lemma split_calls_later:
  "\<forall>(i, c)\<in>set cs. item_key ''id'' c = Inr i \<Longrightarrow> distinct (map fst pend @ map fst cs) \<Longrightarrow>
   split_calls body False (map snd cs) pend = Inr (pend @ map (call_message (PStr [])) cs)"
proof (induction cs arbitrary: pend)
  case (Cons x cs)
  obtain i c where x: "x = (i, c)" by (cases x)
  have "item_key ''id'' c = Inr i" "i \<notin> fst ` set pend" using Cons.prems by (auto simp: x)
  then show ?case using Cons split_calls_step[of c i pend body False "map snd cs"] by (simp add: x)
qed simp

lemma split_calls_pending:
  assumes "\<forall>(i, c)\<in>set cs. item_key ''id'' c = Inr i" "distinct (map fst cs)"
  shows "split_calls body True (map snd cs) [] = Inr (call_messages body cs)"
proof (cases cs)
  case (Cons x xs)
  obtain i c where x: "x = (i, c)" by (cases x)
  have "split_calls body True (map snd cs) [] = split_calls body False (map snd xs) [call_message body (i, c)]"
    using split_calls_step[of c i "[]" body True "map snd xs"] assms(1) by (simp add: Cons x)
  then show ?thesis using split_calls_later[of xs "[call_message body (i, c)]" body] assms by (simp add: Cons x)
qed simp

text \<open>
  A message with two or more calls, followed by the results of all of its calls in any order, becomes
  one message per call, each directly followed by its result, in the order of the results; the
  text of the message stays with its first call, and what follows is converted as if nothing had happened.
\<close>
theorem several_calls_are_split_by_their_results:
  assumes "map_of msg ''role'' = Some (PStr ''assistant'')" "map_of msg ''content'' = Some body"
    and "map_of msg ''tool_calls'' = Some (PList (map snd cs))" "2 \<le> length cs"
    and "\<forall>(i, c)\<in>set cs. item_key ''id'' c = Inr i" "distinct (map fst cs)"
    and "\<forall>(i, r)\<in>set rs. is_result i r" "distinct (map fst rs)" "set (map fst rs) = set (map fst cs)"
  shows "convert_from_multiple_tool_calls_to_single_tool_call_messages (msg # map snd rs @ rest) ig =
    (case convert_from_multiple_tool_calls_to_single_tool_call_messages rest ig of
       Inl e \<Rightarrow> Inl e | Inr out \<Rightarrow> Inr (answered (call_messages body cs) rs @ out))"
proof -
  obtain x y zs where cs: "cs = x # y # zs" using assms(4) by (cases cs; cases "tl cs") auto
  have k: "fst ` set (call_messages body cs) = set (map fst cs)" by (metis call_message_keys(1) list.set_map)
  have "single_calls ig (msg # map snd rs @ rest) [] = single_calls ig (map snd rs @ rest) (call_messages body cs)"
    using split_calls_pending[OF assms(5,6), of body] assms(1-3)
    by (simp add: get_key_def cs split: sum.splits)
  moreover have "filter (\<lambda>p. fst p \<notin> fst ` set rs) (call_messages body cs) = []"
    using k assms(9) by (auto simp: filter_empty_conv)
  ultimately show ?thesis
    using results_find_their_calls[OF assms(7,8), of "call_messages body cs" ig rest] k assms(9)
    by (simp add: convert_from_multiple_tool_calls_to_single_tool_call_messages_def)
qed

theorem several_calls_are_split_by_their_results_witness:
  "convert_from_multiple_tool_calls_to_single_tool_call_messages
     (two_calls # map snd [(PStr ''b'', result_of ''b'' ''pwd'' ''/''), (PStr ''a'', result_of ''a'' ''ls'' ''x'')] @ []) False =
   (case convert_from_multiple_tool_calls_to_single_tool_call_messages [] False of
      Inl e \<Rightarrow> Inl e
    | Inr out \<Rightarrow> Inr (answered (call_messages (PStr ''both'')
         [(PStr ''a'', PDict (call_of ''a'' ''ls'' ''{}'')), (PStr ''b'', PDict (call_of ''b'' ''pwd'' ''{}''))])
         [(PStr ''b'', result_of ''b'' ''pwd'' ''/''), (PStr ''a'', result_of ''a'' ''ls'' ''x'')] @ out))"
proof (rule several_calls_are_split_by_their_results)
  show "\<forall>(i, r)\<in>set [(PStr ''b'', result_of ''b'' ''pwd'' ''/''), (PStr ''a'', result_of ''a'' ''ls'' ''x'')]. is_result i r"
    by code_simp
  show "\<forall>(i, c)\<in>set [(PStr ''a'', PDict (call_of ''a'' ''ls'' ''{}'')), (PStr ''b'', PDict (call_of ''b'' ''pwd'' ''{}''))].
      item_key ''id'' c = Inr i" by code_simp
  show "set (map fst [(PStr ''b'', result_of ''b'' ''pwd'' ''/''), (PStr ''a'', result_of ''a'' ''ls'' ''x'')]) =
      set (map fst [(PStr ''a'', PDict (call_of ''a'' ''ls'' ''{}'')), (PStr ''b'', PDict (call_of ''b'' ''pwd'' ''{}''))])" by auto
qed (simp_all add: two_calls_def message_of_def)

text \<open>
  When some call has no result before the conversation ends, the conversion refuses the
  conversation with a conversion error, unless the caller says that the last result is still to
  come; then the calls without a result are left out.
\<close>
theorem unanswered_calls_are_refused:
  assumes "map_of msg ''role'' = Some (PStr ''assistant'')" "map_of msg ''content'' = Some body"
    and "map_of msg ''tool_calls'' = Some (PList (map snd cs))" "2 \<le> length cs"
    and "\<forall>(i, c)\<in>set cs. item_key ''id'' c = Inr i" "distinct (map fst cs)"
    and "\<forall>(i, r)\<in>set rs. is_result i r" "distinct (map fst rs)" "set (map fst rs) \<subset> set (map fst cs)"
  shows "convert_from_multiple_tool_calls_to_single_tool_call_messages (msg # map snd rs) ig =
    (if ig then Inr (answered (call_messages body cs) rs)
     else Inl (FunctionCallConversionError ''Found pending tool calls but no tool result''))"
proof -
  obtain x y zs where cs: "cs = x # y # zs" using assms(4) by (cases cs; cases "tl cs") auto
  have k: "fst ` set (call_messages body cs) = set (map fst cs)" by (metis call_message_keys(1) list.set_map)
  have "single_calls ig (msg # map snd rs) [] = single_calls ig (map snd rs @ []) (call_messages body cs)"
    using split_calls_pending[OF assms(5,6), of body] assms(1-3)
    by (simp add: get_key_def cs split: sum.splits)
  moreover have "filter (\<lambda>p. fst p \<notin> fst ` set rs) (call_messages body cs) \<noteq> []"
  proof
    assume "filter (\<lambda>p. fst p \<notin> fst ` set rs) (call_messages body cs) = []"
    then have "fst ` set (call_messages body cs) \<subseteq> fst ` set rs" by (auto simp: filter_empty_conv)
    then show False using k assms(9) by auto
  qed
  ultimately show ?thesis
    using results_find_their_calls[OF assms(7,8), of "call_messages body cs" ig "[]"] k assms(9)
    by (simp add: convert_from_multiple_tool_calls_to_single_tool_call_messages_def psubset_eq)
qed

theorem unanswered_calls_are_refused_witness:
  "convert_from_multiple_tool_calls_to_single_tool_call_messages
     (two_calls # map snd [(PStr ''b'', result_of ''b'' ''pwd'' ''/'')]) False =
   (if False then Inr (answered (call_messages (PStr ''both'')
         [(PStr ''a'', PDict (call_of ''a'' ''ls'' ''{}'')), (PStr ''b'', PDict (call_of ''b'' ''pwd'' ''{}''))])
         [(PStr ''b'', result_of ''b'' ''pwd'' ''/'')])
    else Inl (FunctionCallConversionError ''Found pending tool calls but no tool result''))"
proof (rule unanswered_calls_are_refused)
  show "\<forall>(i, r)\<in>set [(PStr ''b'', result_of ''b'' ''pwd'' ''/'')]. is_result i r" by code_simp
  show "\<forall>(i, c)\<in>set [(PStr ''a'', PDict (call_of ''a'' ''ls'' ''{}'')), (PStr ''b'', PDict (call_of ''b'' ''pwd'' ''{}''))].
      item_key ''id'' c = Inr i" by code_simp
  show "set (map fst [(PStr ''b'', result_of ''b'' ''pwd'' ''/'')]) \<subset>
      set (map fst [(PStr ''a'', PDict (call_of ''a'' ''ls'' ''{}'')), (PStr ''b'', PDict (call_of ''b'' ''pwd'' ''{}''))])" by auto
qed (simp_all add: two_calls_def message_of_def)

end
