(* ===== verification/Message_Model.thy ===== *)
theory Message_Model
  imports Event_Filter
begin

text \<open>
  Messages for the language model (\<^verbatim>\<open>openhands/core/message.py\<close>, and the flags that
  \<^verbatim>\<open>LLM.format_messages_for_llm\<close> sets): contents, messages with their tool calls, and the two
  serialisations.  A serialised message is a dictionary, in the order in which the code fills it.
\<close>

datatype content_item =
    TextContent (item_text: string) (cache_prompt: bool)
  | ImageContent (image_urls: "string list") (cache_prompt: bool)

fun is_text_content :: "content_item \<Rightarrow> bool" where
  "is_text_content (TextContent _ _) = True"
| "is_text_content (ImageContent _ _) = False"

record tool_call =
  tc_id :: "string option"
  tc_name :: string
  tc_arguments :: string

record msg =
  m_role :: string
  m_content :: "content_item list"
  m_cache_enabled :: bool
  m_vision_enabled :: bool
  m_function_calling_enabled :: bool
  m_tool_calls :: "(tool_call list) option"
  m_tool_call_id :: "string option"
  m_name :: "string option"
  m_force_string_serializer :: bool

definition Message :: "string \<Rightarrow> content_item list \<Rightarrow> msg" where
  \<comment> \<open>\<^verbatim>\<open>Message(role=..., content=...)\<close>\<close>
  "Message role items =
     \<lparr>m_role = role, m_content = items, m_cache_enabled = False, m_vision_enabled = False,
      m_function_calling_enabled = False, m_tool_calls = None, m_tool_call_id = None, m_name = None,
      m_force_string_serializer = False\<rparr>"

definition contains_image :: "msg \<Rightarrow> bool" where
  "contains_image m = list_ex (\<lambda>c. \<not> is_text_content c) (m_content m)"

definition ephemeral :: "string \<times> pyval" where
  "ephemeral = (''cache_control'', PDict [(''type'', PStr ''ephemeral'')])"

definition serialize_text :: "string \<Rightarrow> bool \<Rightarrow> data" where
  "serialize_text s cached = [(''type'', PStr ''text''), (''text'', PStr s)] @ (if cached then [ephemeral] else [])"

fun serialize_images :: "string list \<Rightarrow> bool \<Rightarrow> data list" where
  \<comment> \<open>one item per image; the cache mark goes on the last one\<close>
  "serialize_images [] cached = []"
| "serialize_images (url # urls) cached =
     ([(''type'', PStr ''image_url''), (''image_url'', PDict [(''url'', PStr url)])]
      @ (if cached \<and> urls = [] then [ephemeral] else []))
     # serialize_images urls cached"

definition opt_str :: "string option \<Rightarrow> pyval" where
  "opt_str v = (case v of Some s \<Rightarrow> PStr s | None \<Rightarrow> PNone)"

definition tool_call_dict :: "tool_call \<Rightarrow> pyval" where
  "tool_call_dict c =
     PDict [(''id'', opt_str (tc_id c)), (''type'', PStr ''function''),
            (''function'', PDict [(''name'', PStr (tc_name c)), (''arguments'', PStr (tc_arguments c))])]"

definition add_tool_call_keys :: "msg \<Rightarrow> data \<Rightarrow> data res" where
  "add_tool_call_keys m d =
     (let d1 = (case m_tool_calls m of
                  None \<Rightarrow> d | Some cs \<Rightarrow> d @ [(''tool_calls'', PList (map tool_call_dict cs))])
      in case m_tool_call_id m of
           None \<Rightarrow> Inr d1
         | Some i \<Rightarrow>
             (case m_name m of
                None \<Rightarrow> Inl (AssertionError ''name is required when tool_call_id is not None'')
              | Some n \<Rightarrow> Inr (d1 @ [(''tool_call_id'', PStr i), (''name'', PStr n)])))"

definition string_serializer :: "msg \<Rightarrow> data res" where
  "string_serializer m =
     add_tool_call_keys m
       [(''content'', PStr (join nl (map item_text (filter is_text_content (m_content m))))),
        (''role'', PStr (m_role m))]"

definition list_item :: "msg \<Rightarrow> content_item \<Rightarrow> data list" where
  \<comment> \<open>the items of one content: without cache marks in a tool message, images only with vision\<close>
  "list_item m c =
     (case c of
        TextContent s cached \<Rightarrow> [serialize_text s (cached \<and> m_role m \<noteq> ''tool'')]
      | ImageContent urls cached \<Rightarrow>
          if m_vision_enabled m then serialize_images urls (cached \<and> m_role m \<noteq> ''tool'') else [])"

definition list_serializer :: "msg \<Rightarrow> data res" where
  "list_serializer m =
     add_tool_call_keys m
       ([(''content'', PList (map PDict (concat (map (list_item m) (m_content m))))), (''role'', PStr (m_role m))]
        @ (if m_role m = ''tool'' \<and> list_ex cache_prompt (m_content m) then [ephemeral] else []))"

definition serialize_model :: "msg \<Rightarrow> data res" where
  "serialize_model m =
     (if \<not> m_force_string_serializer m \<and> (m_cache_enabled m \<or> m_vision_enabled m \<or> m_function_calling_enabled m)
      then list_serializer m else string_serializer m)"

record llm_flags =
  caching_prompt_active :: bool
  vision_active :: bool
  function_calling_active :: bool
  llm_model :: string

definition force_string :: "string \<Rightarrow> bool" where
  \<comment> \<open>models that take a single string\<close>
  "force_string model \<longleftrightarrow>
     contains ''deepseek'' model
     \<or> (contains ''kimi-k2-instruct'' model \<and> contains ''groq'' model)
     \<or> contains ''openrouter/anthropic/claude-sonnet-4'' model
     \<or> contains ''openrouter/anthropic/claude-sonnet-4-5-20250929'' model
     \<or> contains ''openrouter/anthropic/claude-haiku-4-5-20251001'' model"

definition set_flags :: "llm_flags \<Rightarrow> msg \<Rightarrow> msg" where
  "set_flags L m =
     m\<lparr>m_cache_enabled := caching_prompt_active L, m_vision_enabled := vision_active L,
       m_function_calling_enabled := function_calling_active L,
       m_force_string_serializer := m_force_string_serializer m \<or> force_string (llm_model L)\<rparr>"

fun serialize_all :: "msg list \<Rightarrow> (data list) res" where
  "serialize_all [] = Inr []"
| "serialize_all (m # ms) =
     (case serialize_model m of
        Inl e \<Rightarrow> Inl e
      | Inr d \<Rightarrow> (case serialize_all ms of Inl e \<Rightarrow> Inl e | Inr ds \<Rightarrow> Inr (d # ds)))"

definition format_messages_for_llm :: "llm_flags \<Rightarrow> msg list \<Rightarrow> (data list) res" where
  "format_messages_for_llm L ms = serialize_all (map (set_flags L) ms)"

end
