(* ===== verification/Conversation_Memory.thy ===== *)
theory Conversation_Memory
  imports Message_Model
begin

text \<open>
  The conversation memory (\<^verbatim>\<open>openhands/memory/conversation_memory.py\<close>): it turns the condensed history into
  the messages for the language model.  Templates (\<^verbatim>\<open>PromptManager\<close>, which renders Jinja files) and the
  texts of events (\<^verbatim>\<open>str(event)\<close> of a dataclass, which includes a diff) are parameters.  A response of
  the model is kept in the tool call metadata of an event as the dictionary of its fields.  Events are
  objects, and processing changes some: the changed events are part of the result.
\<close>

section \<open>Configuration\<close>

record repository_info =
  ri_name :: string
  ri_directory :: string
  ri_branch :: "string option"

record runtime_info =
  rt_date :: string
  rt_hosts :: "(string, pyval) dict"
  rt_instructions :: string
  rt_secrets :: "(string, pyval) dict"
  rt_working_dir :: string

record cm_env =
  system_prompt :: string
  build_workspace_context ::
    "repository_info option \<Rightarrow> runtime_info option \<Rightarrow> string option \<Rightarrow> string \<Rightarrow> string"
  build_microagent_info :: "pyval list \<Rightarrow> string"
  event_str :: "event \<Rightarrow> string"
  disabled_microagents :: "string list"
  enable_prompt_extensions :: bool
  enable_som_visual_browsing :: bool

section \<open>The response in the metadata\<close>

definition field :: "string \<Rightarrow> pyval \<Rightarrow> pyval res" where
  \<comment> \<open>\<^verbatim>\<open>x.name\<close>\<close>
  "field k v =
     (case v of
        PDict d \<Rightarrow> (case map_of d k of Some x \<Rightarrow> Inr x | None \<Rightarrow> Inl (AttributeError k))
      | _ \<Rightarrow> Inl (AttributeError k))"

definition first_choice :: "pyval \<Rightarrow> pyval res" where
  \<comment> \<open>\<^verbatim>\<open>getattr(response.choices[0], 'message')\<close>\<close>
  "first_choice response =
     (case field ''choices'' response of
        Inl e \<Rightarrow> Inl e
      | Inr (PList (c # _)) \<Rightarrow> field ''message'' c
      | Inr (PList []) \<Rightarrow> Inl (IndexError ''list index out of range'')
      | Inr _ \<Rightarrow> Inl (TypeError ''object is not subscriptable''))"

definition read_call :: "pyval \<Rightarrow> tool_call res" where
  "read_call v =
     (case (field ''id'' v, field ''function'' v) of
        (Inr i, Inr f) \<Rightarrow>
          (case (field ''name'' f, field ''arguments'' f) of
             (Inr (PStr n), Inr (PStr a)) \<Rightarrow> Inr \<lparr>tc_id = (case i of PStr s \<Rightarrow> Some s | _ \<Rightarrow> None), tc_name = n, tc_arguments = a\<rparr>
           | (Inl e, _) \<Rightarrow> Inl e
           | (_, Inl e) \<Rightarrow> Inl e
           | _ \<Rightarrow> Inl (ValueError ''validation error for tool call''))
      | (Inl e, _) \<Rightarrow> Inl e
      | (_, Inl e) \<Rightarrow> Inl e)"

fun read_calls :: "pyval list \<Rightarrow> (tool_call list) res" where
  "read_calls [] = Inr []"
| "read_calls (v # vs) =
     (case read_call v of
        Inl e \<Rightarrow> Inl e
      | Inr c \<Rightarrow> (case read_calls vs of Inl e \<Rightarrow> Inl e | Inr cs \<Rightarrow> Inr (c # cs)))"

definition read_tool_calls :: "pyval \<Rightarrow> ((tool_call list) option) res" where
  "read_tool_calls assistant =
     (case field ''tool_calls'' assistant of
        Inl e \<Rightarrow> Inl e
      | Inr PNone \<Rightarrow> Inr None
      | Inr (PList vs) \<Rightarrow> (case read_calls vs of Inl e \<Rightarrow> Inl e | Inr cs \<Rightarrow> Inr (Some cs))
      | Inr _ \<Rightarrow> Inl (ValueError ''validation error for Message''))"

section \<open>Actions\<close>

definition roles :: "string list" where
  "roles = [''user'', ''system'', ''assistant'', ''tool'']"

definition pending_message :: "pyval \<Rightarrow> (string \<times> msg) res" where
  \<comment> \<open>the identifier of the response and the message that made its tool calls\<close>
  "pending_message metadata =
     (case field ''model_response'' metadata of
        Inl e \<Rightarrow> Inl e
      | Inr response \<Rightarrow>
          (case first_choice response of
             Inl e \<Rightarrow> Inl e
           | Inr assistant \<Rightarrow>
               (case (field ''id'' response, field ''content'' assistant, read_tool_calls assistant) of
                  (Inr (PStr rid), Inr body, Inr calls) \<Rightarrow>
                    (let role = (case field ''role'' assistant of Inr (PStr r) \<Rightarrow> r | Inr _ \<Rightarrow> [] | Inl _ \<Rightarrow> ''assistant'')
                     in if role \<notin> set roles then Inl (ValueError ''validation error for Message'')
                        else Inr (rid, (Message role
                               (case body of PStr s \<Rightarrow> (if strip s \<noteq> [] then [TextContent s False] else []) | _ \<Rightarrow> []))
                               \<lparr>m_tool_calls := calls\<rparr>))
                | (Inl e, _, _) \<Rightarrow> Inl e
                | (_, Inl e, _) \<Rightarrow> Inl e
                | (_, _, Inl e) \<Rightarrow> Inl e
                | _ \<Rightarrow> Inl (ValueError ''validation error for Message''))))"

definition tool_action :: "event \<Rightarrow> bool" where
  "tool_action a \<longleftrightarrow>
     ev_class a \<in> {AgentDelegateAction, AgentThinkAction, IPythonRunCellAction, FileEditAction, FileReadAction,
       BrowseInteractiveAction, BrowseURLAction, MCPAction, TaskTrackingAction}
     \<or> (is_a a CmdRunAction \<and> ev_source a = Some AGENT)"

definition source_role :: "event \<Rightarrow> string" where
  "source_role a = (if ev_source a = Some USER then ''user'' else ''assistant'')"

definition finish_thought :: "event \<Rightarrow> event res" where
  \<comment> \<open>the content of the response goes to the thought, and the metadata is removed\<close>
  "finish_thought a =
     (case ev_tool_call_metadata a of
        None \<Rightarrow> Inr a
      | Some md \<Rightarrow>
          (case field ''model_response'' md of
             Inl e \<Rightarrow> Inl e
           | Inr response \<Rightarrow>
               (case first_choice response of
                  Inl e \<Rightarrow> Inl e
                | Inr assistant \<Rightarrow>
                    (case field ''content'' assistant of
                       Inl e \<Rightarrow> Inl e
                     | Inr body \<Rightarrow>
                         (let s = (case body of PStr x \<Rightarrow> x | _ \<Rightarrow> []); t = str_attr a ''thought'';
                              t' = (if t = [] then s else if t \<noteq> s then t @ nl @ s else t)
                          in Inr ((setattr ''thought'' (PStr t') a)\<lparr>ev_tool_call_metadata := None\<rparr>))))))"

fun strings_of :: "pyval list \<Rightarrow> string list" where
  "strings_of [] = []"
| "strings_of (v # vs) = (case v of PStr s \<Rightarrow> s # strings_of vs | _ \<Rightarrow> strings_of vs)"

definition urls :: "event \<Rightarrow> string list" where
  "urls e = (case attr e ''image_urls'' of Some (PList vs) \<Rightarrow> strings_of vs | _ \<Rightarrow> [])"

fun numbered_images :: "bool \<Rightarrow> nat \<Rightarrow> string list \<Rightarrow> content_item list" where
  "numbered_images vision i [] = []"
| "numbered_images vision i (u # us) =
     (if vision then [TextContent (''Image '' @ str_of_nat (i + 1) @ '':'') False] else [])
     @ ImageContent [u] False # numbered_images vision (i + 1) us"

definition process_action ::
  "cm_env \<Rightarrow> bool \<Rightarrow> event \<Rightarrow> (string, msg) dict \<Rightarrow> (event \<times> (string, msg) dict \<times> msg list) res" where
  "process_action E vision a pending =
     (if tool_action a then
        (if ev_source a = Some USER \<and> ev_tool_call_metadata a = None
         then Inr (a, pending, [Message ''user'' [TextContent (''User requested to read file: '' @ event_str E a) False]])
         else case ev_tool_call_metadata a of
                None \<Rightarrow> Inl (AssertionError ''Tool call metadata should NOT be None'')
              | Some md \<Rightarrow> (case pending_message md of
                              Inl e \<Rightarrow> Inl e | Inr (rid, m) \<Rightarrow> Inr (a, dict_set rid m pending, [])))
      else if is_a a AgentFinishAction then
        (case finish_thought a of
           Inl e \<Rightarrow> Inl e
         | Inr a' \<Rightarrow> Inr (a', pending, [Message (source_role a) [TextContent (str_attr a' ''thought'') False]]))
      else if is_a a MessageAction then
        (let images = (if urls a = [] then []
                       else if source_role a = ''user'' then numbered_images vision 0 (urls a)
                       else [ImageContent (urls a) False])
         in Inr (a, pending, [Message (source_role a) (TextContent (content a) False # images)]))
      else if is_a a CmdRunAction \<and> ev_source a = Some USER then
        Inr (a, pending, [Message ''user'' [TextContent (''User executed the command:'' @ nl @ fmt a ''command'') False]])
      else if is_a a SystemMessageAction then
        Inr (a, pending, [Message ''system'' [TextContent (content a) False]])
      else Inr (a, pending, []))"

section \<open>Observations\<close>

definition meta_str :: "event \<Rightarrow> string \<Rightarrow> string" where
  \<comment> \<open>a text field of the metadata; empty when it is None\<close>
  "meta_str e k = (case map_of (dict_attr e ''metadata'') k of Some (PStr s) \<Rightarrow> s | _ \<Rightarrow> [])"

definition to_agent_observation :: "event \<Rightarrow> string" where
  "to_agent_observation e =
     meta_str e ''prefix'' @ content e @ meta_str e ''suffix''
     @ (if meta_str e ''working_dir'' \<noteq> [] then nl @ ''[Current working directory: '' @ meta_str e ''working_dir'' @ '']'' else [])
     @ (if meta_str e ''py_interpreter_path'' \<noteq> []
        then nl @ ''[Python interpreter: '' @ meta_str e ''py_interpreter_path'' @ '']'' else [])
     @ (if exit_code e \<noteq> -1 then nl @ ''[Command finished with exit code '' @ str_of_int (exit_code e) @ '']'' else [])"

definition is_valid_image_url :: "string \<Rightarrow> bool" where
  "is_valid_image_url url \<longleftrightarrow> strip url \<noteq> []"

definition hide_images :: "string \<Rightarrow> string" where
  "hide_images s =
     join nl (map (\<lambda>line. if contains ''![image](data:image/png;base64,'' line
                          then ''![image](data:image/png;base64, ...) already displayed to user'' else line)
                (split_on (CHR 0x0A) s))"

definition ipython_content :: "int option \<Rightarrow> bool \<Rightarrow> event \<Rightarrow> content_item list" where
  "ipython_content max_chars vision e =
     (let s = truncate_content (hide_images (content e)) max_chars;
          us = urls e; valid = filter is_valid_image_url us;
          invalid_count = length us - length valid
      in if us = [] then [TextContent s False]
         else if valid \<noteq> [] then
           [TextContent (s @ (if vision \<and> invalid_count > 0
              then nl @ nl @ ''Note: '' @ str_of_nat invalid_count
                   @ '' invalid or empty image(s) were filtered from this output. The agent may need to use alternative methods to access visual information.''
              else [])) False,
            ImageContent valid False]
         else
           [TextContent (s @ (if vision
              then nl @ nl @ ''Note: All '' @ str_of_nat (length us)
                   @ '' image(s) in this output were invalid or empty and have been filtered. The agent should use alternative methods to access visual information.''
              else [])) False])"

definition browser_content :: "bool \<Rightarrow> bool \<Rightarrow> event \<Rightarrow> content_item list" where
  "browser_content som vision e =
     (if \<not> (attr e ''trigger_by_action'' = Some (PStr ''browse_interactive'') \<and> som)
      then [TextContent (content e) False]
      else
        (let s = content e @ (if vision then ''Image: Current webpage screenshot (Note that only visible portion of webpage is present in the screenshot. However, the Accessibility tree contains information from the entire webpage.)'' @ nl else []);
             marks = str_attr e ''set_of_marks''; shot = str_attr e ''screenshot'';
             image = (if marks \<noteq> [] then marks else shot);
             kind = (if marks \<noteq> [] then ''set of marks'' else ''screenshot'')
         in if is_valid_image_url image then [TextContent s False, ImageContent [image] False]
            else [TextContent (s @
                   (if vision \<and> image \<noteq> []
                    then nl @ nl @ ''Note: The '' @ kind @ '' for this webpage was invalid or empty and has been filtered. The agent should use alternative methods to access visual information about the webpage.''
                    else if vision
                    then nl @ nl @ ''Note: No visual information (screenshot or set of marks) is available for this webpage. The agent should rely on the text content above.''
                    else [])) False]))"

subsection \<open>Microagents\<close>

definition knowledge :: "event \<Rightarrow> pyval list" where
  "knowledge e = (case attr e ''microagent_knowledge'' of Some (PList vs) \<Rightarrow> vs | _ \<Rightarrow> [])"

definition microagent_name :: "pyval \<Rightarrow> string" where
  "microagent_name v = (case field ''name'' v of Inr (PStr s) \<Rightarrow> s | _ \<Rightarrow> [])"

definition has_agent_in_earlier_events :: "string \<Rightarrow> event list \<Rightarrow> bool" where
  "has_agent_in_earlier_events name earlier \<longleftrightarrow>
     list_ex (\<lambda>e. is_a e RecallObservation \<and> list_ex (\<lambda>k. microagent_name k = name) (knowledge e)) earlier"

definition filter_agents_in_microagent_obs :: "event \<Rightarrow> event list \<Rightarrow> pyval list" where
  "filter_agents_in_microagent_obs e earlier =
     (if attr e ''recall_type'' \<noteq> Some (PStr ''knowledge'') then knowledge e
      else filter (\<lambda>k. \<not> has_agent_in_earlier_events (microagent_name k) earlier) (knowledge e))"

definition enabled_agents :: "cm_env \<Rightarrow> pyval list \<Rightarrow> pyval list" where
  "enabled_agents E ks = filter (\<lambda>k. microagent_name k \<notin> set (disabled_microagents E)) ks"

definition workspace_content :: "cm_env \<Rightarrow> event \<Rightarrow> content_item list" where
  "workspace_content E e =
     (let name = str_attr e ''repo_name''; dir = str_attr e ''repo_directory''; branch = str_attr e ''repo_branch'';
          repo = (if name \<noteq> [] \<or> dir \<noteq> []
                  then Some \<lparr>ri_name = name, ri_directory = dir, ri_branch = (if branch = [] then None else Some branch)\<rparr>
                  else None);
          hosts = dict_attr e ''runtime_hosts''; instr = str_attr e ''additional_agent_instructions'';
          runtime = \<lparr>rt_date = str_attr e ''date'', rt_hosts = hosts, rt_instructions = instr,
                     rt_secrets = dict_attr e ''custom_secrets_descriptions'', rt_working_dir = str_attr e ''working_dir''\<rparr>;
          conv = (if str_attr e ''conversation_instructions'' \<noteq> [] then Some (str_attr e ''conversation_instructions'') else None);
          repo_instructions = str_attr e ''repo_instructions'';
          agents = enabled_agents E (knowledge e)
      in (if repo \<noteq> None \<or> rt_date runtime \<noteq> [] \<or> rt_secrets runtime \<noteq> [] \<or> strip repo_instructions \<noteq> [] \<or> conv \<noteq> None
          then [TextContent (build_workspace_context E repo (Some runtime) conv repo_instructions) False] else [])
         @ (if agents \<noteq> [] then [TextContent (build_microagent_info E agents) False] else []))"

definition recall_content :: "cm_env \<Rightarrow> event \<Rightarrow> event list \<Rightarrow> content_item list" where
  \<comment> \<open>empty when nothing is added\<close>
  "recall_content E e earlier =
     (if attr e ''recall_type'' = Some (PStr ''workspace_context'') then workspace_content E e
      else (let agents = enabled_agents E (filter_agents_in_microagent_obs e earlier)
            in if agents \<noteq> [] then [TextContent (build_microagent_info E agents) False] else []))"

subsection \<open>All observations\<close>

record cm_call =
  max_message_chars :: "int option"
  vision_is_active :: bool

definition observation_content :: "cm_env \<Rightarrow> cm_call \<Rightarrow> event \<Rightarrow> event list \<Rightarrow> ((content_item list) option) res" where
  \<comment> \<open>the content of the message for an observation; \<^const>\<open>None\<close> when the observation gives no message\<close>
  "observation_content E C obs earlier =
     (let cut = (\<lambda>s. truncate_content s (max_message_chars C));
          just = (\<lambda>s. Inr (Some [TextContent s False]))
      in case ev_class obs of
        CmdOutputObservation \<Rightarrow>
          (if ev_tool_call_metadata obs = None
           then just (cut (nl @ ''Observed result of command executed by user:'' @ nl @ to_agent_observation obs))
           else just (cut (to_agent_observation obs)))
      | MCPObservation \<Rightarrow> just (cut (content obs))
      | IPythonRunCellObservation \<Rightarrow> Inr (Some (ipython_content (max_message_chars C) (vision_is_active C) obs))
      | FileEditObservation \<Rightarrow> just (cut (event_str E obs))
      | FileReadObservation \<Rightarrow> just (content obs)
      | BrowserOutputObservation \<Rightarrow> Inr (Some (browser_content (enable_som_visual_browsing E) (vision_is_active C) obs))
      | AgentDelegateObservation \<Rightarrow>
          (case map_of (dict_attr obs ''outputs'') ''content'' of
             None \<Rightarrow> just (cut (content obs))
           | Some (PStr s) \<Rightarrow> just (cut s)
           | Some _ \<Rightarrow> Inl (NotModelled ''the content of the outputs is not a string''))
      | AgentThinkObservation \<Rightarrow> just (cut (content obs))
      | TaskTrackingObservation \<Rightarrow> just (cut (content obs))
      | ErrorObservation \<Rightarrow> just (cut (content obs) @ nl @ ''[Error occurred in processing last action]'')
      | UserRejectObservation \<Rightarrow>
          just (''OBSERVATION:'' @ nl @ cut (content obs) @ nl @ ''[Last action has been rejected by the user]'')
      | AgentCondensationObservation \<Rightarrow> just (cut (content obs))
      | FileDownloadObservation \<Rightarrow> just (cut (content obs))
      | LoopDetectionObservation \<Rightarrow> Inr None
      | RecallObservation \<Rightarrow>
          (if enable_prompt_extensions E \<and> recall_content E obs earlier \<noteq> []
           then Inr (Some (recall_content E obs earlier)) else Inr None)
      | _ \<Rightarrow> Inl (ValueError ''Unknown observation type''))"

definition is_knowledge :: "event \<Rightarrow> bool" where
  "is_knowledge e \<longleftrightarrow> is_a e RecallObservation \<and> attr e ''recall_type'' = Some (PStr ''knowledge'')"

definition metadata_str :: "string \<Rightarrow> pyval \<Rightarrow> string" where
  "metadata_str k md = (case field k md of Inr (PStr s) \<Rightarrow> s | _ \<Rightarrow> [])"

definition process_observation ::
  "cm_env \<Rightarrow> cm_call \<Rightarrow> event \<Rightarrow> event list \<Rightarrow> (string, msg) dict \<Rightarrow> ((string, msg) dict \<times> msg list) res" where
  "process_observation E C obs earlier results =
     (case observation_content E C obs earlier of
        Inl e \<Rightarrow> Inl e
      | Inr None \<Rightarrow> Inr (results, [])
      | Inr (Some items) \<Rightarrow>
          (case (if is_knowledge obs then None else ev_tool_call_metadata obs) of
             None \<Rightarrow> Inr (results, [Message ''user'' items])
           | Some md \<Rightarrow>
               (let i = metadata_str ''tool_call_id'' md
                in Inr (dict_set i ((Message ''tool'' items)
                          \<lparr>m_tool_call_id := Some i, m_name := Some (metadata_str ''function_name'' md)\<rparr>) results, []))))"

section \<open>The conversation\<close>

definition system_action :: "string \<Rightarrow> event" where
  "system_action s = blank SystemMessageAction
     [(''content'', PStr s), (''tools'', PNone), (''openhands_version'', PStr openhands_version),
      (''agent_class'', PNone), (''action'', PStr ''system'')]"

definition ensure_system_message :: "cm_env \<Rightarrow> event list \<Rightarrow> event list" where
  "ensure_system_message E events =
     (if list_ex (\<lambda>e. is_a e SystemMessageAction) events \<or> system_prompt E = [] then events
      else system_action (system_prompt E) # events)"

definition ensure_initial_user_message :: "event list \<Rightarrow> event \<Rightarrow> int set \<Rightarrow> event list" where
  "ensure_initial_user_message events initial fids =
     (if events = [] \<or> eid initial \<in> fids then events
      else if length events = 1 \<or> \<not> from_user (events ! 1) then py_insert events 1 initial
      else events)"

fun take_results :: "tool_call list \<Rightarrow> (string, msg) dict \<Rightarrow> (msg list \<times> (string, msg) dict) res" where
  \<comment> \<open>the results of the calls of a message, removed from the dictionary\<close>
  "take_results [] results = Inr ([], results)"
| "take_results (c # cs) results =
     (case tc_id c of
        None \<Rightarrow> Inl (KeyError ''None'')
      | Some i \<Rightarrow>
          (case map_of results i of
             None \<Rightarrow> Inl (KeyError i)
           | Some m \<Rightarrow> (case take_results cs (dict_del i results) of
                          Inl e \<Rightarrow> Inl e | Inr (ms, results') \<Rightarrow> Inr (m # ms, results'))))"

definition has_result :: "(string, msg) dict \<Rightarrow> tool_call \<Rightarrow> bool" where
  "has_result results c \<longleftrightarrow> (case tc_id c of None \<Rightarrow> False | Some i \<Rightarrow> dict_has i results)"

fun flush :: "(string, msg) dict \<Rightarrow> (string, msg) dict \<Rightarrow> (msg list \<times> (string, msg) dict \<times> (string, msg) dict) res" where
  \<comment> \<open>the pending messages whose results are all there, with their results; then what is left of both dictionaries\<close>
  "flush [] results = Inr ([], [], results)"
| "flush ((rid, m) # pending) results =
     (case m_tool_calls m of
        None \<Rightarrow> Inl (AssertionError ''Tool calls should NOT be None'')
      | Some cs \<Rightarrow>
          (if list_all (has_result results) cs
           then (case take_results cs results of
                   Inl e \<Rightarrow> Inl e
                 | Inr (ms, results') \<Rightarrow>
                     (case flush pending results' of
                        Inl e \<Rightarrow> Inl e | Inr (out, rest, r) \<Rightarrow> Inr (m # ms @ out, rest, r)))
           else (case flush pending results of
                   Inl e \<Rightarrow> Inl e | Inr (out, rest, r) \<Rightarrow> Inr (out, (rid, m) # rest, r))))"

fun process_loop ::
  "cm_env \<Rightarrow> cm_call \<Rightarrow> event list \<Rightarrow> event list \<Rightarrow> (string, msg) dict \<Rightarrow> (string, msg) dict \<Rightarrow> (event list \<times> msg list) res" where
  \<comment> \<open>\<open>earlier\<close> are the events before the current one\<close>
  "process_loop E C earlier [] pending results = Inr (earlier, [])"
| "process_loop E C earlier (e # events) pending results =
     (case (if is_action e
            then (case process_action E (vision_is_active C) e pending of
                    Inl err \<Rightarrow> Inl err | Inr (e', p, ms) \<Rightarrow> Inr (e', p, results, ms))
            else (case process_observation E C e earlier results of
                    Inl err \<Rightarrow> Inl err | Inr (r, ms) \<Rightarrow> Inr (e, pending, r, ms))) of
        Inl err \<Rightarrow> Inl err
      | Inr (e', p, r, ms) \<Rightarrow>
          (case flush p r of
             Inl err \<Rightarrow> Inl err
           | Inr (out, p', r') \<Rightarrow>
               (case process_loop E C (earlier @ [e']) events p' r' of
                  Inl err \<Rightarrow> Inl err | Inr (es, rest) \<Rightarrow> Inr (es, ms @ out @ rest))))"

definition truthy_id :: "string option \<Rightarrow> string list" where
  "truthy_id v = (case v of Some (c # s) \<Rightarrow> [c # s] | _ \<Rightarrow> [])"

definition calls :: "msg \<Rightarrow> tool_call list" where
  "calls m = (case m_tool_calls m of Some cs \<Rightarrow> cs | None \<Rightarrow> [])"

definition called_ids :: "msg list \<Rightarrow> string list" where
  "called_ids ms =
     concat (map (\<lambda>m. if m_role m = ''assistant'' then concat (map (\<lambda>c. truthy_id (tc_id c)) (calls m)) else []) ms)"

definition response_ids :: "msg list \<Rightarrow> string list" where
  "response_ids ms = concat (map (\<lambda>m. if m_role m = ''tool'' then truthy_id (m_tool_call_id m) else []) ms)"

definition answered_call :: "string list \<Rightarrow> tool_call \<Rightarrow> bool" where
  "answered_call ids c \<longleftrightarrow> (case tc_id c of None \<Rightarrow> False | Some i \<Rightarrow> i \<in> set ids)"

definition keep_matched :: "string list \<Rightarrow> string list \<Rightarrow> msg \<Rightarrow> msg list" where
  "keep_matched called responses m =
     (if m_role m = ''tool'' \<and> truthy_id (m_tool_call_id m) \<noteq> []
      then (if set (truthy_id (m_tool_call_id m)) \<subseteq> set called then [m] else [])
      else if m_role m = ''assistant'' \<and> calls m \<noteq> []
      then (if list_all (answered_call responses) (calls m) then [m]
            else (let cs = filter (answered_call responses) (calls m)
                  in if cs \<noteq> [] then [m\<lparr>m_tool_calls := Some cs\<rparr>] else []))
      else [m])"

definition filter_unmatched_tool_calls :: "msg list \<Rightarrow> msg list" where
  "filter_unmatched_tool_calls ms = concat (map (keep_matched (called_ids ms) (response_ids ms)) ms)"

fun space_first_text :: "content_item list \<Rightarrow> content_item list" where
  "space_first_text [] = []"
| "space_first_text (TextContent s b # cs) = TextContent (nl @ nl @ s) b # cs"
| "space_first_text (ImageContent us b # cs) = ImageContent us b # space_first_text cs"

fun apply_user_message_formatting :: "string \<Rightarrow> msg list \<Rightarrow> msg list" where
  \<comment> \<open>the first argument is the role of the message before\<close>
  "apply_user_message_formatting prev [] = []"
| "apply_user_message_formatting prev (m # ms) =
     (if m_role m = ''user'' \<and> prev = ''user'' then m\<lparr>m_content := space_first_text (m_content m)\<rparr> else m)
     # apply_user_message_formatting (m_role m) ms"

definition process_events ::
  "cm_env \<Rightarrow> cm_call \<Rightarrow> event list \<Rightarrow> event \<Rightarrow> int set \<Rightarrow> (event list \<times> msg list) res" where
  \<comment> \<open>the events as processing leaves them, and the messages\<close>
  "process_events E C history initial fids =
     (case process_loop E C [] (ensure_initial_user_message (ensure_system_message E history) initial fids) [] [] of
        Inl e \<Rightarrow> Inl e
      | Inr (events, ms) \<Rightarrow> Inr (events, apply_user_message_formatting [] (filter_unmatched_tool_calls ms)))"

section \<open>Prompt caching\<close>

fun set_cached :: "content_item \<Rightarrow> content_item" where
  "set_cached (TextContent s _) = TextContent s True"
| "set_cached (ImageContent us _) = ImageContent us True"

definition cache_last_item :: "msg \<Rightarrow> msg res" where
  \<comment> \<open>\<^verbatim>\<open>message.content[-1].cache_prompt = True\<close>\<close>
  "cache_last_item m =
     (if m_content m = [] then Inl (IndexError ''list index out of range'')
      else Inr (m\<lparr>m_content := butlast (m_content m) @ [set_cached (last (m_content m))]\<rparr>))"

fun cache_first :: "msg list \<Rightarrow> (msg list) res" where
  \<comment> \<open>the first message of the list that is a user or tool message\<close>
  "cache_first [] = Inr []"
| "cache_first (m # ms) =
     (if m_role m \<in> {''user'', ''tool''}
      then (case cache_last_item m of Inl e \<Rightarrow> Inl e | Inr m' \<Rightarrow> Inr (m' # ms))
      else (case cache_first ms of Inl e \<Rightarrow> Inl e | Inr ms' \<Rightarrow> Inr (m # ms')))"

definition apply_prompt_caching :: "msg list \<Rightarrow> (msg list) res" where
  "apply_prompt_caching ms =
     (case (case ms of
              m # rest \<Rightarrow> (if m_role m = ''system''
                           then (case cache_last_item m of Inl e \<Rightarrow> Inl e | Inr m' \<Rightarrow> Inr (m' # rest)) else Inr ms)
            | [] \<Rightarrow> Inr ms) of
        Inl e \<Rightarrow> Inl e
      | Inr ms1 \<Rightarrow> (case cache_first (rev ms1) of Inl e \<Rightarrow> Inl e | Inr r \<Rightarrow> Inr (rev r)))"

end
