(* ===== verification/Tool_Definitions.thy ===== *)
theory Tool_Definitions
  imports Event_Serialization
begin

text \<open>
  The tools of the CodeAct agent (\<^verbatim>\<open>openhands/agenthub/codeact_agent/tools\<close>): their descriptions and their
  schemas, as the source has them.  \<open>refine\<close> is \<^verbatim>\<open>refine_prompt\<close>, the identity except on Windows.
\<close>

section \<open>Descriptions\<close>

definition RISK_LEVELS :: "string list" where
  "RISK_LEVELS = [''LOW'', ''MEDIUM'', ''HIGH'']"

definition SECURITY_RISK_DESC :: string where
  "SECURITY_RISK_DESC =
     ''The LLM'' @ [CHR 0x27]
     @ ''s assessment of the safety risk of this action. See the SECURITY_RISK_ASSESSMENT section in the system prompt for risk level definitions.''"

definition DETAILED_BASH_DESCRIPTION :: string where
  "DETAILED_BASH_DESCRIPTION =
     ''Execute a bash command in the terminal within a persistent shell session.'' @ nl @ nl @ nl
      @ ''### Command Execution'' @ nl

     @ ''* One command at a time: You can only execute one bash command at a time. If you need to run multiple commands sequentially, use `&&` or `;` to chain them together.''
     @ nl

     @ ''* Persistent session: Commands execute in a persistent shell session where environment variables, virtual environments, and working directory persist between commands.''
     @ nl
      @ ''* Soft timeout: Commands have a soft timeout of 10 seconds, once that'' @ [CHR 0x27]
     @ ''s reached, you have the option to continue or interrupt the command (see section below for details)'' @ nl

     @ ''* Shell options: Do NOT use `set -e`, `set -eu`, or `set -euo pipefail` in shell scripts or commands in this environment. The runtime may not support them and can cause unusable shell sessions. If you want to run multi-line bash commands, write the commands to a file and then run it, instead.''
     @ nl @ nl
      @ ''### Long-running Commands'' @ nl

     @ ''* For commands that may run indefinitely, run them in the background and redirect output to a file, e.g. `python3 app.py > server.log 2>&1 &`.''
     @ nl

     @ ''* For commands that may run for a long time (e.g. installation or testing commands), or commands that run for a fixed amount of time (e.g. sleep), you should set the ''
     @ [CHR 0x22] @ ''timeout'' @ [CHR 0x22] @ '' parameter of your function call to an appropriate value.'' @ nl

     @ ''* If a bash command returns exit code `-1`, this means the process hit the soft timeout and is not yet finished. By setting `is_input` to `true`, you can:''
     @ nl
      @ ''  - Send empty `command` to retrieve additional logs'' @ nl
      @ ''  - Send text (set `command` to the text) to STDIN of the running process'' @ nl
      @ ''  - Send control commands like `C-c` (Ctrl+C), `C-d` (Ctrl+D), or `C-z` (Ctrl+Z) to interrupt the process''
     @ nl
      @ ''  - If you do C-c, you can re-start the process with a longer '' @ [CHR 0x22] @ ''timeout'' @ [CHR 0x22]
     @ '' parameter to let it run to completion'' @ nl @ nl
      @ ''### Best Practices'' @ nl

     @ ''* Directory verification: Before creating new directories or files, first verify the parent directory exists and is the correct location.''
     @ nl

     @ ''* Directory management: Try to maintain working directory by using absolute paths and avoiding excessive use of `cd`.''
     @ nl @ nl
      @ ''### Output Handling'' @ nl
      @ ''* Output truncation: If the output exceeds a maximum length, it will be truncated before being returned.''
     @ nl"

definition SHORT_BASH_DESCRIPTION :: string where
  "SHORT_BASH_DESCRIPTION =
     ''Execute a bash command in the terminal.'' @ nl

     @ ''* Long running commands: For commands that may run indefinitely, it should be run in the background and the output should be redirected to a file, e.g. command = `python3 app.py > server.log 2>&1 &`. For commands that need to run for a specific duration, you can set the ''
     @ [CHR 0x22] @ ''timeout'' @ [CHR 0x22] @ '' argument to specify a hard timeout in seconds.'' @ nl

     @ ''* Interact with running process: If a bash command returns exit code `-1`, this means the process is not yet finished. By setting `is_input` to `true`, the assistant can interact with the running process and send empty `command` to retrieve any additional logs, or send additional text (set `command` to the text) to STDIN of the running process, or send command like `C-c` (Ctrl+C), `C-d` (Ctrl+D), `C-z` (Ctrl+Z) to interrupt the process.''
     @ nl

     @ ''* One command at a time: You can only execute one bash command at a time. If you need to run multiple commands sequentially, you can use `&&` or `;` to chain them together.''"

definition THINK_DESCRIPTION :: string where
  "THINK_DESCRIPTION =

     ''Use the tool to think about something. It will not obtain new information or make any changes to the repository, but just log the thought. Use it when complex reasoning or brainstorming is needed.''
     @ nl @ nl
      @ ''Common use cases:'' @ nl

     @ ''1. When exploring a repository and discovering the source of a bug, call this tool to brainstorm several unique ways of fixing the bug, and assess which change(s) are likely to be simplest and most effective.''
     @ nl
      @ ''2. After receiving test results, use this tool to brainstorm ways to fix failing tests.'' @ nl
      @ ''3. When planning a complex refactoring, use this tool to outline different approaches and their tradeoffs.''
     @ nl

     @ ''4. When designing a new feature, use this tool to think through architecture decisions and implementation details.''
     @ nl
      @ ''5. When debugging a complex issue, use this tool to organize your thoughts and hypotheses.'' @ nl @ nl

     @ ''The tool simply logs your thought process for better transparency and does not execute any code or make changes.''"

definition FINISH_DESCRIPTION :: string where
  "FINISH_DESCRIPTION =
     ''Signals the completion of the current task or conversation.'' @ nl @ nl
      @ ''Use this tool when:'' @ nl
      @ ''- You have successfully completed the user'' @ [CHR 0x27] @ ''s requested task'' @ nl
      @ ''- You cannot proceed further due to technical limitations or missing information'' @ nl @ nl
      @ ''The message should include:'' @ nl
      @ ''- A clear summary of actions taken and their results'' @ nl
      @ ''- Any next steps for the user'' @ nl
      @ ''- Explanation if you'' @ [CHR 0x27] @ ''re unable to complete the task'' @ nl
      @ ''- Any follow-up questions if more information is needed'' @ nl"

definition CONDENSATION_REQUEST_DESCRIPTION :: string where
  "CONDENSATION_REQUEST_DESCRIPTION =

     ''Request a condensation of the conversation history when the context becomes too long or when you need to focus on the most relevant information.''"

definition BROWSER_DESCRIPTION :: string where
  "BROWSER_DESCRIPTION =
     ''Interact with the browser using Python code. Use it ONLY when you need to interact with a webpage.'' @ nl @ nl
      @ ''See the description of '' @ [CHR 0x22] @ ''code'' @ [CHR 0x22] @ '' parameter for more details.'' @ nl @ nl

     @ ''Multiple actions can be provided at once, but will be executed sequentially without any feedback from the page.''
     @ nl
      @ ''More than 2-3 actions usually leads to failure or unexpected behavior. Example:'' @ nl
      @ ''fill('' @ [CHR 0x27] @ ''a12'' @ [CHR 0x27] @ '', '' @ [CHR 0x27] @ ''example with '' @ [CHR 0x22]
     @ ''quotes'' @ [CHR 0x22] @ [CHR 0x27] @ '')'' @ nl
      @ ''click('' @ [CHR 0x27] @ ''a51'' @ [CHR 0x27] @ '')'' @ nl
      @ ''click('' @ [CHR 0x27] @ ''48'' @ [CHR 0x27] @ '', button='' @ [CHR 0x27] @ ''middle'' @ [CHR 0x27]
     @ '', modifiers=['' @ [CHR 0x27] @ ''Shift'' @ [CHR 0x27] @ ''])'' @ nl @ nl
      @ ''You can also use the browser to view pdf, png, jpg files.'' @ nl

     @ ''You should first check the content of /tmp/oh-server-url to get the server url, and then use it to view the file by `goto(''
     @ [CHR 0x22] @ ''{server_url}/view?path={absolute_file_path}'' @ [CHR 0x22] @ '')`.'' @ nl
      @ ''For example: `goto('' @ [CHR 0x22] @ ''http://localhost:8000/view?path=/workspace/test_document.pdf''
     @ [CHR 0x22] @ '')`'' @ nl
      @ ''Note: The file should be downloaded to the local machine first before using the browser to view it.'' @ nl"

definition BROWSER_TOOL_DESCRIPTION :: string where
  "BROWSER_TOOL_DESCRIPTION =
     nl
      @ ''The following 15 functions are available. Nothing else is supported.'' @ nl @ nl
      @ ''goto(url: str)'' @ nl
      @ ''    Description: Navigate to a url.'' @ nl
      @ ''    Examples:'' @ nl
      @ ''        goto('' @ [CHR 0x27] @ ''http://www.example.com'' @ [CHR 0x27] @ '')'' @ nl @ nl
      @ ''go_back()'' @ nl
      @ ''    Description: Navigate to the previous page in history.'' @ nl
      @ ''    Examples:'' @ nl
      @ ''        go_back()'' @ nl @ nl
      @ ''go_forward()'' @ nl
      @ ''    Description: Navigate to the next page in history.'' @ nl
      @ ''    Examples:'' @ nl
      @ ''        go_forward()'' @ nl @ nl
      @ ''noop(wait_ms: float = 1000)'' @ nl
      @ ''    Description: Do nothing, and optionally wait for the given time (in milliseconds).'' @ nl
      @ ''    You can use this to get the current page content and/or wait for the page to load.'' @ nl
      @ ''    Examples:'' @ nl
      @ ''        noop()'' @ nl @ nl
      @ ''        noop(500)'' @ nl @ nl
      @ ''scroll(delta_x: float, delta_y: float)'' @ nl

     @ ''    Description: Scroll horizontally and vertically. Amounts in pixels, positive for right or down scrolling, negative for left or up scrolling. Dispatches a wheel event.''
     @ nl
      @ ''    Examples:'' @ nl
      @ ''        scroll(0, 200)'' @ nl @ nl
      @ ''        scroll(-50.2, -100.5)'' @ nl @ nl
      @ ''fill(bid: str, value: str)'' @ nl

     @ ''    Description: Fill out a form field. It focuses the element and triggers an input event with the entered text. It works for <input>, <textarea> and [contenteditable] elements.''
     @ nl
      @ ''    Examples:'' @ nl
      @ ''        fill('' @ [CHR 0x27] @ ''237'' @ [CHR 0x27] @ '', '' @ [CHR 0x27] @ ''example value'' @ [CHR 0x27]
     @ '')'' @ nl @ nl
      @ ''        fill('' @ [CHR 0x27] @ ''45'' @ [CHR 0x27] @ '', '' @ [CHR 0x27] @ ''multi-line'' @ nl
      @ ''example'' @ [CHR 0x27] @ '')'' @ nl @ nl
      @ ''        fill('' @ [CHR 0x27] @ ''a12'' @ [CHR 0x27] @ '', '' @ [CHR 0x27] @ ''example with '' @ [CHR 0x22]
     @ ''quotes'' @ [CHR 0x22] @ [CHR 0x27] @ '')'' @ nl @ nl
      @ ''select_option(bid: str, options: str | list[str])'' @ nl

     @ ''    Description: Select one or multiple options in a <select> element. You can specify option value or label to select. Multiple options can be selected.''
     @ nl
      @ ''    Examples:'' @ nl
      @ ''        select_option('' @ [CHR 0x27] @ ''a48'' @ [CHR 0x27] @ '', '' @ [CHR 0x27] @ ''blue'' @ [CHR 0x27]
     @ '')'' @ nl @ nl
      @ ''        select_option('' @ [CHR 0x27] @ ''c48'' @ [CHR 0x27] @ '', ['' @ [CHR 0x27] @ ''red'' @ [CHR 0x27]
     @ '', '' @ [CHR 0x27] @ ''green'' @ [CHR 0x27] @ '', '' @ [CHR 0x27] @ ''blue'' @ [CHR 0x27] @ ''])'' @ nl @ nl
      @ ''click(bid: str, button: Literal['' @ [CHR 0x27] @ ''left'' @ [CHR 0x27] @ '', '' @ [CHR 0x27] @ ''middle''
     @ [CHR 0x27] @ '', '' @ [CHR 0x27] @ ''right'' @ [CHR 0x27] @ ''] = '' @ [CHR 0x27] @ ''left'' @ [CHR 0x27]
     @ '', modifiers: list[typing.Literal['' @ [CHR 0x27] @ ''Alt'' @ [CHR 0x27] @ '', '' @ [CHR 0x27] @ ''Control''
     @ [CHR 0x27] @ '', '' @ [CHR 0x27] @ ''ControlOrMeta'' @ [CHR 0x27] @ '', '' @ [CHR 0x27] @ ''Meta'' @ [CHR 0x27]
     @ '', '' @ [CHR 0x27] @ ''Shift'' @ [CHR 0x27] @ '']] = [])'' @ nl
      @ ''    Description: Click an element.'' @ nl
      @ ''    Examples:'' @ nl
      @ ''        click('' @ [CHR 0x27] @ ''a51'' @ [CHR 0x27] @ '')'' @ nl @ nl
      @ ''        click('' @ [CHR 0x27] @ ''b22'' @ [CHR 0x27] @ '', button='' @ [CHR 0x27] @ ''right'' @ [CHR 0x27]
     @ '')'' @ nl @ nl
      @ ''        click('' @ [CHR 0x27] @ ''48'' @ [CHR 0x27] @ '', button='' @ [CHR 0x27] @ ''middle'' @ [CHR 0x27]
     @ '', modifiers=['' @ [CHR 0x27] @ ''Shift'' @ [CHR 0x27] @ ''])'' @ nl @ nl
      @ ''dblclick(bid: str, button: Literal['' @ [CHR 0x27] @ ''left'' @ [CHR 0x27] @ '', '' @ [CHR 0x27]
     @ ''middle'' @ [CHR 0x27] @ '', '' @ [CHR 0x27] @ ''right'' @ [CHR 0x27] @ ''] = '' @ [CHR 0x27] @ ''left''
     @ [CHR 0x27] @ '', modifiers: list[typing.Literal['' @ [CHR 0x27] @ ''Alt'' @ [CHR 0x27] @ '', '' @ [CHR 0x27]
     @ ''Control'' @ [CHR 0x27] @ '', '' @ [CHR 0x27] @ ''ControlOrMeta'' @ [CHR 0x27] @ '', '' @ [CHR 0x27]
     @ ''Meta'' @ [CHR 0x27] @ '', '' @ [CHR 0x27] @ ''Shift'' @ [CHR 0x27] @ '']] = [])'' @ nl
      @ ''    Description: Double click an element.'' @ nl
      @ ''    Examples:'' @ nl
      @ ''        dblclick('' @ [CHR 0x27] @ ''12'' @ [CHR 0x27] @ '')'' @ nl @ nl
      @ ''        dblclick('' @ [CHR 0x27] @ ''ca42'' @ [CHR 0x27] @ '', button='' @ [CHR 0x27] @ ''right''
     @ [CHR 0x27] @ '')'' @ nl @ nl
      @ ''        dblclick('' @ [CHR 0x27] @ ''178'' @ [CHR 0x27] @ '', button='' @ [CHR 0x27] @ ''middle''
     @ [CHR 0x27] @ '', modifiers=['' @ [CHR 0x27] @ ''Shift'' @ [CHR 0x27] @ ''])'' @ nl @ nl
      @ ''hover(bid: str)'' @ nl
      @ ''    Description: Hover over an element.'' @ nl
      @ ''    Examples:'' @ nl
      @ ''        hover('' @ [CHR 0x27] @ ''b8'' @ [CHR 0x27] @ '')'' @ nl @ nl
      @ ''press(bid: str, key_comb: str)'' @ nl

     @ ''    Description: Focus the matching element and press a combination of keys. It accepts the logical key names that are emitted in the keyboardEvent.key property of the keyboard events: Backquote, Minus, Equal, Backslash, Backspace, Tab, Delete, Escape, ArrowDown, End, Enter, Home, Insert, PageDown, PageUp, ArrowRight, ArrowUp, F1 - F12, Digit0 - Digit9, KeyA - KeyZ, etc. You can alternatively specify a single character you''
     @ [CHR 0x27] @ ''d like to produce such as '' @ [CHR 0x22] @ ''a'' @ [CHR 0x22] @ '' or '' @ [CHR 0x22] @ ''#''
     @ [CHR 0x22]
     @ ''. Following modification shortcuts are also supported: Shift, Control, Alt, Meta, ShiftLeft, ControlOrMeta. ControlOrMeta resolves to Control on Windows and Linux and to Meta on macOS.''
     @ nl
      @ ''    Examples:'' @ nl
      @ ''        press('' @ [CHR 0x27] @ ''88'' @ [CHR 0x27] @ '', '' @ [CHR 0x27] @ ''Backspace'' @ [CHR 0x27]
     @ '')'' @ nl @ nl
      @ ''        press('' @ [CHR 0x27] @ ''a26'' @ [CHR 0x27] @ '', '' @ [CHR 0x27] @ ''ControlOrMeta+a''
     @ [CHR 0x27] @ '')'' @ nl @ nl
      @ ''        press('' @ [CHR 0x27] @ ''a61'' @ [CHR 0x27] @ '', '' @ [CHR 0x27] @ ''Meta+Shift+t'' @ [CHR 0x27]
     @ '')'' @ nl @ nl
      @ ''focus(bid: str)'' @ nl
      @ ''    Description: Focus the matching element.'' @ nl
      @ ''    Examples:'' @ nl
      @ ''        focus('' @ [CHR 0x27] @ ''b455'' @ [CHR 0x27] @ '')'' @ nl @ nl
      @ ''clear(bid: str)'' @ nl
      @ ''    Description: Clear the input field.'' @ nl
      @ ''    Examples:'' @ nl
      @ ''        clear('' @ [CHR 0x27] @ ''996'' @ [CHR 0x27] @ '')'' @ nl @ nl
      @ ''drag_and_drop(from_bid: str, to_bid: str)'' @ nl

     @ ''    Description: Perform a drag & drop. Hover the element that will be dragged. Press left mouse button. Move mouse to the element that will receive the drop. Release left mouse button.''
     @ nl
      @ ''    Examples:'' @ nl
      @ ''        drag_and_drop('' @ [CHR 0x27] @ ''56'' @ [CHR 0x27] @ '', '' @ [CHR 0x27] @ ''498'' @ [CHR 0x27]
     @ '')'' @ nl @ nl
      @ ''upload_file(bid: str, file: str | list[str])'' @ nl
      @ ''    Description: Click an element and wait for a '' @ [CHR 0x22] @ ''filechooser'' @ [CHR 0x22]
     @ '' event, then select one or multiple input files for upload. Relative file paths are resolved relative to the current working directory. An empty list clears the selected files.''
     @ nl
      @ ''    Examples:'' @ nl
      @ ''        upload_file('' @ [CHR 0x27] @ ''572'' @ [CHR 0x27] @ '', '' @ [CHR 0x27]
     @ ''/home/user/my_receipt.pdf'' @ [CHR 0x27] @ '')'' @ nl @ nl
      @ ''        upload_file('' @ [CHR 0x27] @ ''63'' @ [CHR 0x27] @ '', ['' @ [CHR 0x27]
     @ ''/home/bob/Documents/image.jpg'' @ [CHR 0x27] @ '', '' @ [CHR 0x27] @ ''/home/bob/Documents/file.zip''
     @ [CHR 0x27] @ ''])'' @ nl"

definition IPYTHON_DESCRIPTION :: string where
  "IPYTHON_DESCRIPTION =
     ''Run a cell of Python code in an IPython environment.'' @ nl
      @ ''* The assistant should define variables and import packages before using them.'' @ nl

     @ ''* The variable defined in the IPython environment will not be available outside the IPython environment (e.g., in terminal).''
     @ nl"

definition DETAILED_TASK_TRACKER_DESCRIPTION :: string where
  "DETAILED_TASK_TRACKER_DESCRIPTION =
     ''This tool provides structured task management capabilities for development workflows.'' @ nl
      @ ''It enables systematic tracking of work items, progress monitoring, and efficient'' @ nl
      @ ''organization of complex development activities.'' @ nl @ nl
      @ ''The tool maintains visibility into project status and helps communicate'' @ nl
      @ ''progress effectively to users.'' @ nl @ nl
      @ ''## Application Guidelines'' @ nl @ nl
      @ ''Utilize this tool in the following situations:'' @ nl @ nl
      @ ''1. Multi-phase development work - When projects involve multiple sequential or'' @ nl
      @ ''   parallel activities'' @ nl
      @ ''2. Complex implementation tasks - Work requiring systematic planning and'' @ nl
      @ ''   coordination across multiple components'' @ nl
      @ ''3. Explicit user request for task organization - When users specifically ask'' @ nl
      @ ''   for structured task management'' @ nl
      @ ''4. Multiple concurrent requirements - When users present several work items'' @ nl
      @ ''   that need coordination'' @ nl
      @ ''5. Project initiation - Capture and organize user requirements at project start'' @ nl
      @ ''6. Work commencement - Update task status to in_progress before beginning'' @ nl
      @ ''   implementation. Maintain focus by limiting active work to one task'' @ nl
      @ ''7. Task completion - Update status to done and identify any additional work'' @ nl
      @ ''   that emerged during implementation'' @ nl @ nl
      @ ''## Situations Where Tool Usage Is Unnecessary'' @ nl @ nl
      @ ''Avoid using this tool when:'' @ nl @ nl
      @ ''1. Single atomic tasks that require no decomposition'' @ nl
      @ ''2. Trivial operations where tracking adds no organizational value'' @ nl
      @ ''3. Simple activities completable in minimal steps'' @ nl
      @ ''4. Pure information exchange or discussion'' @ nl @ nl
      @ ''Note: For single straightforward tasks, proceed with direct implementation'' @ nl
      @ ''rather than creating tracking overhead.'' @ nl @ nl
      @ ''## Usage Scenarios'' @ nl @ nl
      @ ''**Scenario A: Feature Development with Validation**'' @ nl
      @ ''User request: '' @ [CHR 0x22] @ ''Build a user authentication system with login/logout functionality.'' @ nl
      @ ''Don'' @ [CHR 0x27] @ ''t forget to include input validation and error handling!'' @ [CHR 0x22] @ nl @ nl
      @ ''Response approach: I'' @ [CHR 0x27] @ ''ll implement a user authentication system with comprehensive'' @ nl
      @ ''validation. Let me organize this work systematically.'' @ nl @ nl
      @ ''*Task breakdown includes:*'' @ nl
      @ ''1. Design authentication API endpoints and data models'' @ nl
      @ ''2. Implement user login/logout controllers with session management'' @ nl
      @ ''3. Add client-side form validation and error display'' @ nl
      @ ''4. Create backend input sanitization and security checks'' @ nl
      @ ''5. Implement comprehensive error handling for edge cases'' @ nl
      @ ''6. Perform integration testing and fix any issues'' @ nl @ nl
      @ ''**Scenario B: Codebase Refactoring**'' @ nl
      @ ''User request: '' @ [CHR 0x22] @ ''I need to update all instances of the method '' @ [CHR 0x27]
     @ ''fetchData'' @ [CHR 0x27] @ '' to'' @ nl
      @ [CHR 0x27] @ ''retrieveInformation'' @ [CHR 0x27] @ '' throughout the entire project'' @ [CHR 0x22] @ nl @ nl
      @ ''Response approach: Let me first analyze your codebase to identify all locations'' @ nl
      @ ''where '' @ [CHR 0x27] @ ''fetchData'' @ [CHR 0x27] @ '' appears.'' @ nl @ nl
      @ ''*After code analysis*'' @ nl @ nl
      @ ''I'' @ [CHR 0x27] @ ''ve located 12 occurrences of '' @ [CHR 0x27] @ ''fetchData'' @ [CHR 0x27]
     @ '' across 6 files in your project.'' @ nl
      @ ''I'' @ [CHR 0x27] @ ''ll create a systematic plan to update these references.'' @ nl @ nl
      @ ''*Organized task list includes specific file-by-file updates*'' @ nl @ nl
      @ ''**Scenario C: Multi-feature Development**'' @ nl
      @ ''User request: '' @ [CHR 0x22] @ ''Set up a blog platform with these components: admin dashboard,'' @ nl
      @ ''article management, comment system, and user profiles.'' @ [CHR 0x22] @ nl @ nl
      @ ''Response approach: I'' @ [CHR 0x27] @ ''ll help build your blog platform. Let me break down these'' @ nl
      @ ''components into manageable implementation phases.'' @ nl @ nl
      @ ''*Creates structured plan with each feature decomposed into specific development tasks*'' @ nl @ nl
      @ ''## Counter-examples - Direct Implementation Preferred'' @ nl @ nl
      @ ''**Counter-example A: Simple inquiry**'' @ nl
      @ ''User request: '' @ [CHR 0x22] @ ''What'' @ [CHR 0x27] @ ''s the syntax for a for loop in JavaScript?''
     @ [CHR 0x22] @ nl @ nl
      @ ''Response approach: Here'' @ [CHR 0x27] @ ''s how to write a for loop in JavaScript:'' @ nl @ nl
      @ ''```javascript'' @ nl
      @ ''for (let i = 0; i < array.length; i++) {'' @ nl
      @ ''    console.log(array[i]);'' @ nl
      @ ''}'' @ nl
      @ ''```'' @ nl @ nl
      @ ''*No task tracking needed - single informational response*'' @ nl @ nl
      @ ''**Counter-example B: Minor modification**'' @ nl
      @ ''User request: '' @ [CHR 0x22] @ ''Please add a docstring to the processPayment function explaining'' @ nl
      @ ''its parameters.'' @ [CHR 0x22] @ nl @ nl
      @ ''Response approach: I'' @ [CHR 0x27] @ ''ll add a docstring to explain the processPayment function.'' @ nl
     @ nl
      @ ''*Direct edit without task tracking for simple modification*'' @ nl @ nl
      @ ''## Status Management and Workflow'' @ nl @ nl
      @ ''1. **Status Values**: Track work using these states:'' @ nl
      @ ''   - todo: Not yet initiated'' @ nl
      @ ''   - in_progress: Currently active (maintain single focus)'' @ nl
      @ ''   - done: Successfully completed'' @ nl @ nl
      @ ''2. **Workflow Practices**:'' @ nl
      @ ''   - Update status dynamically as work progresses'' @ nl
      @ ''   - Mark completion immediately upon task finish'' @ nl
      @ ''   - Limit active work to ONE task at any given time'' @ nl
      @ ''   - Complete current activities before initiating new ones'' @ nl
      @ ''   - Remove obsolete tasks from tracking entirely'' @ nl @ nl
      @ ''3. **Completion Criteria**:'' @ nl
      @ ''   - Mark tasks as done only when fully achieved'' @ nl
      @ ''   - Keep status as in_progress if errors, blocks, or partial completion exist'' @ nl
      @ ''   - Create new tasks for discovered issues or dependencies'' @ nl
      @ ''   - Never mark done when:'' @ nl
      @ ''       - Test suites are failing'' @ nl
      @ ''       - Implementation remains incomplete'' @ nl
      @ ''       - Unresolved errors persist'' @ nl
      @ ''       - Required resources are unavailable'' @ nl @ nl
      @ ''4. **Task Organization**:'' @ nl
      @ ''   - Write precise, actionable descriptions'' @ nl
      @ ''   - Decompose complex work into manageable units'' @ nl
      @ ''   - Use descriptive, clear naming conventions'' @ nl @ nl
      @ ''When uncertain, favor using this tool. Proactive task management demonstrates'' @ nl
      @ ''systematic approach and ensures comprehensive requirement fulfillment.'' @ nl"

definition SHORT_TASK_TRACKER_DESCRIPTION :: string where
  "SHORT_TASK_TRACKER_DESCRIPTION =
     ''Provides structured task management for development workflows, enabling progress'' @ nl
      @ ''tracking and systematic organization of complex coding activities.'' @ nl @ nl
      @ ''* Apply to multi-phase projects (3+ distinct steps) or when managing multiple user requirements'' @ nl
      @ ''* Update status (todo/in_progress/done) dynamically throughout work'' @ nl
      @ ''* Maintain single active task focus at any time'' @ nl
      @ ''* Mark completion immediately upon task finish'' @ nl
      @ ''* Decompose complex work into manageable, actionable units'' @ nl"

definition FILE_EDIT_DESCRIPTION :: string where
  "FILE_EDIT_DESCRIPTION =
     ''Edit a file in plain-text format.'' @ nl
      @ ''* The assistant can edit files by specifying the file path and providing a draft of the new file content.''
     @ nl
      @ ''* The draft content doesn'' @ [CHR 0x27]
     @ ''t need to be exactly the same as the existing file; the assistant may skip unchanged lines using comments like `# ... existing code ...` to indicate unchanged sections.''
     @ nl

     @ ''* IMPORTANT: For large files (e.g., > 300 lines), specify the range of lines to edit using `start` and `end` (1-indexed, inclusive). The range should be smaller than 300 lines.''
     @ nl
      @ ''* -1 indicates the last line of the file when used as the `start` or `end` value.'' @ nl

     @ ''* Keep at least one unchanged line before the changed section and after the changed section wherever possible.''
     @ nl

     @ ''* Make sure to set the `start` and `end` to include all the lines in the original file referred to in the draft of the new file content. Failure to do so will result in bad edits.''
     @ nl
      @ ''* To append to a file, set both `start` and `end` to `-1`.'' @ nl
      @ ''* If the file doesn'' @ [CHR 0x27] @ ''t exist, a new file will be created with the provided content.'' @ nl

     @ ''* IMPORTANT: Make sure you include all the required indentations for each line of code in the draft, otherwise the edited code will be incorrectly indented.''
     @ nl

     @ ''* IMPORTANT: Make sure that the first line of the draft is also properly indented and has the required whitespaces.''
     @ nl

     @ ''* IMPORTANT: NEVER include or make references to lines from outside the `start` and `end` range in the draft.''
     @ nl
      @ ''* IMPORTANT: Start the content with a comment in the format: #EDIT: Reason for edit'' @ nl
      @ ''* IMPORTANT: If you are not appending to the file, avoid setting `start` and `end` to the same value.'' @ nl
     @ nl
      @ ''**Example 1: general edit for short files**'' @ nl
      @ ''For example, given an existing file `/path/to/file.py` that looks like this:'' @ nl
      @ ''(this is the beginning of the file)'' @ nl
      @ ''1|class MyClass:'' @ nl
      @ ''2|    def __init__(self):'' @ nl
      @ ''3|        self.x = 1'' @ nl
      @ ''4|        self.y = 2'' @ nl
      @ ''5|        self.z = 3'' @ nl
      @ ''6|'' @ nl
      @ ''7|print(MyClass().z)'' @ nl
      @ ''8|print(MyClass().x)'' @ nl
      @ ''(this is the end of the file)'' @ nl @ nl
      @ ''The assistant wants to edit the file to look like this:'' @ nl
      @ ''(this is the beginning of the file)'' @ nl
      @ ''1|class MyClass:'' @ nl
      @ ''2|    def __init__(self):'' @ nl
      @ ''3|        self.x = 1'' @ nl
      @ ''4|        self.y = 2'' @ nl
      @ ''5|'' @ nl
      @ ''6|print(MyClass().y)'' @ nl
      @ ''(this is the end of the file)'' @ nl @ nl
      @ ''The assistant may produce an edit action like this:'' @ nl
      @ ''path='' @ [CHR 0x22] @ ''/path/to/file.txt'' @ [CHR 0x22] @ '' start=1 end=-1'' @ nl
      @ ''content=```'' @ nl
      @ ''#EDIT: I want to change the value of y to 2'' @ nl
      @ ''class MyClass:'' @ nl
      @ ''    def __init__(self):'' @ nl
      @ ''        # ... existing code ...'' @ nl
      @ ''        self.y = 2'' @ nl @ nl
      @ ''print(MyClass().y)'' @ nl
      @ ''```'' @ nl @ nl
      @ ''**Example 2: append to file for short files**'' @ nl
      @ ''For example, given an existing file `/path/to/file.py` that looks like this:'' @ nl
      @ ''(this is the beginning of the file)'' @ nl
      @ ''1|class MyClass:'' @ nl
      @ ''2|    def __init__(self):'' @ nl
      @ ''3|        self.x = 1'' @ nl
      @ ''4|        self.y = 2'' @ nl
      @ ''5|        self.z = 3'' @ nl
      @ ''6|'' @ nl
      @ ''7|print(MyClass().z)'' @ nl
      @ ''8|print(MyClass().x)'' @ nl
      @ ''(this is the end of the file)'' @ nl @ nl
      @ ''To append the following lines to the file:'' @ nl
      @ ''```python'' @ nl
      @ ''#EDIT: I want to print the value of y'' @ nl
      @ ''print(MyClass().y)'' @ nl
      @ ''```'' @ nl @ nl
      @ ''The assistant may produce an edit action like this:'' @ nl
      @ ''path='' @ [CHR 0x22] @ ''/path/to/file.txt'' @ [CHR 0x22] @ '' start=-1 end=-1'' @ nl
      @ ''content=```'' @ nl
      @ ''print(MyClass().y)'' @ nl
      @ ''```'' @ nl @ nl
      @ ''**Example 3: edit for long files**'' @ nl @ nl
      @ ''Given an existing file `/path/to/file.py` that looks like this:'' @ nl
      @ ''(1000 more lines above)'' @ nl
      @ ''1001|class MyClass:'' @ nl
      @ ''1002|    def __init__(self):'' @ nl
      @ ''1003|        self.x = 1'' @ nl
      @ ''1004|        self.y = 2'' @ nl
      @ ''1005|        self.z = 3'' @ nl
      @ ''1006|'' @ nl
      @ ''1007|print(MyClass().z)'' @ nl
      @ ''1008|print(MyClass().x)'' @ nl
      @ ''(2000 more lines below)'' @ nl @ nl
      @ ''The assistant wants to edit the file to look like this:'' @ nl @ nl
      @ ''(1000 more lines above)'' @ nl
      @ ''1001|class MyClass:'' @ nl
      @ ''1002|    def __init__(self):'' @ nl
      @ ''1003|        self.x = 1'' @ nl
      @ ''1004|        self.y = 2'' @ nl
      @ ''1005|'' @ nl
      @ ''1006|print(MyClass().y)'' @ nl
      @ ''(2000 more lines below)'' @ nl @ nl
      @ ''The assistant may produce an edit action like this:'' @ nl
      @ ''path='' @ [CHR 0x22] @ ''/path/to/file.txt'' @ [CHR 0x22] @ '' start=1002 end=1008'' @ nl
      @ ''content=```'' @ nl
      @ ''#EDIT: I want to change the value of y to 2'' @ nl
      @ ''    def __init__(self):'' @ nl
      @ ''        # no changes before'' @ nl
      @ ''        self.y = 2'' @ nl
      @ ''        # self.z is removed'' @ nl @ nl
      @ ''# MyClass().z is removed'' @ nl
      @ ''print(MyClass().y)'' @ nl
      @ ''```'' @ nl"

definition DETAILED_STR_REPLACE_EDITOR_DESCRIPTION :: string where
  "DETAILED_STR_REPLACE_EDITOR_DESCRIPTION =
     ''Custom editing tool for viewing, creating and editing files in plain-text format'' @ nl
      @ ''* State is persistent across command calls and discussions with the user'' @ nl

     @ ''* If `path` is a text file, `view` displays the result of applying `cat -n`. If `path` is a directory, `view` lists non-hidden files and directories up to 2 levels deep''
     @ nl
      @ ''* The following binary file extensions can be viewed in Markdown format: ['' @ [CHR 0x22] @ ''.xlsx''
     @ [CHR 0x22] @ '', '' @ [CHR 0x22] @ ''.pptx'' @ [CHR 0x22] @ '', '' @ [CHR 0x22] @ ''.wav'' @ [CHR 0x22]
     @ '', '' @ [CHR 0x22] @ ''.mp3'' @ [CHR 0x22] @ '', '' @ [CHR 0x22] @ ''.m4a'' @ [CHR 0x22] @ '', '' @ [CHR 0x22]
     @ ''.flac'' @ [CHR 0x22] @ '', '' @ [CHR 0x22] @ ''.pdf'' @ [CHR 0x22] @ '', '' @ [CHR 0x22] @ ''.docx''
     @ [CHR 0x22] @ '']. IT DOES NOT HANDLE IMAGES.'' @ nl
      @ ''* The `create` command cannot be used if the specified `path` already exists as a file'' @ nl
      @ ''* If a `command` generates a long output, it will be truncated and marked with `<response clipped>`'' @ nl
      @ ''* The `undo_edit` command will revert the last edit made to the file at `path`'' @ nl
      @ ''* This tool can be used for creating and editing files in plain-text format.'' @ nl @ nl @ nl
      @ ''Before using this tool:'' @ nl
      @ ''1. Use the view tool to understand the file'' @ [CHR 0x27] @ ''s contents and context'' @ nl
      @ ''2. Verify the directory path is correct (only applicable when creating new files):'' @ nl
      @ ''   - Use the view tool to verify the parent directory exists and is the correct location'' @ nl @ nl
      @ ''When making edits:'' @ nl
      @ ''   - Ensure the edit results in idiomatic, correct code'' @ nl
      @ ''   - Do not leave the code in a broken state'' @ nl
      @ ''   - Always use absolute file paths (starting with /)'' @ nl @ nl
      @ ''CRITICAL REQUIREMENTS FOR USING THIS TOOL:'' @ nl @ nl

     @ ''1. EXACT MATCHING: The `old_str` parameter must match EXACTLY one or more consecutive lines from the file, including all whitespace and indentation. The tool will fail if `old_str` matches multiple locations or doesn''
     @ [CHR 0x27] @ ''t match exactly with the file content.'' @ nl @ nl
      @ ''2. UNIQUENESS: The `old_str` must uniquely identify a single instance in the file:'' @ nl
      @ ''   - Include sufficient context before and after the change point (3-5 lines recommended)'' @ nl
      @ ''   - If not unique, the replacement will not be performed'' @ nl @ nl

     @ ''3. REPLACEMENT: The `new_str` parameter should contain the edited lines that replace the `old_str`. Both strings must be different.''
     @ nl @ nl

     @ ''Remember: when making multiple file edits in a row to the same file, you should prefer to send all edits in a single message with multiple calls to this tool, rather than multiple messages with a single call each.''
     @ nl"

definition SHORT_STR_REPLACE_EDITOR_DESCRIPTION :: string where
  "SHORT_STR_REPLACE_EDITOR_DESCRIPTION =
     ''Custom editing tool for viewing, creating and editing files in plain-text format'' @ nl
      @ ''* State is persistent across command calls and discussions with the user'' @ nl

     @ ''* If `path` is a file, `view` displays the result of applying `cat -n`. If `path` is a directory, `view` lists non-hidden files and directories up to 2 levels deep''
     @ nl
      @ ''* The `create` command cannot be used if the specified `path` already exists as a file'' @ nl
      @ ''* If a `command` generates a long output, it will be truncated and marked with `<response clipped>`'' @ nl
      @ ''* The `undo_edit` command will revert the last edit made to the file at `path`'' @ nl
      @ ''Notes for using the `str_replace` command:'' @ nl

     @ ''* The `old_str` parameter should match EXACTLY one or more consecutive lines from the original file. Be mindful of whitespaces!''
     @ nl

     @ ''* If the `old_str` parameter is not unique in the file, the replacement will not be performed. Make sure to include enough context in `old_str` to make it unique''
     @ nl
      @ ''* The `new_str` parameter should contain the edited lines that should replace the `old_str`'' @ nl"

section \<open>Tools\<close>

definition create_cmd_run_tool :: "(string \<Rightarrow> string) \<Rightarrow> bool \<Rightarrow> data" where
  "create_cmd_run_tool refine use_short_description =
     [(''type'', PStr ''function''),
      (''function'', PDict
        [(''name'', PStr ''execute_bash''),
         (''description'', PStr (refine (if use_short_description then SHORT_BASH_DESCRIPTION else DETAILED_BASH_DESCRIPTION))),
         (''parameters'', PDict
            [(''type'', PStr ''object''),
             (''properties'', PDict
               [(''command'', PDict
                  [(''type'', PStr ''string''),
                   (''description'', PStr (refine (''The bash command to execute. Can be empty string to view additional logs when previous exit code is `-1`. Can be `C-c` (Ctrl+C) to interrupt the currently running process. Note: You can only execute one bash command at a time. If you need to run multiple commands sequentially, you can use `&&` or `;` to chain them together.'')))]),
                (''is_input'', PDict
                  [(''type'', PStr ''string''),
                   (''description'', PStr (refine (''If True, the command is an input to the running process. If False, the command is a bash command to be executed in the terminal. Default is False.''))),
                   (''enum'', PList [PStr ''true'', PStr ''false''])]),
                (''timeout'', PDict
                  [(''type'', PStr ''number''),
                   (''description'', PStr ''Optional. Sets a hard timeout in seconds for the command execution. If not provided, the command will use the default soft timeout behavior.'')]),
                (''security_risk'', PDict
                  [(''type'', PStr ''string''),
                   (''description'', PStr SECURITY_RISK_DESC),
                   (''enum'', PList (map PStr RISK_LEVELS))])]),
             (''required'', PList [PStr ''command'', PStr ''security_risk''])])])]"

definition ThinkTool :: "data" where
  "ThinkTool =
     [(''type'', PStr ''function''),
      (''function'', PDict
        [(''name'', PStr ''think''),
         (''description'', PStr (THINK_DESCRIPTION)),
         (''parameters'', PDict
            [(''type'', PStr ''object''),
             (''properties'', PDict
               [(''thought'', PDict
                  [(''type'', PStr ''string''),
                   (''description'', PStr ''The thought to log.'')])]),
             (''required'', PList [PStr ''thought''])])])]"

definition FinishTool :: "data" where
  "FinishTool =
     [(''type'', PStr ''function''),
      (''function'', PDict
        [(''name'', PStr ''finish''),
         (''description'', PStr (FINISH_DESCRIPTION)),
         (''parameters'', PDict
            [(''type'', PStr ''object''),
             (''required'', PList [PStr ''message'']),
             (''properties'', PDict
               [(''message'', PDict
                  [(''type'', PStr ''string''),
                   (''description'', PStr ''Final message to send to the user'')])])])])]"

definition CondensationRequestTool :: "data" where
  "CondensationRequestTool =
     [(''type'', PStr ''function''),
      (''function'', PDict
        [(''name'', PStr ''request_condensation''),
         (''description'', PStr (CONDENSATION_REQUEST_DESCRIPTION)),
         (''parameters'', PDict
            [(''type'', PStr ''object''),
             (''properties'', PDict []),
             (''required'', PList [])])])]"

definition BrowserTool :: "data" where
  "BrowserTool =
     [(''type'', PStr ''function''),
      (''function'', PDict
        [(''name'', PStr ''browser''),
         (''description'', PStr (BROWSER_DESCRIPTION)),
         (''parameters'', PDict
            [(''type'', PStr ''object''),
             (''properties'', PDict
               [(''code'', PDict
                  [(''type'', PStr ''string''),
                   (''description'', PStr (''The Python code that interacts with the browser.'' @ nl @ BROWSER_TOOL_DESCRIPTION))]),
                (''security_risk'', PDict
                  [(''type'', PStr ''string''),
                   (''description'', PStr SECURITY_RISK_DESC),
                   (''enum'', PList (map PStr RISK_LEVELS))])]),
             (''required'', PList [PStr ''code'', PStr ''security_risk''])])])]"

definition IPythonTool :: "data" where
  "IPythonTool =
     [(''type'', PStr ''function''),
      (''function'', PDict
        [(''name'', PStr ''execute_ipython_cell''),
         (''description'', PStr (IPYTHON_DESCRIPTION)),
         (''parameters'', PDict
            [(''type'', PStr ''object''),
             (''properties'', PDict
               [(''code'', PDict
                  [(''type'', PStr ''string''),
                   (''description'', PStr ''The Python code to execute. Supports magic commands like %pip.'')]),
                (''security_risk'', PDict
                  [(''type'', PStr ''string''),
                   (''description'', PStr SECURITY_RISK_DESC),
                   (''enum'', PList (map PStr RISK_LEVELS))])]),
             (''required'', PList [PStr ''code'', PStr ''security_risk''])])])]"

definition create_task_tracker_tool :: "bool \<Rightarrow> data" where
  "create_task_tracker_tool use_short_description =
     [(''type'', PStr ''function''),
      (''function'', PDict
        [(''name'', PStr ''task_tracker''),
         (''description'', PStr (if use_short_description then SHORT_TASK_TRACKER_DESCRIPTION else DETAILED_TASK_TRACKER_DESCRIPTION)),
         (''parameters'', PDict
            [(''type'', PStr ''object''),
             (''properties'', PDict
               [(''command'', PDict
                  [(''type'', PStr ''string''),
                   (''enum'', PList [PStr ''view'', PStr ''plan'']),
                   (''description'', PStr ''The command to execute. `view` shows the current task list. `plan` creates or updates the task list based on provided requirements and progress. Always `view` the current list before making changes.'')]),
                (''task_list'', PDict
                  [(''type'', PStr ''array''),
                   (''description'', PStr ''The full task list. Required parameter of `plan` command.''),
                   (''items'', PDict
                     [(''type'', PStr ''object''),
                      (''properties'', PDict
                        [(''id'', PDict
                           [(''type'', PStr ''string''),
                            (''description'', PStr ''Unique task identifier'')]),
                         (''title'', PDict
                           [(''type'', PStr ''string''),
                            (''description'', PStr ''Brief task description'')]),
                         (''status'', PDict
                           [(''type'', PStr ''string''),
                            (''description'', PStr ''Current task status''),
                            (''enum'', PList [PStr ''todo'', PStr ''in_progress'', PStr ''done''])]),
                         (''notes'', PDict
                           [(''type'', PStr ''string''),
                            (''description'', PStr ''Optional additional context or details'')])]),
                      (''required'', PList [PStr ''title'', PStr ''status'', PStr ''id'']),
                      (''additionalProperties'', PBool False)])])]),
             (''required'', PList [PStr ''command'']),
             (''additionalProperties'', PBool False)])])]"

definition LLMBasedFileEditTool :: "data" where
  "LLMBasedFileEditTool =
     [(''type'', PStr ''function''),
      (''function'', PDict
        [(''name'', PStr ''edit_file''),
         (''description'', PStr (FILE_EDIT_DESCRIPTION)),
         (''parameters'', PDict
            [(''type'', PStr ''object''),
             (''properties'', PDict
               [(''path'', PDict
                  [(''type'', PStr ''string''),
                   (''description'', PStr ''The absolute path to the file to be edited.'')]),
                (''content'', PDict
                  [(''type'', PStr ''string''),
                   (''description'', PStr ''A draft of the new content for the file being edited. Note that the assistant may skip unchanged lines.'')]),
                (''start'', PDict
                  [(''type'', PStr ''integer''),
                   (''description'', PStr ''The starting line number for the edit (1-indexed, inclusive). Default is 1.'')]),
                (''end'', PDict
                  [(''type'', PStr ''integer''),
                   (''description'', PStr ''The ending line number for the edit (1-indexed, inclusive). Default is -1 (end of file).'')]),
                (''security_risk'', PDict
                  [(''type'', PStr ''string''),
                   (''description'', PStr SECURITY_RISK_DESC),
                   (''enum'', PList (map PStr RISK_LEVELS))])]),
             (''required'', PList [PStr ''path'', PStr ''content'', PStr ''security_risk''])])])]"

definition create_str_replace_editor_tool :: "bool \<Rightarrow> string \<Rightarrow> data" where
  "create_str_replace_editor_tool use_short_description workspace_mount_path_in_sandbox =
     [(''type'', PStr ''function''),
      (''function'', PDict
        [(''name'', PStr ''str_replace_editor''),
         (''description'', PStr (if use_short_description then SHORT_STR_REPLACE_EDITOR_DESCRIPTION else DETAILED_STR_REPLACE_EDITOR_DESCRIPTION)),
         (''parameters'', PDict
            [(''type'', PStr ''object''),
             (''properties'', PDict
               [(''command'', PDict
                  [(''description'', PStr ''The commands to run. Allowed options are: `view`, `create`, `str_replace`, `insert`, `undo_edit`.''),
                   (''enum'', PList [PStr ''view'', PStr ''create'', PStr ''str_replace'', PStr ''insert'', PStr ''undo_edit'']),
                   (''type'', PStr ''string'')]),
                (''path'', PDict
                  [(''description'', PStr (''Absolute path to file or directory, e.g. `'' @ workspace_mount_path_in_sandbox @ ''/file.py` or `'' @ workspace_mount_path_in_sandbox @ ''`.'')),
                   (''type'', PStr ''string'')]),
                (''file_text'', PDict
                  [(''description'', PStr ''Required parameter of `create` command, with the content of the file to be created.''),
                   (''type'', PStr ''string'')]),
                (''old_str'', PDict
                  [(''description'', PStr ''Required parameter of `str_replace` command containing the string in `path` to replace.''),
                   (''type'', PStr ''string'')]),
                (''new_str'', PDict
                  [(''description'', PStr ''Optional parameter of `str_replace` command containing the new string (if not given, no string will be added). Required parameter of `insert` command containing the string to insert.''),
                   (''type'', PStr ''string'')]),
                (''insert_line'', PDict
                  [(''description'', PStr ''Required parameter of `insert` command. The `new_str` will be inserted AFTER the line `insert_line` of `path`.''),
                   (''type'', PStr ''integer'')]),
                (''view_range'', PDict
                  [(''description'', PStr ''Optional parameter of `view` command when `path` points to a file. If none is given, the full file is shown. If provided, the file will be shown in the indicated line number range, e.g. [11, 12] will show lines 11 and 12. Indexing at 1 to start. Setting `[start_line, -1]` shows all lines from `start_line` to the end of the file.''),
                   (''items'', PDict
                     [(''type'', PStr ''integer'')]),
                   (''type'', PStr ''array'')]),
                (''security_risk'', PDict
                  [(''type'', PStr ''string''),
                   (''description'', PStr SECURITY_RISK_DESC),
                   (''enum'', PList (map PStr RISK_LEVELS))])]),
             (''required'', PList [PStr ''command'', PStr ''path'', PStr ''security_risk''])])])]"

end
