(* ===== verification/Codeact_Calls.thy ===== *)
theory Codeact_Calls
  imports Conversation_Memory Json_Text Tool_Definitions
begin

text \<open>
  How the CodeAct agent reads the response of the language model
  (\<^verbatim>\<open>openhands/agenthub/codeact_agent/function_calling.py\<close>), which tools it offers, and how it finds the
  initial message of the user (\<^verbatim>\<open>codeact_agent.py\<close>).  A response is the dictionary of its fields.  Arguments that
  are JSON but not an object are not modelled.
\<close>

section \<open>Thoughts and risks\<close>

definition combine_thought :: "event \<Rightarrow> string \<Rightarrow> event" where
  "combine_thought a thought =
     (if \<not> hasattr a ''thought'' then a
      else if thought \<noteq> [] \<and> truthy (attr a ''thought'')
      then setattr ''thought'' (PStr (thought @ nl @ fmt a ''thought'')) a
      else if thought \<noteq> [] then setattr ''thought'' (PStr thought) a
      else a)"

definition risk_of :: "pyval \<Rightarrow> int option" where
  \<comment> \<open>a member of \<^verbatim>\<open>RISK_LEVELS\<close> as \<^verbatim>\<open>ActionSecurityRisk\<close>\<close>
  "risk_of v =
     (if v = PStr ''LOW'' then Some 0 else if v = PStr ''MEDIUM'' then Some 1
      else if v = PStr ''HIGH'' then Some 2 else None)"

definition set_security_risk :: "data \<Rightarrow> event \<Rightarrow> event" where
  "set_security_risk args a =
     (case map_of args ''security_risk'' of
        None \<Rightarrow> a
      | Some v \<Rightarrow> (case risk_of v of
                     None \<Rightarrow> a
                   | Some k \<Rightarrow> if hasattr a ''security_risk'' then setattr ''security_risk'' (PInt k) a else a))"

section \<open>One call\<close>

definition missing :: "string \<Rightarrow> pyerr" where
  "missing k = FunctionCallValidationError (''Missing required argument '' @ k)"

definition get_or :: "string \<Rightarrow> pyval \<Rightarrow> data \<Rightarrow> pyval" where
  \<comment> \<open>\<^verbatim>\<open>arguments.get(k, v)\<close>\<close>
  "get_or k v args = (case map_of args k of Some x \<Rightarrow> x | None \<Rightarrow> v)"

definition cmd_run :: "data \<Rightarrow> event res" where
  "cmd_run args =
     (case map_of args ''command'' of
        None \<Rightarrow> Inl (missing ''command'')
      | Some cmd \<Rightarrow>
          (case dataclass_init CmdRunAction
                  [(''command'', cmd), (''is_input'', PBool (get_or ''is_input'' (PStr ''false'') args = PStr ''true''))] of
             Inl e \<Rightarrow> Inl e
           | Inr a \<Rightarrow>
               (case map_of args ''timeout'' of
                  None \<Rightarrow> Inr (set_security_risk args a)
                | Some v \<Rightarrow>
                    (case py_float v of
                       Inl (ValueError _) \<Rightarrow> Inl (FunctionCallValidationError ''Invalid float passed to timeout argument'')
                     | Inl e \<Rightarrow> Inl e
                     | Inr r \<Rightarrow> Inr (set_security_risk args (set_hard_timeout (Some r) (PBool True) a))))))"

definition with_code :: "event_class \<Rightarrow> string \<Rightarrow> data \<Rightarrow> event res" where
  \<comment> \<open>the tools whose only argument is \<^verbatim>\<open>code\<close>\<close>
  "with_code c target args =
     (case map_of args ''code'' of
        None \<Rightarrow> Inl (missing ''code'')
      | Some code \<Rightarrow> (case dataclass_init c [(target, code)] of Inl e \<Rightarrow> Inl e | Inr a \<Rightarrow> Inr (set_security_risk args a)))"

definition llm_based_edit :: "data \<Rightarrow> event res" where
  "llm_based_edit args =
     (case (map_of args ''path'', map_of args ''content'') of
        (None, _) \<Rightarrow> Inl (missing ''path'')
      | (_, None) \<Rightarrow> Inl (missing ''content'')
      | (Some p, Some c) \<Rightarrow>
          dataclass_init FileEditAction
            [(''path'', p), (''content'', c), (''start'', get_or ''start'' (PInt 1) args), (''end'', get_or ''end'' (PInt (-1)) args),
             (''impl_source'', get_or ''impl_source'' (PStr ''llm_based_edit'') args)])"

definition editor_params :: "string list" where
  "editor_params =
     [''command'', ''path'', ''file_text'', ''old_str'', ''new_str'', ''insert_line'', ''view_range'', ''security_risk'']"

definition str_replace_editor :: "data \<Rightarrow> event res" where
  "str_replace_editor args =
     (case (map_of args ''command'', map_of args ''path'') of
        (None, _) \<Rightarrow> Inl (missing ''command'')
      | (_, None) \<Rightarrow> Inl (missing ''path'')
      | (Some cmd, Some p) \<Rightarrow>
          (let other = filter (\<lambda>(k, v). k \<notin> {''command'', ''path''}) args;
               r = (if cmd = PStr ''view''
                    then dataclass_init FileReadAction
                           [(''path'', p), (''impl_source'', PStr ''oh_aci''), (''view_range'', get_or ''view_range'' PNone other)]
                    else (let rest = dict_del ''view_range'' other
                          in if list_ex (\<lambda>(k, v). k \<notin> set editor_params) rest
                             then Inl (FunctionCallValidationError ''Unexpected argument'')
                             else dataclass_init FileEditAction
                                    ([(''path'', p), (''command'', cmd), (''impl_source'', PStr ''oh_aci'')]
                                     @ filter (\<lambda>(k, v). k \<noteq> ''security_risk'') rest)))
           in case r of Inl e \<Rightarrow> Inl e | Inr a \<Rightarrow> Inr (set_security_risk args a)))"

fun normalize_tasks :: "nat \<Rightarrow> pyval list \<Rightarrow> (pyval list) res" where
  "normalize_tasks i [] = Inr []"
| "normalize_tasks i (t # ts) =
     (case t of
        PDict d \<Rightarrow>
          (case normalize_tasks (i + 1) ts of
             Inl e \<Rightarrow> Inl e
           | Inr us \<Rightarrow> Inr (PDict [(''id'', get_or ''id'' (PStr (''task-'' @ str_of_nat (i + 1))) d),
                              (''title'', get_or ''title'' (PStr ''Untitled task'') d),
                              (''status'', get_or ''status'' (PStr ''todo'') d), (''notes'', get_or ''notes'' (PStr []) d)] # us))
      | _ \<Rightarrow> Inl (FunctionCallValidationError ''Unexpected task format in task_list''))"

definition task_tracker :: "nat \<Rightarrow> data \<Rightarrow> (nat \<times> event) res" where
  \<comment> \<open>the loop over the tasks reuses the variable of the loop over the calls: the index after it comes first\<close>
  "task_tracker i args =
     (case map_of args ''command'' of
        None \<Rightarrow> Inl (missing ''command'')
      | Some cmd \<Rightarrow>
          (if cmd = PStr ''plan'' \<and> map_of args ''task_list'' = None then Inl (missing ''task_list'')
           else case get_or ''task_list'' (PList []) args of
             PList ts \<Rightarrow>
               (case normalize_tasks 0 ts of
                  Inl e \<Rightarrow> Inl e
                | Inr us \<Rightarrow>
                    (case dataclass_init TaskTrackingAction [(''command'', cmd), (''task_list'', PList us)] of
                       Inl e \<Rightarrow> Inl e
                     | Inr a \<Rightarrow> Inr (if ts = [] then i else length ts - 1, a)))
           | _ \<Rightarrow> Inl (FunctionCallValidationError ''Invalid format for task_list'')))"

definition same_index :: "nat \<Rightarrow> event res \<Rightarrow> (nat \<times> event) res" where
  "same_index i r = (case r of Inl e \<Rightarrow> Inl e | Inr a \<Rightarrow> Inr (i, a))"

definition call_to_action :: "string list \<Rightarrow> nat \<Rightarrow> string \<Rightarrow> data \<Rightarrow> (nat \<times> event) res" where
  \<comment> \<open>the action of a call by the name of its tool, and the index that the loop goes on with\<close>
  "call_to_action mcp i name args =
     (if name = ''execute_bash'' then same_index i (cmd_run args)
      else if name = ''execute_ipython_cell'' then same_index i (with_code IPythonRunCellAction ''code'' args)
      else if name = ''delegate_to_browsing_agent''
      then same_index i (dataclass_init AgentDelegateAction [(''agent'', PStr ''BrowsingAgent''), (''inputs'', PDict args)])
      else if name = ''finish''
      then same_index i (dataclass_init AgentFinishAction [(''final_thought'', get_or ''message'' (PStr []) args)])
      else if name = ''edit_file'' then same_index i (llm_based_edit args)
      else if name = ''str_replace_editor'' then same_index i (str_replace_editor args)
      else if name = ''think''
      then same_index i (dataclass_init AgentThinkAction [(''thought'', get_or ''thought'' (PStr []) args)])
      else if name = ''request_condensation'' then same_index i (dataclass_init CondensationRequestAction [])
      else if name = ''browser'' then same_index i (with_code BrowseInteractiveAction ''browser_actions'' args)
      else if name = ''task_tracker'' then task_tracker i args
      else if name \<in> set mcp
      then same_index i (dataclass_init MCPAction [(''name'', PStr name), (''arguments'', PDict args)])
      else Inl (FunctionCallNotExistsError ''Tool is not registered''))"

section \<open>The response\<close>

fun list_text :: "pyval list \<Rightarrow> string res" where
  \<comment> \<open>the texts of a list of content items\<close>
  "list_text [] = Inr []"
| "list_text (v # vs) =
     (case v of
        PDict d \<Rightarrow>
          (case map_of d ''type'' of
             None \<Rightarrow> Inl (KeyError ''type'')
           | Some t \<Rightarrow>
               (if t \<noteq> PStr ''text'' then list_text vs
                else case map_of d ''text'' of
                       None \<Rightarrow> Inl (KeyError ''text'')
                     | Some (PStr s) \<Rightarrow> (case list_text vs of Inl e \<Rightarrow> Inl e | Inr r \<Rightarrow> Inr (s @ r))
                     | Some _ \<Rightarrow> Inl (TypeError ''can only concatenate str'')))
      | _ \<Rightarrow> Inl (TypeError ''indices must be integers''))"

definition response_thought :: "pyval \<Rightarrow> string res" where
  "response_thought body =
     (case body of PStr s \<Rightarrow> Inr s | PList vs \<Rightarrow> list_text vs | _ \<Rightarrow> Inr [])"

definition call_metadata :: "tool_call \<Rightarrow> pyval \<Rightarrow> nat \<Rightarrow> pyval res" where
  \<comment> \<open>\<^verbatim>\<open>ToolCallMetadata(...)\<close>; the identifier has to be a string\<close>
  "call_metadata c response ncalls =
     (case tc_id c of
        None \<Rightarrow> Inl (ValueError ''validation error for ToolCallMetadata'')
      | Some i \<Rightarrow> Inr (PDict [(''function_name'', PStr (tc_name c)), (''tool_call_id'', PStr i),
                              (''model_response'', response), (''total_calls_in_response'', PInt (int ncalls))]))"

fun calls_to_actions :: "string list \<Rightarrow> pyval \<Rightarrow> string \<Rightarrow> nat \<Rightarrow> nat \<Rightarrow> tool_call list \<Rightarrow> (event list) res" where
  \<comment> \<open>the loop over the calls; \<open>i\<close> is the index and \<open>ncalls\<close> the number of calls\<close>
  "calls_to_actions mcp response thought ncalls i [] = Inr []"
| "calls_to_actions mcp response thought ncalls i (c # cs) =
     (case json_loads (tc_arguments c) of
        Inl (ValueError _) \<Rightarrow> Inl (FunctionCallValidationError ''Failed to parse tool call arguments'')
      | Inl e \<Rightarrow> Inl e
      | Inr (PDict args) \<Rightarrow>
          (case call_to_action mcp i (tc_name c) args of
             Inl e \<Rightarrow> Inl e
           | Inr (j, a) \<Rightarrow>
               (case call_metadata c response ncalls of
                  Inl e \<Rightarrow> Inl e
                | Inr md \<Rightarrow>
                    (let a' = (if j = 0 then combine_thought a thought else a)\<lparr>ev_tool_call_metadata := Some md\<rparr>
                     in case calls_to_actions mcp response thought ncalls (i + 1) cs of
                          Inl e \<Rightarrow> Inl e | Inr as \<Rightarrow> Inr (a' # as))))
      | Inr _ \<Rightarrow> Inl (NotModelled ''the arguments are not an object''))"

definition response_to_actions :: "pyval \<Rightarrow> string list \<Rightarrow> (event list) res" where
  "response_to_actions response mcp =
     (case (field ''choices'' response, field ''id'' response) of
        (Inr (PList [choice]), Inr rid) \<Rightarrow>
          (case field ''message'' choice of
             Inl e \<Rightarrow> Inl e
           | Inr assistant \<Rightarrow>
               (case field ''content'' assistant of
                  Inl e \<Rightarrow> Inl e
                | Inr body \<Rightarrow>
                    (let r = (case field ''tool_calls'' assistant of
                                Inr (PList (v # vs)) \<Rightarrow>
                                  (case (response_thought body, read_calls (v # vs)) of
                                     (Inr thought, Inr cs) \<Rightarrow> calls_to_actions mcp response thought (length cs) 0 cs
                                   | (Inl e, _) \<Rightarrow> Inl e
                                   | (_, Inl e) \<Rightarrow> Inl e)
                              | _ \<Rightarrow>
                                  (case dataclass_init MessageAction
                                          [(''content'', PStr (if truthy (Some body) then py_str body else [])),
                                           (''wait_for_response'', PBool True)] of
                                     Inl e \<Rightarrow> Inl e | Inr a \<Rightarrow> Inr [a]))
                     in case r of
                          Inl e \<Rightarrow> Inl e | Inr as \<Rightarrow> Inr (map (setattr ''_response_id'' rid) as))))
      | (Inr (PList _), _) \<Rightarrow> Inl (AssertionError ''Only one choice is supported for now'')
      | (Inl e, _) \<Rightarrow> Inl e
      | (_, Inl e) \<Rightarrow> Inl e
      | _ \<Rightarrow> Inl (TypeError ''object has no len()''))"

section \<open>The agent\<close>

record codeact_config =
  enable_cmd :: bool
  enable_think :: bool
  enable_finish :: bool
  enable_condensation_request :: bool
  enable_browsing :: bool
  enable_jupyter :: bool
  enable_plan_mode :: bool
  enable_llm_editor :: bool
  enable_editor :: bool
  cfg_model :: "string option"      \<comment> \<open>\<^verbatim>\<open>self.llm.config.model\<close>, if there is a model\<close>
  cfg_runtime :: "string option"

record codeact_platform =
  windows :: bool                        \<comment> \<open>\<^verbatim>\<open>sys.platform == 'win32'\<close>\<close>
  refine_prompt :: "string \<Rightarrow> string"
  sandbox_volumes :: "string option"     \<comment> \<open>\<^verbatim>\<open>os.environ.get('SANDBOX_VOLUMES')\<close>\<close>
  abspath :: "string \<Rightarrow> string"
  cwd :: string

fun workspace_mount :: "(string \<Rightarrow> string) \<Rightarrow> string list \<Rightarrow> string option" where
  "workspace_mount absolute [] = None"
| "workspace_mount absolute (m # ms) =
     (case split_on (CHR '':'') m of
        host # target # _ \<Rightarrow> (if target = ''/workspace'' then Some (absolute host) else workspace_mount absolute ms)
      | _ \<Rightarrow> workspace_mount absolute ms)"

definition get_workspace_mount_path_from_env :: "codeact_platform \<Rightarrow> string option \<Rightarrow> string" where
  "get_workspace_mount_path_from_env P runtime_type =
     (if runtime_type = Some ''local'' \<or> runtime_type = Some ''cli''
      then (case sandbox_volumes P of
              Some (c # vs) \<Rightarrow>
                (case workspace_mount (abspath P) (split_on (CHR '','') (c # vs)) of Some h \<Rightarrow> h | None \<Rightarrow> cwd P)
            | _ \<Rightarrow> cwd P)
      else ''/workspace'')"

definition use_short_tool_desc :: "string \<Rightarrow> bool" where
  "use_short_tool_desc model = list_ex (\<lambda>s. contains s model) [''gpt-4'', ''o3'', ''o1'', ''o4'']"

definition get_tools :: "codeact_platform \<Rightarrow> codeact_config \<Rightarrow> data list" where
  "get_tools P c =
     (let short = (case cfg_model c of None \<Rightarrow> False | Some m \<Rightarrow> use_short_tool_desc m) in
      (if enable_cmd c then [create_cmd_run_tool (refine_prompt P) short] else [])
      @ (if enable_think c then [ThinkTool] else [])
      @ (if enable_finish c then [FinishTool] else [])
      @ (if enable_condensation_request c then [CondensationRequestTool] else [])
      @ (if enable_browsing c \<and> \<not> windows P then [BrowserTool] else [])
      @ (if enable_jupyter c then [IPythonTool] else [])
      @ (if enable_plan_mode c then [create_task_tracker_tool short] else [])
      @ (if enable_llm_editor c then [LLMBasedFileEditTool]
         else if enable_editor c
         then [create_str_replace_editor_tool short (get_workspace_mount_path_from_env P (cfg_runtime c))] else []))"

definition tool_name :: "data \<Rightarrow> string" where
  \<comment> \<open>\<^verbatim>\<open>tool['function']['name']\<close>\<close>
  "tool_name t =
     (case map_of t ''function'' of
        Some (PDict fn) \<Rightarrow> (case map_of fn ''name'' of Some (PStr s) \<Rightarrow> s | _ \<Rightarrow> [])
      | _ \<Rightarrow> [])"

fun set_mcp_tools :: "data list \<Rightarrow> (string, data) dict \<times> data list \<Rightarrow> (string, data) dict \<times> data list" where
  \<comment> \<open>the MCP tools by name and all tools of the agent, after the given tools have been added\<close>
  "set_mcp_tools [] s = s"
| "set_mcp_tools (t # ts) (mcp, tools) =
     (if dict_has (tool_name t) mcp then set_mcp_tools ts (mcp, tools)
      else set_mcp_tools ts (dict_set (tool_name t) t mcp, tools @ [t]))"

definition get_initial_user_message :: "event list \<Rightarrow> event res" where
  "get_initial_user_message history =
     (case find from_user history of
        Some e \<Rightarrow> Inr e | None \<Rightarrow> Inl (ValueError ''Initial user message not found in history.''))"

end
