(* ===== verification/Conversation_Properties.thy ===== *)
theory Conversation_Properties
  imports Conversation_Memory
begin

text \<open>
  Properties of the conversation memory: the messages it builds form a well-formed
  conversation (every tool call directly followed by its results), the filter leaves exactly the calls
  and responses that match, processing is idempotent, and what is built can be cached and serialised.
\<close>

section \<open>Well-formed conversations\<close>

definition ordinary :: "msg \<Rightarrow> bool" where
  \<comment> \<open>a message that neither calls a tool nor answers a call\<close>
  "ordinary m \<longleftrightarrow> m_tool_calls m = None \<and> m_tool_call_id m = None \<and> m_role m \<in> {''user'', ''assistant'', ''system''} \<and> m_content m \<noteq> []"

definition answer :: "tool_call \<Rightarrow> msg \<Rightarrow> bool" where
  "answer c r \<longleftrightarrow> m_role r = ''tool'' \<and> m_tool_calls r = None \<and> m_tool_call_id r = tc_id c \<and> m_name r \<noteq> None \<and> m_content r \<noteq> []"

inductive conversation :: "msg list \<Rightarrow> bool" where
  conv_Nil: "conversation []"
| conv_msg: "ordinary m \<Longrightarrow> conversation ms \<Longrightarrow> conversation (m # ms)"
| conv_call: "m_role m = ''assistant'' \<Longrightarrow> m_tool_call_id m = None \<Longrightarrow> m_tool_calls m = Some cs \<Longrightarrow> list_all (\<lambda>c. truthy_id (tc_id c) \<noteq> []) cs \<Longrightarrow>
    list_all2 answer cs rs \<Longrightarrow> conversation ms \<Longrightarrow> conversation (m # rs @ ms)"

lemma conversation_append: "conversation ms \<Longrightarrow> conversation ns \<Longrightarrow> conversation (ms @ ns)"
  by (induction rule: conversation.induct) (auto intro: conversation.intros simp: conv_call)

definition pending_ok :: "(string, msg) dict \<Rightarrow> bool" where
  "pending_ok p \<longleftrightarrow> (\<forall>m\<in>snd ` set p. m_role m = ''assistant'' \<and> m_tool_call_id m = None \<and> list_all (\<lambda>c. truthy_id (tc_id c) \<noteq> []) (calls m))"

definition results_ok :: "(string, msg) dict \<Rightarrow> bool" where
  "results_ok r \<longleftrightarrow> (\<forall>(i, m)\<in>set r. m_role m = ''tool'' \<and> m_tool_calls m = None \<and> m_tool_call_id m = Some i \<and> m_name m \<noteq> None \<and> m_content m \<noteq> [])"

lemma results_ok_del: "results_ok r \<Longrightarrow> results_ok (dict_del i r)"
  by (auto simp: results_ok_def dict_del_def)

lemma set_dict_set_subset: "set (dict_set k v d) \<subseteq> insert (k, v) (set d)"
  by (induction k v d rule: dict_set.induct) auto

lemma take_results_answer:
  "take_results cs r = Inr (ms, r') \<Longrightarrow> results_ok r \<Longrightarrow> list_all2 answer cs ms \<and> results_ok r'"
proof (induction cs r arbitrary: ms r' rule: take_results.induct)
  case (2 c cs r)
  obtain i m ms' where i: "tc_id c = Some i" "map_of r i = Some m" "take_results cs (dict_del i r) = Inr (ms', r')" "ms = m # ms'"
    using "2.prems"(1) by (auto split: option.splits sum.splits)
  have "answer c m" using map_of_SomeD[OF i(2)] "2.prems"(2) i(1) by (auto simp: results_ok_def answer_def)
  then show ?case using "2.IH"[OF i(1,2,3) results_ok_del[OF "2.prems"(2)]] i(4) by simp
qed simp

lemma flush_conversation:
  "flush p r = Inr (out, p', r') \<Longrightarrow> pending_ok p \<Longrightarrow> results_ok r \<Longrightarrow> conversation out \<and> pending_ok p' \<and> results_ok r'"
proof (induction p r arbitrary: out p' r' rule: flush.induct)
  case (1 r)
  then show ?case by (simp add: conv_Nil pending_ok_def)
next
  case (2 rid m p r)
  obtain cs where cs: "m_tool_calls m = Some cs" using "2.prems"(1) by (auto split: option.splits)
  have m: "m_role m = ''assistant''" "m_tool_call_id m = None" "list_all (\<lambda>c. truthy_id (tc_id c) \<noteq> []) cs" and p: "pending_ok p"
    using "2.prems"(2) by (auto simp: pending_ok_def calls_def cs)
  show ?case
  proof (cases "list_all (has_result r) cs")
    case True
    then obtain ms r1 o1 where t: "take_results cs r = Inr (ms, r1)" "flush p r1 = Inr (o1, p', r')" "out = m # ms @ o1"
      using "2.prems"(1) cs by (auto split: sum.splits)
    have a: "list_all2 answer cs ms" "results_ok r1" using take_results_answer[OF t(1) "2.prems"(3)] by auto
    have "conversation o1 \<and> pending_ok p' \<and> results_ok r'" using "2.IH"(1)[OF cs True t(1) refl t(2) p a(2)] .
    then show ?thesis using conv_call[OF m(1,2) cs m(3) a(1)] t(3) by simp
  next
    case False
    then obtain p1 where t: "flush p r = Inr (out, p1, r')" "p' = (rid, m) # p1"
      using "2.prems"(1) cs by (auto split: sum.splits)
    show ?thesis using "2.IH"(2)[OF cs False t(1) p "2.prems"(3)] t(2) m by (simp add: pending_ok_def calls_def cs)
  qed
qed

definition good_event :: "event \<Rightarrow> bool" where
  \<comment> \<open>the response behind a tool action is a message of the assistant whose calls have identifiers\<close>
  "good_event e =
     (case ev_tool_call_metadata e of
        None \<Rightarrow> True
      | Some md \<Rightarrow> (case pending_message md of
                      Inl _ \<Rightarrow> True
                    | Inr (_, m) \<Rightarrow> m_role m = ''assistant'' \<and> list_all (\<lambda>c. truthy_id (tc_id c) \<noteq> []) (calls m)))"

lemma ordinary_Message: "r \<in> {''user'', ''assistant'', ''system''} \<Longrightarrow> items \<noteq> [] \<Longrightarrow> ordinary (Message r items)"
  by (simp add: ordinary_def Message_def)

lemma source_role_in: "source_role a \<in> {''user'', ''assistant'', ''system''}"
  by (simp add: source_role_def)

lemma pending_message_no_answer: "pending_message md = Inr (rid, m) \<Longrightarrow> m_tool_call_id m = None"
  by (auto simp: pending_message_def Message_def Let_def split: sum.splits pyval.splits if_splits)

lemma process_action_ok:
  assumes "process_action E v a p = Inr (a', p', ms)" "good_event a" "pending_ok p"
  shows "list_all ordinary ms \<and> pending_ok p'"
proof (cases "tool_action a \<and> \<not> (ev_source a = Some USER \<and> ev_tool_call_metadata a = None)")
  case True
  then obtain md rid m where md: "ev_tool_call_metadata a = Some md" "pending_message md = Inr (rid, m)"
    and r: "p' = dict_set rid m p" "ms = []"
    using assms(1) by (auto simp: process_action_def split: option.splits sum.splits)
  have "m_role m = ''assistant'' \<and> list_all (\<lambda>c. truthy_id (tc_id c) \<noteq> []) (calls m)"
    using assms(2) by (simp add: good_event_def md)
  then show ?thesis using assms(3) set_dict_set_subset[of rid m p] r pending_message_no_answer[OF md(2)] by (auto simp: pending_ok_def)
next
  case False
  then have "list_all ordinary ms \<and> p' = p"
    using assms(1) ordinary_Message[OF source_role_in]
    by (auto simp: process_action_def ordinary_Message Let_def split: if_splits option.splits sum.splits)
  then show ?thesis using assms(3) by simp
qed

lemma observation_content_nonempty: "observation_content E C e earlier = Inr (Some items) \<Longrightarrow> items \<noteq> []"
  by (cases "ev_class e")
     (auto simp: observation_content_def Let_def ipython_content_def browser_content_def split: if_splits option.splits pyval.splits)

lemma process_observation_ok:
  assumes "process_observation E C e earlier r = Inr (r', ms)" "results_ok r"
  shows "list_all ordinary ms \<and> results_ok r'"
proof (cases "observation_content E C e earlier")
  case (Inr x)
  show ?thesis
  proof (cases x)
    case None
    then show ?thesis using assms Inr by (simp add: process_observation_def)
  next
    case (Some items)
    have "items \<noteq> []" using observation_content_nonempty[of E C e earlier items] Inr Some by simp
    then show ?thesis
      using assms Inr Some set_dict_set_subset
      by (fastforce simp: process_observation_def ordinary_def Message_def results_ok_def Let_def split: option.splits if_splits)
  qed
qed (use assms in \<open>simp add: process_observation_def\<close>)

lemma ordinary_conversation: "list_all ordinary ms \<Longrightarrow> conversation ms"
  by (induction ms) (auto intro: conversation.intros)

lemma loop_cases:
  assumes "process_loop E C earlier (e # events) p r = Inr (es, ms)"
  obtains e' p1 r1 ms1 out p2 r2 rest where
    "if is_action e then process_action E (vision_is_active C) e p = Inr (e', p1, ms1) \<and> r1 = r
     else process_observation E C e earlier r = Inr (r1, ms1) \<and> p1 = p \<and> e' = e"
    "flush p1 r1 = Inr (out, p2, r2)" "process_loop E C (earlier @ [e']) events p2 r2 = Inr (es, rest)" "ms = ms1 @ out @ rest"
  using assms by (auto split: sum.splits if_splits)

lemma loop_step:
  assumes "if is_action e then process_action E (vision_is_active C) e p = Inr (e', p1, ms1) \<and> r1 = r
     else process_observation E C e earlier r = Inr (r1, ms1) \<and> p1 = p \<and> e' = e"
    "flush p1 r1 = Inr (out, p2, r2)" "process_loop E C (earlier @ [e']) events p2 r2 = Inr (es, rest)"
  shows "process_loop E C earlier (e # events) p r = Inr (es, ms1 @ out @ rest)"
  using assms by (auto split: if_splits)

lemma loop_conversation:
  "process_loop E C earlier events p r = Inr (es, ms) \<Longrightarrow> list_all good_event events \<Longrightarrow> pending_ok p \<Longrightarrow> results_ok r \<Longrightarrow> conversation ms"
proof (induction events arbitrary: earlier p r es ms)
  case Nil
  then show ?case by (simp add: conv_Nil)
next
  case (Cons e events)
  from loop_cases[OF Cons.prems(1)] obtain e' p1 r1 ms1 out p2 r2 rest where
    s: "if is_action e then process_action E (vision_is_active C) e p = Inr (e', p1, ms1) \<and> r1 = r
     else process_observation E C e earlier r = Inr (r1, ms1) \<and> p1 = p \<and> e' = e"
    "flush p1 r1 = Inr (out, p2, r2)" "process_loop E C (earlier @ [e']) events p2 r2 = Inr (es, rest)" "ms = ms1 @ out @ rest" .
  have "list_all ordinary ms1 \<and> pending_ok p1 \<and> results_ok r1"
    using s(1) process_action_ok[of E "vision_is_active C" e p e' p1 ms1] process_observation_ok[of E C e earlier r r1 ms1] Cons.prems
    by (auto split: if_splits)
  moreover from this flush_conversation[OF s(2)] have "conversation out" "pending_ok p2" "results_ok r2" by auto
  ultimately show ?case
    using Cons.IH[OF s(3)] Cons.prems(2) s(4) ordinary_conversation conversation_append by auto
qed

section \<open>Filter and formatting keep a conversation\<close>

lemma truthy_id_some: "truthy_id v \<noteq> [] \<Longrightarrow> \<exists>i. v = Some i \<and> truthy_id v = [i]"
  by (auto simp: truthy_id_def split: option.splits list.splits)

lemma ids_append [simp]:
  "called_ids (a @ b) = called_ids a @ called_ids b" "response_ids (a @ b) = response_ids a @ response_ids b"
  "called_ids [] = []" "response_ids [] = []"
  by (simp_all add: called_ids_def response_ids_def)

lemma answers_ids:
  "list_all2 answer cs rs \<Longrightarrow> response_ids rs = concat (map (\<lambda>c. truthy_id (tc_id c)) cs) \<and> called_ids rs = []"
  by (induction rule: list_all2_induct) (simp_all add: response_ids_def called_ids_def answer_def)

lemma keep_answers:
  "list_all2 answer cs rs \<Longrightarrow> list_all (\<lambda>c. truthy_id (tc_id c) \<noteq> []) cs \<Longrightarrow>
   set (concat (map (\<lambda>c. truthy_id (tc_id c)) cs)) \<subseteq> set A \<Longrightarrow> concat (map (keep_matched A B) rs) = rs"
  by (induction rule: list_all2_induct) (auto simp: keep_matched_def answer_def)

lemma filter_keeps:
  "conversation ms \<Longrightarrow> set (called_ids ms) \<subseteq> set A \<Longrightarrow> set (response_ids ms) \<subseteq> set B \<Longrightarrow>
   concat (map (keep_matched A B) ms) = ms"
proof (induction rule: conversation.induct)
  case (conv_msg m ms)
  have "set (called_ids ms) \<subseteq> set A" "set (response_ids ms) \<subseteq> set B"
    using conv_msg.prems by (auto simp: called_ids_def response_ids_def)
  then show ?case using conv_msg.IH conv_msg.hyps(1) by (auto simp: keep_matched_def ordinary_def calls_def)
next
  case (conv_call m cs rs ms)
  let ?ids = "concat (map (\<lambda>c. truthy_id (tc_id c)) cs)"
  have e: "called_ids (m # rs @ ms) = called_ids [m] @ called_ids rs @ called_ids ms"
    "response_ids (m # rs @ ms) = response_ids [m] @ response_ids rs @ response_ids ms"
    by (simp_all add: called_ids_def response_ids_def)
  have cm: "called_ids [m] = ?ids" using conv_call.hyps(1,3) by (simp add: called_ids_def calls_def)
  have AB: "set ?ids \<subseteq> set A" "set ?ids \<subseteq> set B"
    using conv_call.prems answers_ids[OF conv_call.hyps(5)] cm unfolding e by auto
  have "list_all (answered_call B) cs"
    unfolding list_all_iff
  proof
    fix c assume c: "c \<in> set cs"
    then have "truthy_id (tc_id c) \<noteq> []" using conv_call.hyps(4) by (simp add: list_all_iff)
    from truthy_id_some[OF this] obtain i where "tc_id c = Some i" "truthy_id (tc_id c) = [i]" by blast
    then show "answered_call B c" using AB(2) c by (force simp: answered_call_def)
  qed
  then have "keep_matched A B m = [m]" using conv_call.hyps(1,3) by (simp add: keep_matched_def calls_def)
  moreover have "concat (map (keep_matched A B) rs) = rs" using keep_answers[OF conv_call.hyps(5,4) AB(1)] .
  moreover have "concat (map (keep_matched A B) ms) = ms" using conv_call.IH conv_call.prems unfolding e by simp
  ultimately show ?case by simp
qed simp

lemma filter_conversation: "conversation ms \<Longrightarrow> filter_unmatched_tool_calls ms = ms"
  unfolding filter_unmatched_tool_calls_def by (rule filter_keeps) auto

lemma space_nonempty [simp]: "space_first_text cs = [] \<longleftrightarrow> cs = []"
  by (induction cs rule: space_first_text.induct) auto

lemma formatting_answers:
  "list_all2 answer cs rs \<Longrightarrow> \<exists>q. apply_user_message_formatting prev (rs @ ms) = rs @ apply_user_message_formatting q ms"
  by (induction arbitrary: prev rule: list_all2_induct) (auto simp: answer_def)

lemma formatting_conversation: "conversation ms \<Longrightarrow> conversation (apply_user_message_formatting prev ms)"
proof (induction arbitrary: prev rule: conversation.induct)
  case (conv_msg m ms)
  then show ?case by (auto simp: ordinary_def intro!: conversation.conv_msg)
next
  case (conv_call m cs rs ms)
  obtain q where "apply_user_message_formatting ''assistant'' (rs @ ms) = rs @ apply_user_message_formatting q ms"
    using formatting_answers[OF conv_call.hyps(5)] by blast
  then show ?case using conversation.conv_call[OF conv_call.hyps(1-5) conv_call.IH] conv_call.hyps(1) by simp
qed (simp add: conv_Nil)

lemma ensured_good:
  "list_all good_event history \<Longrightarrow> good_event initial \<Longrightarrow>
   list_all good_event (ensure_initial_user_message (ensure_system_message E history) initial fids)"
proof -
  assume g: "list_all good_event history" "good_event initial"
  have s: "list_all good_event (ensure_system_message E history)"
    using g(1) by (simp add: ensure_system_message_def good_event_def system_action_def blank_def)
  have "list_all good_event xs \<Longrightarrow> list_all good_event (py_insert xs 1 initial)" for xs
    using g(2) by (auto simp: py_insert_def Let_def list_all_iff dest: in_set_takeD in_set_dropD)
  then show ?thesis using s by (simp add: ensure_initial_user_message_def)
qed

lemma process_events_loop:
  assumes "process_events E C history initial fids = Inr (events, ms)"
  obtains ms0 where "process_loop E C [] (ensure_initial_user_message (ensure_system_message E history) initial fids) [] [] = Inr (events, ms0)"
    "ms = apply_user_message_formatting [] (filter_unmatched_tool_calls ms0)"
  using assms unfolding process_events_def
  by (cases "process_loop E C [] (ensure_initial_user_message (ensure_system_message E history) initial fids) [] []") auto

lemma process_events_conversation:
  assumes "process_events E C history initial fids = Inr (events, ms)" "list_all good_event history" "good_event initial"
  shows "conversation ms"
proof -
  from process_events_loop[OF assms(1)] obtain ms0
    where l: "process_loop E C [] (ensure_initial_user_message (ensure_system_message E history) initial fids) [] [] = Inr (events, ms0)"
      and ms: "ms = apply_user_message_formatting [] (filter_unmatched_tool_calls ms0)" .
  have "conversation ms0"
    by (rule loop_conversation[OF l ensured_good[OF assms(2,3)]]) (simp_all add: pending_ok_def results_ok_def)
  then show ?thesis by (simp add: ms filter_conversation formatting_conversation)
qed

section \<open>A sample conversation\<close>

definition convo_env :: cm_env where
  "convo_env =
     \<lparr>system_prompt = ''You are an agent'', build_workspace_context = (\<lambda>r t c s. s),
      build_microagent_info = (\<lambda>ks. concat (map microagent_name ks)), event_str = (\<lambda>e. ''event''),
      disabled_microagents = [], enable_prompt_extensions = True, enable_som_visual_browsing = False\<rparr>"

definition convo_call :: cm_call where
  "convo_call = \<lparr>max_message_chars = Some 100, vision_is_active = False\<rparr>"

definition convo_metadata :: pyval where
  "convo_metadata = PDict
     [(''function_name'', PStr ''execute_bash''), (''tool_call_id'', PStr ''t1''), (''total_calls_in_response'', PInt 1),
      (''model_response'', PDict
         [(''id'', PStr ''r1''),
          (''choices'', PList [PDict [(''message'', PDict
             [(''role'', PStr ''assistant''), (''content'', PStr ''Let me look''),
              (''tool_calls'', PList [PDict [(''id'', PStr ''t1''), (''function'', PDict
                 [(''name'', PStr ''execute_bash''), (''arguments'', PStr ''{}'')])]])])]])])]"

definition convo_user :: event where
  "convo_user = (blank MessageAction [(''content'', PStr ''Fix the bug''), (''image_urls'', PNone)])\<lparr>ev_id := Some 0, ev_source := Some USER\<rparr>"

definition convo_run :: event where
  "convo_run = (blank CmdRunAction [(''command'', PStr ''ls'')])
     \<lparr>ev_id := Some 1, ev_source := Some AGENT, ev_tool_call_metadata := Some convo_metadata\<rparr>"

definition convo_output :: event where
  "convo_output = (blank CmdOutputObservation [(''content'', PStr ''a.py''), (''command'', PStr ''ls''), (''metadata'', PDict metadata_defaults)])
     \<lparr>ev_id := Some 2, ev_source := Some AGENT, ev_tool_call_metadata := Some convo_metadata\<rparr>"

definition convo_finish :: event where
  "convo_finish = (blank AgentFinishAction [(''final_thought'', PStr ''done''), (''thought'', PStr [])])
     \<lparr>ev_id := Some 3, ev_source := Some AGENT, ev_tool_call_metadata := Some convo_metadata\<rparr>"

definition convo_history :: "event list" where
  "convo_history = [convo_run, convo_output, convo_finish]"

lemma is_ok_pair: "is_ok x \<Longrightarrow> \<exists>a b. x = Inr (a, b)"
  by (cases x) auto

lemma convo_processed:
  "\<exists>events ms. process_events convo_env convo_call convo_history convo_user {} = Inr (events, ms)"
proof (rule is_ok_pair)
  show "is_ok (process_events convo_env convo_call convo_history convo_user {})" by code_simp
qed

section \<open>Properties\<close>

text \<open>
  C26: the messages that the conversation memory builds are a well-formed conversation: every
  message with tool calls is a message of the assistant and is directly followed by the
  results of exactly its calls, in their order, and no result stands anywhere else; all messages but
  those with tool calls have content.  This holds for every history whose recorded responses are messages of the assistant with
  identified calls, whatever order actions and observations come in.
\<close>
theorem processed_events_form_a_conversation:
  assumes "process_events E C history initial fids = Inr (events, ms)" "list_all good_event history" "good_event initial"
  shows "conversation ms"
  by (rule process_events_conversation[OF assms])

theorem processed_events_form_a_conversation_witness:
  "\<exists>events ms. process_events convo_env convo_call convo_history convo_user {} = Inr (events, ms) \<and> conversation ms"
proof -
  obtain events ms where p: "process_events convo_env convo_call convo_history convo_user {} = Inr (events, ms)"
    using convo_processed by blast
  have "list_all good_event convo_history" "good_event convo_user" by code_simp+
  from processed_events_form_a_conversation[OF p this] show ?thesis using p by blast
qed

subsection \<open>The filter\<close>

definition neutral :: "msg \<Rightarrow> bool" where
  \<comment> \<open>neither a response with an identifier nor a message with calls\<close>
  "neutral m \<longleftrightarrow> \<not> (m_role m = ''tool'' \<and> truthy_id (m_tool_call_id m) \<noteq> []) \<and> \<not> (m_role m = ''assistant'' \<and> calls m \<noteq> [])"

lemma truthy_id_cases: "truthy_id v = [] \<or> (\<exists>i. v = Some i \<and> truthy_id v = [i])"
  by (auto simp: truthy_id_def split: option.splits list.splits)

lemma answered_ids:
  "concat (map (\<lambda>c. truthy_id (tc_id c)) (filter (answered_call B) cs)) = filter (\<lambda>i. i \<in> set B) (concat (map (\<lambda>c. truthy_id (tc_id c)) cs))"
proof (induction cs)
  case (Cons c cs)
  show ?case using Cons truthy_id_cases[of "tc_id c"] by (cases "tc_id c") (auto simp: answered_call_def)
qed simp

lemma filter_all_answered: "list_all (answered_call B) cs \<Longrightarrow> filter (answered_call B) cs = cs"
  by (simp add: list_all_iff)

lemma keep_matched_ids:
  "response_ids (keep_matched A B m) = filter (\<lambda>i. i \<in> set A) (response_ids [m])"
  "called_ids (keep_matched A B m) = filter (\<lambda>i. i \<in> set B) (called_ids [m])"
  "filter neutral (keep_matched A B m) = filter neutral [m]"
proof -
  have ans: "\<lbrakk>m_role m = ''assistant''; calls m \<noteq> []\<rbrakk> \<Longrightarrow> called_ids (keep_matched A B m) =
      concat (map (\<lambda>c. truthy_id (tc_id c)) (filter (answered_call B) (calls m)))"
    by (auto simp: keep_matched_def called_ids_def calls_def Let_def filter_all_answered)
  show "called_ids (keep_matched A B m) = filter (\<lambda>i. i \<in> set B) (called_ids [m])"
    using ans answered_ids[of B "calls m"]
    by (cases "m_role m = ''assistant'' \<and> calls m \<noteq> []") (auto simp: called_ids_def keep_matched_def)
  show "response_ids (keep_matched A B m) = filter (\<lambda>i. i \<in> set A) (response_ids [m])"
    using truthy_id_cases[of "m_tool_call_id m"] by (auto simp: response_ids_def keep_matched_def Let_def)
  show "filter neutral (keep_matched A B m) = filter neutral [m]"
    by (auto simp: keep_matched_def neutral_def calls_def Let_def)
qed

lemma kept_ids:
  "response_ids (concat (map (keep_matched A B) ms)) = filter (\<lambda>i. i \<in> set A) (response_ids ms)"
  "called_ids (concat (map (keep_matched A B) ms)) = filter (\<lambda>i. i \<in> set B) (called_ids ms)"
  "filter neutral (concat (map (keep_matched A B) ms)) = filter neutral ms"
proof (induction ms)
  case (Cons m ms)
  have e: "response_ids (m # ms) = response_ids [m] @ response_ids ms" "called_ids (m # ms) = called_ids [m] @ called_ids ms"
    "filter neutral (m # ms) = filter neutral [m] @ filter neutral ms"
    by (simp_all add: called_ids_def response_ids_def)
  { case 1 show ?case unfolding e filter_append using Cons by (simp add: keep_matched_ids) }
  { case 2 show ?case unfolding e filter_append using Cons by (simp add: keep_matched_ids) }
  { case 3 show ?case unfolding e using Cons keep_matched_ids(3)[of A B m] by simp }
qed simp_all

lemma called_in: "m \<in> set ms \<Longrightarrow> m_role m = ''assistant'' \<Longrightarrow> c \<in> set (calls m) \<Longrightarrow> set (truthy_id (tc_id c)) \<subseteq> set (called_ids ms)"
  by (force simp: called_ids_def)

lemma kept_again:
  assumes A: "set A' = set A \<inter> set B" and B: "set B' = set A \<inter> set B"
    and r: "\<And>i. i \<in> set B \<Longrightarrow> i \<noteq> []"
    and m: "m \<in> set (keep_matched A B m0)" and r0: "set (response_ids [m0]) \<subseteq> set B" and c0: "set (called_ids [m0]) \<subseteq> set A"
  shows "keep_matched A' B' m = [m]"
proof -
  have resp: "set (response_ids [m]) \<subseteq> set A \<inter> set B" and call: "set (called_ids [m]) \<subseteq> set A \<inter> set B"
    and cs: "m_role m = ''assistant'' \<Longrightarrow> list_all (answered_call B) (calls m)"
  proof -
    have km: "keep_matched A B m0 = [m]" using m by (auto simp: keep_matched_def Let_def split: if_splits)
    show "set (response_ids [m]) \<subseteq> set A \<inter> set B" using keep_matched_ids(1)[of A B m0] r0 unfolding km by auto
    show "set (called_ids [m]) \<subseteq> set A \<inter> set B" using keep_matched_ids(2)[of A B m0] c0 unfolding km by auto
    show "m_role m = ''assistant'' \<Longrightarrow> list_all (answered_call B) (calls m)"
      using km by (cases "m_tool_calls m") (auto simp: keep_matched_def Let_def calls_def list_all_iff split: if_splits option.splits)
  qed
  have "m_role m = ''assistant'' \<Longrightarrow> list_all (answered_call B') (calls m)"
    unfolding list_all_iff
  proof
    fix c assume c: "m_role m = ''assistant''" "c \<in> set (calls m)"
    then obtain i where i: "tc_id c = Some i" "i \<in> set B" using cs by (auto simp: list_all_iff answered_call_def split: option.splits)
    then have "truthy_id (tc_id c) = [i]" using r[of i] by (auto simp: truthy_id_def split: list.splits)
    then have "i \<in> set (called_ids [m])" using c by (force simp: called_ids_def)
    then show "answered_call B' c" using call B i(1) by (auto simp: answered_call_def)
  qed
  moreover have "m_role m = ''tool'' \<Longrightarrow> set (truthy_id (m_tool_call_id m)) \<subseteq> set A'"
    using resp A by (simp add: response_ids_def)
  ultimately show ?thesis by (auto simp: keep_matched_def)
qed

text \<open>
  On any list of messages the filter leaves exactly the identifiers that are both called by an
  assistant message and answered by a tool message, keeps every message that neither calls nor
  answers, and has nothing to do when it is applied again.
\<close>
theorem filter_leaves_the_matched_calls:
  "set (called_ids (filter_unmatched_tool_calls ms)) = set (called_ids ms) \<inter> set (response_ids ms) \<and>
   set (response_ids (filter_unmatched_tool_calls ms)) = set (called_ids ms) \<inter> set (response_ids ms) \<and>
   filter neutral (filter_unmatched_tool_calls ms) = filter neutral ms \<and>
   filter_unmatched_tool_calls (filter_unmatched_tool_calls ms) = filter_unmatched_tool_calls ms"
proof -
  let ?A = "called_ids ms" and ?B = "response_ids ms" and ?out = "filter_unmatched_tool_calls ms"
  have A: "set (called_ids ?out) = set ?A \<inter> set ?B" and B: "set (response_ids ?out) = set ?A \<inter> set ?B"
    and n: "filter neutral ?out = filter neutral ms"
    unfolding filter_unmatched_tool_calls_def by (auto simp: kept_ids)
  have ne: "i \<noteq> []" if "i \<in> set ?B" for i
    using that by (auto simp: response_ids_def truthy_id_def split: if_splits option.splits list.splits)
  have "keep_matched (called_ids ?out) (response_ids ?out) m = [m]" if m: "m \<in> set ?out" for m
  proof -
    obtain m0 where m0: "m0 \<in> set ms" "m \<in> set (keep_matched ?A ?B m0)"
      using m by (auto simp: filter_unmatched_tool_calls_def)
    have "set (response_ids [m0]) \<subseteq> set ?B" "set (called_ids [m0]) \<subseteq> set ?A"
      using m0(1) by (auto simp: response_ids_def called_ids_def)
    from kept_again[OF A B ne m0(2) this] show ?thesis .
  qed
  then have "concat (map (keep_matched (called_ids ?out) (response_ids ?out)) ?out) = ?out"
    by (induction ?out) (simp_all add: map_idI concat_map_singleton cong: map_cong)
  then show ?thesis using A B n by (simp add: filter_unmatched_tool_calls_def[of ?out])
qed

subsection \<open>How a conversation starts\<close>

definition starts_with_system :: "cm_env \<Rightarrow> event list \<Rightarrow> bool" where
  \<comment> \<open>a history that begins with its system message, or has none to begin with\<close>
  "starts_with_system E history \<longleftrightarrow>
     (case history of e # _ \<Rightarrow> is_a e SystemMessageAction | [] \<Rightarrow> False)
     \<or> (\<not> list_ex (\<lambda>e. is_a e SystemMessageAction) history \<and> system_prompt E \<noteq> [])"

lemma ensure_system_first:
  "starts_with_system E history \<Longrightarrow> \<exists>e es. ensure_system_message E history = e # es \<and> is_a e SystemMessageAction"
  by (cases history) (auto simp: starts_with_system_def ensure_system_message_def system_action_def blank_def)

lemma ensure_initial_second:
  assumes "from_user initial" "eid initial \<notin> fids"
  shows "\<exists>u es'. ensure_initial_user_message (e # es) initial fids = e # u # es' \<and> from_user u \<and>
    (if es \<noteq> [] \<and> from_user (hd es) then u = hd es else u = initial)"
proof (cases "es \<noteq> [] \<and> from_user (hd es)")
  case True
  then show ?thesis using assms by (cases es) (auto simp: ensure_initial_user_message_def)
next
  case False
  then have "ensure_initial_user_message (e # es) initial fids = e # initial # es"
    using assms by (cases es) (auto simp: ensure_initial_user_message_def py_insert_def py_clip_def)
  then show ?thesis using False assms(1) by auto
qed

lemma loop_earlier: "process_loop E C earlier events p r = Inr (es, ms) \<Longrightarrow> \<exists>new. es = earlier @ new \<and> length new = length events"
proof (induction events arbitrary: earlier p r es ms)
  case (Cons e events)
  from loop_cases[OF Cons.prems] obtain e' p2 r2 rest where "process_loop E C (earlier @ [e']) events p2 r2 = Inr (es, rest)" by metis
  from Cons.IH[OF this] show ?case by auto
qed simp

definition user_content :: "bool \<Rightarrow> event \<Rightarrow> content_item list" where
  "user_content vision u = TextContent (content u) False # numbered_images vision 0 (urls u)"

text \<open>
  Unless the first message of the user has been condensed away, the conversation
  starts with the system message and a message of the user: the one that follows the system message in
  the history, or the initial message when the history does not continue with a message of the user.
\<close>
theorem conversation_starts_with_system_and_user:
  assumes "process_events E C history initial fids = Inr (events, ms)"
    and "starts_with_system E history" "from_user initial" "eid initial \<notin> fids"
  shows "\<exists>s u rest. ms = Message ''system'' [TextContent (content s) False] # Message ''user'' (user_content (vision_is_active C) u) # rest \<and>
    take 2 events = [s, u] \<and> is_a s SystemMessageAction \<and> from_user u \<and>
    (let es = tl (ensure_system_message E history) in if es \<noteq> [] \<and> from_user (hd es) then u = hd es else u = initial)"
proof -
  obtain s es where s: "ensure_system_message E history = s # es" "is_a s SystemMessageAction"
    using ensure_system_first[OF assms(2)] by blast
  obtain u es' where u: "ensure_initial_user_message (s # es) initial fids = s # u # es'" "from_user u"
    and w: "if es \<noteq> [] \<and> from_user (hd es) then u = hd es else u = initial"
    using ensure_initial_second[OF assms(3,4)] by blast
  from process_events_loop[OF assms(1)] obtain ms0
    where l: "process_loop E C [] (s # u # es') [] [] = Inr (events, ms0)"
      and ms: "ms = apply_user_message_formatting [] (filter_unmatched_tool_calls ms0)" unfolding s(1) u(1) .
  have cu: "is_a u MessageAction" "ev_source u = Some USER" using u(2) by (simp_all add: from_user_def)
  have ps: "process_action E v s [] = Inr (s, [], [Message ''system'' [TextContent (content s) False]])" for v
    using s(2) by (simp add: process_action_def tool_action_def)
  have pu: "process_action E v u [] = Inr (u, [], [Message ''user'' (user_content v u)])" for v
    using cu by (simp add: process_action_def tool_action_def source_role_def user_content_def)
  have a: "is_action s" "is_action u" using s(2) cu(1) by (simp_all add: obs_simps)
  obtain rest where r: "process_loop E C [s, u] es' [] [] = Inr (events, rest)"
    "ms0 = Message ''system'' [TextContent (content s) False] # Message ''user'' (user_content (vision_is_active C) u) # rest"
    using l by (auto simp: a ps pu split: sum.splits)
  have "take 2 events = [s, u]" using loop_earlier[OF r(1)] by auto
  moreover have "keep_matched A B (Message ''system'' i) = [Message ''system'' i]" "keep_matched A B (Message ''user'' i) = [Message ''user'' i]" for A B i
    by (simp_all add: keep_matched_def Message_def)
  ultimately show ?thesis
    using s(2) u(2) w by (auto simp: ms r(2) filter_unmatched_tool_calls_def Message_def s(1) Let_def)
qed

theorem conversation_starts_with_system_and_user_witness:
  "\<exists>events ms s u rest. process_events convo_env convo_call convo_history convo_user {} = Inr (events, ms) \<and>
    ms = Message ''system'' [TextContent (content s) False] # Message ''user'' (user_content False u) # rest \<and> u = convo_user"
proof -
  obtain events ms where p: "process_events convo_env convo_call convo_history convo_user {} = Inr (events, ms)"
    using convo_processed by blast
  have h: "starts_with_system convo_env convo_history" "from_user convo_user" by code_simp+
  have n: "(let es = tl (ensure_system_message convo_env convo_history) in es \<noteq> [] \<and> from_user (hd es)) = False" by code_simp
  have v: "vision_is_active convo_call = False" by code_simp
  obtain s u rest where r: "ms = Message ''system'' [TextContent (content s) False] # Message ''user'' (user_content False u) # rest"
    and "let es = tl (ensure_system_message convo_env convo_history) in if es \<noteq> [] \<and> from_user (hd es) then u = hd es else u = convo_user"
    using conversation_starts_with_system_and_user[OF p h] unfolding v by blast
  then have "u = convo_user" using n by (simp only: Let_def if_False)
  then show ?thesis using p r by blast
qed

subsection \<open>Processing again\<close>

lemma finish_again: "finish_thought a = Inr a' \<Longrightarrow> finish_thought a' = Inr a' \<and> ev_class a' = ev_class a \<and> ev_source a' = ev_source a"
  by (auto simp: finish_thought_def Let_def frame_simps split: option.splits sum.splits)

lemma process_action_again:
  assumes "process_action E v a p = Inr (a', p', ms)"
  shows "process_action E v a' p = Inr (a', p', ms) \<and> ev_class a' = ev_class a \<and> ev_source a' = ev_source a"
proof (cases "\<not> tool_action a \<and> is_a a AgentFinishAction")
  case True
  then obtain b where b: "finish_thought a = Inr b" "a' = b" "p' = p" "ms = [Message (source_role a) [TextContent (str_attr b ''thought'') False]]"
    using assms by (auto simp: process_action_def split: sum.splits)
  have "\<not> tool_action a'" "is_a a' AgentFinishAction" "source_role a' = source_role a"
    using finish_again[OF b(1)] True b(2) by (simp_all add: tool_action_def source_role_def)
  then show ?thesis using b finish_again[OF b(1)] True by (simp add: process_action_def)
next
  case False
  then have "a' = a" using assms by (auto simp: process_action_def Let_def split: if_splits option.splits sum.splits)
  then show ?thesis using assms by simp
qed

lemma loop_again:
  "process_loop E C earlier events p r = Inr (es, ms) \<Longrightarrow>
   \<exists>new. es = earlier @ new \<and> process_loop E C earlier new p r = Inr (es, ms) \<and>
     list_all2 (\<lambda>a b. ev_class a = ev_class b \<and> ev_source a = ev_source b) new events"
proof (induction events arbitrary: earlier p r es ms)
  case (Cons e events)
  from loop_cases[OF Cons.prems] obtain e' p1 r1 ms1 out p2 r2 rest where
    s: "if is_action e then process_action E (vision_is_active C) e p = Inr (e', p1, ms1) \<and> r1 = r
     else process_observation E C e earlier r = Inr (r1, ms1) \<and> p1 = p \<and> e' = e"
    "flush p1 r1 = Inr (out, p2, r2)" "process_loop E C (earlier @ [e']) events p2 r2 = Inr (es, rest)" "ms = ms1 @ out @ rest" .
  obtain new where n: "es = (earlier @ [e']) @ new" "process_loop E C (earlier @ [e']) new p2 r2 = Inr (es, rest)"
    "list_all2 (\<lambda>a b. ev_class a = ev_class b \<and> ev_source a = ev_source b) new events"
    using Cons.IH[OF s(3)] by blast
  have c: "ev_class e' = ev_class e \<and> ev_source e' = ev_source e"
    using s(1) process_action_again[of E "vision_is_active C" e p e' p1 ms1] by (auto split: if_splits)
  then have "if is_action e' then process_action E (vision_is_active C) e' p = Inr (e', p1, ms1) \<and> r1 = r
     else process_observation E C e' earlier r = Inr (r1, ms1) \<and> p1 = p \<and> e' = e'"
    using s(1) process_action_again[of E "vision_is_active C" e p e' p1 ms1] by (auto simp: is_action_def split: if_splits)
  from loop_step[OF this s(2) n(2)] show ?case using n(1,3) s(4) c by auto
qed simp

lemma same_class_from_user: "ev_class a = ev_class b \<and> ev_source a = ev_source b \<Longrightarrow> from_user a = from_user b"
  by (simp add: from_user_def)

lemma ensure_again:
  assumes l: "list_all2 (\<lambda>a b. ev_class a = ev_class b \<and> ev_source a = ev_source b) new
      (ensure_initial_user_message (ensure_system_message E history) initial fids)"
    and u: "from_user initial"
  shows "ensure_initial_user_message (ensure_system_message E new) initial fids = new"
proof -
  let ?S = "ensure_system_message E history"
  let ?L = "ensure_initial_user_message ?S initial fids"
  have ins: "set ?L \<subseteq> insert initial (set ?S)" "set ?S \<subseteq> set ?L"
    by (auto simp: ensure_initial_user_message_def)
  have "list_ex (\<lambda>e. is_a e SystemMessageAction) new = list_ex (\<lambda>e. is_a e SystemMessageAction) ?L"
    using l by (induction rule: list_all2_induct) auto
  moreover have "list_ex (\<lambda>e. is_a e SystemMessageAction) ?S \<or> system_prompt E = []"
    by (auto simp: ensure_system_message_def system_action_def blank_def)
  ultimately have sys: "ensure_system_message E new = new"
    using ins(2) by (subst ensure_system_message_def) (auto simp: list_ex_iff)
  have len: "length new = length ?L" using l by (rule list_all2_lengthD)
  have "?L = [] \<or> eid initial \<in> fids \<or> (1 < length ?L \<and> from_user (?L ! 1))"
    using u by (auto simp: ensure_initial_user_message_def py_insert_def Let_def py_clip_def nth_append min_def length_Suc_conv
        neq_Nil_conv split: if_splits)
  then have "new = [] \<or> eid initial \<in> fids \<or> (1 < length new \<and> from_user (new ! 1))"
    using len list_all2_nthD2[OF l, of 1] same_class_from_user[of "new ! 1" "?L ! 1"] by auto
  then show ?thesis by (auto simp: sys ensure_initial_user_message_def)
qed

text \<open>
  C32: processing changes the events it is given (a system message and the initial message may be inserted, a finish action takes
  over the text of its response and loses its metadata), but only once: processing the changed
  events again changes nothing more and gives the same messages.
\<close>
theorem processing_is_idempotent:
  assumes "process_events E C history initial fids = Inr (events, ms)" "from_user initial"
  shows "process_events E C events initial fids = Inr (events, ms)"
proof -
  let ?L = "ensure_initial_user_message (ensure_system_message E history) initial fids"
  from process_events_loop[OF assms(1)] obtain ms0
    where l: "process_loop E C [] ?L [] [] = Inr (events, ms0)"
      and ms: "ms = apply_user_message_formatting [] (filter_unmatched_tool_calls ms0)" .
  from loop_again[OF l] have "process_loop E C [] events [] [] = Inr (events, ms0)"
    and "list_all2 (\<lambda>a b. ev_class a = ev_class b \<and> ev_source a = ev_source b) events ?L" by auto
  then show ?thesis using ensure_again[OF _ assms(2)] by (simp add: process_events_def ms)
qed

theorem processing_is_idempotent_witness:
  "\<exists>events ms. process_events convo_env convo_call convo_history convo_user {} = Inr (events, ms) \<and>
     process_events convo_env convo_call events convo_user {} = Inr (events, ms)"
proof -
  obtain events ms where p: "process_events convo_env convo_call convo_history convo_user {} = Inr (events, ms)"
    using convo_processed by blast
  have "from_user convo_user" by code_simp
  from processing_is_idempotent[OF p this] show ?thesis using p by blast
qed

subsection \<open>Caching and serialisation\<close>

definition sendable :: "msg \<Rightarrow> bool" where
  \<comment> \<open>what caching and serialisation rely on\<close>
  "sendable m \<longleftrightarrow> (m_content m = [] \<longrightarrow> m_role m = ''assistant'') \<and> (m_name m = None \<longrightarrow> m_tool_call_id m = None)"

lemma conversation_sendable: "conversation ms \<Longrightarrow> list_all sendable ms"
proof (induction rule: conversation.induct)
  case (conv_msg m ms)
  then show ?case by (auto simp: sendable_def ordinary_def)
next
  case (conv_call m cs rs ms)
  have "list_all sendable rs" using conv_call.hyps(5)
    by (induction rule: list_all2_induct) (auto simp: sendable_def answer_def)
  moreover have "sendable m" using conv_call.hyps by (simp add: sendable_def)
  ultimately show ?case using conv_call.IH by simp
qed simp

lemma cache_last_item_ok:
  assumes "sendable m" "m_role m \<noteq> ''assistant''"
  shows "\<exists>m'. cache_last_item m = Inr m' \<and> sendable m' \<and> m_role m' = m_role m"
  using assms by (auto simp: cache_last_item_def sendable_def)

lemma cache_first_ok: "list_all sendable ms \<Longrightarrow> \<exists>ms'. cache_first ms = Inr ms' \<and> list_all sendable ms' \<and> length ms' = length ms"
proof (induction ms)
  case (Cons m ms)
  show ?case
  proof (cases "m_role m \<in> {''user'', ''tool''}")
    case True
    then obtain m' where "cache_last_item m = Inr m'" "sendable m'" using cache_last_item_ok[of m] Cons.prems by auto
    then show ?thesis using True Cons.prems by simp
  next
    case False
    then show ?thesis using Cons by auto
  qed
qed simp

lemma caching_ok: "list_all sendable ms \<Longrightarrow> \<exists>ms'. apply_prompt_caching ms = Inr ms' \<and> list_all sendable ms' \<and> length ms' = length ms"
proof -
  assume s: "list_all sendable ms"
  have tail: "list_all sendable ns \<Longrightarrow> \<exists>r. cache_first (rev ns) = Inr r \<and> list_all sendable (rev r) \<and> length r = length ns" for ns
    using cache_first_ok[of "rev ns"] by (auto simp: list_all_iff)
  show ?thesis
  proof (cases ms)
    case Nil
    then show ?thesis by (simp add: apply_prompt_caching_def)
  next
    case (Cons m rest)
    show ?thesis
    proof (cases "m_role m = ''system''")
      case True
      then obtain m' where m': "cache_last_item m = Inr m'" "sendable m'" using cache_last_item_ok[of m] s Cons by auto
      have "list_all sendable (m' # rest)" using m' s Cons by simp
      from tail[OF this] show ?thesis using True m' Cons by (auto simp: apply_prompt_caching_def simp del: rev.simps)
    next
      case False
      from tail[OF s] show ?thesis using False Cons by (auto simp: apply_prompt_caching_def simp del: rev.simps)
    qed
  qed
qed

lemma serialize_ok: "sendable m \<Longrightarrow> \<exists>d. serialize_model (set_flags L m) = Inr d"
  by (auto simp: serialize_model_def list_serializer_def string_serializer_def add_tool_call_keys_def set_flags_def sendable_def
      Let_def split: option.splits)

lemma serialize_all_ok: "list_all sendable ms \<Longrightarrow> \<exists>ds. serialize_all (map (set_flags L) ms) = Inr ds \<and> length ds = length ms"
proof (induction ms)
  case (Cons m ms)
  then show ?case using serialize_ok[of m L] by auto
qed simp

text \<open>
  C31: what the conversation memory builds can always be sent: marking the messages for prompt
  caching finds an item to mark, and every message can be serialised, whatever the flags of the
  model are; no message is lost or added.
\<close>
theorem built_messages_can_be_cached_and_serialised:
  assumes "process_events E C history initial fids = Inr (events, ms)" "list_all good_event history" "good_event initial"
  shows "\<exists>ms' ds. apply_prompt_caching ms = Inr ms' \<and> format_messages_for_llm L ms' = Inr ds \<and> length ds = length ms"
proof -
  have "list_all sendable ms" by (rule conversation_sendable[OF process_events_conversation[OF assms]])
  from caching_ok[OF this] obtain ms' where "apply_prompt_caching ms = Inr ms'" "list_all sendable ms'" "length ms' = length ms" by blast
  then show ?thesis using serialize_all_ok[of ms' L] by (auto simp: format_messages_for_llm_def)
qed

definition convo_llm :: llm_flags where
  "convo_llm = \<lparr>caching_prompt_active = True, vision_active = False, function_calling_active = True, llm_model = ''m''\<rparr>"

theorem built_messages_can_be_cached_and_serialised_witness:
  "\<exists>events ms ms' ds. process_events convo_env convo_call convo_history convo_user {} = Inr (events, ms) \<and>
     apply_prompt_caching ms = Inr ms' \<and> format_messages_for_llm convo_llm ms' = Inr ds \<and> length ds = length ms"
proof -
  obtain events ms where p: "process_events convo_env convo_call convo_history convo_user {} = Inr (events, ms)"
    using convo_processed by blast
  have "list_all good_event convo_history" "good_event convo_user" by code_simp+
  from built_messages_can_be_cached_and_serialised[OF p this, of convo_llm] show ?thesis using p by blast
qed

text \<open>
  The filter drops calls without an identifier, although its documentation says that it does not
  remove items whose identifier is None.
\<close>
lemma calls_without_identifier_are_dropped:
  assumes "m_role m = ''assistant''" "m_tool_calls m = Some [c]" "tc_id c = None"
  shows "filter_unmatched_tool_calls [m] = []"
  using assms by (simp add: filter_unmatched_tool_calls_def keep_matched_def calls_def answered_call_def)

end
