(* ===== verification/Codeact_Properties.thy ===== *)
theory Codeact_Properties
  imports Codeact_Calls Conversation_Properties Agent_Controller
begin

text \<open>
  Properties of the CodeAct agent's reading of a response: one action per call, in the order of the
  calls and tied to them; the errors of a malformed call; and that the actions fit the conversation memory, which sends them back.
\<close>

section \<open>Classes of actions\<close>

lemma cmd_output_class: "cmd_output_init kw = Inr a \<Longrightarrow> ev_class a = CmdOutputObservation"
  by (cases "map_of kw ''content''"; cases "map_of kw ''command''")
     (auto simp: cmd_output_init_def blank_def Let_def split: pyval.splits)

lemma dataclass_class: "dataclass_init c kw = Inr a \<Longrightarrow> ev_class a = c"
  by (cases "c = CmdOutputObservation"; cases "bind_args (ci_fields (class_of c)) kw")
     (auto simp: dataclass_init_def blank_def Let_def cmd_output_class split: if_splits)

lemma set_security_risk_frame [frame_simps]:
  "ev_class (set_security_risk args a) = ev_class a" "ev_source (set_security_risk args a) = ev_source a"
  by (auto simp: set_security_risk_def frame_simps split: option.splits)

lemma set_hard_timeout_frame [frame_simps]: "ev_class (set_hard_timeout v b a) = ev_class a"
  by (simp add: set_hard_timeout_def Let_def frame_simps)

lemma combine_thought_frame [frame_simps]: "ev_class (combine_thought a t) = ev_class a"
  by (simp add: combine_thought_def frame_simps)

definition action_classes :: "string list \<Rightarrow> string \<Rightarrow> event_class list" where
  \<comment> \<open>the classes of the actions of a tool\<close>
  "action_classes mcp name =
     (if name = ''execute_bash'' then [CmdRunAction]
      else if name = ''execute_ipython_cell'' then [IPythonRunCellAction]
      else if name = ''delegate_to_browsing_agent'' then [AgentDelegateAction]
      else if name = ''finish'' then [AgentFinishAction]
      else if name = ''edit_file'' then [FileEditAction]
      else if name = ''str_replace_editor'' then [FileReadAction, FileEditAction]
      else if name = ''think'' then [AgentThinkAction]
      else if name = ''request_condensation'' then [CondensationRequestAction]
      else if name = ''browser'' then [BrowseInteractiveAction]
      else if name = ''task_tracker'' then [TaskTrackingAction]
      else if name \<in> set mcp then [MCPAction]
      else [])"

lemma same_index_Inr [simp]: "same_index i r = Inr (j, a) \<longleftrightarrow> r = Inr a \<and> j = i"
  by (auto simp: same_index_def split: sum.splits)

lemma same_index_Inl [simp]: "same_index i r = Inl e \<longleftrightarrow> r = Inl e"
  by (auto simp: same_index_def split: sum.splits)

lemma cmd_run_class: "cmd_run args = Inr a \<Longrightarrow> ev_class a = CmdRunAction"
  by (auto simp: cmd_run_def frame_simps dest!: dataclass_class split: option.splits sum.splits pyerr.splits)

lemma with_code_class: "with_code c k args = Inr a \<Longrightarrow> ev_class a = c"
  by (auto simp: with_code_def frame_simps dest!: dataclass_class split: option.splits sum.splits)

lemma editor_class: "str_replace_editor args = Inr a \<Longrightarrow> ev_class a \<in> {FileReadAction, FileEditAction}"
  by (auto simp: str_replace_editor_def Let_def frame_simps dest!: dataclass_class split: option.splits sum.splits if_splits)

lemma edit_class: "llm_based_edit args = Inr a \<Longrightarrow> ev_class a = FileEditAction"
  by (auto simp: llm_based_edit_def dest!: dataclass_class split: option.splits)

lemma task_class: "task_tracker i args = Inr (j, a) \<Longrightarrow> ev_class a = TaskTrackingAction"
  by (auto simp: task_tracker_def dest!: dataclass_class split: option.splits sum.splits if_splits pyval.splits)

lemma call_class:
  "call_to_action mcp i name args = Inr (j, a) \<Longrightarrow> ev_class a \<in> set (action_classes mcp name)"
  using editor_class[of args a]
  by (auto simp: call_to_action_def action_classes_def dest: dataclass_class cmd_run_class with_code_class edit_class task_class
      split: if_splits)

section \<open>Actions and calls\<close>

definition action_for :: "string list \<Rightarrow> pyval \<Rightarrow> nat \<Rightarrow> tool_call \<Rightarrow> event \<Rightarrow> bool" where
  \<comment> \<open>an action of the class of the call's tool that carries the call's metadata\<close>
  "action_for mcp response n c a \<longleftrightarrow>
     ev_class a \<in> set (action_classes mcp (tc_name c)) \<and>
     (case call_metadata c response n of Inr md \<Rightarrow> ev_tool_call_metadata a = Some md | Inl _ \<Rightarrow> False)"

lemma calls_to_actions_for:
  "calls_to_actions mcp response thought n i cs = Inr as \<Longrightarrow> list_all2 (action_for mcp response n) cs as"
proof (induction cs arbitrary: i as)
  case (Cons c cs)
  obtain args where j: "json_loads (tc_arguments c) = Inr (PDict args)"
    using Cons.prems by (auto split: sum.splits pyerr.splits pyval.splits)
  obtain k a where a: "call_to_action mcp i (tc_name c) args = Inr (k, a)"
    using Cons.prems by (auto simp: j split: sum.splits)
  obtain md where md: "call_metadata c response n = Inr md"
    using Cons.prems by (auto simp: j a split: sum.splits)
  obtain as' where r: "calls_to_actions mcp response thought n (i + 1) cs = Inr as'"
    "as = (if k = 0 then combine_thought a thought else a)\<lparr>ev_tool_call_metadata := Some md\<rparr> # as'"
    using Cons.prems by (auto simp: j a md Let_def split: sum.splits)
  have "action_for mcp response n c ((if k = 0 then combine_thought a thought else a)\<lparr>ev_tool_call_metadata := Some md\<rparr>)"
    using call_class[OF a] by (simp add: action_for_def md frame_simps)
  then show ?case using Cons.IH[OF r(1)] r(2) by simp
qed simp

definition response_of :: "pyval \<Rightarrow> pyval list \<Rightarrow> pyval \<Rightarrow> pyval" where
  \<comment> \<open>a response with one choice\<close>
  "response_of rid tcs body =
     PDict [(''id'', rid), (''choices'', PList [PDict [(''message'', PDict
       [(''role'', PStr ''assistant''), (''content'', body), (''tool_calls'', PList tcs)])]])]"

lemma response_to_actions_calls:
  assumes "response_to_actions (response_of rid (v # vs) body) mcp = Inr as"
  shows "\<exists>cs as' t. read_calls (v # vs) = Inr cs \<and> response_thought body = Inr t \<and>
    calls_to_actions mcp (response_of rid (v # vs) body) t (length cs) 0 cs = Inr as' \<and> as = map (setattr ''_response_id'' rid) as'"
  using assms
  by (auto simp: response_to_actions_def response_of_def field_def Let_def simp del: read_calls.simps split: sum.splits)


definition sample_calls :: "pyval list" where
  "sample_calls =
     [PDict [(''id'', PStr ''t1''), (''function'', PDict [(''name'', PStr ''execute_bash''),
        (''arguments'', PStr (json_dumps (\<lambda>r. []) (PDict [(''command'', PStr ''ls''), (''timeout'', PStr ''1.5''), (''security_risk'', PStr ''LOW'')])))])],
      PDict [(''id'', PStr ''t2''), (''function'', PDict [(''name'', PStr ''think''),
        (''arguments'', PStr (json_dumps (\<lambda>r. []) (PDict [(''thought'', PStr ''hm'')])))])]]"


section \<open>Back to the memory\<close>

lemma pending_of_response:
  assumes "read_calls tcs = Inr cs" "call_metadata c (response_of (PStr rid) tcs (PStr s)) n = Inr md"
  shows "\<exists>m. pending_message md = Inr (rid, m) \<and> m_role m = ''assistant'' \<and> m_tool_calls m = Some cs"
proof -
  obtain i where i: "tc_id c = Some i" using assms(2) by (auto simp: call_metadata_def split: option.splits)
  have md: "md = PDict [(''function_name'', PStr (tc_name c)), (''tool_call_id'', PStr i),
      (''model_response'', response_of (PStr rid) tcs (PStr s)), (''total_calls_in_response'', PInt (int n))]"
    using assms(2) i by (simp add: call_metadata_def)
  show ?thesis
    unfolding md pending_message_def response_of_def first_choice_def field_def read_tool_calls_def roles_def Message_def
    by (simp add: assms(1))
qed

lemma list_all2_right: "list_all2 P xs ys \<Longrightarrow> list_all (\<lambda>y. \<exists>x. P x y) ys"
  by (induction rule: list_all2_induct) auto



section \<open>The thought of a response\<close>

lemma combine_nothing [simp]: "combine_thought a [] = a"
  by (simp add: combine_thought_def)

lemma combine_metadata: "(combine_thought a t)\<lparr>ev_tool_call_metadata := m\<rparr> = combine_thought (a\<lparr>ev_tool_call_metadata := m\<rparr>) t"
  by (auto simp: combine_thought_def setattr_def attr_def hasattr_def fmt_def)

lemma index_kept: "call_to_action mcp i name args = Inr (j, a) \<Longrightarrow> name \<noteq> ''task_tracker'' \<Longrightarrow> j = i"
  by (auto simp: call_to_action_def split: if_splits)

lemma later_calls_take_no_thought:
  "list_all (\<lambda>c. tc_name c \<noteq> ''task_tracker'') cs \<Longrightarrow> 0 < i \<Longrightarrow>
   calls_to_actions mcp response thought n i cs = calls_to_actions mcp response [] n i cs"
proof (induction cs arbitrary: i)
  case (Cons c cs)
  have IH: "calls_to_actions mcp response thought n (Suc i) cs = calls_to_actions mcp response [] n (Suc i) cs"
    using Cons.prems by (intro Cons.IH) auto
  have "j \<noteq> 0" if "call_to_action mcp i (tc_name c) args = Inr (j, a)" for args j a
    using index_kept[OF that] Cons.prems by simp
  then show ?case by (auto simp: IH Let_def split: sum.splits pyerr.splits pyval.splits)
qed simp

text \<open>
  In a response that does not call the task tracker, the text of the response goes to the thought of the first
  action, before the action's own thought, and to no other action; everything else is as if the response had no text.
\<close>
theorem text_goes_to_the_first_action:
  assumes "list_all (\<lambda>c. tc_name c \<noteq> ''task_tracker'') cs"
  shows "calls_to_actions mcp response thought n 0 cs =
    (case calls_to_actions mcp response [] n 0 cs of
       Inl e \<Rightarrow> Inl e | Inr [] \<Rightarrow> Inr [] | Inr (a # as) \<Rightarrow> Inr (combine_thought a thought # as))"
proof (cases cs)
  case (Cons c cs')
  have l: "calls_to_actions mcp response thought n (Suc 0) cs' = calls_to_actions mcp response [] n (Suc 0) cs'"
    using later_calls_take_no_thought[of cs' "Suc 0"] assms Cons by simp
  have j: "j = 0" if "call_to_action mcp 0 (tc_name c) args = Inr (j, a)" for args j a
    using index_kept[OF that] assms Cons by simp
  show ?thesis
    using j by (auto simp: Cons l Let_def combine_metadata split: sum.splits pyerr.splits pyval.splits)
qed simp

theorem text_goes_to_the_first_action_witness:
  "\<exists>c. calls_to_actions [] PNone ''Look'' 1 0 [c] =
    (case calls_to_actions [] PNone [] 1 0 [c] of
       Inl e \<Rightarrow> Inl e | Inr [] \<Rightarrow> Inr [] | Inr (a # as) \<Rightarrow> Inr (combine_thought a ''Look'' # as)) \<and> is_ok (calls_to_actions [] PNone ''Look'' 1 0 [c])"
proof -
  let ?c = "\<lparr>tc_id = Some ''t1'', tc_name = ''think'', tc_arguments = ''{}''\<rparr>"
  have "list_all (\<lambda>c. tc_name c \<noteq> ''task_tracker'') [?c]" by simp
  from text_goes_to_the_first_action[OF this, of "[]" PNone "''Look''" 1]
  have "calls_to_actions [] PNone ''Look'' 1 0 [?c] =
    (case calls_to_actions [] PNone [] 1 0 [?c] of
       Inl e \<Rightarrow> Inl e | Inr [] \<Rightarrow> Inr [] | Inr (a # as) \<Rightarrow> Inr (combine_thought a ''Look'' # as))" .
  moreover have "is_ok (calls_to_actions [] PNone ''Look'' 1 0 [?c])" by code_simp
  ultimately show ?thesis by blast
qed

text \<open>
  The loop over the tasks of a task tracker call overwrites the index of the loop over the calls,
  so a response whose only call plans two tasks loses its text.
\<close>
definition plan_call :: tool_call where
  "plan_call = \<lparr>tc_id = Some ''t1'', tc_name = ''task_tracker'', tc_arguments =
     json_dumps (\<lambda>r. []) (PDict [(''command'', PStr ''plan''), (''task_list'', PList [PDict [], PDict []])])\<rparr>"

lemma task_tracker_loses_the_text:
  "(case calls_to_actions [] PNone ''Two steps'' 1 0 [plan_call] of Inr [a] \<Rightarrow> attr a ''thought'' = Some (PStr []) | _ \<Rightarrow> False)"
  by code_simp

section \<open>Errors\<close>

lemma dataclass_ok:
  assumes "c \<notin> {CmdOutputObservation, CondensationAction}" "set (map fst kw) \<subseteq> set (map fst (ci_fields (class_of c)))"
    and "list_all (\<lambda>p. snd p = None \<longrightarrow> map_of kw (fst p) \<noteq> None) (ci_fields (class_of c))"
  shows "\<exists>a. dataclass_init c kw = Inr a"
proof -
  let ?f = "ci_fields (class_of c)"
  have 1: "\<not> (\<exists>k\<in>set (map fst kw). k \<notin> set (map fst ?f))" using assms(2) by blast
  have 2: "\<not> (\<exists>p\<in>set ?f. snd p = None \<and> map_of kw (fst p) = None)" using assms(3) by (auto simp: list_all_iff)
  obtain fs where "bind_args ?f kw = Inr fs" unfolding bind_args_def if_not_P[OF 1] if_not_P[OF 2] by blast
  then show ?thesis using assms(1) by (simp add: dataclass_init_def Let_def)
qed

definition reported_error :: "pyerr \<Rightarrow> bool" where
  \<comment> \<open>the controller sends the error back to the model, so that it can try again\<close>
  "reported_error e = list_ex (isinstance_exn (exn_of e)) RECOVERABLE"

lemma reported_errors [simp]: "reported_error (FunctionCallValidationError s)" "reported_error (FunctionCallNotExistsError s)" "reported_error (missing s)"
  by (simp_all add: reported_error_def RECOVERABLE_def isinstance_exn_def mk_exn_def missing_def)

definition timeout_ok :: "data \<Rightarrow> bool" where
  \<comment> \<open>no timeout, or one that \<^verbatim>\<open>float\<close> reads or rejects with a ValueError\<close>
  "timeout_ok args =
     (case map_of args ''timeout'' of
        None \<Rightarrow> True
      | Some v \<Rightarrow> (case py_float v of Inr _ \<Rightarrow> True | Inl (ValueError _) \<Rightarrow> True | Inl _ \<Rightarrow> False))"

lemma cmd_run_errors:
  assumes "cmd_run args = Inl e" "timeout_ok args" shows "reported_error e"
proof (cases "map_of args ''command''")
  case None
  then show ?thesis using assms(1) by (auto simp: cmd_run_def)
next
  case (Some cmd)
  obtain a where "dataclass_init CmdRunAction
      [(''command'', cmd), (''is_input'', PBool (get_or ''is_input'' (PStr ''false'') args = PStr ''true''))] = Inr a"
    using dataclass_ok[of CmdRunAction "[(''command'', cmd), (''is_input'', PBool (get_or ''is_input'' (PStr ''false'') args = PStr ''true''))]"]
    by (auto simp: CmdRunAction_class_def)
  then show ?thesis
    using assms by (auto simp: cmd_run_def Some timeout_ok_def split: option.splits sum.splits pyerr.splits)
qed

lemma with_code_errors:
  assumes "with_code c k args = Inl e" "\<And>x. \<exists>a. dataclass_init c [(k, x)] = Inr a" shows "reported_error e"
  using assms(1) assms(2)[of "the (map_of args ''code'')"]
  by (auto simp: with_code_def split: option.splits sum.splits)

lemma editor_errors: "str_replace_editor args = Inl e \<Longrightarrow> reported_error e"
proof -
  have rd: "\<exists>a. dataclass_init FileReadAction [(''path'', p), (''impl_source'', q), (''view_range'', r)] = Inr a" for p q r
    by (rule dataclass_ok) (simp_all add: FileReadAction_class_def)
  have ed: "\<exists>a. dataclass_init FileEditAction
      ([(''path'', p), (''command'', c), (''impl_source'', q)] @ filter (\<lambda>(k, v). k \<noteq> ''security_risk'') rest) = Inr a"
    if "rest = dict_del ''view_range'' (filter (\<lambda>(k, v). k \<notin> {''command'', ''path''}) args)"
      "\<not> list_ex (\<lambda>(k, v). k \<notin> set editor_params) rest" for p c q rest
  proof (rule dataclass_ok)
    have "fst ` set (filter (\<lambda>(k, v). k \<noteq> ''security_risk'') rest) \<subseteq> {''file_text'', ''old_str'', ''new_str'', ''insert_line''}"
    proof
      fix k assume "k \<in> fst ` set (filter (\<lambda>(k, v). k \<noteq> ''security_risk'') rest)"
      then obtain v where v: "(k, v) \<in> set rest" "k \<noteq> ''security_risk''" by auto
      then have "k \<in> set editor_params" using that(2) by (auto simp: list_ex_iff)
      moreover have "k \<notin> {''command'', ''path'', ''view_range''}" using v(1) by (auto simp: that(1) dict_del_def)
      ultimately show "k \<in> {''file_text'', ''old_str'', ''new_str'', ''insert_line''}" using v(2) by (auto simp: editor_params_def)
    qed
    then show "set (map fst ([(''path'', p), (''command'', c), (''impl_source'', q)] @ filter (\<lambda>(k, v). k \<noteq> ''security_risk'') rest))
        \<subseteq> set (map fst (ci_fields (class_of FileEditAction)))"
      by (auto simp: FileEditAction_class_def)
  qed (simp_all add: FileEditAction_class_def)
  assume e: "str_replace_editor args = Inl e"
  show "reported_error e"
  proof (cases "map_of args ''command'' = None \<or> map_of args ''path'' = None")
    case True
    then show ?thesis using e by (auto simp: str_replace_editor_def split: option.splits)
  next
    case False
    then obtain cmd p where cp: "map_of args ''command'' = Some cmd" "map_of args ''path'' = Some p" by auto
    let ?other = "filter (\<lambda>(k, v). k \<notin> {''command'', ''path''}) args"
    let ?rest = "dict_del ''view_range'' ?other"
    obtain a1 where a1: "dataclass_init FileReadAction
        [(''path'', p), (''impl_source'', PStr ''oh_aci''), (''view_range'', get_or ''view_range'' PNone ?other)] = Inr a1"
      using rd by blast
    show ?thesis
    proof (cases "list_ex (\<lambda>(k, v). k \<notin> set editor_params) ?rest")
      case True
      then show ?thesis using e a1 by (auto simp: str_replace_editor_def cp Let_def split: if_splits)
    next
      case False
      obtain a2 where "dataclass_init FileEditAction
          ([(''path'', p), (''command'', cmd), (''impl_source'', PStr ''oh_aci'')] @ filter (\<lambda>(k, v). k \<noteq> ''security_risk'') ?rest) = Inr a2"
        using ed[OF refl False] by blast
      then show ?thesis using e a1 False by (auto simp: str_replace_editor_def cp Let_def split: if_splits)
    qed
  qed
qed

lemma tool_inits:
  "\<exists>a. dataclass_init IPythonRunCellAction [(''code'', x)] = Inr a"
  "\<exists>a. dataclass_init BrowseInteractiveAction [(''browser_actions'', x)] = Inr a"
  "\<exists>a. dataclass_init AgentDelegateAction [(''agent'', x), (''inputs'', y)] = Inr a"
  "\<exists>a. dataclass_init AgentFinishAction [(''final_thought'', x)] = Inr a"
  "\<exists>a. dataclass_init AgentThinkAction [(''thought'', x)] = Inr a"
  "\<exists>a. dataclass_init CondensationRequestAction [] = Inr a"
  "\<exists>a. dataclass_init MCPAction [(''name'', x), (''arguments'', y)] = Inr a"
  "\<exists>a. dataclass_init TaskTrackingAction [(''command'', x), (''task_list'', y)] = Inr a"
  "\<exists>a. dataclass_init FileEditAction [(''path'', x), (''content'', y), (''start'', z), (''end'', u), (''impl_source'', w)] = Inr a"
  by (rule dataclass_ok; simp add: IPythonRunCellAction_class_def BrowseInteractiveAction_class_def AgentDelegateAction_class_def
      AgentFinishAction_class_def AgentThinkAction_class_def CondensationRequestAction_class_def MCPAction_class_def
      TaskTrackingAction_class_def FileEditAction_class_def)+

lemma edit_errors: "llm_based_edit args = Inl e \<Longrightarrow> reported_error e"
  using tool_inits(9)[of "the (map_of args ''path'')" "the (map_of args ''content'')" "get_or ''start'' (PInt 1) args"
      "get_or ''end'' (PInt (-1)) args" "get_or ''impl_source'' (PStr ''llm_based_edit'') args"]
  by (auto simp: llm_based_edit_def split: option.splits)

lemma normalize_errors: "normalize_tasks i ts = Inl e \<Longrightarrow> reported_error e"
  by (induction ts arbitrary: i) (auto split: pyval.splits sum.splits)

lemma task_errors:
  assumes "task_tracker i args = Inl e" shows "reported_error e"
proof (cases "map_of args ''command''")
  case None
  then show ?thesis using assms by (auto simp: task_tracker_def)
next
  case (Some cmd)
  have r: "reported_error (missing k)" "reported_error (FunctionCallValidationError k)" for k by simp_all
  show ?thesis
  proof (cases "get_or ''task_list'' (PList []) args")
    case (PList ts)
    show ?thesis
    proof (cases "normalize_tasks 0 ts")
      case (Inl x)
      then show ?thesis using assms normalize_errors[OF Inl] r by (auto simp: task_tracker_def Some PList split: if_splits)
    next
      case (Inr us)
      obtain a where "dataclass_init TaskTrackingAction [(''command'', cmd), (''task_list'', PList us)] = Inr a"
        using tool_inits(8) by blast
      then show ?thesis using assms r by (auto simp: task_tracker_def Some PList Inr split: if_splits)
    qed
  qed (use assms r in \<open>auto simp: task_tracker_def Some split: if_splits\<close>)
qed



text \<open>A timeout that is null is not reported_error as an invalid argument: the TypeError of \<^verbatim>\<open>float(None)\<close> is not caught.\<close>
lemma null_timeout_is_a_TypeError:
  "(case call_to_action mcp i ''execute_bash'' [(''command'', PStr ''ls''), (''timeout'', PNone)] of
      Inl (TypeError _) \<Rightarrow> True | _ \<Rightarrow> False)"
proof -
  obtain a where "dataclass_init CmdRunAction
      [(''command'', PStr ''ls''), (''is_input'', PBool (get_or ''is_input'' (PStr ''false'') [(''command'', PStr ''ls''), (''timeout'', PNone)] = PStr ''true''))] = Inr a"
    using dataclass_ok[of CmdRunAction "[(''command'', PStr ''ls''), (''is_input'', PBool (get_or ''is_input'' (PStr ''false'') [(''command'', PStr ''ls''), (''timeout'', PNone)] = PStr ''true''))]"]
    by (auto simp: CmdRunAction_class_def)
  then show ?thesis by (simp add: call_to_action_def cmd_run_def same_index_def py_float_def)
qed

end
