(* ===== verification/Recall_Memory.thy ===== *)
theory Recall_Memory
  imports Event_Stream Conversation_Memory
begin

text \<open>
  Microagents (\<^verbatim>\<open>openhands/microagent/microagent.py\<close>) and the memory that answers recall actions
  (\<^verbatim>\<open>openhands/memory/memory.py\<close>).  The frontmatter parser and the validation of the metadata by pydantic are
  parameters.  The file system is a parameter too; paths are lists of
  names.
\<close>

section \<open>Microagents\<close>

datatype microagent_type = KNOWLEDGE | REPO_KNOWLEDGE | TASK

record microagent_metadata =
  md_name :: string
  md_triggers :: "string list"
  md_inputs :: "pyval list"
  md_mcp_tools :: "pyval option"

record microagent =
  ma_name :: string
  ma_content :: string
  ma_metadata :: microagent_metadata
  ma_source :: "string list"
  ma_type :: microagent_type

definition default_metadata :: "string \<Rightarrow> microagent_metadata" where
  \<comment> \<open>\<^verbatim>\<open>MicroagentMetadata(name=name)\<close>\<close>
  "default_metadata name = \<lparr>md_name = name, md_triggers = [], md_inputs = [], md_mcp_tools = None\<rparr>"

definition third_party_name :: "string \<Rightarrow> string option" where
  \<comment> \<open>\<^verbatim>\<open>PATH_TO_THIRD_PARTY_MICROAGENT_NAME.get(path.name.lower())\<close>\<close>
  "third_party_name file =
     (let n = lower file
      in if n = ''.cursorrules'' then Some ''cursorrules''
         else if n = ''agents.md'' \<or> n = ''agent.md'' then Some ''agents'' else None)"

definition repo_microagent :: "string \<Rightarrow> string \<Rightarrow> string list \<Rightarrow> microagent" where
  "repo_microagent name body path =
     \<lparr>ma_name = name, ma_content = body, ma_metadata = default_metadata name, ma_source = path, ma_type = REPO_KNOWLEDGE\<rparr>"

definition is_var_start :: "char \<Rightarrow> bool" where
  "is_var_start c \<longleftrightarrow> (let n = (of_char c :: nat) in (65 \<le> n \<and> n \<le> 90) \<or> (97 \<le> n \<and> n \<le> 122) \<or> n = 95)"

definition is_var_char :: "char \<Rightarrow> bool" where
  "is_var_char c \<longleftrightarrow> is_var_start c \<or> is_digit c"

definition variable_at :: "string \<Rightarrow> string option" where
  \<comment> \<open>\<^verbatim>\<open>\$\{([a-zA-Z_][a-zA-Z0-9_]*)\}\<close> at the start of the text\<close>
  "variable_at s =
     (if \<not> startswith s ''${'' then None
      else (let r = drop 2 s; name = takeWhile is_var_char r; rest = dropWhile is_var_char r
            in if name \<noteq> [] \<and> is_var_start (hd name) \<and> rest \<noteq> [] \<and> hd rest = CHR ''}'' then Some name else None))"

function extract_variables :: "string \<Rightarrow> string list" where
  "extract_variables s =
     (case s of
        [] \<Rightarrow> []
      | c # t \<Rightarrow> (case variable_at (c # t) of
                    Some name \<Rightarrow> name # extract_variables (drop (length name + 2) t)
                  | None \<Rightarrow> extract_variables t))"
  by pat_completeness auto
termination
  by (relation "measure length") auto

declare extract_variables.simps [simp del]

lemma extract_variables_code [code]:
  "extract_variables [] = []"
  "extract_variables (c # t) =
     (case variable_at (c # t) of
        Some name \<Rightarrow> name # extract_variables (drop (length name + 2) t)
      | None \<Rightarrow> extract_variables t)"
  by (subst extract_variables.simps, simp)+

definition missing_variables_prompt :: string where
  "missing_variables_prompt = nl @ nl @ ''If the user didn'' @ [CHR 0x27]
     @ ''t provide any of these variables, ask the user to provide them first before the agent can proceed with the task.''"

definition task_content :: "microagent_metadata \<Rightarrow> string \<Rightarrow> string" where
  \<comment> \<open>\<^verbatim>\<open>TaskMicroagent.__init__\<close>\<close>
  "task_content md body =
     (if extract_variables body = [] \<and> md_inputs md = [] then body else body @ missing_variables_prompt)"

definition with_task_trigger :: "microagent_metadata \<Rightarrow> microagent_metadata" where
  "with_task_trigger md =
     (let t = CHR ''/'' # md_name md
      in if t \<in> set (md_triggers md) then md else md\<lparr>md_triggers := md_triggers md @ [t]\<rparr>)"

record loader =
  frontmatter :: "string \<Rightarrow> (string \<times> data) option"       \<comment> \<open>the content and the metadata, unless parsing fails\<close>
  validate :: "data \<Rightarrow> microagent_metadata option"           \<comment> \<open>\<^verbatim>\<open>MicroagentMetadata(**d)\<close>\<close>
  stdio_servers :: "pyval \<Rightarrow> bool"                              \<comment> \<open>whether an MCP configuration has stdio servers\<close>

definition without_suffix :: "string \<Rightarrow> string" where
  \<comment> \<open>\<^verbatim>\<open>Path.with_suffix('')\<close> of a name: the text up to the last dot that is neither the first nor the last character\<close>
  "without_suffix s =
     (let parts = split_on (CHR ''.'') s
      in if length parts < 2 \<or> last parts = [] \<or> join ''.'' (butlast parts) = [] then s
         else join ''.'' (butlast parts))"

definition derived_name :: "string list \<Rightarrow> string" where
  \<comment> \<open>the name from the path relative to the directory of the microagents\<close>
  "derived_name rel =
     (case third_party_name (last rel) of
        Some n \<Rightarrow> n
      | None \<Rightarrow> join ''/'' (butlast rel @ [without_suffix (last rel)]))"

definition string_version :: "data \<Rightarrow> data" where
  \<comment> \<open>the version becomes a string\<close>
  "string_version d =
     (case map_of d ''version'' of None \<Rightarrow> d | Some v \<Rightarrow> dict_set ''version'' (PStr (py_str v)) d)"

definition load_microagent :: "loader \<Rightarrow> string list \<Rightarrow> (string list) option \<Rightarrow> string \<Rightarrow> microagent res" where
  \<comment> \<open>\<^verbatim>\<open>BaseMicroagent.load\<close>: the path, the path relative to the directory if there is one, and the text of the file\<close>
  "load_microagent L path rel text =
     (if last path = ''.openhands_instructions'' then Inr (repo_microagent ''repo_legacy'' text path)
      else case third_party_name (last path) of
        Some n \<Rightarrow> Inr (repo_microagent n text path)
      | None \<Rightarrow>
          (case frontmatter L text of
             None \<Rightarrow> Inl (ValueError ''frontmatter'')
           | Some (body, d) \<Rightarrow>
               (case validate L (string_version d) of
                  None \<Rightarrow> Inl (PyException ''MicroagentValidationError'')
                | Some md \<Rightarrow>
               (if (case md_mcp_tools md of Some t \<Rightarrow> \<not> stdio_servers L t | None \<Rightarrow> False)
                then Inl (PyException ''MicroagentValidationError'')
                else (let name = (case rel of Some r \<Rightarrow> derived_name r | None \<Rightarrow> md_name md);
                          make = (\<lambda>t m b. \<lparr>ma_name = name, ma_content = b, ma_metadata = m, ma_source = path, ma_type = t\<rparr>)
                      in if md_inputs md \<noteq> [] then Inr (make TASK (with_task_trigger md) (task_content md body))
                         else if md_triggers md \<noteq> [] then Inr (make KNOWLEDGE md body)
                         else Inr (make REPO_KNOWLEDGE md body))))))"

fun match_trigger_in :: "string \<Rightarrow> string list \<Rightarrow> string option" where
  "match_trigger_in msg [] = None"
| "match_trigger_in msg (t # ts) = (if contains (lower t) msg then Some t else match_trigger_in msg ts)"

definition match_trigger :: "microagent \<Rightarrow> string \<Rightarrow> string option" where
  "match_trigger m msg = match_trigger_in (lower msg) (md_triggers (ma_metadata m))"

type_synonym microagents = "(string, microagent) dict \<times> (string, microagent) dict"

fun load_files :: "loader \<Rightarrow> (string list \<times> (string list) option \<times> string) list \<Rightarrow> microagents \<Rightarrow> microagents res" where
  \<comment> \<open>the loop of \<^verbatim>\<open>load_microagents_from_dir\<close>: repository agents and knowledge agents by name\<close>
  "load_files L [] acc = Inr acc"
| "load_files L ((path, rel, text) # fs) (repo, know) =
     (case load_microagent L path rel text of
        Inl (PyException s) \<Rightarrow> Inl (PyException s)
      | Inl e \<Rightarrow> Inl (ValueError ''Error loading microagent'')
      | Inr m \<Rightarrow>
          (if ma_type m = REPO_KNOWLEDGE then load_files L fs (dict_set (ma_name m) m repo, know)
           else load_files L fs (repo, dict_set (ma_name m) m know)))"

record dir =
  root_files :: "(string, string) dict"              \<comment> \<open>the files of the repository root by name\<close>
  md_files :: "(string list \<times> string) list"        \<comment> \<open>\<^verbatim>\<open>rglob('*.md')\<close>: relative paths and texts\<close>

definition special_files :: "dir \<Rightarrow> (string list \<times> string) list" where
  "special_files d =
     (case map_of (root_files d) ''.cursorrules'' of Some t \<Rightarrow> [([''.cursorrules''], t)] | None \<Rightarrow> [])
     @ (case find (\<lambda>n. dict_has n (root_files d)) [''AGENTS.md'', ''agents.md'', ''AGENT.md'', ''agent.md''] of
          Some n \<Rightarrow> [([n], the (map_of (root_files d) n))] | None \<Rightarrow> [])"

definition load_microagents_from_dir :: "loader \<Rightarrow> dir \<Rightarrow> microagents res" where
  "load_microagents_from_dir L d =
     load_files L
       (map (\<lambda>(p, t). (p, Some p, t)) (special_files d)
        @ map (\<lambda>(p, t). (p, Some p, t)) (filter (\<lambda>(p, t). last p \<noteq> ''README.md'') (md_files d)))
       ([], [])"

section \<open>The memory\<close>

record memory =
  repo_microagents :: "(string, microagent) dict"
  knowledge_microagents :: "(string, microagent) dict"
  repository :: "repository_info option"
  runtime :: "runtime_info option"
  instructions :: "string option"

definition load_user_workspace_microagents :: "microagent list \<Rightarrow> memory \<Rightarrow> memory" where
  "load_user_workspace_microagents ms M =
     foldl (\<lambda>M m. if ma_type m = REPO_KNOWLEDGE
                  then M\<lparr>repo_microagents := dict_set (ma_name m) m (repo_microagents M)\<rparr>
                  else M\<lparr>knowledge_microagents := dict_set (ma_name m) m (knowledge_microagents M)\<rparr>) M ms"

definition merge_microagents :: "microagents \<Rightarrow> memory \<Rightarrow> memory" where
  "merge_microagents a M =
     M\<lparr>repo_microagents := dict_update (repo_microagents M) (fst a),
       knowledge_microagents := dict_update (knowledge_microagents M) (snd a)\<rparr>"

definition memory_init :: "loader \<Rightarrow> dir \<Rightarrow> dir \<Rightarrow> memory res" where
  \<comment> \<open>the global microagents, then those of the user; errors in the latter are logged only\<close>
  "memory_init L global user =
     (let M = \<lparr>repo_microagents = [], knowledge_microagents = [], repository = None, runtime = None, instructions = None\<rparr>
      in case load_microagents_from_dir L global of
           Inl e \<Rightarrow> Inl e
         | Inr a \<Rightarrow>
             (case load_microagents_from_dir L user of
                Inl e \<Rightarrow> Inr (merge_microagents a M)
              | Inr b \<Rightarrow> Inr (merge_microagents b (merge_microagents a M))))"

definition find_microagent_knowledge :: "memory \<Rightarrow> string \<Rightarrow> pyval list" where
  "find_microagent_knowledge M q =
     (if q = [] then []
      else concat (map (\<lambda>(n, m). case match_trigger m q of
             Some (c # t) \<Rightarrow> [PDict [(''name'', PStr (ma_name m)), (''trigger'', PStr (c # t)), (''content'', PStr (ma_content m))]]
           | _ \<Rightarrow> []) (knowledge_microagents M)))"

definition repo_instructions_of :: "memory \<Rightarrow> string" where
  \<comment> \<open>the loop puts two line breaks between contents, but none as long as the text is empty\<close>
  "repo_instructions_of M =
     foldl (\<lambda>s m. (if s \<noteq> [] then s @ nl @ nl else s) @ ma_content m) [] (map snd (repo_microagents M))"

definition recall_observation :: "(string, pyval) dict \<Rightarrow> event res" where
  "recall_observation kw = dataclass_init RecallObservation kw"

definition on_workspace_context_recall :: "memory \<Rightarrow> event \<Rightarrow> (event option) res" where
  "on_workspace_context_recall M e =
     (let instr = repo_instructions_of M; know = find_microagent_knowledge M (str_attr e ''query'');
          ri = repository M; rt = runtime M
      in if ri \<noteq> None \<or> rt \<noteq> None \<or> instr \<noteq> [] \<or> know \<noteq> [] \<or> instructions M \<noteq> None
         then (case recall_observation
                 [(''recall_type'', PStr ''workspace_context''),
                  (''repo_name'', PStr (case ri of Some r \<Rightarrow> ri_name r | None \<Rightarrow> [])),
                  (''repo_directory'', PStr (case ri of Some r \<Rightarrow> ri_directory r | None \<Rightarrow> [])),
                  (''repo_branch'', PStr (case ri of Some r \<Rightarrow> (case ri_branch r of Some b \<Rightarrow> b | None \<Rightarrow> []) | None \<Rightarrow> [])),
                  (''repo_instructions'', PStr instr),
                  (''runtime_hosts'', PDict (case rt of Some r \<Rightarrow> rt_hosts r | None \<Rightarrow> [])),
                  (''additional_agent_instructions'', PStr (case rt of Some r \<Rightarrow> rt_instructions r | None \<Rightarrow> [])),
                  (''microagent_knowledge'', PList know),
                  (''content'', PStr ''Added workspace context''),
                  (''date'', PStr (case rt of Some r \<Rightarrow> rt_date r | None \<Rightarrow> [])),
                  (''custom_secrets_descriptions'', PDict (case rt of Some r \<Rightarrow> rt_secrets r | None \<Rightarrow> [])),
                  (''conversation_instructions'', PStr (case instructions M of Some s \<Rightarrow> s | None \<Rightarrow> [])),
                  (''working_dir'', PStr (case rt of Some r \<Rightarrow> rt_working_dir r | None \<Rightarrow> []))] of
                 Inl err \<Rightarrow> Inl err | Inr o1 \<Rightarrow> Inr (Some o1))
         else Inr None)"

definition on_microagent_recall :: "memory \<Rightarrow> event \<Rightarrow> (event option) res" where
  "on_microagent_recall M e =
     (let know = find_microagent_knowledge M (str_attr e ''query'')
      in if know \<noteq> []
         then (case recall_observation [(''recall_type'', PStr ''knowledge''), (''microagent_knowledge'', PList know),
                      (''content'', PStr ''Retrieved knowledge from microagents'')] of
                 Inl err \<Rightarrow> Inl err | Inr o1 \<Rightarrow> Inr (Some o1))
         else Inr None)"

definition recall_answer :: "memory \<Rightarrow> event \<Rightarrow> (event option) res" where
  \<comment> \<open>the observation that answers an event, before it is added to the stream; \<^const>\<open>None\<close> when the event is not answered\<close>
  "recall_answer M e =
     (if \<not> is_a e RecallAction then Inr None
      else (let r = (if ev_source e = Some USER \<and> attr e ''recall_type'' = Some (PStr ''workspace_context'')
                     then Some (on_workspace_context_recall M e)
                     else if (ev_source e = Some USER \<or> ev_source e = Some AGENT) \<and> attr e ''recall_type'' = Some (PStr ''knowledge'')
                     then Some (on_microagent_recall M e)
                     else None)
            in case r of
                 None \<Rightarrow> Inr None
               | Some (Inl err) \<Rightarrow> Inl err
               | Some (Inr ob) \<Rightarrow>
                   Inr (Some ((case ob of Some x \<Rightarrow> x | None \<Rightarrow> blank NullObservation [(''content'', PStr []), (''observation'', PStr ''null'')])
                              \<lparr>ev_cause := Some (eid e)\<rparr>))))"

definition memory_on_event :: "string \<Rightarrow> memory \<Rightarrow> event \<Rightarrow> 'st stream \<Rightarrow> 'st stream \<times> pyerr option" where
  \<comment> \<open>the stream afterwards, and the error that is reported as the status of the runtime\<close>
  "memory_on_event now M e s =
     (case recall_answer M e of
        Inl err \<Rightarrow> (s, Some err)
      | Inr None \<Rightarrow> (s, None)
      | Inr (Some ob) \<Rightarrow> (case add_event now ob ENVIRONMENT s of (s', _, err) \<Rightarrow> (s', err)))"

definition get_microagent_mcp_tools :: "memory \<Rightarrow> pyval list" where
  "get_microagent_mcp_tools M =
     concat (map (\<lambda>(n, m). case md_mcp_tools (ma_metadata m) of Some t \<Rightarrow> [t] | None \<Rightarrow> []) (repo_microagents M))"

definition set_repository_info :: "string \<Rightarrow> string \<Rightarrow> string option \<Rightarrow> memory \<Rightarrow> memory" where
  "set_repository_info name directory branch M =
     M\<lparr>repository := (if name \<noteq> [] \<or> directory \<noteq> []
                      then Some \<lparr>ri_name = name, ri_directory = directory, ri_branch = branch\<rparr> else None)\<rparr>"

definition set_runtime_info ::
  "(string, pyval) dict \<Rightarrow> string \<Rightarrow> string \<Rightarrow> (string, pyval) dict \<Rightarrow> string \<Rightarrow> memory \<Rightarrow> memory" where
  \<comment> \<open>the hosts and instructions of the runtime, the date, the descriptions of the secrets, the directory\<close>
  "set_runtime_info hosts instr today descr wd M =
     M\<lparr>runtime := Some (if hosts \<noteq> [] \<or> instr \<noteq> []
         then \<lparr>rt_date = today, rt_hosts = hosts, rt_instructions = instr, rt_secrets = descr, rt_working_dir = wd\<rparr>
         else \<lparr>rt_date = today, rt_hosts = [], rt_instructions = [], rt_secrets = descr, rt_working_dir = wd\<rparr>)\<rparr>"

definition set_conversation_instructions :: "string option \<Rightarrow> memory \<Rightarrow> memory" where
  "set_conversation_instructions s M = M\<lparr>instructions := Some (case s of Some t \<Rightarrow> t | None \<Rightarrow> [])\<rparr>"

section \<open>Facts\<close>

lemma bind_args_total:
  assumes "set (map fst kw) \<subseteq> set (map fst f)" "list_all (\<lambda>p. snd p = None \<longrightarrow> map_of kw (fst p) \<noteq> None) f"
  shows "\<exists>fs. bind_args f kw = Inr fs \<and> (\<forall>k\<in>set (map fst kw). map_of fs k = map_of kw k)"
proof -
  let ?g = "\<lambda>p. case map_of kw (fst p) of Some v \<Rightarrow> v | None \<Rightarrow> (case snd p of Some d \<Rightarrow> d | None \<Rightarrow> PNone)"
  have 1: "\<not> (\<exists>k\<in>set (map fst kw). k \<notin> set (map fst f))" using assms(1) by blast
  have 2: "\<not> (\<exists>p\<in>set f. snd p = None \<and> map_of kw (fst p) = None)" using assms(2) by (auto simp: list_all_iff)
  have look: "map_of (map (\<lambda>p. (fst p, ?g p)) ps) k = Some v" if "k \<in> set (map fst ps)" "map_of kw k = Some v" for ps k v
    using that by (induction ps) auto
  have "map_of (map (\<lambda>p. (fst p, ?g p)) f) k = map_of kw k" if k: "k \<in> set (map fst kw)" for k
  proof -
    obtain v where "map_of kw k = Some v" using k by (cases "map_of kw k") (auto simp: map_of_eq_None_iff)
    moreover have "k \<in> set (map fst f)" using assms(1) k by blast
    ultimately show ?thesis using look[of k f v] by simp
  qed
  then show ?thesis unfolding bind_args_def if_not_P[OF 1] if_not_P[OF 2] by blast
qed

lemma recall_observation_ok:
  assumes "set (map fst kw) \<subseteq> set (map fst (ci_fields RecallObservation_class))" "dict_has ''content'' kw" "dict_has ''recall_type'' kw"
  shows "\<exists>ob. recall_observation kw = Inr ob \<and> is_a ob RecallObservation \<and> ev_id ob = None \<and>
    (\<forall>k\<in>set (map fst kw). attr ob k = map_of kw k)"
proof -
  have "list_all (\<lambda>p. snd p = None \<longrightarrow> map_of kw (fst p) \<noteq> None) (ci_fields RecallObservation_class)"
    using assms(2,3) by (simp add: RecallObservation_class_def dict_has_def)
  from bind_args_total[OF assms(1) this] obtain fs
    where fs: "bind_args (ci_fields RecallObservation_class) kw = Inr fs" "\<forall>k\<in>set (map fst kw). map_of fs k = map_of kw k" by blast
  have "attr (blank RecallObservation fs) k = map_of kw k" if "k \<in> set (map fst kw)" for k
    using fs(2) that by (auto simp: attr_def blank_def split: option.splits)
  then show ?thesis using fs(1) by (auto simp: recall_observation_def dataclass_init_def blank_def)
qed

lemma set_dict_set_le: "set (dict_set k v d) \<subseteq> insert (k, v) (set d)"
  by (induction k v d rule: dict_set.induct) auto

definition keyed :: "(microagent \<Rightarrow> bool) \<Rightarrow> (string, microagent) dict \<Rightarrow> bool" where
  \<comment> \<open>a dictionary of microagents under their names, all of a kind\<close>
  "keyed P d \<longleftrightarrow> distinct (map fst d) \<and> list_all (\<lambda>(n, m). ma_name m = n \<and> P m) d"

definition is_repo :: "microagent \<Rightarrow> bool" where "is_repo m \<longleftrightarrow> ma_type m = REPO_KNOWLEDGE"
definition is_triggered :: "microagent \<Rightarrow> bool" where
  "is_triggered m \<longleftrightarrow> ma_type m \<noteq> REPO_KNOWLEDGE"

definition wf_memory :: "memory \<Rightarrow> bool" where
  "wf_memory M \<longleftrightarrow> keyed is_repo (repo_microagents M) \<and> keyed is_triggered (knowledge_microagents M)"

lemma keyed_set: "keyed P d \<Longrightarrow> P m \<Longrightarrow> keyed P (dict_set (ma_name m) m d)"
  using set_dict_set_le[of "ma_name m" m d] by (auto simp: keyed_def list_all_iff)

lemma keyed_update: "keyed P d \<Longrightarrow> keyed P e \<Longrightarrow> keyed P (dict_update d e)"
proof (induction d e rule: dict_update.induct)
  case (2 d k v e)
  then have "ma_name v = k" "P v" by (simp_all add: keyed_def)
  then show ?case using 2 keyed_set[of P d v] by (simp add: keyed_def)
qed simp

lemma load_files_keyed:
  "load_files L fs a = Inr b \<Longrightarrow> keyed is_repo (fst a) \<Longrightarrow> keyed is_triggered (snd a) \<Longrightarrow>
   keyed is_repo (fst b) \<and> keyed is_triggered (snd b)"
proof (induction L fs a rule: load_files.induct)
  case (2 L path rel s fs repo know)
  obtain m where m: "load_microagent L path rel s = Inr m" using "2.prems"(1) by (auto split: sum.splits pyerr.splits)
  show ?case
  proof (cases "ma_type m = REPO_KNOWLEDGE")
    case True
    then have "is_repo m" by (simp add: is_repo_def)
    then show ?thesis using "2.IH"(1)[OF m True] "2.prems" m True keyed_set[of is_repo repo m] by simp
  next
    case False
    then have "is_triggered m" by (simp add: is_triggered_def)
    then show ?thesis using "2.IH"(2)[OF m False] "2.prems" m False keyed_set[of is_triggered know m] by simp
  qed
qed simp

lemma load_dir_keyed: "load_microagents_from_dir L d = Inr b \<Longrightarrow> keyed is_repo (fst b) \<and> keyed is_triggered (snd b)"
  unfolding load_microagents_from_dir_def by (erule load_files_keyed) (simp_all add: keyed_def)

lemma merge_wf: "wf_memory M \<Longrightarrow> keyed is_repo (fst a) \<Longrightarrow> keyed is_triggered (snd a) \<Longrightarrow> wf_memory (merge_microagents a M)"
  by (simp add: wf_memory_def merge_microagents_def keyed_update)

lemma init_wf: "memory_init L g u = Inr M \<Longrightarrow> wf_memory M"
  using load_dir_keyed[of L g] load_dir_keyed[of L u]
  by (auto simp: memory_init_def Let_def intro!: merge_wf split: sum.splits) (auto simp: wf_memory_def keyed_def)

lemma load_workspace_wf: "wf_memory M \<Longrightarrow> wf_memory (load_user_workspace_microagents ms M)"
  unfolding load_user_workspace_microagents_def
proof (induction ms arbitrary: M)
  case (Cons m ms)
  have "wf_memory (if ma_type m = REPO_KNOWLEDGE then M\<lparr>repo_microagents := dict_set (ma_name m) m (repo_microagents M)\<rparr>
      else M\<lparr>knowledge_microagents := dict_set (ma_name m) m (knowledge_microagents M)\<rparr>)"
    using Cons.prems keyed_set[of is_repo _ m] keyed_set[of is_triggered _ m]
    by (cases "ma_type m = REPO_KNOWLEDGE") (simp_all add: wf_memory_def is_repo_def[of m] is_triggered_def[of m])
  then show ?case using Cons.IH by simp
qed simp

end
