(* ===== verification/Recall_Properties.thy ===== *)
theory Recall_Properties
  imports Recall_Memory
begin

text \<open>
  Properties of the recall memory: microagents are kept under their names, every recall action is
  answered, the answer holds the triggered microagents, and the conversation shows each of them once.
\<close>

section \<open>Loading\<close>

definition no_files :: dir where "no_files = \<lparr>root_files = [], md_files = []\<rparr>"

definition plain_loader :: loader where
  \<comment> \<open>a loader for files whose text is their only trigger\<close>
  "plain_loader = \<lparr>frontmatter = (\<lambda>s. Some (s, [])), validate = (\<lambda>d. Some (default_metadata ''default'')), stdio_servers = (\<lambda>v. True)\<rparr>"

definition python_agent :: microagent where
  "python_agent = \<lparr>ma_name = ''python'', ma_content = ''Use venv'', ma_metadata = (default_metadata ''python'')\<lparr>md_triggers := [''Python'', ''pip'']\<rparr>,
     ma_source = [''python.md''], ma_type = KNOWLEDGE\<rparr>"

definition sample_dir :: dir where
  "sample_dir = \<lparr>root_files = [(''AGENTS.md'', ''Be kind'')], md_files = [([''a'', ''repo.md''], ''Use tabs''), ([''README.md''], ''x'')]\<rparr>"

text \<open>
  Whatever directories and workspace microagents are loaded, the memory keeps every microagent under its own name,
  without duplicates, repository agents apart from the triggered ones.
\<close>
theorem microagents_are_kept_by_name:
  assumes "memory_init L global user = Inr M"
  shows "wf_memory (load_user_workspace_microagents ms M)"
  by (rule load_workspace_wf[OF init_wf[OF assms]])

theorem microagents_are_kept_by_name_witness:
  "\<exists>M. memory_init plain_loader sample_dir no_files = Inr M \<and> wf_memory (load_user_workspace_microagents [python_agent] M) \<and>
     map fst (repo_microagents M) = [''agents'', ''a/repo'']"
proof -
  let ?agents = "repo_microagent ''agents'' ''Be kind'' [''AGENTS.md'']"
  let ?repo = "\<lparr>ma_name = ''a/repo'', ma_content = ''Use tabs'', ma_metadata = default_metadata ''default'',
     ma_source = [''a'', ''repo.md''], ma_type = REPO_KNOWLEDGE\<rparr>"
  have files: "special_files sample_dir = [([''AGENTS.md''], ''Be kind'')]" by code_simp
  have l1: "load_microagent plain_loader [''AGENTS.md''] (Some [''AGENTS.md'']) ''Be kind'' = Inr ?agents" by code_simp
  have l2: "load_microagent plain_loader [''a'', ''repo.md''] (Some [''a'', ''repo.md'']) ''Use tabs'' = Inr ?repo" by code_simp
  have "load_microagents_from_dir plain_loader sample_dir = Inr ([(''agents'', ?agents), (''a/repo'', ?repo)], [])"
    unfolding load_microagents_from_dir_def files by (simp add: sample_dir_def l1 l2) (simp add: repo_microagent_def)
  moreover have "load_microagents_from_dir plain_loader no_files = Inr ([], [])"
    by (simp add: load_microagents_from_dir_def special_files_def no_files_def dict_has_def)
  ultimately have "(case memory_init plain_loader sample_dir no_files of Inr M \<Rightarrow> map fst (repo_microagents M) = [''agents'', ''a/repo''] | Inl _ \<Rightarrow> False)"
    by (simp add: memory_init_def merge_microagents_def)
  then obtain M where M: "memory_init plain_loader sample_dir no_files = Inr M" "map fst (repo_microagents M) = [''agents'', ''a/repo'']"
    by (cases "memory_init plain_loader sample_dir no_files") auto
  show ?thesis using M(1) microagents_are_kept_by_name[OF M(1)] M(2) by (intro exI[of _ M] conjI)
qed

section \<open>Answers\<close>

definition recallable :: "event \<Rightarrow> bool" where
  "recallable e \<longleftrightarrow> is_a e RecallAction \<and>
     (attr e ''recall_type'' = Some (PStr ''workspace_context'') \<and> ev_source e = Some USER
      \<or> attr e ''recall_type'' = Some (PStr ''knowledge'') \<and> (ev_source e = Some USER \<or> ev_source e = Some AGENT))"

lemma answer_of:
  assumes "\<exists>ob. r = Inr ob \<and> P ob"
  shows "\<exists>x. (case r of Inl err \<Rightarrow> Inl err | Inr o1 \<Rightarrow> Inr (Some o1)) = Inr x \<and> (case x of None \<Rightarrow> Q | Some ob \<Rightarrow> P ob)"
  using assms by auto

lemma workspace_answer:
  "\<exists>x. on_workspace_context_recall M e = Inr x \<and>
    (case x of None \<Rightarrow> True
     | Some ob \<Rightarrow> is_a ob RecallObservation \<and> ev_id ob = None \<and> attr ob ''recall_type'' = Some (PStr ''workspace_context'') \<and>
         attr ob ''microagent_knowledge'' = Some (PList (find_microagent_knowledge M (str_attr e ''query''))))"
proof -
  have main: "\<exists>ob. recall_observation
       [(''recall_type'', PStr ''workspace_context''), (''repo_name'', a1), (''repo_directory'', a2), (''repo_branch'', a3),
        (''repo_instructions'', a4), (''runtime_hosts'', a5), (''additional_agent_instructions'', a6), (''microagent_knowledge'', a7),
        (''content'', a8), (''date'', a9), (''custom_secrets_descriptions'', b1), (''conversation_instructions'', b2), (''working_dir'', b3)]
      = Inr ob \<and> is_a ob RecallObservation \<and> ev_id ob = None \<and> attr ob ''recall_type'' = Some (PStr ''workspace_context'') \<and>
      attr ob ''microagent_knowledge'' = Some a7" for a1 a2 a3 a4 a5 a6 a7 a8 a9 b1 b2 b3
    using recall_observation_ok[of "[(''recall_type'', PStr ''workspace_context''), (''repo_name'', a1), (''repo_directory'', a2), (''repo_branch'', a3),
        (''repo_instructions'', a4), (''runtime_hosts'', a5), (''additional_agent_instructions'', a6), (''microagent_knowledge'', a7),
        (''content'', a8), (''date'', a9), (''custom_secrets_descriptions'', b1), (''conversation_instructions'', b2), (''working_dir'', b3)]"]
    by (auto simp: RecallObservation_class_def dict_has_def)
  show ?thesis
  proof (cases "repository M \<noteq> None \<or> runtime M \<noteq> None \<or> repo_instructions_of M \<noteq> [] \<or>
      find_microagent_knowledge M (str_attr e ''query'') \<noteq> [] \<or> instructions M \<noteq> None")
    case True
    show ?thesis unfolding on_workspace_context_recall_def Let_def if_P[OF True]
      by (rule answer_of) (rule main)
  next
    case False
    show ?thesis unfolding on_workspace_context_recall_def Let_def if_not_P[OF False] by simp
  qed
qed

lemma knowledge_answer:
  "\<exists>x. on_microagent_recall M e = Inr x \<and>
    (case x of None \<Rightarrow> find_microagent_knowledge M (str_attr e ''query'') = []
     | Some ob \<Rightarrow> is_a ob RecallObservation \<and> ev_id ob = None \<and> attr ob ''recall_type'' = Some (PStr ''knowledge'') \<and>
         attr ob ''microagent_knowledge'' = Some (PList (find_microagent_knowledge M (str_attr e ''query''))))"
proof -
  have "\<exists>ob. recall_observation [(''recall_type'', PStr ''knowledge''), (''microagent_knowledge'', a), (''content'', b)] = Inr ob \<and>
      is_a ob RecallObservation \<and> ev_id ob = None \<and> attr ob ''recall_type'' = Some (PStr ''knowledge'') \<and> attr ob ''microagent_knowledge'' = Some a" for a b
    using recall_observation_ok[of "[(''recall_type'', PStr ''knowledge''), (''microagent_knowledge'', a), (''content'', b)]"]
    by (auto simp: RecallObservation_class_def dict_has_def)
  note main = this
  show ?thesis
  proof (cases "find_microagent_knowledge M (str_attr e ''query'') \<noteq> []")
    case True
    show ?thesis unfolding on_microagent_recall_def Let_def if_P[OF True] by (rule answer_of) (rule main)
  next
    case False
    then show ?thesis by (simp add: on_microagent_recall_def)
  qed
qed

lemma attr_cause [simp]: "attr (x\<lparr>ev_cause := c\<rparr>) k = attr x k"
  by (simp add: attr_def split: option.splits)


definition sample_memory :: memory where
  "sample_memory = load_user_workspace_microagents [python_agent]
     \<lparr>repo_microagents = [], knowledge_microagents = [], repository = None, runtime = None, instructions = None\<rparr>"

definition sample_recall :: event where
  "sample_recall = (blank RecallAction [(''recall_type'', PStr ''knowledge''), (''query'', PStr ''help with PIP''), (''thought'', PStr []), (''action'', PStr ''recall'')])
     \<lparr>ev_id := Some 4, ev_source := Some USER\<rparr>"


section \<open>Knowledge\<close>

lemma name_of_knowledge [simp]:
  "microagent_name (PDict [(''name'', PStr n), (''trigger'', t), (''content'', c)]) = n"
  by (simp add: microagent_name_def field_def)

definition triggered :: "string \<Rightarrow> microagent \<Rightarrow> bool" where
  "triggered q m = (case match_trigger m q of Some (_ # _) \<Rightarrow> True | _ \<Rightarrow> False)"

lemma knowledge_names:
  assumes "keyed P d"
  shows "map microagent_name (concat (map (\<lambda>(n, m). case match_trigger m q of
             Some (c # t) \<Rightarrow> [PDict [(''name'', PStr (ma_name m)), (''trigger'', PStr (c # t)), (''content'', PStr (ma_content m))]]
           | _ \<Rightarrow> []) d)) = map fst (filter (\<lambda>(n, m). triggered q m) d)"
  using assms by (induction d) (auto simp: keyed_def triggered_def split: option.splits list.splits)

lemma find_knowledge_names:
  assumes "wf_memory M"
  shows "map microagent_name (find_microagent_knowledge M q) =
    (if q = [] then [] else map fst (filter (\<lambda>(n, m). triggered q m) (knowledge_microagents M)))"
  using knowledge_names[of is_triggered "knowledge_microagents M" q] assms by (simp add: find_microagent_knowledge_def wf_memory_def)

fun shown_names :: "cm_env \<Rightarrow> event list \<Rightarrow> event list \<Rightarrow> string list" where
  \<comment> \<open>the microagents that the conversation memory shows for the knowledge observations among the events\<close>
  "shown_names E earlier [] = []"
| "shown_names E earlier (e # es) =
     (if is_knowledge e then map microagent_name (enabled_agents E (filter_agents_in_microagent_obs e earlier)) else [])
     @ shown_names E (earlier @ [e]) es"

definition known :: "event list \<Rightarrow> string set" where
  "known es = {n. has_agent_in_earlier_events n es}"

lemma known_append: "known (es @ [e]) = known es \<union> (if is_a e RecallObservation then microagent_name ` set (knowledge e) else {})"
  by (auto simp: known_def has_agent_in_earlier_events_def list_ex_iff)

lemma shown_here:
  assumes "is_knowledge e"
  shows "set (map microagent_name (enabled_agents E (filter_agents_in_microagent_obs e earlier))) \<inter> known earlier = {}"
    "set (map microagent_name (enabled_agents E (filter_agents_in_microagent_obs e earlier))) \<subseteq> microagent_name ` set (knowledge e)"
    "distinct (map microagent_name (knowledge e)) \<Longrightarrow> distinct (map microagent_name (enabled_agents E (filter_agents_in_microagent_obs e earlier)))"
  using assms
  by (auto simp: enabled_agents_def filter_agents_in_microagent_obs_def is_knowledge_def known_def distinct_map_filter)

lemma shown_fresh: "set (shown_names E earlier es) \<inter> known earlier = {}"
proof (induction es arbitrary: earlier)
  case (Cons e es)
  have "known earlier \<subseteq> known (earlier @ [e])" by (auto simp: known_append)
  then show ?case using Cons.IH[of "earlier @ [e]"] shown_here(1)[of e E earlier] by auto
qed simp

lemma shown_distinct:
  "list_all (\<lambda>e. is_knowledge e \<longrightarrow> distinct (map microagent_name (knowledge e))) es \<Longrightarrow> distinct (shown_names E earlier es)"
proof (induction es arbitrary: earlier)
  case (Cons e es)
  have IH: "distinct (shown_names E (earlier @ [e]) es)" using Cons by simp
  show ?case
  proof (cases "is_knowledge e")
    case True
    have "microagent_name ` set (knowledge e) \<subseteq> known (earlier @ [e])" using True by (auto simp: known_append is_knowledge_def)
    then have "set (map microagent_name (enabled_agents E (filter_agents_in_microagent_obs e earlier))) \<inter> set (shown_names E (earlier @ [e]) es) = {}"
      using shown_here(2)[OF True, of E earlier] shown_fresh[of E "earlier @ [e]" es] by blast
    then show ?thesis using True IH shown_here(3)[OF True, of E earlier] Cons.prems by auto
  qed (use IH in simp)
qed simp

text \<open>
  Over any history whose knowledge observations the memory has made (from whatever state it was in at the time), the conversation memory
  shows the knowledge of each microagent at most once.
\<close>
theorem knowledge_is_shown_once:
  assumes "list_all (\<lambda>e. is_knowledge e \<longrightarrow> (\<exists>M q. wf_memory M \<and> knowledge e = find_microagent_knowledge M q)) events"
  shows "distinct (shown_names E [] events)"
proof (rule shown_distinct)
  have "distinct (map microagent_name (find_microagent_knowledge M q))" if "wf_memory M" for M q
    using find_knowledge_names[OF that, of q] that
    by (auto simp: wf_memory_def keyed_def intro: distinct_map_filter)
  then show "list_all (\<lambda>e. is_knowledge e \<longrightarrow> distinct (map microagent_name (knowledge e))) events"
    using assms by (auto simp: list_all_iff)
qed

definition sample_knowledge :: "nat \<Rightarrow> event" where
  "sample_knowledge n = (blank RecallObservation [(''content'', PStr []), (''recall_type'', PStr ''knowledge''),
     (''microagent_knowledge'', PList (find_microagent_knowledge sample_memory ''help with PIP''))])\<lparr>ev_id := Some (int n)\<rparr>"

theorem knowledge_is_shown_once_witness:
  "is_knowledge (sample_knowledge 0) \<and> is_knowledge (sample_knowledge 1) \<and>
   map microagent_name (knowledge (sample_knowledge 1)) = [''python''] \<and>
   (\<forall>E. distinct (shown_names E [] [sample_knowledge 0, sample_knowledge 1]))"
proof -
  have wf: "wf_memory sample_memory"
    unfolding sample_memory_def by (rule load_workspace_wf) (simp add: wf_memory_def keyed_def)
  have k: "knowledge (sample_knowledge n) = find_microagent_knowledge sample_memory ''help with PIP''" for n
    by (simp add: knowledge_def sample_knowledge_def attr_def blank_def)
  have i: "is_knowledge (sample_knowledge 0)" "is_knowledge (sample_knowledge 1)" by code_simp+
  have n: "map microagent_name (knowledge (sample_knowledge 1)) = [''python'']" by code_simp
  have "distinct (shown_names E [] [sample_knowledge 0, sample_knowledge 1])" for E
    by (rule knowledge_is_shown_once) (use wf k in auto)
  then show ?thesis using i n by blast
qed

end
