(* ===== verification/Llm_Features.thy ===== *)
theory Llm_Features
  imports OH_Prelude
begin

text \<open>
  What a model can do, by the patterns its name matches (\<^verbatim>\<open>openhands/llm/model_features.py\<close>).
  \<^verbatim>\<open>fnmatch\<close> is modelled for patterns of literal characters, \<^verbatim>\<open>*\<close> and \<^verbatim>\<open>?\<close>; the tables use no
  brackets.  File names are compared as on a POSIX system, where \<^verbatim>\<open>os.path.normcase\<close> is the identity.
\<close>

definition normalize_model_name :: "string \<Rightarrow> string" where
  "normalize_model_name model =
     (let raw = lower (strip model);
          name = (if CHR ''/'' \<in> set raw
                  then hd (split_on (CHR '':'') (last (split_on (CHR ''/'') raw)))
                  else raw)
      in removesuffix name ''-gguf'')"

fun fnmatch :: "string \<Rightarrow> string \<Rightarrow> bool" where
  \<comment> \<open>\<^verbatim>\<open>fnmatch(name, pat)\<close>, the pattern first\<close>
  "fnmatch [] s \<longleftrightarrow> s = []"
| "fnmatch (p # ps) [] \<longleftrightarrow> p = CHR ''*'' \<and> fnmatch ps []"
| "fnmatch (p # ps) (c # s) \<longleftrightarrow>
     (if p = CHR ''*'' then fnmatch ps (c # s) \<or> fnmatch (p # ps) s
      else (p = CHR ''?'' \<or> p = c) \<and> fnmatch ps s)"

definition model_matches :: "string \<Rightarrow> string list \<Rightarrow> bool" where
  "model_matches model patterns =
     (let raw = lower (strip model); name = normalize_model_name model
      in list_ex (\<lambda>pat. let p = lower pat in fnmatch p (if CHR ''/'' \<in> set p then raw else name)) patterns)"

record model_features =
  supports_function_calling :: bool
  supports_reasoning_effort :: bool
  supports_prompt_cache :: bool
  supports_stop_words :: bool

definition FUNCTION_CALLING_PATTERNS :: "string list" where
  "FUNCTION_CALLING_PATTERNS =
     [''claude-3-7-sonnet*'', ''claude-3.7-sonnet*'', ''claude-sonnet-3-7-latest'', ''claude-3-5-sonnet*'',
      ''claude-3.5-sonnet*'', ''claude-3.5-haiku*'', ''claude-3-5-haiku*'', ''claude-sonnet-4*'', ''claude-opus-4*'',
      ''gpt-4o*'', ''gpt-4.1'', ''gpt-5*'', ''o1-2024-12-17'', ''o3*'', ''o4-mini*'', ''gemini-2.5-pro*'', ''gemini-3*'',
      ''groq/*'', ''kimi-k2-0711-preview'', ''kimi-k2-instruct'', ''qwen3-coder*'', ''qwen3-coder-480b-a35b-instruct'',
      ''deepseek-chat'', ''grok-code-fast-1'']"

definition REASONING_EFFORT_PATTERNS :: "string list" where
  "REASONING_EFFORT_PATTERNS =
     [''o1-2024-12-17'', ''o1'', ''o3'', ''o3-2025-04-16'', ''o3-mini-2025-01-31'', ''o3-mini'', ''o4-mini'',
      ''o4-mini-2025-04-16'', ''gemini-2.5-flash'', ''gemini-2.5-pro'', ''gpt-5*'', ''deepseek-r1-0528*'',
      ''claude-sonnet-4-5*'', ''claude-haiku-4-5*'']"

definition PROMPT_CACHE_PATTERNS :: "string list" where
  "PROMPT_CACHE_PATTERNS =
     [''claude-3-7-sonnet*'', ''claude-3.7-sonnet*'', ''claude-sonnet-3-7-latest'', ''claude-3-5-sonnet*'',
      ''claude-3-5-haiku*'', ''claude-3.5-haiku*'', ''claude-3-haiku-20240307'', ''claude-3-opus-20240229'',
      ''claude-sonnet-4*'', ''claude-opus-4*'']"

definition SUPPORTS_STOP_WORDS_FALSE_PATTERNS :: "string list" where
  "SUPPORTS_STOP_WORDS_FALSE_PATTERNS =
     [''o1*'', ''grok-4-0709'', ''grok-code-fast-1'', ''deepseek-r1-0528*'', ''azure/gpt-5*'']"

definition get_features :: "string \<Rightarrow> model_features" where
  "get_features model =
     \<lparr>supports_function_calling = model_matches model FUNCTION_CALLING_PATTERNS,
      supports_reasoning_effort = model_matches model REASONING_EFFORT_PATTERNS,
      supports_prompt_cache = model_matches model PROMPT_CACHE_PATTERNS,
      supports_stop_words = \<not> model_matches model SUPPORTS_STOP_WORDS_FALSE_PATTERNS\<rparr>"

section \<open>Facts\<close>

definition lower_matches :: "string \<Rightarrow> string \<Rightarrow> string list \<Rightarrow> bool" where
  \<comment> \<open>matching a table of patterns without upper-case letters\<close>
  "lower_matches raw name = list_ex (\<lambda>p. fnmatch p (if CHR ''/'' \<in> set p then raw else name))"

lemma model_matches_lower:
  "map lower ps = ps \<Longrightarrow> model_matches model ps = lower_matches (lower (strip model)) (normalize_model_name model) ps"
proof -
  assume ps: "map lower ps = ps"
  have "model_matches model ps = lower_matches (lower (strip model)) (normalize_model_name model) (map lower ps)"
    by (simp add: model_matches_def lower_matches_def list_ex_iff Let_def)
  then show ?thesis by (simp add: ps)
qed

lemma patterns_are_lower:
  "map lower FUNCTION_CALLING_PATTERNS = FUNCTION_CALLING_PATTERNS" "map lower REASONING_EFFORT_PATTERNS = REASONING_EFFORT_PATTERNS"
  "map lower PROMPT_CACHE_PATTERNS = PROMPT_CACHE_PATTERNS"
  "map lower SUPPORTS_STOP_WORDS_FALSE_PATTERNS = SUPPORTS_STOP_WORDS_FALSE_PATTERNS"
  by code_simp+

lemma get_features_code [code]:
  "get_features model =
     (let raw = lower (strip model); name = normalize_model_name model in
      \<lparr>supports_function_calling = lower_matches raw name FUNCTION_CALLING_PATTERNS,
       supports_reasoning_effort = lower_matches raw name REASONING_EFFORT_PATTERNS,
       supports_prompt_cache = lower_matches raw name PROMPT_CACHE_PATTERNS,
       supports_stop_words = \<not> lower_matches raw name SUPPORTS_STOP_WORDS_FALSE_PATTERNS\<rparr>)"
  by (simp add: get_features_def model_matches_lower patterns_are_lower Let_def)

lemma fnmatch_literal: "CHR ''*'' \<notin> set p \<Longrightarrow> CHR ''?'' \<notin> set p \<Longrightarrow> fnmatch p s \<longleftrightarrow> s = p"
  by (induction p s rule: fnmatch.induct) auto

lemma fnmatch_star: "fnmatch [CHR ''*''] s"
  by (induction s) auto

lemma fnmatch_prefix:
  "CHR ''*'' \<notin> set p \<Longrightarrow> CHR ''?'' \<notin> set p \<Longrightarrow> fnmatch (p @ [CHR ''*'']) s \<longleftrightarrow> startswith s p"
  by (induction p s rule: fnmatch.induct) (auto simp: fnmatch_star startswith_def)

end
