(* ===== verification/Llm_Client.thy ===== *)
theory Llm_Client
  imports Llm_Features Fn_Call Message_Model Conversation_Stats Exceptions
begin

text \<open>
  The client of the language model (\<^verbatim>\<open>openhands/llm/llm.py\<close>) and its retry decorator
  (\<^verbatim>\<open>llm/retry_mixin.py\<close>).  The package litellm, the proxy server, the clock and the environment are the
  record \<open>litellm\<close>, over a state \<open>'w\<close> of the world that a call may change.  Arguments of a call are the
  dictionary of its keyword arguments; positional arguments, which the code turns into the messages, do not
  occur.  The log of completions, custom tokenizers and AWS credentials are left out.
\<close>

section \<open>Configuration\<close>

record llm_config =
  lc_model :: string
  lc_api_key :: "string option"
  lc_base_url :: "string option"
  lc_api_version :: "string option"
  lc_custom_llm_provider :: "string option"
  lc_aws_region_name :: "string option"
  lc_num_retries :: int
  lc_timeout :: "int option"
  lc_max_message_chars :: int
  lc_temperature :: rat
  lc_top_p :: rat
  lc_top_k :: "rat option"
  lc_max_input_tokens :: "int option"
  lc_max_output_tokens :: "int option"
  lc_input_cost :: "rat option"
  lc_output_cost :: "rat option"
  lc_drop_params :: bool
  lc_disable_vision :: bool
  lc_disable_stop_word :: bool
  lc_caching_prompt :: bool
  lc_native_tool_calling :: "bool option"
  lc_reasoning_effort :: "string option"
  lc_seed :: "int option"
  lc_safety_settings :: "data list"        \<comment> \<open>empty for None\<close>
  lc_completion_kwargs :: "data option"

record 'w litellm =
  lt_completion :: "data \<Rightarrow> 'w \<Rightarrow> 'w \<times> (exn + data)"
  lt_time :: "'w \<Rightarrow> rat"
  lt_model_info :: "string \<Rightarrow> data option"                      \<comment> \<open>\<^const>\<open>None\<close> when it raises\<close>
  lt_proxy_info :: "string \<Rightarrow> string option \<Rightarrow> (pyval option) res"  \<comment> \<open>by URL and key: the JSON value of the answer, if it is one\<close>
  lt_supports_vision :: "string \<Rightarrow> bool"
  lt_cost :: "data \<Rightarrow> string option \<Rightarrow> data \<Rightarrow> rat option"      \<comment> \<open>\<^verbatim>\<open>completion_cost\<close>; \<^const>\<open>None\<close> when it raises\<close>
  lt_message :: "data \<Rightarrow> pyval"                                \<comment> \<open>\<^verbatim>\<open>LiteLLMMessage(**d)\<close>\<close>
  lt_tokens :: "string \<Rightarrow> data list \<Rightarrow> int option"
  force_vision :: string                                             \<comment> \<open>\<^verbatim>\<open>OPENHANDS_FORCE_VISION\<close>, empty by default\<close>

record llm_obj =
  lo_config :: llm_config
  lo_metrics :: metrics
  lo_cost_supported :: bool
  lo_info :: "data option"       \<comment> \<open>\<^verbatim>\<open>model_info\<close>\<close>
  lo_native :: bool              \<comment> \<open>\<^verbatim>\<open>_function_calling_active\<close>\<close>
  lo_kwargs :: data              \<comment> \<open>the arguments bound by \<^verbatim>\<open>partial\<close>\<close>

section \<open>Model information\<close>

fun proxy_entry :: "string \<Rightarrow> pyval list \<Rightarrow> (data option) res" where
  \<comment> \<open>the information of the first entry with the name\<close>
  "proxy_entry name [] = Inr None"
| "proxy_entry name (v # vs) =
     (case item_key ''model_name'' v of
        Inl e \<Rightarrow> Inl e
      | Inr n \<Rightarrow>
          (if n \<noteq> PStr name then proxy_entry name vs
           else case item_key ''model_info'' v of
                  Inl e \<Rightarrow> Inl e | Inr (PDict d) \<Rightarrow> Inr (Some d) | Inr _ \<Rightarrow> Inl (NotModelled ''model_info'')))"

definition proxy_model_info :: "'w litellm \<Rightarrow> llm_config \<Rightarrow> (data option) res" where
  "proxy_model_info E c =
     (let url0 = (case lc_base_url c of Some u \<Rightarrow> strip u | None \<Rightarrow> []);
          url = (if startswith url0 ''http://'' \<or> startswith url0 ''https://'' then url0 else ''http://'' @ url0)
      in case lt_proxy_info E (url @ ''/v1/model/info'') (lc_api_key c) of
           Inl e \<Rightarrow> Inl e
         | Inr (Some (PDict d)) \<Rightarrow>
             (case map_of d ''data'' of
                None \<Rightarrow> Inr None
              | Some (PList vs) \<Rightarrow> proxy_entry (removeprefix (lc_model c) ''litellm_proxy/'') vs
              | Some _ \<Rightarrow> Inl (TypeError ''object is not iterable''))
         | Inr _ \<Rightarrow> Inr None)"

definition known_info :: "data option \<Rightarrow> bool" where
  \<comment> \<open>\<^verbatim>\<open>if self.model_info\<close>\<close>
  "known_info v \<longleftrightarrow> v \<noteq> None \<and> v \<noteq> Some []"

definition or_info :: "data option \<Rightarrow> data option \<Rightarrow> data option" where
  \<comment> \<open>the information, or what a further attempt finds, unless it raises\<close>
  "or_info a b = (if known_info a then a else case b of Some d \<Rightarrow> Some d | None \<Rightarrow> a)"

definition find_model_info :: "'w litellm \<Rightarrow> llm_config \<Rightarrow> (data option) res" where
  "find_model_info E c =
     (let m = lc_model c;
          i0 = (if startswith m ''openrouter'' then lt_model_info E m else None)
      in case (if startswith m ''litellm_proxy/'' then proxy_model_info E c else Inr None) of
           Inl e \<Rightarrow> Inl e
         | Inr p \<Rightarrow>
             (let i1 = (case p of Some d \<Rightarrow> Some d | None \<Rightarrow> i0);
                  i2 = or_info i1 (lt_model_info E (hd (split_on (CHR '':'') m)))
              in Inr (or_info i2 (lt_model_info E (last (split_on (CHR ''/'') m))))))"

definition info_int :: "string \<Rightarrow> data option \<Rightarrow> int option" where
  "info_int k i =
     (case i of None \<Rightarrow> None
      | Some d \<Rightarrow> (case map_of d k of Some (PInt n) \<Rightarrow> Some n | Some (PBool b) \<Rightarrow> Some (if b then 1 else 0) | _ \<Rightarrow> None))"

definition sonnet_models :: "string list" where
  "sonnet_models =
     [''claude-3-7-sonnet'', ''claude-3.7-sonnet'', ''claude-sonnet-4'', ''claude-sonnet-4-5-20250929'', ''claude-haiku-4-5-20251001'']"

definition adjust_config :: "data option \<Rightarrow> llm_config \<Rightarrow> llm_config" where
  \<comment> \<open>what \<^verbatim>\<open>init_model_info\<close> changes in the configuration\<close>
  "adjust_config info c =
     (let m = lc_model c in
      c\<lparr>lc_top_p := (if startswith m ''huggingface'' \<and> lc_top_p c = 1 then 9 / 10 else lc_top_p c),
        lc_max_input_tokens :=
          (case lc_max_input_tokens c of Some n \<Rightarrow> Some n | None \<Rightarrow> info_int ''max_input_tokens'' info),
        lc_max_output_tokens :=
          (case lc_max_output_tokens c of
             Some n \<Rightarrow> Some n
           | None \<Rightarrow>
               (if list_ex (\<lambda>s. contains s m) sonnet_models then Some 64000
                else case info_int ''max_output_tokens'' info of
                       Some n \<Rightarrow> Some n | None \<Rightarrow> info_int ''max_tokens'' info))\<rparr>)"

definition function_calling_of :: "llm_config \<Rightarrow> bool" where
  "function_calling_of c =
     (case lc_native_tool_calling c of Some b \<Rightarrow> b | None \<Rightarrow> supports_function_calling (get_features (lc_model c)))"

section \<open>The arguments of every request\<close>

definition opt_int :: "int option \<Rightarrow> pyval" where
  "opt_int v = (case v of Some i \<Rightarrow> PInt i | None \<Rightarrow> PNone)"

definition rewrite_model :: "llm_config \<Rightarrow> llm_config" where
  \<comment> \<open>models of the OpenHands provider go through its proxy\<close>
  "rewrite_model c =
     (if startswith (lc_model c) ''openhands/''
      then c\<lparr>lc_model := ''litellm_proxy/'' @ removeprefix (lc_model c) ''openhands/'',
             lc_base_url := Some ''https://llm-proxy.app.all-hands.dev/''\<rparr>
      else c)"

definition base_kwargs :: "llm_config \<Rightarrow> data" where
  "base_kwargs c =
     [(''temperature'', PFloat (lc_temperature c)), (''max_completion_tokens'', opt_int (lc_max_output_tokens c))]
     @ (case lc_top_k c of Some k \<Rightarrow> [(''top_k'', PFloat k)] | None \<Rightarrow> [])
     @ [(''top_p'', PFloat (lc_top_p c))]"

definition reasoning_kwargs :: "llm_config \<Rightarrow> data \<Rightarrow> data" where
  "reasoning_kwargs c k =
     (let m = lc_model c in
      if \<not> supports_reasoning_effort (get_features m) then k
      else dict_del ''top_p'' (dict_del ''temperature''
        (if contains ''gemini-2.5-pro'' m
         then (if lc_reasoning_effort c \<in> {None, Some ''low'', Some ''none''}
               then dict_del ''reasoning_effort'' (dict_set ''allowed_openai_params'' (PList [PStr ''thinking''])
                      (dict_set ''thinking'' (PDict [(''budget_tokens'', PInt 128)]) k))
               else dict_set ''reasoning_effort'' (opt_str (lc_reasoning_effort c)) k)
         else if contains ''claude-sonnet-4-5'' m \<or> contains ''claude-haiku-4-5-20251001'' m
         then dict_del ''reasoning_effort'' k
         else case lc_reasoning_effort c of Some e \<Rightarrow> dict_set ''reasoning_effort'' (PStr e) k | None \<Rightarrow> k)))"

definition azure_kwargs :: "llm_config \<Rightarrow> data \<Rightarrow> data" where
  "azure_kwargs c k =
     (if startswith (lc_model c) ''azure''
      then dict_del ''max_completion_tokens'' (dict_set ''max_tokens'' (opt_int (lc_max_output_tokens c)) k) else k)"

definition safety_kwargs :: "llm_config \<Rightarrow> data \<Rightarrow> data" where
  "safety_kwargs c k =
     (if (contains ''mistral'' (lower (lc_model c)) \<or> contains ''gemini'' (lower (lc_model c))) \<and> lc_safety_settings c \<noteq> []
      then dict_set ''safety_settings'' (PList (map PDict (lc_safety_settings c))) k else k)"

definition anthropic_kwargs :: "llm_config \<Rightarrow> data \<Rightarrow> data" where
  \<comment> \<open>no extended thinking for Opus 4.1, and not both temperature and top_p\<close>
  "anthropic_kwargs c k =
     (let m = lower (lc_model c);
          k1 = (if contains ''claude-opus-4-1'' m then dict_set ''thinking'' (PDict [(''type'', PStr ''disabled'')]) k else k)
      in if (contains ''claude-opus-4-1'' m \<or> contains ''claude-opus-4-5'' m \<or> contains ''claude-sonnet-4'' m)
            \<and> dict_has ''temperature'' k1 \<and> dict_has ''top_p'' k1
         then dict_del ''top_p'' k1 else k1)"

definition request_kwargs :: "llm_config \<Rightarrow> data" where
  "request_kwargs c =
     (let k = anthropic_kwargs c (dict_set ''aws_region_name'' (opt_str (lc_aws_region_name c))
                (safety_kwargs c (azure_kwargs c (reasoning_kwargs c (base_kwargs c)))))
      in case lc_completion_kwargs c of Some extra \<Rightarrow> dict_update k extra | None \<Rightarrow> k)"

definition fixed_kwargs :: "llm_config \<Rightarrow> data" where
  "fixed_kwargs c =
     [(''model'', PStr (lc_model c)), (''api_key'', opt_str (lc_api_key c)), (''base_url'', opt_str (lc_base_url c)),
      (''api_version'', opt_str (lc_api_version c)), (''custom_llm_provider'', opt_str (lc_custom_llm_provider c)),
      (''timeout'', opt_int (lc_timeout c)), (''drop_params'', PBool (lc_drop_params c)), (''seed'', opt_int (lc_seed c))]"

definition llm_init :: "'w litellm \<Rightarrow> llm_config \<Rightarrow> metrics option \<Rightarrow> llm_obj res" where
  \<comment> \<open>an argument given twice is a \<^verbatim>\<open>TypeError\<close> of the call of \<^verbatim>\<open>partial\<close>\<close>
  "llm_init E c0 ms =
     (case find_model_info E c0 of
        Inl e \<Rightarrow> Inl e
      | Inr info \<Rightarrow>
          (let c1 = adjust_config info c0; c = rewrite_model c1; k = request_kwargs c
           in if list_ex (\<lambda>p. dict_has (fst p) k) (fixed_kwargs c)
              then Inl (TypeError ''got multiple values for keyword argument'')
              else Inr \<lparr>lo_config = c, lo_metrics = (case ms of Some x \<Rightarrow> x | None \<Rightarrow> metrics_init (lc_model c0)),
                        lo_cost_supported = True, lo_info = info, lo_native = function_calling_of c1,
                        lo_kwargs = fixed_kwargs c @ k\<rparr>))"

section \<open>Features\<close>

definition supports_vision :: "'w litellm \<Rightarrow> llm_obj \<Rightarrow> bool" where
  "supports_vision E L \<longleftrightarrow>
     lower (force_vision E) \<in> {''1'', ''true'', ''yes'', ''on''}
     \<or> lt_supports_vision E (lc_model (lo_config L))
     \<or> lt_supports_vision E (last (split_on (CHR ''/'') (lc_model (lo_config L))))
     \<or> (case lo_info L of Some d \<Rightarrow> truthy (map_of d ''supports_vision'') | None \<Rightarrow> False)"

definition llm_vision_is_active :: "'w litellm \<Rightarrow> llm_obj \<Rightarrow> bool" where
  "llm_vision_is_active E L \<longleftrightarrow> \<not> lc_disable_vision (lo_config L) \<and> supports_vision E L"

definition is_caching_prompt_active :: "llm_obj \<Rightarrow> bool" where
  "is_caching_prompt_active L \<longleftrightarrow>
     lc_caching_prompt (lo_config L) \<and> supports_prompt_cache (get_features (lc_model (lo_config L)))"

definition is_function_calling_active :: "llm_obj \<Rightarrow> bool" where
  "is_function_calling_active L = lo_native L"

definition flags_of :: "'w litellm \<Rightarrow> llm_obj \<Rightarrow> llm_flags" where
  "flags_of E L =
     \<lparr>caching_prompt_active = is_caching_prompt_active L, vision_active = llm_vision_is_active E L,
      function_calling_active = is_function_calling_active L, llm_model = lc_model (lo_config L)\<rparr>"

definition is_local :: "llm_obj \<Rightarrow> bool" where
  "is_local L =
     (case lc_base_url (lo_config L) of
        Some u \<Rightarrow> list_ex (\<lambda>s. contains s u) [''localhost'', ''127.0.0.1'', ''0.0.0.0'']
      | None \<Rightarrow> startswith (lc_model (lo_config L)) ''ollama'')"

section \<open>Costs and usage\<close>

definition custom_cost :: "llm_config \<Rightarrow> data" where
  "custom_cost c =
     (case (lc_input_cost c, lc_output_cost c) of
        (Some i, Some ou) \<Rightarrow> [(''custom_cost_per_token'',
           PDict [(''input_cost_per_token'', PFloat i), (''output_cost_per_token'', PFloat ou)])]
      | _ \<Rightarrow> [])"

definition header_cost :: "data \<Rightarrow> (rat option) res" where
  \<comment> \<open>the cost that the proxy reports in the headers\<close>
  "header_cost resp =
     (case map_of resp ''_hidden_params'' of
        None \<Rightarrow> Inr None
      | Some (PDict h) \<Rightarrow>
          (case map_of h ''additional_headers'' of
             None \<Rightarrow> Inr None
           | Some (PDict a) \<Rightarrow>
               (case map_of a ''llm_provider-x-litellm-response-cost'' of
                  None \<Rightarrow> Inr None
                | Some v \<Rightarrow> (if v = PNone then Inr None
                             else case py_float v of Inl e \<Rightarrow> Inl e | Inr r \<Rightarrow> Inr (Some r)))
           | Some _ \<Rightarrow> Inl (AttributeError ''get''))
      | Some _ \<Rightarrow> Inl (AttributeError ''get''))"

definition cost_of :: "'w litellm \<Rightarrow> llm_config \<Rightarrow> data \<Rightarrow> rat option \<Rightarrow> rat option" where
  \<comment> \<open>the reported cost, or what litellm computes, in the end for the name without provider\<close>
  "cost_of E c resp reported =
     (case reported of
        Some r \<Rightarrow> Some r
      | None \<Rightarrow>
          (case lt_cost E resp None (custom_cost c) of
             Some r \<Rightarrow> Some r
           | None \<Rightarrow> lt_cost E resp (Some (join ''/'' (tl (split_on (CHR ''/'') (lc_model c))))) (custom_cost c)))"

definition completion_cost :: "'w litellm \<Rightarrow> rat \<Rightarrow> data \<Rightarrow> llm_obj \<Rightarrow> llm_obj \<times> rat res" where
  "completion_cost E now resp L =
     (if \<not> lo_cost_supported L then (L, Inr 0)
      else case header_cost resp of
             Inl e \<Rightarrow> (L, Inl e)
           | Inr h \<Rightarrow>
               (case cost_of E (lo_config L) resp h of
                  None \<Rightarrow> (L\<lparr>lo_cost_supported := False\<rparr>, Inr 0)
                | Some r \<Rightarrow>
                    (case add_cost now r (lo_metrics L) of
                       Inl _ \<Rightarrow> (L\<lparr>lo_cost_supported := False\<rparr>, Inr 0)
                     | Inr ms \<Rightarrow> (L\<lparr>lo_metrics := ms\<rparr>, Inr r))))"

definition count_of :: "string \<Rightarrow> data \<Rightarrow> int res" where
  \<comment> \<open>\<^verbatim>\<open>d.get(k, 0)\<close>, which the metrics require to be an integer\<close>
  "count_of k d =
     (case map_of d k of None \<Rightarrow> Inr 0 | Some (PInt i) \<Rightarrow> Inr i | Some _ \<Rightarrow> Inl (ValueError ''validation error for TokenUsage''))"

definition cache_hit_tokens :: "data \<Rightarrow> int res" where
  "cache_hit_tokens usage =
     (case map_of usage ''prompt_tokens_details'' of
        Some (PDict x) \<Rightarrow>
          (case map_of x ''cached_tokens'' of
             None \<Rightarrow> Inl (AttributeError ''cached_tokens'') | Some PNone \<Rightarrow> Inr 0 | Some _ \<Rightarrow> count_of ''cached_tokens'' x)
      | _ \<Rightarrow> Inr 0)"

definition cache_write_count :: "data \<Rightarrow> int res" where
  "cache_write_count usage =
     (case map_of usage ''model_extra'' of
        None \<Rightarrow> Inr 0 | Some (PDict x) \<Rightarrow> count_of ''cache_creation_input_tokens'' x | Some _ \<Rightarrow> Inl (AttributeError ''get''))"

definition window_of :: "llm_obj \<Rightarrow> int res" where
  "window_of L =
     (case lo_info L of Some d \<Rightarrow> count_of ''max_input_tokens'' d | None \<Rightarrow> Inr 0)"

definition response_id_of :: "data \<Rightarrow> string" where
  \<comment> \<open>\<^verbatim>\<open>response.get('id', 'unknown')\<close>\<close>
  "response_id_of resp = (case map_of resp ''id'' of Some (PStr s) \<Rightarrow> s | _ \<Rightarrow> ''unknown'')"

definition record_usage :: "data \<Rightarrow> llm_obj \<Rightarrow> llm_obj res" where
  "record_usage resp L =
     (case map_of resp ''usage'' of
        Some (PDict (x # u)) \<Rightarrow>
          (case (count_of ''prompt_tokens'' (x # u), count_of ''completion_tokens'' (x # u), cache_hit_tokens (x # u),
                 cache_write_count (x # u), window_of L) of
             (Inr p, Inr c, Inr hit, Inr wr, Inr win) \<Rightarrow>
               Inr (L\<lparr>lo_metrics := add_token_usage p c hit wr win (response_id_of resp) (lo_metrics L)\<rparr>)
           | (_, _, Inl e, _, _) \<Rightarrow> Inl e
           | (_, _, _, Inl e, _) \<Rightarrow> Inl e
           | (Inl e, _, _, _, _) \<Rightarrow> Inl e
           | (_, Inl e, _, _, _) \<Rightarrow> Inl e
           | (_, _, _, _, Inl e) \<Rightarrow> Inl e)
      | _ \<Rightarrow> Inr L)"

definition post_completion :: "'w litellm \<Rightarrow> rat \<Rightarrow> data \<Rightarrow> llm_obj \<Rightarrow> llm_obj \<times> rat res" where
  "post_completion E now resp L =
     (case completion_cost E now resp L of
        (L1, r) \<Rightarrow>
          (let cost = (case r of Inl _ \<Rightarrow> 0 | Inr c \<Rightarrow> c)
           in case record_usage resp L1 of Inl e \<Rightarrow> (L1, Inl e) | Inr L2 \<Rightarrow> (L2, Inr cost)))"

section \<open>One attempt\<close>

datatype request_messages = Messages "msg list" | Dicts "data list"

definition STOP_WORDS :: "string list" where "STOP_WORDS = [''</function'']"

fun dicts_in :: "pyval list \<Rightarrow> (data list) res" where
  "dicts_in [] = Inr []"
| "dicts_in (v # vs) =
     (case v of
        PDict d \<Rightarrow> (case dicts_in vs of Inl e \<Rightarrow> Inl e | Inr ds \<Rightarrow> Inr (d # ds))
      | _ \<Rightarrow> Inl (TypeError ''not a dictionary''))"

definition tools_of :: "data \<Rightarrow> ((data list) option) res" where
  "tools_of kw =
     (case map_of kw ''tools'' of
        None \<Rightarrow> Inr None
      | Some (PList vs) \<Rightarrow> (case dicts_in vs of Inl e \<Rightarrow> Inl e | Inr ts \<Rightarrow> Inr (Some ts))
      | Some _ \<Rightarrow> Inl (TypeError ''tools''))"

definition in_context_example :: "string \<Rightarrow> bool" where
  "in_context_example model \<longleftrightarrow> \<not> (contains ''openhands-lm'' model \<or> contains ''devstral'' model)"

definition mock_kwargs :: "llm_config \<Rightarrow> data \<Rightarrow> data" where
  \<comment> \<open>the arguments when function calling is mocked: stop words instead of tools\<close>
  "mock_kwargs c kw =
     (let k1 = (if supports_stop_words (get_features (lc_model c)) \<and> \<not> lc_disable_stop_word c
                then dict_set ''stop'' (PList (map PStr STOP_WORDS)) kw else kw);
          k2 = dict_del ''tools'' k1
      in if contains ''openhands-lm'' (lc_model c) then dict_set ''tool_choice'' (PStr ''none'') k2
         else dict_del ''tool_choice'' k2)"

definition prepare_request ::
  "'w litellm \<Rightarrow> fn_env \<Rightarrow> llm_obj \<Rightarrow> request_messages \<Rightarrow> data \<Rightarrow> (data list \<times> data \<times> (data list) option) res" where
  \<comment> \<open>the messages, the other arguments, and the tools when function calling is mocked\<close>
  "prepare_request E T L ms kw =
     (case (case ms of Messages xs \<Rightarrow> format_messages_for_llm (flags_of E L) xs | Dicts ds \<Rightarrow> Inr ds) of
        Inl e \<Rightarrow> Inl e
      | Inr ds \<Rightarrow>
          (case (if is_function_calling_active L then Inr None else tools_of kw) of
             Inl e \<Rightarrow> Inl e
           | Inr None \<Rightarrow> Inr (ds, kw, None)
           | Inr (Some tools) \<Rightarrow>
               (case convert_fncall_messages_to_non_fncall_messages T ds tools (in_context_example (lc_model (lo_config L))) of
                  Inl e \<Rightarrow> Inl e
                | Inr ds' \<Rightarrow> Inr (ds', mock_kwargs (lo_config L) kw, Some tools))))"

definition full_request :: "llm_obj \<Rightarrow> data list \<Rightarrow> data \<Rightarrow> data" where
  \<comment> \<open>the arguments of the call of litellm\<close>
  "full_request L ds kw =
     dict_update (lo_kwargs L)
       (dict_set ''messages'' (PList (map PDict ds))
          (if contains ''litellm_proxy'' (lc_model (lo_config L)) then kw else dict_del ''extra_body'' kw))"

definition no_choices :: exn where
  "no_choices = mk_exn ''LLMNoResponseError'' ''Response choices is less than 1''"

definition calls_function :: "data \<Rightarrow> bool" where
  \<comment> \<open>whether reading the message finds a call; otherwise the reader returns the object itself\<close>
  "calls_function d =
     (case edit_last_text fix_stopword (or_empty (case map_of d ''content'' of Some v \<Rightarrow> v | None \<Rightarrow> PNone)) of
        Inl _ \<Rightarrow> False
      | Inr b \<Rightarrow> (case last_call b of Inr (Some _) \<Rightarrow> True | _ \<Rightarrow> False))"

definition read_mocked :: "'w litellm \<Rightarrow> fn_env \<Rightarrow> data list \<Rightarrow> data list \<Rightarrow> data \<Rightarrow> exn + data" where
  \<comment> \<open>the response with the call that its first message writes as text\<close>
  "read_mocked E T ds tools resp =
     (case map_of resp ''choices'' of
        Some (PList (PDict c # cs)) \<Rightarrow>
          (case map_of c ''message'' of
             Some (PDict m) \<Rightarrow>
               (case convert_non_fncall_messages_to_fncall_messages T (ds @ [m]) tools of
                  Inl e \<Rightarrow> Inl (exn_of e)
                | Inr out \<Rightarrow>
                    (let m' = (if calls_function m then lt_message E (last out) else PDict (last out))
                     in Inr (dict_set ''choices'' (PList (PDict (dict_set ''message'' m' c) # cs)) resp)))
           | _ \<Rightarrow> Inl (exn_of (AttributeError ''message'')))
      | Some (PList []) \<Rightarrow> Inl no_choices
      | _ \<Rightarrow> Inl (exn_of (AttributeError ''choices'')))"

definition has_choices :: "data \<Rightarrow> bool" where
  "has_choices resp \<longleftrightarrow> truthy (map_of resp ''choices'')"

definition attempt ::
  "'w litellm \<Rightarrow> fn_env \<Rightarrow> request_messages \<Rightarrow> data \<Rightarrow> llm_obj \<times> 'w \<Rightarrow> (llm_obj \<times> 'w) \<times> (exn + data)" where
  \<comment> \<open>\<^verbatim>\<open>wrapper\<close>\<close>
  "attempt E T ms kw s =
     (case s of (L, w) \<Rightarrow>
       case prepare_request E T L ms kw of
         Inl e \<Rightarrow> ((L, w), Inl (exn_of e))
       | Inr (ds, kw', mocked) \<Rightarrow>
           (if ds = [] then ((L, w), Inl (exn_of (ValueError ''The messages list is empty. At least one message is required.'')))
            else case lt_completion E (full_request L ds kw') w of
                   (w', Inl e) \<Rightarrow> ((L, w'), Inl e)
                 | (w', Inr resp) \<Rightarrow>
                     (let L1 = L\<lparr>lo_metrics := add_response_latency (lt_time E w' - lt_time E w) (response_id_of resp) (lo_metrics L)\<rparr>
                      in case (case mocked of None \<Rightarrow> Inr resp | Some tools \<Rightarrow> read_mocked E T ds tools resp) of
                           Inl e \<Rightarrow> ((L1, w'), Inl e)
                         | Inr resp' \<Rightarrow>
                             (if \<not> has_choices resp' then ((L1, w'), Inl no_choices)
                              else case post_completion E (lt_time E w') resp' L1 of
                                     (L2, Inl e) \<Rightarrow> ((L2, w'), Inl (exn_of e))
                                   | (L2, Inr _) \<Rightarrow> ((L2, w'), Inr resp')))))"

section \<open>Retries\<close>

definition LLM_RETRY_EXCEPTIONS :: "string list" where
  "LLM_RETRY_EXCEPTIONS =
     [''APIConnectionError'', ''RateLimitError'', ''ServiceUnavailableError'', ''BadGatewayError'', ''Timeout'',
      ''InternalServerError'', ''LLMNoResponseError'']"

definition retryable :: "exn \<Rightarrow> bool" where
  "retryable e = list_ex (isinstance_exn e) LLM_RETRY_EXCEPTIONS"

definition log_retry_attempt :: "int \<Rightarrow> int \<Rightarrow> exn \<Rightarrow> exn" where
  \<comment> \<open>the attempt and the maximum are noted on the exception\<close>
  "log_retry_attempt n max_attempts e = e\<lparr>exn_retry := Some (n, max_attempts)\<rparr>"

definition before_sleep :: "exn \<Rightarrow> data \<Rightarrow> data" where
  \<comment> \<open>what changes in the arguments of the next attempt\<close>
  "before_sleep e kw =
     (if isinstance_exn e ''LLMNoResponseError'' \<and>
         (case map_of kw ''temperature'' of None \<Rightarrow> True | Some v \<Rightarrow> v = PInt 0 \<or> v = PFloat 0)
      then dict_set ''temperature'' (PFloat 1) kw else kw)"

type_synonym ('s, 'a) retrier =
  "int \<Rightarrow> (exn \<Rightarrow> bool) \<Rightarrow> (int \<Rightarrow> exn \<Rightarrow> data \<Rightarrow> data) \<Rightarrow> (data \<Rightarrow> 's \<Rightarrow> 's \<times> (exn + 'a)) \<Rightarrow> int \<Rightarrow> data \<Rightarrow> 's \<Rightarrow> 's \<times> (exn + 'a)"

definition completion ::
  "(llm_obj \<times> 'w, data) retrier \<Rightarrow> 'w litellm \<Rightarrow> fn_env \<Rightarrow> request_messages \<Rightarrow> data \<Rightarrow> llm_obj \<times> 'w \<Rightarrow> (llm_obj \<times> 'w) \<times> (exn + data)" where
  \<comment> \<open>\<^verbatim>\<open>self.retry_decorator(...)\<close> around the attempt; the decorator of the package tenacity is a parameter\<close>
  "completion retry E T ms kw s =
     retry (lc_num_retries (lo_config (fst s))) retryable (\<lambda>_. before_sleep) (attempt E T ms) 1 kw s"

definition get_token_count :: "'w litellm \<Rightarrow> llm_obj \<Rightarrow> request_messages \<Rightarrow> int res" where
  "get_token_count E L ms =
     (case (case ms of Messages xs \<Rightarrow> format_messages_for_llm (flags_of E L) xs | Dicts ds \<Rightarrow> Inr ds) of
        Inl e \<Rightarrow> Inl e
      | Inr ds \<Rightarrow> Inr (case lt_tokens E (lc_model (lo_config L)) ds of Some n \<Rightarrow> n | None \<Rightarrow> 0))"

section \<open>The metrics of the conversation\<close>

definition with_metrics :: "string \<Rightarrow> conv_stats \<Rightarrow> llm_obj \<Rightarrow> llm_obj" where
  \<comment> \<open>the metrics object of the client is the one registered for its service\<close>
  "with_metrics service cs L = (case map_of (service_to_metrics cs) service of Some m \<Rightarrow> L\<lparr>lo_metrics := m\<rparr> | None \<Rightarrow> L)"

definition keep_metrics :: "string \<Rightarrow> llm_obj \<Rightarrow> conv_stats \<Rightarrow> conv_stats" where
  "keep_metrics service L cs =
     (if dict_has service (service_to_metrics cs)
      then cs\<lparr>service_to_metrics := dict_set service (lo_metrics L) (service_to_metrics cs)\<rparr> else cs)"

end
