(* ===== verification/Llm_Properties.thy ===== *)
theory Llm_Properties
  imports Llm_Client Fn_Call_Properties
begin

text \<open>
  Properties of the language model client: how often a completion asks the model, what it accounts for, what the requests
  hold, and how a call that a model without function calling writes is read.
\<close>

section \<open>Retries\<close>

text \<open>
  What the code relies on of the decorator of the package tenacity, with \<^verbatim>\<open>stop_after_attempt(n)\<close> and \<^verbatim>\<open>reraise=True\<close>,
  as long as the process is not asked to exit: an attempt that fails with an exception to retry on is followed by another one until the
  maximum is reached, after \<^verbatim>\<open>before_sleep\<close>; the last outcome is the outcome of the call.
\<close>
definition tenacity :: "('s, 'a) retrier \<Rightarrow> bool" where
  "tenacity retry \<longleftrightarrow>
     (\<forall>n P b f k kw s. retry n P b f k kw s =
        (case f kw s of
           (s', Inr x) \<Rightarrow> (s', Inr x)
         | (s', Inl e) \<Rightarrow> (if P e \<and> k < n then retry n P b f (k + 1) (b k e kw) s' else (s', Inl e))))"

function retry_loop :: "('s, 'a) retrier" where
  "retry_loop n P b f k kw s =
     (case f kw s of
        (s', Inr x) \<Rightarrow> (s', Inr x)
      | (s', Inl e) \<Rightarrow> (if P e \<and> k < n then retry_loop n P b f (k + 1) (b k e kw) s' else (s', Inl e)))"
  by pat_completeness auto
termination
  by (relation "measure (\<lambda>(n, P, b, f, k, kw, s). nat (n - k))") auto

declare retry_loop.simps [simp del]

lemma tenacity_retry_loop: "tenacity retry_loop"
  unfolding tenacity_def by (intro allI, subst retry_loop.simps, rule refl)

section \<open>An example\<close>

definition sample_reply :: data where
  "sample_reply =
     [(''id'', PStr ''r1''),
      (''choices'', PList [PDict [(''message'', PDict [(''role'', PStr ''assistant''), (''content'', PStr ''Done.'')])]]),
      (''usage'', PDict [(''prompt_tokens'', PInt 10), (''completion_tokens'', PInt 5)])]"

definition flaky :: "nat litellm" where
  \<comment> \<open>a provider that refuses the first request and answers the others, over the number of requests\<close>
  "flaky =
     \<lparr>lt_completion = (\<lambda>_ w. (w + 1, if w = 0 then Inl (mk_exn ''RateLimitError'' ''slow down'') else Inr sample_reply)),
      lt_time = of_nat, lt_model_info = (\<lambda>_. None), lt_proxy_info = (\<lambda>_ _. Inr None), lt_supports_vision = (\<lambda>_. False),
      lt_cost = (\<lambda>_ _ _. Some 2), lt_message = PDict, lt_tokens = (\<lambda>_ _. None), force_vision = []\<rparr>"

definition sample_config :: "string \<Rightarrow> llm_config" where
  "sample_config model =
     \<lparr>lc_model = model, lc_api_key = None, lc_base_url = None, lc_api_version = None, lc_custom_llm_provider = None,
      lc_aws_region_name = None, lc_num_retries = 5, lc_timeout = None, lc_max_message_chars = 30000, lc_temperature = 0,
      lc_top_p = 1, lc_top_k = None, lc_max_input_tokens = None, lc_max_output_tokens = None, lc_input_cost = None,
      lc_output_cost = None, lc_drop_params = True, lc_disable_vision = False, lc_disable_stop_word = False,
      lc_caching_prompt = True, lc_native_tool_calling = None, lc_reasoning_effort = None, lc_seed = None,
      lc_safety_settings = [], lc_completion_kwargs = None\<rparr>"

definition mock_llm :: llm_obj where
  \<comment> \<open>the client of a model without function calling\<close>
  "mock_llm =
     \<lparr>lo_config = sample_config ''local'', lo_metrics = metrics_init ''local'', lo_cost_supported = True,
      lo_info = None, lo_native = False, lo_kwargs = fixed_kwargs (sample_config ''local'') @ request_kwargs (sample_config ''local'')\<rparr>"

definition hello_request :: request_messages where
  "hello_request = Dicts [message_of ''user'' (PStr ''Hello'')]"

definition fetch_tools :: "data list" where
  \<comment> \<open>a tool of an MCP server\<close>
  "fetch_tools =
     [[(''type'', PStr ''function''), (''function'', PDict
         [(''name'', PStr ''fetch''), (''description'', PStr ''Fetch a page''),
          (''parameters'', PDict
             [(''type'', PStr ''object''), (''properties'', PDict [(''url'', PDict [(''type'', PStr ''string'')])]),
              (''required'', PList [PStr ''url''])])])]]"

section \<open>Attempts\<close>

inductive tries ::
  "(data \<Rightarrow> 's \<Rightarrow> 's \<times> (exn + 'a)) \<Rightarrow> nat \<Rightarrow> data \<Rightarrow> 's \<Rightarrow> 's \<times> (exn + 'a) \<Rightarrow> bool"
  for f where
  last_try: "f kw s = r \<Longrightarrow> tries f 1 kw s r"
| next_try: "f kw s = (s', Inl e) \<Longrightarrow> retryable e \<Longrightarrow> tries f m (before_sleep e kw) s' r \<Longrightarrow> tries f (Suc m) kw s r"

lemma tenacity_tries:
  assumes "tenacity retry"
  shows "\<exists>m. tries f m kw s (retry n retryable (\<lambda>_. before_sleep) f k kw s) \<and> int m \<le> max 1 (n - k + 1) \<and>
    (\<forall>e. snd (retry n retryable (\<lambda>_. before_sleep) f k kw s) = Inl e \<longrightarrow> retryable e \<longrightarrow> int m = max 1 (n - k + 1))"
proof (induction "nat (n - k)" arbitrary: k kw s rule: less_induct)
  case less
  let ?run = "\<lambda>k kw s. retry n retryable (\<lambda>_. before_sleep) f k kw s"
  have step: "?run k kw s = (case f kw s of (s', Inr x) \<Rightarrow> (s', Inr x)
      | (s', Inl e) \<Rightarrow> (if retryable e \<and> k < n then ?run (k + 1) (before_sleep e kw) s' else (s', Inl e)))"
    using assms unfolding tenacity_def by blast
  obtain s' r where f: "f kw s = (s', r)" by (cases "f kw s")
  show ?case
  proof (cases "\<exists>e. r = Inl e \<and> retryable e \<and> k < n")
    case True
    then obtain e where e: "r = Inl e" "retryable e" "k < n" by blast
    then have run: "?run k kw s = ?run (k + 1) (before_sleep e kw) s'" by (simp add: step f)
    from less[of "k + 1" "before_sleep e kw" s'] e(3)
    obtain m where m: "tries f m (before_sleep e kw) s' (?run (k + 1) (before_sleep e kw) s')"
      "int m \<le> max 1 (n - (k + 1) + 1)"
      "\<forall>e'. snd (?run (k + 1) (before_sleep e kw) s') = Inl e' \<longrightarrow> retryable e' \<longrightarrow> int m = max 1 (n - (k + 1) + 1)" by auto
    have "tries f (Suc m) kw s (?run k kw s)" using f e(1,2) m(1) unfolding run by (intro next_try) simp_all
    then show ?thesis using m(2,3) e(3) unfolding run by (intro exI[of _ "Suc m"]) auto
  next
    case False
    then have run: "?run k kw s = (s', r)" by (auto simp: step f split: sum.splits)
    have "tries f 1 kw s (?run k kw s)" unfolding run by (rule last_try) (rule f)
    then show ?thesis using False unfolding run by (intro exI[of _ 1]) auto
  qed
qed

lemma tries_pos: "tries f m kw s r \<Longrightarrow> 1 \<le> m"
  by (induction rule: tries.induct) auto



section \<open>Accounting\<close>

definition charge :: "'w litellm \<Rightarrow> data \<Rightarrow> llm_obj \<Rightarrow> rat option" where
  \<comment> \<open>the cost of a response, when one is reported or computed\<close>
  "charge E resp L =
     (if \<not> lo_cost_supported L then None
      else case header_cost resp of
             Inl _ \<Rightarrow> None
           | Inr h \<Rightarrow> (case cost_of E (lo_config L) resp h of Some r \<Rightarrow> (if r < 0 then None else Some r) | None \<Rightarrow> None))"

definition usage_entries :: "data \<Rightarrow> llm_obj \<Rightarrow> token_usage list" where
  \<comment> \<open>the token usage that a response reports\<close>
  "usage_entries resp L =
     (case map_of resp ''usage'' of
        Some (PDict (x # u)) \<Rightarrow>
          (case (count_of ''prompt_tokens'' (x # u), count_of ''completion_tokens'' (x # u), cache_hit_tokens (x # u),
                 cache_write_count (x # u), window_of L) of
             (Inr p, Inr c, Inr hit, Inr wr, Inr win) \<Rightarrow>
               [\<lparr>tu_model = model_name (lo_metrics L), prompt_tokens = p, completion_tokens = c, cache_read_tokens = hit,
                 cache_write_tokens = wr, context_window = win, per_turn_token = p + c, tu_response_id = response_id_of resp\<rparr>]
           | _ \<Rightarrow> [])
      | _ \<Rightarrow> [])"

definition billed :: "'w litellm \<Rightarrow> data \<Rightarrow> llm_obj \<Rightarrow> llm_obj \<Rightarrow> bool" where
  \<comment> \<open>the costs and the usage of the client afterwards hold those of the response and nothing else\<close>
  "billed E resp L L' \<longleftrightarrow>
     map cost_cost (costs (lo_metrics L')) = map cost_cost (costs (lo_metrics L)) @ (case charge E resp L of Some r \<Rightarrow> [r] | None \<Rightarrow> []) \<and>
     accumulated_cost (lo_metrics L') = accumulated_cost (lo_metrics L) + (case charge E resp L of Some r \<Rightarrow> r | None \<Rightarrow> 0) \<and>
     token_usages (lo_metrics L') = token_usages (lo_metrics L) @ usage_entries resp L"

definition same_bill :: "llm_obj \<Rightarrow> llm_obj \<Rightarrow> bool" where
  \<comment> \<open>the clients differ in their latencies at most\<close>
  "same_bill L L' \<longleftrightarrow> (\<exists>l. L' = L\<lparr>lo_metrics := (lo_metrics L)\<lparr>response_latencies := l\<rparr>\<rparr>)"

lemma usage_entries_cong:
  assumes "lo_info L' = lo_info L" "model_name (lo_metrics L') = model_name (lo_metrics L)"
  shows "usage_entries resp L' = usage_entries resp L"
  unfolding usage_entries_def window_of_def assms by (rule refl)

lemma charge_cong:
  assumes "lo_config L' = lo_config L" "lo_cost_supported L' = lo_cost_supported L"
  shows "charge E resp L' = charge E resp L"
  unfolding charge_def assms by (rule refl)

lemma same_bill_refl: "same_bill L L"
  by (auto simp: same_bill_def intro!: exI[of _ "response_latencies (lo_metrics L)"])

lemma same_bill_trans: "same_bill L L' \<Longrightarrow> same_bill L' L'' \<Longrightarrow> same_bill L L''"
  by (auto simp: same_bill_def)

lemma same_bill_billed: "same_bill L L' \<Longrightarrow> billed E resp L' L'' \<Longrightarrow> billed E resp L L''"
  using usage_entries_cong[of L' L resp] charge_cong[of L' L E resp] by (auto simp: same_bill_def billed_def)

lemma exn_of_not_retryable [simp]: "\<not> retryable (exn_of e)"
  by (cases e) (simp_all add: retryable_def LLM_RETRY_EXCEPTIONS_def isinstance_exn_def mk_exn_def)

lemma record_usage_entries:
  "record_usage resp L = Inr L' \<Longrightarrow>
   token_usages (lo_metrics L') = token_usages (lo_metrics L) @ usage_entries resp L \<and>
   costs (lo_metrics L') = costs (lo_metrics L) \<and> accumulated_cost (lo_metrics L') = accumulated_cost (lo_metrics L)"
  by (auto simp: record_usage_def usage_entries_def add_token_usage_def Let_def split: option.splits pyval.splits list.splits sum.splits)

lemma completion_cost_charge:
  assumes "completion_cost E now resp L = (L', r)"
  shows "map cost_cost (costs (lo_metrics L')) = map cost_cost (costs (lo_metrics L)) @ (case charge E resp L of Some r \<Rightarrow> [r] | None \<Rightarrow> []) \<and>
    accumulated_cost (lo_metrics L') = accumulated_cost (lo_metrics L) + (case charge E resp L of Some r \<Rightarrow> r | None \<Rightarrow> 0) \<and>
    token_usages (lo_metrics L') = token_usages (lo_metrics L) \<and> usage_entries resp L' = usage_entries resp L"
  using assms usage_entries_cong[of L' L resp]
  by (auto simp: completion_cost_def charge_def add_cost_def split: if_splits sum.splits option.splits)

lemma post_completion_billed:
  assumes "post_completion E now resp L = (L', Inr c)"
  shows "billed E resp L L'"
proof -
  obtain L1 r where 1: "completion_cost E now resp L = (L1, r)" by (cases "completion_cost E now resp L")
  have 2: "record_usage resp L1 = Inr L'"
    using assms by (auto simp: post_completion_def 1 Let_def split: sum.splits)
  show ?thesis using completion_cost_charge[OF 1] record_usage_entries[OF 2] by (simp add: billed_def)
qed

lemma latency_same_bill: "same_bill L (L\<lparr>lo_metrics := add_response_latency v i (lo_metrics L)\<rparr>)"
  by (auto simp: same_bill_def add_response_latency_def)

lemma attempt_success:
  assumes "attempt E T ms kw (L, w) = ((L', w'), Inr resp)"
  shows "billed E resp L L'"
  using assms same_bill_billed[OF latency_same_bill post_completion_billed]
  by (auto simp: attempt_def Let_def split: sum.splits prod.splits if_splits option.splits)

lemma attempt_again:
  assumes "attempt E T ms kw (L, w) = ((L', w'), Inl e)" "retryable e"
  shows "same_bill L L'"
  using assms
  by (auto simp: attempt_def Let_def same_bill_refl latency_same_bill split: sum.splits prod.splits if_splits option.splits)

lemma tries_billed:
  assumes "tries f m kw s r" "f = attempt E T ms" "snd r = Inr resp"
  shows "billed E resp (fst s) (fst (fst r))"
  using assms
proof (induction rule: tries.induct)
  case (last_try kw s r)
  obtain L w L' w' where "s = (L, w)" "r = ((L', w'), Inr resp)" using last_try(3) by (cases s; cases r) auto
  then show ?case using last_try attempt_success[of E T ms kw L w L' w' resp] by simp
next
  case (next_try kw s s' e m r)
  obtain L w L' w' where s: "s = (L, w)" "s' = (L', w')" by (cases s; cases s')
  have "same_bill L L'" using attempt_again[of E T ms kw L w L' w' e] next_try s by simp
  then show ?case using same_bill_billed[of L L' E resp] next_try s by simp
qed

lemma completion_billed:
  assumes "tenacity retry" "completion retry E T ms kw (L, w) = ((L', w'), Inr resp)"
  shows "billed E resp L L'"
proof -
  obtain m where "tries (attempt E T ms) m kw (L, w) (completion retry E T ms kw (L, w))"
    using tenacity_tries[OF assms(1), of "attempt E T ms" kw "(L, w)" _ 1] unfolding completion_def by blast
  then show ?thesis using tries_billed[OF _ refl, of E T ms m kw "(L, w)" "((L', w'), Inr resp)" resp] assms(2) by simp
qed

text \<open>
  A completion that returns a response charges it once, however many attempts it took: the costs grow by the cost of this response, if it has one, and the
  token usage by the tokens it reports, under its identifier; failed attempts cost nothing.
\<close>
theorem completions_are_billed_once:
  assumes "tenacity retry" "completion retry E T ms kw (L, w) = ((L', w'), Inr resp)"
  shows "billed E resp L L'"
  by (rule completion_billed[OF assms])

theorem completions_are_billed_once_witness:
  "\<exists>L' resp. completion retry_loop flaky linux hello_request [] (mock_llm, 0) = ((L', 2), Inr resp) \<and> billed flaky resp mock_llm L'"
proof -
  have "(case completion retry_loop flaky linux hello_request [] (mock_llm, 0) of ((L', w), r) \<Rightarrow> w = 2 \<and> \<not> isl r)"
    by code_simp
  then obtain L' resp where c: "completion retry_loop flaky linux hello_request [] (mock_llm, 0) = ((L', 2), Inr resp)"
    by (auto split: prod.splits) (metis obj_sumE isl_def)
  have "billed flaky resp mock_llm L'" by (rule completions_are_billed_once[OF tenacity_retry_loop c])
  then show ?thesis using c by (intro exI conjI)
qed

text \<open>
  A model whose information has no limit of the input (\<^verbatim>\<open>None\<close>, which the lookup of the limits allows for) cannot be used: after its
  response has been charged, the recording of its usage fails, and with it the request.
\<close>
lemma unknown_limit_fails_the_request:
  assumes "lo_info L = Some d" "map_of d ''max_input_tokens'' = Some PNone" "map_of resp ''usage'' = Some (PDict (x # u))"
  shows "\<not> is_ok (snd (post_completion E now resp L))"
proof -
  obtain L1 r where 1: "completion_cost E now resp L = (L1, r)" by (cases "completion_cost E now resp L")
  have "lo_info L1 = lo_info L" using 1 by (auto simp: completion_cost_def split: if_splits sum.splits option.splits)
  then have "window_of L1 = Inl (ValueError ''validation error for TokenUsage'')" using assms(1,2) by (simp add: window_of_def count_of_def)
  then have "\<not> is_ok (record_usage resp L1)" using assms(3) by (auto simp: record_usage_def split: sum.splits)
  then show ?thesis by (auto simp: post_completion_def 1 Let_def split: sum.splits)
qed

section \<open>Requests\<close>

lemma dict_has_set [simp]: "dict_has j (dict_set k v d) \<longleftrightarrow> j = k \<or> dict_has j d"
  by (auto simp: dict_has_def)

lemma dict_has_del [simp]: "dict_has j (dict_del k d) \<longleftrightarrow> j \<noteq> k \<and> dict_has j d"
  by (auto simp: dict_has_def dict_del_def map_of_eq_None_iff)

lemma base_keys:
  "dict_has k (base_kwargs c) \<longleftrightarrow>
     k \<in> {''temperature'', ''max_completion_tokens'', ''top_p''} \<or> k = ''top_k'' \<and> lc_top_k c \<noteq> None"
  by (auto simp: base_kwargs_def dict_has_def split: option.splits)

lemmas kwargs_defs = request_kwargs_def anthropic_kwargs_def safety_kwargs_def azure_kwargs_def reasoning_kwargs_def Let_def

lemma reasoning_keys:
  "dict_has k (reasoning_kwargs c d) \<Longrightarrow>
     (dict_has k d \<or> k \<in> {''thinking'', ''allowed_openai_params'', ''reasoning_effort''})
     \<and> (supports_reasoning_effort (get_features (lc_model c)) \<longrightarrow> k \<notin> {''temperature'', ''top_p''})"
  by (auto simp: reasoning_kwargs_def Let_def split: if_splits option.splits)

lemma reasoning_keeps: "k \<notin> {''temperature'', ''top_p'', ''reasoning_effort''} \<Longrightarrow> dict_has k d \<Longrightarrow> dict_has k (reasoning_kwargs c d)"
  by (auto simp: reasoning_kwargs_def Let_def split: option.splits)



text \<open>
  After a response without choices the next attempt sends the temperature 1 whatever the configuration says: the decorator looks for a temperature among the
  arguments of the call only, not among the ones that \<^verbatim>\<open>partial\<close> has bound.  So a configured temperature is overruled, and a reasoning model, whose
  requests have none, is sent one.
\<close>
lemma empty_response_resets_the_temperature:
  assumes "distinct (map fst kw)" "map_of kw ''temperature'' = None"
  shows "map_of (full_request L ds (before_sleep no_choices kw)) ''temperature'' = Some (PFloat 1)"
proof -
  define e where "e = (if contains ''litellm_proxy'' (lc_model (lo_config L)) then before_sleep no_choices kw
    else dict_del ''extra_body'' (before_sleep no_choices kw))"
  define e1 where "e1 = dict_set ''messages'' (PList (map PDict ds)) e"
  have "distinct (map fst e)" "map_of e ''temperature'' = Some (PFloat 1)"
    using assms by (auto intro!: distinct_dict_del simp: e_def before_sleep_def no_choices_def mk_exn_def isinstance_exn_def)
  then have "distinct (map fst e1)" "map_of e1 ''temperature'' = Some (PFloat 1)" by (simp_all add: e1_def)
  then have "map_of (rev e1) ''temperature'' = Some (PFloat 1)" by (simp add: map_of_rev_dict)
  then show ?thesis by (simp add: full_request_def flip: e_def e1_def)
qed

definition plain_message :: "data \<Rightarrow> bool" where
  \<comment> \<open>a message that every model understands: a role other than tool and a content\<close>
  "plain_message d \<longleftrightarrow> map fst d = [''role'', ''content''] \<and>
     map_of d ''role'' \<in> {Some (PStr ''system''), Some (PStr ''user''), Some (PStr ''assistant'')}"

lemma message_of_plain [simp]: "r \<in> {''system'', ''user'', ''assistant''} \<Longrightarrow> plain_message (message_of r b)"
  by (auto simp: plain_message_def message_of_def)

lemma to_text_plain: "to_text T sfx ex add ms = Inr out \<Longrightarrow> list_all plain_message out \<and> length out = length ms"
proof (induction ms arbitrary: add out)
  case (Cons m ms)
  obtain role body where rb: "get_key ''role'' m = Inr role" "get_key ''content'' m = Inr body"
    using Cons.prems by (auto split: sum.splits)
  have "\<exists>r b add' out'. r \<in> {''system'', ''user'', ''assistant''} \<and> to_text T sfx ex add' ms = Inr out' \<and> out = message_of r b # out'"
    using Cons.prems by (auto simp: rb Let_def split: if_splits sum.splits)
  then obtain r b add' out' where x: "r \<in> {''system'', ''user'', ''assistant''}" "to_text T sfx ex add' ms = Inr out'" "out = message_of r b # out'"
    by blast
  show ?case using Cons.IH[OF x(2)] message_of_plain[OF x(1), of b] x(3) by simp
qed simp

text \<open>
  C24: a model without function calling never sees any of it: all messages of its request have one of the roles system, user and assistant and nothing but
  a content, none of them is lost, and the request has neither tools nor a choice among them (but \<^verbatim>\<open>none\<close>).
\<close>
theorem mocked_requests_hold_no_calls:
  assumes "prepare_request E T L (Dicts msgs) kw = Inr (ds, kw', Some tools)"
  shows "list_all plain_message ds \<and> length ds = length msgs \<and> \<not> dict_has ''tools'' kw' \<and>
    (\<forall>v. map_of kw' ''tool_choice'' = Some v \<longrightarrow> v = PStr ''none'')"
proof -
  have kw: "kw' = mock_kwargs (lo_config L) kw"
    and ds: "convert_fncall_messages_to_non_fncall_messages T msgs tools (in_context_example (lc_model (lo_config L))) = Inr ds"
    using assms by (auto simp: prepare_request_def split: sum.splits option.splits if_splits)
  have "list_all plain_message ds \<and> length ds = length msgs"
    using ds to_text_plain by (auto simp: convert_fncall_messages_to_non_fncall_messages_def split: sum.splits)
  moreover have "\<not> dict_has ''tools'' kw'" by (auto simp: kw mock_kwargs_def Let_def)
  moreover have "v = PStr ''none''" if "map_of kw' ''tool_choice'' = Some v" for v
  proof -
    have "map_of (dict_del ''tool_choice'' d) ''tool_choice'' = None" for d :: data
      by (auto simp: dict_del_def map_of_eq_None_iff)
    then show ?thesis using that by (auto simp: kw mock_kwargs_def Let_def split: if_splits)
  qed
  ultimately show ?thesis by blast
qed

theorem mocked_requests_hold_no_calls_witness:
  "\<exists>ds kw'. prepare_request flaky linux mock_llm hello_request [(''tools'', PList (map PDict fetch_tools))] = Inr (ds, kw', Some fetch_tools) \<and>
    list_all plain_message ds \<and> \<not> dict_has ''tools'' kw'"
proof -
  have "(case prepare_request flaky linux mock_llm hello_request [(''tools'', PList (map PDict fetch_tools))] of
      Inr (ds, kw', t) \<Rightarrow> t = Some fetch_tools | Inl _ \<Rightarrow> False)" by code_simp
  then obtain ds kw' where "prepare_request flaky linux mock_llm hello_request [(''tools'', PList (map PDict fetch_tools))] = Inr (ds, kw', Some fetch_tools)"
    by (auto split: sum.splits prod.splits)
  then show ?thesis using mocked_requests_hold_no_calls[of flaky linux mock_llm _ _ ds kw' fetch_tools] unfolding hello_request_def by blast
qed

section \<open>Written calls\<close>

lemma endswith_last: "endswith s p \<Longrightarrow> p \<noteq> [] \<Longrightarrow> s \<noteq> [] \<and> last s = last p"
  by (auto simp: endswith_def) (metis append_take_drop_id last_appendR)

lemma param_strings_end: "\<exists>u. nl @ param_strings fl d = u @ nl"
proof (induction d)
  case Nil
  show ?case by (intro exI[of _ "[]"]) simp
next
  case (Cons x d)
  obtain k v where x: "x = (k, v)" by (cases x)
  obtain u where "nl @ param_strings fl d = u @ nl" using Cons.IH by blast
  then show ?case by (intro exI[of _ "nl @ PARAM_OPEN @ k @ ''>'' @ param_text fl v @ PARAM_CLOSE @ u"]) (simp add: x)
qed

definition reply_with_call :: "(rat \<Rightarrow> string) \<Rightarrow> string \<Rightarrow> string \<Rightarrow> data \<Rightarrow> string" where
  \<comment> \<open>the reply of a model that writes a text and then a call; it ends before the stop word\<close>
  "reply_with_call fl a name d = a @ FN_OPEN @ name @ ''>'' @ nl @ param_strings fl d"

lemma fix_reply:
  assumes "count_sub FN_OPEN (reply_with_call fl a name d) = 1" "\<not> contains FN_OPEN a"
  shows "fix_stopword (reply_with_call fl a name d) = a @ FN_OPEN @ name @ ''>'' @ nl @ (param_strings fl d @ nl) @ FN_CLOSE"
proof -
  let ?s = "reply_with_call fl a name d"
  obtain u where u: "nl @ param_strings fl d = u @ nl" using param_strings_end by blast
  have s: "?s = a @ FN_OPEN @ name @ ''>'' @ u @ nl" by (simp add: reply_with_call_def u)
  have "\<not> endswith ?s ''</''" using endswith_last[of ?s "''</''"] by (auto simp: s nl_def)
  moreover have "contains FN_OPEN ?s" unfolding reply_with_call_def by (auto simp: contains_iff)
  ultimately show ?thesis using assms(1) by (simp add: fix_stopword_def) (simp add: reply_with_call_def)
qed

definition written_call :: "fn_env \<Rightarrow> data list \<Rightarrow> string \<Rightarrow> string \<Rightarrow> data \<Rightarrow> bool" where
  \<comment> \<open>a reply with a call that a tool accepts and whose texts hold no tags\<close>
  "written_call T tools a name d \<longleftrightarrow>
     name \<noteq> [] \<and> CHR ''>'' \<notin> set name \<and> \<not> contains FN_OPEN a \<and> plain (PDict d) \<and> list_all (clean_param (float_text T)) d \<and>
     count_sub FN_OPEN (reply_with_call (float_text T) a name d) = 1 \<and>
     (case find_tool name tools of
        Inr (Some fn) \<Rightarrow> list_all (accepts fn) d \<and> set (required fn) \<subseteq> PStr ` set (map fst d)
      | _ \<Rightarrow> False)"

definition read_call_message :: "fn_env \<Rightarrow> nat \<Rightarrow> string \<Rightarrow> string \<Rightarrow> data \<Rightarrow> data" where
  "read_call_message T n a name d =
     calling (strip a) ((''index'', PInt 1) # call_of (tool_call_name n) name (json_dumps (float_text T) (PDict d)))"

lemma reply_search:
  assumes "written_call T tools a name d"
  shows "fn_search (fix_stopword (reply_with_call (float_text T) a name d)) = Some (name, param_strings (float_text T) d @ nl)"
proof -
  have w: "name \<noteq> []" "CHR ''>'' \<notin> set name" "\<not> contains FN_OPEN a" "list_all (clean_param (float_text T)) d"
    "count_sub FN_OPEN (reply_with_call (float_text T) a name d) = 1"
    using assms by (auto simp: written_call_def)
  have n: "CHR 0x0A \<notin> set FN_CLOSE" by (simp add: FN_CLOSE_def)
  have "\<not> contains FN_CLOSE []" by (simp add: FN_CLOSE_def)
  then have "\<not> contains FN_CLOSE (param_strings (float_text T) d @ CHR 0x0A # [])"
    using contains_break[OF n] body_has_no_close[OF w(4)] by blast
  then have c: "\<not> contains FN_CLOSE (param_strings (float_text T) d @ nl)" by (simp add: nl_def)
  show ?thesis using fn_search_call[OF w(3,1,2) c, of "[]"] fix_reply[OF w(5,3)] by simp
qed

lemma reply_from_text:
  assumes "written_call T tools a name d"
  shows "assistant_from_text T tools n msg (PStr (reply_with_call (float_text T) a name d)) = Inr (n + 1, read_call_message T n a name d)"
proof -
  have w: "\<not> contains FN_OPEN a" "list_all (clean_param (float_text T)) d" "plain (PDict d)"
    "count_sub FN_OPEN (reply_with_call (float_text T) a name d) = 1"
    using assms by (auto simp: written_call_def)
  obtain fn where tool: "find_tool name tools = Inr (Some fn)"
    and args: "list_all (accepts fn) d" "set (required fn) \<subseteq> PStr ` set (map fst d)"
    using assms by (auto simp: written_call_def split: sum.splits option.splits)
  have dist: "distinct (map fst d)" using w(3) by simp
  let ?P = "param_strings (float_text T) d"
  have tail: "normalize_parameter_tags nl = nl" "param_matches nl = []"
    by (simp_all add: nl_def normalize_Cons param_matches_Cons malformed_at_def param_match_at_def PARAM_OPEN_def startswith_def)
  have call: "tool_call_of T tools n name (?P @ nl) =
      Inr (PDict ((''index'', PInt 1) # call_of (tool_call_name n) name (json_dumps (float_text T) (PDict d))))"
    using extract_accepted[OF args(1) dist args(2)]
    by (simp add: tool_call_of_def tool normalize_body_append[OF w(2)] body_matches_append[OF w(2)] tail call_of_def)
  have rest: "before FN_OPEN (fix_stopword (reply_with_call (float_text T) a name d)) = a"
    by (simp add: fix_reply[OF w(4,1)] before_def find_marker[OF markers(1) w(1)])
  show ?thesis
    by (simp add: assistant_from_text_def edit_last_text_def last_call_def reply_search[OF assms] call rest
        read_call_message_def calling_def message_of_def del: json_dumps.simps)
qed

lemma from_text_append:
  "from_text T tools sfx ex n first ds = Inr out \<Longrightarrow>
   \<exists>n' first'. \<forall>ms. from_text T tools sfx ex n first (ds @ ms) =
     (case from_text T tools sfx ex n' first' ms of Inl e \<Rightarrow> Inl e | Inr out' \<Rightarrow> Inr (out @ out'))"
proof (induction ds arbitrary: n first out)
  case Nil
  then have "\<forall>ms. from_text T tools sfx ex n first ([] @ ms) =
     (case from_text T tools sfx ex n first ms of Inl e \<Rightarrow> Inl e | Inr out' \<Rightarrow> Inr (out @ out'))" by (simp split: sum.splits)
  then show ?case by blast
next
  case (Cons d ds)
  obtain role body where rb: "get_key ''role'' d = Inr role" "get_key ''content'' d = Inr body"
    using Cons.prems by (auto split: sum.splits)
  define r where "r = (if role = PStr ''system'' then
      (case edit_last_text (before sfx) (or_empty body) of Inl e \<Rightarrow> Inl e | Inr b \<Rightarrow> Inr (n, message_of ''system'' b))
    else if role = PStr ''user'' then
      (case user_from_text ex n first (or_empty body) of Inl e \<Rightarrow> Inl e | Inr m \<Rightarrow> Inr (n, m))
    else if role = PStr ''assistant'' then assistant_from_text T tools n d (or_empty body)
    else Inl (FunctionCallConversionError ''Unexpected role''))"
  have step: "from_text T tools sfx ex n first ((d # ds) @ ms) = (case r of
      Inl e \<Rightarrow> Inl e
    | Inr (n', m) \<Rightarrow> (case from_text T tools sfx ex n' (first \<and> role \<noteq> PStr ''user'') (ds @ ms) of
                       Inl e \<Rightarrow> Inl e | Inr ms' \<Rightarrow> Inr (m # ms')))" for ms
    by (simp add: rb Let_def r_def)
  obtain n1 m out1 where s: "r = Inr (n1, m)" "from_text T tools sfx ex n1 (first \<and> role \<noteq> PStr ''user'') ds = Inr out1" "out = m # out1"
    using Cons.prems step[of "[]"] by (auto split: sum.splits)
  obtain n' first' where IH: "\<forall>ms. from_text T tools sfx ex n1 (first \<and> role \<noteq> PStr ''user'') (ds @ ms) =
     (case from_text T tools sfx ex n' first' ms of Inl e \<Rightarrow> Inl e | Inr out' \<Rightarrow> Inr (out1 @ out'))" using Cons.IH[OF s(2)] by blast
  have "from_text T tools sfx ex n first ((d # ds) @ ms) =
     (case from_text T tools sfx ex n' first' ms of Inl e \<Rightarrow> Inl e | Inr out' \<Rightarrow> Inr (out @ out'))" for ms
    unfolding step s(1) using IH by (simp add: s(3) split: sum.splits)
  then show ?case by blast
qed

lemma read_mocked_call:
  assumes hist: "convert_non_fncall_messages_to_fncall_messages T ds tools = Inr out"
    and resp: "map_of resp ''choices'' = Some (PList (PDict c # cs))" "map_of c ''message'' = Some (PDict m)"
    and m: "map_of m ''role'' = Some (PStr ''assistant'')" "map_of m ''content'' = Some (PStr (reply_with_call (float_text T) a name d))"
    and call: "written_call T tools a name d"
  shows "\<exists>n. read_mocked E T ds tools resp =
    Inr (dict_set ''choices'' (PList (PDict (dict_set ''message'' (lt_message E (read_call_message T n a name d)) c) # cs)) resp)"
proof -
  let ?s = "reply_with_call (float_text T) a name d"
  obtain sfx where sfx: "system_prompt_suffix tools = Inr sfx"
    using hist by (auto simp: convert_non_fncall_messages_to_fncall_messages_def split: sum.splits)
  have h: "from_text T tools sfx (get_example_for_tools (win32 T) tools) 1 True ds = Inr out"
    using hist by (simp add: convert_non_fncall_messages_to_fncall_messages_def sfx)
  have e: "or_empty (PStr ?s) = PStr ?s" by (simp add: or_empty_def truthy_def reply_with_call_def FN_OPEN_def)
  obtain n first where ap: "\<forall>ms. from_text T tools sfx (get_example_for_tools (win32 T) tools) 1 True (ds @ ms) =
     (case from_text T tools sfx (get_example_for_tools (win32 T) tools) n first ms of Inl e \<Rightarrow> Inl e | Inr out' \<Rightarrow> Inr (out @ out'))"
    using from_text_append[OF h] by blast
  have "convert_non_fncall_messages_to_fncall_messages T (ds @ [m]) tools = Inr (out @ [read_call_message T n a name d])"
    using ap m e by (simp add: convert_non_fncall_messages_to_fncall_messages_def sfx get_key_def reply_from_text[OF call])
  moreover have "calls_function m"
    using m(2) e by (simp add: calls_function_def edit_last_text_def last_call_def reply_search[OF call])
  ultimately show ?thesis using resp by (auto simp: read_mocked_def Let_def)
qed

end
