(* ===== verification/Llm_Registry.thy ===== *)
theory Llm_Registry
  imports Llm_Properties
begin

text \<open>
  The registry of language model clients (\<^verbatim>\<open>openhands/llm/llm_registry.py\<close>) with the part of the configuration that names
  their settings (\<^verbatim>\<open>core/config/openhands_config.py\<close>).  Its subscriber is the statistics of the conversation, which hold the metrics of
  the clients.  The default settings, which pydantic fills in, are a field of the configuration; model routers are left out.
\<close>

section \<open>Configuration\<close>

record oh_config =
  oc_llms :: "(string, llm_config) dict"
  oc_agents :: "(string, string option) dict"   \<comment> \<open>the name of the settings that an agent uses\<close>
  oc_default_llm :: llm_config                  \<comment> \<open>\<^verbatim>\<open>LLMConfig()\<close>\<close>
  default_agent :: string

definition get_llm_config :: "string \<Rightarrow> oh_config \<Rightarrow> oh_config \<times> llm_config" where
  "get_llm_config name c =
     (case map_of (oc_llms c) name of
        Some x \<Rightarrow> (c, x)
      | None \<Rightarrow>
          (case map_of (oc_llms c) ''llm'' of
             Some x \<Rightarrow> (c, x)
           | None \<Rightarrow> (c\<lparr>oc_llms := dict_set ''llm'' (oc_default_llm c) (oc_llms c)\<rparr>, oc_default_llm c)))"

definition get_agent_config :: "string \<Rightarrow> oh_config \<Rightarrow> oh_config \<times> string option" where
  "get_agent_config name c =
     (case map_of (oc_agents c) name of
        Some x \<Rightarrow> (c, x)
      | None \<Rightarrow>
          (case map_of (oc_agents c) ''agent'' of
             Some x \<Rightarrow> (c, x)
           | None \<Rightarrow> (c\<lparr>oc_agents := dict_set ''agent'' None (oc_agents c)\<rparr>, None)))"

definition get_llm_config_from_agent_config :: "string option \<Rightarrow> oh_config \<Rightarrow> oh_config \<times> llm_config" where
  "get_llm_config_from_agent_config a c = get_llm_config (case a of Some n \<Rightarrow> n | None \<Rightarrow> ''llm'') c"

definition get_llm_config_from_agent :: "string \<Rightarrow> oh_config \<Rightarrow> oh_config \<times> llm_config" where
  "get_llm_config_from_agent name c = (case get_agent_config name c of (c', a) \<Rightarrow> get_llm_config_from_agent_config a c')"

section \<open>The registry\<close>

record registry =
  rg_config :: oh_config
  rg_llms :: "(string, llm_obj) dict"   \<comment> \<open>\<^verbatim>\<open>service_to_llm\<close>\<close>
  rg_subscribed :: bool

type_synonym reg_state = "registry \<times> conv_stats"

definition notify :: "string \<Rightarrow> llm_obj \<Rightarrow> reg_state \<Rightarrow> reg_state" where
  "notify service L s = (case s of (rg, cs) \<Rightarrow> (rg, if rg_subscribed rg then register_llm service (lo_metrics L) cs else cs))"

definition create_new_llm :: "'w litellm \<Rightarrow> string \<Rightarrow> llm_config \<Rightarrow> reg_state \<Rightarrow> reg_state \<times> llm_obj res" where
  "create_new_llm E service c s =
     (case llm_init E c None of
        Inl e \<Rightarrow> (s, Inl e)
      | Inr L \<Rightarrow> (notify service L ((fst s)\<lparr>rg_llms := dict_set service L (rg_llms (fst s))\<rparr>, snd s), Inr L))"

definition get_llm :: "'w litellm \<Rightarrow> string \<Rightarrow> llm_config option \<Rightarrow> reg_state \<Rightarrow> reg_state \<times> llm_obj res" where
  "get_llm E service c s =
     (case map_of (rg_llms (fst s)) service of
        Some L \<Rightarrow>
          (s, if Some (lo_config L) \<noteq> c
              then Inl (ValueError (''Requesting same service ID '' @ service @ '' with different config, use a new service ID'')) else Inr L)
      | None \<Rightarrow>
          (case c of
             None \<Rightarrow> (s, Inl (ValueError ''Requesting new LLM without specifying LLM config''))
           | Some c' \<Rightarrow> create_new_llm E service c' s))"

definition get_llm_from_agent_config :: "'w litellm \<Rightarrow> string \<Rightarrow> string option \<Rightarrow> reg_state \<Rightarrow> reg_state \<times> llm_obj res" where
  \<comment> \<open>an existing client is used whatever its settings are; \<^verbatim>\<open>get_router\<close> without a router\<close>
  "get_llm_from_agent_config E service a s =
     (case get_llm_config_from_agent_config a (rg_config (fst s)) of
        (cfg, c) \<Rightarrow>
          (let s1 = ((fst s)\<lparr>rg_config := cfg\<rparr>, snd s)
           in case map_of (rg_llms (fst s)) service of Some L \<Rightarrow> (s1, Inr L) | None \<Rightarrow> create_new_llm E service c s1))"

definition registry_init :: "'w litellm \<Rightarrow> oh_config \<Rightarrow> string option \<Rightarrow> conv_stats \<Rightarrow> reg_state \<times> llm_obj res" where
  \<comment> \<open>the configuration map over all agents may insert the default settings first\<close>
  "registry_init E cfg agent_cls cs =
     (let cfg1 = fold (\<lambda>name c. fst (get_llm_config_from_agent name c)) (map fst (oc_agents cfg)) cfg;
          name = (case agent_cls of Some (x # xs) \<Rightarrow> x # xs | _ \<Rightarrow> default_agent cfg1)
      in case get_llm_config_from_agent name cfg1 of
           (cfg2, c) \<Rightarrow> get_llm E ''agent'' (Some c) (\<lparr>rg_config = cfg2, rg_llms = [], rg_subscribed = False\<rparr>, cs))"

definition registry_subscribe :: "llm_obj \<Rightarrow> reg_state \<Rightarrow> reg_state" where
  \<comment> \<open>\<open>L\<close> is \<^verbatim>\<open>active_agent_llm\<close>\<close>
  "registry_subscribe L s = notify ''agent'' L ((fst s)\<lparr>rg_subscribed := True\<rparr>, snd s)"

definition reply_text :: "data \<Rightarrow> string res" where
  \<comment> \<open>\<^verbatim>\<open>response.choices[0].message.content.strip()\<close>\<close>
  "reply_text resp =
     (case map_of resp ''choices'' of
        Some (PList (PDict c # _)) \<Rightarrow>
          (case map_of c ''message'' of
             Some (PDict m) \<Rightarrow> (case map_of m ''content'' of Some (PStr t) \<Rightarrow> Inr (strip t) | _ \<Rightarrow> Inl (AttributeError ''strip''))
           | _ \<Rightarrow> Inl (AttributeError ''message''))
      | _ \<Rightarrow> Inl (IndexError ''list index out of range''))"

definition request_extraneous_completion ::
  "(llm_obj \<times> 'w, data) retrier \<Rightarrow> 'w litellm \<Rightarrow> fn_env \<Rightarrow> string \<Rightarrow> llm_config \<Rightarrow> data list \<Rightarrow> reg_state \<Rightarrow> 'w
   \<Rightarrow> reg_state \<times> 'w \<times> (exn + string)" where
  \<comment> \<open>the metrics of a registered client are those of the statistics\<close>
  "request_extraneous_completion retry E T service c ms s w =
     (case (case map_of (rg_llms (fst s)) service of Some L \<Rightarrow> (s, Inr L) | None \<Rightarrow> create_new_llm E service c s) of
        (s1, Inl e) \<Rightarrow> (s1, w, Inl (exn_of e))
      | ((rg, cs), Inr L) \<Rightarrow>
          (case completion retry E T (Dicts ms) [] (with_metrics service cs L, w) of
             ((L', w'), r) \<Rightarrow>
               ((rg\<lparr>rg_llms := dict_set service L' (rg_llms rg)\<rparr>, keep_metrics service L' cs), w',
                case r of Inl e \<Rightarrow> Inl e
                | Inr resp \<Rightarrow> (case reply_text resp of Inl e \<Rightarrow> Inl (exn_of e) | Inr t \<Rightarrow> Inr t))))"

section \<open>One client per service\<close>

inductive reg_run :: "'w litellm \<Rightarrow> reg_state \<Rightarrow> bool" for E where
  reg_start: "registry_init E cfg agent_cls cs = (s, Inr L) \<Longrightarrow> reg_run E (registry_subscribe L s)"
| reg_get: "reg_run E s \<Longrightarrow> reg_run E (fst (get_llm E service c s))"
| reg_agent: "reg_run E s \<Longrightarrow> reg_run E (fst (get_llm_from_agent_config E service a s))"
| reg_ask: "reg_run E s \<Longrightarrow> request_extraneous_completion retry E T service c ms s w = (s', w', r) \<Longrightarrow> reg_run E s'"

definition accounted :: "reg_state \<Rightarrow> bool" where
  \<comment> \<open>the metrics of every client are among those of the conversation\<close>
  "accounted s \<longleftrightarrow> rg_subscribed (fst s) \<and> set (map fst (rg_llms (fst s))) \<subseteq> set (map fst (service_to_metrics (snd s)))"

lemma register_keys: "set (map fst (service_to_metrics (register_llm k m cs))) = insert k (set (map fst (service_to_metrics cs)))"
  by (simp add: register_llm_def del: set_map split: option.split)

lemma create_accounted: "accounted s \<Longrightarrow> create_new_llm E service c s = (s', r) \<Longrightarrow> accounted s'"
  by (cases s) (auto simp: create_new_llm_def accounted_def notify_def register_keys simp del: set_map split: sum.splits)

lemma get_accounted: "accounted s \<Longrightarrow> accounted (fst (get_llm E service c s))"
  using create_accounted[of s E service]
  by (cases "create_new_llm E service (the c) s") (auto simp: get_llm_def split: option.splits)

lemma ask_accounted:
  assumes "accounted s" "request_extraneous_completion retry E T service c ms s w = (s', w', r)"
  shows "accounted s'"
proof -
  obtain s1 x where x: "(case map_of (rg_llms (fst s)) service of Some L \<Rightarrow> (s, Inr L) | None \<Rightarrow> create_new_llm E service c s) = (s1, x)"
    by (cases "case map_of (rg_llms (fst s)) service of Some L \<Rightarrow> (s, Inr L) | None \<Rightarrow> create_new_llm E service c s")
  have a: "accounted s1" using x assms(1) create_accounted[OF assms(1), of E service c s1 x] by (auto split: option.splits)
  have k: "x = Inr L \<Longrightarrow> service \<in> set (map fst (rg_llms (fst s1)))" for L
    using x by (auto simp: create_new_llm_def notify_def simp del: set_map split: option.splits sum.splits prod.splits dest: map_of_SomeD)
      (metis domI dom_map_of_conv_image_fst set_map)
  obtain rg cs where s1: "s1 = (rg, cs)" by (cases s1)
  show ?thesis
    using assms(2) a k
    by (auto simp: request_extraneous_completion_def x s1 accounted_def keep_metrics_def simp del: set_map split: sum.splits prod.splits if_splits)
qed

lemma start_accounted:
  assumes "registry_init E cfg agent_cls cs = (s, Inr L)"
  shows "accounted (registry_subscribe L s)"
proof -
  obtain rg where s: "fst s = rg" "set (map fst (rg_llms rg)) \<subseteq> {''agent''}"
    using assms by (auto simp: registry_init_def get_llm_def create_new_llm_def notify_def Let_def split: sum.splits prod.splits)
  then show ?thesis
    by (cases s) (auto simp: registry_subscribe_def notify_def accounted_def register_keys simp del: set_map)
qed



text \<open>
  Asking twice for the same service with the same settings fails, when making the client has changed the settings (as it does for every
  model whose limits it looks up): the registry compares the settings of the request with the changed copy of the client.
\<close>
lemma same_request_is_refused:
  assumes "get_llm E service (Some c) s = (s', Inr L)" "map_of (rg_llms (fst s)) service = None"
    "find_model_info E c = Inr info" "rewrite_model (adjust_config info c) \<noteq> c"
  shows "snd (get_llm E service (Some c) s') =
    Inl (ValueError (''Requesting same service ID '' @ service @ '' with different config, use a new service ID''))"
proof -
  have "llm_init E c None = Inr L" "map_of (rg_llms (fst s')) service = Some L"
    using assms(1,2) by (auto simp: get_llm_def create_new_llm_def notify_def split: sum.splits prod.splits)
  moreover from this(1) have "lo_config L \<noteq> c" using assms(3,4) by (auto simp: llm_init_def Let_def split: if_splits)
  ultimately show ?thesis by (simp add: get_llm_def)
qed

end
