(* ===== verification/Codeact_Agent.thy ===== *)
theory Codeact_Agent
  imports Codeact_Calls Llm_Client Condensers Agent_Controller
begin

text \<open>
  The CodeAct agent (\<^verbatim>\<open>openhands/agenthub/codeact_agent/codeact_agent.py\<close>, with \<^verbatim>\<open>controller/agent.py\<close> and
  \<^verbatim>\<open>llm/llm_utils.py\<close>): its step from the state of the controller to the next action, and the agent as the operations that
  the controller calls.  The metrics of its language model are the ones that the statistics of the conversation hold for its
  service.  What processing changes in the action objects of the history is not carried over (processing them
  again gives the same messages); what it inserts into the list of the cached view is.
\<close>

section \<open>Tools for the model\<close>

definition check_prop :: "data \<Rightarrow> data" where
  \<comment> \<open>Gemini models take no default values, and only two formats of strings\<close>
  "check_prop p =
     (let p1 = dict_del ''default'' p
      in if map_of p1 ''type'' = Some (PStr ''string'') \<and> dict_has ''format'' p1 \<and>
            map_of p1 ''format'' \<notin> {Some (PStr ''enum''), Some (PStr ''date-time'')}
         then dict_del ''format'' p1 else p1)"

definition on_dict :: "(data \<Rightarrow> data) \<Rightarrow> pyval \<Rightarrow> pyval" where
  "on_dict f v = (case v of PDict d \<Rightarrow> PDict (f d) | _ \<Rightarrow> v)"

definition on_key :: "string \<Rightarrow> (data \<Rightarrow> data) \<Rightarrow> data \<Rightarrow> data" where
  "on_key k f d = (case map_of d k of Some v \<Rightarrow> dict_set k (on_dict f v) d | None \<Rightarrow> d)"

definition check_tools :: "data list \<Rightarrow> string \<Rightarrow> data list" where
  "check_tools tools model =
     (if contains ''gemini'' (lower model)
      then map (on_key ''function'' (on_key ''parameters'' (on_key ''properties'' (map (\<lambda>(k, v). (k, on_dict check_prop v)))))) tools
      else tools)"

section \<open>The agent\<close>

record 'w codeact_env =
  ce_litellm :: "'w litellm"
  ce_fn :: fn_env
  ce_retry :: "(llm_obj \<times> 'w, data) retrier"
  ce_memory :: cm_env
  ce_answers :: llm                                                        \<comment> \<open>the language model of the condenser\<close>
  ce_batch :: "condenser \<Rightarrow> view \<Rightarrow> (string, pyval) dict"    \<comment> \<open>what a condensation notes as metadata\<close>
  ce_web_host :: "string option"                                      \<comment> \<open>\<^verbatim>\<open>WEB_HOST\<close> of the environment\<close>

record 'w codeact =
  cg_pending :: "event list"
  cg_tools :: "data list"
  cg_mcp :: "(string, data) dict"
  cg_condenser :: condenser
  cg_llm :: llm_obj
  cg_world :: 'w

definition codeact_init :: "codeact_platform \<Rightarrow> codeact_config \<Rightarrow> condenser \<Rightarrow> llm_obj \<Rightarrow> 'w \<Rightarrow> 'w codeact" where
  "codeact_init P c cond L w =
     \<lparr>cg_pending = [], cg_tools = get_tools P c, cg_mcp = [], cg_condenser = cond, cg_llm = L, cg_world = w\<rparr>"

definition codeact_reset :: "'w codeact \<Rightarrow> 'w codeact" where
  "codeact_reset ag = ag\<lparr>cg_pending := []\<rparr>"

definition codeact_set_mcp_tools :: "data list \<Rightarrow> 'w codeact \<Rightarrow> 'w codeact" where
  "codeact_set_mcp_tools ts ag =
     (case set_mcp_tools ts (cg_mcp ag, cg_tools ag) of (mcp, tools) \<Rightarrow> ag\<lparr>cg_mcp := mcp, cg_tools := tools\<rparr>)"

definition codeact_system_message :: "'w codeact_env \<Rightarrow> 'w codeact \<Rightarrow> event option" where
  \<comment> \<open>\<^verbatim>\<open>Agent.get_system_message\<close>; an error is logged only\<close>
  "codeact_system_message E ag =
     (case dataclass_init SystemMessageAction
             [(''content'', PStr (system_prompt (ce_memory E))), (''tools'', PList (map PDict (cg_tools ag))),
              (''agent_class'', PStr ''CodeActAgent'')] of
        Inl _ \<Rightarrow> None | Inr a \<Rightarrow> Some (a\<lparr>ev_source := Some AGENT\<rparr>))"

definition to_llm_metadata :: "string option \<Rightarrow> string \<Rightarrow> string \<Rightarrow> state \<Rightarrow> pyval" where
  "to_llm_metadata host model name s =
     PDict [(''session_id'', PStr (session_id s)), (''trace_version'', PStr openhands_version), (''trace_user_id'', opt_str (st_user s)),
       (''tags'', PList (map PStr [''model:'' @ model, ''agent:'' @ name,
          ''web_host:'' @ (case host of Some h \<Rightarrow> h | None \<Rightarrow> ''unspecified''), ''openhands_version:'' @ openhands_version]))]"

section \<open>A step\<close>

fun same_object :: "condenser \<Rightarrow> bool"
and same_objects :: "condenser list \<Rightarrow> bool" where
  \<comment> \<open>whether a condenser that answers with a view answers with the object it was given\<close>
  "same_object (ObservationMaskingCondenser _) = False"
| "same_object (BrowserOutputCondenser _) = False"
| "same_object (RecentEventsCondenser _ _) = False"
| "same_object (CondenserPipeline cs) = same_objects cs"
| "same_object _ = True"
| "same_objects [] = True"
| "same_objects (c # cs) \<longleftrightarrow> same_object c \<and> same_objects cs"

definition condensed_history :: "'w codeact_env \<Rightarrow> condenser \<Rightarrow> state \<Rightarrow> state \<times> condense_result res" where
  \<comment> \<open>the metadata are written however the condensation ends\<close>
  "condensed_history E c s =
     (case state_view s of
        (s1, r) \<Rightarrow>
          (let batch = (case r of Inr v \<Rightarrow> ce_batch E c v | Inl _ \<Rightarrow> [])
           in (s1\<lparr>extra_data := snd (write_metadata batch (extra_data s1))\<rparr>,
               case r of Inl e \<Rightarrow> Inl e | Inr v \<Rightarrow> condense (ce_answers E) c v)))"

definition note_events :: "condenser \<Rightarrow> event list \<Rightarrow> state \<Rightarrow> state" where
  \<comment> \<open>the list of the cached view after messages have been inserted into it\<close>
  "note_events c events s =
     (if same_object c then s\<lparr>cached_view := map_option (\<lambda>v. v\<lparr>v_events := events\<rparr>) (cached_view s)\<rparr> else s)"

definition get_messages ::
  "'w codeact_env \<Rightarrow> 'w codeact \<Rightarrow> event list \<Rightarrow> event \<Rightarrow> int set \<Rightarrow> event list \<times> (msg list) res" where
  \<comment> \<open>the list of events as it is left, and the messages\<close>
  "get_messages E ag events initial fids =
     (let M = ce_memory E; L = cg_llm ag;
          C = \<lparr>max_message_chars = Some (lc_max_message_chars (lo_config L)), vision_is_active = llm_vision_is_active (ce_litellm E) L\<rparr>
      in case process_events M C events initial fids of
           Inl e \<Rightarrow> (ensure_initial_user_message (ensure_system_message M events) initial fids, Inl e)
         | Inr (es, ms) \<Rightarrow> (es, if is_caching_prompt_active L then apply_prompt_caching ms else Inr ms))"

definition ask_model ::
  "'w codeact_env \<Rightarrow> 'w codeact \<Rightarrow> state \<Rightarrow> msg list \<Rightarrow> conv_stats \<Rightarrow> 'w codeact \<times> conv_stats \<times> (exn + event option)" where
  \<comment> \<open>the completion, and the actions of the response\<close>
  "ask_model E ag s ms cs =
     (let L = with_metrics ''agent'' cs (cg_llm ag); model = lc_model (lo_config L);
          kw = [(''tools'', PList (map PDict (check_tools (cg_tools ag) model))),
                (''extra_body'', PDict [(''metadata'', to_llm_metadata (ce_web_host E) model ''CodeActAgent'' s)])]
      in case completion (ce_retry E) (ce_litellm E) (ce_fn E) (Messages ms) kw (L, cg_world ag) of
           ((L', w'), r) \<Rightarrow>
             (let ag' = ag\<lparr>cg_llm := L', cg_world := w'\<rparr>; cs' = keep_metrics ''agent'' L' cs
              in case r of
                   Inl e \<Rightarrow> (ag', cs', Inl e)
                 | Inr resp \<Rightarrow>
                     (case response_to_actions (PDict resp) (map fst (cg_mcp ag)) of
                        Inl e \<Rightarrow> (ag', cs', Inl (exn_of e))
                      | Inr [] \<Rightarrow> (ag', cs', Inl (exn_of (AssertionError [])))
                      | Inr (a # as) \<Rightarrow> (ag'\<lparr>cg_pending := as\<rparr>, cs', Inr (Some a)))))"

definition exit_requested :: "event option \<Rightarrow> bool" where
  "exit_requested m = (case m of Some e \<Rightarrow> strip (content e) = ''/exit'' | None \<Rightarrow> False)"

definition codeact_step ::
  "'w codeact_env \<Rightarrow> 'w codeact \<Rightarrow> full_state \<Rightarrow> conv_stats \<Rightarrow> 'w codeact \<times> state \<times> conv_stats \<times> (exn + event option)" where
  "codeact_step E ag fs cs =
     (case cg_pending ag of
        a # as \<Rightarrow> (ag\<lparr>cg_pending := as\<rparr>, fst fs, cs, Inr (Some a))
      | [] \<Rightarrow>
          (case get_last_user_message (fst fs) of
             (s1, Inl e) \<Rightarrow> (ag, s1, cs, Inl (exn_of e))
           | (s1, Inr latest) \<Rightarrow>
               (if exit_requested latest
                then (case dataclass_init AgentFinishAction [] of
                        Inl e \<Rightarrow> (ag, s1, cs, Inl (exn_of e)) | Inr a \<Rightarrow> (ag, s1, cs, Inr (Some a)))
                else
                  (case condensed_history E (cg_condenser ag) s1 of
                     (s2, Inl e) \<Rightarrow> (ag, s2, cs, Inl (exn_of e))
                   | (s2, Inr (CCondensation a)) \<Rightarrow> (ag, s2, cs, Inr (Some a))
                   | (s2, Inr (CView v)) \<Rightarrow>
                       (case get_initial_user_message (history s2) of
                          Inl e \<Rightarrow> (ag, s2, cs, Inl (exn_of e))
                        | Inr initial \<Rightarrow>
                            (case get_messages E ag (v_events v) initial (v_forgotten v) of
                               (es, Inl e) \<Rightarrow> (ag, note_events (cg_condenser ag) es s2, cs, Inl (exn_of e))
                             | (es, Inr ms) \<Rightarrow>
                                 (case ask_model E ag s2 ms cs of
                                    (ag', cs', r) \<Rightarrow> (ag', note_events (cg_condenser ag) es s2, cs', r))))))))"

definition codeact_agents :: "'w codeact_env \<Rightarrow> 'w codeact agents \<Rightarrow> 'w codeact agents" where
  \<comment> \<open>the CodeAct agent for the controller; configuration flags, the security analyzer, the clock and the making of delegates are those of \<open>A\<close>\<close>
  "codeact_agents E A =
     A\<lparr>agent_name := \<lambda>_. ''CodeActAgent'', agent_step := codeact_step E, agent_reset := codeact_reset,
       get_system_message := codeact_system_message E\<rparr>"

end
