(* ===== verification/Codeact_Agent_Properties.thy ===== *)
theory Codeact_Agent_Properties
  imports Codeact_Agent Codeact_Properties Llm_Properties Controller_Properties
begin

text \<open>
  Properties of the CodeAct agent as the controller runs it: its steps read the state without changing what is not theirs, work off
  the actions of a response one by one, charge the conversation for what they ask, and turn calls that a model writes as text into the actions of
  native calls; and what the controller makes of a request that is refused too often.
\<close>

section \<open>An example\<close>

definition fetch_twice :: data where
  \<comment> \<open>a response that calls a tool of an MCP server twice\<close>
  "fetch_twice =
     [(''id'', PStr ''r1''), (''choices'', PList [PDict [(''message'', PDict
        [(''role'', PStr ''assistant''), (''content'', PStr ''Look''),
         (''tool_calls'', PList (map (\<lambda>i. PDict [(''id'', PStr i), (''function'', PDict [(''name'', PStr ''fetch''), (''arguments'', PStr ''{}'')])])
            [''t1'', ''t2'']))])]])]"

definition step_env :: "nat codeact_env" where
  \<comment> \<open>a provider that always answers with two calls\<close>
  "step_env =
     \<lparr>ce_litellm = flaky\<lparr>lt_completion := (\<lambda>_ w. (w + 1, Inr fetch_twice))\<rparr>, ce_fn = linux, ce_retry = retry_loop,
      ce_memory = convo_env, ce_answers = \<lparr>rank_ids = (\<lambda>_. []), summarise = (\<lambda>_ _. None), summary_tool_calls = (\<lambda>_ _. [])\<rparr>, ce_batch = (\<lambda>_ _. []), ce_web_host = None\<rparr>"

definition step_agent :: "nat codeact" where
  "step_agent =
     \<lparr>cg_pending = [], cg_tools = fetch_tools, cg_mcp = [(''fetch'', [])], cg_condenser = NoOpCondenser,
      cg_llm = mock_llm\<lparr>lo_native := True\<rparr>, cg_world = 0\<rparr>"

definition step_state :: full_state where
  "step_state = (new_state\<lparr>history := [convo_user]\<rparr>, shr (sample_ctl RUNNING False 2))"

definition step_stats :: conv_stats where
  "step_stats = \<lparr>stats_store = True, conversation_id = ''c1'', stats_user = None,
     service_to_metrics = [(''agent'', metrics_init ''local'')], restored_metrics = []\<rparr>"

lemma step_result:
  "case codeact_step step_env step_agent step_state step_stats of (ag', st, cs', r) \<Rightarrow>
     length (cg_pending ag') = 1 \<and> (case map_of (service_to_metrics cs') ''agent'' of Some m \<Rightarrow> costs m \<noteq> [] | None \<Rightarrow> False) \<and>
     (case r of Inr (Some a) \<Rightarrow> True | _ \<Rightarrow> False)"
  by code_simp


lemma step_taken:
  obtains ag' st cs' a x where "codeact_step step_env step_agent step_state step_stats = (ag', st, cs', Inr (Some a))"
    "cg_pending ag' = [x]" "cs' \<noteq> step_stats"
proof -
  obtain ag' st cs' r where s: "codeact_step step_env step_agent step_state step_stats = (ag', st, cs', r)"
    by (cases "codeact_step step_env step_agent step_state step_stats")
  have r: "length (cg_pending ag') = 1" "case map_of (service_to_metrics cs') ''agent'' of Some m \<Rightarrow> costs m \<noteq> [] | None \<Rightarrow> False"
    "case r of Inr (Some a) \<Rightarrow> True | _ \<Rightarrow> False"
    using step_result unfolding s by simp_all
  have "cs' \<noteq> step_stats" using r(2) by (auto simp: step_stats_def metrics_init_def)
  then show thesis using that s r(1,3) by (auto simp: length_Suc_conv split: sum.splits option.splits)
qed

definition step_agents :: "nat codeact agents" where
  "step_agents =
     codeact_agents step_env \<lparr>agent_name = (\<lambda>_. []), agent_step = codeact_step step_env,
      agent_reset = (\<lambda>a. a), get_system_message = (\<lambda>_. None), agent_make = (\<lambda>n a cs. (cs, Inr a)),
      enable_stuck_detection = (\<lambda>_. True), enable_history_truncation = (\<lambda>_. True), cli_mode = (\<lambda>_. False),
      security_analyzer = None, clock = (\<lambda>_. ''2025-01-01T00:00:00'')\<rparr>"

definition step_ctl :: "nat codeact ctl" where
  \<comment> \<open>a controller whose agent has an action left\<close>
  "step_ctl =
     (case new_frame (step_agent\<lparr>cg_pending := [convo_run]\<rparr>) ''s'' (Some ''s'') None True False False False True [] 2 None None of
        (m, sh) \<Rightarrow>
          \<lparr>strm = fst (cur_id (open_stream ''s'' None [])), shr = sh, stats = step_stats, ticks = 0, statuses = [], me = m, below = []\<rparr>)"

definition refusing :: "nat litellm" where
  \<comment> \<open>a provider that refuses every request\<close>
  "refusing = flaky\<lparr>lt_completion := (\<lambda>_ w. (w + 1, Inl (mk_exn ''RateLimitError'' ''slow down'')))\<rparr>"

definition written_reply :: data where
  "written_reply =
     [(''id'', PStr ''r1''), (''choices'', PList [PDict [(''message'', PDict [(''role'', PStr ''assistant''),
        (''content'', PStr (reply_with_call (float_text linux) ''Look.'' ''fetch'' [(''url'', PStr ''a.org'')]))])]])]"

definition writing :: "nat litellm" where
  \<comment> \<open>a provider whose model writes a call\<close>
  "writing = flaky\<lparr>lt_completion := (\<lambda>_ w. (w + 1, Inr written_reply))\<rparr>"

lemma ok_triple:
  "(case x of Inr (a, b, t) \<Rightarrow> t = v \<and> is_ok (f a) | Inl _ \<Rightarrow> False) \<Longrightarrow> \<exists>a b y. x = Inr (a, b, v) \<and> f a = Inr y"
  by (cases x; cases "f (fst (projr x))") auto

section \<open>The frame of a step\<close>

definition state_frame :: "state \<Rightarrow> state \<Rightarrow> bool" where
  \<comment> \<open>the states differ at most in the metadata and the cached view\<close>
  "state_frame s s' \<longleftrightarrow>
     s' = s\<lparr>extra_data := extra_data s', history_checksum := history_checksum s', cached_view := cached_view s'\<rparr>"

lemma state_frame_refl [simp]: "state_frame s s"
  by (simp add: state_frame_def)

lemma state_frame_trans: "state_frame s s' \<Longrightarrow> state_frame s' s'' \<Longrightarrow> state_frame s s''"
  by (cases s; cases s'; cases s'') (simp add: state_frame_def)

locale framed_agent =
  fixes A :: "'ag agents"
  assumes frame: "agent_step A ag (s, sh) cs = (ag', s', cs', r) \<Longrightarrow> state_frame s s'"
begin

lemma asked_state:
  "ask_agent A c =
     (case agent_step A (c_agent (me c)) (my_state c, shr c) (stats c) of
        (ag, st, cs, r) \<Rightarrow>
          (let c' = c\<lparr>stats := cs, me := (me c)\<lparr>c_agent := ag, c_state := st\<rparr>\<rparr>
           in case r of
                Inl e \<Rightarrow> handle_agent_error A e c'
              | Inr None \<Rightarrow> handle_agent_error A (mk_exn ''LLMNoActionError'' ''No action was returned'') c'
              | Inr (Some a) \<Rightarrow> (c', Inr (Some (a\<lparr>ev_source := Some AGENT\<rparr>)))))"
proof -
  obtain ag st cs r where s: "agent_step A (c_agent (me c)) (my_state c, shr c) (stats c) = (ag, st, cs, r)"
    by (cases "agent_step A (c_agent (me c)) (my_state c, shr c) (stats c)")
  have "(my_state c)\<lparr>extra_data := extra_data st, history_checksum := history_checksum st, cached_view := cached_view st\<rparr> = st"
    using frame[OF s] by (simp add: state_frame_def)
  then show ?thesis by (simp add: ask_agent_def s)
qed

end

lemma state_view_frame: "state_view s = (s', r) \<Longrightarrow> state_frame s s'"
  by (auto simp: state_view_def state_frame_def Let_def split: if_splits sum.splits)

lemma last_user_frame: "get_last_user_message s = (s', r) \<Longrightarrow> state_frame s s'"
  by (auto simp: get_last_user_message_def last_message_def intro: state_view_frame split: prod.splits sum.splits)

lemma condensed_frame: "condensed_history E c s = (s', r) \<Longrightarrow> state_frame s s'"
proof -
  assume h: "condensed_history E c s = (s', r)"
  obtain s1 v where v: "state_view s = (s1, v)" by (cases "state_view s")
  have "state_frame s1 s'" using h by (auto simp: condensed_history_def v Let_def state_frame_def)
  then show ?thesis using state_frame_trans[OF state_view_frame[OF v]] by blast
qed

lemma note_events_frame: "state_frame s s' \<Longrightarrow> state_frame s (note_events c es s')"
  using state_frame_trans[of s s' "note_events c es s'"] by (simp add: note_events_def state_frame_def)

lemma codeact_frame:
  assumes "codeact_step E ag (s, sh) cs = (ag', s', cs', r)"
  shows "state_frame s s'"
proof -
  obtain s1 m where m: "get_last_user_message s = (s1, m)" by (cases "get_last_user_message s")
  have 1: "state_frame s s1" by (rule last_user_frame[OF m])
  obtain s2 v where v: "condensed_history E (cg_condenser ag) s1 = (s2, v)" by (cases "condensed_history E (cg_condenser ag) s1")
  have 2: "state_frame s s2" by (rule state_frame_trans[OF 1 condensed_frame[OF v]])
  show ?thesis
    using assms 1 2 note_events_frame[OF 2]
    by (auto simp: codeact_step_def m v split: list.splits sum.splits if_splits condense_result.splits prod.splits)
qed

interpretation codeact: framed_agent "codeact_agents E A" for E A
  by unfold_locales (auto simp: codeact_agents_def intro: codeact_frame)

lemma no_action_from_error: "handle_agent_error A e c \<noteq> (c', Inr (Some a))"
  by (auto simp: handle_agent_error_def seqm_ok ret_def raise_exn_def bnd_asks split: if_splits)

text \<open>
  When the controller asks the CodeAct agent for an action and gets one, nothing of the controller changes but the agent, the statistics of the
  conversation, and the metadata and the cached view in the state: the history, the state of the agent, the flags, the stream and the pending
  action are as they were.  The action is marked as coming from the agent.
\<close>
theorem asking_codeact_only_touches_its_own:
  assumes "ask_agent (codeact_agents E A) c = (c', Inr (Some a))"
  shows "\<exists>ag x h v. c' = c\<lparr>stats := stats c', me := (me c)\<lparr>c_agent := ag,
      c_state := (my_state c)\<lparr>extra_data := x, history_checksum := h, cached_view := v\<rparr>\<rparr>\<rparr> \<and> ev_source a = Some AGENT"
proof -
  obtain ag st cs r where s: "agent_step (codeact_agents E A) (c_agent (me c)) (my_state c, shr c) (stats c) = (ag, st, cs, r)"
    by (cases "agent_step (codeact_agents E A) (c_agent (me c)) (my_state c, shr c) (stats c)")
  show ?thesis
  proof (cases "\<exists>a. r = Inr (Some a)")
    case True
    then have "c' = c\<lparr>stats := cs, me := (me c)\<lparr>c_agent := ag, c_state := st\<rparr>\<rparr>" "ev_source a = Some AGENT"
      using assms by (auto simp: codeact.asked_state s)
    moreover have "st = (my_state c)\<lparr>extra_data := extra_data st, history_checksum := history_checksum st, cached_view := cached_view st\<rparr>"
      using codeact.frame[OF s] by (simp add: state_frame_def)
    ultimately show ?thesis by (intro exI[of _ ag] exI[of _ "extra_data st"] exI[of _ "history_checksum st"] exI[of _ "cached_view st"]) simp
  next
    case False
    then consider e where "r = Inl e" | "r = Inr None" by (cases r) auto
    then show ?thesis using assms by cases (simp_all add: codeact.asked_state s no_action_from_error)
  qed
qed

theorem asking_codeact_only_touches_its_own_witness:
  "\<exists>c' a. ask_agent (codeact_agents step_env step_agents) step_ctl = (c', Inr (Some a)) \<and>
    (\<exists>ag x h v. c' = step_ctl\<lparr>stats := stats c', me := (me step_ctl)\<lparr>c_agent := ag,
      c_state := (my_state step_ctl)\<lparr>extra_data := x, history_checksum := h, cached_view := v\<rparr>\<rparr>\<rparr> \<and> ev_source a = Some AGENT)"
proof -
  have "\<exists>c' a. ask_agent (codeact_agents step_env step_agents) step_ctl = (c', Inr (Some a))"
    by (simp add: ask_agent_def codeact_agents_def codeact_step_def step_ctl_def new_frame_def Let_def split: prod.splits)
  then obtain c' a where "ask_agent (codeact_agents step_env step_agents) step_ctl = (c', Inr (Some a))" by blast
  from this asking_codeact_only_touches_its_own[OF this] show ?thesis by (intro exI[of _ c'] exI[of _ a] conjI)
qed

section \<open>One response, several actions\<close>

fun agent_steps ::
  "'w codeact_env \<Rightarrow> 'w codeact \<Rightarrow> full_state list \<Rightarrow> conv_stats \<Rightarrow> 'w codeact \<times> conv_stats \<times> (exn + event option) list" where
  \<comment> \<open>the steps of the agent in the given states of the controller\<close>
  "agent_steps E ag [] cs = (ag, cs, [])"
| "agent_steps E ag (fs # fss) cs =
     (case codeact_step E ag fs cs of
        (ag', _, cs', r) \<Rightarrow> (case agent_steps E ag' fss cs' of (ag'', cs'', rs) \<Rightarrow> (ag'', cs'', r # rs)))"

lemma pending_steps:
  "length fss = length (cg_pending ag) \<Longrightarrow>
   agent_steps E ag fss cs = (ag\<lparr>cg_pending := []\<rparr>, cs, map (\<lambda>a. Inr (Some a)) (cg_pending ag))"
proof (induction fss arbitrary: ag)
  case (Cons fs fss)
  obtain a as where p: "cg_pending ag = a # as" using Cons.prems by (cases "cg_pending ag") auto
  show ?case using Cons.IH[of "ag\<lparr>cg_pending := as\<rparr>"] Cons.prems by (simp add: codeact_step_def p)
qed simp

definition asked :: "'w codeact_env \<Rightarrow> 'w codeact \<Rightarrow> conv_stats \<Rightarrow> 'w codeact \<Rightarrow> conv_stats \<Rightarrow> data \<Rightarrow> bool" where
  \<comment> \<open>the agent has got the response for the conversation\<close>
  "asked E ag cs ag' cs' resp \<longleftrightarrow>
     (\<exists>ms kw. completion (ce_retry E) (ce_litellm E) (ce_fn E) (Messages ms) kw (with_metrics ''agent'' cs (cg_llm ag), cg_world ag) =
        ((cg_llm ag', cg_world ag'), Inr resp)) \<and> cs' = keep_metrics ''agent'' (cg_llm ag') cs"

lemma ask_model_asked:
  assumes "ask_model E ag s ms cs = (ag', cs', Inr (Some a))"
  shows "\<exists>resp. asked E ag cs ag' cs' resp \<and> response_to_actions (PDict resp) (map fst (cg_mcp ag)) = Inr (a # cg_pending ag')"
proof -
  let ?L = "with_metrics ''agent'' cs (cg_llm ag)"
  define kw where "kw = [(''tools'', PList (map PDict (check_tools (cg_tools ag) (lc_model (lo_config ?L))))),
    (''extra_body'', PDict [(''metadata'', to_llm_metadata (ce_web_host E) (lc_model (lo_config ?L)) ''CodeActAgent'' s)])]"
  obtain L' w' r where c: "completion (ce_retry E) (ce_litellm E) (ce_fn E) (Messages ms) kw (?L, cg_world ag) = ((L', w'), r)"
    by (cases "completion (ce_retry E) (ce_litellm E) (ce_fn E) (Messages ms) kw (?L, cg_world ag)") auto
  obtain resp as where "r = Inr resp" "response_to_actions (PDict resp) (map fst (cg_mcp ag)) = Inr (a # as)"
    "ag' = ag\<lparr>cg_llm := L', cg_world := w', cg_pending := as\<rparr>" "cs' = keep_metrics ''agent'' L' cs"
    using assms by (auto simp: ask_model_def Let_def c simp flip: kw_def split: sum.splits list.splits)
  then show ?thesis using c by (intro exI[of _ resp]) (auto simp: asked_def)
qed

lemma step_asks:
  assumes "codeact_step E ag fs cs = (ag', st, cs', Inr (Some a))"
  shows "(cg_world ag' = cg_world ag \<and> cg_llm ag' = cg_llm ag \<and> cs' = cs \<and> (cg_pending ag = [] \<longrightarrow> ag' = ag)) \<or>
    (cg_pending ag = [] \<and> (\<exists>resp. asked E ag cs ag' cs' resp \<and> response_to_actions (PDict resp) (map fst (cg_mcp ag)) = Inr (a # cg_pending ag')))"
proof (cases "\<exists>s ms. ask_model E ag s ms cs = (ag', cs', Inr (Some a)) \<and> cg_pending ag = []")
  case True
  then show ?thesis using ask_model_asked by blast
next
  case False
  then show ?thesis using assms
    by (auto simp: codeact_step_def split: list.splits sum.splits if_splits condense_result.splits prod.splits)
qed

text \<open>
  C19: the actions of a response are worked off one step at a time: a step of an agent without pending actions either asks nothing, or gets one response
  and returns its first action; the following steps return the other actions in their order, in whatever state the controller
  is, without asking the model again and without cost.
\<close>
theorem a_response_is_worked_off:
  assumes "cg_pending ag = []" "codeact_step E ag fs cs = (ag', st, cs', Inr (Some a))" "length fss = length (cg_pending ag')"
  shows "agent_steps E ag' fss cs' = (ag'\<lparr>cg_pending := []\<rparr>, cs', map (\<lambda>x. Inr (Some x)) (cg_pending ag')) \<and>
    (ag' = ag \<and> cs' = cs \<or>
     (\<exists>resp. asked E ag cs ag' cs' resp \<and> response_to_actions (PDict resp) (map fst (cg_mcp ag)) = Inr (a # cg_pending ag')))"
  using pending_steps[OF assms(3)] step_asks[OF assms(2)] assms(1) by blast

theorem a_response_is_worked_off_witness:
  "\<exists>ag' cs' st a. codeact_step step_env step_agent step_state step_stats = (ag', st, cs', Inr (Some a)) \<and>
     agent_steps step_env ag' [step_state] cs' = (ag'\<lparr>cg_pending := []\<rparr>, cs', map (\<lambda>x. Inr (Some x)) (cg_pending ag'))"
proof -
  obtain ag' st cs' a x where s: "codeact_step step_env step_agent step_state step_stats = (ag', st, cs', Inr (Some a))" "cg_pending ag' = [x]"
    by (rule step_taken)
  have "cg_pending step_agent = []" "length [step_state] = length (cg_pending ag')" by (simp_all add: s(2) step_agent_def)
  from a_response_is_worked_off[OF this(1) s(1) this(2)] s(1) show ?thesis by (intro exI[of _ ag'] exI[of _ cs'] exI[of _ st] exI[of _ a] conjI) simp_all
qed

section \<open>Costs\<close>

lemma with_metrics_known [simp]: "map_of (service_to_metrics cs) k = Some m \<Longrightarrow> with_metrics k cs L = L\<lparr>lo_metrics := m\<rparr>"
  by (simp add: with_metrics_def)

lemma keep_metrics_known:
  "map_of (service_to_metrics cs) k = Some m \<Longrightarrow> map_of (service_to_metrics (keep_metrics k L cs)) j =
     (if j = k then Some (lo_metrics L) else map_of (service_to_metrics cs) j)"
  by (simp add: keep_metrics_def dict_has_def)



section \<open>Refused requests\<close>

lemma tries_retry_mark:
  assumes "tries f m kw s r" "f = attempt E T ms" "\<forall>q w w' e. lt_completion E q w = (w', Inl e) \<longrightarrow> exn_retry e = None" "snd r = Inl e"
  shows "exn_retry e = None"
  using assms
proof (induction rule: tries.induct)
  case (last_try kw s r)
  have x: "exn_retry (exn_of y) = None" for y by (cases y) (simp_all add: mk_exn_def)
  have rd: "read_mocked E T ds tools resp = Inl y \<Longrightarrow> exn_retry y = None" for ds tools resp y
    by (auto simp: read_mocked_def Let_def no_choices_def x mk_exn_def split: option.splits pyval.splits list.splits sum.splits)
  show ?case using last_try
    by (auto simp: attempt_def Let_def x no_choices_def mk_exn_def dest: rd split: sum.splits prod.splits if_splits option.splits)
qed simp

lemma logged_class [simp]: "isinstance_exn (log_retry_attempt n k e) = isinstance_exn e" "exn_str (log_retry_attempt n k e) = exn_str e"
  "exn_retry (log_retry_attempt n k e) = Some (n, k)"
  by (simp_all add: log_retry_attempt_def isinstance_exn_def fun_eq_iff)

lemma logged_rate_limited [simp]: "rate_limited (log_retry_attempt n k e) = rate_limited e"
  unfolding rate_limited_def runtime_status_def logged_class by (rule refl)



section \<open>Written calls\<close>

definition keeps_message :: "'w litellm \<Rightarrow> bool" where
  \<comment> \<open>\<^verbatim>\<open>LiteLLMMessage(**d)\<close> has the content and the tool calls of the dictionary\<close>
  "keeps_message E \<longleftrightarrow>
     (\<forall>d. \<exists>d'. lt_message E d = PDict d' \<and> map_of d' ''content'' = map_of d ''content'' \<and> map_of d' ''tool_calls'' = map_of d ''tool_calls'')"

lemma read_written_call:
  assumes "plain (PDict d)" "lt_message E (read_call_message T n a name d) = PDict m"
    "map_of m ''content'' = map_of (read_call_message T n a name d) ''content''"
    "map_of m ''tool_calls'' = map_of (read_call_message T n a name d) ''tool_calls''"
    "map_of resp ''choices'' = Some (PList [PDict (dict_set ''message'' (PDict m) c)])" "map_of resp ''id'' = Some rid"
  shows "response_to_actions (PDict resp) mcp =
    (case call_to_action mcp 0 name d of
       Inl e \<Rightarrow> Inl e
     | Inr (k, act) \<Rightarrow>
         Inr [setattr ''_response_id'' rid ((if k = 0 then combine_thought act (strip a) else act)\<lparr>ev_tool_call_metadata :=
           Some (PDict [(''function_name'', PStr name), (''tool_call_id'', PStr (tool_call_name n)),
                        (''model_response'', PDict resp), (''total_calls_in_response'', PInt 1)])\<rparr>)])"
  using assms json_round_trip[OF assms(1), of "float_text T"]
  by (simp add: response_to_actions_def field_def Let_def response_thought_def read_call_message_def calling_def message_of_def
      call_of_def read_call_def call_metadata_def del: json_dumps.simps split: sum.split)

text \<open>
  C18: for a model without function calling, a reply that writes a call that one of the tools accepts becomes the one action that a native call of
  the tool with these arguments gives: the text before the call is its thought, and its metadata name the call.
\<close>
theorem written_calls_become_actions:
  assumes "keeps_message E" "prepare_request E T L ms kw = Inr (ds, kw', Some tools)"
    and "convert_non_fncall_messages_to_fncall_messages T ds tools = Inr out"
    and "lt_completion E (full_request L ds kw') w = (w', Inr resp)"
    and "map_of resp ''id'' = Some rid" "map_of resp ''choices'' = Some (PList [PDict c])" "map_of c ''message'' = Some (PDict m)"
    and "map_of m ''role'' = Some (PStr ''assistant'')" "map_of m ''content'' = Some (PStr (reply_with_call (float_text T) a name d))"
    and "written_call T tools a name d" "attempt E T ms kw (L, w) = (s', Inr resp')"
  shows "\<exists>n. response_to_actions (PDict resp') mcp =
    (case call_to_action mcp 0 name d of
       Inl e \<Rightarrow> Inl e
     | Inr (k, act) \<Rightarrow>
         Inr [setattr ''_response_id'' rid ((if k = 0 then combine_thought act (strip a) else act)\<lparr>ev_tool_call_metadata :=
           Some (PDict [(''function_name'', PStr name), (''tool_call_id'', PStr (tool_call_name n)),
                        (''model_response'', PDict resp'), (''total_calls_in_response'', PInt 1)])\<rparr>)])"
proof -
  obtain n where n: "read_mocked E T ds tools resp =
      Inr (dict_set ''choices'' (PList [PDict (dict_set ''message'' (lt_message E (read_call_message T n a name d)) c)]) resp)"
    using read_mocked_call[OF assms(3,6,7,8,9,10), of E] by blast
  have r: "resp' = dict_set ''choices'' (PList [PDict (dict_set ''message'' (lt_message E (read_call_message T n a name d)) c)]) resp"
    using assms(11) by (auto simp: attempt_def assms(2,4) n Let_def split: if_splits prod.splits sum.splits)
  obtain m' where m': "lt_message E (read_call_message T n a name d) = PDict m'"
    "map_of m' ''content'' = map_of (read_call_message T n a name d) ''content''"
    "map_of m' ''tool_calls'' = map_of (read_call_message T n a name d) ''tool_calls''"
    using assms(1) unfolding keeps_message_def by blast
  have p: "plain (PDict d)" using assms(10) by (simp add: written_call_def)
  have "map_of resp' ''choices'' = Some (PList [PDict (dict_set ''message'' (PDict m') c)])" "map_of resp' ''id'' = Some rid"
    using assms(5) by (simp_all add: r m'(1))
  from read_written_call[OF p m' this] show ?thesis by blast
qed

theorem written_calls_become_actions_witness:
  "\<exists>s' resp' n. attempt writing linux hello_request [(''tools'', PList (map PDict fetch_tools))] (mock_llm, 0) = (s', Inr resp') \<and>
     response_to_actions (PDict resp') [''fetch''] =
    (case call_to_action [''fetch''] 0 ''fetch'' [(''url'', PStr ''a.org'')] of
       Inl e \<Rightarrow> Inl e
     | Inr (k, act) \<Rightarrow>
         Inr [setattr ''_response_id'' (PStr ''r1'') ((if k = 0 then combine_thought act (strip ''Look.'') else act)\<lparr>ev_tool_call_metadata :=
           Some (PDict [(''function_name'', PStr ''fetch''), (''tool_call_id'', PStr (tool_call_name n)),
                        (''model_response'', PDict resp'), (''total_calls_in_response'', PInt 1)])\<rparr>)])"
proof -
  let ?kw = "[(''tools'', PList (map PDict fetch_tools))]"
  have k: "keeps_message writing" by (simp add: keeps_message_def writing_def flaky_def)
  have "case prepare_request writing linux mock_llm hello_request ?kw of
      Inr (ds, kw', t) \<Rightarrow> t = Some fetch_tools \<and> is_ok (convert_non_fncall_messages_to_fncall_messages linux ds fetch_tools) | Inl _ \<Rightarrow> False"
    by code_simp
  from ok_triple[OF this] obtain ds kw' out where p: "prepare_request writing linux mock_llm hello_request ?kw = Inr (ds, kw', Some fetch_tools)"
    "convert_non_fncall_messages_to_fncall_messages linux ds fetch_tools = Inr out"
    by (elim exE conjE)
  have l: "lt_completion writing (full_request mock_llm ds kw') 0 = (1, Inr written_reply)" by (simp add: writing_def)
  have w: "written_call linux fetch_tools ''Look.'' ''fetch'' [(''url'', PStr ''a.org'')]" by code_simp
  have "\<not> isl (snd (attempt writing linux hello_request ?kw (mock_llm, 0)))" by code_simp
  then obtain s' resp' where a: "attempt writing linux hello_request ?kw (mock_llm, 0) = (s', Inr resp')"
    by (cases "attempt writing linux hello_request ?kw (mock_llm, 0)") (metis isl_def obj_sumE snd_conv)
  have r: "map_of written_reply ''id'' = Some (PStr ''r1'')"
    "map_of written_reply ''choices'' = Some (PList [PDict [(''message'', PDict [(''role'', PStr ''assistant''),
        (''content'', PStr (reply_with_call (float_text linux) ''Look.'' ''fetch'' [(''url'', PStr ''a.org'')]))])]])"
    by (simp_all add: written_reply_def)
  from written_calls_become_actions[OF k p l r _ _ _ w a, of _ "[''fetch'']"] a show ?thesis by simp
qed

end
