(* ===== verification/Runtime_Model.thy ===== *)
theory Runtime_Model
  imports Event_Stream Exceptions Json_Text
begin

text \<open>
  The runtime as a subscriber of the stream (\<^verbatim>\<open>openhands/runtime/base.py\<close>): it runs the actions it is given, answers them with
  observations, and keeps the tokens of code hosts in the environment of its shell up to date
  (with \<^verbatim>\<open>ProviderHandler\<close> of \<^verbatim>\<open>integrations/provider.py\<close>).  The sandbox behind the abstract methods (\<^verbatim>\<open>run\<close>, \<^verbatim>\<open>read\<close>,
  \<^verbatim>\<open>edit\<close>, ...) is a parameter over a state \<open>'w\<close>; so are the service that hands out tokens and the platform.
  Coroutines run to their end; the file store does not fail.
\<close>

section \<open>Tokens of code hosts\<close>

datatype provider_type = GITHUB | GITLAB | BITBUCKET | FORGEJO | AZURE_DEVOPS | ENTERPRISE_SSO

definition all_providers :: "provider_type list" where
  "all_providers = [GITHUB, GITLAB, BITBUCKET, FORGEJO, AZURE_DEVOPS, ENTERPRISE_SSO]"

fun provider_value :: "provider_type \<Rightarrow> string" where
  "provider_value GITHUB = ''github''"
| "provider_value GITLAB = ''gitlab''"
| "provider_value BITBUCKET = ''bitbucket''"
| "provider_value FORGEJO = ''forgejo''"
| "provider_value AZURE_DEVOPS = ''azure_devops''"
| "provider_value ENTERPRISE_SSO = ''enterprise_sso''"

definition get_provider_env_key :: "provider_type \<Rightarrow> string" where
  "get_provider_env_key p = lower (provider_value p @ ''_token'')"

definition check_cmd_action_for_provider_token_ref :: "event \<Rightarrow> provider_type list" where
  "check_cmd_action_for_provider_token_ref e =
     (if \<not> is_a e CmdRunAction then []
      else filter (\<lambda>p. contains (get_provider_env_key p) (lower (str_attr e ''command''))) all_providers)"

section \<open>The runtime\<close>

record 'w sandbox =
  sb_call :: "string \<Rightarrow> event \<Rightarrow> 'w \<Rightarrow> 'w \<times> (exn + event)"      \<comment> \<open>the method of the name on the action\<close>
  sb_methods :: "string list"                                     \<comment> \<open>the action types that it has methods for\<close>
  sb_latest_token :: "provider_type \<Rightarrow> 'w \<Rightarrow> 'w \<times> string option"  \<comment> \<open>\<^verbatim>\<open>_get_latest_provider_token\<close>\<close>
  sb_refresh :: bool                                              \<comment> \<open>whether \<^verbatim>\<open>REFRESH_TOKEN_URL\<close> is set\<close>
  sb_windows :: bool
  sb_now :: "'w \<Rightarrow> string"

record 'w runtime =
  rt_sid :: string
  rt_jupyter :: bool                                   \<comment> \<open>the Jupyter plugin is loaded\<close>
  rt_timeout :: rat                                    \<comment> \<open>\<^verbatim>\<open>config.sandbox.timeout\<close>\<close>
  rt_tokens :: "(provider_type, string option) dict"   \<comment> \<open>\<^verbatim>\<open>git_provider_tokens\<close>\<close>
  rt_status :: "string option"
  rt_reports :: "(string \<times> string) list"            \<comment> \<open>what the status callback got\<close>
  rt_world :: 'w

definition set_runtime_status :: "string \<Rightarrow> string \<Rightarrow> 'w runtime \<Rightarrow> 'w runtime" where
  "set_runtime_status status msg R = R\<lparr>rt_status := Some status, rt_reports := rt_reports R @ [(status, msg)]\<rparr>"

definition call_sandbox :: "'w sandbox \<Rightarrow> string \<Rightarrow> event \<Rightarrow> 'w runtime \<Rightarrow> 'w runtime \<times> (exn + event)" where
  "call_sandbox B name a R = (case sb_call B name a (rt_world R) of (w, r) \<Rightarrow> (R\<lparr>rt_world := w\<rparr>, r))"

section \<open>Exporting tokens\<close>

fun collect_tokens :: "'w sandbox \<Rightarrow> bool \<Rightarrow> provider_type list \<Rightarrow> 'w runtime \<Rightarrow> 'w runtime \<times> (provider_type, string) dict" where
  \<comment> \<open>the loop of \<^verbatim>\<open>get_env_vars\<close>\<close>
  "collect_tokens B latest [] R = (R, [])"
| "collect_tokens B latest (p # ps) R =
     (case map_of (rt_tokens R) p of
        None \<Rightarrow> collect_tokens B latest ps R
      | Some tok \<Rightarrow>
          (case (if latest \<and> sb_refresh B \<and> rt_sid R \<noteq> []
                 then (case sb_latest_token B p (rt_world R) of (w, t) \<Rightarrow> (R\<lparr>rt_world := w\<rparr>, t)) else (R, tok)) of
             (R1, tok1) \<Rightarrow>
               (case collect_tokens B latest ps R1 of
                  (R2, d) \<Rightarrow> (R2, case tok1 of Some (c # t) \<Rightarrow> (p, c # t) # d | _ \<Rightarrow> d))))"

definition get_env_vars :: "'w sandbox \<Rightarrow> provider_type list \<Rightarrow> bool \<Rightarrow> 'w runtime \<Rightarrow> 'w runtime \<times> (provider_type, string) dict" where
  "get_env_vars B providers latest R =
     (if rt_tokens R = [] then (R, [])
      else collect_tokens B latest (if providers = [] then all_providers else providers) R)"

definition expose_env_vars :: "(provider_type, string) dict \<Rightarrow> (string, string) dict" where
  "expose_env_vars d = map (\<lambda>(p, t). (get_provider_env_key p, t)) d"

definition set_event_stream_secrets ::
  "'w sandbox \<Rightarrow> (provider_type, string) dict \<Rightarrow> 'w runtime \<Rightarrow> 'st stream \<Rightarrow> 'w runtime \<times> 'st stream" where
  "set_event_stream_secrets B vars R s =
     (if vars \<noteq> [] then (R, set_secrets (expose_env_vars vars) s)
      else case get_env_vars B [] False R of (R', d) \<Rightarrow> (R', set_secrets (expose_env_vars d) s))"

definition upper :: "string \<Rightarrow> string" where
  \<comment> \<open>\<^verbatim>\<open>str.upper\<close> of the ASCII names of environment variables\<close>
  "upper s = map (\<lambda>c. let n = (of_char c :: nat) in if 97 \<le> n \<and> n \<le> 122 then char_of (n - 32) else c) s"

definition quoted :: "string \<Rightarrow> string" where
  "quoted v = json_dumps (\<lambda>_. []) (PStr v)"

definition ipython_exports :: "(string, string) dict \<Rightarrow> string" where
  "ipython_exports d =
     ''import os'' @ nl @ concat (map (\<lambda>(k, v). ''os.environ['' @ [CHR 0x22] @ k @ [CHR 0x22] @ ''] = '' @ quoted v @ nl) d) @ nl"

definition powershell_exports :: "(string, string) dict \<Rightarrow> string" where
  "powershell_exports d = concat (map (\<lambda>(k, v). ''$env:'' @ k @ '' = '' @ quoted v @ ''; '') d)"

definition bash_exports :: "(string, string) dict \<Rightarrow> string" where
  "bash_exports d = concat (map (\<lambda>(k, v). ''export '' @ k @ ''='' @ quoted v @ ''; '') d)"

definition bashrc_exports :: "(string, string) dict \<Rightarrow> string" where
  "bashrc_exports d =
     concat (map (\<lambda>(k, v). ''touch ~/.bashrc; grep -q '' @ [CHR 0x22] @ ''^export '' @ k @ ''='' @ [CHR 0x22]
        @ '' ~/.bashrc || echo '' @ [CHR 0x22] @ ''export '' @ k @ ''='' @ quoted v @ [CHR 0x22] @ '' >> ~/.bashrc; '') d)"

definition observe :: "event_class \<Rightarrow> data \<Rightarrow> exn + event" where
  \<comment> \<open>a new event of the class\<close>
  "observe c kw = (case dataclass_init c kw of Inl e \<Rightarrow> Inl (exn_of e) | Inr a \<Rightarrow> Inr a)"

definition run_checked :: "'w sandbox \<Rightarrow> string \<Rightarrow> string list \<Rightarrow> string \<Rightarrow> 'w runtime \<Rightarrow> 'w runtime \<times> exn option" where
  \<comment> \<open>a command that has to succeed, for the variables of the given names\<close>
  "run_checked B cmd names target R =
     (case observe CmdRunAction [(''command'', PStr cmd)] of
        Inl e \<Rightarrow> (R, Some e)
      | Inr a \<Rightarrow>
          (case call_sandbox B ''run'' a R of
             (R', Inl e) \<Rightarrow> (R', Some e)
           | (R', Inr obs) \<Rightarrow>
               (R', if is_a obs CmdOutputObservation \<and> exit_code obs = 0 then None
                    else Some (mk_exn ''RuntimeError'' (''Failed to add env vars [dict_keys(['' @ join '', '' (map repr_str names)
                           @ ''])] to '' @ target @ '': '' @ content obs)))))"

definition add_env_vars :: "'w sandbox \<Rightarrow> (string, string) dict \<Rightarrow> 'w runtime \<Rightarrow> 'w runtime \<times> exn option" where
  "add_env_vars B vars R =
     (let d = dict_update [] (map (\<lambda>(k, v). (upper k, v)) vars);
          ipython = (if \<not> rt_jupyter R then (R, None)
                     else case observe IPythonRunCellAction [(''code'', PStr (ipython_exports d))] of
                            Inl e \<Rightarrow> (R, Some e)
                          | Inr a \<Rightarrow> (case call_sandbox B ''run_ipython'' a R of
                                       (R1, Inl e) \<Rightarrow> (R1, Some e) | (R1, Inr _) \<Rightarrow> (R1, None)))
      in case ipython of
           (R1, Some e) \<Rightarrow> (R1, Some e)
         | (R1, None) \<Rightarrow>
             (if d = [] then (R1, None)
              else if sb_windows B then run_checked B (strip (powershell_exports d)) (map fst d) ''environment'' R1
              else case run_checked B (strip (bash_exports d)) (map fst d) ''environment'' R1 of
                     (R2, Some e) \<Rightarrow> (R2, Some e)
                   | (R2, None) \<Rightarrow> run_checked B (strip (bashrc_exports d)) (map fst d) ''.bashrc'' R2))"

definition export_latest_git_provider_tokens :: "'w sandbox \<Rightarrow> event \<Rightarrow> 'w runtime \<Rightarrow> 'st stream \<Rightarrow> 'w runtime \<times> 'st stream" where
  \<comment> \<open>an exception of the export is logged only\<close>
  "export_latest_git_provider_tokens B e R s =
     (let called = check_cmd_action_for_provider_token_ref e
      in if called = [] then (R, s)
         else case get_env_vars B called True R of
                (R1, vars) \<Rightarrow>
                  (if vars = [] then (R1, s)
                   else case set_event_stream_secrets B vars R1 s of
                          (R2, s2) \<Rightarrow> (fst (add_env_vars B (expose_env_vars vars) R2), s2)))"

section \<open>Actions\<close>

definition task_file :: "'w runtime \<Rightarrow> 'st stream \<Rightarrow> string" where
  "task_file R s = get_conversation_dir (rt_sid R) (stream_user s) @ ''TASKS.md''"

definition status_icon :: "string \<Rightarrow> string" where
  \<comment> \<open>the three icons, as UTF-8 bytes\<close>
  "status_icon st =
     (if st = ''in_progress'' then [CHR 0xF0, CHR 0x9F, CHR 0x94, CHR 0x84]
      else if st = ''done'' then [CHR 0xE2, CHR 0x9C, CHR 0x85] else [CHR 0xE2, CHR 0x8F, CHR 0xB3])"

definition task_text :: "nat \<Rightarrow> pyval \<Rightarrow> string res" where
  \<comment> \<open>the lines of a task; its status has to be a key of a dictionary\<close>
  "task_text i t =
     (case t of
        PDict d \<Rightarrow>
          (let get = (\<lambda>k. case map_of d k of Some v \<Rightarrow> v | None \<Rightarrow> PStr []);
               status = (case map_of d ''status'' of Some v \<Rightarrow> v | None \<Rightarrow> PStr ''todo'');
               lines = (\<lambda>icon. str_of_nat i @ ''. '' @ icon @ '' '' @ py_str (get ''title'') @ nl @ py_str (get ''notes'') @ nl)
           in case status of
                PStr st \<Rightarrow> Inr (lines (status_icon st))
              | PList _ \<Rightarrow> Inl (TypeError ''unhashable type: list'')
              | PDict _ \<Rightarrow> Inl (TypeError ''unhashable type: dict'')
              | _ \<Rightarrow> Inr (lines (status_icon ''todo'')))
      | _ \<Rightarrow> Inl (AttributeError ''get''))"

fun task_texts :: "nat \<Rightarrow> pyval list \<Rightarrow> string res" where
  "task_texts i [] = Inr []"
| "task_texts i (t # ts) =
     (case task_text i t of
        Inl e \<Rightarrow> Inl e
      | Inr s \<Rightarrow> (case task_texts (i + 1) ts of Inl e \<Rightarrow> Inl e | Inr r \<Rightarrow> Inr (s @ r)))"

definition task_list_text :: "pyval list \<Rightarrow> string res" where
  "task_list_text ts = (case task_texts 1 ts of Inl e \<Rightarrow> Inl e | Inr s \<Rightarrow> Inr (''# Task List'' @ nl @ nl @ s))"

definition task_observation :: "string \<Rightarrow> pyval \<Rightarrow> pyval list \<Rightarrow> exn + event" where
  "task_observation c command ts =
     observe TaskTrackingObservation [(''content'', PStr c), (''command'', command), (''task_list'', PList ts)]"

definition track_tasks :: "event \<Rightarrow> 'w runtime \<Rightarrow> 'st stream \<Rightarrow> 'st stream \<times> (exn + event)" where
  \<comment> \<open>the task tracking action of \<^verbatim>\<open>run_action\<close>\<close>
  "track_tasks a R s =
     (let path = task_file R s; command = (case attr a ''command'' of Some v \<Rightarrow> v | None \<Rightarrow> PNone)
      in if command = PStr ''plan'' then
           (case attr a ''task_list'' of
              Some (PList ts) \<Rightarrow>
                (case task_list_text ts of
                   Inl e \<Rightarrow> (s, Inl (exn_of e))
                 | Inr t \<Rightarrow>
                     (s\<lparr>files := mem_write path (PlainText t) (files s)\<rparr>,
                      task_observation (''Task list has been updated with '' @ str_of_nat (length ts)
                        @ '' items. Stored in session directory: '' @ path) command ts))
            | _ \<Rightarrow> (s, Inl (exn_of (TypeError ''object is not iterable''))))
         else if command = PStr ''view'' then
           (s, case mem_read path (files s) of
                 Inr (PlainText t) \<Rightarrow> task_observation t command []
               | Inr _ \<Rightarrow> Inl (exn_of (NotModelled ''a task file that is not text''))
               | Inl _ \<Rightarrow> task_observation (''No task list found. Use the '' @ [CHR 0x22] @ ''plan'' @ [CHR 0x22] @ '' command to create one.'') command [])
         else (s, task_observation (''Unknown command: '' @ py_str command) command []))"

definition awaiting_confirmation :: "event \<Rightarrow> bool" where
  "awaiting_confirmation a \<longleftrightarrow> attr a ''confirmation_state'' = Some (PStr ''awaiting_confirmation'')"

definition rejected :: "event \<Rightarrow> bool" where
  "rejected a \<longleftrightarrow> attr a ''confirmation_state'' = Some (PStr ''rejected'')"

definition run_action :: "'w sandbox \<Rightarrow> event \<Rightarrow> 'w runtime \<Rightarrow> 'st stream \<Rightarrow> 'w runtime \<times> 'st stream \<times> (exn + event)" where
  "run_action B a R s =
     (let kind = type_name ''action'' (ev_class a); say = (\<lambda>c t. (R, s, observe c [(''content'', PStr t)]))
      in if \<not> runnable a then
           (if is_a a AgentThinkAction then say AgentThinkObservation ''Your thought has been logged.''
            else if is_a a TaskTrackingAction then (case track_tasks a R s of (s', r) \<Rightarrow> (R, s', r))
            else say NullObservation [])
         else if awaiting_confirmation a then say NullObservation []
         else if ACTION_TYPE_TO_CLASS kind = None then say ErrorObservation (''Action '' @ kind @ '' does not exist.'')
         else if kind \<notin> set (sb_methods B)
         then say ErrorObservation (''Action '' @ kind @ '' is not supported in the current runtime.'')
         else if rejected a
         then say UserRejectObservation ''Action has been rejected by the user! Waiting for further user input.''
         else case call_sandbox B kind a R of (R', r) \<Rightarrow> (R', s, r))"

definition error_text :: "exn \<Rightarrow> string" where
  "error_text e = exn_class e @ '': '' @ exn_str e"

definition answer_action :: "'w sandbox \<Rightarrow> event \<Rightarrow> event \<Rightarrow> 'w runtime \<Rightarrow> 'st stream \<Rightarrow> 'st stream \<times> pyerr option" where
  \<comment> \<open>publishing the observation as the answer to the action\<close>
  "answer_action B e obs R s =
     (let o1 = obs\<lparr>ev_cause := Some (eid e), ev_tool_call_metadata := ev_tool_call_metadata e\<rparr>
      in if is_a obs NullObservation then (s, None)
         else case add_event (sb_now B (rt_world R)) o1 (case ev_source e of Some src \<Rightarrow> src | None \<Rightarrow> AGENT) s of
                (s', _, err) \<Rightarrow> (s', err))"

definition runtime_handle_action :: "'w sandbox \<Rightarrow> event \<Rightarrow> 'w runtime \<Rightarrow> 'st stream \<Rightarrow> 'w runtime \<times> 'st stream \<times> pyerr option" where
  \<comment> \<open>\<^verbatim>\<open>_handle_action\<close>\<close>
  "runtime_handle_action B e0 R s =
     (let e = (if ev_timeout e0 = None then set_hard_timeout (Some (rt_timeout R)) (PBool False) e0 else e0)
      in case export_latest_git_provider_tokens B e R s of
           (R1, s1) \<Rightarrow>
             (case (if is_a e MCPAction then (case call_sandbox B ''call_tool_mcp'' e R1 of (R', r) \<Rightarrow> (R', s1, r)) else run_action B e R1 s1) of
                (R2, s2, Inr obs) \<Rightarrow> (case answer_action B e obs R2 s2 of (s3, err) \<Rightarrow> (R2, s3, err))
              | (R2, s2, Inl x) \<Rightarrow>
                  (if isinstance_exn x ''PermissionError''
                   then (case observe ErrorObservation [(''content'', PStr (exn_str x))] of
                           Inl _ \<Rightarrow> (R2, s2, Some (NotModelled ''ErrorObservation''))
                         | Inr obs \<Rightarrow> (case answer_action B e obs R2 s2 of (s3, err) \<Rightarrow> (R2, s3, err)))
                   else if isinstance_exn x ''NetworkError'' \<or> isinstance_exn x ''AgentRuntimeDisconnectedError''
                   then (set_runtime_status ''STATUS$ERROR_RUNTIME_DISCONNECTED'' (error_text x) R2, s2, None)
                   else (set_runtime_status ''STATUS$ERROR'' (error_text x) R2, s2, None))))"

definition runtime_on_event :: "'w sandbox \<Rightarrow> event \<Rightarrow> 'w runtime \<Rightarrow> 'st stream \<Rightarrow> 'w runtime \<times> 'st stream \<times> pyerr option" where
  "runtime_on_event B e R s = (if is_action e then runtime_handle_action B e R s else (R, s, None))"

end
