(* ===== verification/Runtime_Properties.thy ===== *)
theory Runtime_Properties
  imports Runtime_Model Controller_Properties
begin

text \<open>
  Properties of the runtime: every action that can run is answered by an observation that resolves the pending action of the controller, an action that
  waits for confirmation or was rejected never reaches the sandbox, the task list of a conversation is read as it was written, and what a refresh of tokens
  does to the other secrets.
\<close>

section \<open>An example\<close>

definition shell :: "nat sandbox" where
  \<comment> \<open>a sandbox that counts its calls and answers each of them with an error\<close>
  "shell =
     \<lparr>sb_call = (\<lambda>name a w. (w + 1, Inr (error_observation ''no such file'' []))), sb_methods = [''run'', ''read''],
      sb_latest_token = (\<lambda>_ w. (w, None)), sb_refresh = False, sb_windows = False,
      sb_now = (\<lambda>_. ''2025-01-01T00:00:00'')\<rparr>"

definition shell_runtime :: "nat runtime" where
  "shell_runtime =
     \<lparr>rt_sid = ''s'', rt_jupyter = False, rt_timeout = 120, rt_tokens = [(GITHUB, Some ''ghp'')], rt_status = None,
      rt_reports = [], rt_world = 0\<rparr>"

definition shell_stream :: "pickle stream" where
  "shell_stream = set_secrets [(''api_key'', ''s3cret'')] (strm (sample_ctl RUNNING True 2))"

definition shell_action :: "event_class \<Rightarrow> data \<Rightarrow> event" where
  "shell_action c kw =
     (case dataclass_init c kw of Inr e \<Rightarrow> e\<lparr>ev_id := Some 0, ev_source := Some AGENT\<rparr> | Inl _ \<Rightarrow> blank NullAction [])"

section \<open>Causes\<close>

lemma event_to_dict_cause:
  assumes "event_to_dict e = Inr d" "ev_cause e = Some i" shows "map_of d ''cause'' = Some (PInt i)"
proof -
  obtain t where t: "top_entries e TOP_KEYS = Inr t" using assms(1) by (auto simp: event_to_dict_def split: sum.splits)
  have "map_of t ''cause'' = Some (PInt i)"
    using map_of_top_entries[OF t, of "''cause''"] assms(2) by (simp add: TOP_KEYS_def)
  then show ?thesis using assms(1) t by (auto simp: event_to_dict_def Let_def split: if_splits)
qed

lemma set_underscores_cause_kept:
  "set_underscores d ks e = Inr e' \<Longrightarrow> map_of d ''cause'' = Some (PInt i) \<Longrightarrow> ev_cause e = Some i \<Longrightarrow> ev_cause e' = Some i"
proof (induction ks arbitrary: e)
  case (Cons k ks)
  then show ?case by (auto simp: set_underscore_def split: option.splits sum.splits if_splits pyval.splits)
qed simp

lemma set_underscores_cause:
  "set_underscores d ks e = Inr e' \<Longrightarrow> ''cause'' \<in> set ks \<Longrightarrow> map_of d ''cause'' = Some (PInt i) \<Longrightarrow> ev_cause e' = Some i"
proof (induction ks arbitrary: e)
  case (Cons k ks)
  show ?case
  proof (cases "k = ''cause''")
    case True
    then have "set_underscores d ks (e\<lparr>ev_cause := Some i\<rparr>) = Inr e'" using Cons.prems by (simp add: set_underscore_def)
    then show ?thesis by (rule set_underscores_cause_kept) (use Cons.prems in simp_all)
  next
    case False
    then show ?thesis using Cons by (auto split: option.splits sum.splits)
  qed
qed simp

lemma published_event:
  assumes "add_event now e src s = (s', e', None)" "ev_cause e = Some i"
  shows "\<exists>x. queue s' = queue s @ [x] \<and> ev_cause x = Some i"
proof -
  obtain d0 d e2 where a: "e' = e\<lparr>ev_timestamp := Some now, ev_source := Some src, ev_id := Some (snd (cur_id s))\<rparr>"
    "event_to_dict e' = Inr d0" "event_from_dict (replace_secrets s d0) = Inr e2"
    "s' = (let page = write_page s @ [d];
         s2 = (fst (cur_id s))\<lparr>cur_id_cache := Some (snd (cur_id s) + 1),
                write_page := (if int (length page) = cache_size s then [] else page)\<rparr>;
         s3 = s2\<lparr>files := mem_write (get_filename_for_id s (eid e2)) (Json (PDict d)) (files s)\<rparr>;
         s4 = store_cache_page s3 page
       in s4\<lparr>queue := queue s @ [e2]\<rparr>)"
    using add_event_cases[OF assms(1)] by metis
  have "ev_cause e' = Some i" using a(1) assms(2) by simp
  then have "map_of (replace_secrets s d0) ''cause'' = Some (PInt i)"
    using event_to_dict_cause[OF a(2)] by (simp add: replace_secrets_def map_of_replace_secrets TOP_LEVEL_PROTECTED_FIELDS_def)
  then have "ev_cause e2 = Some i"
    using a(3) set_underscores_cause[of "replace_secrets s d0" UNDERSCORE_KEYS _ e2 i]
    by (auto simp: event_from_dict_def Let_def UNDERSCORE_KEYS_def split: sum.splits)
  then show ?thesis by (simp add: a(4) Let_def)
qed

section \<open>Exporting tokens\<close>

lemma export_stream: "snd (export_latest_git_provider_tokens B e R s) = s\<lparr>secrets := secrets (snd (export_latest_git_provider_tokens B e R s))\<rparr>"
  by (simp add: export_latest_git_provider_tokens_def set_event_stream_secrets_def set_secrets_def Let_def split: prod.splits)

text \<open>
  C22: when the command of an action names a token and one of the named tokens is known, the secrets of the stream are replaced by
  the tokens that the command names: every other secret, a token of another host or a secret of the user, is no
  longer hidden in the events that are stored from then on.
\<close>
theorem token_refresh_forgets_other_secrets:
  assumes "check_cmd_action_for_provider_token_ref e \<noteq> []"
    "get_env_vars B (check_cmd_action_for_provider_token_ref e) True R = (R', (p, t) # vars)"
  shows "secrets (snd (export_latest_git_provider_tokens B e R s)) = expose_env_vars ((p, t) # vars) \<and>
    (\<forall>k. k \<notin> set (map (get_provider_env_key \<circ> fst) ((p, t) # vars)) \<longrightarrow>
       map_of (secrets (snd (export_latest_git_provider_tokens B e R s))) k = None)"
proof -
  have s: "secrets (snd (export_latest_git_provider_tokens B e R s)) = expose_env_vars ((p, t) # vars)"
    using assms by (simp add: export_latest_git_provider_tokens_def set_event_stream_secrets_def set_secrets_def)
  have "map_of (expose_env_vars d) k = None" if "k \<notin> set (map (get_provider_env_key \<circ> fst) d)" for d k
    using that by (force simp: expose_env_vars_def map_of_eq_None_iff)
  then show ?thesis unfolding s by blast
qed

theorem token_refresh_forgets_other_secrets_witness:
  "map_of (secrets shell_stream) ''api_key'' = Some ''s3cret'' \<and>
   map_of (secrets (snd (export_latest_git_provider_tokens shell (shell_action CmdRunAction [(''command'', PStr ''echo $GITHUB_TOKEN'')])
      shell_runtime shell_stream))) ''api_key'' = None"
proof -
  let ?e = "shell_action CmdRunAction [(''command'', PStr ''echo $GITHUB_TOKEN'')]"
  have c: "check_cmd_action_for_provider_token_ref ?e = [GITHUB]" by code_simp
  have g: "get_env_vars shell (check_cmd_action_for_provider_token_ref ?e) True shell_runtime = (shell_runtime, [(GITHUB, ''ghp'')])"
    by (simp add: c get_env_vars_def shell_def shell_runtime_def)
  have "''api_key'' \<notin> set (map (get_provider_env_key \<circ> fst) [(GITHUB, ''ghp'')])" by code_simp
  moreover have "check_cmd_action_for_provider_token_ref ?e \<noteq> []" by (simp add: c)
  ultimately have "map_of (secrets (snd (export_latest_git_provider_tokens shell ?e shell_runtime shell_stream))) ''api_key'' = None"
    using token_refresh_forgets_other_secrets[OF _ g, of shell_stream] by blast
  then show ?thesis by (simp add: shell_stream_def set_secrets_def)
qed

section \<open>Answers\<close>

definition supported :: "'w sandbox \<Rightarrow> event \<Rightarrow> bool" where
  \<comment> \<open>the sandbox has a method for the action\<close>
  "supported B a \<longleftrightarrow> type_name ''action'' (ev_class a) \<in> set (sb_methods B) \<and> ACTION_TYPE_TO_CLASS (type_name ''action'' (ev_class a)) \<noteq> None"

definition answers :: "'w sandbox \<Rightarrow> bool" where
  \<comment> \<open>what a method of a sandbox promises: it returns a new observation, or it is refused by the operating system\<close>
  "answers B \<longleftrightarrow>
     (\<forall>name a w. case sb_call B name a w of
        (_, Inr obs) \<Rightarrow> ev_class obs \<noteq> NullObservation
      | (_, Inl x) \<Rightarrow> isinstance_exn x ''PermissionError'')"

lemma call_answers:
  assumes "answers B" "call_sandbox B name a R = (R', r)"
  shows "case r of Inr obs \<Rightarrow> ev_class obs \<noteq> NullObservation | Inl x \<Rightarrow> isinstance_exn x ''PermissionError''"
proof -
  show ?thesis using assms(2) assms(1)[unfolded answers_def, rule_format, of name a "rt_world R"]
    by (auto simp: call_sandbox_def split: prod.splits)
qed

lemma observe_class: "observe c kw = Inr x \<Longrightarrow> c \<noteq> CmdOutputObservation \<Longrightarrow> ev_class x = c"
  by (auto simp: observe_def dataclass_init_def Let_def blank_def split: sum.splits if_splits)

lemma run_answers:
  assumes "answers B" "runnable a" "\<not> awaiting_confirmation a" "run_action B a R s = (R', s', r)"
  shows "s' = s \<and> (case r of Inr obs \<Rightarrow> ev_class obs \<noteq> NullObservation | Inl x \<Rightarrow> isinstance_exn x ''PermissionError'')"
proof -
  have said: "\<exists>x. observe c [(''content'', PStr t)] = Inr x \<and> ev_class x \<noteq> NullObservation"
    if "c = ErrorObservation \<or> c = UserRejectObservation" for c t
    using that by (auto simp: observe_def dataclass_init_def class_defs bind_args_def Let_def blank_def)
  show ?thesis
  proof (cases "supported B a \<and> \<not> rejected a")
    case True
    then have "call_sandbox B (type_name ''action'' (ev_class a)) a R = (R', r)" "s' = s"
      using assms(2-4) by (auto simp: run_action_def supported_def Let_def split: prod.splits)
    then show ?thesis using call_answers[OF assms(1)] by blast
  next
    case False
    then obtain c t where o: "c = ErrorObservation \<or> c = UserRejectObservation" "r = observe c [(''content'', PStr t)]" "s' = s"
      using assms(2-4) by (auto simp: run_action_def supported_def Let_def split: if_splits)
    obtain x where "observe c [(''content'', PStr t)] = Inr x" "ev_class x \<noteq> NullObservation" using said[OF o(1)] by blast
    then show ?thesis using o(2,3) by simp
  qed
qed

lemma answer_published:
  assumes "answer_action B e obs R s = (s', None)" "ev_class obs \<noteq> NullObservation"
  shows "\<exists>x. queue s' = queue s @ [x] \<and> ev_cause x = Some (eid e)"
  using assms published_event[where i = "eid e"] by (fastforce simp: answer_action_def Let_def split: prod.splits)

lemma hard_timeout_keeps [simp]:
  "ev_class (set_hard_timeout v b e) = ev_class e" "eid (set_hard_timeout v b e) = eid e"
  "ev_source (set_hard_timeout v b e) = ev_source e" "ev_tool_call_metadata (set_hard_timeout v b e) = ev_tool_call_metadata e"
  by (simp_all add: set_hard_timeout_def setattr_def eid_def Let_def)

lemma hard_timeout_attr: "k \<noteq> ''blocking'' \<Longrightarrow> attr (set_hard_timeout v b e) k = attr e k"
  by (cases "map_of (ev_fields e) ''blocking''"; cases "map_of (ev_dyn e) ''blocking''")
    (simp_all add: set_hard_timeout_def hasattr_def setattr_def attr_def Let_def cong: option.case_cong)

lemma hard_timeout_refs [simp]:
  "check_cmd_action_for_provider_token_ref (set_hard_timeout v b e) = check_cmd_action_for_provider_token_ref e"
proof -
  have "str_attr (set_hard_timeout v b e) ''command'' = str_attr e ''command''" by (simp add: str_attr_def hard_timeout_attr)
  then show ?thesis by (simp add: check_cmd_action_for_provider_token_ref_def)
qed

lemma hard_timeout_runs [simp]:
  "runnable (set_hard_timeout v b e) = runnable e" "awaiting_confirmation (set_hard_timeout v b e) = awaiting_confirmation e"
  "rejected (set_hard_timeout v b e) = rejected e"
  by (simp_all add: runnable_def awaiting_confirmation_def rejected_def hard_timeout_attr)



section \<open>Confirmation\<close>

text \<open>
  C12: an action that waits for the confirmation of the user, or that the user has rejected, never reaches the sandbox, unless it calls a tool of an MCP server or
  its command names a token: the sandbox stays as it is; while the action waits, the stream does too.
\<close>
theorem unconfirmed_actions_do_not_run:
  assumes "awaiting_confirmation e \<or> rejected e" "\<not> is_a e MCPAction" "check_cmd_action_for_provider_token_ref e = []"
    and "runtime_on_event B e R s = (R', s', err)"
  shows "rt_world R' = rt_world R \<and> (awaiting_confirmation e \<and> runnable e \<longrightarrow> R' = R \<and> s' = s \<and> err = None)"
proof -
  define e1 where "e1 = (if ev_timeout e = None then set_hard_timeout (Some (rt_timeout R)) (PBool False) e else e)"
  have e1: "awaiting_confirmation e1 = awaiting_confirmation e" "rejected e1 = rejected e" "runnable e1 = runnable e" "ev_class e1 = ev_class e"
    "check_cmd_action_for_provider_token_ref e1 = []"
    using assms(3) by (simp_all add: e1_def)
  have x: "export_latest_git_provider_tokens B e1 R s = (R, s)" by (simp add: export_latest_git_provider_tokens_def e1(5))
  obtain R2 s2 r where r: "run_action B e1 R s = (R2, s2, r)" by (cases "run_action B e1 R s")
  have R2: "R2 = R"
    using r assms(1) by (auto simp: run_action_def Let_def e1 split: if_splits prod.splits)
  have n: "s2 = s \<and> (\<exists>x. r = Inr x \<and> ev_class x = NullObservation)" if "awaiting_confirmation e" "runnable e"
    using r that by (auto simp: run_action_def Let_def e1 observe_def dataclass_init_def class_defs bind_args_def blank_def)
  show ?thesis
  proof (cases "is_action e")
    case True
    then have h: "runtime_handle_action B e R s = (R', s', err)" using assms(4) by (simp add: runtime_on_event_def)
    have w: "rt_world R' = rt_world R"
      using h assms(2)
      by (auto simp: runtime_handle_action_def Let_def x r R2 e1 set_runtime_status_def simp flip: e1_def split: sum.splits prod.splits if_splits)
    have "R' = R \<and> s' = s \<and> err = None" if a: "awaiting_confirmation e" "runnable e"
      using h n[OF a] assms(2) by (auto simp: runtime_handle_action_def Let_def x r R2 e1 answer_action_def simp flip: e1_def)
    then show ?thesis using w by blast
  next
    case False
    then show ?thesis using assms(4) by (simp add: runtime_on_event_def)
  qed
qed

theorem unconfirmed_actions_do_not_run_witness:
  "\<exists>R' s' err. runtime_on_event shell (shell_action CmdRunAction [(''command'', PStr ''ls''), (''confirmation_state'', PStr ''rejected'')])
     shell_runtime shell_stream = (R', s', err) \<and> rt_world R' = 0"
proof -
  let ?e = "shell_action CmdRunAction [(''command'', PStr ''ls''), (''confirmation_state'', PStr ''rejected'')]"
  obtain R' s' err where r: "runtime_on_event shell ?e shell_runtime shell_stream = (R', s', err)"
    by (cases "runtime_on_event shell ?e shell_runtime shell_stream")
  have "awaiting_confirmation ?e \<or> rejected ?e" "\<not> is_a ?e MCPAction" "check_cmd_action_for_provider_token_ref ?e = []" by code_simp+
  from unconfirmed_actions_do_not_run[OF this r] r show ?thesis by (auto simp: shell_runtime_def)
qed

text \<open>
  The call of an MCP tool is different: the controller never asks for its confirmation, and the runtime runs it whatever the user answered.
\<close>
lemma mcp_calls_are_never_confirmed:
  assumes "is_a a MCPAction"
  shows "check_confirmation A m a = a"
    and "check_cmd_action_for_provider_token_ref a = []"
    and "call_sandbox B ''call_tool_mcp'' (if ev_timeout a = None then set_hard_timeout (Some (rt_timeout R)) (PBool False) a else a) R = (R', Inr obs) \<Longrightarrow>
      fst (runtime_on_event B a R s) = R'"
  using assms
  by (auto simp: check_confirmation_def confirmable_def check_cmd_action_for_provider_token_ref_def runtime_on_event_def is_action_def actions_def
      runtime_handle_action_def export_latest_git_provider_tokens_def split: prod.splits)

section \<open>The task list\<close>

lemma task_file_is_no_event: "rt_sid R = sid s \<Longrightarrow> task_file R s \<noteq> get_filename_for_id s i"
  by (simp add: task_file_def get_filename_for_id_def get_conversation_event_filename_def get_conversation_events_dir_def)

text \<open>
  A task list that has been planned is viewed as it was written, until the next plan: the text of the list is what the next view shows, and
  no event of the stream is touched.
\<close>
theorem planned_tasks_are_viewed:
  assumes "is_a plan TaskTrackingAction" "attr plan ''command'' = Some (PStr ''plan'')" "attr plan ''task_list'' = Some (PList ts)"
    and "is_a view TaskTrackingAction" "attr view ''command'' = Some (PStr ''view'')"
    and "task_list_text ts = Inr shown" "rt_sid R = sid s" "run_action B plan R s = (R', s', r)"
  shows "R' = R \<and> (\<exists>x. r = Inr x \<and> attr x ''task_list'' = Some (PList ts)) \<and>
    (\<exists>x. run_action B view R s' = (R, s', Inr x) \<and> attr x ''content'' = Some (PStr shown)) \<and>
    (\<forall>i. get_event s' i = get_event s i)"
proof -
  have nr: "\<not> runnable plan" "\<not> runnable view" using assms(1,4) by (simp_all add: runnable_def class_defs)
  have made: "\<exists>x. task_observation c command us = Inr x \<and> attr x ''task_list'' = Some (PList us) \<and> attr x ''content'' = Some (PStr c)"
    for c command us
    by (simp add: task_observation_def observe_def dataclass_init_def class_defs bind_args_def blank_def attr_def Let_def)
  have run: "run_action B plan R s = (R, s\<lparr>files := mem_write (task_file R s) (PlainText shown) (files s)\<rparr>,
      task_observation (''Task list has been updated with '' @ str_of_nat (length ts)
        @ '' items. Stored in session directory: '' @ task_file R s) (PStr ''plan'') ts)"
    by (simp add: run_action_def nr assms(1-3,6) track_tasks_def Let_def)
  have s': "s' = s\<lparr>files := mem_write (task_file R s) (PlainText shown) (files s)\<rparr>" "R' = R"
    "\<exists>x. r = Inr x \<and> attr x ''task_list'' = Some (PList ts)"
    using assms(8) made unfolding run by blast+
  have f: "task_file R s' = task_file R s" by (simp add: s'(1) task_file_def)
  have "mem_read (task_file R s') (files s') = Inr (PlainText shown)" by (simp add: f) (simp add: s'(1) mem_read_def mem_write_def)
  then have "\<exists>x. run_action B view R s' = (R, s', Inr x) \<and> attr x ''content'' = Some (PStr shown)"
    using made[of shown "PStr ''view''" "[]"] by (auto simp: run_action_def nr assms(4,5) track_tasks_def Let_def)
  moreover have "get_event s' i = get_event s i" for i
    using task_file_is_no_event[OF assms(7), of i] by (simp add: s'(1) get_event_def filename_simps mem_read_def mem_write_def)
  ultimately show ?thesis using s'(2,3) by blast
qed

theorem planned_tasks_are_viewed_witness:
  "\<exists>R' s' r. run_action shell (shell_action TaskTrackingAction [(''command'', PStr ''plan''),
       (''task_list'', PList [PDict [(''title'', PStr ''Test'')]])]) shell_runtime shell_stream = (R', s', r) \<and>
     (\<exists>x. run_action shell (shell_action TaskTrackingAction [(''command'', PStr ''view'')]) shell_runtime s' = (shell_runtime, s', Inr x) \<and>
        attr x ''content'' = Some (PStr (''# Task List'' @ nl @ nl @ ''1. '' @ status_icon ''todo'' @ '' Test'' @ nl @ nl)))"
proof -
  let ?p = "shell_action TaskTrackingAction [(''command'', PStr ''plan''), (''task_list'', PList [PDict [(''title'', PStr ''Test'')]])]"
  let ?v = "shell_action TaskTrackingAction [(''command'', PStr ''view'')]"
  obtain R' s' r where r: "run_action shell ?p shell_runtime shell_stream = (R', s', r)" by (cases "run_action shell ?p shell_runtime shell_stream")
  have a: "is_a ?p TaskTrackingAction" "attr ?p ''command'' = Some (PStr ''plan'')" "attr ?p ''task_list'' = Some (PList [PDict [(''title'', PStr ''Test'')]])"
    "is_a ?v TaskTrackingAction" "attr ?v ''command'' = Some (PStr ''view'')"
    "task_list_text [PDict [(''title'', PStr ''Test'')]] = Inr (''# Task List'' @ nl @ nl @ ''1. '' @ status_icon ''todo'' @ '' Test'' @ nl @ nl)"
    "rt_sid shell_runtime = sid shell_stream" by code_simp+
  from planned_tasks_are_viewed[OF a r]
  have "\<exists>x. run_action shell ?v shell_runtime s' = (shell_runtime, s', Inr x) \<and>
      attr x ''content'' = Some (PStr (''# Task List'' @ nl @ nl @ ''1. '' @ status_icon ''todo'' @ '' Test'' @ nl @ nl))" by (elim conjE)
  with r show ?thesis by (intro exI[of _ R'] exI[of _ s'] exI[of _ r] conjI)
qed

end
