(* ===== verification/Bash_Session.thy ===== *)
theory Bash_Session
  imports Runtime_Model Fn_Call
begin

text \<open>
  The shell of a sandbox (\<^verbatim>\<open>openhands/runtime/utils/bash.py\<close>): commands are typed into a tmux pane, and the text of the pane is read until a prompt
  appears that carries the exit code as JSON (\<^verbatim>\<open>CmdOutputMetadata\<close> of \<^verbatim>\<open>events/observation/commands.py\<close>), or until a timeout.  The
  pane, the clock and the parser of the package bashlex are the record \<open>terminal\<close>, over a state \<open>'w\<close> of the world that also changes while the session
  sleeps.  Time passes only in the operations of the record.  Starting and killing the tmux server is left out; \<^verbatim>\<open>upper\<close> is for ASCII.
\<close>

section \<open>Prompts\<close>

definition PS1_JSON :: string where "PS1_JSON = ''###PS1JSON###''"
definition PS1_END :: string where "PS1_END = ''###PS1END###''"

definition CMD_OUTPUT_PS1_END :: string where
  "CMD_OUTPUT_PS1_END = nl @ PS1_END"

record ps1_match =
  pm_start :: nat
  pm_end :: nat
  pm_group :: string

lemma find_sub_drop: "find_sub p (drop n s) = Some (a, b) \<Longrightarrow> length p + length b \<le> length s"
  by (drule find_sub_shorter, drule arg_cong[of _ _ length]) simp

function ps1_scan :: "nat \<Rightarrow> bool \<Rightarrow> string \<Rightarrow> ps1_match list" where
  \<comment> \<open>the matches of the regular expression; \<open>bol\<close> says that a line begins here\<close>
  "ps1_scan i bol [] = []"
| "ps1_scan i bol (c # s) =
     (case (if bol \<and> startswith (c # s) PS1_JSON then find_sub PS1_END (drop (length PS1_JSON) (c # s)) else None) of
        Some (g, rest) \<Rightarrow>
          (let j = i + length PS1_JSON + length g + length PS1_END
           in \<lparr>pm_start = i, pm_end = j, pm_group = g\<rparr> # ps1_scan j False rest)
      | None \<Rightarrow> ps1_scan (i + 1) (c = CHR 0x0A) s)"
  by pat_completeness auto
termination
proof (relation "measure (\<lambda>(i, bol, s). length s)", simp_all only: in_measure case_prod_conv wf_measure)
  fix i j :: nat and bol :: bool and c :: char and s g rest :: string and p
  assume "(if bol \<and> startswith (c # s) PS1_JSON then find_sub PS1_END (drop (length PS1_JSON) (c # s)) else None) = Some p" and "(g, rest) = p"
  then have "find_sub PS1_END (drop (length PS1_JSON) (c # s)) = Some (g, rest)" by (simp split: if_splits)
  from find_sub_drop[OF this] show "length rest < length (c # s)" by (simp add: PS1_END_def)
qed simp

definition matches_ps1_metadata :: "string \<Rightarrow> ps1_match list" where
  \<comment> \<open>a match whose JSON the model does not read is kept: reading it again is the error\<close>
  "matches_ps1_metadata s =
     filter (\<lambda>m. case json_loads (strip (pm_group m)) of Inr _ \<Rightarrow> True | Inl (NotModelled _) \<Rightarrow> True | Inl _ \<Rightarrow> False) (ps1_scan 0 True s)"

definition int_of_text :: "pyval \<Rightarrow> int res" where
  \<comment> \<open>\<^verbatim>\<open>int(float(str(v)))\<close>\<close>
  "int_of_text v =
     (let trunc = (\<lambda>r :: rat. if r < 0 then - \<lfloor>- r\<rfloor> else \<lfloor>r\<rfloor>)
      in case v of
           PInt i \<Rightarrow> Inr i
         | PFloat r \<Rightarrow> Inr (trunc r)
         | _ \<Rightarrow> (case py_float_text (py_str v) of Inl e \<Rightarrow> Inl e | Inr r \<Rightarrow> Inr (trunc r)))"

definition number_field :: "string \<Rightarrow> data \<Rightarrow> data res" where
  \<comment> \<open>a number that cannot be read becomes \<open>-1\<close>\<close>
  "number_field k d =
     (case map_of d k of
        None \<Rightarrow> Inr d
      | Some v \<Rightarrow>
          (case int_of_text v of
             Inr i \<Rightarrow> Inr (dict_set k (PInt i) d)
           | Inl (NotModelled e) \<Rightarrow> Inl (NotModelled e)
           | Inl _ \<Rightarrow> Inr (dict_set k (PInt (-1)) d)))"

definition valid_metadata :: "data \<Rightarrow> bool" where
  "valid_metadata d \<longleftrightarrow>
     list_all (\<lambda>k. case map_of d k of None \<Rightarrow> True | Some PNone \<Rightarrow> True | Some (PStr _) \<Rightarrow> True | _ \<Rightarrow> False)
       [''username'', ''hostname'', ''working_dir'', ''py_interpreter_path''] \<and>
     list_all (\<lambda>k. case map_of d k of None \<Rightarrow> True | Some (PStr _) \<Rightarrow> True | _ \<Rightarrow> False) [''prefix'', ''suffix'']"

definition from_ps1_match :: "ps1_match \<Rightarrow> data res" where
  "from_ps1_match m =
     (case json_loads (pm_group m) of
        Inl e \<Rightarrow> Inl e
      | Inr (PDict d) \<Rightarrow>
          (case number_field ''pid'' d of
             Inl e \<Rightarrow> Inl e
           | Inr d1 \<Rightarrow>
               (case number_field ''exit_code'' d1 of
                  Inl e \<Rightarrow> Inl e
                | Inr d2 \<Rightarrow> (if valid_metadata d2 then Inr (metadata_init d2)
                             else Inl (ValueError ''validation error for CmdOutputMetadata''))))
      | Inr (PList _) \<Rightarrow> Inl (TypeError ''argument after ** must be a mapping'')
      | Inr _ \<Rightarrow> Inl (AttributeError ''copy''))"

section \<open>Commands\<close>

datatype bash_node =
  Node (nd_kind: string) (nd_start: nat) (nd_end: nat) (nd_heredoc: "(nat \<times> nat) option") (nd_parts: "bash_node list")

record 'w terminal =
  tm_capture :: "'w \<Rightarrow> 'w \<times> string list"
  tm_send :: "string \<Rightarrow> bool \<Rightarrow> 'w \<Rightarrow> 'w"              \<comment> \<open>\<^verbatim>\<open>send_keys(keys, enter)\<close>\<close>
  tm_clear_history :: "'w \<Rightarrow> 'w"
  tm_sleep :: "rat \<Rightarrow> 'w \<Rightarrow> 'w"
  tm_time :: "'w \<Rightarrow> rat"
  tm_go :: "'w \<Rightarrow> bool"                                \<comment> \<open>\<^verbatim>\<open>should_continue()\<close>\<close>
  tm_parse :: "string \<Rightarrow> exn + bash_node list"        \<comment> \<open>\<^verbatim>\<open>bashlex.parse\<close>\<close>
  tm_number :: "rat \<Rightarrow> string"                         \<comment> \<open>a number as text\<close>

definition text_between :: "nat \<Rightarrow> nat \<Rightarrow> string \<Rightarrow> string" where
  \<comment> \<open>\<^verbatim>\<open>s[a:b]\<close>\<close>
  "text_between a b s = take (b - a) (drop a s)"

definition extend_last :: "string list \<Rightarrow> string \<Rightarrow> string list" where
  "extend_last xs t = butlast xs @ [last xs @ t]"

fun split_nodes :: "string \<Rightarrow> nat \<Rightarrow> bash_node list \<Rightarrow> string list \<Rightarrow> nat \<times> string list" where
  \<comment> \<open>the loop over the commands\<close>
  "split_nodes s last_end [] acc = (last_end, acc)"
| "split_nodes s last_end (n # ns) acc =
     (let between = text_between last_end (nd_start n) s;
          acc1 = (if nd_start n \<le> last_end then acc
                  else if acc \<noteq> [] then extend_last acc (rstrip between)
                  else if strip between \<noteq> [] then acc @ [rstrip between] else acc)
      in split_nodes s (nd_end n) ns (acc1 @ [rstrip (text_between (nd_start n) (nd_end n) s)]))"

definition PARSE_ERRORS :: "string list" where
  "PARSE_ERRORS = [''ParsingError'', ''NotImplementedError'', ''TypeError'']"

definition split_bash_commands :: "'w terminal \<Rightarrow> string \<Rightarrow> exn + string list" where
  "split_bash_commands T s =
     (if strip s = [] then Inr [[]]
      else case tm_parse T s of
             Inl e \<Rightarrow> (if list_ex (isinstance_exn e) (''AttributeError'' # PARSE_ERRORS) then Inr [s] else Inl e)
           | Inr ns \<Rightarrow>
               (case split_nodes s 0 ns [] of
                  (last_end, acc) \<Rightarrow>
                    (let remaining = rstrip (drop last_end s)
                     in Inr (if last_end < length s \<and> acc \<noteq> [] then extend_last acc remaining
                             else if last_end < length s \<and> remaining \<noteq> [] then acc @ [remaining] else acc))))"

fun escape_text :: "string \<Rightarrow> string" where
  \<comment> \<open>\<^verbatim>\<open>re.sub\<close>: a backslash before one of five characters is doubled\<close>
  "escape_text (c # d # s) =
     (if c = CHR 0x5C \<and> d \<in> set '';&|><'' then c # c # d # escape_text s else c # escape_text (d # s))"
| "escape_text s = s"

definition quoted_word :: "string \<Rightarrow> bool" where
  "quoted_word t \<longleftrightarrow>
     list_ex (\<lambda>(a, b). startswith t a \<and> endswith t b)
       [([CHR 0x22], [CHR 0x22]), ([CHR 0x27], [CHR 0x27]), (''$('', '')''), (''`'', ''`'')]"

fun visit_node :: "string \<Rightarrow> bash_node \<Rightarrow> nat \<times> string \<Rightarrow> nat \<times> string"
and visit_nodes :: "string \<Rightarrow> bash_node list \<Rightarrow> nat \<times> string \<Rightarrow> nat \<times> string" where
  \<comment> \<open>the last position and the text so far\<close>
  "visit_node s (Node kind a b heredoc parts) p =
     (case p of (last_pos, out) \<Rightarrow>
       if kind = ''redirect'' \<and> heredoc \<noteq> None
       then (b, out @ text_between last_pos a s @ text_between a (fst (the heredoc)) s @ text_between (fst (the heredoc)) (snd (the heredoc)) s)
       else if kind = ''word''
       then (let w = text_between a b s
             in (b, out @ escape_text (text_between last_pos a s) @ (if quoted_word w then w else escape_text w)))
       else visit_nodes s parts p)"
| "visit_nodes s [] p = p"
| "visit_nodes s (n # ns) p = visit_nodes s ns (visit_node s n p)"

definition visit_top :: "string \<Rightarrow> bash_node \<Rightarrow> nat \<times> string \<Rightarrow> nat \<times> string" where
  "visit_top s n p =
     (case p of (last_pos, out) \<Rightarrow> visit_node s n (nd_start n, out @ escape_text (text_between last_pos (nd_start n) s)))"

definition escape_bash_special_chars :: "'w terminal \<Rightarrow> string \<Rightarrow> exn + string" where
  "escape_bash_special_chars T s =
     (if strip s = [] then Inr []
      else case tm_parse T s of
             Inl e \<Rightarrow> (if list_ex (isinstance_exn e) PARSE_ERRORS then Inr s else Inl e)
           | Inr ns \<Rightarrow> (case fold (visit_top s) ns (0, []) of (last_pos, out) \<Rightarrow> Inr (out @ drop last_pos s)))"

section \<open>The session\<close>

datatype bash_status = CONTINUE | COMPLETED | NO_CHANGE_TIMEOUT | HARD_TIMEOUT

record bash_session =
  bs_initialized :: bool
  bs_no_change :: int                    \<comment> \<open>\<^verbatim>\<open>NO_CHANGE_TIMEOUT_SECONDS\<close>\<close>
  bs_status :: "bash_status option"     \<comment> \<open>\<^verbatim>\<open>prev_status\<close>\<close>
  bs_output :: string                     \<comment> \<open>\<^verbatim>\<open>prev_output\<close>\<close>
  bs_cwd :: string

definition POLL_INTERVAL :: rat where "POLL_INTERVAL = 1/2"

definition TIMEOUT_MESSAGE_TEMPLATE :: string where
  "TIMEOUT_MESSAGE_TEMPLATE =
     ''You may wait longer to see additional output by sending empty command '' @ [CHR 0x27, CHR 0x27] @ '', ''
     @ ''send other commands to interact with the current process, send keys ('' @ [CHR 0x22] @ ''C-c'' @ [CHR 0x22] @ '', ''
     @ [CHR 0x22] @ ''C-z'' @ [CHR 0x22] @ '', '' @ [CHR 0x22] @ ''C-d'' @ [CHR 0x22]
     @ '') to interrupt/kill the previous command before sending your new command, ''
     @ ''or use the timeout parameter in execute_bash for future commands.''"

definition get_pane_content :: "'w terminal \<Rightarrow> 'w \<Rightarrow> 'w \<times> string" where
  "get_pane_content T w = (case tm_capture T w of (w', ls) \<Rightarrow> (w', join nl (map rstrip ls)))"

definition clear_screen :: "'w terminal \<Rightarrow> 'w \<Rightarrow> 'w" where
  "clear_screen T w = tm_clear_history T (tm_sleep T (1/10) (tm_send T ''C-l'' False w))"

definition is_special_key :: "string \<Rightarrow> bool" where
  "is_special_key c \<longleftrightarrow> startswith (strip c) ''C-'' \<and> length (strip c) = 3"

definition remove_command_prefix :: "string \<Rightarrow> string \<Rightarrow> string" where
  "remove_command_prefix out command = lstrip (removeprefix (lstrip out) (lstrip command))"

definition get_command_output :: "string \<Rightarrow> string \<Rightarrow> data \<Rightarrow> string \<Rightarrow> bash_session \<Rightarrow> bash_session \<times> data \<times> string" where
  "get_command_output command raw md continue_prefix S =
     (let (out, md') = (if bs_output S \<noteq> [] then (removeprefix raw (bs_output S), dict_set ''prefix'' (PStr continue_prefix) md) else (raw, md))
      in (S\<lparr>bs_output := raw\<rparr>, md', rstrip (remove_command_prefix out command)))"

fun between_matches :: "string \<Rightarrow> ps1_match list \<Rightarrow> string" where
  "between_matches pane [] = pane"
| "between_matches pane [m] = drop (pm_end m + 1) pane"
| "between_matches pane (m # m' # ms) =
     text_between (pm_end m + 1) (pm_start m') pane @ nl @ between_matches pane (m' # ms)"

definition combine_outputs_between_matches :: "string \<Rightarrow> ps1_match list \<Rightarrow> bool \<Rightarrow> string" where
  "combine_outputs_between_matches pane ms before_last =
     (if length ms = 1 \<and> before_last then take (pm_start (hd ms)) pane else between_matches pane ms)"

fun line_count :: "string \<Rightarrow> nat" where
  \<comment> \<open>\<^verbatim>\<open>len(s.splitlines())\<close>\<close>
  "line_count [] = 0"
| "line_count [c] = 1"
| "line_count (c # d # s) =
     (if c = CHR 0x0D \<and> d = CHR 0x0A then 1 + line_count s
      else if c \<in> {CHR 0x0A, CHR 0x0B, CHR 0x0C, CHR 0x0D, CHR 0x1C, CHR 0x1D, CHR 0x1E, CHR 0x85} then 1 + line_count (d # s)
      else line_count (d # s))"

definition cmd_output :: "string \<Rightarrow> string \<Rightarrow> data \<Rightarrow> bool \<Rightarrow> exn + event" where
  "cmd_output c command md hidden =
     observe CmdOutputObservation [(''content'', PStr c), (''command'', PStr command), (''metadata'', PDict md), (''hidden'', PBool hidden)]"

definition handle_completed_command ::
  "'w terminal \<Rightarrow> string \<Rightarrow> string \<Rightarrow> ps1_match list \<Rightarrow> bool \<Rightarrow> bash_session \<Rightarrow> 'w \<Rightarrow> bash_session \<times> 'w \<times> (exn + event)" where
  "handle_completed_command T command pane ms hidden S w =
     (if ms = [] then (S, w, Inl (exn_of (AssertionError ''Expected at least one PS1 metadata block'')))
      else case from_ps1_match (last ms) of
             Inl e \<Rightarrow> (S, w, Inl (exn_of e))
           | Inr md \<Rightarrow>
               (let one = (length ms = 1);
                    S1 = (case map_of md ''working_dir'' of Some (PStr (c # d)) \<Rightarrow> S\<lparr>bs_cwd := c # d\<rparr> | _ \<Rightarrow> S);
                    raw = combine_outputs_between_matches pane ms one;
                    md1 = (if one then dict_set ''prefix'' (PStr (''[Previous command outputs are truncated. Showing the last ''
                             @ str_of_nat (line_count raw) @ '' lines of the output below.]'' @ nl)) md else md);
                    code = (case map_of md ''exit_code'' of Some v \<Rightarrow> py_str v | None \<Rightarrow> []);
                    md2 = dict_set ''suffix'' (PStr (nl @ ''[The command completed with exit code '' @ code @
                             (if is_special_key command then ''. CTRL+'' @ upper [last command] @ '' was sent.]'' else ''.]''))) md1;
                    (S2, md3, out) = get_command_output command raw md2 [] S1
                in (S2\<lparr>bs_status := Some COMPLETED, bs_output := []\<rparr>, clear_screen T w, cmd_output out command md3 hidden)))"

definition handle_timeout ::
  "bash_status \<Rightarrow> string \<Rightarrow> string \<Rightarrow> string \<Rightarrow> ps1_match list \<Rightarrow> bash_session \<Rightarrow> bash_session \<times> (exn + event)" where
  \<comment> \<open>what \<^verbatim>\<open>_handle_nochange_timeout_command\<close> and \<^verbatim>\<open>_handle_hard_timeout_command\<close> share; \<open>reason\<close> is the text before the advice\<close>
  "handle_timeout st reason command pane ms S =
     (let md = dict_set ''suffix'' (PStr (nl @ ''['' @ reason @ TIMEOUT_MESSAGE_TEMPLATE @ '']'')) metadata_defaults;
          (S1, md1, out) = get_command_output command (combine_outputs_between_matches pane ms False) md
                             (''[Below is the output of the previous command.]'' @ nl) (S\<lparr>bs_status := Some st\<rparr>)
      in (S1, cmd_output out command md1 False))"

definition still_running :: "string \<Rightarrow> string \<Rightarrow> ps1_match list \<Rightarrow> bool \<Rightarrow> bash_session \<Rightarrow> bash_session \<times> (exn + event)" where
  \<comment> \<open>the answer to a command while the last one runs; the two lists of matches in the code are the same\<close>
  "still_running command pane ms hidden S =
     (let md = dict_set ''suffix'' (PStr (nl @ ''[Your command '' @ [CHR 0x22] @ command @ [CHR 0x22] @ '' is NOT executed. ''
               @ ''The previous command is still running - You CANNOT send new commands until the previous command is completed. ''
               @ ''By setting `is_input` to `true`, you can interact with the current process: '' @ TIMEOUT_MESSAGE_TEMPLATE @ '']'')) metadata_defaults;
          (S1, md1, out) = get_command_output command (combine_outputs_between_matches pane ms False) md
                             (''[Below is the output of the previous command.]'' @ nl) S
      in (S1, cmd_output out command md1 hidden))"

definition at_prompt :: "string \<Rightarrow> bool" where
  "at_prompt pane \<longleftrightarrow> endswith (rstrip pane) CMD_OUTPUT_PS1_END"

record poll_args =
  pl_command :: string
  pl_blocking :: bool
  pl_timeout :: "rat option"
  pl_hidden :: bool
  pl_count :: nat          \<comment> \<open>the prompts before the command\<close>
  pl_start :: rat

partial_function (option) poll ::
  "'w terminal \<Rightarrow> poll_args \<Rightarrow> bash_session \<Rightarrow> string \<Rightarrow> rat \<Rightarrow> 'w \<Rightarrow> (bash_session \<times> 'w \<times> (exn + event)) option" where
  \<comment> \<open>the loop of \<^verbatim>\<open>execute\<close>\<close>
  "poll T p S last_pane last_change w =
     (if \<not> tm_go T w then Some (S, w, Inl (mk_exn ''RuntimeError'' ''Bash session was likely interrupted...''))
      else case get_pane_content T w of
             (w1, pane) \<Rightarrow>
               (let ms = matches_ps1_metadata pane; now = tm_time T w1; change = (if pane \<noteq> last_pane then now else last_change)
                in if pl_count p < length ms \<or> at_prompt pane
                   then Some (handle_completed_command T (pl_command p) pane ms (pl_hidden p) S w1)
                   else if \<not> pl_blocking p \<and> of_int (bs_no_change S) \<le> now - change
                   then (case handle_timeout NO_CHANGE_TIMEOUT (''The command has no new output after '' @ str_of_int (bs_no_change S) @ '' seconds. '')
                                (pl_command p) pane ms S of (S', r) \<Rightarrow> Some (S', w1, r))
                   else case pl_timeout p of
                          Some t \<Rightarrow>
                            (if t \<noteq> 0 \<and> t \<le> now - pl_start p
                             then (case handle_timeout HARD_TIMEOUT (''The command timed out after '' @ tm_number T t @ '' seconds. '')
                                          (pl_command p) pane ms S of (S', r) \<Rightarrow> Some (S', w1, r))
                             else poll T p S pane change (tm_sleep T POLL_INTERVAL w1))
                        | None \<Rightarrow> poll T p S pane change (tm_sleep T POLL_INTERVAL w1)))"

definition numbered :: "string list \<Rightarrow> string" where
  "numbered cs = join nl (map (\<lambda>(i, c). ''('' @ str_of_nat (i + 1) @ '') '' @ c) (enumerate 0 cs))"

definition busy :: "bash_status option \<Rightarrow> bool" where
  "busy st \<longleftrightarrow> st \<in> {Some NO_CHANGE_TIMEOUT, Some HARD_TIMEOUT}"

definition type_command :: "'w terminal \<Rightarrow> string \<Rightarrow> bool \<Rightarrow> 'w \<Rightarrow> 'w \<times> (exn + string)" where
  \<comment> \<open>typing the command in; what it has become\<close>
  "type_command T command is_input w =
     (if command = [] then (w, Inr [])
      else if is_input then (tm_send T command (\<not> is_special_key command) w, Inr command)
      else case escape_bash_special_chars T command of
             Inl e \<Rightarrow> (w, Inl e)
           | Inr c \<Rightarrow> (tm_send T c (\<not> is_special_key command) w, Inr c))"

definition bash_execute :: "'w terminal \<Rightarrow> event \<Rightarrow> bash_session \<Rightarrow> 'w \<Rightarrow> (bash_session \<times> 'w \<times> (exn + event)) option" where
  "bash_execute T a S w =
     (let command = strip (str_attr a ''command''); is_input = bool_attr a ''is_input''; hidden = bool_attr a ''hidden'';
          idle = (bs_status S \<notin> {Some CONTINUE, Some NO_CHANGE_TIMEOUT, Some HARD_TIMEOUT})
      in if \<not> bs_initialized S then Some (S, w, Inl (mk_exn ''RuntimeError'' ''Bash session is not initialized''))
         else if idle \<and> command = []
         then Some (S, w, cmd_output ''ERROR: No previous running command to retrieve logs from.'' [] metadata_defaults False)
         else if idle \<and> is_input
         then Some (S, w, cmd_output ''ERROR: No previous running command to interact with.'' [] metadata_defaults False)
         else case split_bash_commands T command of
                Inl e \<Rightarrow> Some (S, w, Inl e)
              | Inr cs \<Rightarrow>
                  (if 1 < length cs
                   then Some (S, w, observe ErrorObservation [(''content'', PStr (''ERROR: Cannot execute multiple commands at once.'' @ nl
                          @ ''Please run each command separately OR chain them into a single command via && or ;'' @ nl
                          @ ''Provided commands:'' @ nl @ numbered cs))])
                   else case get_pane_content T w of
                          (w1, pane) \<Rightarrow>
                            (let ms = matches_ps1_metadata pane; start = tm_time T w1
                             in if busy (bs_status S) \<and> \<not> at_prompt pane \<and> \<not> is_input \<and> command \<noteq> []
                                then (case still_running command pane ms hidden S of (S', r) \<Rightarrow> Some (S', w1, r))
                                else case type_command T command is_input w1 of
                                       (w2, Inl e) \<Rightarrow> Some (S, w2, Inl e)
                                     | (w2, Inr c) \<Rightarrow>
                                         poll T \<lparr>pl_command = c, pl_blocking = bool_attr a ''blocking'', pl_timeout = ev_timeout a,
                                                 pl_hidden = hidden, pl_count = length ms, pl_start = start\<rparr> S pane start w2)))"

end
