(* ===== verification/Bash_Session_Properties.thy ===== *)
theory Bash_Session_Properties
  imports Bash_Session Fn_Call_Laws
begin

text \<open>
  Properties of the shell session: a command with a timeout is always answered, on a clock that moves with the pauses; what the pane shows between two
  prompts is the content of the answer, with the exit code of the second prompt; while a command runs, no other command is typed.
\<close>

section \<open>The clock\<close>

definition ticking :: "'w terminal \<Rightarrow> bool" where
  \<comment> \<open>a pause takes at least its time, and the clock does not go back\<close>
  "ticking T \<longleftrightarrow>
     (\<forall>d w. 0 \<le> d \<longrightarrow> tm_time T w + d \<le> tm_time T (tm_sleep T d w)) \<and>
     (\<forall>w. tm_time T w \<le> tm_time T (fst (tm_capture T w))) \<and>
     (\<forall>k b w. tm_time T w \<le> tm_time T (tm_send T k b w))"

definition demo_json :: string where
  "demo_json = ''{'' @ [CHR 0x22] @ ''exit_code'' @ [CHR 0x22] @ '': 0}''"

definition demo_prompt :: "string list" where
  "demo_prompt = [PS1_JSON, demo_json, PS1_END]"

definition demo_terminal :: "(nat \<times> bool) terminal" where
  \<comment> \<open>a terminal that counts half seconds; the command that is typed takes one of them\<close>
  "demo_terminal =
     \<lparr>tm_capture = (\<lambda>(n, typed). ((n, typed),
        demo_prompt @ (if \<not> typed then [[]] else if n = 0 then [''ls''] else [''ls'', ''a.txt''] @ demo_prompt @ [[]]))),
      tm_send = (\<lambda>k b (n, typed). (n, True)), tm_clear_history = (\<lambda>w. w),
      tm_sleep = (\<lambda>d (n, typed). (n + nat \<lceil>2 * d\<rceil>, typed)), tm_time = (\<lambda>(n, typed). of_nat n / 2), tm_go = (\<lambda>_. True),
      tm_parse = (\<lambda>s. Inr [Node ''command'' 0 (length s) None [Node ''word'' 0 (length s) None []]]), tm_number = (\<lambda>_. [])\<rparr>"

definition endless_terminal :: "(nat \<times> bool) terminal" where
  \<comment> \<open>a terminal whose command never ends\<close>
  "endless_terminal = demo_terminal\<lparr>tm_capture := (\<lambda>w. (w, [''ping'']))\<rparr>"

definition demo_session :: bash_session where
  "demo_session = \<lparr>bs_initialized = True, bs_no_change = 30, bs_status = None, bs_output = [], bs_cwd = ''/w''\<rparr>"

definition demo_run :: "rat option \<Rightarrow> event" where
  "demo_run t = (case dataclass_init CmdRunAction [(''command'', PStr ''ls'')] of Inr e \<Rightarrow> e\<lparr>ev_timeout := t\<rparr> | Inl _ \<Rightarrow> blank NullAction [])"

lemma demo_ticking: "ticking demo_terminal" "ticking endless_terminal"
  by (simp_all add: ticking_def endless_terminal_def demo_terminal_def split: prod.splits) (linarith | simp)+

definition rounds :: "'w terminal \<Rightarrow> rat \<Rightarrow> 'w \<Rightarrow> nat" where
  \<comment> \<open>how many pauses of the loop there can be before the deadline\<close>
  "rounds T deadline w = nat \<lceil>(deadline - tm_time T w) / POLL_INTERVAL\<rceil>"

lemma get_pane_content_time: "ticking T \<Longrightarrow> get_pane_content T w = (w1, pane) \<Longrightarrow> tm_time T w \<le> tm_time T w1"
  by (auto simp: ticking_def get_pane_content_def split: prod.splits) (metis fst_conv)

lemma fewer_rounds:
  assumes "ticking T" "get_pane_content T w = (w1, pane)" "tm_time T w1 < deadline"
  shows "rounds T deadline (tm_sleep T POLL_INTERVAL w1) < rounds T deadline w"
proof -
  have "tm_time T w1 + 1/2 \<le> tm_time T (tm_sleep T (1/2) w1)" using assms(1) by (simp add: ticking_def)
  moreover have le: "tm_time T w \<le> tm_time T w1" by (rule get_pane_content_time[OF assms(1,2)])
  ultimately have "(deadline - tm_time T (tm_sleep T (1/2) w1)) / (1/2) \<le> (deadline - tm_time T w) / (1/2) - 1" by simp
  then have "\<lceil>(deadline - tm_time T (tm_sleep T (1/2) w1)) / (1/2)\<rceil> \<le> \<lceil>(deadline - tm_time T w) / (1/2)\<rceil> - 1"
    by (metis ceiling_diff_one ceiling_mono)
  moreover have "0 < \<lceil>(deadline - tm_time T w) / (1/2)\<rceil>" using assms(3) le by simp
  ultimately show ?thesis by (simp add: rounds_def POLL_INTERVAL_def nat_less_eq_zless)
qed

section \<open>Waiting ends\<close>

lemma poll_goes_on:
  \<comment> \<open>the loop returns, or it looks at the pane again after a pause, the timeout being in the future\<close>
  assumes "pl_timeout p = Some t" "t \<noteq> 0" "get_pane_content T w = (w1, pane)"
  obtains y where "poll T p S last_pane change w = Some y"
    | change' where "poll T p S last_pane change w = poll T p S pane change' (tm_sleep T POLL_INTERVAL w1)"
        "tm_time T w1 < pl_start p + t"
proof (cases "\<exists>y. poll T p S last_pane change w = Some y")
  case False
  define change' where "change' = (if pane \<noteq> last_pane then tm_time T w1 else change)"
  have n: "poll T p S last_pane change w = None" using False by (cases "poll T p S last_pane change w") blast+
  note s = n[unfolded poll.simps[of T p S last_pane], unfolded assms(1,3) prod.case Let_def option.case, folded change'_def]
  have go: "tm_go T w" by (rule ccontr) (use s in simp)
  have wait: "\<not> (pl_count p < length (matches_ps1_metadata pane) \<or> at_prompt pane)" by (rule ccontr) (use s go in simp)
  have change: "\<not> (\<not> pl_blocking p \<and> rat_of_int (bs_no_change S) \<le> tm_time T w1 - change')"
    by (rule ccontr) (use s go wait in \<open>simp split: prod.splits\<close>)
  have time: "\<not> t \<le> tm_time T w1 - pl_start p"
    by (rule ccontr) (use s go wait change assms(2) in \<open>simp split: prod.splits\<close>)
  have "poll T p S last_pane change w = poll T p S pane change' (tm_sleep T POLL_INTERVAL w1)"
    unfolding poll.simps[of T p S last_pane] assms(1,3) prod.case Let_def option.case
    unfolding change'_def[symmetric] if_not_P[OF wait] if_not_P[OF change] using go time by simp
  then show thesis using time by (intro that(2)) simp_all
qed (use that(1) in blast)

lemma poll_ends:
  assumes "ticking T" "pl_timeout p = Some t" "t \<noteq> 0"
  shows "\<exists>y. poll T p S last_pane change w = Some y"
proof (induction "rounds T (pl_start p + t) w" arbitrary: last_pane change w rule: less_induct)
  case less
  obtain w1 pane where g: "get_pane_content T w = (w1, pane)" by (cases "get_pane_content T w")
  show ?case
  proof (rule poll_goes_on[OF assms(2,3) g, of S last_pane change])
    fix change'
    assume "poll T p S last_pane change w = poll T p S pane change' (tm_sleep T POLL_INTERVAL w1)" "tm_time T w1 < pl_start p + t"
    then show ?thesis using less[OF fewer_rounds[OF assms(1) g]] by simp
  qed blast
qed

text \<open>
  C16: a command with a timeout other than zero is always answered, however long the command runs and whatever the pane shows, when
  pauses take at least their time and the clock does not go back: the loop over the pane ends.
\<close>
theorem commands_with_timeout_end:
  assumes "ticking T" "ev_timeout a = Some t" "t \<noteq> 0"
  shows "\<exists>S' w' r. bash_execute T a S w = Some (S', w', r)"
proof -
  have "\<exists>y. bash_execute T a S w = Some y"
    using poll_ends[OF assms(1) _ assms(3)] assms(2)
    by (auto simp: bash_execute_def Let_def split: prod.splits sum.splits)
  then show ?thesis by auto
qed

theorem commands_with_timeout_end_witness:
  "\<exists>S' w' r. bash_execute endless_terminal (demo_run (Some 120)) demo_session (0, False) = Some (S', w', r)"
proof (rule commands_with_timeout_end[OF demo_ticking(2), of _ 120])
  show "ev_timeout (demo_run (Some 120)) = Some 120" by code_simp
qed simp

section \<open>Prompts on the pane\<close>

definition prompt :: "string \<Rightarrow> string" where
  \<comment> \<open>what the shell prints for its \<^verbatim>\<open>PS1\<close>, around the JSON text \<open>g\<close>\<close>
  "prompt g = PS1_JSON @ g @ PS1_END"

definition framed :: "string \<Rightarrow> bool" where
  \<comment> \<open>the end marker does not begin in the JSON text\<close>
  "framed g \<longleftrightarrow> find_sub PS1_END (g @ PS1_END) = Some (g, [])"

fun quiet :: "bool \<Rightarrow> string \<Rightarrow> bool" where
  \<comment> \<open>no line of the text begins like a prompt\<close>
  "quiet bol [] = True"
| "quiet bol (c # s) = (\<not> (bol \<and> startswith (c # s) PS1_JSON) \<and> quiet (c = CHR 0x0A) s)"

lemma find_sub_more: "find_sub p s = Some (a, b) \<Longrightarrow> find_sub p (s @ t) = Some (a, b @ t)"
proof (induction s arbitrary: a)
  case Nil
  then show ?case by (cases t) (auto simp: startswith_def split: if_splits)
next
  case (Cons c s)
  show ?case
  proof (cases "startswith (c # s) p")
    case True
    then obtain v where v: "c # s = p @ v" by (auto simp: startswith_iff)
    then have w: "c # s @ t = p @ v @ t" by (metis append_Cons append_assoc)
    have "drop (length p) (c # s) = v" "drop (length p) (c # s @ t) = v @ t" unfolding v w by simp_all
    moreover have "startswith (c # s @ t) p" unfolding w by simp
    ultimately show ?thesis using Cons.prems True by simp
  next
    case False
    then obtain a' where a: "find_sub p s = Some (a', b)" "a = c # a'" using Cons.prems by (auto split: option.splits)
    then have "length p \<le> length s" by (auto dest: find_sub_shorter)
    then have "\<not> startswith (c # s @ t) p" using False by (cases p) (auto simp: startswith_def)
    then show ?thesis using Cons.IH[OF a(1)] a(2) by simp
  qed
qed

lemma startswith_line:
  assumes "startswith (s @ [x] @ t) p" "x \<notin> set p" shows "startswith (s @ [x]) p"
proof -
  obtain u where u: "s @ [x] @ t = p @ u" using assms(1) by (auto simp: startswith_iff)
  have "length p \<le> length s"
  proof (rule ccontr)
    assume short: "\<not> length p \<le> length s"
    then have "p ! length s = (p @ u) ! length s" by (simp add: nth_append)
    also have "\<dots> = x" unfolding u[symmetric] by simp
    finally show False using assms(2) nth_mem[of "length s" p] short by simp
  qed
  then show ?thesis using assms(1) by (simp add: startswith_def)
qed

lemma scan_quiet:
  "quiet bol (m @ nl) \<Longrightarrow> ps1_scan i bol (m @ nl @ rest) = ps1_scan (i + length m + 1) True rest"
proof (induction m arbitrary: i bol)
  case Nil
  then show ?case by (simp add: nl_def PS1_JSON_def startswith_def)
next
  case (Cons c m)
  have "\<not> (bol \<and> startswith ((c # m) @ nl @ rest) PS1_JSON)"
    using Cons.prems startswith_line[of "c # m" "CHR 0x0A" rest PS1_JSON] by (auto simp: nl_def PS1_JSON_def)
  then show ?case using Cons by auto
qed

lemma scan_prompt:
  assumes "framed g"
  shows "ps1_scan i True (prompt g @ rest) =
    \<lparr>pm_start = i, pm_end = i + length (prompt g), pm_group = g\<rparr> # ps1_scan (i + length (prompt g)) False rest"
proof -
  have f: "find_sub PS1_END (drop (length PS1_JSON) (prompt g @ rest)) = Some (g, rest)"
    using find_sub_more[OF assms[unfolded framed_def], of rest] by (simp add: prompt_def)
  obtain c s where cs: "prompt g @ rest = c # s" by (cases "prompt g @ rest") (simp add: prompt_def PS1_JSON_def)
  have "startswith (c # s) PS1_JSON" unfolding cs[symmetric] by (simp add: prompt_def)
  then show ?thesis using f unfolding cs by (simp add: prompt_def Let_def add.assoc)
qed

lemma scan_no_mark: "CHR ''#'' \<notin> set s \<Longrightarrow> ps1_scan i bol s = []"
  by (induction s arbitrary: i bol) (auto simp: PS1_JSON_def startswith_def)

section \<open>A finished command\<close>

lemma matches_two_prompts:
  assumes "pre = [] \<or> last pre = CHR 0x0A" "quiet True pre" "framed g1" "framed g2" "quiet False (nl @ mid @ nl)" "CHR ''#'' \<notin> set tail"
    "is_ok (json_loads (strip g1))" "is_ok (json_loads (strip g2))"
  shows "matches_ps1_metadata (pre @ prompt g1 @ nl @ mid @ nl @ prompt g2 @ tail) =
    (let e1 = length pre + length (prompt g1); s2 = e1 + length mid + 2
     in [\<lparr>pm_start = length pre, pm_end = e1, pm_group = g1\<rparr>, \<lparr>pm_start = s2, pm_end = s2 + length (prompt g2), pm_group = g2\<rparr>])"
proof -
  have p: "ps1_scan 0 True (pre @ rest) = ps1_scan (length pre) True rest" for rest
  proof (cases pre rule: rev_cases)
    case (snoc m c)
    then have "pre = m @ nl" using assms(1) by (simp add: nl_def)
    then show ?thesis using scan_quiet[of True m 0 rest] assms(2) by (simp add: nl_def)
  qed simp
  have m: "ps1_scan i False (nl @ mid @ nl @ rest) = ps1_scan (i + length mid + 2) True rest" for i rest
    using scan_quiet[of False "nl @ mid" i rest] assms(5) by (simp add: nl_def)
  show ?thesis
    unfolding matches_ps1_metadata_def p scan_prompt[OF assms(3)] m scan_prompt[OF assms(4)] scan_no_mark[OF assms(6)] Let_def
    using assms(7,8) by (auto split: sum.splits)
qed

lemma output_between:
  assumes "ms = [\<lparr>pm_start = length pre, pm_end = length pre + length (prompt g1), pm_group = g1\<rparr>,
     \<lparr>pm_start = length pre + length (prompt g1) + length mid + 2, pm_end = length pre + length (prompt g1) + length mid + 2 + length (prompt g2), pm_group = g2\<rparr>]"
  shows "combine_outputs_between_matches (pre @ prompt g1 @ nl @ mid @ nl @ prompt g2 @ tail) ms False = mid @ nl @ nl @ drop 1 tail"
  using assms by (simp add: combine_outputs_between_matches_def text_between_def nl_def eval_nat_numeral)

lemma echo_removed:
  assumes "cmd \<noteq> []" "lstrip cmd = cmd" "\<forall>c\<in>set ws. is_space c"
  shows "rstrip (remove_command_prefix (cmd @ nl @ out @ ws) cmd) = strip out"
proof -
  have "lstrip (cmd @ nl @ out @ ws) = cmd @ nl @ out @ ws"
    using assms(1,2) hd_dropWhile[of is_space cmd] by (cases cmd) (auto simp: lstrip_def)
  then have "rstrip (remove_command_prefix (cmd @ nl @ out @ ws) cmd) = strip (nl @ out @ ws)"
    using assms(2) by (simp add: remove_command_prefix_def removeprefix_def strip_def rstrip_def lstrip_def)
  also have "\<dots> = strip out"
    using strip_append_space[OF assms(3), of "nl @ out"] by (simp add: nl_def strip_def is_space_def)
  finally show ?thesis .
qed

definition finished_pane :: "string \<Rightarrow> string \<Rightarrow> string \<Rightarrow> string \<Rightarrow> string \<Rightarrow> string \<Rightarrow> string" where
  \<comment> \<open>the prompt, the command as it was typed, its output, and the next prompt\<close>
  "finished_pane pre g1 cmd out g2 tail = pre @ prompt g1 @ nl @ (cmd @ nl @ out) @ nl @ prompt g2 @ tail"

definition well_framed :: "string \<Rightarrow> string \<Rightarrow> string \<Rightarrow> string \<Rightarrow> string \<Rightarrow> string \<Rightarrow> bool" where
  \<comment> \<open>neither the output nor what stands before the first prompt has a line that begins like a prompt\<close>
  "well_framed pre g1 cmd out g2 tail \<longleftrightarrow>
     (pre = [] \<or> last pre = CHR 0x0A) \<and> quiet True pre \<and> framed g1 \<and> framed g2 \<and> quiet False (nl @ (cmd @ nl @ out) @ nl) \<and>
     list_all is_space tail \<and> is_ok (json_loads (strip g1)) \<and> is_ok (json_loads (strip g2)) \<and> cmd \<noteq> [] \<and> lstrip cmd = cmd"

definition output_reported :: "string \<Rightarrow> string \<Rightarrow> data \<Rightarrow> bool \<Rightarrow> event \<Rightarrow> bool" where
  \<comment> \<open>the observation has the output as its content, cut to the size of an observation unless it is hidden, and the exit code of the prompt\<close>
  "output_reported cmd out md hidden e \<longleftrightarrow>
     ev_class e = CmdOutputObservation \<and> str_attr e ''command'' = cmd \<and>
     content e = (if hidden then strip out else maybe_truncate (strip out) MAX_CMD_OUTPUT_SIZE) \<and>
     exit_code e = (case map_of md ''exit_code'' of Some (PInt i) \<Rightarrow> i | _ \<Rightarrow> -1)"

lemma metadata_init_exit_code:
  "map_of (metadata_init d) ''exit_code'' = Some (case map_of d ''exit_code'' of Some w \<Rightarrow> w | None \<Rightarrow> PInt (-1))"
proof -
  have "map_of (map (\<lambda>(n, v). (n, f n v)) xs) k = map_option (f k) (map_of xs k)"
    for f :: "string \<Rightarrow> pyval \<Rightarrow> pyval" and xs k by (induction xs) auto
  moreover have "map_of metadata_defaults ''exit_code'' = Some (PInt (-1))" by (simp add: metadata_defaults_def)
  ultimately show ?thesis unfolding metadata_init_def by simp
qed

lemma from_ps1_match_keys:
  assumes "from_ps1_match m = Inr md" shows "map_of md ''exit_code'' \<noteq> None"
proof -
  obtain d where "md = metadata_init d"
    using assms by (auto simp: from_ps1_match_def split: sum.splits pyval.splits if_splits)
  then show ?thesis by (simp add: metadata_init_exit_code)
qed

lemma cmd_output_reported:
  assumes "map_of md ''exit_code'' \<noteq> None"
  shows "\<exists>e. cmd_output (strip out) cmd (dict_set ''suffix'' x md) hidden = Inr e \<and> output_reported cmd out md hidden e"
proof -
  obtain v where v: "map_of md ''exit_code'' = Some v" using assms by blast
  then have "map_of (metadata_init (dict_set ''suffix'' x md)) ''exit_code'' = Some v" by (simp add: metadata_init_exit_code)
  then show ?thesis
    by (simp add: cmd_output_def observe_def dataclass_init_def cmd_output_init_def output_reported_def blank_def str_attr_def attr_def exit_code_def dict_attr_def v)
qed

lemma completed_first:
  \<comment> \<open>the answer when no part of the output was told before, and the prompt before the command is on the pane\<close>
  assumes "1 < length ms" "from_ps1_match (last ms) = Inr md" "bs_output S = []"
    "rstrip (remove_command_prefix (combine_outputs_between_matches pane ms False) cmd) = res"
  shows "\<exists>S' x. handle_completed_command T cmd pane ms hidden S w = (S', clear_screen T w, cmd_output res cmd (dict_set ''suffix'' x md) hidden) \<and>
    bs_status S' = Some COMPLETED \<and> bs_output S' = []"
proof -
  have "ms \<noteq> []" "length ms \<noteq> 1" using assms(1) by auto
  moreover have "bs_output (case v of Some (PStr (c # d)) \<Rightarrow> S\<lparr>bs_cwd := c # d\<rparr> | _ \<Rightarrow> S) = []" for v
    using assms(3) by (simp split: option.splits pyval.splits list.splits)
  ultimately show ?thesis
    unfolding handle_completed_command_def get_command_output_def Let_def assms(2) sum.case
    using assms(4) by (simp split del: if_split) (rule exI, rule refl)
qed

lemma finished_matches:
  assumes "well_framed pre g1 cmd out g2 tail"
  shows "matches_ps1_metadata (finished_pane pre g1 cmd out g2 tail) =
    (let e1 = length pre + length (prompt g1); s2 = e1 + length (cmd @ nl @ out) + 2
     in [\<lparr>pm_start = length pre, pm_end = e1, pm_group = g1\<rparr>, \<lparr>pm_start = s2, pm_end = s2 + length (prompt g2), pm_group = g2\<rparr>])"
proof -
  have "CHR ''#'' \<notin> set tail" using assms by (auto simp: well_framed_def list_all_iff is_space_def)
  then show ?thesis unfolding finished_pane_def
    by (intro matches_two_prompts) (use assms in \<open>simp_all add: well_framed_def\<close>)
qed

lemma completed_reported:
  assumes "bs_output S = []" "well_framed pre g1 cmd out g2 tail" "from_ps1_match \<lparr>pm_start = 0, pm_end = 0, pm_group = g2\<rparr> = Inr md"
    "pane = finished_pane pre g1 cmd out g2 tail"
  shows "\<exists>S' e. handle_completed_command T cmd pane (matches_ps1_metadata pane) hidden S w = (S', clear_screen T w, Inr e) \<and>
     bs_status S' = Some COMPLETED \<and> bs_output S' = [] \<and> output_reported cmd out md hidden e"
proof -
  note wf = assms(2)[unfolded well_framed_def]
  have ws: "\<forall>c\<in>set (nl @ nl @ drop 1 tail). is_space c" using wf by (auto simp: list_all_iff nl_def is_space_def dest: in_set_dropD)
  define ms where "ms = matches_ps1_metadata pane"
  note ms = finished_matches[OF assms(2), folded assms(4), folded ms_def]
  have raw: "combine_outputs_between_matches pane ms False = cmd @ nl @ out @ nl @ nl @ drop 1 tail"
    unfolding assms(4) finished_pane_def by (subst output_between[OF ms[unfolded Let_def]]) simp
  have md: "from_ps1_match (last ms) = Inr md" using assms(3) by (simp add: ms Let_def from_ps1_match_def)
  have len: "length ms = 2" by (simp add: ms Let_def)
  have out: "rstrip (remove_command_prefix (cmd @ nl @ out @ nl @ nl @ drop 1 tail) cmd) = strip out"
    using echo_removed[of cmd _ out] ws wf by simp
  obtain S' x where "handle_completed_command T cmd pane ms hidden S w =
      (S', clear_screen T w, cmd_output (strip out) cmd (dict_set ''suffix'' x md) hidden)" "bs_status S' = Some COMPLETED" "bs_output S' = []"
    using completed_first[OF _ md assms(1) out[folded raw], of T hidden w] len by auto
  then show ?thesis using cmd_output_reported[OF from_ps1_match_keys[OF md], of out cmd x hidden] unfolding ms_def by auto
qed

section \<open>The invariant of the session\<close>

definition session_ok :: "bash_session \<Rightarrow> bool" where
  \<comment> \<open>only a command that has not completed has told a part of its output\<close>
  "session_ok S \<longleftrightarrow> busy (bs_status S) \<or> bs_output S = []"

lemma handle_completed_ok: "handle_completed_command T cmd pane ms hidden S w = (S', w', r) \<Longrightarrow> session_ok S \<Longrightarrow> session_ok S'"
  by (auto simp: handle_completed_command_def Let_def session_ok_def busy_def split: if_splits sum.splits prod.splits)

lemma get_command_output_session: "get_command_output cmd raw md cp S = (S', md', out) \<Longrightarrow> S' = S\<lparr>bs_output := raw\<rparr>"
  by (auto simp: get_command_output_def split: prod.splits)

lemma handle_timeout_ok: "handle_timeout st reason cmd pane ms S = (S', r) \<Longrightarrow> busy (Some st) \<Longrightarrow> session_ok S'"
  by (auto simp: handle_timeout_def Let_def session_ok_def dest: get_command_output_session split: prod.splits)

lemma still_running_status: "still_running cmd pane ms hidden S = (S', r) \<Longrightarrow> bs_status S' = bs_status S"
  by (auto simp: still_running_def Let_def dest: get_command_output_session split: prod.splits)

lemma handle_completed_fst_ok: "session_ok S \<Longrightarrow> session_ok (fst (handle_completed_command T cmd pane ms hidden S w))"
  using handle_completed_ok by (metis prod.collapse)

lemma poll_ok: "poll T p S last_pane change w = Some y \<Longrightarrow> session_ok S \<longrightarrow> session_ok (fst y)"
  apply (erule poll.raw_induct[rotated])
  subgoal premises prems for pl T p S last_pane change w y
    using prems(1)[of T p S _ _ _ y] prems(2)[unfolded Let_def]
    by (auto split: if_splits prod.splits option.splits intro: handle_timeout_ok handle_completed_fst_ok simp: busy_def)
  done

text \<open>
  Executing a command keeps the invariant of a session: when the session does not wait for a running command, no part of an output is
  remembered, so the next command's output is told from its beginning.
\<close>
theorem execute_keeps_session_ok:
  assumes "bash_execute T a S w = Some (S', w', r)" "session_ok S"
  shows "session_ok S'"
  using assms(1)[unfolded bash_execute_def Let_def] assms(2)
  by (auto simp: session_ok_def[of S'] dest: still_running_status poll_ok[THEN mp] split: if_splits sum.splits prod.splits)

theorem execute_keeps_session_ok_witness:
  "\<exists>S' w' r. bash_execute endless_terminal (demo_run None) (demo_session\<lparr>bs_status := Some HARD_TIMEOUT, bs_output := ''pin''\<rparr>) (0, True)
     = Some (S', w', r) \<and> bs_output S' = ''ping'' \<and> session_ok S'"
proof -
  let ?S = "demo_session\<lparr>bs_status := Some HARD_TIMEOUT, bs_output := ''pin''\<rparr>"
  have "(case bash_execute endless_terminal (demo_run None) ?S (0, True) of Some (S', w', r) \<Rightarrow> bs_output S' = ''ping'' | None \<Rightarrow> False)"
    by code_simp
  then obtain S' w' r where e: "bash_execute endless_terminal (demo_run None) ?S (0, True) = Some (S', w', r)" "bs_output S' = ''ping''"
    by (auto split: option.splits)
  moreover have "session_ok ?S" by code_simp
  ultimately show ?thesis using execute_keeps_session_ok[OF e(1)] by blast
qed

section \<open>From a command to its report\<close>

definition loop_args :: "event \<Rightarrow> string \<Rightarrow> nat \<Rightarrow> rat \<Rightarrow> poll_args" where
  "loop_args a cmd count start =
     \<lparr>pl_command = cmd, pl_blocking = bool_attr a ''blocking'', pl_timeout = ev_timeout a, pl_hidden = bool_attr a ''hidden'',
      pl_count = count, pl_start = start\<rparr>"

definition unfinished :: "'w terminal \<Rightarrow> poll_args \<Rightarrow> bash_session \<Rightarrow> rat \<Rightarrow> string \<Rightarrow> bool" where
  \<comment> \<open>a look at the pane shows no new prompt, and no timeout has passed since the command was typed\<close>
  "unfinished T p S now pane \<longleftrightarrow>
     length (matches_ps1_metadata pane) \<le> pl_count p \<and> \<not> at_prompt pane \<and>
     (pl_blocking p \<or> now - pl_start p < of_int (bs_no_change S)) \<and>
     (case pl_timeout p of Some t \<Rightarrow> t = 0 \<or> now - pl_start p < t | None \<Rightarrow> True)"

fun waits :: "'w terminal \<Rightarrow> poll_args \<Rightarrow> bash_session \<Rightarrow> nat \<Rightarrow> 'w \<Rightarrow> 'w option" where
  \<comment> \<open>the world after \<open>n\<close> looks that show an unfinished command\<close>
  "waits T p S 0 w = Some w"
| "waits T p S (Suc n) w =
     (case get_pane_content T w of (w1, pane) \<Rightarrow>
        if tm_go T w \<and> unfinished T p S (tm_time T w1) pane then waits T p S n (tm_sleep T POLL_INTERVAL w1) else None)"

lemma poll_once:
  assumes "tm_go T w" "get_pane_content T w = (w1, pane)" "unfinished T p S (tm_time T w1) pane" "pl_start p \<le> tm_time T w1" "pl_start p \<le> change"
  shows "\<exists>change'. pl_start p \<le> change' \<and> poll T p S last_pane change w = poll T p S pane change' (tm_sleep T POLL_INTERVAL w1)"
proof -
  define change' where "change' = (if pane \<noteq> last_pane then tm_time T w1 else change)"
  have le: "pl_start p \<le> change'" using assms(4,5) by (simp add: change'_def)
  note u = assms(3)[unfolded unfinished_def]
  have wait: "\<not> (pl_count p < length (matches_ps1_metadata pane) \<or> at_prompt pane)" using u by simp
  have change: "\<not> (\<not> pl_blocking p \<and> rat_of_int (bs_no_change S) \<le> tm_time T w1 - change')" using u le by auto
  have "poll T p S last_pane change w = poll T p S pane change' (tm_sleep T POLL_INTERVAL w1)"
    unfolding poll.simps[of T p S last_pane] assms(2) prod.case Let_def
    unfolding change'_def[symmetric] if_not_P[OF wait] if_not_P[OF change] using assms(1) u by (auto split: option.splits)
  then show ?thesis using le by blast
qed

lemma poll_waits:
  assumes "ticking T"
  shows "waits T p S n w = Some w' \<Longrightarrow> pl_start p \<le> tm_time T w \<Longrightarrow> pl_start p \<le> change \<Longrightarrow>
    \<exists>lp lc. poll T p S last_pane change w = poll T p S lp lc w'"
proof (induction n arbitrary: w last_pane change)
  case (Suc n)
  obtain w1 pane where g: "get_pane_content T w = (w1, pane)" by (cases "get_pane_content T w")
  have t: "pl_start p \<le> tm_time T w1" using get_pane_content_time[OF assms g] Suc.prems(2) by simp
  have t': "pl_start p \<le> tm_time T (tm_sleep T POLL_INTERVAL w1)"
    using t assms[unfolded ticking_def] by (metis POLL_INTERVAL_def add_increasing2 order_trans add.right_neutral zero_le_divide_1_iff zero_le_numeral)
  have u: "tm_go T w" "unfinished T p S (tm_time T w1) pane" "waits T p S n (tm_sleep T POLL_INTERVAL w1) = Some w'"
    using Suc.prems(1) g by (auto split: if_splits)
  from poll_once[OF u(1) g u(2) t Suc.prems(3), of last_pane] show ?case using Suc.IH[OF u(3) t'] by metis
qed auto

lemma poll_finishes:
  assumes "tm_go T w" "get_pane_content T w = (w1, pane)" "pl_count p < length (matches_ps1_metadata pane)"
  shows "poll T p S last_pane change w =
    Some (handle_completed_command T (pl_command p) pane (matches_ps1_metadata pane) (pl_hidden p) S w1)"
  using assms by (simp add: poll.simps[of T p S last_pane])

text \<open>
  C13: a command that is typed at a prompt and finishes before its timeouts is answered by an observation whose content is what the pane shows between the
  typed command and the next prompt, stripped and cut to size, with the exit code of that prompt; it does not matter how often the pane
  was looked at before the prompt was there.
\<close>
theorem finished_command_is_reported:
  assumes "ticking T" "session_ok S" "bs_initialized S" "bs_status S \<notin> {Some CONTINUE, Some NO_CHANGE_TIMEOUT, Some HARD_TIMEOUT}"
    "strip (str_attr a ''command'') = c" "c \<noteq> []" "\<not> bool_attr a ''is_input''"
    "split_bash_commands T c = Inr [x]" "escape_bash_special_chars T c = Inr cmd"
    "get_pane_content T w = (w1, pane0)" "length (matches_ps1_metadata pane0) \<le> 1"
    "waits T (loop_args a cmd (length (matches_ps1_metadata pane0)) (tm_time T w1)) S n (tm_send T cmd (\<not> is_special_key c) w1) = Some w2"
    "tm_go T w2" "get_pane_content T w2 = (w3, finished_pane pre g1 cmd out g2 tail)" "well_framed pre g1 cmd out g2 tail"
    "from_ps1_match \<lparr>pm_start = 0, pm_end = 0, pm_group = g2\<rparr> = Inr md"
  shows "\<exists>S' e. bash_execute T a S w = Some (S', clear_screen T w3, Inr e) \<and> bs_status S' = Some COMPLETED \<and> session_ok S' \<and>
     output_reported cmd out md (bool_attr a ''hidden'') e"
proof -
  let ?p = "loop_args a cmd (length (matches_ps1_metadata pane0)) (tm_time T w1)" and ?pane = "finished_pane pre g1 cmd out g2 tail"
  let ?w = "tm_send T cmd (\<not> is_special_key c) w1"
  have out: "bs_output S = []" using assms(2,4) by (auto simp: session_ok_def busy_def)
  have exec: "bash_execute T a S w = poll T ?p S pane0 (tm_time T w1) ?w"
    using assms(3,4,6-10) unfolding bash_execute_def assms(5) Let_def by (simp add: busy_def type_command_def loop_args_def)
  have "tm_time T w1 \<le> tm_time T ?w" using assms(1) by (simp add: ticking_def)
  then obtain lp lc where "poll T ?p S pane0 (tm_time T w1) ?w = poll T ?p S lp lc w2"
    using poll_waits[OF assms(1,12), of "tm_time T w1" pane0] by (auto simp: loop_args_def)
  moreover have "pl_count ?p < length (matches_ps1_metadata ?pane)"
    using assms(11) by (simp add: finished_matches[OF assms(15)] Let_def loop_args_def)
  ultimately have "bash_execute T a S w = Some (handle_completed_command T cmd ?pane (matches_ps1_metadata ?pane) (bool_attr a ''hidden'') S w3)"
    using poll_finishes[OF assms(13,14)] exec by (simp add: loop_args_def)
  then show ?thesis using completed_reported[OF out assms(15,16) refl, of T "bool_attr a ''hidden''" w3] by (auto simp: session_ok_def)
qed

theorem finished_command_is_reported_witness:
  "\<exists>S' e. bash_execute demo_terminal (demo_run (Some 120)) demo_session (0, False) = Some (S', clear_screen demo_terminal (1, True), Inr e) \<and>
     content e = ''a.txt'' \<and> exit_code e = 0"
proof -
  let ?g = "nl @ demo_json @ nl" and ?a = "demo_run (Some 120)" and ?T = demo_terminal
  have "well_framed [] ?g ''ls'' ''a.txt'' ?g nl" by code_simp
  note f = finished_command_is_reported[OF demo_ticking(1), of demo_session ?a "''ls''" "''ls''" "''ls''" "(0, False)" "(0, False)" "join nl (demo_prompt @ [[]])"
      "Suc 0" "(1, True)" "(1, True)" "[]" ?g "''a.txt''" ?g nl, OF _ _ _ _ _ _ _ _ _ _ _ _ _ this]
  obtain md where md: "from_ps1_match \<lparr>pm_start = 0, pm_end = 0, pm_group = ?g\<rparr> = Inr md" "map_of md ''exit_code'' = Some (PInt 0)"
  proof -
    have "(case from_ps1_match \<lparr>pm_start = 0, pm_end = 0, pm_group = ?g\<rparr> of Inr md \<Rightarrow> map_of md ''exit_code'' = Some (PInt 0) | Inl _ \<Rightarrow> False)" by code_simp
    then show thesis using that by (auto split: sum.splits)
  qed
  have "\<exists>S' e. bash_execute ?T ?a demo_session (0, False) = Some (S', clear_screen ?T (1, True), Inr e) \<and> bs_status S' = Some COMPLETED \<and> session_ok S' \<and>
     output_reported ''ls'' ''a.txt'' md (bool_attr ?a ''hidden'') e"
    by (rule f[OF _ _ _ _ _ _ _ _ _ _ _ _ _ md(1)]; code_simp)
  moreover have "content e = ''a.txt'' \<and> exit_code e = 0" if "output_reported ''ls'' ''a.txt'' md (bool_attr ?a ''hidden'') e" for e
  proof -
    have "bool_attr ?a ''hidden'' = False" "strip ''a.txt'' = ''a.txt''" "maybe_truncate ''a.txt'' MAX_CMD_OUTPUT_SIZE = ''a.txt''" by code_simp+
    then show ?thesis using that md(2) by (simp add: output_reported_def)
  qed
  ultimately show ?thesis by blast
qed

section \<open>A running command\<close>

text \<open>
  C17: while a command runs, that is, after a timeout and before the pane is at a prompt, a new command that is not meant as input is not typed: the pane is only
  looked at, and the session still waits for the running command.
\<close>
theorem running_commands_are_not_disturbed:
  assumes "busy (bs_status S)" "\<not> at_prompt (snd (get_pane_content T w))" "\<not> bool_attr a ''is_input''" "strip (str_attr a ''command'') \<noteq> []"
  shows "\<exists>S' w' r. bash_execute T a S w = Some (S', w', r) \<and> w' \<in> {w, fst (get_pane_content T w)} \<and> bs_status S' = bs_status S"
proof (cases "get_pane_content T w")
  case (Pair w1 pane)
  obtain S' r where s: "still_running (strip (str_attr a ''command'')) pane (matches_ps1_metadata pane) (bool_attr a ''hidden'') S = (S', r)"
    by (cases "still_running (strip (str_attr a ''command'')) pane (matches_ps1_metadata pane) (bool_attr a ''hidden'') S")
  show ?thesis
    using assms Pair s still_running_status[OF s] unfolding bash_execute_def Let_def
    by (auto split: sum.splits)
qed

theorem running_commands_are_not_disturbed_witness:
  "\<exists>S' w' r. bash_execute endless_terminal (demo_run None) (demo_session\<lparr>bs_status := Some HARD_TIMEOUT\<rparr>) (0, True) = Some (S', w', r) \<and>
     w' = (0, True) \<and> bs_status S' = Some HARD_TIMEOUT"
proof -
  let ?S = "demo_session\<lparr>bs_status := Some HARD_TIMEOUT\<rparr>" and ?w = "(0 :: nat, True)"
  have "busy (bs_status ?S)" "\<not> at_prompt (snd (get_pane_content endless_terminal ?w))" "\<not> bool_attr (demo_run None) ''is_input''"
    "strip (str_attr (demo_run None) ''command'') \<noteq> []" by code_simp+
  note r = running_commands_are_not_disturbed[OF this]
  have "fst (get_pane_content endless_terminal ?w) = ?w" by (simp add: get_pane_content_def endless_terminal_def demo_terminal_def)
  then show ?thesis using r by simp
qed

section \<open>Where the session does not do what it means to\<close>

text \<open>
  The parser's \<^verbatim>\<open>AttributeError\<close> is caught when the commands are counted, but not when the command is escaped: the execution raises it.
\<close>
lemma attribute_errors_still_escape:
  assumes "tm_parse T c = Inl e" "exn_class e = ''AttributeError''" "exn_bases e = []" "strip (str_attr a ''command'') = c" "strip c \<noteq> []" "c \<noteq> []"
    "bs_initialized S" "bs_status S = None" "\<not> bool_attr a ''is_input''"
  shows "split_bash_commands T c = Inr [c] \<and> bash_execute T a S w = Some (S, fst (get_pane_content T w), Inl e)"
proof -
  have s: "split_bash_commands T c = Inr [c]" using assms(1-3,5) by (simp add: split_bash_commands_def isinstance_exn_def)
  have "escape_bash_special_chars T c = Inl e"
    using assms(1-3,5) by (simp add: escape_bash_special_chars_def isinstance_exn_def PARSE_ERRORS_def)
  then show ?thesis
    using s assms(6-9) unfolding bash_execute_def assms(4) Let_def by (simp add: busy_def type_command_def split: prod.splits)
qed

text \<open>
  The loop takes a prompt at the end of the pane for the end of the command, also when it is the prompt at which the command was typed and the pane has not
  changed yet: such a look reports the command as completed.
\<close>
lemma stale_prompt_completes:
  assumes "tm_go T w" "get_pane_content T w = (w1, pane)" "at_prompt pane"
  shows "poll T p S pane change w =
    Some (handle_completed_command T (pl_command p) pane (matches_ps1_metadata pane) (pl_hidden p) S w1)"
  using assms by (simp add: poll.simps[of T p S pane])

text \<open>
  When a part of the output was told before, the note that says that the output is truncated is replaced by the empty continuation.
\<close>
lemma truncation_note_is_lost:
  "bs_output S \<noteq> [] \<Longrightarrow> get_command_output cmd raw md [] S = (S', md', out) \<Longrightarrow> map_of md' ''prefix'' = Some (PStr [])"
  by (auto simp: get_command_output_def)

end
