(* ===== verification/Spec2Isabelle.thy ===== *)
theory Spec2Isabelle
  imports Metrics_Model Condenser_Properties Event_Stream_Properties Controller_Properties
    Fn_Call_Properties Codeact_Properties Recall_Properties Llm_Registry Codeact_Agent_Properties Runtime_Properties
    Bash_Session_Properties
begin

text \<open>
  A verification library for the agent core of OpenHands (the Python package
  \<^verbatim>\<open>src/openhands\<close>).

  \<^bold>\<open>The program.\<close>  A conversation is a stream of events (actions and observations).  The
  \<^verbatim>\<open>EventStream\<close> gives every event an id, hides secrets in it, writes it to a file, collects
  files into cache pages and delivers it to its subscribers.  The \<^verbatim>\<open>AgentController\<close> subscribes to the
  stream: it keeps the state of the agent and its history, decides when the agent takes a step,
  publishes the resulting action, matches observations with the pending action, asks the user for
  confirmation, enforces the limits on iterations and cost, detects loops, starts and ends
  delegates (controllers of their own on the same stream) and saves its state with every change.
  The agent reads the history through a \<^verbatim>\<open>View\<close>, which condensers keep short.  The conversation
  memory turns the view into messages for the language model, as native tool calls or, for
  models without them, as text that the function call converter writes and reads.  The response becomes
  actions with the metadata of their calls, by which the observations are later matched.  Two more subscribers answer actions: the
  \<^verbatim>\<open>Runtime\<close> runs them in its sandbox, and the \<^verbatim>\<open>Memory\<close> answers recall actions with the knowledge of microagents.
  The clients of the language models (\<^verbatim>\<open>LLM\<close>), one per service, come from a registry and account for what they cost.  Restarting a conversation reads the
  events, the state and the statistics back from the file store.

  \<^bold>\<open>The theories.\<close>  In the order of their imports; all paths are below \<^verbatim>\<open>src/openhands\<close>.

  \<^item> \<open>OH_Prelude\<close>: Python strings, lists, dictionaries, integers and exceptions.
  \<^item> \<open>Control_Flags\<close> (\<^verbatim>\<open>controller/state/control_flags.py\<close>): the two limits, as instances of
    the locale \<open>limit_flag\<close>.
  \<^item> \<open>Metrics_Model\<close> (\<^verbatim>\<open>llm/metrics.py\<close>): costs, latencies and token counts.
  \<^item> \<open>Events\<close>, \<open>Event_Classes\<close> (\<^verbatim>\<open>events/event.py\<close>, \<^verbatim>\<open>events/action\<close>, \<^verbatim>\<open>events/observation\<close>):
    the event object, all classes with their fields and defaults.
  \<^item> \<open>View_Model\<close>, \<open>Condensers\<close>, \<open>Condensation_Laws\<close>, \<open>Condenser_Properties\<close>
    (\<^verbatim>\<open>memory/view.py\<close>, \<^verbatim>\<open>memory/condenser\<close>): views and condensers; what the next view is after each
    kind of condensation, and where condensers fail.
  \<^item> \<open>Stuck_Detector\<close>, \<open>Stuck_Laws\<close> (\<^verbatim>\<open>controller/stuck.py\<close>): the five loop patterns; the detector
    reports exactly these.
  \<^item> \<open>Event_Serialization\<close>, \<open>Serialization_Laws\<close> (\<^verbatim>\<open>events/serialization\<close>): events to
    dictionaries and back, with the deprecated forms; the round trip.
  \<^item> \<open>Replay\<close> (\<^verbatim>\<open>controller/replay.py\<close>): replaying a trajectory hands out every action once.
  \<^item> \<open>File_Store\<close> (\<^verbatim>\<open>storage/memory.py\<close>, \<^verbatim>\<open>storage/locations.py\<close>): the in-memory store and the file
    names; the locale \<open>file_store\<close> states what the clients rely on.
  \<^item> \<open>Event_Filter\<close>, \<open>Event_Stream\<close>, \<open>Event_Stream_Laws\<close>, \<open>Event_Stream_Properties\<close>
    (\<^verbatim>\<open>events/event_filter.py\<close>, \<^verbatim>\<open>events/event_store.py\<close>, \<^verbatim>\<open>events/stream.py\<close>): the stream refines a
    plain list of events, over runs with restarts.
  \<^item> \<open>Conversation_Stats\<close> (\<^verbatim>\<open>server/services/conversation_stats.py\<close>): the metrics of the services
    of a conversation over runs with restarts.
  \<^item> \<open>Agent_State\<close>, \<open>State_Tracker\<close> (\<^verbatim>\<open>controller/state/state.py\<close>, \<^verbatim>\<open>state_tracker.py\<close>): the state,
    saving and restoring it, and loading the history from the stream.
  \<^item> \<open>Agent_Controller\<close>, \<open>Controller_Laws\<close>, \<open>Controller_Properties\<close>
    (\<^verbatim>\<open>controller/agent_controller.py\<close>): all methods of the controller; the locale \<open>world_relation\<close>
    lifts a relation that the primitive changes respect to every method and to whole conversations.
    It is instantiated for the iteration limit and for the stored events.
  \<^item> \<open>Json_Text\<close>: the text of \<^verbatim>\<open>json.dumps\<close> and the reader \<^verbatim>\<open>json.loads\<close>, with their round trip.
  \<^item> \<open>Tool_Examples\<close>, \<open>Fn_Call\<close>, \<open>Fn_Call_Laws\<close>, \<open>Fn_Call_Properties\<close>
    (\<^verbatim>\<open>llm/fn_call_converter.py\<close>): tool calls as text and back, validation of the parameters,
    splitting of messages with several calls.
  \<^item> \<open>Message_Model\<close>, \<open>Conversation_Memory\<close>, \<open>Conversation_Properties\<close>
    (\<^verbatim>\<open>core/message.py\<close>, \<^verbatim>\<open>memory/conversation_memory.py\<close>): messages, their serialisations, and the
    conversation built from a history.
  \<^item> \<open>Tool_Definitions\<close>, \<open>Codeact_Calls\<close>, \<open>Codeact_Properties\<close>
    (\<^verbatim>\<open>agenthub/codeact_agent\<close>): the schemas of the tools, which of them the agent offers, and the
    actions made from a response.
  \<^item> \<open>Recall_Memory\<close>, \<open>Recall_Properties\<close> (\<^verbatim>\<open>microagent/microagent.py\<close>, \<^verbatim>\<open>memory/memory.py\<close>):
    loading microagents, their triggers, and the answers to recall actions.

  \<^item> \<open>Exceptions\<close>: exceptions with their classes.
  \<^item> \<open>Llm_Features\<close>, \<open>Llm_Client\<close>, \<open>Llm_Properties\<close>, \<open>Llm_Registry\<close> (\<^verbatim>\<open>llm/model_features.py\<close>, \<^verbatim>\<open>llm/llm.py\<close>,
    \<^verbatim>\<open>llm/retry_mixin.py\<close>, \<^verbatim>\<open>llm/llm_registry.py\<close>): the client of a language model and its registry; a request ends
    within its retries, suits the model and is charged once, and a call that is written as text is read as a native one.
  \<^item> \<open>Codeact_Agent\<close>, \<open>Codeact_Agent_Properties\<close> (\<^verbatim>\<open>agenthub/codeact_agent/codeact_agent.py\<close>, \<^verbatim>\<open>controller/agent.py\<close>): the step of
    the agent, from the state of the controller to the next action.  The locale \<open>framed_agent\<close> states what the
    controller relies on, that a step changes nothing of the state but what it caches there; the agent is an instance of it.
  \<^item> \<open>Runtime_Model\<close>, \<open>Runtime_Properties\<close> (\<^verbatim>\<open>runtime/base.py\<close>, \<^verbatim>\<open>integrations/provider.py\<close>): the runtime as
    the subscriber that answers actions, and the tokens it keeps.
  \<^item> \<open>Bash_Session\<close>, \<open>Bash_Session_Properties\<close> (\<^verbatim>\<open>runtime/utils/bash.py\<close>, \<^verbatim>\<open>events/observation/commands.py\<close>): the shell
    session inside a sandbox, which types a command into a pane and reads the pane until a prompt or a timeout.  Its invariant is
    \<open>session_ok\<close>.

  \<^bold>\<open>How the code is represented.\<close>
  An event is its class, the dictionary of its dataclass fields and its underscore attributes;
  equality of events ignores the attributes, as dataclass equality does.  Floats are rationals.
  Strings are lists of characters below 256; the few other characters of the sources are their UTF-8
  bytes.  JSON text and pickled text are represented by the value they denote.  A Python exception
  is a value of \<open>pyerr\<close>, or \<open>exn\<close> in the controller, where classes matter; a generator is the
  list of what it yields and the exception that ends it.  A method of the controller is a function on the
  record of everything it can reach and returns the new record also with an exception.  Mutable
  objects that are shared (flags and metrics between a controller and its delegates, the pending
  action between the controller and the stream) are held once, or updated together.

  \<^bold>\<open>Parameters.\<close>
  Code that is not in the repository is an argument of the definitions: the package litellm (the record \<open>litellm\<close>, over a state of
  the world), the decorator of tenacity (with the law \<open>tenacity\<close>, which a loop in \<open>Llm_Properties\<close> satisfies), the sandbox (the
  record \<open>sandbox\<close>, with the promise \<open>answers\<close>), the pane of tmux, its clock and the parser of bashlex (the record \<open>terminal\<close>, with
  the law \<open>ticking\<close>: pauses take their time and the clock does not go back), the parsers of frontmatter and templates, the clock.  So are the answers of language
  models in condensers, the security analyzer, the printed form of events and floats, and the callback that tells a
  search to go on.  The controller is stated for any agents (step, reset, system message and construction); a step is
  assumed to change nothing of the controller but the extra data and the view cache of the state and
  the statistics, which is proved for the CodeAct agent.  That agent's processing of the history also marks action objects of the
  history; the model does not carry these marks over, as processing again gives the same messages.

  \<^bold>\<open>Termination.\<close>
  Definitions are total; loops are structural recursions over the events, files or ids
  they visit, so the only fuel is the length of the text that the reader of JSON takes as the bound of its nesting.  How often a request is retried is decided by the parameter for tenacity; under its law, every
  completion ends within the configured number of attempts.  The one loop that may run forever is that of the shell session,
  \<open>poll\<close>, a partial function: it is shown to return whenever the command has a timeout, and the runtime gives every action one.

  \<^bold>\<open>What is shown.\<close>
  Over every run of a stream, a search returns the delivered events whichever files they come from,
  and ids are consecutive.  Over every conversation of a controller, with delegates and failures,
  stored events never change and the iterations stay within the limit.  The agent is only asked when it may
  be; risky actions wait for the user; errors end in the error state; state changes are saved so that a
  restart finds them; the history loaded after a restart is the one before it.  Condensers keep what they promise and
  bound the next view; the stuck detector is exact; serialisation is a round trip; statistics survive
  restarts.  The agent works off a response one action at a time, and what it asks is charged to the conversation once.  The
  runtime answers every action that can run, so that the controller goes on, and keeps from running what the user has not confirmed.  A
  shell command is answered within its timeout with the output and exit code that the pane shows, and is not disturbed
  while it runs.  Other theorems pin down places where the code does something else than it means to:
  delegates skip confirmation, delegates of delegates get no events, a delegate at the budget limit is
  ended, a failed add duplicates an event in searches, a condenser configuration always fails, exhausted retries
  look like running ones, a refresh of a token uncovers all other secrets, and others.

  \<^bold>\<open>Not modelled.\<close>
  Threads, event loops and locks (operations are atomic and follow one another); logging; the local, S3 and
  Google file stores, containers (starting and closing shells included), browsers and web servers (I/O); asynchronous and streaming
  language model clients, model routers and the log of completions; the templates of prompts; agents other than the
  CodeAct agent; what the runtime does besides actions (cloning, setup scripts, git hooks); parsing of Python
  literals in old file editor actions (an error value marks it); the command line client, the resolver,
  the other integrations, the enterprise server and the user interface.
\<close>

end
